(* ===== verification/Prelude.thy ===== *)
theory Prelude
  imports Main "HOL-Library.Word" "HOL-Library.Multiset" "HOL-Library.Sublist" "HOL-Library.AList"
begin

text \<open>
  What the component theories of the cbcopy development share: the outcome type for Go code
  that returns an error, calls \<open>gplog.Fatal\<close> or panics; the part of Go's standard library the
  sources use on strings (\<open>strings\<close>, \<open>strconv\<close>) and on maps; the generic lemmas on lists and
  association lists, and a small framework for state machines (reachability and invariants).

  A Go string is a list of bytes (\<^typ>\<open>char list\<close>). A Go map is an association list with
  distinct keys. Go leaves the order of a \<open>range\<close> over a map unspecified, so code that ranges
  over a map takes the order of the keys it visits as an argument, and \<open>iter_order\<close> says that
  this list is an enumeration of the map's keys.
\<close>

named_theorems go_map \<open>lookup laws of Go maps modelled as association lists\<close>
named_theorems go_str \<open>laws of the modelled string functions\<close>

section \<open>Outcomes\<close>

text \<open>
  \<open>Error\<close> is an error value returned to the caller, \<open>Fatal\<close> a call of \<open>gplog.Fatal\<close> or
  \<open>gplog.FatalOnError\<close> (it panics after logging, and the process ends), \<open>Panic\<close> a run-time
  panic such as an index out of range.
\<close>

datatype goerr = Error string | Fatal string | Panic string

type_synonym 'a res = "goerr + 'a"

definition rbind :: "'a res \<Rightarrow> ('a \<Rightarrow> 'b res) \<Rightarrow> 'b res" where
  "rbind m f = (case m of Inl e \<Rightarrow> Inl e | Inr a \<Rightarrow> f a)"

lemma rbind_simps [simp]: "rbind (Inl e) f = Inl e" "rbind (Inr a) f = f a"
  by (simp_all add: rbind_def)

lemma rbind_Inr_iff: "rbind m f = Inr b \<longleftrightarrow> (\<exists>a. m = Inr a \<and> f a = Inr b)"
  by (cases m) auto

text \<open>\<open>xs[i]\<close> of Go: out of range is a panic.\<close>

definition index_panic :: goerr where
  "index_panic = Panic ''index out of range''"

definition go_index :: "'a list \<Rightarrow> nat \<Rightarrow> 'a res" where
  "go_index xs i = (if i < length xs then Inr (xs ! i) else Inl index_panic)"

lemma go_index_Inr [simp]: "i < length xs \<Longrightarrow> go_index xs i = Inr (xs ! i)"
  by (simp add: go_index_def)

lemma go_index_Inl [simp]: "\<not> i < length xs \<Longrightarrow> go_index xs i = Inl index_panic"
  by (simp add: go_index_def)

section \<open>Maps\<close>

type_synonym ('k, 'v) gomap = "('k \<times> 'v) list"

abbreviation go_get :: "('k, 'v) gomap \<Rightarrow> 'k \<Rightarrow> 'v option" where
  "go_get \<equiv> map_of"

abbreviation go_set :: "'k \<Rightarrow> 'v \<Rightarrow> ('k, 'v) gomap \<Rightarrow> ('k, 'v) gomap" where
  "go_set \<equiv> AList.update"

abbreviation go_delete :: "'k \<Rightarrow> ('k, 'v) gomap \<Rightarrow> ('k, 'v) gomap" where
  "go_delete \<equiv> AList.delete"

abbreviation go_keys :: "('k, 'v) gomap \<Rightarrow> 'k list" where
  "go_keys m \<equiv> map fst m"

abbreviation go_wf :: "('k, 'v) gomap \<Rightarrow> bool" where
  "go_wf m \<equiv> distinct (map fst m)"

definition go_has :: "('k, 'v) gomap \<Rightarrow> 'k \<Rightarrow> bool" where
  "go_has m k \<longleftrightarrow> go_get m k \<noteq> None"

definition iter_order :: "('k, 'v) gomap \<Rightarrow> 'k list \<Rightarrow> bool" where
  "iter_order m ks \<longleftrightarrow> mset ks = mset (go_keys m)"

lemma go_get_set [go_map]: "go_get (go_set k v m) k' = (if k = k' then Some v else go_get m k')"
  by (simp add: update_conv)

lemma go_get_delete [go_map]: "go_get (go_delete k m) k' = (if k = k' then None else go_get m k')"
  by (simp add: delete_conv)

lemma go_wf_set [simp]: "go_wf m \<Longrightarrow> go_wf (go_set k v m)"
  by (rule distinct_update)

lemma go_wf_delete [simp]: "go_wf m \<Longrightarrow> go_wf (go_delete k m)"
  by (rule distinct_delete)

lemma go_keys_delete: "set (go_keys (go_delete k m)) = set (go_keys m) - {k}"
  by (induction m) auto

lemma go_keys_set: "set (go_keys (go_set k v m)) = insert k (set (go_keys m))"
  by (induction m) auto

lemma go_set_new: "k \<notin> set (go_keys m) \<Longrightarrow> go_set k v m = m @ [(k, v)]"
  by (induction m) auto

lemma go_has_iff: "go_has m k \<longleftrightarrow> k \<in> set (go_keys m)"
  by (simp add: go_has_def map_of_eq_None_iff)

lemma go_has_set [simp]: "go_has (go_set k v m) k' \<longleftrightarrow> k = k' \<or> go_has m k'"
  by (simp add: go_has_def go_map)

lemma go_has_Nil [simp]: "\<not> go_has [] k"
  by (simp add: go_has_def)

lemma iter_order_set: "iter_order m ks \<Longrightarrow> set ks = set (go_keys m)"
  unfolding iter_order_def by (metis set_mset_mset)

lemma iter_order_distinct: "iter_order m ks \<Longrightarrow> go_wf m \<Longrightarrow> distinct ks"
  unfolding iter_order_def by (metis mset_eq_imp_distinct_iff)

lemma iter_order_keys [simp]: "iter_order m (go_keys m)"
  by (simp add: iter_order_def)

lemma iter_order_length: "iter_order m ks \<Longrightarrow> length ks = length m"
  unfolding iter_order_def by (metis length_map size_mset)

text \<open>The value stored at a key that is present, as a range loop reads it.\<close>

lemma go_get_in: "go_wf m \<Longrightarrow> (k, v) \<in> set m \<longleftrightarrow> go_get m k = Some v"
  by simp

lemma length_go_delete:
  "go_wf m \<Longrightarrow> go_has m k \<Longrightarrow> Suc (length (go_delete k m)) = length m"
proof (induction m)
  case Nil
  then show ?case by simp
next
  case (Cons p m)
  show ?case
  proof (cases "fst p = k")
    case True
    with Cons.prems have "k \<notin> set (go_keys m)" by auto
    then have "go_delete k m = m" by simp
    with True show ?thesis by (cases p) simp
  next
    case False
    with Cons show ?thesis by (cases p) (auto simp: go_has_def)
  qed
qed

lemma distinct_sub_mset:
  assumes "distinct ys" and "mset xs \<subseteq># mset ys"
  shows "distinct xs"
  unfolding distinct_count_atmost_1
proof (intro allI)
  fix a
  have "count (mset ys) a = (if a \<in> set ys then 1 else 0)"
    using assms(1) unfolding distinct_count_atmost_1 by blast
  then have "count (mset ys) a \<le> 1" by (metis le_refl zero_le_one)
  with mset_subset_eq_count[OF assms(2), of a] have "count (mset xs) a \<le> 1" by (rule le_trans)
  then show "count (mset xs) a = (if a \<in> set xs then 1 else 0)"
    by (metis One_nat_def count_mset_0_iff le_Suc_eq le_zero_eq)
qed

section \<open>State machines\<close>

text \<open>
  The concurrent parts of the program (worker pools, the statement scheduler, the helper's
  accept loop) are step relations. The locale is the interface their proofs use: states
  reachable from an initial state, and the rule that an inductive invariant holds in all of
  them. Each machine interprets it on its own relation.
\<close>

locale machine =
  fixes init :: "'s \<Rightarrow> bool"
    and step :: "'s \<Rightarrow> 's \<Rightarrow> bool"
begin

inductive reachable :: "'s \<Rightarrow> bool" where
  reach_init: "init s \<Longrightarrow> reachable s"
| reach_step: "reachable s \<Longrightarrow> step s t \<Longrightarrow> reachable t"

lemma invariant_holds:
  assumes "reachable s"
    and "\<And>s. init s \<Longrightarrow> I s"
    and "\<And>s t. reachable s \<Longrightarrow> I s \<Longrightarrow> step s t \<Longrightarrow> I t"
  shows "I s"
  using assms(1) by (induction rule: reachable.induct) (auto intro: assms(2,3))

lemma reachable_steps: "step\<^sup>*\<^sup>* s t \<Longrightarrow> reachable s \<Longrightarrow> reachable t"
  by (induction rule: rtranclp_induct) (auto intro: reachable.intros)

end

text \<open>
  One machine implements another: seen through \<open>obs\<close>, every step of the detailed machine from a
  state with the invariant is a step of the abstract one or changes nothing.
\<close>

locale refinement = conc: machine init step + spec: machine ainit astep
  for init :: "'s \<Rightarrow> bool" and step :: "'s \<Rightarrow> 's \<Rightarrow> bool"
    and ainit :: "'a \<Rightarrow> bool" and astep :: "'a \<Rightarrow> 'a \<Rightarrow> bool" +
  fixes obs :: "'s \<Rightarrow> 'a" and I :: "'s \<Rightarrow> bool"
  assumes inv_init: "init s \<Longrightarrow> I s"
    and inv_step: "I s \<Longrightarrow> step s t \<Longrightarrow> I t"
    and obs_init: "init s \<Longrightarrow> ainit (obs s)"
    and obs_step: "I s \<Longrightarrow> step s t \<Longrightarrow> astep (obs s) (obs t) \<or> obs t = obs s"
begin

lemma reachable_inv: "conc.reachable s \<Longrightarrow> I s"
  by (rule conc.invariant_holds) (auto intro: inv_init inv_step)

lemma reachable_obs: "conc.reachable s \<Longrightarrow> spec.reachable (obs s)"
proof (induction rule: conc.reachable.induct)
  case (reach_init s)
  then show ?case by (intro spec.reach_init obs_init)
next
  case (reach_step s t)
  with obs_step[OF reachable_inv[OF reach_step(1)] reach_step(2)] show ?case
    by (auto intro: spec.reach_step)
qed

end

end
