(* ===== verification/Gostrings.thy ===== *)
theory Gostrings
  imports Prelude
begin

text \<open>
  The functions of Go's packages \<open>strings\<close> and \<open>strconv\<close> that the sources call, on strings as
  byte lists, with the laws the components use: splitting and joining are inverse when no
  field holds the separator, and printing an integer and parsing it back is the identity in
  the range of \<open>int64\<close>. \<open>strings.Split\<close> is only called with a separator of one byte.
\<close>

section \<open>Package strings\<close>

fun Split :: "char \<Rightarrow> string \<Rightarrow> string list" where
  "Split c [] = [[]]"
| "Split c (x # xs) =
     (if x = c then [] # Split c xs
      else case Split c xs of [] \<Rightarrow> [[x]] | y # ys \<Rightarrow> (x # y) # ys)"

text \<open>\<open>strings.SplitN(s, sep, 2)\<close>: at most two fields, the second holds the rest.\<close>

fun SplitN2 :: "char \<Rightarrow> string \<Rightarrow> string list" where
  "SplitN2 c [] = [[]]"
| "SplitN2 c (x # xs) =
     (if x = c then [[], xs]
      else case SplitN2 c xs of [] \<Rightarrow> [[x]] | y # ys \<Rightarrow> (x # y) # ys)"

fun Join :: "string list \<Rightarrow> string \<Rightarrow> string" where
  "Join [] sep = []"
| "Join [x] sep = x"
| "Join (x # y # ys) sep = x @ sep @ Join (y # ys) sep"

fun Contains :: "string \<Rightarrow> string \<Rightarrow> bool" where
  "Contains [] t \<longleftrightarrow> t = []"
| "Contains (x # xs) t \<longleftrightarrow> prefix t (x # xs) \<or> Contains xs t"

fun Index :: "string \<Rightarrow> string \<Rightarrow> nat option" where
  "Index [] t = (if t = [] then Some 0 else None)"
| "Index (x # xs) t = (if prefix t (x # xs) then Some 0 else map_option Suc (Index xs t))"

text \<open>
  \<open>strings.Replace(s, old, new, n)\<close>: the first \<open>n\<close> non-overlapping occurrences from the left,
  all of them for a negative \<open>n\<close>; an empty \<open>old\<close> matches before every byte and at the end.
\<close>

fun replace_empty :: "string \<Rightarrow> int \<Rightarrow> string \<Rightarrow> string" where
  "replace_empty new n [] = (if n = 0 then [] else new)"
| "replace_empty new n (x # xs) = (if n = 0 then x # xs else new @ x # replace_empty new (n - 1) xs)"

function replace_at :: "string \<Rightarrow> string \<Rightarrow> int \<Rightarrow> string \<Rightarrow> string" where
  "replace_at old new n [] = []"
| "replace_at old new n (x # xs) =
     (if n = 0 then x # xs
      else if old \<noteq> [] \<and> prefix old (x # xs)
      then new @ replace_at old new (n - 1) (drop (length old) (x # xs))
      else x # replace_at old new n xs)"
  by pat_completeness auto
termination
  by (relation "measure (\<lambda>(old, new, n, s). length s)") auto

definition Replace :: "string \<Rightarrow> string \<Rightarrow> string \<Rightarrow> int \<Rightarrow> string" where
  "Replace s old new n = (if old = [] then replace_empty new n s else replace_at old new n s)"

text \<open>\<open>strings.TrimSpace\<close> on ASCII white space.\<close>

definition is_space :: "char \<Rightarrow> bool" where
  "is_space c \<longleftrightarrow> c \<in> {CHR 0x09, CHR 0x0A, CHR 0x0B, CHR 0x0C, CHR 0x0D, CHR 0x20}"

definition TrimSpace :: "string \<Rightarrow> string" where
  "TrimSpace s = rev (dropWhile is_space (rev (dropWhile is_space s)))"

abbreviation NL :: string where "NL \<equiv> [CHR 0x0A]"
abbreviation TAB :: string where "TAB \<equiv> [CHR 0x09]"
abbreviation DQ :: char where "DQ \<equiv> CHR 0x22"
abbreviation SQ :: char where "SQ \<equiv> CHR 0x27"

lemma Split_not_Nil [simp]: "Split c s \<noteq> []"
  by (induction s) (auto split: list.splits)

lemma Split_fresh [go_str]: "c \<notin> set s \<Longrightarrow> Split c s = [s]"
  by (induction s) auto

lemma Split_append [go_str]: "c \<notin> set a \<Longrightarrow> Split c (a @ c # b) = a # Split c b"
  by (induction a) (auto split: list.splits)

lemma SplitN2_append [go_str]: "c \<notin> set a \<Longrightarrow> SplitN2 c (a @ c # b) = [a, b]"
  by (induction a) auto

lemma Split_Join:
  "xs \<noteq> [] \<Longrightarrow> \<forall>x\<in>set xs. c \<notin> set x \<Longrightarrow> Split c (Join xs [c]) = xs"
  by (induction xs "[c]" rule: Join.induct) (auto simp: go_str)

lemma Join_Split: "Join (Split c s) [c] = s"
proof (induction s)
  case Nil
  then show ?case by simp
next
  case (Cons x s)
  obtain y ys where ys: "Split c s = y # ys" by (cases "Split c s") auto
  with Cons.IH have IH: "Join (y # ys) [c] = s" by simp
  show ?case
  proof (cases "x = c")
    case True
    with ys IH show ?thesis by simp
  next
    case False
    with ys IH show ?thesis by (cases ys) auto
  qed
qed

lemma Split_fields_fresh: "f \<in> set (Split c s) \<Longrightarrow> c \<notin> set f"
proof (induction s arbitrary: f)
  case Nil
  then show ?case by simp
next
  case (Cons x s)
  then show ?case by (cases "Split c s") (auto split: if_splits)
qed

lemma Join_append: "Join (xs @ [y]) sep = (if xs = [] then y else Join xs sep @ sep @ y)"
  by (induction xs sep rule: Join.induct) auto

lemma Contains_iff: "Contains s t \<longleftrightarrow> sublist t s"
  by (induction s) (auto simp: sublist_Cons_right)

lemma Contains_Nil [simp]: "Contains s []"
  by (cases s) auto

lemma Index_Some: "Index s t = Some i \<Longrightarrow> i + length t \<le> length s \<and> take (length t) (drop i s) = t"
proof (induction s arbitrary: i)
  case Nil
  then show ?case by (auto split: if_splits)
next
  case (Cons x s)
  show ?case
  proof (cases "prefix t (x # s)")
    case True
    with Cons.prems have "i = 0" by simp
    with True prefix_length_le[OF True] show ?thesis by (auto simp: prefix_def)
  next
    case False
    with Cons.prems obtain j where "Index s t = Some j" "i = Suc j" by (auto split: if_splits)
    with Cons.IH show ?thesis by auto
  qed
qed

lemma Index_None: "Index s t = None \<longleftrightarrow> \<not> Contains s t"
  by (induction s) auto

section \<open>Package strconv\<close>

definition digit :: "nat \<Rightarrow> char" where
  "digit d = char_of (48 + d)"

definition is_digit :: "char \<Rightarrow> bool" where
  "is_digit c \<longleftrightarrow> 48 \<le> (of_char c :: nat) \<and> (of_char c :: nat) \<le> 57"

fun nat_digits :: "nat \<Rightarrow> string" where
  "nat_digits n = (if n < 10 then [digit n] else nat_digits (n div 10) @ [digit (n mod 10)])"

declare nat_digits.simps [simp del]

text \<open>\<open>strconv.Itoa\<close>, \<open>strconv.FormatInt(i, 10)\<close> and \<open>%d\<close>/\<open>%v\<close> of an integer.\<close>

definition Itoa :: "int \<Rightarrow> string" where
  "Itoa i = (if i < 0 then CHR ''-'' # nat_digits (nat (- i)) else nat_digits (nat i))"

fun digits_val :: "nat \<Rightarrow> string \<Rightarrow> nat" where
  "digits_val acc [] = acc"
| "digits_val acc (c # cs) = digits_val (10 * acc + (of_char c - 48)) cs"

text \<open>
  \<open>strconv.ParseInt(s, 10, 64)\<close> (and \<open>strconv.Atoi\<close> on a 64-bit platform): the value and
  whether the error is nil. A syntax error gives 0, a value out of range the nearest limit.
\<close>

definition ParseInt :: "string \<Rightarrow> int \<times> bool" where
  "ParseInt s =
     (let (neg, ds) = (case s of [] \<Rightarrow> (False, [])
                       | c # cs \<Rightarrow> if c = CHR ''-'' then (True, cs)
                                  else if c = CHR ''+'' then (False, cs) else (False, s))
      in if ds = [] \<or> \<not> list_all is_digit ds then (0, False)
         else let v = (if neg then - int (digits_val 0 ds) else int (digits_val 0 ds))
              in if v < - (2 ^ 63) then (- (2 ^ 63), False)
                 else if v \<ge> 2 ^ 63 then (2 ^ 63 - 1, False) else (v, True))"

abbreviation Atoi :: "string \<Rightarrow> int \<times> bool" where
  "Atoi \<equiv> ParseInt"

lemma of_char_digit: "d < 10 \<Longrightarrow> (of_char (digit d) :: nat) = 48 + d"
  by (simp add: digit_def)

lemma is_digit_digit [simp]: "d < 10 \<Longrightarrow> is_digit (digit d)"
  by (simp add: is_digit_def of_char_digit)

lemma nat_digits_not_Nil [simp]: "nat_digits n \<noteq> []"
  by (subst nat_digits.simps) simp

lemma nat_digits_are_digits: "c \<in> set (nat_digits n) \<Longrightarrow> is_digit c"
proof (induction n rule: nat_digits.induct)
  case (1 n)
  then show ?case by (subst (asm) nat_digits.simps) (auto split: if_splits)
qed

lemma digits_val_append: "digits_val acc (xs @ [c]) = 10 * digits_val acc xs + (of_char c - 48)"
  by (induction xs arbitrary: acc) auto

lemma digits_val_nat_digits: "digits_val 0 (nat_digits n) = n"
proof (induction n rule: nat_digits.induct)
  case (1 n)
  show ?case
  proof (cases "10 \<le> n")
    case False
    then show ?thesis by (subst nat_digits.simps) (simp add: of_char_digit)
  next
    case True
    with 1 have "digits_val 0 (nat_digits (n div 10)) = n div 10" by simp
    with True show ?thesis by (subst nat_digits.simps) (simp add: digits_val_append of_char_digit)
  qed
qed

lemma is_digit_not [simp]: "\<not> is_digit CHR ''-''" "\<not> is_digit CHR ''+''" "\<not> is_digit CHR ''.''"
  "\<not> is_digit CHR '',''" "\<not> is_digit CHR '' ''" "\<not> is_digit CHR 0x09" "\<not> is_digit CHR 0x0A"
  by (simp_all add: is_digit_def)

lemma nat_digits_fresh: "\<not> is_digit c \<Longrightarrow> c \<notin> set (nat_digits n)"
  using nat_digits_are_digits by blast

lemma Itoa_fresh [simp]: "\<not> is_digit c \<Longrightarrow> c \<noteq> CHR ''-'' \<Longrightarrow> c \<notin> set (Itoa i)"
  by (auto simp: Itoa_def nat_digits_fresh)

lemma nat_digits_Cons:
  obtains d ds where "nat_digits n = d # ds" "d \<noteq> CHR ''-''" "d \<noteq> CHR ''+''"
  by (metis is_digit_not(1,2) list.exhaust list.set_intros(1) nat_digits_are_digits nat_digits_not_Nil)

lemma list_all_digits [simp]: "list_all is_digit (nat_digits n)"
  by (simp add: list_all_iff nat_digits_are_digits)

text \<open>Printing and parsing an \<open>int64\<close>.\<close>

lemma ParseInt_Itoa:
  assumes "- (2 ^ 63) \<le> i" and "i < 2 ^ 63"
  shows "ParseInt (Itoa i) = (i, True)"
proof (cases "i < 0")
  case True
  with assms show ?thesis by (simp add: ParseInt_def Itoa_def digits_val_nat_digits Let_def)
next
  case False
  obtain d ds where d: "nat_digits (nat i) = d # ds" "d \<noteq> CHR ''-''" "d \<noteq> CHR ''+''"
    by (rule nat_digits_Cons)
  have "list_all is_digit (d # ds)" "digits_val 0 (d # ds) = nat i"
    using list_all_digits[of "nat i"] digits_val_nat_digits[of "nat i"] d(1) by simp_all
  with False assms d show ?thesis by (simp add: ParseInt_def Itoa_def Let_def)
qed

lemma nat_digits_inject: "nat_digits m = nat_digits n \<longleftrightarrow> m = n"
  by (metis digits_val_nat_digits)

lemma Itoa_inject: "Itoa i = Itoa j \<longleftrightarrow> i = j"
proof -
  have "nat_digits n \<noteq> CHR ''-'' # xs" for n xs by (metis nat_digits_Cons list.inject)
  then show ?thesis by (auto simp: Itoa_def nat_digits_inject) (metis list.inject)+
qed

text \<open>\<open>utils.MakeFQN\<close> and the concatenation \<open>schema + "." + name\<close> that the sources write out.\<close>

definition fqn :: "string \<Rightarrow> string \<Rightarrow> string" where
  "fqn schema name = schema @ CHR ''.'' # name"

lemma Split_fqn: "CHR ''.'' \<notin> set a \<Longrightarrow> CHR ''.'' \<notin> set b \<Longrightarrow> Split CHR ''.'' (fqn a b) = [a, b]"
  by (simp add: fqn_def go_str)

lemma fqn_inject:
  "CHR ''.'' \<notin> set a \<Longrightarrow> CHR ''.'' \<notin> set a' \<Longrightarrow> fqn a b = fqn a' b' \<longleftrightarrow> a = a' \<and> b = b'"
  unfolding fqn_def by (metis SplitN2_append list.inject)

end
