(* ===== verification/Dependencies.thy ===== *)
theory Dependencies
  imports Gostrings
begin

text \<open>
  Sorting of objects that depend on each other, \<open>src/meta/builtin/dependencies.go\<close>: the
  dependency map built from the rows of \<open>pg_depend\<close> (\<open>GetDependencies\<close>), the extra edges for
  external protocols, the removal of the cycles between a base type and its functions
  (\<open>breakCircularDependencies\<close>) and the topological sort by in-degrees (\<open>TopologicalSort\<close>).

  Shown here: the sort returns a permutation of its input in which every object comes after
  the objects it depends on, and fails exactly when there is no such permutation; it never
  indexes out of range and its loop ends; the removal of cycles deletes exactly the edges from
  a function to a type that depends on it, in every order in which Go may visit the map.
  The queries are parameters (the rows they return); log output is left out.
\<close>

section \<open>Identifiers and the dependency map\<close>

record UniqueID =
  ClassID :: "32 word"
  Oid :: "32 word"

definition PG_CLASS_OID :: "32 word" where "PG_CLASS_OID = 1259"
definition PG_EXTPROTOCOL_OID :: "32 word" where "PG_EXTPROTOCOL_OID = 7175"
definition PG_PROC_OID :: "32 word" where "PG_PROC_OID = 1255"
definition PG_TYPE_OID :: "32 word" where "PG_TYPE_OID = 1247"

type_synonym dep_set = "(UniqueID, bool) gomap"
type_synonym DependencyMap = "(UniqueID, dep_set) gomap"

text \<open>Reading a missing key of a Go map gives the zero value of the element type.\<close>

definition go_get0 :: "'v \<Rightarrow> ('k, 'v) gomap \<Rightarrow> 'k \<Rightarrow> 'v" where
  "go_get0 z m k = (case go_get m k of None \<Rightarrow> z | Some v \<Rightarrow> v)"

lemma go_get0_set [go_map]: "go_get0 z (go_set k v m) k' = (if k = k' then v else go_get0 z m k')"
  by (simp add: go_get0_def go_map)

lemma go_get0_Nil [simp]: "go_get0 z [] k = z"
  by (simp add: go_get0_def)

text \<open>\<open>depMap[object][ref] = true\<close> after making the inner map when it is missing.\<close>

definition add_dep :: "UniqueID \<Rightarrow> UniqueID \<Rightarrow> DependencyMap \<Rightarrow> DependencyMap" where
  "add_dep object ref m =
     (let m = (if go_has m object then m else go_set object [] m)
      in go_set object (go_set ref True (go_get0 [] m object)) m)"

record SortableDependency =
  sd_ClassID :: "32 word"
  sd_ObjID :: "32 word"
  sd_RefClassID :: "32 word"
  sd_RefObjID :: "32 word"

fun build_dependency_map :: "(UniqueID, bool) gomap \<Rightarrow> SortableDependency list \<Rightarrow> DependencyMap \<Rightarrow> DependencyMap" where
  "build_dependency_map backupSet [] m = m"
| "build_dependency_map backupSet (dep # deps) m =
     (let object = \<lparr>ClassID = sd_ClassID dep, Oid = sd_ObjID dep\<rparr>;
          ref = \<lparr>ClassID = sd_RefClassID dep, Oid = sd_RefObjID dep\<rparr>
      in if object = ref \<or> \<not> go_has backupSet object \<or> \<not> go_has backupSet ref
         then build_dependency_map backupSet deps m
         else build_dependency_map backupSet deps (add_dep object ref m))"

section \<open>Cycles between types and functions\<close>

text \<open>
  The map is changed while it is ranged over: an entry deleted before it is reached is not
  visited. \<open>ks\<close> is the order of the outer loop, \<open>ord entry\<close> that of the inner one.
\<close>

definition break_edge :: "UniqueID \<Rightarrow> DependencyMap \<Rightarrow> UniqueID \<Rightarrow> DependencyMap" where
  "break_edge entry m dep =
     (if go_has m dep \<and> ClassID entry = PG_TYPE_OID \<and> ClassID dep = PG_PROC_OID then
        if go_has (go_get0 [] m dep) entry then
          if length (go_get0 [] m dep) = 1 then go_delete dep m
          else go_set dep (go_delete entry (go_get0 [] m dep)) m
        else m
      else m)"

definition break_entry :: "(UniqueID \<Rightarrow> UniqueID list) \<Rightarrow> DependencyMap \<Rightarrow> UniqueID \<Rightarrow> DependencyMap" where
  "break_entry ord m entry =
     (if go_has m entry then
        foldl (\<lambda>m' dep. if go_has (go_get0 [] m entry) dep then break_edge entry m' dep else m') m (ord entry)
      else m)"

definition breakCircularDependencies ::
    "(UniqueID \<Rightarrow> UniqueID list) \<Rightarrow> UniqueID list \<Rightarrow> DependencyMap \<Rightarrow> DependencyMap" where
  "breakCircularDependencies ord ks m = foldl (break_entry ord) m ks"

text \<open>
  \<open>GetDependencies\<close>: the rows of the first query, those of the synthetic constraint query when
  the server has it (\<open>synth\<close>, made for GPDB 7 and the CBDB family when there are tables).
\<close>

definition GetDependencies ::
    "(DependencyMap \<Rightarrow> UniqueID \<Rightarrow> UniqueID list) \<Rightarrow> (DependencyMap \<Rightarrow> UniqueID list) \<Rightarrow>
     bool \<Rightarrow> 'table list \<Rightarrow> SortableDependency list res \<Rightarrow> ('table list \<Rightarrow> SortableDependency list res) \<Rightarrow>
     (UniqueID, bool) gomap \<Rightarrow> DependencyMap res" where
  "GetDependencies ord ks synth tables pgDepend synthDeps backupSet =
     rbind pgDepend (\<lambda>deps.
     rbind (if synth \<and> tables \<noteq> [] then rbind (synthDeps tables) (\<lambda>s. Inr (deps @ s)) else Inr deps) (\<lambda>deps.
       let m = build_dependency_map backupSet deps []
       in Inr (breakCircularDependencies (ord m) (ks m) m)))"

section \<open>External protocols\<close>

record dep_table =
  dt_Oid :: "32 word"
  dt_Location :: "string option"

record ext_protocol =
  ep_Oid :: "32 word"
  ep_Name :: string

definition table_id :: "dep_table \<Rightarrow> UniqueID" where
  "table_id t = \<lparr>ClassID = PG_CLASS_OID, Oid = dt_Oid t\<rparr>"

definition protocol_id :: "ext_protocol \<Rightarrow> UniqueID" where
  "protocol_id p = \<lparr>ClassID = PG_EXTPROTOCOL_OID, Oid = ep_Oid p\<rparr>"

text \<open>A location without \<open>://\<close> gives the slice bound -1, a panic.\<close>

fun add_protocol_deps :: "(string, UniqueID) gomap \<Rightarrow> dep_table list \<Rightarrow> DependencyMap \<Rightarrow> DependencyMap res" where
  "add_protocol_deps protocolMap [] m = Inr m"
| "add_protocol_deps protocolMap (t # ts) m =
     (case dt_Location t of
        None \<Rightarrow> add_protocol_deps protocolMap ts m
      | Some loc \<Rightarrow>
          if loc = [] then add_protocol_deps protocolMap ts m
          else case Index loc ''://'' of
            None \<Rightarrow> Inl (Panic ''slice bounds out of range'')
          | Some i \<Rightarrow> (case go_get protocolMap (take i loc) of
              Some p \<Rightarrow> add_protocol_deps protocolMap ts (add_dep (table_id t) p m)
            | None \<Rightarrow> add_protocol_deps protocolMap ts m))"

definition AddProtocolDependenciesForGPDB4 ::
    "DependencyMap \<Rightarrow> dep_table list \<Rightarrow> ext_protocol list \<Rightarrow> DependencyMap res" where
  "AddProtocolDependenciesForGPDB4 depMap tables protocols =
     add_protocol_deps (foldl (\<lambda>m p. go_set (ep_Name p) (protocol_id p) m) [] protocols) tables depMap"

section \<open>The topological sort\<close>

text \<open>
  The interface \<open>Sortable\<close>: the two methods are the fields. The sort works on every extension of the
  record, so that the value behind the interface is sorted along with it.
\<close>

record Sortable =
  FQN :: string
  GetUniqueID :: UniqueID

record 'a topo_state =
  inDegrees :: "(UniqueID, int) gomap"
  dependencyIndexes :: "(UniqueID, nat) gomap"
  isDependentOn :: "(UniqueID, UniqueID list) gomap"
  tqueue :: "'a Sortable_scheme list"
  tsorted :: "'a Sortable_scheme list"

definition add_dependent :: "UniqueID \<Rightarrow> 'a topo_state \<Rightarrow> UniqueID \<Rightarrow> 'a topo_state" where
  "add_dependent uid st dep =
     st\<lparr>isDependentOn := go_set dep (go_get0 [] (isDependentOn st) dep @ [uid]) (isDependentOn st)\<rparr>"

definition topo_add :: "(UniqueID \<Rightarrow> UniqueID list) \<Rightarrow> DependencyMap \<Rightarrow> nat \<Rightarrow> 'a Sortable_scheme \<Rightarrow> 'a topo_state \<Rightarrow> 'a topo_state" where
  "topo_add ord dependencies i item st =
     (let uid = GetUniqueID item; deps = go_get0 [] dependencies uid;
          st = st\<lparr>inDegrees := go_set uid (int (length deps)) (inDegrees st)\<rparr>;
          st = foldl (add_dependent uid) st (ord uid);
          st = st\<lparr>dependencyIndexes := go_set uid i (dependencyIndexes st)\<rparr>
      in if length deps = 0 then st\<lparr>tqueue := tqueue st @ [item]\<rparr> else st)"

fun topo_build :: "(UniqueID \<Rightarrow> UniqueID list) \<Rightarrow> DependencyMap \<Rightarrow> nat \<Rightarrow> 'a Sortable_scheme list \<Rightarrow> 'a topo_state \<Rightarrow> 'a topo_state" where
  "topo_build ord dependencies i [] st = st"
| "topo_build ord dependencies i (item # items) st =
     topo_build ord dependencies (Suc i) items (topo_add ord dependencies i item st)"

fun topo_visit :: "'a Sortable_scheme list \<Rightarrow> UniqueID list \<Rightarrow> 'a topo_state \<Rightarrow> 'a topo_state res" where
  "topo_visit objs [] st = Inr st"
| "topo_visit objs (dep # deps) st =
     (let d = go_get0 0 (inDegrees st) dep - 1; st = st\<lparr>inDegrees := go_set dep d (inDegrees st)\<rparr>
      in if d = 0
         then rbind (go_index objs (go_get0 0 (dependencyIndexes st) dep))
                (\<lambda>item. topo_visit objs deps (st\<lparr>tqueue := tqueue st @ [item]\<rparr>))
         else topo_visit objs deps st)"

text \<open>
  The loop ends: every object appended to the queue is paid for by an in-degree that drops
  to zero, and no in-degree ever grows.
\<close>

definition positive :: "(UniqueID, int) gomap \<Rightarrow> nat" where
  "positive m = length (filter (\<lambda>p. snd p > 0) m)"

lemma positive_dec:
  "positive (go_set k (go_get0 0 m k - 1) m) + (if go_get0 0 m k = 1 then 1 else 0) \<le> positive m"
proof (induction m)
  case Nil
  then show ?case by (simp add: positive_def go_get0_def)
next
  case (Cons p m)
  obtain a v where p: "p = (a, v)" by fastforce
  show ?case
  proof (cases "a = k")
    case True
    with p show ?thesis by (auto simp: positive_def go_get0_def)
  next
    case False
    then have "go_get0 0 (p # m) k = go_get0 0 m k" using p by (simp add: go_get0_def)
    with Cons.IH False p show ?thesis by (auto simp: positive_def)
  qed
qed

lemma topo_visit_measure:
  "topo_visit objs deps st = Inr st' \<Longrightarrow>
   length (tqueue st') + positive (inDegrees st') \<le> length (tqueue st) + positive (inDegrees st)"
proof (induction objs deps st rule: topo_visit.induct)
  case (1 objs st)
  then show ?case by simp
next
  case (2 objs dep deps st)
  note dec = positive_dec[of dep "inDegrees st"]
  show ?case
  proof (cases "go_get0 0 (inDegrees st) dep - 1 = 0")
    case True
    with 2(3) obtain item where item: "go_index objs (go_get0 0 (dependencyIndexes st) dep) = Inr item"
      and rest: "topo_visit objs deps
        (st\<lparr>inDegrees := go_set dep 0 (inDegrees st), tqueue := tqueue st @ [item]\<rparr>) = Inr st'"
      by (auto simp: Let_def rbind_Inr_iff)
    from 2(1)[OF refl refl True] rest True have
      "length (tqueue st') + positive (inDegrees st') \<le>
        Suc (length (tqueue st)) + positive (go_set dep 0 (inDegrees st))" by simp
    with dec True show ?thesis by simp
  next
    case False
    with 2(3) have "topo_visit objs deps
        (st\<lparr>inDegrees := go_set dep (go_get0 0 (inDegrees st) dep - 1) (inDegrees st)\<rparr>) = Inr st'"
      by (simp add: Let_def)
    from 2(2)[OF refl refl False this] dec show ?thesis by simp
  qed
qed

function topo_loop :: "'a Sortable_scheme list \<Rightarrow> 'a topo_state \<Rightarrow> 'a topo_state res" where
  "topo_loop objs st =
     (case tqueue st of
        [] \<Rightarrow> Inr st
      | item # q \<Rightarrow>
          (case topo_visit objs (go_get0 [] (isDependentOn st) (GetUniqueID item))
                  (st\<lparr>tqueue := q, tsorted := tsorted st @ [item]\<rparr>) of
             Inl e \<Rightarrow> Inl e
           | Inr st' \<Rightarrow> topo_loop objs st'))"
  by pat_completeness auto
termination
  by (relation "measure (\<lambda>(objs, st). length (tqueue st) + positive (inDegrees st))")
    (auto dest: topo_visit_measure)

declare topo_loop.simps [simp del]

definition TopologicalSort ::
    "(UniqueID \<Rightarrow> UniqueID list) \<Rightarrow> 'a Sortable_scheme list \<Rightarrow> DependencyMap \<Rightarrow> 'a Sortable_scheme list res" where
  "TopologicalSort ord objs dependencies =
     rbind (topo_loop objs (topo_build ord dependencies 0 objs
              \<lparr>inDegrees = [], dependencyIndexes = [], isDependentOn = [], tqueue = [], tsorted = []\<rparr>))
       (\<lambda>st. if length objs \<noteq> length (tsorted st) then Inl (Fatal ''Dependency resolution failed'')
             else Inr (tsorted st))"

section \<open>Correctness of the sort\<close>

definition dep_keys :: "DependencyMap \<Rightarrow> UniqueID \<Rightarrow> UniqueID set" where
  "dep_keys D k = set (go_keys (go_get0 [] D k))"

text \<open>Every object comes after the objects it depends on.\<close>

definition deps_before :: "DependencyMap \<Rightarrow> 'a Sortable_scheme list \<Rightarrow> bool" where
  "deps_before D xs \<longleftrightarrow>
     (\<forall>i < length xs. dep_keys D (GetUniqueID (xs ! i)) \<subseteq> GetUniqueID ` set (take i xs))"

text \<open>The inner maps are maps, and \<open>ord\<close> visits each of them completely.\<close>

definition visit_order :: "(UniqueID \<Rightarrow> UniqueID list) \<Rightarrow> DependencyMap \<Rightarrow> bool" where
  "visit_order ord D \<longleftrightarrow> (\<forall>k. go_wf (go_get0 [] D k) \<and> iter_order (go_get0 [] D k) (ord k))"

lemma visit_order_facts:
  assumes "visit_order ord D"
  shows "set (ord k) = dep_keys D k" "distinct (ord k)" "length (go_get0 [] D k) = card (dep_keys D k)"
proof -
  have wf: "go_wf (go_get0 [] D k)" and it: "iter_order (go_get0 [] D k) (ord k)"
    using assms by (auto simp: visit_order_def)
  show s: "set (ord k) = dep_keys D k" using iter_order_set[OF it] by (simp add: dep_keys_def)
  show d: "distinct (ord k)" by (rule iter_order_distinct[OF it wf])
  show "length (go_get0 [] D k) = card (dep_keys D k)"
    using s d iter_order_length[OF it] distinct_card by metis
qed

subsection \<open>The first loop\<close>

lemma foldl_add_dependent [simp]:
  "inDegrees (foldl (add_dependent u) st ds) = inDegrees st"
  "dependencyIndexes (foldl (add_dependent u) st ds) = dependencyIndexes st"
  "tqueue (foldl (add_dependent u) st ds) = tqueue st"
  "tsorted (foldl (add_dependent u) st ds) = tsorted st"
  by (induction ds arbitrary: st) (auto simp: add_dependent_def)

lemma foldl_add_dependent_get:
  "distinct ds \<Longrightarrow> go_get0 [] (isDependentOn (foldl (add_dependent u) st ds)) k =
     go_get0 [] (isDependentOn st) k @ (if k \<in> set ds then [u] else [])"
  by (induction ds arbitrary: st) (auto simp: add_dependent_def go_map)

lemma topo_add_fields:
  "inDegrees (topo_add ord D i x st) = go_set (GetUniqueID x) (int (length (go_get0 [] D (GetUniqueID x)))) (inDegrees st)"
  "dependencyIndexes (topo_add ord D i x st) = go_set (GetUniqueID x) i (dependencyIndexes st)"
  "tqueue (topo_add ord D i x st) = tqueue st @ (if go_get0 [] D (GetUniqueID x) = [] then [x] else [])"
  "tsorted (topo_add ord D i x st) = tsorted st"
  "distinct (ord (GetUniqueID x)) \<Longrightarrow> go_get0 [] (isDependentOn (topo_add ord D i x st)) k =
     go_get0 [] (isDependentOn st) k @ (if k \<in> set (ord (GetUniqueID x)) then [GetUniqueID x] else [])"
  by (simp_all add: topo_add_def Let_def foldl_add_dependent_get)

lemma topo_build_lists:
  assumes "\<And>k. distinct (ord k)"
  shows "tqueue (topo_build ord D i xs st) = tqueue st @ filter (\<lambda>x. go_get0 [] D (GetUniqueID x) = []) xs"
    "tsorted (topo_build ord D i xs st) = tsorted st"
    "go_get0 [] (isDependentOn (topo_build ord D i xs st)) k =
       go_get0 [] (isDependentOn st) k @ filter (\<lambda>u. k \<in> set (ord u)) (map GetUniqueID xs)"
  by (induction xs arbitrary: i st) (auto simp: topo_add_fields assms)

lemma topo_build_other:
  "k \<notin> GetUniqueID ` set xs \<Longrightarrow>
     go_get0 z (inDegrees (topo_build ord D i xs st)) k = go_get0 z (inDegrees st) k \<and>
     go_get0 n (dependencyIndexes (topo_build ord D i xs st)) k = go_get0 n (dependencyIndexes st) k"
  by (induction xs arbitrary: i st) (auto simp: topo_add_fields go_map)

lemma topo_build_maps:
  "distinct (map GetUniqueID xs) \<Longrightarrow> j < length xs \<Longrightarrow>
     go_get0 0 (inDegrees (topo_build ord D i xs st)) (GetUniqueID (xs ! j)) =
       int (length (go_get0 [] D (GetUniqueID (xs ! j)))) \<and>
     go_get0 0 (dependencyIndexes (topo_build ord D i xs st)) (GetUniqueID (xs ! j)) = i + j"
proof (induction xs arbitrary: i j st)
  case Nil
  then show ?case by simp
next
  case (Cons x xs)
  show ?case
  proof (cases j)
    case 0
    with Cons.prems topo_build_other[of "GetUniqueID x" xs]
    show ?thesis by (simp add: topo_add_fields go_map)
  next
    case (Suc j')
    with Cons.prems Cons.IH[of j' "Suc i" "topo_add ord D i x st"] show ?thesis by simp
  qed
qed

subsection \<open>One round of the main loop\<close>

lemma topo_visit_result:
  assumes "distinct ds" and "\<forall>k\<in>set ds. go_get0 0 (dependencyIndexes st) k < length objs"
  shows "\<exists>m. topo_visit objs ds st = Inr (st\<lparr>inDegrees := m, tqueue := tqueue st @
      map (\<lambda>k. objs ! go_get0 0 (dependencyIndexes st) k) (filter (\<lambda>k. go_get0 0 (inDegrees st) k = 1) ds)\<rparr>) \<and>
    (\<forall>k. go_get0 0 m k = go_get0 0 (inDegrees st) k - (if k \<in> set ds then 1 else 0))"
  using assms
proof (induction ds arbitrary: st)
  case Nil
  then show ?case by (intro exI[of _ "inDegrees st"]) simp
next
  case (Cons d ds)
  let ?v = "go_get0 0 (inDegrees st) d - 1"
  let ?st = "st\<lparr>inDegrees := go_set d ?v (inDegrees st)\<rparr>"
  let ?st' = "if ?v = 0 then ?st\<lparr>tqueue := tqueue st @ [objs ! go_get0 0 (dependencyIndexes st) d]\<rparr> else ?st"
  have step: "topo_visit objs (d # ds) st = topo_visit objs ds ?st'"
    using Cons.prems(2) by (simp add: Let_def)
  have get: "go_get0 0 (inDegrees ?st') k = go_get0 0 (inDegrees st) k - (if k = d then 1 else 0)" for k
    by (auto simp: go_map)
  have same: "filter (\<lambda>k. go_get0 0 (inDegrees ?st') k = 1) ds = filter (\<lambda>k. go_get0 0 (inDegrees st) k = 1) ds"
    unfolding get using Cons.prems(1) by (intro filter_cong) auto
  have idx: "dependencyIndexes ?st' = dependencyIndexes st" by simp
  have "\<forall>k\<in>set ds. go_get0 0 (dependencyIndexes ?st') k < length objs" using Cons.prems(2) by simp
  from Cons.IH[OF _ this] Cons.prems(1) obtain m where
    m: "topo_visit objs ds ?st' = Inr (?st'\<lparr>inDegrees := m, tqueue := tqueue ?st' @
      map (\<lambda>k. objs ! go_get0 0 (dependencyIndexes ?st') k) (filter (\<lambda>k. go_get0 0 (inDegrees ?st') k = 1) ds)\<rparr>)"
    "\<forall>k. go_get0 0 m k = go_get0 0 (inDegrees ?st') k - (if k \<in> set ds then 1 else 0)" by auto
  show ?case unfolding step m(1) same idx
    using m(2) Cons.prems(1) unfolding get by (intro exI[of _ m]) auto
qed

subsection \<open>The loop invariant\<close>

definition topo_inv :: "DependencyMap \<Rightarrow> 'a Sortable_scheme list \<Rightarrow> 'a topo_state \<Rightarrow> bool" where
  "topo_inv D objs st \<longleftrightarrow>
     distinct (map GetUniqueID (tsorted st @ tqueue st)) \<and> set (tsorted st @ tqueue st) \<subseteq> set objs \<and>
     (\<forall>x\<in>set objs. go_get0 0 (inDegrees st) (GetUniqueID x) =
        int (card (dep_keys D (GetUniqueID x) - GetUniqueID ` set (tsorted st)))) \<and>
     (\<forall>x\<in>set objs. x \<in> set (tsorted st @ tqueue st) \<longleftrightarrow> go_get0 0 (inDegrees st) (GetUniqueID x) = 0) \<and>
     deps_before D (tsorted st) \<and>
     (\<forall>k. go_get0 [] (isDependentOn st) k = filter (\<lambda>u. k \<in> dep_keys D u) (map GetUniqueID objs)) \<and>
     (\<forall>j < length objs. go_get0 0 (dependencyIndexes st) (GetUniqueID (objs ! j)) = j)"

lemma finite_dep_keys [simp]: "finite (dep_keys D k)"
  by (simp add: dep_keys_def)

lemma deps_before_snoc:
  "deps_before D (xs @ [x]) \<longleftrightarrow> deps_before D xs \<and> dep_keys D (GetUniqueID x) \<subseteq> GetUniqueID ` set xs"
  by (auto simp: deps_before_def nth_append less_Suc_eq)

lemma topo_build_inv:
  assumes "visit_order ord D" and d: "distinct (map GetUniqueID objs)"
  shows "topo_inv D objs (topo_build ord D 0 objs
    \<lparr>inDegrees = [], dependencyIndexes = [], isDependentOn = [], tqueue = [], tsorted = []\<rparr>)"
proof -
  note facts = visit_order_facts[OF assms(1)]
  note lists = topo_build_lists[where ord = ord, OF facts(2)]
  let ?st = "topo_build ord D 0 objs
    \<lparr>inDegrees = [], dependencyIndexes = [], isDependentOn = [], tqueue = [], tsorted = []\<rparr>"
  have deg: "go_get0 0 (inDegrees ?st) (GetUniqueID x) = int (length (go_get0 [] D (GetUniqueID x)))"
    if "x \<in> set objs" for x
    using that topo_build_maps[OF d, of _ ord D 0] by (auto simp: in_set_conv_nth)
  have "go_get0 0 (dependencyIndexes ?st) (GetUniqueID (objs ! j)) = j" if "j < length objs" for j
    using topo_build_maps[OF d that, of ord D 0] by simp
  moreover have "distinct (map GetUniqueID (filter P objs))" for P
    using d by (simp add: distinct_map_filter)
  ultimately show ?thesis
    unfolding topo_inv_def lists
    by (auto simp: deg facts(1) facts(3)[symmetric] deps_before_def)
qed

lemma map_index_filter:
  assumes "\<forall>j < length objs. idx (GetUniqueID (objs ! j)) = j"
  shows "map (\<lambda>k. objs ! idx k) (filter P (map GetUniqueID objs)) = filter (P \<circ> GetUniqueID) objs"
proof -
  have "objs ! idx (GetUniqueID x) = x" if "x \<in> set objs" for x
    using that assms by (auto simp: in_set_conv_nth)
  then have "map (\<lambda>x. objs ! idx (GetUniqueID x)) (filter (P \<circ> GetUniqueID) objs) =
      filter (P \<circ> GetUniqueID) objs" by (intro map_idI) simp
  then show ?thesis by (simp add: filter_map o_def)
qed

text \<open>What one round does to the in-degrees and the queue.\<close>

lemma topo_step_result:
  assumes inv: "topo_inv D objs st" and d: "distinct (map GetUniqueID objs)" and q: "tqueue st = item # q"
  shows "\<exists>m. topo_visit objs (go_get0 [] (isDependentOn st) (GetUniqueID item))
       (st\<lparr>tqueue := q, tsorted := tsorted st @ [item]\<rparr>) =
     Inr (st\<lparr>tsorted := tsorted st @ [item], inDegrees := m, tqueue := q @
       filter (\<lambda>x. GetUniqueID item \<in> dep_keys D (GetUniqueID x) \<and>
         go_get0 0 (inDegrees st) (GetUniqueID x) = 1) objs\<rparr>) \<and>
    (\<forall>x\<in>set objs. go_get0 0 m (GetUniqueID x) = go_get0 0 (inDegrees st) (GetUniqueID x) -
       (if GetUniqueID item \<in> dep_keys D (GetUniqueID x) then 1 else 0))"
proof -
  let ?u = "GetUniqueID item" and ?deg = "\<lambda>k. go_get0 0 (inDegrees st) k"
  let ?ds = "go_get0 [] (isDependentOn st) ?u"
  let ?st = "st\<lparr>tqueue := q, tsorted := tsorted st @ [item]\<rparr>"
  have ds: "?ds = filter (\<lambda>u. ?u \<in> dep_keys D u) (map GetUniqueID objs)" using inv by (simp add: topo_inv_def)
  have idx: "\<forall>j < length objs. go_get0 0 (dependencyIndexes st) (GetUniqueID (objs ! j)) = j"
    using inv by (simp add: topo_inv_def)
  have range: "\<forall>k\<in>set ?ds. go_get0 0 (dependencyIndexes ?st) k < length objs"
    using idx by (auto simp: ds in_set_conv_nth)
  have dds: "distinct ?ds" using d by (simp add: ds)
  have new: "map (\<lambda>k. objs ! go_get0 0 (dependencyIndexes st) k) (filter (\<lambda>k. ?deg k = 1) ?ds) =
      filter (\<lambda>x. ?u \<in> dep_keys D (GetUniqueID x) \<and> ?deg (GetUniqueID x) = 1) objs"
    using map_index_filter[OF idx, of "\<lambda>k. ?u \<in> dep_keys D k \<and> ?deg k = 1"]
    by (simp add: ds o_def conj_commute)
  from topo_visit_result[OF dds range] obtain m where
    m: "topo_visit objs ?ds ?st = Inr (?st\<lparr>inDegrees := m, tqueue := tqueue ?st @
        map (\<lambda>k. objs ! go_get0 0 (dependencyIndexes ?st) k) (filter (\<lambda>k. go_get0 0 (inDegrees ?st) k = 1) ?ds)\<rparr>)"
      "\<forall>k. go_get0 0 m k = go_get0 0 (inDegrees ?st) k - (if k \<in> set ?ds then 1 else 0)" by blast
  have visit: "topo_visit objs ?ds ?st = Inr (st\<lparr>tsorted := tsorted st @ [item], inDegrees := m, tqueue := q @
        filter (\<lambda>x. ?u \<in> dep_keys D (GetUniqueID x) \<and> ?deg (GetUniqueID x) = 1) objs\<rparr>)"
    unfolding m(1) by (simp add: new)
  have "set ?ds = {u \<in> GetUniqueID ` set objs. ?u \<in> dep_keys D u}" by (simp add: ds image_image)
  then have "go_get0 0 m (GetUniqueID x) = ?deg (GetUniqueID x) -
      (if ?u \<in> dep_keys D (GetUniqueID x) then 1 else 0)" if "x \<in> set objs" for x
    unfolding m(2)[rule_format] using that by simp
  with visit show ?thesis by (intro exI[of _ m] conjI ballI)
qed

lemma card_minus_insert:
  assumes "finite A" and "u \<notin> S"
  shows "int (card (A - insert u S)) = int (card (A - S)) - (if u \<in> A then 1 else 0)"
proof (cases "u \<in> A")
  case True
  with assms have "Suc (card (A - S - {u})) = card (A - S)" by (intro card_Suc_Diff1) auto
  with True show ?thesis unfolding Diff_insert[of A u S] by simp
next
  case False
  then show ?thesis by (simp add: Diff_insert0)
qed

lemma topo_step_inv:
  assumes inv: "topo_inv D objs st" and d: "distinct (map GetUniqueID objs)" and q: "tqueue st = item # q"
  shows "\<exists>st'. topo_visit objs (go_get0 [] (isDependentOn st) (GetUniqueID item))
      (st\<lparr>tqueue := q, tsorted := tsorted st @ [item]\<rparr>) = Inr st' \<and> topo_inv D objs st'"
proof -
  let ?u = "GetUniqueID item" and ?deg = "\<lambda>k. go_get0 0 (inDegrees st) k"
  let ?new = "filter (\<lambda>x. ?u \<in> dep_keys D (GetUniqueID x) \<and> ?deg (GetUniqueID x) = 1) objs"
  obtain m where step: "topo_visit objs (go_get0 [] (isDependentOn st) ?u)
        (st\<lparr>tqueue := q, tsorted := tsorted st @ [item]\<rparr>) =
      Inr (st\<lparr>tsorted := tsorted st @ [item], inDegrees := m, tqueue := q @ ?new\<rparr>)"
    and degm: "\<And>x. x \<in> set objs \<Longrightarrow> go_get0 0 m (GetUniqueID x) =
      ?deg (GetUniqueID x) - (if ?u \<in> dep_keys D (GetUniqueID x) then 1 else 0)"
    using topo_step_result[OF assms] by blast
  have item: "item \<in> set objs" and fresh: "?u \<notin> GetUniqueID ` set (tsorted st)"
    using inv q by (auto simp: topo_inv_def)
  have card: "?deg (GetUniqueID x) = int (card (dep_keys D (GetUniqueID x) - GetUniqueID ` set (tsorted st)))"
    and zero: "x \<in> set (tsorted st @ item # q) \<longleftrightarrow> ?deg (GetUniqueID x) = 0" if "x \<in> set objs" for x
    using inv that q unfolding topo_inv_def by metis+
  have cardm: "go_get0 0 m (GetUniqueID x) =
      int (card (dep_keys D (GetUniqueID x) - insert ?u (GetUniqueID ` set (tsorted st))))"
    if "x \<in> set objs" for x
    using card_minus_insert[OF finite_dep_keys fresh] card[OF that] degm[OF that] by simp
  have deps: "dep_keys D ?u \<subseteq> GetUniqueID ` set (tsorted st)"
    using card[OF item] zero[OF item] by simp
  have old: "set (tsorted st @ item # q) \<subseteq> set objs" "distinct (map GetUniqueID (tsorted st @ item # q))"
      "deps_before D (tsorted st)"
    using inv q by (auto simp: topo_inv_def)
  have dist: "distinct (map GetUniqueID (tsorted st @ item # q @ ?new))"
  proof -
    have "x \<notin> set (tsorted st @ item # q)" if "x \<in> set ?new" for x using that zero by auto
    moreover have "inj_on GetUniqueID (set objs)" "distinct (map GetUniqueID ?new)"
      using d by (simp_all add: distinct_map distinct_map_filter inj_on_def)
    ultimately show ?thesis using old(1,2) by (auto dest: inj_onD)
  qed
  have mem: "x \<in> set (tsorted st @ item # q @ ?new) \<longleftrightarrow> go_get0 0 m (GetUniqueID x) = 0" if "x \<in> set objs" for x
    using zero[OF that] degm[OF that] cardm[OF that] that by auto
  have "topo_inv D objs (st\<lparr>tsorted := tsorted st @ [item], inDegrees := m, tqueue := q @ ?new\<rparr>)"
    unfolding topo_inv_def
  proof (intro conjI)
    show "\<forall>x\<in>set objs. (x \<in> set (tsorted (st\<lparr>tsorted := tsorted st @ [item], inDegrees := m, tqueue := q @ ?new\<rparr>) @
        tqueue (st\<lparr>tsorted := tsorted st @ [item], inDegrees := m, tqueue := q @ ?new\<rparr>))) =
      (go_get0 0 (inDegrees (st\<lparr>tsorted := tsorted st @ [item], inDegrees := m, tqueue := q @ ?new\<rparr>)) (GetUniqueID x) = 0)"
      using mem by simp
  qed (use old dist cardm deps inv in \<open>simp_all add: deps_before_snoc topo_inv_def\<close>)
  with step show ?thesis by blast
qed

lemma topo_loop_inv:
  assumes "topo_inv D objs st" and "distinct (map GetUniqueID objs)"
  shows "\<exists>st'. topo_loop objs st = Inr st' \<and> topo_inv D objs st' \<and> tqueue st' = []"
  using assms
proof (induction objs st rule: topo_loop.induct)
  case (1 objs st)
  show ?case
  proof (cases "tqueue st")
    case Nil
    with 1 show ?thesis by (simp add: topo_loop.simps)
  next
    case (Cons item q)
    from topo_step_inv[OF 1(2,3) Cons] obtain st' where
      st': "topo_visit objs (go_get0 [] (isDependentOn st) (GetUniqueID item))
        (st\<lparr>tqueue := q, tsorted := tsorted st @ [item]\<rparr>) = Inr st'" "topo_inv D objs st'" by blast
    from 1(1)[OF Cons st'(1) st'(2) 1(3)] Cons st'(1) show ?thesis
      by (simp add: topo_loop.simps[of objs st])
  qed
qed

lemma sorted_complete:
  assumes inv: "topo_inv D objs st" and "tqueue st = []" and ys: "set ys = set objs" "deps_before D ys"
  shows "set (tsorted st) = set objs"
proof -
  have "i < length ys \<Longrightarrow> ys ! i \<in> set (tsorted st)" for i
  proof (induction i rule: less_induct)
    case (less i)
    have "set (take i ys) \<subseteq> set (tsorted st)" using less by (auto simp: in_set_conv_nth)
    moreover have "dep_keys D (GetUniqueID (ys ! i)) \<subseteq> GetUniqueID ` set (take i ys)"
      using ys(2) less.prems by (auto simp: deps_before_def)
    ultimately have "dep_keys D (GetUniqueID (ys ! i)) - GetUniqueID ` set (tsorted st) = {}" by blast
    then have "card (dep_keys D (GetUniqueID (ys ! i)) - GetUniqueID ` set (tsorted st)) = 0"
      by (simp only: card.empty)
    moreover have "ys ! i \<in> set objs" using less.prems ys(1) nth_mem[of i ys] by simp
    ultimately show ?case using inv assms(2) by (simp add: topo_inv_def)
  qed
  then have "set objs \<subseteq> set (tsorted st)" using ys(1) by (metis in_set_conv_nth subsetI)
  with inv show ?thesis by (auto simp: topo_inv_def)
qed

lemma TopologicalSort_outcome:
  assumes "visit_order ord D" and d: "distinct (map GetUniqueID objs)"
  obtains (ok) ys where "TopologicalSort ord objs D = Inr ys" "mset ys = mset objs" "deps_before D ys"
  | (cycle) "TopologicalSort ord objs D = Inl (Fatal ''Dependency resolution failed'')"
      "\<nexists>ys. mset ys = mset objs \<and> deps_before D ys"
proof -
  from topo_loop_inv[OF topo_build_inv[OF assms] d] obtain st where
    st: "topo_loop objs (topo_build ord D 0 objs
      \<lparr>inDegrees = [], dependencyIndexes = [], isDependentOn = [], tqueue = [], tsorted = []\<rparr>) = Inr st"
    and inv: "topo_inv D objs st" and q: "tqueue st = []" by blast
  have dist: "distinct objs" "distinct (tsorted st)" and sub: "set (tsorted st) \<subseteq> set objs"
    and before: "deps_before D (tsorted st)"
    using inv d by (auto simp: topo_inv_def distinct_map)
  have eq: "length objs = length (tsorted st) \<longleftrightarrow> set (tsorted st) = set objs"
    using dist sub by (metis card_subset_eq distinct_card finite_set)
  show thesis
  proof (cases "set (tsorted st) = set objs")
    case True
    then have "mset (tsorted st) = mset objs" using dist by (simp add: set_eq_iff_mset_eq_distinct)
    with True eq st before show thesis by (intro ok) (auto simp: TopologicalSort_def)
  next
    case False
    have "\<nexists>ys. mset ys = mset objs \<and> deps_before D ys"
      using False sorted_complete[OF inv q] by (metis set_mset_mset)
    with False eq st show thesis by (intro cycle) (auto simp: TopologicalSort_def)
  qed
qed

section \<open>Correctness of the removal of cycles\<close>

definition inner_wf :: "DependencyMap \<Rightarrow> bool" where
  "inner_wf m \<longleftrightarrow> (\<forall>k. go_wf (go_get0 [] m k))"

lemma inner_wf_set: "inner_wf m \<Longrightarrow> go_wf v \<Longrightarrow> inner_wf (go_set k v m)"
  by (auto simp: inner_wf_def go_get0_def go_map)

lemma inner_wf_delete: "inner_wf m \<Longrightarrow> inner_wf (go_delete k m)"
  by (auto simp: inner_wf_def go_get0_def go_map)

lemma singleton_keys: "length m = 1 \<Longrightarrow> go_has m k \<Longrightarrow> set (go_keys m) = {k}"
  by (cases m) (auto simp: go_has_iff)

lemma break_edge_facts:
  assumes "inner_wf m"
  shows "inner_wf (break_edge entry m dep)"
    and "dep_keys (break_edge entry m dep) x = dep_keys m x -
      (if x = dep \<and> ClassID entry = PG_TYPE_OID \<and> ClassID dep = PG_PROC_OID then {entry} else {})"
    and "ClassID k = PG_TYPE_OID \<Longrightarrow> go_get (break_edge entry m dep) k = go_get m k"
proof -
  let ?d = "go_get0 [] m dep"
  have has: "go_has ?d entry \<Longrightarrow> go_has m dep" by (auto simp: go_get0_def go_has_def split: option.splits)
  show "inner_wf (break_edge entry m dep)"
    using assms by (auto simp: break_edge_def inner_wf_delete intro!: inner_wf_set)
      (auto simp: inner_wf_def)
  show "ClassID k = PG_TYPE_OID \<Longrightarrow> go_get (break_edge entry m dep) k = go_get m k"
    by (auto simp: break_edge_def go_map PG_TYPE_OID_def PG_PROC_OID_def)
  have del: "dep_keys (go_delete dep m) y = (if y = dep then {} else dep_keys m y)" for y
    by (simp add: go_get0_def go_map dep_keys_def)
  have upd: "dep_keys (go_set dep (go_delete entry ?d) m) y =
      (if y = dep then dep_keys m y - {entry} else dep_keys m y)" for y
    by (simp add: go_map dep_keys_def go_keys_delete del: set_map)
  have mem: "go_has ?d entry \<longleftrightarrow> entry \<in> dep_keys m dep" by (simp add: go_has_iff dep_keys_def)
  have one: "length ?d = 1 \<Longrightarrow> go_has ?d entry \<Longrightarrow> dep_keys m dep = {entry}"
    using singleton_keys[of ?d entry] by (simp add: dep_keys_def del: set_map)
  show "dep_keys (break_edge entry m dep) x = dep_keys m x -
      (if x = dep \<and> ClassID entry = PG_TYPE_OID \<and> ClassID dep = PG_PROC_OID then {entry} else {})"
    using has mem one by (auto simp: break_edge_def del upd)
qed

lemma break_inner_fold:
  assumes "inner_wf m"
  shows "inner_wf (foldl (\<lambda>m' dep. if P dep then break_edge entry m' dep else m') m ds) \<and>
    dep_keys (foldl (\<lambda>m' dep. if P dep then break_edge entry m' dep else m') m ds) x = dep_keys m x -
      (if x \<in> set ds \<and> P x \<and> ClassID entry = PG_TYPE_OID \<and> ClassID x = PG_PROC_OID then {entry} else {}) \<and>
    (ClassID k = PG_TYPE_OID \<longrightarrow>
      go_get (foldl (\<lambda>m' dep. if P dep then break_edge entry m' dep else m') m ds) k = go_get m k)"
  using assms by (induction ds arbitrary: m) (auto simp: break_edge_facts)

text \<open>One round of the outer loop, on a map whose type entries are still the original ones.\<close>

lemma break_entry_facts:
  assumes "inner_wf m" and "\<forall>k. ClassID k = PG_TYPE_OID \<longrightarrow> go_get m k = go_get D k"
    and "visit_order ord D"
  shows "inner_wf (break_entry ord m entry)"
    and "\<forall>k. ClassID k = PG_TYPE_OID \<longrightarrow> go_get (break_entry ord m entry) k = go_get D k"
    and "dep_keys (break_entry ord m entry) x = dep_keys m x -
      (if ClassID entry = PG_TYPE_OID \<and> ClassID x = PG_PROC_OID \<and> x \<in> dep_keys D entry then {entry} else {})"
proof -
  note inner = break_inner_fold[OF assms(1)]
  show "inner_wf (break_entry ord m entry)" using inner assms(1) by (auto simp: break_entry_def)
  show "\<forall>k. ClassID k = PG_TYPE_OID \<longrightarrow> go_get (break_entry ord m entry) k = go_get D k"
    using inner assms(2) by (auto simp: break_entry_def)
  have "go_get0 [] m entry = go_get0 [] D entry" if "ClassID entry = PG_TYPE_OID"
    using assms(2) that by (simp add: go_get0_def)
  moreover have "go_has m entry \<or> dep_keys m entry = {}"
    by (auto simp: go_has_def dep_keys_def go_get0_def split: option.splits)
  ultimately have ent: "ClassID entry = PG_TYPE_OID \<Longrightarrow> (go_has m entry \<or> dep_keys D entry = {}) \<and>
      (go_has (go_get0 [] m entry) x \<longleftrightarrow> x \<in> dep_keys D entry)"
    by (simp add: go_has_iff dep_keys_def del: set_map)
  show "dep_keys (break_entry ord m entry) x = dep_keys m x -
      (if ClassID entry = PG_TYPE_OID \<and> ClassID x = PG_PROC_OID \<and> x \<in> dep_keys D entry then {entry} else {})"
    using inner ent visit_order_facts(1)[OF assms(3), of entry] by (auto simp: break_entry_def)
qed

lemma break_fold:
  assumes "visit_order ord D" and "inner_wf m" and "\<forall>k. ClassID k = PG_TYPE_OID \<longrightarrow> go_get m k = go_get D k"
  shows "dep_keys (foldl (break_entry ord) m ks) x = dep_keys m x -
    {t \<in> set ks. ClassID t = PG_TYPE_OID \<and> ClassID x = PG_PROC_OID \<and> x \<in> dep_keys D t}"
  using assms(2,3)
proof (induction ks arbitrary: m)
  case Nil
  then show ?case by simp
next
  case (Cons e ks)
  note facts = break_entry_facts[OF Cons.prems assms(1)]
  have "dep_keys (foldl (break_entry ord) (break_entry ord m e) ks) x = dep_keys (break_entry ord m e) x -
      {t \<in> set ks. ClassID t = PG_TYPE_OID \<and> ClassID x = PG_PROC_OID \<and> x \<in> dep_keys D t}"
    by (rule Cons.IH[OF facts(1,2)])
  then show ?case unfolding foldl.simps facts(3) by auto
qed

text \<open>
  The removal leaves no function and type that depend on each other, and removes nothing but
  dependencies of a function on a type.
\<close>

lemma break_exact:
  assumes "visit_order ord D" and "iter_order D ks"
  shows "dep_keys (breakCircularDependencies ord ks D) x =
    dep_keys D x - {t. ClassID t = PG_TYPE_OID \<and> ClassID x = PG_PROC_OID \<and> x \<in> dep_keys D t}"
proof -
  have wf: "inner_wf D" using assms(1) by (simp add: inner_wf_def visit_order_def)
  have "t \<in> set ks" if "y \<in> dep_keys D t" for y t
    using that iter_order_set[OF assms(2)]
    by (auto simp: dep_keys_def go_get0_def split: option.splits)
      (metis fst_conv image_eqI map_of_SomeD)
  with break_fold[OF assms(1) wf, of ks x] show ?thesis by (auto simp: breakCircularDependencies_def)
qed

section \<open>The edges of the dependency map\<close>

definition row_edge :: "SortableDependency list \<Rightarrow> (UniqueID, bool) gomap \<Rightarrow> UniqueID \<Rightarrow> UniqueID \<Rightarrow> bool" where
  "row_edge rows backupSet x r \<longleftrightarrow> x \<noteq> r \<and> go_has backupSet x \<and> go_has backupSet r \<and>
     (\<exists>dep\<in>set rows. x = \<lparr>ClassID = sd_ClassID dep, Oid = sd_ObjID dep\<rparr> \<and>
        r = \<lparr>ClassID = sd_RefClassID dep, Oid = sd_RefObjID dep\<rparr>)"

lemma add_dep_facts:
  "dep_keys (add_dep ob r m) x = dep_keys m x \<union> (if x = ob then {r} else {})"
  "inner_wf m \<Longrightarrow> inner_wf (add_dep ob r m)" "go_wf m \<Longrightarrow> go_wf (add_dep ob r m)"
proof -
  have miss: "\<not> go_has m ob \<Longrightarrow> go_get0 [] m ob = []" by (auto simp: go_has_def go_get0_def)
  have keys: "dep_keys (go_set ob v m') x = (if x = ob then set (go_keys v) else dep_keys m' x)" for v m'
    by (simp add: dep_keys_def go_map)
  show "dep_keys (add_dep ob r m) x = dep_keys m x \<union> (if x = ob then {r} else {})"
    using miss by (simp add: add_dep_def Let_def keys go_map go_keys_set del: set_map)
      (simp add: dep_keys_def del: set_map)
  show "inner_wf m \<Longrightarrow> inner_wf (add_dep ob r m)"
    by (auto simp: add_dep_def Let_def go_map intro!: inner_wf_set) (auto simp: inner_wf_def)
  show "go_wf m \<Longrightarrow> go_wf (add_dep ob r m)" by (simp add: add_dep_def Let_def)
qed

lemma build_dependency_map_facts:
  "dep_keys (build_dependency_map B deps m) x = dep_keys m x \<union> {r. row_edge deps B x r}"
  "inner_wf m \<Longrightarrow> inner_wf (build_dependency_map B deps m)"
  "go_wf m \<Longrightarrow> go_wf (build_dependency_map B deps m)"
  by (induction B deps m rule: build_dependency_map.induct)
    (auto simp: Let_def add_dep_facts row_edge_def)

text \<open>\<open>ord\<close> and \<open>ks\<close> are possible orders of Go's \<open>range\<close> on every map.\<close>

definition range_orders :: "(DependencyMap \<Rightarrow> UniqueID \<Rightarrow> UniqueID list) \<Rightarrow> (DependencyMap \<Rightarrow> UniqueID list) \<Rightarrow> bool" where
  "range_orders ord ks \<longleftrightarrow>
     (\<forall>m. go_wf m \<and> inner_wf m \<longrightarrow> visit_order (ord m) m \<and> iter_order m (ks m))"

lemma range_orders_keys: "range_orders (\<lambda>m k. go_keys (go_get0 [] m k)) go_keys"
  by (simp add: range_orders_def visit_order_def inner_wf_def)

lemma break_wf:
  assumes "go_wf m" and "inner_wf m"
  shows "go_wf (breakCircularDependencies ord ks m) \<and> inner_wf (breakCircularDependencies ord ks m)"
proof -
  have edge: "go_wf (break_edge e n d)" if "go_wf n" for e n d using that by (simp add: break_edge_def)
  have inner: "go_wf (foldl (\<lambda>m' dep. if P dep then break_edge e m' dep else m') n ds)" if "go_wf n" for P e n ds
    using that by (induction ds arbitrary: n) (auto simp: edge)
  have entry: "go_wf (break_entry ord n e)" "inner_wf (break_entry ord n e)" if "go_wf n" "inner_wf n" for n e
    using that inner break_inner_fold[OF that(2)] by (auto simp: break_entry_def)
  show ?thesis unfolding breakCircularDependencies_def using assms
    by (induction ks arbitrary: m) (auto simp: entry)
qed

text \<open>What the steps of \<open>GetDependencies\<close> leave, whatever the order of the two loops.\<close>

lemma dependency_edges:
  assumes "range_orders ord ks" and "m = build_dependency_map B rows []"
    and "D = breakCircularDependencies (ord m) (ks m) m"
  shows "go_wf D" "inner_wf D"
    and "dep_keys D x = {r. row_edge rows B x r} - {t. ClassID t = PG_TYPE_OID \<and> ClassID x = PG_PROC_OID \<and> row_edge rows B t x}"
proof -
  have empty: "inner_wf []" "go_wf ([] :: DependencyMap)" "dep_keys [] x = {}" for x
    by (simp_all add: inner_wf_def dep_keys_def)
  note built = build_dependency_map_facts(1)[of B rows "[]", unfolded empty(3), folded assms(2)]
  have wf: "go_wf m" "inner_wf m"
    using build_dependency_map_facts(2)[OF empty(1)] build_dependency_map_facts(3)[OF empty(2)] assms(2) by simp_all
  then have ord: "visit_order (ord m) m" "iter_order m (ks m)" using assms(1) by (auto simp: range_orders_def)
  show "go_wf D" "inner_wf D" using break_wf[OF wf] assms(3) by simp_all
  show "dep_keys D x = {r. row_edge rows B x r} - {t. ClassID t = PG_TYPE_OID \<and> ClassID x = PG_PROC_OID \<and> row_edge rows B t x}"
    using break_exact[OF ord, of x] built assms(3) by simp
qed

text \<open>The edges of \<open>AddProtocolDependenciesForGPDB4\<close> are added to those that are there.\<close>

lemma add_protocol_deps_facts:
  assumes "add_protocol_deps pm ts m = Inr m'" and "go_wf m" and "inner_wf m"
  shows "go_wf m' \<and> inner_wf m' \<and> dep_keys m x \<subseteq> dep_keys m' x"
  using assms
proof (induction ts arbitrary: m)
  case (Cons t ts)
  from Cons.prems(1) obtain n where n: "add_protocol_deps pm ts n = Inr m'" "n = m \<or> (\<exists>p. n = add_dep (table_id t) p m)"
    by (auto split: option.splits if_splits)
  then have "go_wf n" "inner_wf n" "dep_keys m x \<subseteq> dep_keys n x" using Cons.prems(2,3) by (auto simp: add_dep_facts)
  with Cons.IH[OF n(1)] show ?case by blast
qed simp

section \<open>Properties\<close>

text \<open>
  Claim C1. For objects with distinct identifiers and every order in which Go visits the maps,
  \<open>TopologicalSort\<close> returns a permutation of its input in which every object comes after all the
  objects it depends on, or ends with the fatal error, and then no such permutation exists.
  It does not panic and its loop ends.
\<close>

theorem TopologicalSort_correct:
  assumes "visit_order ord D" and "distinct (map GetUniqueID objs)"
  shows "(\<exists>ys. TopologicalSort ord objs D = Inr ys \<and> mset ys = mset objs \<and> deps_before D ys) \<or>
    (TopologicalSort ord objs D = Inl (Fatal ''Dependency resolution failed'') \<and>
      (\<nexists>ys. mset ys = mset objs \<and> deps_before D ys))"
  by (rule TopologicalSort_outcome[OF assms]) blast+

definition demo_id :: "32 word \<Rightarrow> UniqueID" where
  "demo_id n = \<lparr>ClassID = PG_CLASS_OID, Oid = n\<rparr>"

definition demo_deps :: DependencyMap where
  "demo_deps = [(demo_id 1, [(demo_id 2, True), (demo_id 3, True)]), (demo_id 2, [(demo_id 3, True)])]"

definition demo_objs :: "Sortable list" where
  "demo_objs = map (\<lambda>n. \<lparr>FQN = ''t'', GetUniqueID = demo_id n\<rparr>) [1, 2, 3]"

theorem TopologicalSort_correct_witness:
  "\<exists>ys. TopologicalSort (\<lambda>k. go_keys (go_get0 [] demo_deps k)) demo_objs demo_deps = Inr ys \<and>
     mset ys = mset demo_objs \<and> deps_before demo_deps ys \<and> ys = rev demo_objs"
proof -
  have v: "visit_order (\<lambda>k. go_keys (go_get0 [] demo_deps k)) demo_deps"
    by (auto simp: visit_order_def demo_deps_def demo_id_def go_get0_def)
  have d: "distinct (map GetUniqueID demo_objs)" by (simp add: demo_objs_def demo_id_def)
  have "TopologicalSort (\<lambda>k. go_keys (go_get0 [] demo_deps k)) demo_objs demo_deps = Inr (rev demo_objs)"
    by code_simp
  with TopologicalSort_correct[OF v d] show ?thesis by auto
qed

text \<open>
  Claim C5. \<open>GetDependencies\<close> returns the dependencies between different objects of the backup
  set, as the rows say, except that a function loses its dependency on a type that depends on
  it; which edges are removed does not depend on the order in which Go visits the map.
\<close>

theorem GetDependencies_edges:
  assumes "range_orders ord ks"
    and "rows = Inr pg" and "synth \<longrightarrow> tables \<noteq> [] \<longrightarrow> synthDeps tables = Inr sy"
    and "all = (if synth \<and> tables \<noteq> [] then pg @ sy else pg)"
  shows "\<exists>D. GetDependencies ord ks synth tables rows synthDeps B = Inr D \<and>
    (\<forall>x. dep_keys D x = {r. row_edge all B x r} -
      {t. ClassID t = PG_TYPE_OID \<and> ClassID x = PG_PROC_OID \<and> row_edge all B t x})"
proof -
  note edges = dependency_edges(3)[OF assms(1) refl refl, of B all]
  with assms(2-4) show ?thesis by (auto simp: GetDependencies_def Let_def)
qed

definition demo_type :: UniqueID where "demo_type = \<lparr>ClassID = PG_TYPE_OID, Oid = 20\<rparr>"
definition demo_proc :: UniqueID where "demo_proc = \<lparr>ClassID = PG_PROC_OID, Oid = 30\<rparr>"

definition demo_rows :: "SortableDependency list" where
  "demo_rows =
     [\<lparr>sd_ClassID = PG_TYPE_OID, sd_ObjID = 20, sd_RefClassID = PG_PROC_OID, sd_RefObjID = 30\<rparr>,
      \<lparr>sd_ClassID = PG_PROC_OID, sd_ObjID = 30, sd_RefClassID = PG_TYPE_OID, sd_RefObjID = 20\<rparr>]"

theorem GetDependencies_edges_witness:
  "\<exists>D. GetDependencies (\<lambda>m k. go_keys (go_get0 [] m k)) go_keys True ([] :: unit list) (Inr demo_rows)
      (\<lambda>_. Inr []) [(demo_type, True), (demo_proc, True)] = Inr D \<and>
    dep_keys D demo_type = {demo_proc} \<and> dep_keys D demo_proc = {}"
proof -
  let ?B = "[(demo_type, True), (demo_proc, True)]"
  have edges: "{r. row_edge demo_rows ?B demo_type r} = {demo_proc}" "{r. row_edge demo_rows ?B demo_proc r} = {demo_type}"
    "row_edge demo_rows ?B demo_type demo_proc" "ClassID demo_type = PG_TYPE_OID" "ClassID demo_proc = PG_PROC_OID"
    "PG_TYPE_OID \<noteq> PG_PROC_OID"
    by (auto simp: row_edge_def demo_rows_def demo_type_def demo_proc_def go_has_def PG_TYPE_OID_def PG_PROC_OID_def)
  from GetDependencies_edges[OF range_orders_keys refl _ refl, of True "[] :: unit list" "\<lambda>_. Inr []" "[]" demo_rows ?B]
  obtain D where D: "GetDependencies (\<lambda>m k. go_keys (go_get0 [] m k)) go_keys True ([] :: unit list) (Inr demo_rows)
      (\<lambda>_. Inr []) ?B = Inr D"
    "\<forall>x. dep_keys D x = {r. row_edge demo_rows ?B x r} -
      {t. ClassID t = PG_TYPE_OID \<and> ClassID x = PG_PROC_OID \<and> row_edge demo_rows ?B t x}" by auto
  have "dep_keys D demo_type = {demo_proc}" "dep_keys D demo_proc = {}"
    using edges unfolding D(2)[rule_format] by auto
  with D(1) show ?thesis by blast
qed

end
