(* ===== verification/Toc.thy ===== *)
theory Toc
  imports Gostrings
begin

text \<open>
  The table of contents of the metadata file, \<open>src/meta/builtin/toc/toc.go\<close>, with the filter sets
  of \<open>src/utils/set.go\<close> and the byte counting file of \<open>src/utils/io.go\<close>. Every statement of the
  metadata file has an entry with its first and last byte; restoring reads the statements back
  through these entries.

  Byte positions are 64-bit words as in the code. Shown here: statements are read back exactly as
  they were written, in their order; a filter without restrictions selects everything; and what
  the filters select.
\<close>

section \<open>Filter sets\<close>

record FilterSet =
  Set :: "(string, bool) gomap"
  IsExclude :: bool
  AlwaysMatchesFilter :: bool

definition NewSet :: "string list \<Rightarrow> FilterSet" where
  "NewSet xs = \<lparr>Set = foldl (\<lambda>m x. go_set x True m) [] xs, IsExclude = False, AlwaysMatchesFilter = False\<rparr>"

definition NewIncludeSet :: "string list \<Rightarrow> FilterSet" where
  "NewIncludeSet xs = (NewSet xs)\<lparr>AlwaysMatchesFilter := (length xs = 0)\<rparr>"

definition NewExcludeSet :: "string list \<Rightarrow> FilterSet" where
  "NewExcludeSet xs = (NewSet xs)\<lparr>AlwaysMatchesFilter := (length xs = 0), IsExclude := True\<rparr>"

definition MatchesFilter :: "FilterSet \<Rightarrow> string \<Rightarrow> bool" where
  "MatchesFilter s item =
     (if AlwaysMatchesFilter s then True
      else let matches = go_has (Set s) item in if IsExclude s then \<not> matches else matches)"

definition set_Length :: "FilterSet \<Rightarrow> nat" where
  "set_Length s = length (Set s)"

definition set_Equals :: "FilterSet \<Rightarrow> FilterSet \<Rightarrow> bool" where
  "set_Equals s t = (if set_Length s \<noteq> set_Length t then False
     else list_all (\<lambda>k. go_has (Set t) k) (go_keys (Set s)))"

section \<open>The metadata file\<close>

type_synonym offset = "64 word"

record FileWithByteCount =
  contents :: string
  ByteCount :: offset

definition MustPrint :: "string \<Rightarrow> FileWithByteCount \<Rightarrow> FileWithByteCount" where
  "MustPrint s f = f\<lparr>contents := contents f @ s, ByteCount := ByteCount f + of_nat (length s)\<rparr>"

text \<open>
  \<open>ReadAt\<close> into a new buffer: a length that is no \<open>int\<close> panics in \<open>make\<close>, a negative offset or a
  file that ends early is an error.
\<close>

definition ReadAt :: "string \<Rightarrow> offset \<Rightarrow> offset \<Rightarrow> string res" where
  "ReadAt file start len =
     (if unat len \<ge> 2 ^ 63 then Inl (Panic ''makeslice: len out of range'')
      else if unat start \<ge> 2 ^ 63 then Inl (Fatal ''negative offset'')
      else let bytes = take (unat len) (drop (unat start) file)
           in if length bytes < unat len then Inl (Fatal ''EOF'') else Inr bytes)"

section \<open>Entries\<close>

record MetadataEntry =
  me_Schema :: string
  me_Name :: string
  ObjectType :: string
  ReferenceObject :: string
  StartByte :: offset
  EndByte :: offset

record MasterDataEntry =
  md_Schema :: string
  md_Name :: string
  md_Oid :: "32 word"
  AttributeString :: string
  RowsCopied :: int
  PartitionRoot :: string
  md_IsReplicated :: bool

record TOC =
  GlobalEntries :: "MetadataEntry list"
  PredataEntries :: "MetadataEntry list"
  PostdataEntries :: "MetadataEntry list"
  StatisticsEntries :: "MetadataEntry list"
  DataEntries :: "MasterDataEntry list"

definition empty_TOC :: TOC where
  "empty_TOC = \<lparr>GlobalEntries = [], PredataEntries = [], PostdataEntries = [], StatisticsEntries = [], DataEntries = []\<rparr>"

text \<open>\<open>metadataEntryMap\<close>: a section that does not exist is a nil pointer.\<close>

definition section_entries :: "TOC \<Rightarrow> string \<Rightarrow> MetadataEntry list res" where
  "section_entries toc s =
     (if s = ''global'' then Inr (GlobalEntries toc) else if s = ''predata'' then Inr (PredataEntries toc)
      else if s = ''postdata'' then Inr (PostdataEntries toc) else if s = ''statistics'' then Inr (StatisticsEntries toc)
      else Inl (Panic ''nil pointer''))"

definition AddMetadataEntry :: "string \<Rightarrow> MetadataEntry \<Rightarrow> offset \<Rightarrow> offset \<Rightarrow> TOC \<Rightarrow> TOC res" where
  "AddMetadataEntry s entry first last_byte toc =
     (let entry = entry\<lparr>StartByte := first, EndByte := last_byte\<rparr>
      in if s = ''global'' then Inr (toc\<lparr>GlobalEntries := GlobalEntries toc @ [entry]\<rparr>)
         else if s = ''predata'' then Inr (toc\<lparr>PredataEntries := PredataEntries toc @ [entry]\<rparr>)
         else if s = ''postdata'' then Inr (toc\<lparr>PostdataEntries := PostdataEntries toc @ [entry]\<rparr>)
         else if s = ''statistics'' then Inr (toc\<lparr>StatisticsEntries := StatisticsEntries toc @ [entry]\<rparr>)
         else Inl (Panic ''nil pointer''))"

definition AddMasterDataEntry :: "string \<Rightarrow> string \<Rightarrow> 32 word \<Rightarrow> string \<Rightarrow> int \<Rightarrow> string \<Rightarrow> string \<Rightarrow> TOC \<Rightarrow> TOC" where
  "AddMasterDataEntry schema name oid attr rows root distPolicy toc =
     toc\<lparr>DataEntries := DataEntries toc @ [\<lparr>md_Schema = schema, md_Name = name, md_Oid = oid, AttributeString = attr,
       RowsCopied = rows, PartitionRoot = root, md_IsReplicated = Contains distPolicy ''REPLICATED''\<rparr>]\<rparr>"

record StatementWithType =
  st_Schema :: string
  st_Name :: string
  st_ObjectType :: string
  st_ReferenceObject :: string
  Statement :: string
  ClassOID :: "32 word"
  st_Oid :: "32 word"

section \<open>Selecting statements\<close>

definition constructFilterSets :: "string list \<Rightarrow> string list \<Rightarrow> string list \<Rightarrow> string list \<Rightarrow> string list \<Rightarrow> string list \<Rightarrow>
    FilterSet \<times> FilterSet \<times> FilterSet" where
  "constructFilterSets includeObjectTypes excludeObjectTypes includeSchemas excludeSchemas includeRelations excludeRelations =
     (if length includeObjectTypes > 0 then NewIncludeSet includeObjectTypes else NewExcludeSet excludeObjectTypes,
      if length includeSchemas > 0 then NewIncludeSet includeSchemas else NewExcludeSet excludeSchemas,
      if length includeRelations > 0 then NewIncludeSet includeRelations else NewExcludeSet excludeRelations)"

definition is_relation :: "string \<Rightarrow> bool" where
  "is_relation t \<longleftrightarrow> t = ''TABLE'' \<or> t = ''VIEW'' \<or> t = ''MATERIALIZED VIEW'' \<or> t = ''SEQUENCE''"

definition shouldIncludeStatement :: "MetadataEntry \<Rightarrow> FilterSet \<Rightarrow> FilterSet \<Rightarrow> FilterSet \<Rightarrow> bool" where
  "shouldIncludeStatement entry objectSet schemaSet relationSet =
     (let shouldIncludeObject = MatchesFilter objectSet (ObjectType entry);
          shouldIncludeSchema = MatchesFilter schemaSet (me_Schema entry);
          relationFQN = fqn (me_Schema entry) (me_Name entry);
          includeLeafPartition = \<not> (IsExclude relationSet \<and> ReferenceObject entry \<noteq> [] \<and>
            \<not> MatchesFilter relationSet (ReferenceObject entry));
          shouldIncludeRelation =
            (IsExclude relationSet \<and> \<not> is_relation (ObjectType entry) \<and> ReferenceObject entry = []) \<or>
            (is_relation (ObjectType entry) \<and> MatchesFilter relationSet relationFQN \<and> includeLeafPartition) \<or>
            (ObjectType entry \<noteq> ''SEQUENCE OWNER'' \<and> ReferenceObject entry \<noteq> [] \<and>
              MatchesFilter relationSet (ReferenceObject entry)) \<or>
            (ObjectType entry = ''SEQUENCE OWNER'' \<and> MatchesFilter relationSet relationFQN \<and>
              MatchesFilter relationSet (ReferenceObject entry))
      in shouldIncludeObject \<and> shouldIncludeSchema \<and> shouldIncludeRelation)"

text \<open>The class and object numbers of a statement are left at zero.\<close>

definition statement_of :: "MetadataEntry \<Rightarrow> string \<Rightarrow> StatementWithType" where
  "statement_of entry text_of = \<lparr>st_Schema = me_Schema entry, st_Name = me_Name entry, st_ObjectType = ObjectType entry,
     st_ReferenceObject = ReferenceObject entry, Statement = text_of, ClassOID = 0, st_Oid = 0\<rparr>"

fun read_statements :: "string \<Rightarrow> MetadataEntry list \<Rightarrow> StatementWithType list res" where
  "read_statements file [] = Inr []"
| "read_statements file (entry # es) =
     rbind (ReadAt file (StartByte entry) (EndByte entry - StartByte entry)) (\<lambda>c.
       rbind (read_statements file es) (\<lambda>sts. Inr (statement_of entry c # sts)))"

definition GetSQLStatementForObjectTypes :: "TOC \<Rightarrow> string \<Rightarrow> string \<Rightarrow> string list \<Rightarrow> string list \<Rightarrow> string list \<Rightarrow>
    string list \<Rightarrow> string list \<Rightarrow> string list \<Rightarrow> StatementWithType list res" where
  "GetSQLStatementForObjectTypes toc s file inTypes exTypes inSchemas exSchemas inRelations exRelations =
     rbind (section_entries toc s) (\<lambda>entries.
       case constructFilterSets inTypes exTypes inSchemas exSchemas inRelations exRelations of
         (objectSet, schemaSet, relationSet) \<Rightarrow>
           read_statements file (filter (\<lambda>e. shouldIncludeStatement e objectSet schemaSet relationSet) entries))"

section \<open>Data entries\<close>

definition root_map :: "MasterDataEntry list \<Rightarrow> (string, string) gomap" where
  "root_map es = foldl (\<lambda>m e. if PartitionRoot e \<noteq> []
     then go_set (fqn (md_Schema e) (md_Name e)) (fqn (md_Schema e) (PartitionRoot e)) m else m) [] es"

definition GetIncludedPartitionRoots :: "MasterDataEntry list \<Rightarrow> string list \<Rightarrow> string list" where
  "GetIncludedPartitionRoots es relations =
     (if length relations = 0 then [] else List.map_filter (go_get (root_map es)) relations)"

definition getLeafPartitions :: "string list \<Rightarrow> MasterDataEntry list \<Rightarrow> string list" where
  "getLeafPartitions tableFQNs es =
     map (\<lambda>e. fqn (md_Schema e) (md_Name e))
       (filter (\<lambda>e. PartitionRoot e \<noteq> [] \<and> MatchesFilter (NewSet tableFQNs) (fqn (md_Schema e) (PartitionRoot e))) es)"

definition GetDataEntriesMatching :: "TOC \<Rightarrow> string list \<Rightarrow> string list \<Rightarrow> string list \<Rightarrow> string list \<Rightarrow> string list \<Rightarrow>
    MasterDataEntry list" where
  "GetDataEntriesMatching toc inSchemas exSchemas inTables exTables plan =
     (let schemaSet = (if length inSchemas > 0 then NewIncludeSet inSchemas
                       else if length exSchemas > 0 then NewExcludeSet exSchemas else NewIncludeSet []);
          tableSet = (if length inTables > 0 then NewIncludeSet (inTables @ getLeafPartitions inTables (DataEntries toc))
                      else if length exTables > 0 then NewExcludeSet (exTables @ getLeafPartitions exTables (DataEntries toc))
                      else NewIncludeSet [])
      in filter (\<lambda>e. MatchesFilter (NewSet plan) (fqn (md_Schema e) (md_Name e)) \<and>
           MatchesFilter schemaSet (md_Schema e) \<and> MatchesFilter tableSet (fqn (md_Schema e) (md_Name e))) (DataEntries toc))"

definition RemoveActiveRole :: "string \<Rightarrow> StatementWithType list \<Rightarrow> StatementWithType list" where
  "RemoveActiveRole activeUser sts = filter (\<lambda>s. \<not> (st_ObjectType s = ''ROLE'' \<and> st_Name s = activeUser)) sts"

section \<open>Facts about filter sets\<close>

lemma go_has_NewSet: "go_has (Set (NewSet xs)) k \<longleftrightarrow> k \<in> set xs"
proof -
  have "go_has (foldl (\<lambda>m x. go_set x True m) m xs) k \<longleftrightarrow> k \<in> set xs \<or> go_has m k" for m
    by (induction xs arbitrary: m) auto
  then show ?thesis by (simp add: NewSet_def)
qed

lemma MatchesFilter_sets [simp]:
  "MatchesFilter (NewIncludeSet xs) k \<longleftrightarrow> xs = [] \<or> k \<in> set xs"
  "MatchesFilter (NewExcludeSet xs) k \<longleftrightarrow> k \<notin> set xs"
  "MatchesFilter (NewSet xs) k \<longleftrightarrow> k \<in> set xs"
  using go_has_NewSet[of xs k]
  by (auto simp: MatchesFilter_def NewIncludeSet_def NewExcludeSet_def NewSet_def Let_def)

lemma IsExclude_sets [simp]: "IsExclude (NewIncludeSet xs) = False" "IsExclude (NewExcludeSet xs) = True"
  by (simp_all add: NewIncludeSet_def NewExcludeSet_def NewSet_def)

text \<open>Without restrictions on schemas and relations only the object type counts.\<close>

definition selects :: "string list \<Rightarrow> string list \<Rightarrow> MetadataEntry \<Rightarrow> bool" where
  "selects inTypes exTypes e \<longleftrightarrow> (if inTypes \<noteq> [] then ObjectType e \<in> set inTypes else ObjectType e \<notin> set exTypes)"

lemma no_filter_selects:
  "GetSQLStatementForObjectTypes toc s file inTypes exTypes [] [] [] [] =
     rbind (section_entries toc s) (\<lambda>es. read_statements file (filter (selects inTypes exTypes) es))"
proof -
  have "(\<lambda>e. shouldIncludeStatement e (if length inTypes > 0 then NewIncludeSet inTypes else NewExcludeSet exTypes)
      (NewExcludeSet []) (NewExcludeSet [])) = selects inTypes exTypes"
    by (rule ext) (auto simp: shouldIncludeStatement_def selects_def Let_def)
  then show ?thesis by (simp add: GetSQLStatementForObjectTypes_def constructFilterSets_def)
qed


section \<open>Writing statements\<close>

text \<open>
  All printers of the metadata write a statement and then record it with the byte counts before
  and after. \<open>PrintStatements\<close> of \<open>src/meta/builtin/predata_acl.go\<close> does so for the comments,
  owners and privileges of an object, and marks those of the postdata section.
\<close>

type_synonym metafile = "FileWithByteCount \<times> TOC"

definition emit :: "string \<Rightarrow> MetadataEntry \<Rightarrow> string \<Rightarrow> metafile \<Rightarrow> metafile res" where
  "emit s entry t = (\<lambda>(f, toc).
     let f' = MustPrint t f in rbind (AddMetadataEntry s entry (ByteCount f) (ByteCount f') toc) (\<lambda>toc'. Inr (f', toc')))"

definition mark_postdata :: "string \<Rightarrow> MetadataEntry \<Rightarrow> MetadataEntry" where
  "mark_postdata s entry =
     (if s = ''postdata'' then
        entry\<lparr>ObjectType := ObjectType entry @ '' METADATA'',
              ReferenceObject := if me_Schema entry \<noteq> [] then fqn (me_Schema entry) (me_Name entry) else me_Name entry\<rparr>
      else entry)"

fun PrintStatements :: "string \<Rightarrow> MetadataEntry \<Rightarrow> string list \<Rightarrow> metafile \<Rightarrow> metafile res" where
  "PrintStatements s entry [] st = Inr st"
| "PrintStatements s entry (t # ts) st =
     rbind (emit s (mark_postdata s entry) (NL @ NL @ t @ NL) st) (PrintStatements s entry ts)"

text \<open>A sequence of printed statements with their sections and entries.\<close>

fun emits :: "(string \<times> MetadataEntry \<times> string) list \<Rightarrow> metafile \<Rightarrow> metafile res" where
  "emits [] st = Inr st"
| "emits ((s, e, t) # xs) st = rbind (emit s e t st) (emits xs)"

lemma PrintStatements_emits:
  "PrintStatements s entry ts st = emits (map (\<lambda>t. (s, mark_postdata s entry, NL @ NL @ t @ NL)) ts) st"
proof (induction ts arbitrary: st)
  case (Cons t ts)
  then show ?case by (cases "emit s (mark_postdata s entry) (NL @ NL @ t @ NL) st") simp_all
qed simp

section \<open>Reading back\<close>

text \<open>\<open>recorded c x e\<close>: entry \<open>e\<close> points to the text of the printed statement \<open>x\<close> in the contents \<open>c\<close>.\<close>

definition recorded :: "string \<Rightarrow> string \<times> MetadataEntry \<times> string \<Rightarrow> MetadataEntry \<Rightarrow> bool" where
  "recorded c = (\<lambda>(s, e0, t) e. \<exists>i. e = e0\<lparr>StartByte := of_nat i, EndByte := of_nat (i + length t)\<rparr> \<and>
     i + length t \<le> length c \<and> take (length t) (drop i c) = t)"

lemma recorded_append: "recorded c x e \<Longrightarrow> recorded (c @ d) x e"
  by (fastforce simp: recorded_def)

definition is_section :: "string \<Rightarrow> bool" where
  "is_section s \<longleftrightarrow> s \<in> {''global'', ''predata'', ''postdata'', ''statistics''}"

text \<open>The entries of every section point to the texts of the statements printed for that section, in their order.\<close>

definition toc_records :: "string \<Rightarrow> TOC \<Rightarrow> (string \<times> MetadataEntry \<times> string) list \<Rightarrow> bool" where
  "toc_records c toc xs \<longleftrightarrow> (\<forall>s. is_section s \<longrightarrow>
     (\<exists>es. section_entries toc s = Inr es \<and> list_all2 (recorded c) (filter (\<lambda>x. fst x = s) xs) es))"

definition counted :: "FileWithByteCount \<Rightarrow> bool" where
  "counted f \<longleftrightarrow> ByteCount f = of_nat (length (contents f))"

lemma MustPrint_counted: "counted f \<Longrightarrow> counted (MustPrint t f)"
  by (simp add: counted_def MustPrint_def)

lemma contents_MustPrint [simp]: "contents (MustPrint t f) = contents f @ t"
  by (simp add: MustPrint_def)

lemma toc_records_append: "toc_records c toc xs \<Longrightarrow> toc_records (c @ d) toc xs"
  unfolding toc_records_def
proof (intro allI impI)
  fix s assume "\<forall>s. is_section s \<longrightarrow> (\<exists>es. section_entries toc s = Inr es \<and> list_all2 (recorded c) (filter (\<lambda>x. fst x = s) xs) es)"
    and "is_section s"
  then obtain es where es: "section_entries toc s = Inr es" "list_all2 (recorded c) (filter (\<lambda>x. fst x = s) xs) es" by blast
  from es(2) have "list_all2 (recorded (c @ d)) (filter (\<lambda>x. fst x = s) xs) es"
    by (rule list_all2_mono) (rule recorded_append)
  with es(1) show "\<exists>es. section_entries toc s = Inr es \<and> list_all2 (recorded (c @ d)) (filter (\<lambda>x. fst x = s) xs) es" by blast
qed

lemma AddMetadataEntry_entries:
  assumes "AddMetadataEntry s e a b toc = Inr toc'"
  shows "is_section s \<and> (\<forall>s' es. section_entries toc s' = Inr es \<longrightarrow>
    section_entries toc' s' = Inr (if s' = s then es @ [e\<lparr>StartByte := a, EndByte := b\<rparr>] else es))"
proof -
  have s: "s = ''global'' \<or> s = ''predata'' \<or> s = ''postdata'' \<or> s = ''statistics''"
    using assms by (simp add: AddMetadataEntry_def Let_def split: if_splits)
  show ?thesis using s
  proof (elim disjE)
    assume "s = ''global''"
    with assms show ?thesis by (clarsimp simp: AddMetadataEntry_def section_entries_def is_section_def Let_def)
  next
    assume "s = ''predata''"
    with assms show ?thesis by (clarsimp simp: AddMetadataEntry_def section_entries_def is_section_def Let_def)
  next
    assume "s = ''postdata''"
    with assms show ?thesis by (clarsimp simp: AddMetadataEntry_def section_entries_def is_section_def Let_def)
  next
    assume "s = ''statistics''"
    with assms show ?thesis by (clarsimp simp: AddMetadataEntry_def section_entries_def is_section_def Let_def)
  qed
qed

lemma emit_records:
  assumes "toc_records (contents f) toc xs" and "counted f" and "emit s e t (f, toc) = Inr (f', toc')"
  shows "f' = MustPrint t f \<and> toc_records (contents f') toc' (xs @ [(s, e, t)])"
proof -
  have f': "f' = MustPrint t f" and add: "AddMetadataEntry s e (ByteCount f) (ByteCount f') toc = Inr toc'"
    using assms(3) by (auto simp: emit_def Let_def rbind_Inr_iff)
  have c: "contents f' = contents f @ t" using f' by simp
  have new: "recorded (contents f') (s, e, t) (e\<lparr>StartByte := ByteCount f, EndByte := ByteCount f'\<rparr>)"
    using assms(2) f' by (auto simp: recorded_def counted_def MustPrint_def intro!: exI[of _ "length (contents f)"])
  have "\<exists>es. section_entries toc' s' = Inr es \<and>
      list_all2 (recorded (contents f')) (filter (\<lambda>x. fst x = s') (xs @ [(s, e, t)])) es" if s': "is_section s'" for s'
  proof -
    from toc_records_append[OF assms(1), of t] s' obtain es where es: "section_entries toc s' = Inr es"
      "list_all2 (recorded (contents f')) (filter (\<lambda>x. fst x = s') xs) es" by (auto simp: toc_records_def c)
    from AddMetadataEntry_entries[OF add] es(1)
    have "section_entries toc' s' = Inr (if s' = s then es @ [e\<lparr>StartByte := ByteCount f, EndByte := ByteCount f'\<rparr>] else es)"
      by blast
    with es(2) new show ?thesis by (auto intro!: list_all2_appendI)
  qed
  with f' show ?thesis by (simp add: toc_records_def)
qed

lemma emits_records:
  "toc_records (contents (fst st)) (snd st) xs \<Longrightarrow> counted (fst st) \<Longrightarrow> emits ys st = Inr st' \<Longrightarrow>
   toc_records (contents (fst st')) (snd st') (xs @ ys)"
proof (induction ys arbitrary: xs st)
  case (Cons y ys)
  obtain s e t where y: "y = (s, e, t)" by (metis prod.collapse)
  from Cons.prems(3) y obtain st1 where st1: "emit s e t st = Inr st1" "emits ys st1 = Inr st'"
    by (auto simp: rbind_Inr_iff)
  have "fst st1 = MustPrint t (fst st) \<and> toc_records (contents (fst st1)) (snd st1) (xs @ [y])"
    using emit_records[of "fst st" "snd st" xs s e t "fst st1" "snd st1"] Cons.prems(1,2) st1(1)
    unfolding y prod.collapse by blast
  then have "toc_records (contents (fst st1)) (snd st1) (xs @ [y])" and "counted (fst st1)"
    using MustPrint_counted[OF Cons.prems(2), of t] by (blast, simp)
  from Cons.IH[OF this st1(2)] show ?case by simp
qed simp

definition empty_file :: FileWithByteCount where
  "empty_file = \<lparr>contents = [], ByteCount = 0\<rparr>"

lemma empty_records: "toc_records (contents empty_file) empty_TOC []" "counted empty_file" 
  by (simp_all add: toc_records_def counted_def empty_file_def empty_TOC_def section_entries_def is_section_def)

lemma ReadAt_recorded:
  assumes "recorded c (s, e0, t) e" and "length c < 2 ^ 63"
  shows "ReadAt c (StartByte e) (EndByte e - StartByte e) = Inr t"
proof -
  from assms(1) obtain i where i: "StartByte e = of_nat i" "EndByte e = of_nat (i + length t)"
    "i + length t \<le> length c" "take (length t) (drop i c) = t" by (auto simp: recorded_def)
  have "unat (EndByte e - StartByte e) = length t" "unat (StartByte e) = i"
    using i assms(2) by (simp_all add: unat_of_nat take_bit_nat_eq_self_iff)
  with i assms(2) show ?thesis by (simp add: ReadAt_def)
qed

lemma read_recorded:
  assumes "list_all2 (recorded c) xs es" and "length c < 2 ^ 63"
    and "\<And>e a b. P (e\<lparr>StartByte := a, EndByte := b\<rparr>) = P e"
  shows "read_statements c (filter P es) = Inr (map (\<lambda>(s, e, t). statement_of e t) (filter (\<lambda>(s, e, t). P e) xs))"
  using assms(1)
proof (induction rule: list_all2_induct)
  case (Cons x xs e es)
  obtain s e0 t where x: "x = (s, e0, t)" by (metis prod.collapse)
  with Cons(1) have "P e = P e0" "statement_of e t = statement_of e0 t"
    using assms(3) by (auto simp: recorded_def statement_of_def)
  with Cons x ReadAt_recorded[of c s e0 t e] assms(2) show ?case by simp
qed simp


lemma read_back:
  assumes "toc_records c toc xs" and "length c < 2 ^ 63" and "is_section s"
    and "constructFilterSets inT exT inS exS inR exR = (os, ss, rs)"
  shows "GetSQLStatementForObjectTypes toc s c inT exT inS exS inR exR =
    Inr (map (\<lambda>(_, e, t). statement_of e t) (filter (\<lambda>(s', e, _). s' = s \<and> shouldIncludeStatement e os ss rs) xs))"
proof -
  from assms(1,3) obtain es where es: "section_entries toc s = Inr es"
    "list_all2 (recorded c) (filter (\<lambda>x. fst x = s) xs) es" by (auto simp: toc_records_def)
  have "read_statements c (filter (\<lambda>e. shouldIncludeStatement e os ss rs) es) =
      Inr (map (\<lambda>(_, e, t). statement_of e t) (filter (\<lambda>(_, e, _). shouldIncludeStatement e os ss rs) (filter (\<lambda>x. fst x = s) xs)))"
    using read_recorded[OF es(2) assms(2), of "\<lambda>e. shouldIncludeStatement e os ss rs"]
    by (simp add: shouldIncludeStatement_def)
  moreover have "filter (\<lambda>(_, e, _). shouldIncludeStatement e os ss rs) (filter (\<lambda>x. fst x = s) xs) =
      filter (\<lambda>(s', e, _). s' = s \<and> shouldIncludeStatement e os ss rs) xs"
    by (induction xs) auto
  ultimately show ?thesis using es(1) assms(4) by (simp add: GetSQLStatementForObjectTypes_def)
qed

section \<open>Properties\<close>

text \<open>
  Claim C21. Whatever statements were printed to the metadata file, reading a section back through the
  table of contents returns exactly the statements of that section that pass the filters, in the
  order in which they were printed and byte for byte as they were printed (for a file of less
  than 2 to the 63 bytes).
\<close>

theorem toc_roundtrip:
  assumes "emits xs (empty_file, empty_TOC) = Inr (f, toc)" and "length (contents f) < 2 ^ 63" and "is_section s"
    and "constructFilterSets inT exT inS exS inR exR = (os, ss, rs)"
  shows "GetSQLStatementForObjectTypes toc s (contents f) inT exT inS exS inR exR =
    Inr (map (\<lambda>(_, e, t). statement_of e t)
      (filter (\<lambda>(s', e, _). s' = s \<and> shouldIncludeStatement e os ss rs) xs))"
proof -
  have "toc_records (contents f) toc xs"
    using emits_records[of "(empty_file, empty_TOC)" "[]" xs "(f, toc)"] empty_records assms(1) by simp
  from read_back[OF this assms(2-4)] show ?thesis .
qed

definition demo_entry :: "string \<Rightarrow> string \<Rightarrow> MetadataEntry" where
  "demo_entry n t = \<lparr>me_Schema = ''s'', me_Name = n, ObjectType = t, ReferenceObject = [], StartByte = 0, EndByte = 0\<rparr>"

definition demo_printed :: "(string \<times> MetadataEntry \<times> string) list" where
  "demo_printed = [(''predata'', demo_entry ''a'' ''TABLE'', ''CREATE TABLE s.a''),
     (''postdata'', demo_entry ''i'' ''INDEX'', ''CREATE INDEX i''),
     (''predata'', demo_entry ''b'' ''VIEW'', ''CREATE VIEW s.b'')]"

theorem toc_roundtrip_witness:
  "\<exists>f toc. emits demo_printed (empty_file, empty_TOC) = Inr (f, toc) \<and>
     GetSQLStatementForObjectTypes toc ''predata'' (contents f) [''TABLE''] [] [] [] [] [] =
       Inr [statement_of (demo_entry ''a'' ''TABLE'') ''CREATE TABLE s.a'']"
proof -
  obtain f toc where e: "emits demo_printed (empty_file, empty_TOC) = Inr (f, toc)"
    and c: "contents f = ''CREATE TABLE s.aCREATE INDEX iCREATE VIEW s.b''"
    by (simp add: demo_printed_def emit_def MustPrint_def AddMetadataEntry_def empty_file_def)
  have "length (contents f) < 2 ^ 63" "is_section ''predata''" by (simp_all add: c is_section_def)
  moreover have "constructFilterSets [''TABLE''] [] [] [] [] [] = (NewIncludeSet [''TABLE''], NewExcludeSet [], NewExcludeSet [])"
    by (simp add: constructFilterSets_def)
  ultimately
  have "GetSQLStatementForObjectTypes toc ''predata'' (contents f) [''TABLE''] [] [] [] [] [] =
      Inr [statement_of (demo_entry ''a'' ''TABLE'') ''CREATE TABLE s.a'']"
    using toc_roundtrip[OF e] by (simp add: demo_printed_def shouldIncludeStatement_def demo_entry_def is_relation_def)
  with e show ?thesis by blast
qed

text \<open>\<open>GetSQLStatementForObjectTypes\<close> never sets the class and object numbers of a statement.\<close>

lemma statements_have_no_oids:
  assumes "GetSQLStatementForObjectTypes toc s file inT exT inS exS inR exR = Inr sts"
  shows "list_all (\<lambda>st. ClassOID st = 0 \<and> st_Oid st = 0) sts"
proof -
  have "read_statements file es = Inr sts \<Longrightarrow> list_all (\<lambda>st. ClassOID st = 0 \<and> st_Oid st = 0) sts" for es
    by (induction es arbitrary: sts) (auto simp: rbind_Inr_iff statement_of_def)
  with assms show ?thesis
    by (cases "constructFilterSets inT exT inS exS inR exR") (auto simp: GetSQLStatementForObjectTypes_def rbind_Inr_iff)
qed

end
