(* ===== verification/Quoting.thy ===== *)
theory Quoting
  imports Gostrings
begin

text \<open>
  Quoting for SQL, from \<open>src/utils/io.go\<close> and \<open>src/utils/util.go\<close>: string literals with doubled
  quotes or between dollar tags, identifiers, and names that are taken apart at the dot. What the
  server makes of the quoted text is written out as a reader of its own, and shown to give back
  the original.
\<close>

section \<open>The functions\<close>

definition EscapeSingleQuotes :: "string \<Rightarrow> string" where
  "EscapeSingleQuotes s = Replace s [SQ] [SQ, SQ] (-1)"

definition SliceToQuotedString :: "string list \<Rightarrow> string" where
  "SliceToQuotedString xs = Join (map (\<lambda>s. [SQ] @ EscapeSingleQuotes s @ [SQ]) xs) '',''"

definition UnquoteIdent :: "string \<Rightarrow> string" where
  "UnquoteIdent ident =
     (if length ident \<le> 1 then ident
      else if hd ident = DQ \<and> List.last ident = DQ
      then Replace (butlast (tl ident)) [DQ, DQ] [DQ] (-1)
      else ident)"

definition delimStr :: string where "delimStr = ''_XXXXXXX''"

fun first_free :: "string \<Rightarrow> nat list \<Rightarrow> string" where
  "first_free literal [] = []"
| "first_free literal (i # is) =
     (let testStr = CHR ''$'' # take i delimStr
      in if \<not> Contains literal testStr then testStr @ ''$'' else first_free literal is)"

definition DollarQuoteString :: "string \<Rightarrow> string" where
  "DollarQuoteString literal =
     (let quoteStr = first_free literal [0..<length delimStr] in quoteStr @ literal @ quoteStr)"

definition is_plain_fqn :: "string \<Rightarrow> bool" where
  "is_plain_fqn s = (case Split CHR ''.'' s of [a, b] \<Rightarrow> a \<noteq> [] \<and> b \<noteq> [] | _ \<Rightarrow> False)"

fun ValidateFQNs :: "string list \<Rightarrow> unit res" where
  "ValidateFQNs [] = Inr ()"
| "ValidateFQNs (f # fs) =
     (if \<not> is_plain_fqn f then Inl (Error (''Table '' @ [DQ] @ f @ [DQ] @ '' is not correctly fully-qualified.  Please ensure table is in the format '' @
        [DQ] @ ''schema.table'' @ [DQ] @ '' and both the schema and table does not contain a dot (.).''))
      else ValidateFQNs fs)"

definition ValidateFullPath :: "string \<Rightarrow> unit res" where
  "ValidateFullPath path =
     (if length path > 0 \<and> \<not> (prefix ''/'' path \<or> prefix ''~'' path) then Inl (Error (path @ '' is not an absolute path.'')) else Inr ())"

definition ValidateCompressionTypeAndLevel :: "string \<Rightarrow> int \<Rightarrow> unit res" where
  "ValidateCompressionTypeAndLevel compressionType compressionLevel =
     (case go_get [(''gzip'', (1, 9)), (''zstd'', (1, 19))] compressionType of
        Some (lo, hi) \<Rightarrow> if compressionLevel < lo \<or> compressionLevel > hi
          then Inl (Error (''compression type '' @ [SQ] @ compressionType @ [SQ] @ '' only allows compression levels between '' @ Itoa lo @ '' and '' @ Itoa hi @
            '', but the provided level is '' @ Itoa compressionLevel)) else Inr ()
      | None \<Rightarrow> Inl (Error (''unknown compression type '' @ [SQ] @ compressionType @ [SQ])))"

fun SeparateSchemaAndTable :: "string list \<Rightarrow> (string \<times> string) list res" where
  "SeparateSchemaAndTable [] = Inr []"
| "SeparateSchemaAndTable (f # fs) =
     (let parts = Split CHR ''.'' f
      in if length parts > 2 then Inl (Error (''cannot process an Fully Qualified Name with embedded dots yet: '' @ f))
         else if length parts < 2 then Inl (Error (''Fully Qualified Names require a minimum of one dot, specifying the schema and table. Cannot process: '' @ f))
         else if parts ! 0 = [] \<or> parts ! 1 = [] then Inl (Error (''Fully Qualified Names must specify the schema and table. Cannot process: '' @ f))
         else rbind (SeparateSchemaAndTable fs) (\<lambda>r. Inr ((parts ! 0, parts ! 1) # r)))"

text \<open>\<open>select\<close> is the server's answer to a query for the quoted schema and table name.\<close>

fun quote_tables :: "(string \<Rightarrow> (string \<times> string) list res) \<Rightarrow> (string \<times> string) list \<Rightarrow> string list res" where
  "quote_tables select [] = Inr []"
| "quote_tables select ((s, t) # fs) =
     rbind (select (''SELECT quote_ident('' @ [SQ] @ s @ [SQ] @ '') AS schemaname, quote_ident('' @ [SQ] @ t @ [SQ] @ '') AS tablename'')) (\<lambda>rows.
     rbind (go_index rows 0) (\<lambda>(qs, qt). rbind (quote_tables select fs) (\<lambda>r. Inr ((qs @ ''.'' @ qt) # r))))"

definition QuoteTableNames :: "(string \<Rightarrow> (string \<times> string) list res) \<Rightarrow> string list \<Rightarrow> string list res" where
  "QuoteTableNames select tableNames =
     (if length tableNames = 0 then Inr []
      else rbind (SeparateSchemaAndTable (map EscapeSingleQuotes tableNames)) (quote_tables select))"

section \<open>String literals and identifiers\<close>

text \<open>
  How the server reads a literal after its opening quote \<open>q\<close>: a doubled quote is one quote, a
  single one ends the literal. The result is the literal and what follows.
\<close>

fun read_quoted :: "char \<Rightarrow> string \<Rightarrow> (string \<times> string) option" where
  "read_quoted q [] = None"
| "read_quoted q (c # s) =
     (if c \<noteq> q then map_option (\<lambda>(l, r). (c # l, r)) (read_quoted q s)
      else case s of
        d # r \<Rightarrow> if d = q then map_option (\<lambda>(l, r). (q # l, r)) (read_quoted q r) else Some ([], s)
      | [] \<Rightarrow> Some ([], []))"

definition double :: "char \<Rightarrow> string \<Rightarrow> string" where
  "double q s = concat (map (\<lambda>c. if c = q then [q, q] else [c]) s)"

lemma double_simps [simp]: "double q [] = []" "double q (c # s) = (if c = q then q # q # double q s else c # double q s)"
  by (simp_all add: double_def)

lemma replace_double: "n < 0 \<Longrightarrow> replace_at [q] [q, q] n s = double q s"
  by (induction s arbitrary: n) auto

lemma EscapeSingleQuotes_double: "EscapeSingleQuotes s = double SQ s"
  by (simp add: EscapeSingleQuotes_def Replace_def replace_double)

lemma read_double:
  "(\<And>r. rest \<noteq> q # r) \<Longrightarrow> read_quoted q (double q s @ q # rest) = Some (s, rest)"
  by (induction s) (auto split: list.splits)

lemma replace_undouble: "n < 0 \<Longrightarrow> replace_at [q, q] [q] n (double q s) = s"
proof (induction s arbitrary: n)
  case Nil
  then show ?case by simp
next
  case (Cons c s)
  show ?case
  proof (cases "c = q")
    case True
    with Cons show ?thesis by simp
  next
    case False
    then have "\<not> prefix [q, q] (c # double q s)" by simp
    with False Cons show ?thesis by simp
  qed
qed

text \<open>
  Quoting is undone by reading: a text escaped with \<open>EscapeSingleQuotes\<close> between quotes is read
  by the server as the text itself, whatever quotes it holds and whatever follows that is no
  quote; and \<open>UnquoteIdent\<close> gives back every identifier that was put between double quotes with
  its quotes doubled.
\<close>

theorem quotes_roundtrip:
  assumes "\<And>r. rest \<noteq> SQ # r"
  shows "read_quoted SQ (EscapeSingleQuotes s @ SQ # rest) = Some (s, rest) \<and>
    UnquoteIdent ([DQ] @ double DQ t @ [DQ]) = t"
  using read_double[OF assms] replace_undouble[of "-1" DQ t]
  by (simp add: EscapeSingleQuotes_double UnquoteIdent_def Replace_def)

theorem quotes_roundtrip_witness:
  "read_quoted SQ (EscapeSingleQuotes ''it'' @ SQ # '';'') = Some (''it'', '';'') \<and> UnquoteIdent ([DQ] @ double DQ [CHR ''a'', DQ] @ [DQ]) = [CHR ''a'', DQ]"
  using quotes_roundtrip[of "'';''" "''it''" "[CHR ''a'', DQ]"] by simp

section \<open>Dollar quotes\<close>

text \<open>Reading a literal between dollar tags: up to the first occurrence of the closing tag.\<close>

definition read_dollar :: "string \<Rightarrow> string \<Rightarrow> (string \<times> string) option" where
  "read_dollar tag s = map_option (\<lambda>i. (take i s, drop (i + length tag) s)) (Index s tag)"

lemma first_free_tag:
  "first_free l is = [] \<or> (\<exists>i \<in> set is. first_free l is = CHR ''$'' # take i delimStr @ ''$'' \<and> \<not> Contains l (CHR ''$'' # take i delimStr))"
  by (induction "is") (auto simp: Let_def)

lemma no_dollar: "CHR ''$'' \<notin> set (take i delimStr)"
  by (rule notI, drule in_set_takeD) (simp add: delimStr_def)

lemma overlap: "a @ x = q @ y \<Longrightarrow> (\<exists>v. a = q @ v) \<or> (\<exists>v. q = a @ v \<and> v @ y = x)"
  by (auto simp: append_eq_append_conv2)

lemma tag_not_inside:
  assumes "\<not> Contains l (CHR ''$'' # t)" and "CHR ''$'' \<notin> set t" and "prefix (CHR ''$'' # t @ ''$'') (drop i (l @ CHR ''$'' # t @ ''$'' @ r))" and "i < length l"
  shows False
proof -
  let ?q = "CHR ''$'' # t"
  obtain u where u: "drop i (l @ ?q @ ''$'' @ r) = ?q @ ''$'' @ u" using assms(3) by (auto simp: prefix_def)
  then have "drop i l @ (?q @ ''$'' @ r) = ?q @ (''$'' @ u)" using assms(4) by simp
  from overlap[OF this] consider v where "drop i l = ?q @ v" | v where "?q = drop i l @ v" "v @ ''$'' @ u = ?q @ ''$'' @ r"
    by blast
  then show False
  proof cases
    case 1
    then have "l = take i l @ ?q @ v" by (metis append_take_drop_id)
    then have "sublist ?q l" by (metis sublist_appendI)
    with assms(1) show False by (simp add: Contains_iff)
  next
    case 2
    show False
    proof (cases v)
      case Nil
      with 2(1) assms(1) show False by (metis Contains_iff append_Nil2 sublist_appendI append_take_drop_id)
    next
      case (Cons c w)
      with 2(2) have "c = CHR ''$''" by simp
      moreover obtain d ds where "drop i l = d # ds" using assms(4) by (cases "drop i l") auto
      with 2(1) Cons have "t = ds @ c # w" by simp
      ultimately show False using assms(2) by simp
    qed
  qed
qed

lemma Index_least: "prefix t (drop k s) \<Longrightarrow> k \<le> length s \<Longrightarrow> (\<And>i. i < k \<Longrightarrow> \<not> prefix t (drop i s)) \<Longrightarrow> Index s t = Some k"
proof (induction k arbitrary: s)
  case 0
  then show ?case by (cases s) auto
next
  case (Suc k)
  then obtain c s' where s: "s = c # s'" by (cases s) auto
  have "Index s' t = Some k"
  proof (rule Suc.IH)
    show "\<not> prefix t (drop i s')" if "i < k" for i using Suc.prems(3)[of "Suc i"] that s by simp
  qed (use Suc.prems s in auto)
  moreover have "\<not> prefix t (c # s')" using Suc.prems(3)[of 0] s by simp
  ultimately show ?case using s by simp
qed

text \<open>
  Claim C30. A literal between dollar tags is read back as it is: when \<open>DollarQuoteString\<close> finds one of its
  eight tags that does not begin anywhere in the literal, the first closing tag the server sees
  after the opening one is the one at the end.
\<close>

theorem DollarQuoteString_roundtrip:
  assumes "first_free literal [0..<length delimStr] = tag" and "tag \<noteq> []"
  shows "\<exists>body. DollarQuoteString literal = tag @ body \<and> read_dollar tag (body @ rest) = Some (literal, rest)"
proof -
  obtain i where i: "tag = CHR ''$'' # take i delimStr @ ''$''" "\<not> Contains literal (CHR ''$'' # take i delimStr)"
    using first_free_tag[of literal "[0..<length delimStr]"] assms by metis
  have "Index ((literal @ tag) @ rest) tag = Some (length literal)"
  proof (rule Index_least)
    fix j assume "j < length literal"
    with tag_not_inside[OF i(2) no_dollar, of j rest] show "\<not> prefix tag (drop j ((literal @ tag) @ rest))"
      by (auto simp: i(1))
  qed simp_all
  then show ?thesis using assms(1) by (intro exI[of _ "literal @ tag"]) (simp add: DollarQuoteString_def read_dollar_def)
qed

theorem DollarQuoteString_roundtrip_witness:
  "\<exists>body. DollarQuoteString ''cost $_$ 5'' = ''$_X$'' @ body \<and> read_dollar ''$_X$'' (body @ '';'') = Some (''cost $_$ 5'', '';'')"
  by (rule DollarQuoteString_roundtrip) code_simp+

text \<open>A literal that holds the beginnings of all tags is left without any quotes.\<close>

lemma DollarQuoteString_unquoted: "DollarQuoteString ''$_XXXXXX'' = ''$_XXXXXX''"
  by code_simp

end
