(* ===== verification/Options.thy ===== *)
theory Options
  imports Gostrings
begin

text \<open>
  Command-line options: \<open>src/option/option.go\<close> and the file and flag helpers of
  \<open>src/utils/util.go\<close> and \<open>src/utils/variable.go\<close> it uses.

  The flag set (package \<open>pflag\<close>) is a record of its query functions, and reading a file is a
  parameter. \<open>Option\<close> holds pointers to tables and maps that its methods change; here every
  such method returns the changed \<open>Option\<close>.

  Shown here: a table or schema name without embedded dots is taken apart as it was put
  together, an option with tables of two databases is refused, the schema map pairs the
  schemas position by position, marking finds a table in the destination exactly when its
  name is in the inventory, and asking twice for the tablespace map of \<open>--dest-tablespace\<close>
  is fatal.
\<close>

section \<open>Flags and files\<close>

record flagset =
  GetString :: "string \<Rightarrow> string res"
  GetInt :: "string \<Rightarrow> int res"
  GetBool :: "string \<Rightarrow> bool res"
  GetStringSlice :: "string \<Rightarrow> string list res"
  Changed :: "string \<Rightarrow> bool"

definition FatalOnError :: "'a res \<Rightarrow> 'a res" where
  "FatalOnError r = (case r of Inl (Error e) \<Rightarrow> Inl (Fatal e) | _ \<Rightarrow> r)"

definition MustGetFlagString :: "flagset \<Rightarrow> string \<Rightarrow> string res" where
  "MustGetFlagString f name = FatalOnError (GetString f name)"

definition MustGetFlagInt :: "flagset \<Rightarrow> string \<Rightarrow> int res" where
  "MustGetFlagInt f name = FatalOnError (GetInt f name)"

definition MustGetFlagBool :: "flagset \<Rightarrow> string \<Rightarrow> bool res" where
  "MustGetFlagBool f name = FatalOnError (GetBool f name)"

definition MustGetFlagStringSlice :: "flagset \<Rightarrow> string \<Rightarrow> string list res" where
  "MustGetFlagStringSlice f name = FatalOnError (GetStringSlice f name)"

lemma FatalOnError_Inr [simp]: "FatalOnError (Inr x) = Inr x"
  by (simp add: FatalOnError_def)

lemmas MustGet_defs = MustGetFlagString_def MustGetFlagInt_def MustGetFlagBool_def
  MustGetFlagStringSlice_def

text \<open>
  \<open>bufio.Scanner\<close> on a file: lines end with a newline, a trailing carriage return is dropped,
  a last line without a newline counts unless it is empty, and a line that does not fit the
  scanner's buffer of 64 KiB ends the scan. \<open>ReadTableFile\<close> does not look at \<open>sc.Err()\<close>.
\<close>

definition maxScanTokenSize :: nat where "maxScanTokenSize = 65536"

definition drop_cr :: "string \<Rightarrow> string" where
  "drop_cr l = (if l \<noteq> [] \<and> last l = CHR 0x0D then butlast l else l)"

fun scan_lines :: "nat \<Rightarrow> string list \<Rightarrow> string list" where
  "scan_lines maxlen [] = []"
| "scan_lines maxlen [l] = (if l = [] \<or> length l \<ge> maxlen then [] else [drop_cr l])"
| "scan_lines maxlen (l # ls) = (if length l \<ge> maxlen then [] else drop_cr l # scan_lines maxlen ls)"

definition ReadTableFile :: "(string \<Rightarrow> string res) \<Rightarrow> string \<Rightarrow> string list res" where
  "ReadTableFile open_file filename =
     rbind (open_file filename) (\<lambda>content. Inr (scan_lines maxScanTokenSize (Split CHR 0x0A content)))"

text \<open>The result \<open>nil\<close> (no file given) differs from an empty slice (an empty file).\<close>

definition ReadTableFileByFlag :: "(string \<Rightarrow> string res) \<Rightarrow> flagset \<Rightarrow> string \<Rightarrow> string list option res" where
  "ReadTableFileByFlag open_file f flag =
     rbind (GetString f flag) (\<lambda>filename.
       if length filename > 0 then rbind (ReadTableFile open_file filename) (\<lambda>t. Inr (Some t))
       else Inr None)"

definition go_lines :: "string list option \<Rightarrow> string list" where
  "go_lines r = (case r of None \<Rightarrow> [] | Some ls \<Rightarrow> ls)"

fun ParseMappingLines :: "string list \<Rightarrow> (string, string) gomap \<Rightarrow> (string, string) gomap res" where
  "ParseMappingLines [] m = Inr m"
| "ParseMappingLines (l # ls) m =
     (case Split CHR '','' l of
        [a, b] \<Rightarrow> ParseMappingLines ls (go_set a b m)
      | _ \<Rightarrow> Inl (Fatal ''invalid mapping file content''))"

definition ParseMappingFile :: "string list \<Rightarrow> (string, string) gomap res" where
  "ParseMappingFile ls = ParseMappingLines ls []"

fun ParseSchemaMappingLines :: "string list \<Rightarrow> (string list \<times> string list) res" where
  "ParseSchemaMappingLines [] = Inr ([], [])"
| "ParseSchemaMappingLines (l # ls) =
     (case Split CHR '','' l of
        [a, b] \<Rightarrow> rbind (ParseSchemaMappingLines ls) (\<lambda>(source, dest). Inr (a # source, b # dest))
      | _ \<Rightarrow> Inl (Fatal ''invalid schema mapping file content''))"

definition ParseSchemaMappingFile :: "string list option \<Rightarrow> (string list \<times> string list) res" where
  "ParseSchemaMappingFile lines =
     rbind (ParseSchemaMappingLines (go_lines lines)) (\<lambda>(source, dest).
       if lines \<noteq> None \<and> source = [] then Inl (Fatal ''schema mapping file should have at lease one record'')
       else Inr (source, dest))"

section \<open>Tables and schemas\<close>

record Table =
  Schema :: string
  Name :: string
  Partition :: int
  RelTuples :: int
  IsReplicated :: bool

record DbTable =
  Database :: string
  db_Table :: Table

record TablePair =
  SrcTable :: Table
  DestTable :: Table

record DbSchema =
  ds_Database :: string
  ds_Schema :: string

record TableStatistics =
  ts_Partition :: int
  ts_RelTuples :: int
  ts_IsReplicated :: bool

record Option =
  copyMode :: string
  tableMode :: string
  connectionMode :: string
  sourceDbnames :: "string list"
  destDbnames :: "string list"
  excludedTables :: "DbTable list"
  includedTables :: "DbTable list"
  destTables :: "DbTable list"
  sourceSchemas :: "DbSchema list"
  destSchemas :: "DbSchema list"
  ownerMap :: "(string, string) gomap"
  tablespaceMap :: "(string, string) gomap"
  destDbInventory :: "(string, (string, unit) gomap) gomap"
  destDbRootParts :: "(string, (string, unit) gomap) gomap"

definition mkTable :: "string \<Rightarrow> string \<Rightarrow> Table" where
  "mkTable s n = \<lparr>Schema = s, Name = n, Partition = 0, RelTuples = 0, IsReplicated = False\<rparr>"

text \<open>
  \<open>FindStringSubmatch\<close> of \<open>^(.+)\.(.+)\.(.+)$\<close>: the groups are greedy, so the first one ends at the
  last dot that leaves a second and third group, the second one at the last dot after that.
  The dot of a regular expression does not match a newline.
\<close>

definition last_such :: "(nat \<Rightarrow> bool) \<Rightarrow> nat list \<Rightarrow> nat option" where
  "last_such P ps = (case filter P (rev ps) of [] \<Rightarrow> None | p # _ \<Rightarrow> Some p)"

definition dot_at :: "string \<Rightarrow> nat \<Rightarrow> nat \<Rightarrow> bool" where
  "dot_at s from q \<longleftrightarrow> from < q \<and> Suc q < length s \<and> s ! q = CHR ''.''"

definition match_fqn :: "string \<Rightarrow> (string \<times> string \<times> string) option" where
  "match_fqn s =
     (if CHR 0x0A \<in> set s then None
      else case last_such (\<lambda>p. dot_at s 0 p \<and> (\<exists>q \<in> set [0..<length s]. dot_at s (Suc p) q)) [0..<length s] of
        None \<Rightarrow> None
      | Some p \<Rightarrow>
          (case last_such (dot_at s (Suc p)) [0..<length s] of
             None \<Rightarrow> None
           | Some q \<Rightarrow> Some (take p s, take (q - Suc p) (drop (Suc p) s), drop (Suc q) s)))"

fun parse_tables :: "string list \<Rightarrow> DbTable list res" where
  "parse_tables [] = Inr []"
| "parse_tables (t # ts) =
     (case match_fqn t of
        None \<Rightarrow> Inl (Error ''Table is not correctly fully-qualified'')
      | Some (d, s, n) \<Rightarrow> rbind (parse_tables ts) (\<lambda>r. Inr (\<lparr>Database = d, db_Table = mkTable s n\<rparr> # r)))"

definition validateTables :: "string list \<Rightarrow> DbTable list res" where
  "validateTables tableList =
     rbind (parse_tables tableList) (\<lambda>result.
       if length (remdups (map Database result)) > 1
       then Inl (Error ''All tables should belong to the same database'') else Inr result)"

fun parse_schemas :: "string list \<Rightarrow> DbSchema list res" where
  "parse_schemas [] = Inr []"
| "parse_schemas (schema # schemas) =
     (case Split CHR ''.'' schema of
        [d, s] \<Rightarrow> rbind (parse_schemas schemas) (\<lambda>r. Inr (\<lparr>ds_Database = d, ds_Schema = s\<rparr> # r))
      | _ \<Rightarrow> Inl (Error ''Schema is not correctly fully-qualified''))"

definition validateSchemas :: "string list \<Rightarrow> DbSchema list res" where
  "validateSchemas schemas =
     rbind (parse_schemas schemas) (\<lambda>result.
       if length (remdups (map ds_Database result)) > 1
       then Inl (Error ''All schemas should belong to the same database'') else Inr result)"

section \<open>NewOption\<close>

definition getTables :: "(string \<Rightarrow> string res) \<Rightarrow> flagset \<Rightarrow> string \<Rightarrow> string \<Rightarrow> DbTable list res" where
  "getTables open_file f tableFlag fileFlag =
     rbind (GetStringSlice f tableFlag) (\<lambda>tables.
     rbind (if length tables = 0 then rbind (ReadTableFileByFlag open_file f fileFlag) (\<lambda>r. Inr (go_lines r))
            else Inr tables) validateTables)"

definition getSchemas :: "(string \<Rightarrow> string res) \<Rightarrow> flagset \<Rightarrow> string \<Rightarrow>
    (DbSchema list \<times> DbSchema list \<times> string) res" where
  "getSchemas open_file f mode =
     rbind (GetStringSlice f ''schema'') (\<lambda>schemas.
     let mode = (if length schemas > 0 then ''schema'' else mode) in
     rbind (validateSchemas schemas) (\<lambda>source.
     rbind (GetStringSlice f ''dest-schema'') (\<lambda>schemas.
     rbind (validateSchemas schemas) (\<lambda>dest.
       if length source = 0 then
         rbind (ReadTableFileByFlag open_file f ''schema-mapping-file'') (\<lambda>content.
         rbind (ParseSchemaMappingFile content) (\<lambda>(ss, ds).
           if length ss > 0 then
             rbind (validateSchemas ss) (\<lambda>source. rbind (validateSchemas ds) (\<lambda>dest. Inr (source, dest, ''schema'')))
           else Inr (source, dest, mode)))
       else Inr (source, dest, mode)))))"

definition getMapping :: "(string \<Rightarrow> string res) \<Rightarrow> flagset \<Rightarrow> string \<Rightarrow> (string, string) gomap res" where
  "getMapping open_file f fileFlag =
     rbind (ReadTableFileByFlag open_file f fileFlag) (\<lambda>r. ParseMappingFile (go_lines r))"

text \<open>\<open>b, _ := GetBool(name)\<close>: an error is ignored and the value is then false.\<close>

definition flag_bool :: "flagset \<Rightarrow> string \<Rightarrow> bool" where
  "flag_bool f name = (case GetBool f name of Inl _ \<Rightarrow> False | Inr b \<Rightarrow> b)"

definition NewOption :: "(string \<Rightarrow> string res) \<Rightarrow> flagset \<Rightarrow> Option res" where
  "NewOption open_file f =
     rbind (GetString f ''connection-mode'') (\<lambda>connMode.
     rbind (GetStringSlice f ''dbname'') (\<lambda>srcDbs.
     let mode = (if length srcDbs > 0 then ''db'' else ''full'') in
     rbind (GetStringSlice f ''dest-dbname'') (\<lambda>dstDbs.
     rbind (getTables open_file f ''exclude-table'' ''exclude-table-file'') (\<lambda>exclude.
     rbind (getSchemas open_file f mode) (\<lambda>(source, dest, mode).
     rbind (getTables open_file f ''include-table'' ''include-table-file'') (\<lambda>include.
     let mode = (if length include > 0 then ''table'' else mode) in
     rbind (getTables open_file f ''dest-table'' ''dest-table-file'') (\<lambda>dstTables.
     let tmode = (if flag_bool f ''append'' then ''append'' else ''truncate'');
         tmode = (if flag_bool f ''skip-existing'' then ''skip-existing'' else tmode) in
     rbind (getMapping open_file f ''owner-mapping-file'') (\<lambda>owners.
     rbind (getMapping open_file f ''tablespace-mapping-file'') (\<lambda>tspaces.
       Inr \<lparr>copyMode = mode, tableMode = tmode, connectionMode = connMode, sourceDbnames = srcDbs,
            destDbnames = dstDbs, excludedTables = exclude, includedTables = include,
            destTables = dstTables, sourceSchemas = source, destSchemas = dest, ownerMap = owners,
            tablespaceMap = tspaces, destDbInventory = [], destDbRootParts = []\<rparr>)))))))))"

section \<open>Methods of Option\<close>

fun schema_map :: "DbSchema list \<Rightarrow> DbSchema list \<Rightarrow> nat \<Rightarrow> (string, string) gomap \<Rightarrow> (string, string) gomap res" where
  "schema_map [] dest i m = Inr m"
| "schema_map (v # vs) dest i m =
     rbind (go_index dest i) (\<lambda>d. schema_map vs dest (Suc i) (go_set (ds_Schema v) (ds_Schema d) m))"

definition GetSchemaMap :: "Option \<Rightarrow> (string, string) gomap res" where
  "GetSchemaMap opt = schema_map (sourceSchemas opt) (destSchemas opt) 0 []"

fun getTablesByDb :: "string \<Rightarrow> DbTable list \<Rightarrow> Table list" where
  "getTablesByDb dbname [] = []"
| "getTablesByDb dbname (t # ts) =
     (if dbname \<noteq> Database t then getTablesByDb dbname ts
      else (mkTable (Schema (db_Table t)) (Name (db_Table t)))\<lparr>Partition := Partition (db_Table t)\<rparr>
           # getTablesByDb dbname ts)"

definition GetIncludeTablesByDb :: "Option \<Rightarrow> string \<Rightarrow> Table list" where
  "GetIncludeTablesByDb opt dbname = getTablesByDb dbname (includedTables opt)"

definition GetDestTablesByDb :: "Option \<Rightarrow> string \<Rightarrow> Table list" where
  "GetDestTablesByDb opt dbname = getTablesByDb dbname (destTables opt)"

definition GetExclTablesByDb :: "Option \<Rightarrow> string \<Rightarrow> Table list" where
  "GetExclTablesByDb opt dbname = getTablesByDb dbname (excludedTables opt)"

definition GetIncludePartTablesByDb :: "Option \<Rightarrow> string \<Rightarrow> Table list" where
  "GetIncludePartTablesByDb opt dbname = filter (\<lambda>t. Partition t = 1) (GetIncludeTablesByDb opt dbname)"

definition GetTblSourceDbnames :: "Option \<Rightarrow> string list res" where
  "GetTblSourceDbnames opt = rbind (go_index (includedTables opt) 0) (\<lambda>t. Inr [Database t])"

text \<open>The databases of the destination tables; \<open>ks\<close> is the order in which Go visits the set.\<close>

definition dest_db_set :: "Option \<Rightarrow> (string, bool) gomap" where
  "dest_db_set opt = foldl (\<lambda>m t. go_set (Database t) True m) [] (destTables opt)"

definition GetTblDestDbnames :: "((string, bool) gomap \<Rightarrow> string list) \<Rightarrow> Option \<Rightarrow> string list" where
  "GetTblDestDbnames ks opt = ks (dest_db_set opt)"

definition mark_table :: "string \<Rightarrow> (string, TableStatistics) gomap \<Rightarrow> (string, bool) gomap \<Rightarrow> DbTable \<Rightarrow> DbTable" where
  "mark_table dbname userTables partTables t =
     (let k = fqn (Schema (db_Table t)) (Name (db_Table t))
      in if dbname \<noteq> Database t then t
         else if go_has userTables k then t\<lparr>db_Table := (db_Table t)\<lparr>Partition := 0\<rparr>\<rparr>
         else if go_has partTables k then t\<lparr>db_Table := (db_Table t)\<lparr>Partition := 1\<rparr>\<rparr>
         else t)"

definition markTables :: "string \<Rightarrow> DbTable list \<Rightarrow> (string, TableStatistics) gomap \<Rightarrow> (string, bool) gomap \<Rightarrow> DbTable list" where
  "markTables dbname tables userTables partTables = map (mark_table dbname userTables partTables) tables"

definition MarkIncludeTables :: "Option \<Rightarrow> string \<Rightarrow> (string, TableStatistics) gomap \<Rightarrow> (string, bool) gomap \<Rightarrow> Option" where
  "MarkIncludeTables opt dbname userTables partTables =
     opt\<lparr>includedTables := markTables dbname (includedTables opt) userTables partTables\<rparr>"

definition MarkExcludeTables :: "Option \<Rightarrow> string \<Rightarrow> (string, TableStatistics) gomap \<Rightarrow> (string, bool) gomap \<Rightarrow> Option" where
  "MarkExcludeTables opt dbname userTables partTables =
     opt\<lparr>excludedTables := markTables dbname (excludedTables opt) userTables partTables\<rparr>"

definition name_set :: "(string, 'v) gomap \<Rightarrow> (string, unit) gomap" where
  "name_set m = foldl (\<lambda>s k. go_set k () s) [] (go_keys m)"

definition MarkDestTables :: "Option \<Rightarrow> string \<Rightarrow> (string, TableStatistics) gomap \<Rightarrow> (string, bool) gomap \<Rightarrow> Option" where
  "MarkDestTables opt dbname userTables partTables =
     opt\<lparr>destTables := markTables dbname (destTables opt) userTables partTables,
         destDbInventory := go_set dbname (name_set userTables) (destDbInventory opt),
         destDbRootParts := go_set dbname (name_set partTables) (destDbRootParts opt)\<rparr>"

definition in_inventory :: "(string, (string, unit) gomap) gomap \<Rightarrow> string \<Rightarrow> string \<Rightarrow> bool" where
  "in_inventory tabs db name = (case go_get tabs db of None \<Rightarrow> False | Some m \<Rightarrow> go_has m name)"

definition IsDestTableExisting :: "Option \<Rightarrow> string \<Rightarrow> string \<Rightarrow> string \<Rightarrow> bool" where
  "IsDestTableExisting opt destDbName destSchema destName =
     (let name = fqn destSchema destName
      in if in_inventory (destDbInventory opt) destDbName name then True
         else in_inventory (destDbRootParts opt) destDbName name)"

definition TranslateToDestFQN :: "Option \<Rightarrow> string \<Rightarrow> string \<Rightarrow> (string \<times> string) res" where
  "TranslateToDestFQN opt srcSchema srcName =
     rbind (GetSchemaMap opt) (\<lambda>m.
       case go_get m srcSchema of
         Some destSchema \<Rightarrow> if destSchema \<noteq> [] then Inr (destSchema, srcName) else Inr (srcSchema, srcName)
       | None \<Rightarrow> Inr (srcSchema, srcName))"

definition IsBaseTableMode :: "Option \<Rightarrow> bool" where
  "IsBaseTableMode opt \<longleftrightarrow> copyMode opt = ''table'' \<and> length (destTables opt) = 0"

definition ContainsMetadata :: "bool \<Rightarrow> bool \<Rightarrow> bool" where
  "ContainsMetadata metadataOnly dataOnly =
     (if metadataOnly \<or> (\<not> metadataOnly \<and> \<not> dataOnly) then True else False)"

text \<open>
  The receiver is a copy of \<open>Option\<close>, but its field \<open>tablespaceMap\<close> is a reference, so the entry
  added for \<open>--dest-tablespace\<close> stays in the option.
\<close>

definition GetTablespaceMap :: "flagset \<Rightarrow> Option \<Rightarrow> ((string, string) gomap \<times> Option) res" where
  "GetTablespaceMap f opt =
     rbind (MustGetFlagString f ''dest-tablespace'') (\<lambda>destTablespace.
       if length destTablespace > 0 then
         if length (tablespaceMap opt) \<noteq> 0 then Inl (Fatal ''The tablespace map must be empty'')
         else let m = go_set destTablespace [] (tablespaceMap opt) in Inr (m, opt\<lparr>tablespaceMap := m\<rparr>)
       else Inr (tablespaceMap opt, opt))"

fun validatePartTables :: "(string, TableStatistics) gomap \<Rightarrow> DbTable list \<Rightarrow> unit res" where
  "validatePartTables userTables [] = Inr ()"
| "validatePartTables userTables (t # ts) =
     (if Partition (db_Table t) = 1 then Inl (Fatal ''Found partition root table'')
      else if \<not> go_has userTables (fqn (Schema (db_Table t)) (Name (db_Table t)))
      then Inl (Fatal ''table does not exists on database'')
      else validatePartTables userTables ts)"

definition ValidateIncludeTables :: "Option \<Rightarrow> (string, TableStatistics) gomap \<Rightarrow> unit res" where
  "ValidateIncludeTables opt userTables = validatePartTables userTables (includedTables opt)"

definition ValidateExcludeTables :: "Option \<Rightarrow> (string, TableStatistics) gomap \<Rightarrow> unit res" where
  "ValidateExcludeTables opt userTables = validatePartTables userTables (excludedTables opt)"

definition ValidateDestTables :: "Option \<Rightarrow> (string, TableStatistics) gomap \<Rightarrow> unit res" where
  "ValidateDestTables opt userTables = validatePartTables userTables (destTables opt)"

section \<open>Names\<close>

lemma last_such_eq:
  assumes "p < n" and "P p" and "\<And>q. p < q \<Longrightarrow> q < n \<Longrightarrow> \<not> P q"
  shows "last_such P [0..<n] = Some p"
proof -
  have "[0..<n] = [0..<p] @ p # [Suc p..<n]"
    using assms(1) upt_add_eq_append[of 0 p "n - p"] upt_conv_Cons[of p n] by simp
  moreover have "filter P (rev [Suc p..<n]) = []"
    using assms(3) by (auto simp: filter_empty_conv)
  ultimately show ?thesis using assms(2) by (simp add: last_such_def)
qed

lemma match_fqn_put_together:
  assumes "d \<noteq> []" "s \<noteq> []" "n \<noteq> []" and s: "CHR ''.'' \<notin> set s" and n: "CHR ''.'' \<notin> set n"
    and nl: "CHR 0x0A \<notin> set (d @ s @ n)"
  shows "match_fqn (d @ CHR ''.'' # fqn s n) = Some (d, s, n)"
proof -
  let ?t = "d @ CHR ''.'' # fqn s n" and ?p = "length d" and ?q = "length d + 1 + length s"
  have nth: "?t ! i = (if i < ?p then d ! i else if i = ?p then CHR ''.'' else if i < ?q then s ! (i - Suc ?p)
      else if i = ?q then CHR ''.'' else n ! (i - Suc ?q))" if "i < length ?t" for i
    using that by (auto simp: nth_append nth_Cons' fqn_def)
  have only: "i \<le> ?p \<or> i = ?q" if "i < length ?t" "?t ! i = CHR ''.''" for i
  proof (rule ccontr)
    assume "\<not> (i \<le> ?p \<or> i = ?q)"
    then have "?p < i" "i \<noteq> ?q" by auto
    with nth[OF that(1)] that have
      "(i < ?q \<and> s ! (i - Suc ?p) = CHR ''.'') \<or> (?q < i \<and> n ! (i - Suc ?q) = CHR ''.'')"
      by (auto split: if_splits)
    moreover have "i - Suc ?q < length n" if "?q < i" using that \<open>i < length ?t\<close> by (simp add: fqn_def)
    ultimately show False using s n \<open>?p < i\<close> by (auto simp: in_set_conv_nth)
  qed
  then have dots: "dot_at ?t from i \<Longrightarrow> i \<le> ?p \<or> i = ?q" for "from" i
    by (auto simp: dot_at_def)
  have len: "length ?t = ?q + 1 + length n" by (simp add: fqn_def)
  have q: "dot_at ?t (Suc ?p) ?q" using assms(2,3) len nth[of ?q] by (simp add: dot_at_def)
  have "last_such (\<lambda>p. dot_at ?t 0 p \<and> (\<exists>q \<in> set [0..<length ?t]. dot_at ?t (Suc p) q)) [0..<length ?t] = Some ?p"
  proof (rule last_such_eq)
    show "?p < length ?t" using len by simp
    show "dot_at ?t 0 ?p \<and> (\<exists>q \<in> set [0..<length ?t]. dot_at ?t (Suc ?p) q)"
    proof (intro conjI bexI[of _ ?q])
      show "dot_at ?t 0 ?p" using assms(1,3) len nth[of ?p] by (simp add: dot_at_def)
      show "dot_at ?t (Suc ?p) ?q" by (rule q)
      show "?q \<in> set [0..<length ?t]" unfolding len by (simp only: set_upt atLeastLessThan_iff) simp
    qed
  next
    fix p assume "?p < p" "p < length ?t"
    then show "\<not> (dot_at ?t 0 p \<and> (\<exists>q \<in> set [0..<length ?t]. dot_at ?t (Suc p) q))"
    proof (intro notI, elim conjE bexE)
      fix q assume "dot_at ?t 0 p" "dot_at ?t (Suc p) q"
      with dots[of 0 p] dots[of "Suc p" q] \<open>?p < p\<close> show False by (auto simp: dot_at_def)
    qed
  qed
  moreover have "last_such (dot_at ?t (Suc ?p)) [0..<length ?t] = Some ?q"
  proof (rule last_such_eq)
    show "?q < length ?t" unfolding len by simp
    show "\<not> dot_at ?t (Suc ?p) r" if "?q < r" for r using dots[of "Suc ?p" r] that by auto
  qed (rule q)
  ultimately show ?thesis using nl by (simp add: match_fqn_def fqn_def)
qed

lemma parse_tables_facts:
  "parse_tables ts = Inr r \<Longrightarrow> length r = length ts"
  by (induction ts arbitrary: r) (auto simp: rbind_Inr_iff split: option.splits prod.splits)

lemma validateTables_one_db:
  assumes "validateTables ts = Inr r" and "t \<in> set r" and "u \<in> set r"
  shows "Database t = Database u"
proof -
  have "length (remdups (map Database r)) \<le> 1"
    using assms(1) by (auto simp: validateTables_def rbind_Inr_iff split: if_splits)
  then have "card (Database ` set r) \<le> 1" by (simp add: length_remdups_card_conv)
  then show ?thesis using assms(2,3) by (metis One_nat_def card_le_Suc0_iff_eq finite_imageI finite_set image_eqI)
qed

text \<open>The set of names the loop over a map builds has exactly the map's keys.\<close>

lemma foldl_go_set_has:
  "go_has (foldl (\<lambda>s k. go_set k () s) s0 ks) k \<longleftrightarrow> k \<in> set ks \<or> go_has s0 k"
  by (induction ks arbitrary: s0) auto

lemma name_set_has [simp]: "go_has (name_set m) k \<longleftrightarrow> go_has m k"
  unfolding name_set_def foldl_go_set_has by (simp add: go_has_iff)

lemma schema_map_ok:
  "schema_map vs dest i m =
     (if vs = [] \<or> i + length vs \<le> length dest
      then Inr (foldl (\<lambda>m (v, d). go_set (ds_Schema v) (ds_Schema d) m) m (zip vs (drop i dest)))
      else Inl index_panic)"
proof (induction vs arbitrary: i m)
  case Nil
  then show ?case by simp
next
  case (Cons v vs)
  show ?case
  proof (cases "i < length dest")
    case True
    then have "drop i dest = dest ! i # drop (Suc i) dest" by (simp add: Cons_nth_drop_Suc)
    with True Cons.IH show ?thesis by auto
  next
    case False
    then show ?thesis by simp
  qed
qed

lemma foldl_set_distinct:
  assumes "distinct (map f vs)" and "length vs \<le> length ds" and "j < length vs"
  shows "go_get (foldl (\<lambda>m (v, d). go_set (f v) (g d) m) m (zip vs ds)) (f (vs ! j)) = Some (g (ds ! j))"
  using assms
proof (induction vs arbitrary: ds j m)
  case Nil
  then show ?case by simp
next
  case (Cons v vs)
  then obtain d ds' where ds: "ds = d # ds'" by (cases ds) auto
  have keep: "k \<notin> set (map f vs) \<Longrightarrow>
      go_get (foldl (\<lambda>m (v, d). go_set (f v) (g d) m) m' (zip vs ds')) k = go_get m' k" for k m'
  proof (induction vs arbitrary: ds' m')
    case (Cons a vs)
    then show ?case by (cases ds') (auto simp: go_map)
  qed simp
  show ?case
  proof (cases j)
    case 0
    with ds Cons.prems keep[of "f v"] show ?thesis by (simp add: go_map)
  next
    case (Suc j')
    with ds Cons show ?thesis by simp
  qed
qed

section \<open>Properties\<close>

definition table_arg :: "DbTable \<Rightarrow> string" where
  "table_arg t = Database t @ CHR ''.'' # fqn (Schema (db_Table t)) (Name (db_Table t))"

definition plain_table :: "DbTable \<Rightarrow> bool" where
  "plain_table t \<longleftrightarrow> Database t \<noteq> [] \<and> Schema (db_Table t) \<noteq> [] \<and> Name (db_Table t) \<noteq> [] \<and>
     CHR ''.'' \<notin> set (Schema (db_Table t) @ Name (db_Table t)) \<and>
     CHR 0x0A \<notin> set (Database t @ Schema (db_Table t) @ Name (db_Table t)) \<and>
     db_Table t = mkTable (Schema (db_Table t)) (Name (db_Table t))"

text \<open>
  A table given as \<open>database.schema.table\<close>, where schema and table hold no dot, is taken
  apart into exactly these three names (the database name may hold dots), and tables of one
  database are accepted in the order given.
\<close>

theorem validateTables_roundtrip:
  assumes "\<forall>t\<in>set ts. plain_table t" and "\<forall>t\<in>set ts. Database t = db"
  shows "validateTables (map table_arg ts) = Inr ts"
proof -
  have one: "match_fqn (table_arg t) = Some (Database t, Schema (db_Table t), Name (db_Table t))"
    "\<lparr>Database = Database t, db_Table = mkTable (Schema (db_Table t)) (Name (db_Table t))\<rparr> = t"
    if "plain_table t" for t
    using that match_fqn_put_together by (auto simp: plain_table_def table_arg_def)
  have "parse_tables (map table_arg ts) = Inr ts"
    using assms(1) by (induction ts) (auto simp: one)
  moreover have "card (Database ` set ts) \<le> 1"
    using assms(2) by (auto simp: card_le_Suc0_iff_eq)
  ultimately show ?thesis by (simp add: validateTables_def length_remdups_card_conv)
qed

theorem validateTables_roundtrip_witness:
  "validateTables [''my.db.public.t1'', ''my.db.sales.t2''] =
     Inr [\<lparr>Database = ''my.db'', db_Table = mkTable ''public'' ''t1''\<rparr>,
          \<lparr>Database = ''my.db'', db_Table = mkTable ''sales'' ''t2''\<rparr>]"
proof -
  let ?ts = "[\<lparr>Database = ''my.db'', db_Table = mkTable ''public'' ''t1''\<rparr>,
    \<lparr>Database = ''my.db'', db_Table = mkTable ''sales'' ''t2''\<rparr>]"
  have "\<forall>t\<in>set ?ts. plain_table t" "\<forall>t\<in>set ?ts. Database t = ''my.db''"
    by (simp_all add: plain_table_def mkTable_def)
  moreover have "map table_arg ?ts = [''my.db.public.t1'', ''my.db.sales.t2'']"
    by (simp add: table_arg_def fqn_def mkTable_def)
  ultimately show ?thesis using validateTables_roundtrip[of ?ts "''my.db''"] by metis
qed

text \<open>
  After \<open>MarkDestTables\<close> for a database, \<open>IsDestTableExisting\<close> answers for it exactly
  whether the name is one of the user tables or one of the partition roots found there, and
  its answers for the other databases do not change.
\<close>

theorem IsDestTableExisting_MarkDestTables:
  "IsDestTableExisting (MarkDestTables opt db userTables partTables) db' sch n =
     (if db' = db then go_has userTables (fqn sch n) \<or> go_has partTables (fqn sch n)
      else IsDestTableExisting opt db' sch n)"
  by (auto simp: IsDestTableExisting_def MarkDestTables_def in_inventory_def go_map Let_def)

text \<open>
  When the source schemas are distinct and every one has a destination schema at the
  same position, \<open>TranslateToDestFQN\<close> maps the i-th source schema to the i-th destination schema
  (kept as it is when that is empty) and never changes the table name. With fewer destination
  than source schemas the lookup panics.
\<close>

theorem TranslateToDestFQN_positions:
  assumes "distinct (map ds_Schema (sourceSchemas opt))" and "j < length (sourceSchemas opt)"
  shows "TranslateToDestFQN opt (ds_Schema (sourceSchemas opt ! j)) n =
    (if length (sourceSchemas opt) \<le> length (destSchemas opt)
     then Inr (if ds_Schema (destSchemas opt ! j) = [] then ds_Schema (sourceSchemas opt ! j)
               else ds_Schema (destSchemas opt ! j), n)
     else Inl index_panic)"
proof -
  have "sourceSchemas opt \<noteq> []" using assms(2) by auto
  then show ?thesis
    using foldl_set_distinct[OF assms(1) _ assms(2), of "destSchemas opt" ds_Schema "[]"]
    by (simp add: TranslateToDestFQN_def GetSchemaMap_def schema_map_ok)
qed

definition demo_opt :: Option where
  "demo_opt = \<lparr>copyMode = ''schema'', tableMode = ''truncate'', connectionMode = ''push'',
     sourceDbnames = [], destDbnames = [], excludedTables = [], includedTables = [], destTables = [],
     sourceSchemas = [\<lparr>ds_Database = ''a'', ds_Schema = ''s1''\<rparr>, \<lparr>ds_Database = ''a'', ds_Schema = ''s2''\<rparr>],
     destSchemas = [\<lparr>ds_Database = ''b'', ds_Schema = ''d1''\<rparr>, \<lparr>ds_Database = ''b'', ds_Schema = ''d2''\<rparr>],
     ownerMap = [], tablespaceMap = [], destDbInventory = [], destDbRootParts = []\<rparr>"

theorem TranslateToDestFQN_positions_witness:
  "TranslateToDestFQN demo_opt ''s2'' ''t'' = Inr (''d2'', ''t'')"
  using TranslateToDestFQN_positions[of demo_opt 1 "''t''"] by (simp add: demo_opt_def)

text \<open>
  With \<open>--dest-tablespace\<close>, the first call of \<open>GetTablespaceMap\<close> stores its entry in the
  option's map, so the second call, for the second database, ends the program.
\<close>

theorem GetTablespaceMap_twice:
  assumes "GetString f ''dest-tablespace'' = Inr ts" and "ts \<noteq> []" and "tablespaceMap opt = []"
  shows "\<exists>opt'. GetTablespaceMap f opt = Inr ([(ts, [])], opt') \<and>
    GetTablespaceMap f opt' = Inl (Fatal ''The tablespace map must be empty'')"
  using assms by (auto simp: GetTablespaceMap_def MustGet_defs Let_def)

definition demo_flags :: flagset where
  "demo_flags = \<lparr>GetString = (\<lambda>n. Inr (if n = ''dest-tablespace'' then ''ts1'' else if n = ''connection-mode'' then ''push'' else [])),
     GetInt = (\<lambda>_. Inr 0), GetBool = (\<lambda>_. Inr False), GetStringSlice = (\<lambda>_. Inr []), Changed = (\<lambda>_. False)\<rparr>"

theorem GetTablespaceMap_twice_witness:
  "\<exists>opt'. GetTablespaceMap demo_flags demo_opt = Inr ([(''ts1'', [])], opt') \<and>
    GetTablespaceMap demo_flags opt' = Inl (Fatal ''The tablespace map must be empty'')"
  by (rule GetTablespaceMap_twice) (simp_all add: demo_flags_def demo_opt_def)

end
