(* ===== verification/Dbconn.thy ===== *)
theory Dbconn
  imports Gostrings
begin

text \<open>
  The connection pool of \<open>src/internal/dbconn/dbconn.go\<close>: a number of single-session
  connections, each with at most one transaction in progress. The driver (packages \<open>sqlx\<close> and
  \<open>pgx\<close>) and the server are parameters: a record of functions on a server state.

  Every operation is a state transformer that returns an outcome and the new connection.
  Shown here, once for an abstract session (locale \<open>session\<close>) and then for the pool: which
  operations keep, open and close a transaction, also when they fail. A \<open>Begin\<close> whose isolation
  level statement fails leaves the transaction open.
\<close>

section \<open>State transformers with errors\<close>

type_synonym ('s, 'a) op = "'s \<Rightarrow> 'a res \<times> 's"

definition oret :: "'a \<Rightarrow> ('s, 'a) op" where
  "oret a s = (Inr a, s)"

definition ofail :: "goerr \<Rightarrow> ('s, 'a) op" where
  "ofail e s = (Inl e, s)"

definition olift :: "'a res \<Rightarrow> ('s, 'a) op" where
  "olift r s = (r, s)"

definition obind :: "('s, 'a) op \<Rightarrow> ('a \<Rightarrow> ('s, 'b) op) \<Rightarrow> ('s, 'b) op" where
  "obind m f s = (case m s of (Inl e, s') \<Rightarrow> (Inl e, s') | (Inr a, s') \<Rightarrow> f a s')"

lemma op_simps [simp]:
  "oret a s = (Inr a, s)" "ofail e s = (Inl e, s)" "olift r s = (r, s)"
  by (simp_all add: oret_def ofail_def olift_def)

lemma obind_cases:
  obtains e s' where "m s = (Inl e, s')" "obind m f s = (Inl e, s')"
  | a s' where "m s = (Inr a, s')" "obind m f s = f a s'"
proof (cases "m s")
  case (Pair r s')
  with that show thesis by (cases r) (auto simp: obind_def)
qed

text \<open>
  \<open>keeps V T m\<close>: from a state with \<open>V\<close> and \<open>T\<close>, the operation always leaves \<open>V\<close>, and also \<open>T\<close> when it
  does not fail. Compositions of such operations are such operations.
\<close>

definition keeps :: "('s \<Rightarrow> bool) \<Rightarrow> ('s \<Rightarrow> bool) \<Rightarrow> ('s, 'a) op \<Rightarrow> bool" where
  "keeps V T m \<longleftrightarrow> (\<forall>s. V s \<and> T s \<longrightarrow> V (snd (m s)) \<and> (\<forall>a. fst (m s) = Inr a \<longrightarrow> T (snd (m s))))"

named_theorems keeping \<open>operations that keep an invariant\<close>

lemma keeps_basic [keeping]: "keeps V T (oret a)" "keeps V T (ofail e)" "keeps V T (olift r)"
  by (simp_all add: keeps_def)

lemma keeps_obind [keeping]:
  assumes "keeps V T m" and "\<And>a. keeps V T (f a)"
  shows "keeps V T (obind m f)"
  unfolding keeps_def
proof (intro allI impI)
  fix s assume s: "V s \<and> T s"
  show "V (snd (obind m f s)) \<and> (\<forall>a. fst (obind m f s) = Inr a \<longrightarrow> T (snd (obind m f s)))"
  proof (rule obind_cases[of m s f])
    fix e s' assume "m s = (Inl e, s')" "obind m f s = (Inl e, s')"
    with assms(1) s show ?thesis by (auto simp: keeps_def)
  next
    fix a s' assume m: "m s = (Inr a, s')" "obind m f s = f a s'"
    with assms(1) s have "V s' \<and> T s'" unfolding keeps_def by (metis fst_conv snd_conv)
    with assms(2)[of a] m show ?thesis by (simp add: keeps_def)
  qed
qed

section \<open>The pool\<close>

record 'db driver =
  drv_connect :: "nat \<Rightarrow> 'db \<Rightarrow> unit res \<times> 'db"
  drv_close :: "nat \<Rightarrow> 'db \<Rightarrow> 'db"
  drv_begin :: "nat \<Rightarrow> 'db \<Rightarrow> unit res \<times> 'db"
  drv_commit :: "nat \<Rightarrow> 'db \<Rightarrow> unit res \<times> 'db"
  drv_rollback :: "nat \<Rightarrow> 'db \<Rightarrow> unit res \<times> 'db"
  drv_exec :: "bool \<Rightarrow> nat \<Rightarrow> string \<Rightarrow> 'db \<Rightarrow> int res \<times> 'db"

text \<open>
  \<open>pool\<close> says whether \<open>ConnPool\<close> is not nil, \<open>Tx\<close> which connections have a transaction. The first
  argument of \<open>drv_exec\<close> says whether the statement goes through the transaction object.
\<close>

record 'db DBConn =
  DBName :: string
  pool :: bool
  NumConns :: nat
  Tx :: "bool list"
  server :: 'db

definition ValidateConnNum :: "int list \<Rightarrow> 'db DBConn \<Rightarrow> nat res" where
  "ValidateConnNum whichConn d =
     (case whichConn of
        [] \<Rightarrow> Inr 0
      | [c] \<Rightarrow> if c < 0 \<or> c \<ge> int (NumConns d) then Inl (Fatal ''Invalid connection number'') else Inr (nat c)
      | _ \<Rightarrow> Inl (Fatal ''At most one connection number may be specified for a given connection''))"

text \<open>The test of \<open>dbconn.Tx[connNum] != nil\<close>, shared by all operations.\<close>

definition tx_of :: "int list \<Rightarrow> ('db DBConn, nat \<times> bool) op" where
  "tx_of whichConn d = (rbind (ValidateConnNum whichConn d) (\<lambda>c. rbind (go_index (Tx d) c) (\<lambda>t. Inr (c, t))), d)"

definition Exec :: "'db driver \<Rightarrow> string \<Rightarrow> int list \<Rightarrow> ('db DBConn, int) op" where
  "Exec drv query whichConn = obind (tx_of whichConn) (\<lambda>(c, t) d.
     case drv_exec drv t c query (server d) of (r, db) \<Rightarrow> (r, d\<lparr>server := db\<rparr>))"

definition isolation :: string where
  "isolation = ''SET TRANSACTION ISOLATION LEVEL SERIALIZABLE''"

definition Begin :: "'db driver \<Rightarrow> int list \<Rightarrow> ('db DBConn, unit) op" where
  "Begin drv whichConn = obind (tx_of whichConn) (\<lambda>(c, t).
     if t then ofail (Error ''Cannot begin transaction; there is already a transaction in progress'')
     else (\<lambda>d. case drv_begin drv c (server d) of
         (Inl e, db) \<Rightarrow> (Inl e, d\<lparr>server := db, Tx := (Tx d)[c := False]\<rparr>)
       | (Inr _, db) \<Rightarrow>
           obind (Exec drv isolation [int c]) (\<lambda>_. oret ()) (d\<lparr>server := db, Tx := (Tx d)[c := True]\<rparr>)))"

definition end_tx :: "(nat \<Rightarrow> 'db \<Rightarrow> unit res \<times> 'db) \<Rightarrow> string \<Rightarrow> int list \<Rightarrow> ('db DBConn, unit) op" where
  "end_tx f msg whichConn = obind (tx_of whichConn) (\<lambda>(c, t).
     if \<not> t then ofail (Error msg)
     else (\<lambda>d. case f c (server d) of (r, db) \<Rightarrow> (r, d\<lparr>server := db, Tx := (Tx d)[c := False]\<rparr>)))"

definition Commit :: "'db driver \<Rightarrow> int list \<Rightarrow> ('db DBConn, unit) op" where
  "Commit drv = end_tx (drv_commit drv) ''Cannot commit transaction; there is no transaction in progress''"

definition Rollback :: "'db driver \<Rightarrow> int list \<Rightarrow> ('db DBConn, unit) op" where
  "Rollback drv = end_tx (drv_rollback drv) ''Cannot rollback transaction; there is no transaction in progress''"

text \<open>\<open>ExecContext\<close> differs from \<open>Exec\<close> only in that the driver can cancel it.\<close>

definition ExecContext :: "'db driver \<Rightarrow> string \<Rightarrow> int list \<Rightarrow> ('db DBConn, int) op" where
  "ExecContext drv query whichConn = Exec drv query whichConn"

text \<open>
  \<open>Connect\<close>: the connections are opened one after the other, and the version query runs on the
  first one. A failed connection leaves \<open>ConnPool\<close> set, so connecting again without closing is
  an error.
\<close>

fun connect_loop :: "'db driver \<Rightarrow> nat \<Rightarrow> nat \<Rightarrow> ('db DBConn, unit) op" where
  "connect_loop drv i 0 d = (Inr (), d)"
| "connect_loop drv i (Suc n) d =
     (case drv_connect drv i (server d) of
        (Inl e, db) \<Rightarrow> (Inl e, d\<lparr>server := db\<rparr>)
      | (Inr _, db) \<Rightarrow> connect_loop drv (Suc i) n (d\<lparr>server := db\<rparr>))"

definition Connect :: "'db driver \<Rightarrow> ('db DBConn, unit) op \<Rightarrow> int \<Rightarrow> ('db DBConn, unit) op" where
  "Connect drv initVersion numConns d =
     (if numConns < 1 then (Inl (Error ''Must specify a connection pool size that is a positive integer''), d)
      else if pool d then (Inl (Error ''The database connection must be closed before reusing the connection''), d)
      else obind (connect_loop drv 0 (nat numConns)) (\<lambda>_ d.
        initVersion (d\<lparr>Tx := replicate (nat numConns) False, NumConns := nat numConns\<rparr>)) (d\<lparr>pool := True\<rparr>))"

definition Close :: "'db driver \<Rightarrow> 'db DBConn \<Rightarrow> 'db DBConn" where
  "Close drv d = (if pool d
     then d\<lparr>server := foldl (\<lambda>db i. drv_close drv i db) (server d) [0..<NumConns d],
            pool := False, Tx := [], NumConns := 0\<rparr> else d)"

definition SelectString :: "string list res \<Rightarrow> string res" where
  "SelectString rows = rbind rows (\<lambda>results.
     if length results = 1 then go_index results 0
     else if length results > 1 then Inl (Error ''Too many rows returned from query'')
     else Inr [])"

section \<open>Sessions\<close>

text \<open>
  What a client of a pool relies on for the connection it owns: executing a statement keeps
  the transaction state, ending a transaction clears it also when it fails, and beginning one
  sets it when it succeeds.
\<close>

locale session =
  fixes exec :: "string \<Rightarrow> ('s, int) op"
    and begin_tx commit rollback :: "('s, unit) op"
    and in_tx valid :: "'s \<Rightarrow> bool"
  assumes exec_keeps: "valid s \<Longrightarrow> valid (snd (exec q s)) \<and> in_tx (snd (exec q s)) = in_tx s"
    and begin_ok: "valid s \<Longrightarrow> valid (snd (begin_tx s)) \<and>
      (fst (begin_tx s) = Inr () \<longrightarrow> \<not> in_tx s \<and> in_tx (snd (begin_tx s)))"
    and commit_ends: "valid s \<Longrightarrow> valid (snd (commit s)) \<and> \<not> in_tx (snd (commit s)) \<and>
      (fst (commit s) = Inr () \<longrightarrow> in_tx s)"
    and rollback_ends: "valid s \<Longrightarrow> valid (snd (rollback s)) \<and> \<not> in_tx (snd (rollback s))"
begin

lemma commit_begin:
  assumes "valid s"
  shows "valid (snd (obind commit (\<lambda>_. begin_tx) s)) \<and>
    (fst (obind commit (\<lambda>_. begin_tx) s) = Inr () \<longrightarrow> in_tx s \<and> in_tx (snd (obind commit (\<lambda>_. begin_tx) s)))"
proof (rule obind_cases[of commit s "\<lambda>_. begin_tx"])
  fix e s' assume "commit s = (Inl e, s')" "obind commit (\<lambda>_. begin_tx) s = (Inl e, s')"
  then show ?thesis using commit_ends[OF assms] by simp
next
  fix a s' assume c: "commit s = (Inr a, s')" "obind commit (\<lambda>_. begin_tx) s = begin_tx s'"
  then have "valid s'" "in_tx s" using commit_ends[OF assms] by simp_all
  with c(2) begin_ok[of s'] show ?thesis by simp
qed

lemma exec_kept: "keeps valid in_tx (exec q)"
  using exec_keeps by (simp add: keeps_def)

lemma commit_begin_kept: "keeps valid in_tx (obind commit (\<lambda>_. begin_tx))"
  using commit_begin by (simp add: keeps_def)

lemma commit_or_rollback:
  assumes "valid s"
  shows "\<not> in_tx (snd (commit s)) \<and> \<not> in_tx (snd (rollback s))"
  using commit_ends[OF assms] rollback_ends[OF assms] by blast

end

section \<open>One connection of the pool is a session\<close>

definition conn_ok :: "nat \<Rightarrow> 'db DBConn \<Rightarrow> bool" where
  "conn_ok w d \<longleftrightarrow> w < NumConns d \<and> w < length (Tx d)"

lemma tx_of_ok: "conn_ok w d \<Longrightarrow> tx_of [int w] d = (Inr (w, Tx d ! w), d)"
  by (simp add: tx_of_def conn_ok_def ValidateConnNum_def)

lemma Exec_ok:
  assumes "conn_ok w d"
  shows "Exec drv q [int w] d =
    (fst (drv_exec drv (Tx d ! w) w q (server d)), d\<lparr>server := snd (drv_exec drv (Tx d ! w) w q (server d))\<rparr>)"
  using assms by (simp add: Exec_def obind_def tx_of_ok case_prod_beta)

lemma Begin_ok:
  assumes "conn_ok w d"
  shows "conn_ok w (snd (Begin drv [int w] d)) \<and>
    (fst (Begin drv [int w] d) = Inr () \<longrightarrow> \<not> Tx d ! w \<and> Tx (snd (Begin drv [int w] d)) ! w)"
proof (cases "Tx d ! w")
  case True
  with assms show ?thesis by (simp add: Begin_def obind_def tx_of_ok)
next
  case False
  obtain r db where b: "drv_begin drv w (server d) = (r, db)" by fastforce
  let ?d = "d\<lparr>server := db, Tx := (Tx d)[w := True]\<rparr>"
  have ok: "conn_ok w ?d" "Tx ?d ! w" using assms by (simp_all add: conn_ok_def)
  have keep: "conn_ok w (snd (Exec drv q [int w] ?d)) \<and> Tx (snd (Exec drv q [int w] ?d)) ! w" for q
    using ok by (simp add: Exec_ok[OF ok(1)] conn_ok_def)
  show ?thesis
  proof (cases r)
    case (Inl e)
    with False b assms show ?thesis by (simp add: Begin_def obind_def tx_of_ok conn_ok_def)
  next
    case (Inr u)
    then have "Begin drv [int w] d = obind (Exec drv isolation [int w]) (\<lambda>_. oret ()) ?d"
      using False b assms by (simp add: Begin_def obind_def tx_of_ok)
    with keep[of isolation] False show ?thesis
      by (cases rule: obind_cases[of "Exec drv isolation [int w]" ?d "\<lambda>_. oret ()"]) auto
  qed
qed

lemma end_tx_ok:
  assumes "conn_ok w d"
  shows "conn_ok w (snd (end_tx f msg [int w] d)) \<and> \<not> Tx (snd (end_tx f msg [int w] d)) ! w \<and>
    (fst (end_tx f msg [int w] d) = Inr () \<longrightarrow> Tx d ! w)"
  using assms by (auto simp: end_tx_def obind_def tx_of_ok conn_ok_def split: prod.splits)

interpretation db: session "\<lambda>q. Exec drv q [int w]" "Begin drv [int w]" "Commit drv [int w]" "Rollback drv [int w]"
    "\<lambda>d. Tx d ! w" "conn_ok w" for drv :: "'db driver" and w
proof
  fix s :: "'db DBConn" and q
  assume ok: "conn_ok w s"
  show "conn_ok w (snd (Exec drv q [int w] s)) \<and> Tx (snd (Exec drv q [int w] s)) ! w = Tx s ! w"
    using ok by (simp add: Exec_ok[OF ok] conn_ok_def)
  show "conn_ok w (snd (Begin drv [int w] s)) \<and>
    (fst (Begin drv [int w] s) = Inr () \<longrightarrow> \<not> Tx s ! w \<and> Tx (snd (Begin drv [int w] s)) ! w)"
    by (rule Begin_ok[OF ok])
  show "conn_ok w (snd (Commit drv [int w] s)) \<and> \<not> Tx (snd (Commit drv [int w] s)) ! w \<and>
    (fst (Commit drv [int w] s) = Inr () \<longrightarrow> Tx s ! w)"
    unfolding Commit_def by (rule end_tx_ok[OF ok])
  show "conn_ok w (snd (Rollback drv [int w] s)) \<and> \<not> Tx (snd (Rollback drv [int w] s)) ! w"
    using end_tx_ok[OF ok] unfolding Rollback_def by blast
qed

end
