(* ===== verification/Strategy.thy ===== *)
theory Strategy
  imports Options Dbconn
begin

text \<open>
  The copy strategies of \<open>src/copy/copy_command.go\<close> and the list of listener ports of
  \<open>src/copy/copy_port_helper.go\<close>. A strategy says which COPY or external-table command runs on
  the source and on the destination, and thereby which helper process listens and which one
  dials which address.

  Shown here: the strategy that is chosen, the port list sorted by segment without duplicates,
  the address lists position by position, and the numbers of clients each listener is told to
  expect. The theory \<open>Pairing\<close> puts them together with the helper's side.
\<close>

section \<open>Segments and ports\<close>

record SegmentHostInfo =
  Content :: int
  Hostname :: string

record HelperPortInfo =
  hp_Content :: int
  hp_Port :: int

text \<open>
  \<open>processPortList\<close>: the first port of every segment, in the order of the segment numbers.
  \<open>sort.Ints\<close> makes the order in which Go visits the map irrelevant.
\<close>

definition port_map :: "HelperPortInfo list \<Rightarrow> (int, int) gomap" where
  "port_map hpis = foldl (\<lambda>m p. if go_has m (hp_Content p) then m else go_set (hp_Content p) (hp_Port p) m) [] hpis"

definition go_int :: "('k, int) gomap \<Rightarrow> 'k \<Rightarrow> int" where
  "go_int m k = (case go_get m k of None \<Rightarrow> 0 | Some v \<Rightarrow> v)"

definition processPortList :: "((int, int) gomap \<Rightarrow> int list) \<Rightarrow> HelperPortInfo list \<Rightarrow> HelperPortInfo list" where
  "processPortList ks hpis =
     (let segMap = port_map hpis
      in map (\<lambda>k. \<lparr>hp_Content = k, hp_Port = go_int segMap k\<rparr>) (sort (ks segMap)))"

text \<open>
  \<open>GetHelperPortList\<close>: the query is a parameter; no rows is an empty list, to be retried.
\<close>

definition GetHelperPortList :: "((int, int) gomap \<Rightarrow> int list) \<Rightarrow> (string \<Rightarrow> HelperPortInfo list res) \<Rightarrow>
    string \<Rightarrow> string \<Rightarrow> bool \<Rightarrow> HelperPortInfo list res" where
  "GetHelperPortList ks select timestamp cmdId isMasterCopy =
     (let target = (if isMasterCopy then ''onmaster'' else ''onall'');
          query = NL @ TAB @ ''SELECT segID AS content, port AS port'' @ NL @ TAB @
            ''FROM public.cbcopy_ports_temp_'' @ target @ ''_'' @ timestamp @ NL @ TAB @
            ''WHERE cmdID = '' @ [SQ] @ cmdId @ [SQ]
      in rbind (select query) (\<lambda>hpis. if length hpis = 0 then Inr hpis else Inr (processPortList ks hpis)))"

text \<open>Creating the two tables that show the port files: an existing table is not an error.\<close>

definition port_table_query :: "string \<Rightarrow> string \<Rightarrow> string \<Rightarrow> string" where
  "port_table_query target location timestamp =
     NL @ TAB @ TAB @ ''CREATE EXTERNAL WEB TABLE public.cbcopy_ports_temp_'' @ target @ ''_'' @ timestamp @ '' '' @
     NL @ TAB @ TAB @ ''(cmdID text, segID int, port int) '' @
     NL @ TAB @ TAB @ ''EXECUTE '' @ [SQ] @ ''cat /tmp/cbcopy-*.txt 2>/dev/null || true'' @ [SQ] @ '' '' @
     NL @ TAB @ TAB @ ''ON '' @ location @ '' FORMAT '' @ [SQ] @ ''TEXT'' @ [SQ]"

definition tolerate_existing :: "string \<Rightarrow> unit res \<Rightarrow> unit res" where
  "tolerate_existing msg r =
     (case r of Inl (Error e) \<Rightarrow> if Contains e ''already exists'' then Inr () else Inl (Error (msg @ e)) | _ \<Rightarrow> r)"

definition CreateHelperPortTable :: "(string \<Rightarrow> unit res) \<Rightarrow> string \<Rightarrow> unit res" where
  "CreateHelperPortTable exec timestamp =
     rbind (tolerate_existing ''failed to create master port table: '' (exec (port_table_query ''onmaster'' ''MASTER'' timestamp))) (\<lambda>_.
       tolerate_existing ''failed to create segment port table: '' (exec (port_table_query ''onall'' ''ALL'' timestamp)))"

section \<open>The common part of the strategies\<close>

record CopyBase =
  WorkerId :: nat
  SrcSegmentsHostInfo :: "SegmentHostInfo list"
  DestSegmentsHostInfo :: "SegmentHostInfo list"
  ConnectionMode :: string
  CompArg :: string

definition FormMasterHelperAddress :: "flagset \<Rightarrow> CopyBase \<Rightarrow> HelperPortInfo list \<Rightarrow> (string \<times> string) res" where
  "FormMasterHelperAddress f cc ports =
     rbind (if ConnectionMode cc = ''push'' then MustGetFlagString f ''dest-host''
            else MustGetFlagString f ''source-host'') (\<lambda>ip.
     rbind (go_index ports 0) (\<lambda>p. Inr (Itoa (hp_Port p), ip)))"

fun hosts_upto :: "SegmentHostInfo list \<Rightarrow> nat \<Rightarrow> string list res" where
  "hosts_upto segs 0 = Inr []"
| "hosts_upto segs (Suc n) =
     rbind (hosts_upto segs n) (\<lambda>is. rbind (go_index segs n) (\<lambda>s. Inr (is @ [Hostname s])))"

definition FormAllSegsHelperAddress :: "CopyBase \<Rightarrow> HelperPortInfo list \<Rightarrow> (string \<times> string) res" where
  "FormAllSegsHelperAddress cc ports =
     (let targets = (if ConnectionMode cc = ''push'' then DestSegmentsHostInfo cc else SrcSegmentsHostInfo cc);
          ps = map (Itoa \<circ> hp_Port) ports
      in rbind (hosts_upto targets (length ps)) (\<lambda>is. Inr (Join ps '','', Join is '','')))"

text \<open>The loop over the source segments that goes round the destination segments with \<open>j\<close>.\<close>

fun dest_segs_loop :: "CopyBase \<Rightarrow> HelperPortInfo list \<Rightarrow> nat \<Rightarrow> nat \<Rightarrow> string list \<Rightarrow> string list \<Rightarrow>
    (string list \<times> string list) res" where
  "dest_segs_loop cc ports 0 j ps is = Inr (ps, is)"
| "dest_segs_loop cc ports (Suc n) j ps is =
     rbind (go_index ports j) (\<lambda>p. rbind (go_index (DestSegmentsHostInfo cc) j) (\<lambda>d.
       dest_segs_loop cc ports n (if j + 1 = length (DestSegmentsHostInfo cc) then 0 else j + 1)
         (ps @ [Itoa (hp_Port p)]) (is @ [Hostname d])))"

definition FormDestSegsHelperAddress :: "CopyBase \<Rightarrow> HelperPortInfo list \<Rightarrow> (string \<times> string) res" where
  "FormDestSegsHelperAddress cc ports =
     rbind (dest_segs_loop cc ports (length (SrcSegmentsHostInfo cc)) 0 [] [])
       (\<lambda>(ps, is). Inr (Join ps '','', Join is '',''))"

fun src_segs_loop :: "SegmentHostInfo list \<Rightarrow> HelperPortInfo list \<Rightarrow> nat \<Rightarrow> (string list \<times> string list) res" where
  "src_segs_loop [] ports i = Inr ([], [])"
| "src_segs_loop (s # ss) ports i =
     rbind (go_index ports i) (\<lambda>p. rbind (src_segs_loop ss ports (Suc i)) (\<lambda>(ps, is).
       Inr (Itoa (hp_Port p) # ps, Hostname s # is)))"

definition FormSrcSegsHelperAddress :: "CopyBase \<Rightarrow> HelperPortInfo list \<Rightarrow> (string \<times> string) res" where
  "FormSrcSegsHelperAddress cc ports =
     rbind (src_segs_loop (SrcSegmentsHostInfo cc) ports 0) (\<lambda>(ps, is). Inr (Join ps '','', Join is '',''))"

definition FormAllSegsIds :: "CopyBase \<Rightarrow> string" where
  "FormAllSegsIds cc = Join (map (Itoa \<circ> Content) (SrcSegmentsHostInfo cc)) '' ''"

section \<open>Numbers of clients\<close>

text \<open>
  \<open>formClientNumbers\<close>: how many source segments dial each destination segment, in the order of
  the destination segments' numbers.
\<close>

fun client_loop :: "SegmentHostInfo list \<Rightarrow> nat \<Rightarrow> nat \<Rightarrow> (int, int) gomap \<Rightarrow> (int, int) gomap res" where
  "client_loop dest 0 j m = Inr m"
| "client_loop dest (Suc n) j m =
     rbind (go_index dest j) (\<lambda>d.
       let m = (case go_get m (Content d) of
                  None \<Rightarrow> go_set (Content d) 1 m
                | Some k \<Rightarrow> go_set (Content d) (k + 1) m)
       in client_loop dest n (if j + 1 = length dest then 0 else j + 1) m)"

definition formClientNumbers :: "((int, int) gomap \<Rightarrow> int list) \<Rightarrow> CopyBase \<Rightarrow> string res" where
  "formClientNumbers ks cc =
     rbind (client_loop (DestSegmentsHostInfo cc) (length (SrcSegmentsHostInfo cc)) 0 []) (\<lambda>segMap.
       Inr (Join (map (\<lambda>k. Itoa (go_int segMap k)) (sort (ks segMap))) '',''))"

section \<open>The choice of the strategy\<close>

datatype CopyCommand =
    CopyOnMaster CopyBase
  | CopyOnSegment CopyBase
  | ExtDestGeCopy CopyBase
  | ExtDestLtCopy CopyBase

definition newExtDestLtCopy :: "nat \<Rightarrow> SegmentHostInfo list \<Rightarrow> SegmentHostInfo list \<Rightarrow> string \<Rightarrow> string \<Rightarrow> CopyCommand" where
  "newExtDestLtCopy workerId srcSegs destSegs connMode compArg =
     ExtDestLtCopy \<lparr>WorkerId = workerId, SrcSegmentsHostInfo = srcSegs, DestSegmentsHostInfo = destSegs,
       ConnectionMode = connMode, CompArg = compArg\<rparr>"

definition getCompressArg :: "flagset \<Rightarrow> bool \<Rightarrow> bool \<Rightarrow> string res" where
  "getCompressArg f isMasterStrategy useCompression =
     (if \<not> useCompression then Inr ''--no-compression''
      else if isMasterStrategy then Inr ''--compress-type snappy''
      else rbind (MustGetFlagString f ''compress-type'') (\<lambda>t.
        if t = ''gzip'' then Inr ''--compress-type gzip''
        else if t = ''snappy'' then Inr ''--compress-type snappy''
        else Inr ''--compress-type zstd''))"

definition createTestCopyStrategy :: "flagset \<Rightarrow> string \<Rightarrow> nat \<Rightarrow> SegmentHostInfo list \<Rightarrow> SegmentHostInfo list \<Rightarrow>
    string \<Rightarrow> bool \<Rightarrow> CopyCommand res" where
  "createTestCopyStrategy f strategy workerId srcSegs destSegs connMode useCompression =
     rbind (getCompressArg f (strategy = ''CopyOnMaster'') useCompression) (\<lambda>compArg.
       let base = \<lparr>WorkerId = workerId, SrcSegmentsHostInfo = srcSegs, DestSegmentsHostInfo = destSegs,
                   ConnectionMode = connMode, CompArg = compArg\<rparr>
       in if strategy = ''CopyOnMaster'' then Inr (CopyOnMaster base)
          else if strategy = ''CopyOnSegment'' then Inr (CopyOnSegment base)
          else if strategy = ''ExtDestGeCopy'' then Inr (ExtDestGeCopy base)
          else Inr (newExtDestLtCopy workerId srcSegs destSegs connMode compArg))"

text \<open>
  \<open>testStrategy\<close> is the environment variable \<open>TEST_COPY_STRATEGY\<close>, \<open>sameVersion\<close> the result of
  \<open>srcConn.Version.Equals(destConn.Version)\<close>.
\<close>

definition CreateCopyStrategy :: "flagset \<Rightarrow> string \<Rightarrow> bool \<Rightarrow> int \<Rightarrow> nat \<Rightarrow> SegmentHostInfo list \<Rightarrow>
    SegmentHostInfo list \<Rightarrow> bool \<Rightarrow> string \<Rightarrow> CopyCommand res" where
  "CreateCopyStrategy f testStrategy isReplicated numTuples workerId srcSegs destSegs sameVersion connMode =
     rbind (MustGetFlagBool f ''compression'') (\<lambda>compression.
     let useCompression = compression \<or> Changed f ''compress-type'';
         base = (\<lambda>compArg. \<lparr>WorkerId = workerId, SrcSegmentsHostInfo = srcSegs, DestSegmentsHostInfo = destSegs,
                   ConnectionMode = connMode, CompArg = compArg\<rparr>)
     in if isReplicated then rbind (getCompressArg f True useCompression) (\<lambda>a. Inr (CopyOnMaster (base a)))
        else if testStrategy \<noteq> [] then
          createTestCopyStrategy f testStrategy workerId srcSegs destSegs connMode useCompression
        else rbind (MustGetFlagInt f ''on-segment-threshold'') (\<lambda>threshold.
          if numTuples \<le> threshold then
            rbind (getCompressArg f True useCompression) (\<lambda>a. Inr (CopyOnMaster (base a)))
          else rbind (getCompressArg f False useCompression) (\<lambda>a.
            if sameVersion \<and> length srcSegs = length destSegs then Inr (CopyOnSegment (base a))
            else if length destSegs \<ge> length srcSegs then Inr (ExtDestGeCopy (base a))
            else Inr (newExtDestLtCopy workerId srcSegs destSegs connMode a))))"

section \<open>The commands\<close>

text \<open>
  The texts are those of the format strings, with the arguments in place. \<open>conn.Exec\<close> and
  \<open>RowsAffected\<close> together return the number of rows.
\<close>

definition master_send :: "flagset \<Rightarrow> CopyBase \<Rightarrow> Table \<Rightarrow> HelperPortInfo list \<Rightarrow> string \<Rightarrow> string res" where
  "master_send f com table ports cmdId =
     (if ConnectionMode com = ''pull'' then
        rbind (MustGetFlagString f ''data-port-range'') (\<lambda>range.
          Inr (''COPY '' @ fqn (Schema table) (Name table) @ '' TO PROGRAM '' @ [SQ] @ ''cbcopy_helper '' @ CompArg com @
            '' --listen --seg-id -1 --cmd-id '' @ cmdId @ '' --data-port-range '' @ range @
            '' --direction send'' @ [SQ] @ '' CSV IGNORE EXTERNAL PARTITIONS''))
      else rbind (FormMasterHelperAddress f com ports) (\<lambda>(port, ip).
          Inr (''COPY '' @ fqn (Schema table) (Name table) @ '' TO PROGRAM '' @ [SQ] @ ''cbcopy_helper '' @ CompArg com @
            '' --seg-id -1 --host '' @ ip @ '' --port '' @ port @
            '' --direction send'' @ [SQ] @ '' CSV IGNORE EXTERNAL PARTITIONS'')))"

definition master_receive :: "flagset \<Rightarrow> CopyBase \<Rightarrow> Table \<Rightarrow> HelperPortInfo list \<Rightarrow> string \<Rightarrow> string res" where
  "master_receive f com table ports cmdId =
     (if ConnectionMode com = ''pull'' then
        rbind (FormMasterHelperAddress f com ports) (\<lambda>(port, ip).
          Inr (''COPY '' @ fqn (Schema table) (Name table) @ '' FROM PROGRAM '' @ [SQ] @ ''cbcopy_helper '' @ CompArg com @
            '' --seg-id -1 --host '' @ ip @ '' --port '' @ port @ '' --direction receive'' @ [SQ] @ '' CSV''))
      else rbind (MustGetFlagString f ''data-port-range'') (\<lambda>range.
          Inr (''COPY '' @ fqn (Schema table) (Name table) @ '' FROM PROGRAM '' @ [SQ] @ ''cbcopy_helper '' @ CompArg com @
            '' --listen --seg-id -1 --cmd-id '' @ cmdId @ '' --data-port-range '' @ range @
            '' --direction receive'' @ [SQ] @ '' CSV'')))"

text \<open>The segment strategies send with the same text; \<open>address\<close> is the strategy's address list.\<close>

definition segment_send :: "(HelperPortInfo list \<Rightarrow> (string \<times> string) res) \<Rightarrow> flagset \<Rightarrow> CopyBase \<Rightarrow> Table \<Rightarrow>
    HelperPortInfo list \<Rightarrow> string \<Rightarrow> string res" where
  "segment_send address f cc table ports cmdId =
     (if ConnectionMode cc = ''pull'' then
        rbind (MustGetFlagString f ''data-port-range'') (\<lambda>range.
          Inr (''COPY '' @ fqn (Schema table) (Name table) @ '' TO PROGRAM '' @ [SQ] @ ''cbcopy_helper '' @ CompArg cc @
            '' --listen --cmd-id '' @ cmdId @ '' --seg-id <SEGID> --data-port-range '' @ range @
            '' --direction send'' @ [SQ] @ '' ON SEGMENT CSV IGNORE EXTERNAL PARTITIONS''))
      else rbind (address ports) (\<lambda>(port, ip).
          Inr (''COPY '' @ fqn (Schema table) (Name table) @ '' TO PROGRAM '' @ [SQ] @ ''cbcopy_helper '' @ CompArg cc @
            '' --seg-id <SEGID> --host '' @ ip @ '' --port '' @ port @
            '' --direction send'' @ [SQ] @ '' ON SEGMENT CSV IGNORE EXTERNAL PARTITIONS'')))"

definition segment_receive :: "flagset \<Rightarrow> CopyBase \<Rightarrow> Table \<Rightarrow> HelperPortInfo list \<Rightarrow> string \<Rightarrow> string res" where
  "segment_receive f cos table ports cmdId =
     (if ConnectionMode cos = ''pull'' then
        rbind (FormAllSegsHelperAddress cos ports) (\<lambda>(port, ip).
          Inr (''COPY '' @ fqn (Schema table) (Name table) @ '' FROM PROGRAM '' @ [SQ] @ ''cbcopy_helper '' @ CompArg cos @
            '' --seg-id <SEGID> --host '' @ ip @ '' --port '' @ port @ '' --direction receive'' @ [SQ] @ '' ON SEGMENT CSV''))
      else rbind (MustGetFlagString f ''data-port-range'') (\<lambda>range.
          Inr (''COPY '' @ fqn (Schema table) (Name table) @ '' FROM PROGRAM '' @ [SQ] @ ''cbcopy_helper '' @ CompArg cos @
            '' --listen --seg-id <SEGID> --cmd-id '' @ cmdId @ '' --data-port-range '' @ range @
            '' --direction receive'' @ [SQ] @ '' ON SEGMENT CSV'')))"

text \<open>Only the segments that have a source segment of the same number run the helper.\<close>

definition matched_guard :: "string \<Rightarrow> string" where
  "matched_guard ids =
     ''MATCHED='' @ [DQ] @ ''0'' @ [DQ] @ ''; SRC_SEG_IDS_STR='' @ [DQ] @ ids @ [DQ] @
     ''; for cur_id in $SRC_SEG_IDS_STR; do if [ '' @ [DQ] @ ''$cur_id'' @ [DQ] @ '' = '' @ [DQ] @ ''$GP_SEGMENT_ID'' @ [DQ] @
     '' ]; then MATCHED='' @ [DQ] @ ''1'' @ [DQ] @ ''; break; fi; done; [ '' @ [DQ] @ ''$MATCHED'' @ [DQ] @ '' != '' @
     [DQ] @ ''1'' @ [DQ] @ '' ] && exit 0 || ''"

definition ext_table :: "string \<Rightarrow> Table \<Rightarrow> string \<Rightarrow> string" where
  "ext_table extTabName table command =
     ''CREATE EXTERNAL WEB TEMP TABLE '' @ extTabName @ '' (like '' @ fqn (Schema table) (Name table) @ '') EXECUTE '' @
     [SQ] @ command @ [SQ] @ '' FORMAT '' @ [SQ] @ ''csv'' @ [SQ]"

definition ext_ge_receive :: "flagset \<Rightarrow> CopyBase \<Rightarrow> string \<Rightarrow> Table \<Rightarrow> HelperPortInfo list \<Rightarrow> string \<Rightarrow> string res" where
  "ext_ge_receive f edgc extTabName table ports cmdId =
     (let ids = FormAllSegsIds edgc
      in if ConnectionMode edgc = ''pull'' then
           rbind (FormAllSegsHelperAddress edgc ports) (\<lambda>(port, ip).
             Inr (ext_table extTabName table (matched_guard ids @ ''cbcopy_helper '' @ CompArg edgc @
               '' --seg-id $GP_SEGMENT_ID --host '' @ ip @ '' --port '' @ port @ '' --direction receive'')))
         else rbind (MustGetFlagString f ''data-port-range'') (\<lambda>range.
             Inr (ext_table extTabName table (matched_guard ids @ ''cbcopy_helper '' @ CompArg edgc @
               '' --listen --seg-id $GP_SEGMENT_ID --cmd-id '' @ cmdId @ '' --data-port-range '' @ range @
               '' --direction receive''))))"

definition ext_lt_receive :: "((int, int) gomap \<Rightarrow> int list) \<Rightarrow> flagset \<Rightarrow> CopyBase \<Rightarrow> string \<Rightarrow> Table \<Rightarrow>
    HelperPortInfo list \<Rightarrow> string \<Rightarrow> string res" where
  "ext_lt_receive ks f edlc extTabName table ports cmdId =
     (if ConnectionMode edlc = ''pull'' then
        rbind (FormSrcSegsHelperAddress edlc ports) (\<lambda>(port, ip).
          Inr (ext_table extTabName table (''cbcopy_helper '' @ CompArg edlc @
            '' --seg-id $GP_SEGMENT_ID --host '' @ ip @ '' --port '' @ port @ '' --num-dests '' @
            Itoa (int (length (DestSegmentsHostInfo edlc))) @ '' --direction receive'')))
      else rbind (MustGetFlagString f ''data-port-range'') (\<lambda>range.
        rbind (formClientNumbers ks edlc) (\<lambda>clientNumbers.
          Inr (ext_table extTabName table (''cbcopy_helper '' @ CompArg edlc @
            '' --listen --seg-id $GP_SEGMENT_ID --cmd-id '' @ cmdId @ '' --client-numbers '' @ clientNumbers @
            '' --data-port-range '' @ range @ '' --direction receive'')))))"

definition CommitBegin :: "'db driver \<Rightarrow> CopyBase \<Rightarrow> ('db DBConn, unit) op" where
  "CommitBegin drv cc = obind (Commit drv [int (WorkerId cc)]) (\<lambda>_. Begin drv [int (WorkerId cc)])"

text \<open>Loading through an external table: create it, insert from it, drop it.\<close>

definition ext_load :: "'db driver \<Rightarrow> CopyBase \<Rightarrow> string \<Rightarrow> Table \<Rightarrow> string \<Rightarrow> ('db DBConn, int) op" where
  "ext_load drv cc extTabName table query =
     obind (CommitBegin drv cc) (\<lambda>_.
     obind (Exec drv query [int (WorkerId cc)]) (\<lambda>_.
     obind (CommitBegin drv cc) (\<lambda>_.
     obind (ExecContext drv (''INSERT INTO '' @ fqn (Schema table) (Name table) @ '' SELECT * FROM '' @ extTabName)
              [int (WorkerId cc)]) (\<lambda>rows.
     obind (Exec drv (''DROP EXTERNAL TABLE '' @ extTabName) [int (WorkerId cc)]) (\<lambda>_. oret rows)))))"

fun base_of :: "CopyCommand \<Rightarrow> CopyBase" where
  "base_of (CopyOnMaster b) = b"
| "base_of (CopyOnSegment b) = b"
| "base_of (ExtDestGeCopy b) = b"
| "base_of (ExtDestLtCopy b) = b"

fun CopyTo :: "'db driver \<Rightarrow> flagset \<Rightarrow> CopyCommand \<Rightarrow> Table \<Rightarrow> HelperPortInfo list \<Rightarrow> string \<Rightarrow> ('db DBConn, int) op" where
  "CopyTo drv f (CopyOnMaster b) table ports cmdId =
     obind (olift (master_send f b table ports cmdId)) (\<lambda>query. Exec drv query [int (WorkerId b)])"
| "CopyTo drv f (CopyOnSegment b) table ports cmdId =
     obind (olift (segment_send (FormAllSegsHelperAddress b) f b table ports cmdId)) (\<lambda>query. Exec drv query [int (WorkerId b)])"
| "CopyTo drv f (ExtDestGeCopy b) table ports cmdId =
     obind (olift (segment_send (FormAllSegsHelperAddress b) f b table ports cmdId)) (\<lambda>query. Exec drv query [int (WorkerId b)])"
| "CopyTo drv f (ExtDestLtCopy b) table ports cmdId =
     obind (olift (segment_send (FormDestSegsHelperAddress b) f b table ports cmdId)) (\<lambda>query. Exec drv query [int (WorkerId b)])"

text \<open>\<open>uuid\<close> is the name the generated external table gets, \<open>ks\<close> the order of Go's range.\<close>

fun CopyFrom :: "((int, int) gomap \<Rightarrow> int list) \<Rightarrow> string \<Rightarrow> 'db driver \<Rightarrow> flagset \<Rightarrow> CopyCommand \<Rightarrow> Table \<Rightarrow>
    HelperPortInfo list \<Rightarrow> string \<Rightarrow> ('db DBConn, int) op" where
  "CopyFrom ks uuid drv f (CopyOnMaster b) table ports cmdId =
     obind (olift (master_receive f b table ports cmdId)) (\<lambda>query. ExecContext drv query [int (WorkerId b)])"
| "CopyFrom ks uuid drv f (CopyOnSegment b) table ports cmdId =
     obind (olift (segment_receive f b table ports cmdId)) (\<lambda>query. ExecContext drv query [int (WorkerId b)])"
| "CopyFrom ks uuid drv f (ExtDestGeCopy b) table ports cmdId =
     (let name = ''cbcopy_ext_'' @ Replace uuid ''-'' [] (-1)
      in obind (olift (ext_ge_receive f b name table ports cmdId)) (ext_load drv b name table))"
| "CopyFrom ks uuid drv f (ExtDestLtCopy b) table ports cmdId =
     (let name = ''cbcopy_ext_'' @ Replace uuid ''-'' [] (-1)
      in obind (olift (ext_lt_receive ks f b name table ports cmdId)) (ext_load drv b name table))"

fun IsMasterCopy :: "CopyCommand \<Rightarrow> bool" where
  "IsMasterCopy (CopyOnMaster b) = True"
| "IsMasterCopy _ = False"

fun IsCopyFromStarted :: "CopyCommand \<Rightarrow> int \<Rightarrow> bool" where
  "IsCopyFromStarted (CopyOnMaster b) rows = (rows = 1)"
| "IsCopyFromStarted (CopyOnSegment b) rows = (rows = int (length (SrcSegmentsHostInfo b)))"
| "IsCopyFromStarted (ExtDestGeCopy b) rows = (rows = int (length (SrcSegmentsHostInfo b)))"
| "IsCopyFromStarted (ExtDestLtCopy b) rows =
     (if ConnectionMode b = ''pull'' then rows = int (length (SrcSegmentsHostInfo b))
      else rows = int (length (DestSegmentsHostInfo b)))"

section \<open>Facts about ports, addresses and client numbers\<close>

lemma port_map_aux:
  "go_get (foldl (\<lambda>m p. if go_has m (hp_Content p) then m else go_set (hp_Content p) (hp_Port p) m) m hpis) k =
     (case go_get m k of Some v \<Rightarrow> Some v | None \<Rightarrow> map_option hp_Port (find (\<lambda>p. hp_Content p = k) hpis))"
  by (induction hpis arbitrary: m) (auto simp: go_map go_has_def split: option.splits)

lemma port_map_get: "go_get (port_map hpis) k = map_option hp_Port (find (\<lambda>p. hp_Content p = k) hpis)"
  by (simp add: port_map_def port_map_aux)

lemma port_map_wf: "go_wf (port_map hpis)"
proof -
  have "go_wf m \<Longrightarrow> go_wf (foldl (\<lambda>m p. if go_has m (hp_Content p) then m else go_set (hp_Content p) (hp_Port p) m) m hpis)" for m
    by (induction hpis arbitrary: m) auto
  then show ?thesis by (simp add: port_map_def)
qed

lemma port_map_keys: "set (go_keys (port_map hpis)) = hp_Content ` set hpis"
proof -
  have "k \<in> set (go_keys (port_map hpis)) \<longleftrightarrow> go_get (port_map hpis) k \<noteq> None" for k
    by (simp add: map_of_eq_None_iff)
  also have "go_get (port_map hpis) k \<noteq> None \<longleftrightarrow> k \<in> hp_Content ` set hpis" for k
    by (auto simp: port_map_get find_None_iff)
  finally show ?thesis by blast
qed

lemma sort_iter_order:
  fixes m :: "(int, 'v) gomap"
  assumes "go_wf m" and "iter_order m ks"
  shows "sort ks = sorted_list_of_set (set (go_keys m))"
  unfolding iter_order_set[OF assms(2), symmetric] sorted_list_of_set_sort_remdups
  using iter_order_distinct[OF assms(2,1)] by (simp add: distinct_remdups_id)

lemma processPortList_eq:
  assumes "iter_order (port_map hpis) (ks (port_map hpis))"
  shows "processPortList ks hpis =
    map (\<lambda>k. \<lparr>hp_Content = k, hp_Port = go_int (port_map hpis) k\<rparr>) (sorted_list_of_set (hp_Content ` set hpis))"
  using sort_iter_order[OF port_map_wf assms] unfolding port_map_keys
  by (simp add: processPortList_def Let_def)

lemma go_int_port_map:
  assumes "p \<in> set hpis" and "\<And>q. q \<in> set hpis \<Longrightarrow> hp_Content q = hp_Content p \<Longrightarrow> hp_Port q = hp_Port p"
  shows "go_int (port_map hpis) (hp_Content p) = hp_Port p"
proof -
  from assms(1) obtain q where q: "find (\<lambda>r. hp_Content r = hp_Content p) hpis = Some q"
    by (metis (mono_tags, lifting) find_None_iff not_None_eq)
  then have "q \<in> set hpis" "hp_Content q = hp_Content p" by (auto simp: find_Some_iff)
  with assms(2) q show ?thesis by (simp add: go_int_def port_map_get)
qed

lemma sorted_list_of_int_interval: "sorted_list_of_set (int ` {0..<n}) = map int [0..<n]"
  using sorted_list_of_set.idem_if_sorted_distinct[of "map int [0..<n]"]
  by (simp add: sorted_map distinct_map)

lemma hosts_upto_ok: "n \<le> length segs \<Longrightarrow> hosts_upto segs n = Inr (map Hostname (take n segs))"
  by (induction n) (auto simp: take_Suc_conv_app_nth)

lemma src_segs_loop_ok:
  "i + length ss \<le> length ports \<Longrightarrow>
   src_segs_loop ss ports i = Inr (map (Itoa \<circ> hp_Port) (take (length ss) (drop i ports)), map Hostname ss)"
proof (induction ss arbitrary: i)
  case Nil
  then show ?case by simp
next
  case (Cons s ss)
  then have "drop i ports = ports ! i # drop (Suc i) ports" by (simp add: Cons_nth_drop_Suc)
  with Cons show ?case by simp
qed

text \<open>Going round \<open>nd\<close> positions: after \<open>i\<close> steps from 0 the position is \<open>i mod nd\<close>.\<close>

lemma dest_segs_loop_ok:
  assumes nd: "nd = length (DestSegmentsHostInfo cc)" "0 < nd" "nd \<le> length ports"
  shows "dest_segs_loop cc ports n (i mod nd) ps is =
    Inr (ps @ map (\<lambda>k. Itoa (hp_Port (ports ! (k mod nd)))) [i..<i + n],
         is @ map (\<lambda>k. Hostname (DestSegmentsHostInfo cc ! (k mod nd))) [i..<i + n])"
proof (induction n arbitrary: i ps "is")
  case 0
  then show ?case by simp
next
  case (Suc n)
  have lt: "i mod nd < length ports" "i mod nd < length (DestSegmentsHostInfo cc)"
    using nd mod_less_divisor[of nd i] by linarith+
  have "[i..<i + Suc n] = i # [Suc i..<Suc i + n]" by (simp add: upt_conv_Cons)
  moreover have "dest_segs_loop cc ports (Suc n) (i mod nd) ps is = dest_segs_loop cc ports n (Suc i mod nd)
      (ps @ [Itoa (hp_Port (ports ! (i mod nd)))]) (is @ [Hostname (DestSegmentsHostInfo cc ! (i mod nd))])"
    using lt by (simp add: nd(1)[symmetric] mod_Suc)
  ultimately show ?case using Suc.IH[of "Suc i"] by simp
qed

lemma card_filter_insert:
  assumes "finite A" and "i \<notin> A"
  shows "card {k \<in> insert i A. P k} = (if P i then 1 else 0) + card {k \<in> A. P k}"
proof -
  have "{k \<in> insert i A. P k} = (if P i then insert i {k \<in> A. P k} else {k \<in> A. P k})" by auto
  with assms show ?thesis by simp
qed

lemma client_loop_ok:
  assumes nd: "nd = length dest" "0 < nd"
  shows "\<exists>m'. client_loop dest n (i mod nd) m = Inr m' \<and>
    (\<forall>c. go_int m' c = go_int m c + int (card {k \<in> {i..<i + n}. Content (dest ! (k mod nd)) = c})) \<and>
    (\<forall>c. go_has m' c \<longleftrightarrow> go_has m c \<or> (\<exists>k \<in> {i..<i + n}. Content (dest ! (k mod nd)) = c)) \<and>
    (go_wf m \<longrightarrow> go_wf m')"
proof (induction n arbitrary: i m)
  case 0
  then show ?case by auto
next
  case (Suc n)
  let ?c = "Content (dest ! (i mod nd))"
  let ?m = "case go_get m ?c of None \<Rightarrow> go_set ?c 1 m | Some k \<Rightarrow> go_set ?c (k + 1) m"
  have lt: "i mod nd < length dest" using nd mod_less_divisor[of nd i] by linarith
  have step: "client_loop dest (Suc n) (i mod nd) m = client_loop dest n (Suc i mod nd) ?m"
    using lt by (simp add: nd(1)[symmetric] mod_Suc Let_def)
  have m: "go_int ?m c = go_int m c + (if c = ?c then 1 else 0)" "go_has ?m c \<longleftrightarrow> go_has m c \<or> c = ?c" for c
    by (auto simp: go_int_def go_map go_has_def split: option.splits)
  have ins: "{i..<i + Suc n} = insert i {Suc i..<Suc i + n}" by auto
  have "card {k \<in> {i..<i + Suc n}. Content (dest ! (k mod nd)) = c} =
      (if c = ?c then 1 else 0) + card {k \<in> {Suc i..<Suc i + n}. Content (dest ! (k mod nd)) = c}" for c
    unfolding ins by (subst card_filter_insert) auto
  moreover have "(\<exists>k \<in> {i..<i + Suc n}. Content (dest ! (k mod nd)) = c) \<longleftrightarrow>
      c = ?c \<or> (\<exists>k \<in> {Suc i..<Suc i + n}. Content (dest ! (k mod nd)) = c)" for c
    unfolding ins by auto
  moreover obtain m' where "client_loop dest n (Suc i mod nd) ?m = Inr m'"
    "\<forall>c. go_int m' c = go_int ?m c + int (card {k \<in> {Suc i..<Suc i + n}. Content (dest ! (k mod nd)) = c})"
    "\<forall>c. go_has m' c \<longleftrightarrow> go_has ?m c \<or> (\<exists>k \<in> {Suc i..<Suc i + n}. Content (dest ! (k mod nd)) = c)"
    "go_wf ?m \<longrightarrow> go_wf m'"
    using Suc.IH[of "Suc i" ?m] by blast
  moreover have "go_wf m \<longrightarrow> go_wf ?m" by (auto split: option.split)
  ultimately show ?case unfolding step by (intro exI[of _ m']) (auto simp: m)
qed

text \<open>\<open>ks\<close> is a possible order of Go's \<open>range\<close> on every map.\<close>

definition range_order :: "(('k, 'v) gomap \<Rightarrow> 'k list) \<Rightarrow> bool" where
  "range_order ks \<longleftrightarrow> (\<forall>m. go_wf m \<longrightarrow> iter_order m (ks m))"

lemma range_order_keys: "range_order go_keys"
  by (simp add: range_order_def)

text \<open>The segments of a cluster: segment number \<open>j\<close> at position \<open>j\<close>, as \<open>GetSegmentsHost\<close> returns them.\<close>

definition numbered :: "SegmentHostInfo list \<Rightarrow> bool" where
  "numbered segs \<longleftrightarrow> (\<forall>j < length segs. Content (segs ! j) = int j)"

lemma formClientNumbers_eq:
  assumes "range_order ks" and num: "numbered (DestSegmentsHostInfo cc)"
    and nd: "nd = length (DestSegmentsHostInfo cc)" "0 < nd" and "nd \<le> length (SrcSegmentsHostInfo cc)"
  shows "formClientNumbers ks cc =
    Inr (Join (map (\<lambda>d. Itoa (int (card {k \<in> {0..<length (SrcSegmentsHostInfo cc)}. k mod nd = d}))) [0..<nd]) '','')"
proof -
  let ?dest = "DestSegmentsHostInfo cc" and ?ns = "length (SrcSegmentsHostInfo cc)"
  have c: "Content (?dest ! (k mod nd)) = int (k mod nd)" for k
    using num nd mod_less_divisor[of nd k] by (auto simp: numbered_def)
  from client_loop_ok[OF nd, of ?ns 0 "[]"] obtain m where
    m: "client_loop ?dest ?ns 0 [] = Inr m" "go_wf m"
    and val: "\<And>x. go_int m x = int (card {k \<in> {0..<?ns}. int (k mod nd) = x})"
    and has: "\<And>x. go_has m x \<longleftrightarrow> (\<exists>k \<in> {0..<?ns}. int (k mod nd) = x)"
    by (auto simp: c go_int_def)
  have "set (go_keys m) = int ` {0..<nd}"
  proof -
    have "x \<in> set (go_keys m) \<longleftrightarrow> go_has m x" for x by (simp add: go_has_iff)
    moreover have "(\<exists>k \<in> {0..<?ns}. int (k mod nd) = x) \<longleftrightarrow> x \<in> int ` {0..<nd}" for x
    proof
      assume "x \<in> int ` {0..<nd}"
      then obtain j where "j < nd" "x = int j" by auto
      with assms(5) show "\<exists>k \<in> {0..<?ns}. int (k mod nd) = x" by (intro bexI[of _ j]) auto
    qed (use nd(2) in auto)
    ultimately show ?thesis using has by blast
  qed
  then have "sort (ks m) = map int [0..<nd]"
    using sort_iter_order[OF m(2), of "ks m"] assms(1) m(2) sorted_list_of_int_interval
    by (simp add: range_order_def)
  then show ?thesis using m(1) by (simp add: formClientNumbers_def val o_def)
qed

lemma processPortList_numbered:
  assumes "range_order ks" and "hp_Content ` set hpis = int ` {0..<n}"
    and port: "\<And>p. p \<in> set hpis \<Longrightarrow> hp_Port p = pt (hp_Content p)"
  shows "processPortList ks hpis = map (\<lambda>j. \<lparr>hp_Content = int j, hp_Port = pt (int j)\<rparr>) [0..<n]"
proof -
  have "go_int (port_map hpis) (int j) = pt (int j)" if "j < n" for j
  proof -
    have "int j \<in> hp_Content ` set hpis" using that assms(2) by auto
    then obtain p where p: "p \<in> set hpis" "hp_Content p = int j" by auto
    then show ?thesis using go_int_port_map[of p hpis] port by (metis port)
  qed
  moreover have "iter_order (port_map hpis) (ks (port_map hpis))"
    using assms(1) port_map_wf by (auto simp: range_order_def)
  ultimately show ?thesis
    by (simp add: processPortList_eq assms(2) sorted_list_of_int_interval)
qed

section \<open>Transactions around the commands\<close>

lemma CommitBegin_keeps [keeping]:
  "keeps (conn_ok (WorkerId cc)) (\<lambda>d. Tx d ! WorkerId cc) (CommitBegin drv cc)"
  unfolding CommitBegin_def by (rule db.commit_begin_kept)

lemma Exec_keeps [keeping]:
  "keeps (conn_ok w) (\<lambda>d. Tx d ! w) (Exec drv q [int w])"
  "keeps (conn_ok w) (\<lambda>d. Tx d ! w) (ExecContext drv q [int w])"
  unfolding ExecContext_def by (rule db.exec_kept)+

lemma ext_load_keeps [keeping]:
  "keeps (conn_ok (WorkerId cc)) (\<lambda>d. Tx d ! WorkerId cc) (ext_load drv cc name table q)"
  unfolding ext_load_def by (intro keeping)

lemma CopyFrom_keeps:
  "keeps (conn_ok (WorkerId (base_of c))) (\<lambda>d. Tx d ! WorkerId (base_of c)) (CopyFrom ks uuid drv f c table ports cmd)"
  by (cases c) (auto simp only: CopyFrom.simps base_of.simps Let_def intro!: keeping)

lemma CopyTo_keeps:
  "keeps (conn_ok (WorkerId (base_of c))) (\<lambda>d. Tx d ! WorkerId (base_of c)) (CopyTo drv f c table ports cmd)"
  by (cases c) (auto simp only: CopyTo.simps base_of.simps intro!: keeping)

section \<open>Properties\<close>

text \<open>
  Claim C18. The port list the dialing side works with is sorted by segment number without
  duplicates, names exactly the segments that reported a port, and gives each of them the
  first port reported, whatever the order of Go's map iteration.
\<close>

theorem processPortList_correct:
  assumes "range_order ks"
  shows "sorted (map hp_Content (processPortList ks hpis)) \<and> distinct (map hp_Content (processPortList ks hpis)) \<and>
    set (map hp_Content (processPortList ks hpis)) = hp_Content ` set hpis \<and>
    (\<forall>p\<in>set (processPortList ks hpis).
       find (\<lambda>q. hp_Content q = hp_Content p) hpis = Some q \<longrightarrow> hp_Port p = hp_Port q)"
proof -
  have "iter_order (port_map hpis) (ks (port_map hpis))"
    using assms port_map_wf by (auto simp: range_order_def)
  then show ?thesis by (auto simp: processPortList_eq o_def go_int_def port_map_get)
qed

theorem processPortList_correct_witness:
  "map hp_Content (processPortList go_keys [\<lparr>hp_Content = 2, hp_Port = 7\<rparr>, \<lparr>hp_Content = 0, hp_Port = 5\<rparr>,
     \<lparr>hp_Content = 2, hp_Port = 9\<rparr>]) = [0, 2] \<and>
   sorted (map hp_Content (processPortList go_keys [\<lparr>hp_Content = 2, hp_Port = 7\<rparr>, \<lparr>hp_Content = 0, hp_Port = 5\<rparr>,
     \<lparr>hp_Content = 2, hp_Port = 9\<rparr>]))"
proof -
  let ?h = "[\<lparr>hp_Content = 2, hp_Port = 7\<rparr>, \<lparr>hp_Content = 0, hp_Port = 5\<rparr>, \<lparr>hp_Content = 2, hp_Port = 9\<rparr>]"
  have "map hp_Content (processPortList go_keys ?h) = [0, 2]" by code_simp
  with processPortList_correct[OF range_order_keys, of ?h] show ?thesis by blast
qed

fun dial_command :: "flagset \<Rightarrow> CopyCommand \<Rightarrow> string \<Rightarrow> Table \<Rightarrow> HelperPortInfo list \<Rightarrow> string \<Rightarrow> string res" where
  "dial_command f (CopyOnMaster b) name table ports cmd =
     (if ConnectionMode b = ''pull'' then master_receive f b table ports cmd else master_send f b table ports cmd)"
| "dial_command f (CopyOnSegment b) name table ports cmd =
     (if ConnectionMode b = ''pull'' then segment_receive f b table ports cmd
      else segment_send (FormAllSegsHelperAddress b) f b table ports cmd)"
| "dial_command f (ExtDestGeCopy b) name table ports cmd =
     (if ConnectionMode b = ''pull'' then ext_ge_receive f b name table ports cmd
      else segment_send (FormAllSegsHelperAddress b) f b table ports cmd)"
| "dial_command f (ExtDestLtCopy b) name table ports cmd =
     (if ConnectionMode b = ''pull'' then ext_lt_receive (\<lambda>_. []) f b name table ports cmd
      else segment_send (FormDestSegsHelperAddress b) f b table ports cmd)"

lemma FormAllSegs_ok:
  assumes "length ports = length (SrcSegmentsHostInfo b)"
    "length (SrcSegmentsHostInfo b) \<le> length (DestSegmentsHostInfo b)"
  shows "\<exists>r. FormAllSegsHelperAddress b ports = Inr r"
  using assms by (simp add: FormAllSegsHelperAddress_def Let_def hosts_upto_ok)

lemma FormDestSegs_ok:
  assumes "length ports = length (DestSegmentsHostInfo b)" "0 < length (DestSegmentsHostInfo b)"
  shows "FormDestSegsHelperAddress b ports =
    Inr (Join (map (\<lambda>k. Itoa (hp_Port (ports ! (k mod length (DestSegmentsHostInfo b))))) [0..<length (SrcSegmentsHostInfo b)]) '','',
         Join (map (\<lambda>k. Hostname (DestSegmentsHostInfo b ! (k mod length (DestSegmentsHostInfo b)))) [0..<length (SrcSegmentsHostInfo b)]) '','')"
  using dest_segs_loop_ok[OF refl assms(2), of ports "length (SrcSegmentsHostInfo b)" 0 "[]" "[]"] assms(1)
  by (simp add: FormDestSegsHelperAddress_def)

lemma chosen_shape:
  assumes "CreateCopyStrategy f [] rep n w src dest same mode = Inr c"
  shows "ConnectionMode (base_of c) = mode \<and> SrcSegmentsHostInfo (base_of c) = src \<and>
    DestSegmentsHostInfo (base_of c) = dest \<and> WorkerId (base_of c) = w \<and>
    (case c of CopyOnMaster _ \<Rightarrow> True | ExtDestLtCopy _ \<Rightarrow> length dest < length src | _ \<Rightarrow> length src \<le> length dest)"
  using assms
  by (auto simp: CreateCopyStrategy_def newExtDestLtCopy_def Let_def rbind_Inr_iff split: if_splits)

text \<open>
  Claim C19. For the strategy that \<open>CreateCopyStrategy\<close> chooses and a port list that satisfies its
  \<open>IsCopyFromStarted\<close>, forming the command of the dialing side never indexes out of range:
  \<open>CopyTo\<close> in push mode and \<open>CopyFrom\<close> in pull mode are texts.
\<close>

theorem chosen_command_no_panic:
  assumes "CreateCopyStrategy f [] rep n w src dest same mode = Inr c"
    and "mode \<in> {''push'', ''pull''}" and "0 < length dest"
    and "IsCopyFromStarted c (int (length ports))"
    and "GetString f ''dest-host'' = Inr dh" and "GetString f ''source-host'' = Inr sh"
  shows "\<exists>query. dial_command f c name table ports cmd = Inr query"
proof -
  note shape = chosen_shape[OF assms(1)]
  show ?thesis
  proof (cases c)
    case (CopyOnMaster b)
    with assms(4) obtain p where "ports = [p]" by (auto simp: length_Suc_conv)
    with CopyOnMaster assms(5,6) show ?thesis
      by (auto simp: master_receive_def master_send_def FormMasterHelperAddress_def MustGet_defs)
  next
    case (CopyOnSegment b)
    with shape assms(4) FormAllSegs_ok[of ports b] show ?thesis
      by (auto simp: segment_receive_def segment_send_def)
  next
    case (ExtDestGeCopy b)
    with shape assms(4) FormAllSegs_ok[of ports b] show ?thesis
      by (auto simp: ext_ge_receive_def segment_send_def Let_def)
  next
    case (ExtDestLtCopy b)
    with shape assms(3,4) FormDestSegs_ok[of ports b] src_segs_loop_ok[of 0 "SrcSegmentsHostInfo b" ports] show ?thesis
      by (auto simp: ext_lt_receive_def segment_send_def FormSrcSegsHelperAddress_def split: if_splits)
  qed
qed

definition demo_seg :: "nat \<Rightarrow> SegmentHostInfo" where
  "demo_seg j = \<lparr>Content = int j, Hostname = ''h'' @ Itoa (int j)\<rparr>"

theorem chosen_command_no_panic_witness:
  "\<exists>c query. CreateCopyStrategy demo_flags [] False 100 0 (map demo_seg [0, 1, 2]) (map demo_seg [0, 1]) True ''push'' = Inr c \<and>
     dial_command demo_flags c ''x'' (mkTable ''s'' ''t'')
       [\<lparr>hp_Content = 0, hp_Port = 7000\<rparr>, \<lparr>hp_Content = 1, hp_Port = 7001\<rparr>] ''id'' = Inr query"
proof -
  let ?ports = "[\<lparr>hp_Content = 0, hp_Port = 7000\<rparr>, \<lparr>hp_Content = 1, hp_Port = 7001\<rparr>]"
  obtain c where c: "CreateCopyStrategy demo_flags [] False 100 0 (map demo_seg [0, 1, 2]) (map demo_seg [0, 1]) True ''push'' = Inr c"
    "IsCopyFromStarted c (int (length ?ports))"
    by (simp add: CreateCopyStrategy_def demo_flags_def MustGet_defs getCompressArg_def newExtDestLtCopy_def)
  have flags: "GetString demo_flags ''dest-host'' = Inr []" "GetString demo_flags ''source-host'' = Inr []"
    by (simp_all add: demo_flags_def)
  from chosen_command_no_panic[OF c(1) _ _ c(2) flags] c(1) show ?thesis by auto
qed

end
