(* ===== verification/Version.thy ===== *)
theory Version
  imports Gostrings
begin

text \<open>
  Database versions, \<open>src/internal/dbconn/version.go\<close>: the product and version number found in the
  text the server reports, and the comparisons with which the program chooses its queries. The
  package \<open>semver\<close> is a parameter: \<open>Make\<close> parses a version number, \<open>MustParseRange\<close> gives the
  predicate of a range; the law \<open>range_law\<close> says what a range of the form used here means.
\<close>

datatype DBType = Unknown | GPDB | CBDB | CBEDB | ACBDB | HDW | PGSQL

record semver =
  Major :: nat
  Minor :: nat
  Patch :: nat

record GPDBVersion =
  VersionString :: string
  SemVer :: semver
  Type :: DBType

section \<open>The patterns\<close>

text \<open>
  The group \<open>[0-9]+\.[0-9]+\.[0-9]+\<close> takes three runs of digits, all of them as long as possible:
  a dot is no digit, and what follows the group accepts every digit.
\<close>

definition run :: "string \<Rightarrow> string \<times> string" where
  "run s = (takeWhile is_digit s, dropWhile is_digit s)"

fun numbers :: "nat \<Rightarrow> string \<Rightarrow> (string \<times> string) option" where
  "numbers 0 s = (case run s of (a, r) \<Rightarrow> if a = [] then None else Some (a, r))"
| "numbers (Suc n) s =
     (case run s of
        (a, c # r) \<Rightarrow> if a \<noteq> [] \<and> c = CHR ''.''
          then map_option (\<lambda>(b, t). (a @ ''.'' @ b, t)) (numbers n r) else None
      | _ \<Rightarrow> None)"

definition match_at :: "string \<Rightarrow> string \<Rightarrow> string option" where
  "match_at name s =
     (let p = ''('' @ name @ '' ''
      in if prefix p s
         then (case numbers 2 (drop (length p) s) of
                 Some (v, r) \<Rightarrow> if CHR '')'' \<in> set r then Some v else None
               | None \<Rightarrow> None)
         else None)"

fun match_in :: "string \<Rightarrow> string \<Rightarrow> string option" where
  "match_in name [] = None"
| "match_in name (c # s) = (case match_at name (c # s) of Some v \<Rightarrow> Some v | None \<Rightarrow> match_in name s)"

definition is_blank :: "char \<Rightarrow> bool" where
  "is_blank c \<longleftrightarrow> c \<in> {CHR '' '', CHR 0x09, CHR 0x0A, CHR 0x0C, CHR 0x0D}"

definition match_pgsql :: "string \<Rightarrow> string option" where
  "match_pgsql s =
     (let r = drop 10 s
      in if prefix ''PostgreSQL'' s \<and> takeWhile is_blank r \<noteq> []
         then map_option fst (numbers 2 (dropWhile is_blank r)) else None)"

section \<open>Product and version\<close>

definition product_name :: "DBType \<Rightarrow> string" where
  "product_name t = (case t of
     GPDB \<Rightarrow> ''Greenplum Database'' | CBDB \<Rightarrow> ''Cloudberry Database'' | CBEDB \<Rightarrow> ''HashData Enterprise''
   | ACBDB \<Rightarrow> ''Apache Cloudberry'' | HDW \<Rightarrow> ''HashData Warehouse'' | _ \<Rightarrow> [])"

definition extractVersion :: "(string \<Rightarrow> semver res) \<Rightarrow> DBType \<Rightarrow> string \<Rightarrow> semver option" where
  "extractVersion Make t s =
     (case (if t = PGSQL then match_pgsql s else match_in (product_name t) s) of
        None \<Rightarrow> None
      | Some v \<Rightarrow> (case Make v of Inl e \<Rightarrow> None | Inr ver \<Rightarrow> Some ver))"

fun first_type :: "(string \<Rightarrow> semver res) \<Rightarrow> DBType list \<Rightarrow> string \<Rightarrow> (DBType \<times> semver) option" where
  "first_type Make [] s = None"
| "first_type Make (t # ts) s =
     (case extractVersion Make t s of Some ver \<Rightarrow> Some (t, ver) | None \<Rightarrow> first_type Make ts s)"

definition ParseVersionInfo :: "(string \<Rightarrow> semver res) \<Rightarrow> string \<Rightarrow> GPDBVersion \<Rightarrow> GPDBVersion" where
  "ParseVersionInfo Make s d =
     (case first_type Make [CBEDB, CBDB, ACBDB, HDW, GPDB, PGSQL] s of
        None \<Rightarrow> d\<lparr>VersionString := s, Type := Unknown\<rparr>
      | Some (t, ver) \<Rightarrow> d\<lparr>VersionString := s, Type := t, SemVer := ver\<rparr>)"

definition no_version :: GPDBVersion where
  "no_version = \<lparr>VersionString = [], SemVer = \<lparr>Major = 0, Minor = 0, Patch = 0\<rparr>, Type = Unknown\<rparr>"

definition InitializeVersion :: "(string \<Rightarrow> semver res) \<Rightarrow> string res \<Rightarrow> GPDBVersion res" where
  "InitializeVersion Make queried = rbind queried (\<lambda>s. Inr (ParseVersionInfo Make s no_version))"

definition IsCBDB :: "GPDBVersion \<Rightarrow> bool" where "IsCBDB d \<longleftrightarrow> Type d = CBDB"
definition IsCBEDB :: "GPDBVersion \<Rightarrow> bool" where "IsCBEDB d \<longleftrightarrow> Type d = CBEDB"
definition IsACBDB :: "GPDBVersion \<Rightarrow> bool" where "IsACBDB d \<longleftrightarrow> Type d = ACBDB"
definition IsHDW :: "GPDBVersion \<Rightarrow> bool" where "IsHDW d \<longleftrightarrow> Type d = HDW"
definition IsPGSQL :: "GPDBVersion \<Rightarrow> bool" where "IsPGSQL d \<longleftrightarrow> Type d = PGSQL"
definition IsGPDB :: "GPDBVersion \<Rightarrow> bool" where "IsGPDB d \<longleftrightarrow> Type d = GPDB \<or> Type d = HDW"
definition IsCBDBFamily :: "GPDBVersion \<Rightarrow> bool" where "IsCBDBFamily d \<longleftrightarrow> IsCBDB d \<or> IsCBEDB d \<or> IsACBDB d"

lemmas type_tests = IsCBDB_def IsCBEDB_def IsACBDB_def IsHDW_def IsPGSQL_def IsGPDB_def IsCBDBFamily_def

definition Equals :: "GPDBVersion \<Rightarrow> GPDBVersion \<Rightarrow> bool" where
  "Equals s d = (if Type s \<noteq> Type d then False else Major (SemVer s) = Major (SemVer d))"

section \<open>Comparisons\<close>

type_synonym ranges = "string \<Rightarrow> (semver \<Rightarrow> bool) res"

definition StringToSemVerRange :: "ranges \<Rightarrow> string \<Rightarrow> (semver \<Rightarrow> bool) res" where
  "StringToSemVerRange MustParseRange s =
     (let numDigits = length (Split CHR ''.'' s)
      in MustParseRange (if numDigits < 3 then s @ ''.x'' else s))"

definition getComparableSemVer :: "GPDBVersion \<Rightarrow> string \<Rightarrow> semver" where
  "getComparableSemVer d target =
     (let v = SemVer d
      in if \<not> IsHDW d then v
         else case Atoi (hd (Split CHR ''.'' target)) of (targetMajor, ok) \<Rightarrow>
           if \<not> ok then v
           else if targetMajor \<ge> 4 then
             (if Major v = 2 then v\<lparr>Major := 5\<rparr> else if Major v = 3 then v\<lparr>Major := 6\<rparr> else v)
           else v)"

definition compare_range :: "string \<Rightarrow> ranges \<Rightarrow> GPDBVersion \<Rightarrow> string \<Rightarrow> bool res" where
  "compare_range cmp rng d target =
     rbind (StringToSemVerRange rng (cmp @ target)) (\<lambda>valid. Inr (valid (getComparableSemVer d target)))"

definition Before :: "ranges \<Rightarrow> GPDBVersion \<Rightarrow> string \<Rightarrow> bool res" where
  "Before = compare_range ''<''"

definition AtLeast :: "ranges \<Rightarrow> GPDBVersion \<Rightarrow> string \<Rightarrow> bool res" where
  "AtLeast = compare_range ''>=''"

definition Is :: "ranges \<Rightarrow> GPDBVersion \<Rightarrow> string \<Rightarrow> bool res" where
  "Is = compare_range ''==''"

text \<open>What \<open>semver\<close> documents of a range with a wildcard after the major number.\<close>

definition range_law :: "ranges \<Rightarrow> bool" where
  "range_law rng \<longleftrightarrow> (\<forall>m::nat.
     rng (''<'' @ Itoa (int m) @ ''.x'') = Inr (\<lambda>v. Major v < m) \<and>
     rng (''>='' @ Itoa (int m) @ ''.x'') = Inr (\<lambda>v. m \<le> Major v) \<and>
     rng (''=='' @ Itoa (int m) @ ''.x'') = Inr (\<lambda>v. Major v = m))"

text \<open>The major number the program works with, for a target of at least 4.\<close>

definition effective_major :: "GPDBVersion \<Rightarrow> nat" where
  "effective_major d =
     (if Type d = HDW \<and> Major (SemVer d) = 2 then 5
      else if Type d = HDW \<and> Major (SemVer d) = 3 then 6 else Major (SemVer d))"

lemma Split_cmp: "CHR ''.'' \<notin> set cmp \<Longrightarrow> length (Split CHR ''.'' (cmp @ Itoa (int m))) = 1"
  by (subst Split_fresh) auto

lemma comparable_major:
  assumes "4 \<le> m" "m < 2 ^ 63"
  shows "Major (getComparableSemVer d (Itoa (int m))) = effective_major d"
proof -
  have "Split CHR ''.'' (Itoa (int m)) = [Itoa (int m)]" by (rule Split_fresh) simp
  moreover have "Atoi (Itoa (int m)) = (int m, True)" using assms by (intro ParseInt_Itoa) auto
  ultimately show ?thesis
    using assms by (simp add: getComparableSemVer_def effective_major_def IsHDW_def Let_def)
qed


section \<open>Properties\<close>

text \<open>
  Comparing with a major version from 4 on uses the Greenplum number that corresponds to
  the server (HashData Warehouse 2 and 3 count as 5 and 6): \<open>AtLeast\<close>, \<open>Before\<close> and \<open>Is\<close> decide on
  that number, so exactly one of \<open>AtLeast\<close> and \<open>Before\<close> holds, and none of them panics.
\<close>

theorem version_comparisons:
  assumes "range_law rng" and "4 \<le> m" and "m < 2 ^ 63"
  shows "AtLeast rng d (Itoa (int m)) = Inr (m \<le> effective_major d) \<and>
    Before rng d (Itoa (int m)) = Inr (effective_major d < m) \<and>
    Is rng d (Itoa (int m)) = Inr (effective_major d = m)"
  using assms(1) comparable_major[OF assms(2,3), of d] Split_cmp[of "''<''" m] Split_cmp[of "''>=''" m] Split_cmp[of "''==''" m]
  by (simp add: AtLeast_def Before_def Is_def compare_range_def StringToSemVerRange_def range_law_def)

definition demo_ranges :: ranges where
  "demo_ranges s =
     (let num = (\<lambda>k. digits_val 0 (takeWhile is_digit (drop k s)))
      in if prefix ''<'' s then Inr (\<lambda>v. Major v < num 1)
         else if prefix ''>='' s then Inr (\<lambda>v. num 2 \<le> Major v) else Inr (\<lambda>v. Major v = num 2))"

lemma demo_ranges_law: "range_law demo_ranges"
proof -
  have "takeWhile is_digit (Itoa (int m) @ ''.x'') = nat_digits m" for m
    by (simp add: Itoa_def takeWhile_append list_all_iff[symmetric] nat_digits_are_digits)
  then show ?thesis by (simp add: range_law_def demo_ranges_def digits_val_nat_digits)
qed

definition demo_hdw :: GPDBVersion where
  "demo_hdw = \<lparr>VersionString = [], SemVer = \<lparr>Major = 3, Minor = 13, Patch = 8\<rparr>, Type = HDW\<rparr>"

theorem version_comparisons_witness:
  "range_law demo_ranges \<and> AtLeast demo_ranges demo_hdw (Itoa (int 6)) = Inr True \<and>
   Before demo_ranges demo_hdw (Itoa (int 7)) = Inr True"
  using version_comparisons[OF demo_ranges_law, of 6 demo_hdw] version_comparisons[OF demo_ranges_law, of 7 demo_hdw] demo_ranges_law
  by (simp add: effective_major_def demo_hdw_def)

text \<open>
  A server that reports a HashData Warehouse version and none of the Cloudberry products
  is taken as HashData Warehouse with that version, whatever Greenplum and PostgreSQL versions the
  same text names.
\<close>

theorem ParseVersionInfo_hdw:
  assumes "match_in (product_name HDW) s = Some v" and "Make v = Inr ver"
    and "\<forall>t \<in> {CBEDB, CBDB, ACBDB}. match_in (product_name t) s = None"
  shows "Type (ParseVersionInfo Make s d) = HDW \<and> SemVer (ParseVersionInfo Make s d) = ver \<and>
    IsGPDB (ParseVersionInfo Make s d)"
  using assms by (simp add: ParseVersionInfo_def extractVersion_def type_tests)

definition demo_make :: "string \<Rightarrow> semver res" where
  "demo_make v = (case map (digits_val 0) (Split CHR ''.'' v) of
     [a, b, c] \<Rightarrow> Inr \<lparr>Major = a, Minor = b, Patch = c\<rparr> | _ \<Rightarrow> Inl (Error ''version''))"

definition demo_hdw_text :: string where
  "demo_hdw_text = ''PostgreSQL 9.4.26 (Greenplum Database 6.20.0 build 9999) (HashData Warehouse 3.13.8 build 27594)''"

lemma demo_hdw_matches:
  "match_in (product_name HDW) demo_hdw_text = Some ''3.13.8''"
  "match_in (product_name CBEDB) demo_hdw_text = None" "match_in (product_name CBDB) demo_hdw_text = None"
  "match_in (product_name ACBDB) demo_hdw_text = None" "demo_make ''3.13.8'' = Inr \<lparr>Major = 3, Minor = 13, Patch = 8\<rparr>"
  by code_simp+

theorem ParseVersionInfo_hdw_witness:
  "Type (ParseVersionInfo demo_make demo_hdw_text no_version) = HDW \<and>
   SemVer (ParseVersionInfo demo_make demo_hdw_text no_version) = \<lparr>Major = 3, Minor = 13, Patch = 8\<rparr>"
  using ParseVersionInfo_hdw[where Make = demo_make, OF demo_hdw_matches(1,5)] demo_hdw_matches by simp

definition pgsql_sample :: string where
  "pgsql_sample = ''PostgreSQL 12.18 on x86_64-pc-linux-gnu, compiled by gcc (Ubuntu 9.4.0-1ubuntu1~20.04.2) 9.4.0, 64-bit''"

text \<open>
  The sample text of a plain PostgreSQL server in the comment above \<open>InitializeVersion\<close>
  names a version of two numbers; the pattern asks for three, so the server is left \<open>Unknown\<close>.
\<close>

theorem pgsql_sample_unknown: "Type (ParseVersionInfo Make pgsql_sample d) = Unknown"
proof -
  have "match_in (product_name t) pgsql_sample = None" if "t \<in> {CBEDB, CBDB, ACBDB, HDW, GPDB}" for t
    using that by (elim insertE emptyE; simp only:; code_simp)
  moreover have "match_pgsql pgsql_sample = None" by code_simp
  ultimately show ?thesis by (simp add: ParseVersionInfo_def extractVersion_def)
qed

end
