(* ===== verification/CopyManager.thy ===== *)
theory CopyManager
  imports Strategy Version
begin

text \<open>
  Copying one table and the pool of workers, \<open>src/copy/copy_operation.go\<close>,
  \<open>src/copy/copy_manager.go\<close> and the queries they use from \<open>src/copy/copy_query.go\<close>.

  \<open>Execute\<close> starts the listening command in a goroutine, polls for the ports of its helpers, runs
  the dialing command and then waits for the listener. The two commands run on different
  connections, so when \<open>Execute\<close> has waited for the listener the order of their effects does not
  matter and the model applies the listener's first; what the polls return and when the main
  goroutine sees the listener's error are parameters. On some errors \<open>Execute\<close> returns without
  waiting: what the listener has done to its connection by then is a parameter too, any change of
  the server's state and of the worker's transaction, and the model records the worker as
  abandoned, since the listener's goroutine may still use the connection.
\<close>

section \<open>Queries\<close>

definition version_gate :: "ranges \<Rightarrow> GPDBVersion \<Rightarrow> string \<Rightarrow> bool res" where
  "version_gate rng v target =
     rbind (if IsGPDB v then AtLeast rng v target else Inr False) (\<lambda>b. Inr (b \<or> IsCBDBFamily v))"

definition GetSessionSetupQuery :: "ranges \<Rightarrow> GPDBVersion \<Rightarrow> string \<Rightarrow> string res" where
  "GetSessionSetupQuery rng v applicationName =
     rbind (version_gate rng v ''5'') (\<lambda>b5. rbind (version_gate rng v ''6'') (\<lambda>b6.
       Inr (NL @ ''SET application_name TO '' @ [SQ] @ applicationName @ [SQ] @ '';'' @ NL @
         ''SET search_path TO pg_catalog;'' @ NL @
         ''SET statement_timeout = 0;'' @ NL @
         ''SET DATESTYLE = ISO;'' @ NL @
         ''SET standard_conforming_strings = 1;'' @ NL @
         ''SET enable_mergejoin TO off;'' @ NL @
         ''SET gp_autostats_mode = NONE;'' @ NL @
         ''SELECT set_config('' @ [SQ] @ ''extra_float_digits'' @ [SQ] @
         '', (SELECT max_val FROM pg_settings WHERE name = '' @ [SQ] @ ''extra_float_digits'' @ [SQ] @ ''), false);'' @ NL @
         (if b5 then ''SET synchronize_seqscans TO off;'' @ NL else []) @
         (if b6 then ''SET INTERVALSTYLE = POSTGRES;'' @ NL else []) @
         (if IsCBEDB v then ''set hashdata.gp_create_syntax_compatible to on;'' @ NL else []))))"

definition IsEmptyTable :: "(string \<Rightarrow> int list res) \<Rightarrow> string \<Rightarrow> string \<Rightarrow> bool res" where
  "IsEmptyTable select schema table =
     rbind (select (''select 1 from '' @ schema @ ''.'' @ table @ '' limit 1'')) (\<lambda>results. Inr (length results = 0))"

section \<open>One copy operation\<close>

text \<open>
  The circumstances of one operation: the identifiers it generates, the answers to the polls,
  for each poll whether the main goroutine has seen the listener's error by then, whether it
  has when the operation fails later, the answer to the query for an empty table, and what the
  listener has made of the server's state and of the worker's transaction when \<open>Execute\<close> returns
  without waiting for it.
\<close>

record 'db circumstances =
  cmdID :: string
  ext_uuid :: string
  select_ports :: "nat \<Rightarrow> string \<Rightarrow> HelperPortInfo list res"
  seen :: "nat \<Rightarrow> bool"
  seen_late :: bool
  select_empty :: "string \<Rightarrow> int list res"
  part_done :: "'db \<times> bool \<Rightarrow> 'db \<times> bool"

definition maxRetries :: nat where "maxRetries = 1000"

fun waitForHelperPorts :: "CopyCommand \<Rightarrow> (nat \<Rightarrow> HelperPortInfo list res) \<Rightarrow> (nat \<Rightarrow> goerr option) \<Rightarrow> nat \<Rightarrow> nat \<Rightarrow>
    HelperPortInfo list res" where
  "waitForHelperPorts c polls copyErr i 0 = Inl (Error ''max retries exceeded while waiting for helper ports'')"
| "waitForHelperPorts c polls copyErr i (Suc n) =
     (case copyErr i of
        Some e \<Rightarrow> Inl e
      | None \<Rightarrow> (case polls i of
            Inl e \<Rightarrow> waitForHelperPorts c polls copyErr (Suc i) n
          | Inr helperPorts \<Rightarrow>
              if IsCopyFromStarted c (int (length helperPorts)) then Inr helperPorts
              else waitForHelperPorts c polls copyErr (Suc i) n))"

definition validateRowCounts :: "flagset \<Rightarrow> int \<Rightarrow> int \<Rightarrow> unit res" where
  "validateRowCounts f totalFromRows totalToRows =
     rbind (MustGetFlagBool f ''validate'') (\<lambda>validate.
       if \<not> validate then Inr ()
       else if totalFromRows \<noteq> totalToRows
       then Inl (Error (''Copy to affected rows '' @ Itoa totalToRows @
              '' are not equal to copy from affected rows '' @ Itoa totalFromRows))
       else Inr ())"

text \<open>
  How \<open>Execute\<close> ends: it returns (with its error, and whether it has waited for the listener),
  it panics, or a panic of the listener's goroutine ends the process.
\<close>

datatype ending = Returned "goerr option" bool | Panicked goerr | Process_ended goerr

fun is_error :: "goerr \<Rightarrow> bool" where
  "is_error (Error m) = True"
| "is_error _ = False"

definition returns :: "goerr \<Rightarrow> bool \<Rightarrow> ending" where
  "returns e awaited = (if is_error e then Returned (Some e) awaited else Panicked e)"

definition handleFailure :: "goerr \<Rightarrow> goerr option \<Rightarrow> ending" where
  "handleFailure toErr fromErr =
     (if is_error toErr then (case fromErr of Some e \<Rightarrow> Returned (Some e) True | None \<Rightarrow> Returned (Some toErr) False)
      else Panicked toErr)"

definition err_of :: "'a res \<Rightarrow> goerr option" where
  "err_of r = (case r of Inl e \<Rightarrow> Some e | Inr _ \<Rightarrow> None)"

text \<open>The static parts of a \<open>CopyManager\<close> and of the configuration.\<close>

record 'db manager_env =
  flags :: flagset
  ranges_of :: "(int, int) gomap \<Rightarrow> int list"
  srcDriver :: "'db driver"
  destDriver :: "'db driver"
  testStrategy :: string
  sameVersion :: bool
  srcSegs :: "SegmentHostInfo list"
  destSegs :: "SegmentHostInfo list"
  timestamp :: string
  setupQuery :: "string res"
  clientEncoding :: string
  table_mode :: string
  conn_mode :: string

definition listener :: "'db manager_env \<Rightarrow> 'db circumstances \<Rightarrow> CopyCommand \<Rightarrow> TablePair \<Rightarrow>
    ('db DBConn \<times> 'db DBConn, int) op" where
  "listener env ci c pair = (\<lambda>(src, dest).
     if conn_mode env = ''push''
     then (case CopyFrom (ranges_of env) (ext_uuid ci) (destDriver env) (flags env) c (DestTable pair) [] (cmdID ci) dest of
             (r, d) \<Rightarrow> (r, (src, d)))
     else (case CopyTo (srcDriver env) (flags env) c (SrcTable pair) [] (cmdID ci) src of
             (r, d) \<Rightarrow> (r, (d, dest))))"

definition dialer :: "'db manager_env \<Rightarrow> 'db circumstances \<Rightarrow> CopyCommand \<Rightarrow> TablePair \<Rightarrow> HelperPortInfo list \<Rightarrow>
    ('db DBConn \<times> 'db DBConn, int) op" where
  "dialer env ci c pair ports = (\<lambda>(src, dest).
     if conn_mode env = ''push''
     then (case CopyTo (srcDriver env) (flags env) c (SrcTable pair) ports (cmdID ci) src of
             (r, d) \<Rightarrow> (r, (d, dest)))
     else (case CopyFrom (ranges_of env) (ext_uuid ci) (destDriver env) (flags env) c (DestTable pair) ports (cmdID ci) dest of
             (r, d) \<Rightarrow> (r, (src, d))))"

definition polled_ports :: "'db manager_env \<Rightarrow> 'db circumstances \<Rightarrow> CopyCommand \<Rightarrow> goerr option \<Rightarrow> HelperPortInfo list res" where
  "polled_ports env ci c err =
     waitForHelperPorts c
       (\<lambda>i. GetHelperPortList (ranges_of env) (select_ports ci i) (timestamp env) (cmdID ci) (IsMasterCopy c))
       (\<lambda>i. if seen ci i then err else None) 0 maxRetries"

fun awaits :: "ending \<Rightarrow> bool" where
  "awaits (Returned _ awaited) = awaited"
| "awaits (Panicked _) = False"
| "awaits (Process_ended _) = True"

definition part_of :: "'db circumstances \<Rightarrow> nat \<Rightarrow> 'db DBConn \<Rightarrow> 'db DBConn" where
  "part_of ci w d = (case part_done ci (server d, Tx d ! w) of (s, tx) \<Rightarrow> d\<lparr>server := s, Tx := (Tx d)[w := tx]\<rparr>)"

text \<open>
  The connections when \<open>handleFailure\<close> ends with \<open>r\<close>: if it has not received from \<open>donec\<close>, the
  listening side is in some state between its start \<open>s\<close> and its end.
\<close>

definition settled :: "'db manager_env \<Rightarrow> 'db circumstances \<Rightarrow> CopyCommand \<Rightarrow> 'db DBConn \<times> 'db DBConn \<Rightarrow> ending \<Rightarrow>
    'db DBConn \<times> 'db DBConn \<Rightarrow> ending \<times> 'db DBConn \<times> 'db DBConn" where
  "settled env ci c s r s' =
     (r, if awaits r then s'
         else if conn_mode env = ''push'' then (fst s', part_of ci (WorkerId (base_of c)) (snd s))
         else (part_of ci (WorkerId (base_of c)) (fst s), snd s'))"

definition Execute :: "'db manager_env \<Rightarrow> 'db circumstances \<Rightarrow> CopyCommand \<Rightarrow> TablePair \<Rightarrow>
    'db DBConn \<times> 'db DBConn \<Rightarrow> ending \<times> 'db DBConn \<times> 'db DBConn" where
  "Execute env ci c pair s =
     (case listener env ci c pair s of (lr, s1) \<Rightarrow>
        case (case lr of Inl e \<Rightarrow> if is_error e then None else Some e | Inr _ \<Rightarrow> None) of
          Some e \<Rightarrow> (Process_ended e, s1)
        | None \<Rightarrow> case polled_ports env ci c (err_of lr) of
          Inl e \<Rightarrow> settled env ci c s
            (handleFailure e (if list_ex (seen ci) [0..<maxRetries] \<or> seen_late ci then err_of lr else None)) s1
        | Inr ports \<Rightarrow>
            (case dialer env ci c pair ports s1 of
               (Inl e, s2) \<Rightarrow> settled env ci c s (handleFailure e (if seen_late ci then err_of lr else None)) s2
             | (Inr dialed, s2) \<Rightarrow>
                 (case lr of
                    Inl e \<Rightarrow> (Returned (Some e) True, s2)
                  | Inr listened \<Rightarrow>
                      (case validateRowCounts (flags env)
                              (if conn_mode env = ''push'' then listened else dialed)
                              (if conn_mode env = ''push'' then dialed else listened) of
                         Inl e \<Rightarrow> (returns e True, s2)
                       | Inr _ \<Rightarrow> (Returned None True, s2)))))"


section \<open>One table\<close>

datatype status = COPY_SUCCED | COPY_SKIPED | COPY_FAILED

text \<open>
  The changing part of a \<open>CopyManager\<close>: the connections, the progress bar's counter, the result
  map of every worker and the lines of the three data files. \<open>abandoned\<close> are the workers whose
  listener goroutine was not waited for.
\<close>

record 'db CopyManager =
  srcConn :: "'db DBConn"
  destConn :: "'db DBConn"
  progress :: nat
  results :: "(string, status) gomap list"
  fSucced :: "string list"
  fFailed :: "string list"
  fSkipped :: "string list"
  abandoned :: "nat list"

definition NewCopyManager :: "'db DBConn \<Rightarrow> 'db DBConn \<Rightarrow> 'db CopyManager" where
  "NewCopyManager src dest = \<lparr>srcConn = src, destConn = dest, progress = 0,
     results = replicate (NumConns src) [], fSucced = [], fFailed = [], fSkipped = [], abandoned = []\<rparr>"

definition shouldSkipCopy :: "'db circumstances \<Rightarrow> Table \<Rightarrow> bool" where
  "shouldSkipCopy ci t =
     (case IsEmptyTable (select_empty ci) (Schema t) (Name t) of Inl e \<Rightarrow> False | Inr isEmpty \<Rightarrow> isEmpty)"

text \<open>
  \<open>prepareForCopy\<close> returns whether a transaction may be open and the error; \<open>Inl\<close> is a panic.
\<close>

definition prepareForCopy :: "'db manager_env \<Rightarrow> nat \<Rightarrow> Table \<Rightarrow> 'db DBConn \<Rightarrow> (bool \<times> goerr option) res \<times> 'db DBConn" where
  "prepareForCopy env w t d =
     (case setupQuery env of
        Inl e \<Rightarrow> (Inl e, d)
      | Inr q \<Rightarrow>
     (case Exec (destDriver env) (q @ NL @ ''SET client_encoding = '' @ [SQ] @ clientEncoding env @ [SQ] @ '';'') [int w] d of
        (Inl e, d) \<Rightarrow> (if is_error e then Inr (False, Some e) else Inl e, d)
      | (Inr _, d) \<Rightarrow>
     (case Begin (destDriver env) [int w] d of
        (Inl e, d) \<Rightarrow> (if is_error e then Inr (True, Some e) else Inl e, d)
      | (Inr _, d) \<Rightarrow>
          if table_mode env = ''truncate'' then
            (case Exec (destDriver env) (''TRUNCATE TABLE '' @ Schema t @ ''.'' @ Name t) [int w] d of
               (Inl e, d) \<Rightarrow> (if is_error e then Inr (True, Some e) else Inl e, d)
             | (Inr _, d) \<Rightarrow> (Inr (True, None), d))
          else (Inr (True, None), d))))"

definition tablePath :: "Table \<Rightarrow> string" where
  "tablePath t = [CHR 0x22] @ fqn (Schema t) (Name t) @ [CHR 0x22]"

definition data_line :: "'db CopyManager \<Rightarrow> Table \<Rightarrow> string" where
  "data_line m t = DBName (srcConn m) @ ''.'' @ Schema t @ ''.'' @ Name t @ NL"

definition set_result :: "nat \<Rightarrow> Table \<Rightarrow> status \<Rightarrow> 'db CopyManager \<Rightarrow> 'db CopyManager" where
  "set_result w t st m = m\<lparr>results := (results m)[w := go_set (tablePath t) st (results m ! w)]\<rparr>"

definition rollback :: "'db manager_env \<Rightarrow> nat \<Rightarrow> bool \<Rightarrow> 'db CopyManager \<Rightarrow> unit res \<times> 'db CopyManager" where
  "rollback env w inTxn m =
     (if inTxn then
        (case Rollback (destDriver env) [int w] (destConn m) of
           (r, d) \<Rightarrow> (case r of Inl e \<Rightarrow> if is_error e then Inr () else Inl e | Inr _ \<Rightarrow> Inr (), m\<lparr>destConn := d\<rparr>))
      else (Inr (), m))"

definition cleanupAfterCopy :: "'db manager_env \<Rightarrow> nat \<Rightarrow> Table \<Rightarrow> bool \<Rightarrow> bool \<Rightarrow> goerr option \<Rightarrow>
    'db CopyManager \<Rightarrow> unit res \<times> 'db CopyManager" where
  "cleanupAfterCopy env w t isSkipped inTxn err m =
     (let m = m\<lparr>progress := Suc (progress m)\<rparr>
      in if isSkipped then
           (Inr (), set_result w t COPY_SKIPED m\<lparr>fSkipped := fSkipped m @ [data_line m t]\<rparr>)
         else case err of
           Some e \<Rightarrow> rollback env w inTxn (set_result w t COPY_FAILED m\<lparr>fFailed := fFailed m @ [data_line m t]\<rparr>)
         | None \<Rightarrow> (Inr (), set_result w t COPY_SUCCED m\<lparr>fSucced := fSucced m @ [data_line m t]\<rparr>))"

definition copyData :: "'db manager_env \<Rightarrow> 'db circumstances \<Rightarrow> nat \<Rightarrow> TablePair \<Rightarrow> 'db CopyManager \<Rightarrow> ending \<times> 'db CopyManager" where
  "copyData env ci w pair m =
     (case CreateCopyStrategy (flags env) (testStrategy env) (IsReplicated (SrcTable pair)) (RelTuples (SrcTable pair)) w
             (srcSegs env) (destSegs env) (sameVersion env) (conn_mode env) of
        Inl e \<Rightarrow> (Panicked e, m)
      | Inr command \<Rightarrow>
          (case Execute env ci command pair (srcConn m, destConn m) of
             (r, (s, d)) \<Rightarrow>
               (r, m\<lparr>srcConn := s, destConn := d,
                     abandoned := (case r of Returned _ False \<Rightarrow> w # abandoned m | _ \<Rightarrow> abandoned m)\<rparr>)))"

text \<open>
  \<open>Copy\<close>: the deferred cleanup runs on every return and on a panic, then with the values the
  variables have at that time. \<open>Inl\<close>: the panic goes on, or the process has ended.
\<close>

definition finish :: "'db manager_env \<Rightarrow> nat \<Rightarrow> Table \<Rightarrow> bool \<Rightarrow> goerr \<Rightarrow> 'db CopyManager \<Rightarrow> unit res \<times> 'db CopyManager" where
  "finish env w t inTxn e m =
     (if is_error e then cleanupAfterCopy env w t False inTxn (Some e) m
      else (Inl e, snd (cleanupAfterCopy env w t False inTxn None m)))"

definition table_Copy :: "'db manager_env \<Rightarrow> 'db circumstances \<Rightarrow> nat \<Rightarrow> TablePair \<Rightarrow> 'db CopyManager \<Rightarrow>
    unit res \<times> 'db CopyManager" where
  "table_Copy env ci w pair m =
     (let t = SrcTable pair
      in if shouldSkipCopy ci t then cleanupAfterCopy env w t True False None m
         else case prepareForCopy env w (DestTable pair) (destConn m) of
           (Inl e, d) \<Rightarrow> (Inl e, snd (cleanupAfterCopy env w t False False None (m\<lparr>destConn := d\<rparr>)))
         | (Inr (inTxn, Some e), d) \<Rightarrow> finish env w t inTxn e (m\<lparr>destConn := d\<rparr>)
         | (Inr (inTxn, None), d) \<Rightarrow>
             (case copyData env ci w pair (m\<lparr>destConn := d\<rparr>) of
                (Process_ended e, m) \<Rightarrow> (Inl e, m)
              | (Panicked e, m) \<Rightarrow> (Inl e, snd (cleanupAfterCopy env w t False inTxn None m))
              | (Returned (Some e) _, m) \<Rightarrow> finish env w t inTxn e m
              | (Returned None _, m) \<Rightarrow>
                  (case Commit (destDriver env) [int w] (destConn m) of
                     (Inl e, d) \<Rightarrow> finish env w t inTxn e (m\<lparr>destConn := d\<rparr>)
                   | (Inr _, d) \<Rightarrow> cleanupAfterCopy env w t False inTxn None (m\<lparr>destConn := d\<rparr>))))"

text \<open>\<open>generateReport\<close>: the numbers of tables copied, skipped and failed.\<close>

definition count_status :: "status \<Rightarrow> (string, status) gomap list \<Rightarrow> nat" where
  "count_status st rs = sum_list (map (\<lambda>m. length (filter (\<lambda>kv. snd kv = st) m)) rs)"

definition generateReport :: "'db CopyManager \<Rightarrow> nat \<times> nat \<times> nat" where
  "generateReport m = (count_status COPY_SUCCED (results m), count_status COPY_SKIPED (results m),
     count_status COPY_FAILED (results m))"

definition manager_Close :: "'db driver \<Rightarrow> 'db driver \<Rightarrow> 'db CopyManager \<Rightarrow> (nat \<times> nat \<times> nat) \<times> 'db CopyManager" where
  "manager_Close srcDrv destDrv m =
     (generateReport m, m\<lparr>srcConn := Dbconn.Close srcDrv (srcConn m), destConn := Dbconn.Close destDrv (destConn m)\<rparr>)"


section \<open>The copy operation\<close>

lemma wait_ok:
  "waitForHelperPorts c polls err i n = Inr ports \<Longrightarrow>
   \<exists>k. i \<le> k \<and> k < i + n \<and> polls k = Inr ports \<and> IsCopyFromStarted c (int (length ports)) \<and> err k = None"
proof (induction n arbitrary: i)
  case 0
  then show ?case by simp
next
  case (Suc n)
  show ?case
  proof (cases "err i = None \<and> polls i = Inr ports \<and> IsCopyFromStarted c (int (length ports))")
    case True
    then show ?thesis by (intro exI[of _ i]) simp
  next
    case False
    with Suc.prems have "waitForHelperPorts c polls err (Suc i) n = Inr ports"
      by (auto split: option.splits sum.splits if_splits)
    from Suc.IH[OF this] show ?thesis by (metis Suc_leD add_Suc_right add_Suc)
  qed
qed

lemma wait_live:
  assumes "\<And>j. i \<le> j \<Longrightarrow> j \<le> k \<Longrightarrow> err j = None" and "i \<le> k" and "k < i + n"
    and "polls k = Inr ports" and "IsCopyFromStarted c (int (length ports))"
    and "\<And>j p. i \<le> j \<Longrightarrow> j < k \<Longrightarrow> polls j = Inr p \<Longrightarrow> \<not> IsCopyFromStarted c (int (length p))"
  shows "waitForHelperPorts c polls err i n = Inr ports"
  using assms
proof (induction n arbitrary: i)
  case 0
  then show ?case by simp
next
  case (Suc n)
  show ?case
  proof (cases "i = k")
    case True
    with Suc.prems(1)[of i] Suc.prems(4,5) show ?thesis by simp
  next
    case False
    with Suc.prems(2,3) have "Suc i \<le> k" "k < Suc i + n" by simp_all
    then have "waitForHelperPorts c polls err (Suc i) n = Inr ports"
      by (intro Suc.IH) (use Suc.prems(1-5) Suc.prems(6)[OF Suc_leD] in auto)
    moreover have "\<not> IsCopyFromStarted c (int (length p))" if "polls i = Inr p" for p
      using Suc.prems(6)[of i p] False Suc.prems(2) that by simp
    ultimately show ?thesis
      using Suc.prems(1)[of i] Suc.prems(2) by (auto split: sum.splits)
  qed
qed

lemma handleFailure_not_None [simp]: "handleFailure e x \<noteq> Returned None b" "Returned None b \<noteq> handleFailure e x"
  by (auto simp: handleFailure_def split: option.splits)

lemma returns_not_None [simp]: "returns e b \<noteq> Returned None b'" "Returned None b' \<noteq> returns e b"
  by (auto simp: returns_def)

lemma Execute_None:
  assumes "Execute env ci c pair s = (Returned None awaited, s')"
  obtains a b ports s1 where "listener env ci c pair s = (Inr a, s1)"
    "polled_ports env ci c None = Inr ports" "dialer env ci c pair ports s1 = (Inr b, s')" "awaited"
    "validateRowCounts (flags env) (if conn_mode env = ''push'' then a else b)
       (if conn_mode env = ''push'' then b else a) = Inr ()"
  using assms that
  by (auto simp: Execute_def settled_def err_of_def split: prod.splits sum.splits option.splits if_splits)

lemma test_strategy_worker:
  assumes "createTestCopyStrategy f ts w src dest mode cpr = Inr c"
  shows "WorkerId (base_of c) = w \<and> ConnectionMode (base_of c) = mode"
  using assms unfolding createTestCopyStrategy_def newExtDestLtCopy_def Let_def rbind_Inr_iff
  by (elim exE conjE) (simp split: if_splits; fastforce)

lemma worker_of:
  assumes "CreateCopyStrategy f ts rep n w src dest same mode = Inr c"
  shows "WorkerId (base_of c) = w \<and> ConnectionMode (base_of c) = mode"
proof (cases "ts = []")
  case True
  with assms chosen_shape show ?thesis by blast
next
  case False
  with assms consider "\<exists>cpr. createTestCopyStrategy f ts w src dest mode cpr = Inr c"
    | "\<exists>a. c = CopyOnMaster \<lparr>WorkerId = w, SrcSegmentsHostInfo = src, DestSegmentsHostInfo = dest,
         ConnectionMode = mode, CompArg = a\<rparr>"
    by (cases rep) (auto simp: CreateCopyStrategy_def Let_def rbind_Inr_iff)
  then show ?thesis using test_strategy_worker by cases auto
qed

section \<open>Transactions\<close>

text \<open>The destination side of a copy operation keeps the worker's transaction.\<close>

lemma listener_dest:
  assumes "keeps (conn_ok w) (\<lambda>d. Tx d ! w) (CopyFrom (ranges_of env) (ext_uuid ci) (destDriver env) (flags env) c (DestTable pair) [] (cmdID ci))"
    and "listener env ci c pair (src, dest) = (r, (src', dest'))" and "conn_ok w dest" "Tx dest ! w"
  shows "conn_ok w dest' \<and> (\<forall>a. r = Inr a \<longrightarrow> Tx dest' ! w)"
  using assms by (fastforce simp: listener_def keeps_def split: if_splits prod.splits)

lemma dialer_dest:
  assumes "keeps (conn_ok w) (\<lambda>d. Tx d ! w) (CopyFrom (ranges_of env) (ext_uuid ci) (destDriver env) (flags env) c (DestTable pair) ports (cmdID ci))"
    and "dialer env ci c pair ports (src, dest) = (r, (src', dest'))" and "conn_ok w dest"
    and "conn_mode env = ''push'' \<or> Tx dest ! w"
  shows "conn_ok w dest'"
  using assms by (fastforce simp: dialer_def keeps_def split: if_splits prod.splits)

lemma part_of_ok: "conn_ok w d \<Longrightarrow> conn_ok w (part_of ci w d)"
  by (simp add: part_of_def conn_ok_def split: prod.splits)

lemma part_of_name: "DBName (part_of ci w d) = DBName d"
  by (simp add: part_of_def split: prod.splits)

lemma Execute_dest:
  assumes ex: "Execute env ci c pair (src, dest) = (r, (src', dest'))" and w: "WorkerId (base_of c) = w"
    and ok: "conn_ok w dest" "Tx dest ! w"
  shows "conn_ok w dest'"
proof -
  obtain lr src1 dest1 where l: "listener env ci c pair (src, dest) = (lr, (src1, dest1))"
    by (metis prod.collapse)
  note keep = CopyFrom_keeps[of c, unfolded w]
  from listener_dest[OF keep l ok] have 1: "conn_ok w dest1" "\<forall>a. lr = Inr a \<longrightarrow> Tx dest1 ! w" by auto
  have tx: "conn_mode env = ''push'' \<or> Tx dest1 ! w"
    using l ok by (auto simp: listener_def split: if_splits prod.splits)
  have 2: "conn_ok w dest2" if "dialer env ci c pair ports (src1, dest1) = (x, (src2, dest2))" for ports x src2 dest2
    using dialer_dest[OF keep that 1(1) tx] .
  show ?thesis
    using ex l 1(1) 2 part_of_ok[OF ok(1), of ci] w
    by (auto simp: Execute_def settled_def split: sum.splits option.splits if_splits prod.splits)
qed


text \<open>
  \<open>tallied w t st m m'\<close>: the table was counted, its line added to the one file of status \<open>st\<close>, and its
  status set in the worker's map.
\<close>

definition tallied :: "nat \<Rightarrow> Table \<Rightarrow> status \<Rightarrow> 'db CopyManager \<Rightarrow> 'db CopyManager \<Rightarrow> bool" where
  "tallied w t st m m' \<longleftrightarrow>
     progress m' = Suc (progress m) \<and>
     results m' = (results m)[w := go_set (tablePath t) st (results m ! w)] \<and>
     fSucced m' = fSucced m @ (if st = COPY_SUCCED then [data_line m t] else []) \<and>
     fSkipped m' = fSkipped m @ (if st = COPY_SKIPED then [data_line m t] else []) \<and>
     fFailed m' = fFailed m @ (if st = COPY_FAILED then [data_line m t] else [])"

lemma cleanup_skipped: "cleanupAfterCopy env w t True inTxn err m = (r, m') \<Longrightarrow>
  r = Inr () \<and> tallied w t COPY_SKIPED m m' \<and> destConn m' = destConn m \<and> abandoned m' = abandoned m"
  by (auto simp: cleanupAfterCopy_def Let_def set_result_def tallied_def data_line_def)

lemma cleanup_ok: "cleanupAfterCopy env w t False inTxn None m = (r, m') \<Longrightarrow>
  r = Inr () \<and> tallied w t COPY_SUCCED m m' \<and> destConn m' = destConn m \<and> abandoned m' = abandoned m"
  by (auto simp: cleanupAfterCopy_def Let_def set_result_def tallied_def data_line_def)

lemma cleanup_failed: "cleanupAfterCopy env w t False inTxn (Some e) m = (r, m') \<Longrightarrow>
  tallied w t COPY_FAILED m m' \<and> abandoned m' = abandoned m \<and>
  destConn m' = (if inTxn then snd (Rollback (destDriver env) [int w] (destConn m)) else destConn m)"
  by (auto simp: cleanupAfterCopy_def Let_def set_result_def tallied_def data_line_def rollback_def
      split: prod.splits if_splits)

lemma finish_ok: "finish env w t inTxn e m = (Inr (), m') \<Longrightarrow>
  tallied w t COPY_FAILED m m' \<and> abandoned m' = abandoned m \<and>
  destConn m' = (if inTxn then snd (Rollback (destDriver env) [int w] (destConn m)) else destConn m)"
  by (auto simp: finish_def dest!: cleanup_failed split: if_splits)

text \<open>Connections and the name of the source database are no part of the tally.\<close>

definition same_tally :: "'db CopyManager \<Rightarrow> 'db CopyManager \<Rightarrow> bool" where
  "same_tally m m' \<longleftrightarrow> progress m' = progress m \<and> results m' = results m \<and> fSucced m' = fSucced m \<and>
     fSkipped m' = fSkipped m \<and> fFailed m' = fFailed m \<and> DBName (srcConn m') = DBName (srcConn m)"

lemma tallied_same: "tallied w t st m1 m' \<Longrightarrow> same_tally m m1 \<Longrightarrow> tallied w t st m m'"
  by (simp add: tallied_def same_tally_def data_line_def)

lemma same_tally_dest [simp]: "same_tally m (m\<lparr>destConn := d\<rparr>)" "same_tally m m"
  by (simp_all add: same_tally_def)

lemma same_tally_trans: "same_tally a b \<Longrightarrow> same_tally b c \<Longrightarrow> same_tally a c"
  by (simp add: same_tally_def)

lemma Exec_name: "DBName (snd (Exec drv q cs d)) = DBName d"
  by (auto simp: Exec_def obind_def tx_of_def rbind_def split: sum.splits prod.splits)

lemma CopyTo_name: "DBName (snd (CopyTo drv f c t ports cmd d)) = DBName d"
proof -
  have "DBName (snd (obind (olift r) (\<lambda>q. Exec drv q cs) d)) = DBName d" for r cs
    by (cases r) (simp_all add: obind_def Exec_name)
  then show ?thesis by (cases c) simp_all
qed

lemma CopyTo_name': "CopyTo drv f c t ports cmd d = (r, d') \<Longrightarrow> DBName d' = DBName d"
  using CopyTo_name[of drv f c t ports cmd d] by simp

lemma listener_name: "listener env ci c pair (s, d) = (r, (s', d')) \<Longrightarrow> DBName s' = DBName s"
  by (auto simp: listener_def dest: CopyTo_name' split: if_splits prod.splits)

lemma dialer_name: "dialer env ci c pair ports (s, d) = (r, (s', d')) \<Longrightarrow> DBName s' = DBName s"
  by (auto simp: dialer_def dest: CopyTo_name' split: if_splits prod.splits)

lemma Execute_name:
  assumes "Execute env ci c pair (s, d) = (r, (s', d'))"
  shows "DBName s' = DBName s"
proof -
  obtain lr s1 d1 where l: "listener env ci c pair (s, d) = (lr, (s1, d1))" by (metis prod.collapse)
  show ?thesis
    using assms l listener_name[OF l] dialer_name[of env ci c pair _ s1 d1]
    by (fastforce simp: Execute_def settled_def part_of_name split: sum.splits option.splits if_splits prod.splits)
qed

lemma copyData_tally: "copyData env ci w pair m = (r, m') \<Longrightarrow> same_tally m m'"
  by (auto simp: copyData_def same_tally_def dest: Execute_name split: sum.splits prod.splits)


lemma prepare_ok:
  assumes "prepareForCopy env w t d = (Inr (inTxn, err), d')" and "conn_ok w d"
  shows "conn_ok w d' \<and> (err = None \<longrightarrow> inTxn \<and> Tx d' ! w) \<and> (\<not> inTxn \<longrightarrow> Tx d' ! w = Tx d ! w)"
proof -
  let ?drv = "destDriver env"
  let ?q = "the (case setupQuery env of Inr q \<Rightarrow> Some (q @ NL @ ''SET client_encoding = '' @ [SQ] @ clientEncoding env @ [SQ] @ '';'') | Inl _ \<Rightarrow> None)"
  obtain r1 d1 where 1: "Exec ?drv ?q [int w] d = (r1, d1)" by fastforce
  obtain r2 d2 where 2: "Begin ?drv [int w] d1 = (r2, d2)" by fastforce
  obtain r3 d3 where 3: "Exec ?drv (''TRUNCATE TABLE '' @ Schema t @ ''.'' @ Name t) [int w] d2 = (r3, d3)" by fastforce
  have ok1: "conn_ok w d1" "Tx d1 ! w = Tx d ! w" using db.exec_keeps[OF assms(2), of ?drv ?q] 1 by simp_all
  have ok2: "conn_ok w d2" "r2 = Inr () \<Longrightarrow> Tx d2 ! w" using db.begin_ok[OF ok1(1), of ?drv] 2 by simp_all
  have ok3: "conn_ok w d3" "Tx d3 ! w = Tx d2 ! w"
    using db.exec_keeps[OF ok2(1), of ?drv "''TRUNCATE TABLE '' @ Schema t @ ''.'' @ Name t"] 3 by simp_all
  show ?thesis
    using assms(1) 1 2 3 ok1 ok2 ok3
    by (auto simp: prepareForCopy_def split: sum.splits if_splits)
qed

text \<open>
  The cases of a copy that returns: skipped, failed before or after the transaction was opened
  (with the states at which the cleanup starts), or committed.
\<close>

lemma table_Copy_cases:
  assumes "table_Copy env ci w pair m = (Inr (), m')"
  obtains "shouldSkipCopy ci (SrcTable pair)" "cleanupAfterCopy env w (SrcTable pair) True False None m = (Inr (), m')"
  | inTxn e d where "prepareForCopy env w (DestTable pair) (destConn m) = (Inr (inTxn, Some e), d)"
      "finish env w (SrcTable pair) inTxn e (m\<lparr>destConn := d\<rparr>) = (Inr (), m')"
  | inTxn d e b m1 where "prepareForCopy env w (DestTable pair) (destConn m) = (Inr (inTxn, None), d)"
      "copyData env ci w pair (m\<lparr>destConn := d\<rparr>) = (Returned (Some e) b, m1)"
      "finish env w (SrcTable pair) inTxn e m1 = (Inr (), m')"
  | inTxn d e b m1 d1 where "prepareForCopy env w (DestTable pair) (destConn m) = (Inr (inTxn, None), d)"
      "copyData env ci w pair (m\<lparr>destConn := d\<rparr>) = (Returned None b, m1)"
      "Commit (destDriver env) [int w] (destConn m1) = (Inl e, d1)"
      "finish env w (SrcTable pair) inTxn e (m1\<lparr>destConn := d1\<rparr>) = (Inr (), m')"
  | inTxn d b m1 d1 where "prepareForCopy env w (DestTable pair) (destConn m) = (Inr (inTxn, None), d)"
      "copyData env ci w pair (m\<lparr>destConn := d\<rparr>) = (Returned None b, m1)"
      "Commit (destDriver env) [int w] (destConn m1) = (Inr (), d1)"
      "cleanupAfterCopy env w (SrcTable pair) False inTxn None (m1\<lparr>destConn := d1\<rparr>) = (Inr (), m')"
  using assms unfolding table_Copy_def Let_def
  by (auto split: if_splits prod.splits sum.splits option.splits ending.splits)

lemma copyData_dest:
  assumes "copyData env ci w pair m = (r, m')" and "conn_ok w (destConn m)" "Tx (destConn m) ! w"
  shows "conn_ok w (destConn m')"
proof (cases "CreateCopyStrategy (flags env) (testStrategy env) (IsReplicated (SrcTable pair)) (RelTuples (SrcTable pair)) w
    (srcSegs env) (destSegs env) (sameVersion env) (conn_mode env)")
  case (Inl e)
  with assms show ?thesis by (simp add: copyData_def)
next
  case (Inr c)
  obtain r' s d where ex: "Execute env ci c pair (srcConn m, destConn m) = (r', (s, d))" by (metis prod.collapse)
  with assms(1) Inr have "destConn m' = d" by (auto simp: copyData_def)
  with Execute_dest[OF ex _ assms(2,3)] worker_of[OF Inr] show ?thesis by blast
qed

lemma rollback_closes: "conn_ok w d \<Longrightarrow> conn_ok w (snd (Rollback drv [int w] d)) \<and> \<not> Tx (snd (Rollback drv [int w] d)) ! w"
  by (rule db.rollback_ends)


section \<open>Properties of one table\<close>

text \<open>
  Claim C13. When \<open>Execute\<close> reports success it has waited for the listener; one of its first 1000
  polls returned a port list the strategy accepts, both the listening and the dialing command
  succeeded, the latter with that port list, and with \<open>--validate\<close> both report the same number
  of rows.
\<close>

theorem Execute_complete:
  assumes "Execute env ci c pair s = (Returned None awaited, s')"
  shows "awaited \<and> (\<exists>k a b ports s1. k < 1000 \<and>
    GetHelperPortList (ranges_of env) (select_ports ci k) (timestamp env) (cmdID ci) (IsMasterCopy c) = Inr ports \<and>
    IsCopyFromStarted c (int (length ports)) \<and>
    listener env ci c pair s = (Inr a, s1) \<and> dialer env ci c pair ports s1 = (Inr b, s') \<and>
    (GetBool (flags env) ''validate'' = Inr True \<longrightarrow> a = b))"
proof -
  obtain a b ports s1 where l: "listener env ci c pair s = (Inr a, s1)"
    and p: "polled_ports env ci c None = Inr ports" and d: "dialer env ci c pair ports s1 = (Inr b, s')" and aw: "awaited"
    and v: "validateRowCounts (flags env) (if conn_mode env = ''push'' then a else b)
       (if conn_mode env = ''push'' then b else a) = Inr ()"
    by (rule Execute_None[OF assms])
  obtain k where k: "k < maxRetries" "IsCopyFromStarted c (int (length ports))"
    "GetHelperPortList (ranges_of env) (select_ports ci k) (timestamp env) (cmdID ci) (IsMasterCopy c) = Inr ports"
    using wait_ok[OF p[unfolded polled_ports_def]] by auto
  have "GetBool (flags env) ''validate'' = Inr True \<longrightarrow> a = b"
    using v by (auto simp: validateRowCounts_def MustGet_defs split: if_splits)
  with k l d aw show ?thesis by (auto simp: maxRetries_def)
qed

definition demo_driver :: "unit driver" where
  "demo_driver = \<lparr>drv_connect = (\<lambda>_ s. (Inr (), s)), drv_close = (\<lambda>_ s. s), drv_begin = (\<lambda>_ s. (Inr (), s)),
     drv_commit = (\<lambda>_ s. (Inr (), s)), drv_rollback = (\<lambda>_ s. (Inr (), s)), drv_exec = (\<lambda>_ _ _ s. (Inr 5, s))\<rparr>"

definition demo_env_with :: "'db driver \<Rightarrow> 'db driver \<Rightarrow> 'db manager_env" where
  "demo_env_with srcDrv destDrv = \<lparr>flags = demo_flags\<lparr>GetBool := (\<lambda>n. Inr (n = ''validate''))\<rparr>, ranges_of = go_keys,
     srcDriver = srcDrv, destDriver = destDrv, testStrategy = [], sameVersion = True,
     srcSegs = [demo_seg 0], destSegs = [demo_seg 0], timestamp = ''ts'', setupQuery = Inr [],
     clientEncoding = ''UTF8'', table_mode = ''truncate'', conn_mode = ''push''\<rparr>"

definition demo_env :: "unit manager_env" where
  "demo_env = demo_env_with demo_driver demo_driver"

definition demo_circumstances :: "nat \<Rightarrow> 'db circumstances" where
  "demo_circumstances k = \<lparr>cmdID = ''id'', ext_uuid = ''u'',
     select_ports = (\<lambda>i _. Inr (if i < k then [] else [\<lparr>hp_Content = -1, hp_Port = 7\<rparr>])),
     seen = (\<lambda>_. False), seen_late = False, select_empty = (\<lambda>_. Inr [1]), part_done = id\<rparr>"

definition demo_conn :: "unit DBConn" where
  "demo_conn = \<lparr>DBName = ''db'', pool = True, NumConns = 2, Tx = [False, False], server = ()\<rparr>"

definition demo_pair :: TablePair where
  "demo_pair = \<lparr>SrcTable = mkTable ''s'' ''t'', DestTable = mkTable ''s'' ''t''\<rparr>"

definition demo_master :: CopyCommand where
  "demo_master = CopyOnMaster \<lparr>WorkerId = 1, SrcSegmentsHostInfo = [demo_seg 0], DestSegmentsHostInfo = [demo_seg 0],
     ConnectionMode = ''push'', CompArg = ''--no-compression''\<rparr>"

lemma demo_not_skipped: "\<not> shouldSkipCopy (demo_circumstances k) (SrcTable demo_pair)"
  by (simp add: shouldSkipCopy_def IsEmptyTable_def demo_circumstances_def)

lemma demo_polled: "polled_ports (demo_env_with sd dd) (demo_circumstances 1) demo_master None = Inr [\<lparr>hp_Content = -1, hp_Port = 7\<rparr>]"
  unfolding polled_ports_def
proof (rule wait_live[of 0 1])
  show "GetHelperPortList (ranges_of (demo_env_with sd dd)) (select_ports (demo_circumstances 1) 1) (timestamp (demo_env_with sd dd))
      (cmdID (demo_circumstances 1)) (IsMasterCopy demo_master) = Inr [\<lparr>hp_Content = -1, hp_Port = 7\<rparr>]"
    by (simp add: GetHelperPortList_def demo_circumstances_def demo_env_with_def processPortList_def port_map_def go_int_def)
qed (auto simp: maxRetries_def demo_master_def GetHelperPortList_def demo_circumstances_def)

lemma demo_Execute:
  assumes "Tx d = [False, tx]" "NumConns d = 2"
  shows "Execute demo_env (demo_circumstances 1) demo_master demo_pair (demo_conn, d) = (Returned None True, (demo_conn, d))"
proof -
  have "listener demo_env (demo_circumstances 1) demo_master demo_pair (demo_conn, d) = (Inr 5, (demo_conn, d))"
    using assms by (simp add: listener_def demo_env_def demo_env_with_def demo_master_def obind_def master_receive_def MustGet_defs demo_flags_def
        ExecContext_def Exec_ok[of 1, simplified] conn_ok_def demo_driver_def)
  moreover have "dialer demo_env (demo_circumstances 1) demo_master demo_pair [\<lparr>hp_Content = -1, hp_Port = 7\<rparr>] (demo_conn, d) =
      (Inr 5, (demo_conn, d))"
    by (simp add: dialer_def demo_env_def demo_env_with_def demo_master_def obind_def master_send_def FormMasterHelperAddress_def MustGet_defs
        demo_flags_def Exec_ok[of 1, simplified] conn_ok_def demo_driver_def demo_conn_def)
  moreover have "validateRowCounts (flags demo_env) 5 5 = Inr ()"
    by (simp add: validateRowCounts_def MustGet_defs demo_env_def demo_env_with_def)
  ultimately show ?thesis
    using demo_polled[of demo_driver demo_driver] by (simp add: Execute_def err_of_def demo_env_def demo_env_with_def)
qed

theorem Execute_complete_witness:
  "\<exists>s'. Execute demo_env (demo_circumstances 1) demo_master demo_pair (demo_conn, demo_conn) = (Returned None True, s') \<and>
     (\<exists>a ports s1 b. IsCopyFromStarted demo_master (int (length ports)) \<and>
        listener demo_env (demo_circumstances 1) demo_master demo_pair (demo_conn, demo_conn) = (Inr a, s1) \<and>
        dialer demo_env (demo_circumstances 1) demo_master demo_pair ports s1 = (Inr b, s') \<and> a = b)"
proof -
  have ex: "Execute demo_env (demo_circumstances 1) demo_master demo_pair (demo_conn, demo_conn) = (Returned None True, (demo_conn, demo_conn))"
    by (rule demo_Execute[of _ False]) (simp_all add: demo_conn_def)
  have "GetBool (flags demo_env) ''validate'' = Inr True" by (simp add: demo_env_def demo_env_with_def)
  with Execute_complete[OF ex] ex show ?thesis by blast
qed


lemma table_Copy_status:
  assumes "table_Copy env ci w pair m = (Inr (), m')"
  shows "\<exists>st. tallied w (SrcTable pair) st m m' \<and>
    (st = COPY_SKIPED \<longleftrightarrow> shouldSkipCopy ci (SrcTable pair)) \<and>
    (st = COPY_SUCCED \<longrightarrow> (\<exists>inTxn d m1 b. prepareForCopy env w (DestTable pair) (destConn m) = (Inr (inTxn, None), d) \<and>
       copyData env ci w pair (m\<lparr>destConn := d\<rparr>) = (Returned None b, m1) \<and>
       Commit (destDriver env) [int w] (destConn m1) = (Inr (), destConn m')))"
proof (cases "shouldSkipCopy ci (SrcTable pair)")
  case True
  with assms have "tallied w (SrcTable pair) COPY_SKIPED m m'"
    by (auto simp: table_Copy_def dest: cleanup_skipped)
  with True show ?thesis by (intro exI[of _ COPY_SKIPED]) simp
next
  case False
  have fail: "?thesis" if "finish env w (SrcTable pair) inTxn e m1 = (Inr (), m')" "same_tally m m1" for inTxn e m1
    using tallied_same[of w "SrcTable pair" COPY_FAILED m1 m' m] finish_ok[OF that(1)] that(2) False
    by (intro exI[of _ COPY_FAILED]) simp
  have tally: "same_tally m (m1\<lparr>destConn := d1\<rparr>) \<and> same_tally m m1"
    if "copyData env ci w pair (m\<lparr>destConn := d\<rparr>) = (r, m1)" for r d m1 d1
    using copyData_tally[OF that] by (simp add: same_tally_def)
  show ?thesis
  proof (cases rule: table_Copy_cases[OF assms])
    case 1
    with False show ?thesis by simp
  next
    case (2 inTxn e d)
    from fail[OF 2(2)] show ?thesis by simp
  next
    case (3 inTxn d e b m1)
    from fail[OF 3(3)] tally[OF 3(2)] show ?thesis by simp
  next
    case (4 inTxn d e b m1 d1)
    from fail[OF 4(4)] tally[OF 4(2)] show ?thesis by simp
  next
    case (5 inTxn d b m1 d1)
    with tallied_same[of w "SrcTable pair" COPY_SUCCED "m1\<lparr>destConn := d1\<rparr>" m' m] cleanup_ok[OF 5(4)] tally[OF 5(2)] False
    show ?thesis by (intro exI[of _ COPY_SUCCED]) auto
  qed
qed

text \<open>
  Claim C15. Copying one table, when it returns, counts the table once, writes its line to exactly one
  of the three files and sets that status. A source table found empty is skipped, and a table is
  reported as copied only if the destination was prepared, the data copy succeeded and the
  transaction was then committed.
\<close>

theorem table_Copy_tally:
  assumes "table_Copy env ci w pair m = (Inr (), m')"
  shows "\<exists>st. tallied w (SrcTable pair) st m m' \<and>
    (st = COPY_SKIPED \<longleftrightarrow> shouldSkipCopy ci (SrcTable pair)) \<and>
    (st = COPY_SUCCED \<longrightarrow> (\<exists>inTxn d m1 b. prepareForCopy env w (DestTable pair) (destConn m) = (Inr (inTxn, None), d) \<and>
       copyData env ci w pair (m\<lparr>destConn := d\<rparr>) = (Returned None b, m1) \<and>
       Commit (destDriver env) [int w] (destConn m1) = (Inr (), destConn m')))"
  by (rule table_Copy_status[OF assms])

definition demo_manager :: "unit CopyManager" where
  "demo_manager = NewCopyManager demo_conn demo_conn"

lemma demo_prepare:
  "prepareForCopy demo_env 1 (mkTable ''s'' ''t'') demo_conn = (Inr (True, None), demo_conn\<lparr>Tx := [False, True]\<rparr>)"
  by (simp add: prepareForCopy_def demo_env_def demo_env_with_def Exec_def Begin_def obind_def tx_of_def ValidateConnNum_def demo_conn_def demo_driver_def)

lemma demo_copyData:
  "copyData demo_env (demo_circumstances 1) 1 demo_pair (demo_manager\<lparr>destConn := demo_conn\<lparr>Tx := [False, True]\<rparr>\<rparr>) =
     (Returned None True, demo_manager\<lparr>destConn := demo_conn\<lparr>Tx := [False, True]\<rparr>\<rparr>)"
proof -
  have "CreateCopyStrategy (flags demo_env) (testStrategy demo_env) (IsReplicated (SrcTable demo_pair))
      (RelTuples (SrcTable demo_pair)) 1 (srcSegs demo_env) (destSegs demo_env) (sameVersion demo_env) (conn_mode demo_env) = Inr demo_master"
    by (simp add: CreateCopyStrategy_def demo_env_def demo_env_with_def demo_pair_def mkTable_def MustGet_defs demo_flags_def getCompressArg_def demo_master_def)
  moreover have "Execute demo_env (demo_circumstances 1) demo_master demo_pair (demo_conn, demo_conn\<lparr>Tx := [False, True]\<rparr>) =
      (Returned None True, (demo_conn, demo_conn\<lparr>Tx := [False, True]\<rparr>))"
    by (rule demo_Execute[of _ True]) (simp_all add: demo_conn_def)
  ultimately show ?thesis by (simp add: copyData_def demo_manager_def NewCopyManager_def)
qed

lemma demo_table_Copy:
  "\<exists>m'. table_Copy demo_env (demo_circumstances 1) 1 demo_pair demo_manager = (Inr (), m') \<and>
     fSucced m' = [''db.s.t'' @ NL] \<and> abandoned m' = [] \<and> Tx (destConn m') = [False, False]"
proof -
  note demo_not_skipped
  moreover have "prepareForCopy demo_env 1 (DestTable demo_pair) (destConn demo_manager) = (Inr (True, None), demo_conn\<lparr>Tx := [False, True]\<rparr>)"
    using demo_prepare by (simp add: demo_pair_def demo_manager_def NewCopyManager_def)
  moreover have "Commit (destDriver demo_env) [int 1] (demo_conn\<lparr>Tx := [False, True]\<rparr>) = (Inr (), demo_conn)"
    by (simp add: demo_env_def demo_env_with_def Commit_def end_tx_def obind_def tx_of_def ValidateConnNum_def demo_conn_def demo_driver_def)
  ultimately show ?thesis
    using demo_copyData
    by (simp add: table_Copy_def Let_def cleanupAfterCopy_def set_result_def demo_manager_def NewCopyManager_def data_line_def
        demo_pair_def mkTable_def demo_conn_def)
qed

theorem table_Copy_tally_witness:
  "\<exists>m' st. table_Copy demo_env (demo_circumstances 1) 1 demo_pair demo_manager = (Inr (), m') \<and>
     tallied 1 (SrcTable demo_pair) st demo_manager m' \<and> st \<noteq> COPY_SKIPED"
proof -
  obtain m' where "table_Copy demo_env (demo_circumstances 1) 1 demo_pair demo_manager = (Inr (), m')"
    using demo_table_Copy by blast
  moreover note demo_not_skipped
  ultimately show ?thesis using table_Copy_tally by blast
qed

text \<open>
  Claim C16. Copying one table from a connection without a transaction leaves none open on the
  destination, whether the table was skipped, failed or copied, unless the worker was abandoned:
  then a listener that was not waited for may still use the connection.
\<close>

theorem table_Copy_closes_transaction:
  assumes "table_Copy env ci w pair m = (Inr (), m')" and "conn_ok w (destConn m)" and "\<not> Tx (destConn m) ! w"
  shows "conn_ok w (destConn m') \<and> (w \<in> set (abandoned m') \<or> \<not> Tx (destConn m') ! w)"
proof -
  have prep: "conn_ok w d \<and> (e = None \<longrightarrow> inTxn \<and> Tx d ! w) \<and> (\<not> inTxn \<longrightarrow> \<not> Tx d ! w)"
    if "prepareForCopy env w (DestTable pair) (destConn m) = (Inr (inTxn, e), d)" for inTxn e d
    using prepare_ok[OF that assms(2)] assms(3) by blast
  have data: "conn_ok w (destConn m1)"
    if "prepareForCopy env w (DestTable pair) (destConn m) = (Inr (inTxn, None), d)"
      "copyData env ci w pair (m\<lparr>destConn := d\<rparr>) = (r, m1)" for inTxn d r m1
    using copyData_dest[OF that(2)] prep[OF that(1)] by simp
  have "conn_ok w (destConn m') \<and> \<not> Tx (destConn m') ! w"
  proof (cases rule: table_Copy_cases[OF assms(1)])
    case 1
    with assms(2,3) cleanup_skipped[OF 1(2)] show ?thesis by simp
  next
    case (2 inTxn e d)
    with prep[OF 2(1)] finish_ok[OF 2(2)] rollback_closes[of w d "destDriver env"] show ?thesis by simp
  next
    case (3 inTxn d e b m1)
    with prep[OF 3(1)] finish_ok[OF 3(3)] rollback_closes[OF data[OF 3(1,2)]] show ?thesis by simp
  next
    case (4 inTxn d e b m1 d1)
    with db.commit_ends[OF data[OF 4(1,2)], of "destDriver env"] prep[OF 4(1)] finish_ok[OF 4(4)]
      rollback_closes[of w d1 "destDriver env"] show ?thesis by simp
  next
    case (5 inTxn d b m1 d1)
    with db.commit_ends[OF data[OF 5(1,2)], of "destDriver env"] cleanup_ok[OF 5(4)] show ?thesis by simp
  qed
  then show ?thesis by blast
qed

theorem table_Copy_closes_transaction_witness:
  "\<exists>m'. table_Copy demo_env (demo_circumstances 1) 1 demo_pair demo_manager = (Inr (), m') \<and>
     abandoned m' = [] \<and> \<not> Tx (destConn m') ! 1"
proof -
  obtain m' where "table_Copy demo_env (demo_circumstances 1) 1 demo_pair demo_manager = (Inr (), m')" "abandoned m' = []"
    using demo_table_Copy by blast
  moreover have "conn_ok 1 (destConn demo_manager)" "\<not> Tx (destConn demo_manager) ! 1"
    by (simp_all add: demo_manager_def NewCopyManager_def demo_conn_def conn_ok_def)
  ultimately show ?thesis using table_Copy_closes_transaction[of demo_env "demo_circumstances 1" 1 demo_pair demo_manager m'] by auto
qed


section \<open>What a failed copy leaves behind\<close>

text \<open>
  A driver that also writes a log of the calls it gets, to say which transaction commands a copy
  has issued.
\<close>

datatype event = Ev_begin nat | Ev_commit nat | Ev_rollback nat | Ev_exec nat string

fun logged :: "event \<Rightarrow> ('db \<Rightarrow> 'a \<times> 'db) \<Rightarrow> 'db \<times> event list \<Rightarrow> 'a \<times> 'db \<times> event list" where
  "logged ev f (s, l) = (case f s of (r, s') \<Rightarrow> (r, (s', l @ [ev])))"

definition traced :: "'db driver \<Rightarrow> ('db \<times> event list) driver" where
  "traced drv = \<lparr>drv_connect = (\<lambda>c (s, l). case drv_connect drv c s of (r, s') \<Rightarrow> (r, (s', l))),
     drv_close = (\<lambda>c (s, l). (drv_close drv c s, l)),
     drv_begin = (\<lambda>c. logged (Ev_begin c) (drv_begin drv c)),
     drv_commit = (\<lambda>c. logged (Ev_commit c) (drv_commit drv c)),
     drv_rollback = (\<lambda>c. logged (Ev_rollback c) (drv_rollback drv c)),
     drv_exec = (\<lambda>t c q. logged (Ev_exec c q) (drv_exec drv t c q))\<rparr>"

abbreviation log_of :: "('db \<times> event list) DBConn \<Rightarrow> event list" where
  "log_of d \<equiv> snd (server d)"

lemma logged_snd [simp]: "snd (snd (logged ev f sl)) = snd sl @ [ev]"
  by (cases sl) (simp add: case_prod_beta)

lemma Exec_traced:
  assumes "conn_ok w d"
  shows "Tx (snd (Exec (traced drv) q [int w] d)) = Tx d \<and> NumConns (snd (Exec (traced drv) q [int w] d)) = NumConns d \<and>
    log_of (snd (Exec (traced drv) q [int w] d)) = log_of d @ [Ev_exec w q]"
  by (simp add: Exec_ok[OF assms] traced_def)

lemma Rollback_traced:
  assumes "conn_ok w d" "Tx d ! w"
  shows "log_of (snd (Rollback (traced drv) [int w] d)) = log_of d @ [Ev_rollback w]"
  using assms by (simp add: Rollback_def end_tx_def obind_def tx_of_ok traced_def case_prod_beta)

text \<open>\<open>execs w d d'\<close>: only statements were executed between the two states.\<close>

definition execs :: "nat \<Rightarrow> ('db \<times> event list) DBConn \<Rightarrow> ('db \<times> event list) DBConn \<Rightarrow> bool" where
  "execs w d d' \<longleftrightarrow> Tx d' = Tx d \<and> NumConns d' = NumConns d \<and> (\<exists>qs. log_of d' = log_of d @ map (Ev_exec w) qs)"

lemma execs_refl [simp]: "execs w d d"
  by (auto simp: execs_def intro: exI[of _ "[]"])

lemma execs_conn_ok: "execs w d d' \<Longrightarrow> conn_ok w d \<Longrightarrow> conn_ok w d'"
  by (simp add: execs_def conn_ok_def)

lemma CopyFrom_execs:
  assumes "conn_ok w d" and "WorkerId (base_of c) = w" and "c = CopyOnMaster b \<or> c = CopyOnSegment b"
  shows "execs w d (snd (CopyFrom ks u (traced drv) f c t ports cmd d))"
proof -
  have "execs w d (snd (obind (olift r) (\<lambda>q. Exec (traced drv) q [int w]) d))" for r
  proof (cases r)
    case (Inr q)
    have "log_of (snd (Exec (traced drv) q [int w] d)) = log_of d @ map (Ev_exec w) [q]"
      using Exec_traced[OF assms(1)] by simp
    with Inr Exec_traced[OF assms(1), of drv q] show ?thesis unfolding execs_def obind_def by (auto intro: exI[of _ "[q]"])
  qed (simp add: obind_def)
  with assms(2,3) show ?thesis by (auto simp: ExecContext_def)
qed

lemma Execute_execs:
  assumes ex: "Execute env ci c pair (src, dest) = (r, (src', dest'))" and aw: "awaits r" and drv: "destDriver env = traced drv"
    and c: "WorkerId (base_of c) = w" "c = CopyOnMaster b \<or> c = CopyOnSegment b" and ok: "conn_ok w dest"
  shows "execs w dest dest'"
proof -
  obtain lr src1 dest1 where l: "listener env ci c pair (src, dest) = (lr, (src1, dest1))" by (metis prod.collapse)
  note from_execs = CopyFrom_execs[OF ok c, of "ranges_of env" "ext_uuid ci" drv "flags env" "DestTable pair" _ "cmdID ci"]
  have 1: "execs w dest dest1" and same: "conn_mode env \<noteq> ''push'' \<Longrightarrow> dest1 = dest"
    using l from_execs[of "[]"] drv by (auto simp: listener_def split: if_splits prod.splits)
  have 2: "execs w dest dest2" if "dialer env ci c pair ports (src1, dest1) = (x, (src2, dest2))" for ports x src2 dest2
    using that from_execs[of ports] drv 1 same by (auto simp: dialer_def split: if_splits prod.splits)
  show ?thesis
    using ex aw l 1 2 by (auto simp: Execute_def settled_def split: sum.splits option.splits if_splits prod.splits)
qed

text \<open>
  Claim C17. When the data copy of a table by the coordinator or on the segments fails and \<open>Execute\<close>
  has waited for the listener (it saw the listener's error, or the row counts differ), nothing that
  was done on the destination since the transaction was opened, the truncation included, is
  committed: only statements are executed, and then the transaction is rolled back. When \<open>Execute\<close>
  returns without waiting the rollback races with the listener, and nothing is claimed.
\<close>

theorem failed_copy_rolled_back:
  assumes "prepareForCopy env w (DestTable pair) (destConn m) = (Inr (True, None), d)"
    and "copyData env ci w pair (m\<lparr>destConn := d\<rparr>) = (Returned (Some e) True, m1)" and "is_error e"
    and "\<not> shouldSkipCopy ci (SrcTable pair)" and "conn_ok w (destConn m)"
    and "destDriver env = traced drv"
    and "CreateCopyStrategy (flags env) (testStrategy env) (IsReplicated (SrcTable pair)) (RelTuples (SrcTable pair)) w
      (srcSegs env) (destSegs env) (sameVersion env) (conn_mode env) = Inr c"
    and "c = CopyOnMaster b \<or> c = CopyOnSegment b"
  shows "\<exists>qs. log_of (destConn (snd (table_Copy env ci w pair m))) = log_of d @ map (Ev_exec w) qs @ [Ev_rollback w]"
proof -
  have d: "conn_ok w d" "Tx d ! w" using prepare_ok[OF assms(1,5)] by simp_all
  obtain r s' d' where ex: "Execute env ci c pair (srcConn m, d) = (r, (s', d'))" by (metis prod.collapse)
  with assms(2,7) have "destConn m1 = d'" and aw: "awaits r" by (auto simp: copyData_def)
  moreover have "execs w d d'" using Execute_execs[OF ex aw assms(6) _ assms(8) d(1)] worker_of[OF assms(7)] by blast
  ultimately obtain qs where qs: "log_of (destConn m1) = log_of d @ map (Ev_exec w) qs" and m1: "conn_ok w (destConn m1)" "Tx (destConn m1) ! w"
    using execs_conn_ok[of w d d'] d by (auto simp: execs_def)
  obtain r' m' where f: "finish env w (SrcTable pair) True e m1 = (r', m')" by fastforce
  with assms(3) have "destConn m' = snd (Rollback (destDriver env) [int w] (destConn m1))"
    by (auto simp: finish_def dest!: cleanup_failed)
  with Rollback_traced[OF m1, of drv] qs assms(1,2,4,6) f show ?thesis by (auto simp: table_Copy_def)
qed

text \<open>A source that sends four rows to a destination that loads five.\<close>

definition demo_lost :: "(unit \<times> event list) manager_env" where
  "demo_lost = demo_env_with ((traced demo_driver)\<lparr>drv_exec := (\<lambda>_ _ _ s. (Inr 4, s))\<rparr>) (traced demo_driver)"

definition demo_traced_conn :: "bool \<Rightarrow> event list \<Rightarrow> (unit \<times> event list) DBConn" where
  "demo_traced_conn tx l = \<lparr>DBName = ''db'', pool = True, NumConns = 2, Tx = [False, tx], server = ((), l)\<rparr>"

lemma demo_traced_ok: "conn_ok 1 (demo_traced_conn tx l)"
  by (simp add: demo_traced_conn_def conn_ok_def)

lemma demo_lost_prepare:
  "\<exists>l. prepareForCopy demo_lost 1 (DestTable demo_pair) (demo_traced_conn False []) = (Inr (True, None), demo_traced_conn True l)"
  by (simp add: prepareForCopy_def demo_lost_def demo_env_with_def Exec_def Begin_def obind_def tx_of_def
      ValidateConnNum_def demo_traced_conn_def demo_driver_def traced_def)

lemma demo_lost_strategy:
  "CreateCopyStrategy (flags demo_lost) (testStrategy demo_lost) (IsReplicated (SrcTable demo_pair))
    (RelTuples (SrcTable demo_pair)) 1 (srcSegs demo_lost) (destSegs demo_lost) (sameVersion demo_lost) (conn_mode demo_lost) = Inr demo_master"
  by (simp add: CreateCopyStrategy_def demo_lost_def demo_env_with_def demo_pair_def mkTable_def MustGet_defs demo_flags_def
      getCompressArg_def demo_master_def)

lemma demo_lost_copyData:
  "\<exists>e m1. copyData demo_lost (demo_circumstances 1) 1 demo_pair ((NewCopyManager (demo_traced_conn False []) d)\<lparr>destConn := demo_traced_conn True l\<rparr>) =
     (Returned (Some (Error e)) True, m1)"
proof -
  have "\<exists>d'. listener demo_lost (demo_circumstances 1) demo_master demo_pair (demo_traced_conn False [], demo_traced_conn True l) =
      (Inr 5, (demo_traced_conn False [], d'))"
    by (simp add: listener_def demo_lost_def demo_env_with_def demo_master_def obind_def master_receive_def MustGet_defs demo_flags_def
        ExecContext_def Exec_def tx_of_def ValidateConnNum_def demo_traced_conn_def demo_driver_def traced_def)
  moreover have "dialer demo_lost (demo_circumstances 1) demo_master demo_pair [\<lparr>hp_Content = -1, hp_Port = 7\<rparr>] (demo_traced_conn False [], d') =
      (Inr 4, (demo_traced_conn False [], d'))" for d'
    by (simp add: dialer_def demo_lost_def demo_env_with_def demo_master_def obind_def master_send_def FormMasterHelperAddress_def MustGet_defs
        demo_flags_def Exec_def tx_of_def ValidateConnNum_def demo_traced_conn_def demo_driver_def traced_def)
  moreover have "polled_ports demo_lost (demo_circumstances 1) demo_master None = Inr [\<lparr>hp_Content = -1, hp_Port = 7\<rparr>]"
    unfolding demo_lost_def by (rule demo_polled)
  moreover have "\<exists>e. validateRowCounts (flags demo_lost) 5 4 = Inl (Error e)" "conn_mode demo_lost = ''push''"
    by (simp_all add: validateRowCounts_def MustGet_defs demo_lost_def demo_env_with_def)
  ultimately have "\<exists>e s. Execute demo_lost (demo_circumstances 1) demo_master demo_pair (demo_traced_conn False [], demo_traced_conn True l) =
      (Returned (Some (Error e)) True, s)"
    by (auto simp: Execute_def err_of_def returns_def)
  with demo_lost_strategy show ?thesis by (auto simp: copyData_def NewCopyManager_def)
qed

theorem failed_copy_rolled_back_witness:
  "\<exists>l qs. log_of (destConn (snd (table_Copy demo_lost (demo_circumstances 1) 1 demo_pair
     (NewCopyManager (demo_traced_conn False []) (demo_traced_conn False []))))) = l @ map (Ev_exec 1) qs @ [Ev_rollback 1]"
proof -
  let ?m = "NewCopyManager (demo_traced_conn False []) (demo_traced_conn False [])"
  obtain l where p: "prepareForCopy demo_lost 1 (DestTable demo_pair) (destConn ?m) = (Inr (True, None), demo_traced_conn True l)"
    using demo_lost_prepare by (auto simp: NewCopyManager_def)
  obtain e m1 where c: "copyData demo_lost (demo_circumstances 1) 1 demo_pair (?m\<lparr>destConn := demo_traced_conn True l\<rparr>) =
      (Returned (Some (Error e)) True, m1)"
    using demo_lost_copyData by blast
  have ok: "conn_ok 1 (destConn ?m)" using demo_traced_ok by (simp add: NewCopyManager_def)
  have d: "destDriver demo_lost = traced demo_driver" by (simp add: demo_lost_def demo_env_with_def)
  from failed_copy_rolled_back[OF p c _ demo_not_skipped ok d demo_lost_strategy] show ?thesis by (auto simp: demo_master_def)
qed

lemma begin_traced: "snd (snd (drv_begin (traced drv) c sl)) = snd sl @ [Ev_begin c]"
  by (simp add: traced_def)

lemma log_grows [keeping]:
  "keeps (\<lambda>d. prefix l (log_of d)) (\<lambda>_. True) (Exec (traced drv) q cs)"
  "keeps (\<lambda>d. prefix l (log_of d)) (\<lambda>_. True) (ExecContext (traced drv) q cs)"
  "keeps (\<lambda>d. prefix l (log_of d)) (\<lambda>_. True) (Commit (traced drv) cs)"
  by (auto simp: keeps_def ExecContext_def Exec_def Commit_def end_tx_def obind_def tx_of_def rbind_def traced_def case_prod_beta
      split: sum.splits)

lemma Begin_grows [keeping]: "keeps (\<lambda>d. prefix l (log_of d)) (\<lambda>_. True) (Begin (traced drv) cs)"
proof -
  have "keeps (\<lambda>d. prefix l (log_of d)) (\<lambda>_. True) (obind (Exec (traced drv) q cs') (\<lambda>_. oret ()))" for q cs'
    by (intro keeping)
  then have ex: "prefix l (log_of (snd (obind (Exec (traced drv) q cs') (\<lambda>_. oret ()) d)))" if "prefix l (log_of d)" for q cs' d
    using that by (simp add: keeps_def)
  show ?thesis
    by (auto simp: keeps_def Begin_def obind_def[of "tx_of cs"] tx_of_def rbind_def begin_traced case_prod_beta
        split: sum.splits prod.splits intro!: ex)
qed


text \<open>
  Loading through an external table is different: the first thing it does with the open
  transaction, in which the destination table may have been truncated, is to commit it. A later
  failure therefore does not bring the old rows back.
\<close>

theorem ext_load_commits_first:
  assumes "conn_ok (WorkerId cc) d" and "Tx d ! WorkerId cc"
  shows "\<exists>rest. log_of (snd (ext_load (traced drv) cc name t q d)) = log_of d @ Ev_commit (WorkerId cc) # rest"
proof -
  let ?w = "WorkerId cc"
  let ?V = "\<lambda>d'. prefix (log_of d @ [Ev_commit ?w]) (log_of d')"
  obtain r d1 where c: "Commit (traced drv) [int ?w] d = (r, d1)" by fastforce
  have V1: "?V d1"
    using c assms by (auto simp: Commit_def end_tx_def obind_def tx_of_ok traced_def case_prod_beta)
  have rest: "keeps ?V (\<lambda>_. True) (obind (Begin (traced drv) [int ?w]) (\<lambda>_.
      obind (Exec (traced drv) q [int ?w]) (\<lambda>_. obind (CommitBegin (traced drv) cc) (\<lambda>_.
      obind (ExecContext (traced drv) (''INSERT INTO '' @ fqn (Schema t) (Name t) @ '' SELECT * FROM '' @ name) [int ?w]) (\<lambda>rows.
      obind (Exec (traced drv) (''DROP EXTERNAL TABLE '' @ name) [int ?w]) (\<lambda>_. oret rows))))))"
    unfolding CommitBegin_def by (intro keeping)
  have "?V (snd (ext_load (traced drv) cc name t q d))"
  proof (cases r)
    case (Inl e)
    with c V1 show ?thesis by (simp add: ext_load_def CommitBegin_def obind_def)
  next
    case (Inr u)
    with c have "ext_load (traced drv) cc name t q d = obind (Begin (traced drv) [int ?w]) (\<lambda>_.
        obind (Exec (traced drv) q [int ?w]) (\<lambda>_. obind (CommitBegin (traced drv) cc) (\<lambda>_.
        obind (ExecContext (traced drv) (''INSERT INTO '' @ fqn (Schema t) (Name t) @ '' SELECT * FROM '' @ name) [int ?w]) (\<lambda>rows.
        obind (Exec (traced drv) (''DROP EXTERNAL TABLE '' @ name) [int ?w]) (\<lambda>_. oret rows))))) d1"
      by (simp add: ext_load_def obind_def[of "CommitBegin (traced drv) cc" _ d] CommitBegin_def[of _ cc, THEN fun_cong, of _ d] obind_def[of "Commit (traced drv) [int ?w]"]
          obind_def[of "Begin (traced drv) [int ?w]"])
    with rest V1 show ?thesis by (simp add: keeps_def)
  qed
  then show ?thesis by (auto simp: prefix_def)
qed

theorem ext_load_commits_first_witness:
  "\<exists>rest. log_of (snd (ext_load (traced demo_driver) (base_of demo_master) ''x'' (mkTable ''s'' ''t'') ''q'' (demo_traced_conn True []))) =
     Ev_commit 1 # rest"
  using ext_load_commits_first[of "base_of demo_master" "demo_traced_conn True []" demo_driver "''x''" "mkTable ''s'' ''t''" "''q''"] demo_traced_ok[of True "[]"]
  by (simp add: demo_master_def demo_traced_conn_def)


section \<open>The pool of workers\<close>

text \<open>
  \<open>CopyManager.Copy\<close> starts one worker per connection; each receives table pairs from the channel
  until it is closed and empty. Others send the pairs and close the channel. Workers use
  different connections and result maps, so a table is copied in one step here; the progress
  counter and the files are protected by locks. After a signal a worker stops with the table it
  has received but not started.
\<close>

datatype worker_st = Idle | Busy TablePair | Exited

record 'db copy_pool =
  chan :: "TablePair list"
  sent :: "TablePair list"
  closed :: bool
  WasTerminated :: bool
  workers :: "worker_st list"
  mgr :: "'db CopyManager"
  handled :: "(nat \<times> TablePair) list"

definition manager_Copy :: "'db CopyManager \<Rightarrow> 'db copy_pool" where
  "manager_Copy m = \<lparr>chan = [], sent = [], closed = False, WasTerminated = False,
     workers = replicate (NumConns (srcConn m)) Idle, mgr = m, handled = []\<rparr>"

inductive worker :: "'db manager_env \<Rightarrow> 'db copy_pool \<Rightarrow> 'db copy_pool \<Rightarrow> bool" for env where
  send: "\<not> closed s \<Longrightarrow> worker env s (s\<lparr>chan := chan s @ [p], sent := sent s @ [p]\<rparr>)"
| close: "\<not> closed s \<Longrightarrow> worker env s (s\<lparr>closed := True\<rparr>)"
| signal: "worker env s (s\<lparr>WasTerminated := True\<rparr>)"
| receive: "w < length (workers s) \<Longrightarrow> workers s ! w = Idle \<Longrightarrow> chan s = p # ps \<Longrightarrow>
    worker env s (s\<lparr>chan := ps, workers := (workers s)[w := Busy p]\<rparr>)"
| drained: "w < length (workers s) \<Longrightarrow> workers s ! w = Idle \<Longrightarrow> chan s = [] \<Longrightarrow> closed s \<Longrightarrow>
    worker env s (s\<lparr>workers := (workers s)[w := Exited]\<rparr>)"
| stop: "w < length (workers s) \<Longrightarrow> workers s ! w = Busy p \<Longrightarrow> WasTerminated s \<Longrightarrow>
    worker env s (s\<lparr>workers := (workers s)[w := Exited]\<rparr>)"
| copy: "w < length (workers s) \<Longrightarrow> workers s ! w = Busy p \<Longrightarrow> \<not> WasTerminated s \<Longrightarrow>
    table_Copy env ci w p (mgr s) = (Inr (), m') \<Longrightarrow>
    worker env s (s\<lparr>workers := (workers s)[w := Idle], mgr := m', handled := handled s @ [(w, p)]\<rparr>)"

inductive_cases workerE: "worker env s t"

interpretation copying: machine "\<lambda>s. s = manager_Copy (NewCopyManager src dest)" "worker env" for src dest env .

fun carried :: "worker_st \<Rightarrow> TablePair multiset" where
  "carried (Busy p) = {#p#}"
| "carried _ = {#}"

definition in_flight :: "'db copy_pool \<Rightarrow> TablePair multiset" where
  "in_flight s = mset (chan s) + sum_list (map carried (workers s)) + mset (map snd (handled s))"

lemma sum_list_update_mset:
  assumes "w < length ws"
  shows "sum_list (map carried (ws[w := x])) + carried (ws ! w) = sum_list (map carried ws) + carried x"
  using assms
proof (induction ws arbitrary: w)
  case (Cons a ws)
  then show ?case by (cases w) (auto simp: ac_simps add.left_commute)
qed simp

definition pool_inv :: "nat \<Rightarrow> 'db copy_pool \<Rightarrow> bool" where
  "pool_inv n s \<longleftrightarrow> length (workers s) = n \<and> length (results (mgr s)) = n \<and>
     in_flight s \<subseteq># mset (sent s) \<and> (\<not> WasTerminated s \<longrightarrow> in_flight s = mset (sent s)) \<and>
     (\<not> WasTerminated s \<and> Exited \<in> set (workers s) \<longrightarrow> closed s \<and> chan s = []) \<and>
     progress (mgr s) = length (handled s) \<and>
     length (fSucced (mgr s)) + length (fSkipped (mgr s)) + length (fFailed (mgr s)) = length (handled s)"

lemma pool_inv_init: "pool_inv (NumConns src) (manager_Copy (NewCopyManager src dest))"
proof -
  have "sum_list (replicate n {#}) = {#}" for n by (induction n) simp_all
  then show ?thesis by (auto simp: pool_inv_def manager_Copy_def NewCopyManager_def in_flight_def)
qed

lemma tallied_lengths:
  assumes "tallied w t st m m'"
  shows "length (results m') = length (results m) \<and> progress m' = Suc (progress m) \<and>
    length (fSucced m') + length (fSkipped m') + length (fFailed m') =
      Suc (length (fSucced m) + length (fSkipped m) + length (fFailed m))"
  using assms by (cases st) (simp_all add: tallied_def)


lemma pool_inv_step:
  assumes "worker env s t" and "pool_inv n s"
  shows "pool_inv n t"
  using assms(1)
proof (cases rule: worker.cases)
  case (receive w p ps)
  have "sum_list (map carried ((workers s)[w := Busy p])) = add_mset p (sum_list (map carried (workers s)))"
    using sum_list_update_mset[OF receive(2), of "Busy p"] receive(3) by simp
  moreover have "Exited \<in> set ((workers s)[w := Busy p]) \<Longrightarrow> Exited \<in> set (workers s)"
    by (auto dest!: set_update_subset_insert[THEN subsetD])
  ultimately show ?thesis
    using assms(2) receive(1,4) by (auto simp: pool_inv_def in_flight_def)
next
  case (drained w)
  have "sum_list (map carried ((workers s)[w := Exited])) = sum_list (map carried (workers s))"
    using sum_list_update_mset[OF drained(2), of Exited] drained(3) by simp
  with assms(2) drained(1,4,5) show ?thesis by (auto simp: pool_inv_def in_flight_def)
next
  case (stop w p)
  have "add_mset p (sum_list (map carried ((workers s)[w := Exited]))) = sum_list (map carried (workers s))"
    using sum_list_update_mset[OF stop(2), of Exited] stop(3) by simp
  then have "sum_list (map carried ((workers s)[w := Exited])) \<subseteq># sum_list (map carried (workers s))"
    by (metis mset_subset_eq_add_right union_mset_add_mset_left add_0)
  then have "in_flight t \<subseteq># in_flight s" using stop(1) by (simp add: in_flight_def)
  with assms(2) stop(1,4) show ?thesis by (auto simp: pool_inv_def)
next
  case (copy w p ci m')
  have "add_mset p (sum_list (map carried ((workers s)[w := Idle]))) = sum_list (map carried (workers s))"
    using sum_list_update_mset[OF copy(2), of Idle] copy(3) by simp
  from this[symmetric] have "in_flight t = in_flight s" using copy(1) by (simp add: in_flight_def)
  moreover have "Exited \<in> set ((workers s)[w := Idle]) \<Longrightarrow> Exited \<in> set (workers s)"
    by (auto dest!: set_update_subset_insert[THEN subsetD])
  moreover obtain st where "tallied w (SrcTable p) st (mgr s) m'" using table_Copy_status[OF copy(5)] by blast
  ultimately show ?thesis
    using assms(2) copy(1,4) tallied_lengths[of w "SrcTable p" st "mgr s" m'] by (auto simp: pool_inv_def)
qed (use assms(2) in \<open>auto simp: pool_inv_def in_flight_def add.assoc\<close>)


text \<open>The report counts the lines of the files, as long as no source table is sent twice.\<close>

definition paths :: "TablePair list \<Rightarrow> string list" where
  "paths ps = map (tablePath \<circ> SrcTable) ps"

definition file_of :: "status \<Rightarrow> 'db CopyManager \<Rightarrow> string list" where
  "file_of st m = (case st of COPY_SUCCED \<Rightarrow> fSucced m | COPY_SKIPED \<Rightarrow> fSkipped m | COPY_FAILED \<Rightarrow> fFailed m)"

definition report_inv :: "'db copy_pool \<Rightarrow> bool" where
  "report_inv s \<longleftrightarrow> distinct (paths (sent s)) \<longrightarrow>
     (\<forall>st. count_status st (results (mgr s)) = length (file_of st (mgr s))) \<and>
     (\<forall>r \<in> set (results (mgr s)). set (go_keys r) \<subseteq> set (paths (map snd (handled s))))"

lemma count_fresh:
  assumes "w < length rs" and "k \<notin> set (go_keys (rs ! w))"
  shows "count_status st (rs[w := go_set k v (rs ! w)]) = count_status st rs + (if v = st then 1 else 0)"
proof -
  have set_fresh: "go_set k v m = m @ [(k, v)]" if "k \<notin> set (go_keys m)" for m :: "(string, status) gomap"
    using that by (induction m) auto
  let ?c = "\<lambda>m. length (filter (\<lambda>kv. snd kv = st) (m :: (string, status) gomap))"
  have "sum_list (map ?c (rs[w := x])) + ?c (rs ! w) = sum_list (map ?c rs) + ?c x" for x
    using assms(1)
  proof (induction rs arbitrary: w)
    case (Cons a rs)
    then show ?case by (cases w) auto
  qed simp
  from this[of "go_set k v (rs ! w)"] set_fresh[OF assms(2)] show ?thesis by (simp add: count_status_def)
qed

lemma report_inv_step:
  assumes st: "worker env s t" and inv: "pool_inv n s" and rep: "report_inv s"
  shows "report_inv t"
  using st
proof (cases rule: worker.cases)
  case (copy w p ci m')
  obtain st where tal: "tallied w (SrcTable p) st (mgr s) m'" using table_Copy_status[OF copy(5)] by blast
  let ?k = "tablePath (SrcTable p)"
  have w: "w < length (results (mgr s))" using inv copy(2) by (simp add: pool_inv_def)
  show ?thesis unfolding report_inv_def
  proof
    assume "distinct (paths (sent t))"
    then have d: "distinct (paths (sent s))" using copy(1) by simp
    with rep have c: "\<And>st. count_status st (results (mgr s)) = length (file_of st (mgr s))"
      and keys: "\<And>r. r \<in> set (results (mgr s)) \<Longrightarrow> set (go_keys r) \<subseteq> set (paths (map snd (handled s)))"
      by (auto simp: report_inv_def)
    have fresh: "?k \<notin> set (paths (map snd (handled s)))"
    proof -
      have "sum_list (map carried ((workers s)[w := Idle])) + {#p#} = sum_list (map carried (workers s))"
        using sum_list_update_mset[OF copy(2), of Idle] copy(3) by simp
      from this[symmetric] have "{#p#} + mset (map snd (handled s)) \<subseteq># in_flight s" by (simp add: in_flight_def)
      with inv have "mset (p # map snd (handled s)) \<subseteq># mset (sent s)" by (auto simp: pool_inv_def intro: subset_mset.order_trans)
      from image_mset_subseteq_mono[OF this, of "tablePath \<circ> SrcTable"]
      have "mset (paths (p # map snd (handled s))) \<subseteq># mset (paths (sent s))" by (simp add: paths_def flip: mset_map)
      with d have "distinct (paths (p # map snd (handled s)))"
        by (rule distinct_sub_mset)
      then show ?thesis by (simp add: paths_def)
    qed
    then have key: "?k \<notin> set (go_keys (results (mgr s) ! w))" using keys[of "results (mgr s) ! w"] w by auto
    have res: "results (mgr t) = (results (mgr s))[w := go_set ?k st (results (mgr s) ! w)]"
      using tal copy(1) by (simp add: tallied_def)
    have "count_status x (results (mgr t)) = length (file_of x (mgr t))" for x
      using count_fresh[OF w key, of x st] c[of x] res tal copy(1)
      by (cases x; cases st) (simp_all add: tallied_def file_of_def)
    moreover have "set (go_keys r) \<subseteq> set (paths (map snd (handled t)))" if "r \<in> set (results (mgr t))" for r
    proof -
      from that res have "r \<in> set (results (mgr s)) \<or> r = go_set ?k st (results (mgr s) ! w)"
        by (metis insertE set_update_subset_insert subsetD)
      then have "set (go_keys r) \<subseteq> insert ?k (set (paths (map snd (handled s))))"
        using keys[of r] keys[of "results (mgr s) ! w"] w by (auto simp: go_keys_set simp del: set_map)
      then show ?thesis using copy(1) by (auto simp: paths_def)
    qed
    ultimately show "(\<forall>st. count_status st (results (mgr t)) = length (file_of st (mgr t))) \<and>
        (\<forall>r \<in> set (results (mgr t)). set (go_keys r) \<subseteq> set (paths (map snd (handled t))))"
      by blast
  qed
qed (use rep in \<open>auto simp: report_inv_def paths_def\<close>)


text \<open>
  Claim C14. Every table pair that is sent to the channel is copied by exactly one worker exactly once
  before the pool ends (without a signal), the progress counter ends at the number of pairs, and
  each pair has one line in the three files. If no source table was sent twice the report gives
  the numbers of lines of these files.
\<close>

theorem pool_copies_each_pair_once:
  assumes "copying.reachable src dest env s" and "set (workers s) = {Exited}" and "\<not> WasTerminated s"
  shows "mset (map snd (handled s)) = mset (sent s) \<and> progress (mgr s) = length (sent s) \<and>
    length (fSucced (mgr s)) + length (fSkipped (mgr s)) + length (fFailed (mgr s)) = length (sent s) \<and>
    (distinct (paths (sent s)) \<longrightarrow>
       generateReport (mgr s) = (length (fSucced (mgr s)), length (fSkipped (mgr s)), length (fFailed (mgr s))))"
proof -
  have inv: "pool_inv (NumConns src) s \<and> report_inv s"
  proof (rule copying.invariant_holds[OF assms(1)])
    fix s :: "'a copy_pool" assume "s = manager_Copy (NewCopyManager src dest)"
    moreover have "report_inv (manager_Copy (NewCopyManager src dest))"
      by (auto simp: report_inv_def manager_Copy_def NewCopyManager_def count_status_def file_of_def sum_list_replicate
          split: status.splits)
    ultimately show "pool_inv (NumConns src) s \<and> report_inv s" using pool_inv_init by blast
  qed (auto intro: pool_inv_step report_inv_step)
  have "sum_list (map carried ws) = {#}" if "set ws \<subseteq> {Exited}" for ws
    using that by (induction ws) simp_all
  then have "sum_list (map carried (workers s)) = {#}" using assms(2) by simp
  moreover have "in_flight s = mset (sent s)" "chan s = []" using inv assms(2,3) by (auto simp: pool_inv_def)
  ultimately have all: "mset (map snd (handled s)) = mset (sent s)" by (simp add: in_flight_def)
  from arg_cong[OF this, of size] have "length (handled s) = length (sent s)" by simp
  with all inv show ?thesis
    by (auto simp: pool_inv_def report_inv_def generateReport_def file_of_def)
qed


text \<open>A run of the pool with two workers and one table.\<close>

lemma demo_pool_run:
  "\<exists>s. copying.reachable demo_conn demo_conn demo_env s \<and> set (workers s) = {Exited} \<and> \<not> WasTerminated s \<and> sent s = [demo_pair]"
proof -
  let ?m = "NewCopyManager demo_conn demo_conn"
  let ?s0 = "manager_Copy ?m"
  obtain m' where c: "table_Copy demo_env (demo_circumstances 1) 1 demo_pair ?m = (Inr (), m')"
    using demo_table_Copy by (auto simp: demo_manager_def)
  let ?s1 = "?s0\<lparr>chan := chan ?s0 @ [demo_pair], sent := sent ?s0 @ [demo_pair]\<rparr>"
  let ?s2 = "?s1\<lparr>closed := True\<rparr>"
  let ?s3 = "?s2\<lparr>chan := [], workers := (workers ?s2)[1 := Busy demo_pair]\<rparr>"
  let ?s4 = "?s3\<lparr>workers := (workers ?s3)[1 := Idle], mgr := m', handled := handled ?s3 @ [(1, demo_pair)]\<rparr>"
  let ?s5 = "?s4\<lparr>workers := (workers ?s4)[0 := Exited]\<rparr>"
  let ?s6 = "?s5\<lparr>workers := (workers ?s5)[1 := Exited]\<rparr>"
  note [simp] = manager_Copy_def NewCopyManager_def demo_conn_def numeral_2_eq_2
  have "copying.reachable demo_conn demo_conn demo_env ?s0" by (rule copying.reach_init) simp
  from copying.reach_step[OF this worker.send] have "copying.reachable demo_conn demo_conn demo_env ?s1" by simp
  from copying.reach_step[OF this worker.close] have "copying.reachable demo_conn demo_conn demo_env ?s2" by simp
  from copying.reach_step[OF this worker.receive[of 1]] have "copying.reachable demo_conn demo_conn demo_env ?s3" by simp
  from copying.reach_step[OF this worker.copy[of 1 _ demo_pair demo_env "demo_circumstances 1" m']] c
  have "copying.reachable demo_conn demo_conn demo_env ?s4" by simp
  from copying.reach_step[OF this worker.drained[of 0]] have "copying.reachable demo_conn demo_conn demo_env ?s5" by simp
  from copying.reach_step[OF this worker.drained[of 1]] have "copying.reachable demo_conn demo_conn demo_env ?s6" by simp
  moreover have "set (workers ?s6) = {Exited}" "\<not> WasTerminated ?s6" "sent ?s6 = [demo_pair]" by simp_all
  ultimately show ?thesis by blast
qed

theorem pool_copies_each_pair_once_witness:
  "\<exists>s. copying.reachable demo_conn demo_conn demo_env s \<and> mset (map snd (handled s)) = {#demo_pair#} \<and> progress (mgr s) = 1"
proof -
  obtain s where s: "copying.reachable demo_conn demo_conn demo_env s" "set (workers s) = {Exited}" "\<not> WasTerminated s" "sent s = [demo_pair]"
    using demo_pool_run by blast
  from pool_copies_each_pair_once[OF s(1-3)] s(1,4) show ?thesis by (auto intro!: exI[of _ s])
qed

end
