(* ===== verification/Acl.thy ===== *)
theory Acl
  imports Toc Quoting CopyManager Dependencies "HOL-Library.List_Lexorder" "HOL-Library.Char_ord"
begin

text \<open>
  Owners, privileges, comments and security labels, \<open>src/meta/builtin/predata_acl.go\<close> with the types
  and \<open>sortACLs\<close> of \<open>queries_acl.go\<close>. The twelve pairs of booleans of the struct \<open>ACL\<close> are two sets of
  privileges: the plain ones and those with grant option.

  Shown here: an access control item is read back exactly; the privilege list that is printed
  names exactly the privileges of the item, except for aggregates, whose grants are lost; rows of
  the same object are collected into one entry.
\<close>

section \<open>Access control items\<close>

datatype priv = Select | Insert | Update | Delete | Truncate | References | Trigger | Usage | Execute | Create | Temporary | Connect

record ACL =
  Grantee :: string
  plain :: "priv set"
  withGrant :: "priv set"

definition empty_ACL :: ACL where
  "empty_ACL = \<lparr>Grantee = [], plain = {}, withGrant = {}\<rparr>"

record ObjectMetadata =
  Privileges :: "ACL list"
  om_ObjectType :: string
  Owner :: string
  Comment :: string
  SecurityLabelProvider :: string
  SecurityLabel :: string

definition no_metadata :: ObjectMetadata where
  "no_metadata = \<lparr>Privileges = [], om_ObjectType = [], Owner = [], Comment = [], SecurityLabelProvider = [], SecurityLabel = []\<rparr>"

type_synonym MetadataMap = "(UniqueID, ObjectMetadata) gomap"

text \<open>
  \<open>^(.*)=([a-zA-Z\*]*)/(.*)$\<close>: the first group is greedy, so it ends at the last equals sign after
  which a run of letters and stars is followed by a slash; a dot matches no line feed.
\<close>

definition char_between :: "char \<Rightarrow> char \<Rightarrow> char \<Rightarrow> bool" where
  "char_between lo hi c \<longleftrightarrow> lo \<le> c \<and> c \<le> hi"

definition is_perm :: "char \<Rightarrow> bool" where
  "is_perm c \<longleftrightarrow> c = CHR ''*'' \<or> char_between CHR ''A'' CHR ''Z'' c \<or> char_between CHR ''a'' CHR ''z'' c"

definition acl_at :: "string \<Rightarrow> nat \<Rightarrow> bool" where
  "acl_at s p \<longleftrightarrow> s ! p = CHR ''='' \<and> take 1 (dropWhile is_perm (drop (Suc p) s)) = ''/''"

definition match_acl :: "string \<Rightarrow> (string \<times> string \<times> string) option" where
  "match_acl s =
     (if CHR 0x0A \<in> set s then None
      else case last_such (acl_at s) [0..<length s] of
        None \<Rightarrow> None
      | Some p \<Rightarrow> Some (take p s, takeWhile is_perm (drop (Suc p) s), tl (dropWhile is_perm (drop (Suc p) s))))"

definition priv_of :: "char \<Rightarrow> priv option" where
  "priv_of c = go_get [(CHR ''a'', Insert), (CHR ''r'', Select), (CHR ''w'', Update), (CHR ''d'', Delete), (CHR ''D'', Truncate),
     (CHR ''x'', References), (CHR ''t'', Trigger), (CHR ''X'', Execute), (CHR ''U'', Usage), (CHR ''C'', Create), (CHR ''T'', Temporary),
     (CHR ''c'', Connect)] c"

fun parse_perms :: "string \<Rightarrow> char option \<Rightarrow> ACL \<Rightarrow> ACL" where
  "parse_perms [] lastChar acl = acl"
| "parse_perms (c # cs) lastChar acl =
     parse_perms cs (Some c)
       (case priv_of c of
          Some p \<Rightarrow> acl\<lparr>plain := insert p (plain acl)\<rparr>
        | None \<Rightarrow>
            if c = CHR ''*'' then
              (case Option.bind lastChar priv_of of
                 Some p \<Rightarrow> acl\<lparr>plain := plain acl - {p}, withGrant := insert p (withGrant acl)\<rparr>
               | None \<Rightarrow> acl)
            else acl)"

definition ParseACL :: "(string, string) gomap \<Rightarrow> string \<Rightarrow> ACL option" where
  "ParseACL quotedRoleNames aclStr =
     (case match_acl aclStr of
        None \<Rightarrow> None
      | Some (grantee, permStr, _) \<Rightarrow>
          Some ((parse_perms permStr None empty_ACL)\<lparr>Grantee := (case go_get quotedRoleNames grantee of Some q \<Rightarrow> q | None \<Rightarrow> grantee)\<rparr>))"

text \<open>\<open>sort.Slice\<close> by the grantee; it leaves the order of equal grantees open, the model keeps it.\<close>

definition sortACLs :: "ACL list \<Rightarrow> ACL list" where
  "sortACLs privileges = sort_key Grantee privileges"

section \<open>Statements\<close>

definition getMappedRole :: "(string, string) gomap \<Rightarrow> string \<Rightarrow> string" where
  "getMappedRole owners role = (case go_get owners role of Some r \<Rightarrow> r | None \<Rightarrow> role)"

definition all_privileges :: "string \<Rightarrow> priv set option" where
  "all_privileges objectType = go_get
     [(''COLUMN'', {Select, Insert, Update, References}),
      (''DATABASE'', {Create, Temporary, Connect}),
      (''FOREIGN DATA WRAPPER'', {Usage}),
      (''FOREIGN SERVER'', {Usage}),
      (''FOREIGN TABLE'', {Select, Insert, Update, Delete, References, Trigger}),
      (''FUNCTION'', {Execute}),
      (''LANGUAGE'', {Usage}),
      (''PROTOCOL'', {Select, Insert}),
      (''SCHEMA'', {Usage, Create}),
      (''SEQUENCE'', {Select, Update, Usage}),
      (''TABLE'', {Select, Insert, Update, Delete, Truncate, References, Trigger}),
      (''VIEW'', {Select, Insert, Update, Delete, Truncate, References, Trigger}),
      (''MATERIALIZED VIEW'', {Select, Insert, Update, Delete, Truncate, References, Trigger}),
      (''TABLESPACE'', {Create}),
      (''TYPE'', {Usage})] objectType"

fun priv_name :: "priv \<Rightarrow> string" where
  "priv_name Select = ''SELECT''"
| "priv_name Insert = ''INSERT''"
| "priv_name Update = ''UPDATE''"
| "priv_name Delete = ''DELETE''"
| "priv_name Truncate = ''TRUNCATE''"
| "priv_name References = ''REFERENCES''"
| "priv_name Trigger = ''TRIGGER''"
| "priv_name Usage = ''USAGE''"
| "priv_name Execute = ''EXECUTE''"
| "priv_name Create = ''CREATE''"
| "priv_name Temporary = ''TEMPORARY''"
| "priv_name Connect = ''CONNECT''"

definition listed_privileges :: "priv list" where
  "listed_privileges = [Select, Insert, Update, Delete, Truncate, References, Trigger, Usage, Create, Temporary, Connect]"

definition privilege_string :: "string \<Rightarrow> priv set \<Rightarrow> string" where
  "privilege_string objectType ps =
     (if (case all_privileges objectType of Some A \<Rightarrow> A \<subseteq> ps | None \<Rightarrow> False) then ''ALL''
      else Join (map priv_name (filter (\<lambda>p. p \<in> ps) listed_privileges)) '','')"

definition createPrivilegeStrings :: "ACL \<Rightarrow> string \<Rightarrow> string \<times> string" where
  "createPrivilegeStrings acl objectType = (privilege_string objectType (plain acl), privilege_string objectType (withGrant acl))"

definition grantee_name :: "(string, string) gomap \<Rightarrow> ACL \<Rightarrow> string" where
  "grantee_name owners acl = (if Grantee acl = [] then ''PUBLIC'' else getMappedRole owners (Grantee acl))"

text \<open>The grants of one item; \<open>pre\<close> stands before \<open>GRANT\<close>, \<open>object\<close> is the part from \<open>ON\<close> to the name.\<close>

definition grants :: "(string, string) gomap \<Rightarrow> string \<Rightarrow> string \<Rightarrow> string \<Rightarrow> ACL \<Rightarrow> string list" where
  "grants owners pre object objectType acl =
     (let grantee = grantee_name owners acl; (privStr, privWithGrantStr) = createPrivilegeStrings acl objectType
      in (if privStr \<noteq> [] then [pre @ ''GRANT '' @ privStr @ '' '' @ object @ '' TO '' @ grantee @ '';''] else []) @
         (if privWithGrantStr \<noteq> [] then [pre @ ''GRANT '' @ privWithGrantStr @ '' '' @ object @ '' TO '' @ grantee @ '' WITH GRANT OPTION;''] else []))"

definition revokes :: "(string, string) gomap \<Rightarrow> string \<Rightarrow> string \<Rightarrow> string \<Rightarrow> string list" where
  "revokes owners pre object owner =
     [pre @ ''REVOKE ALL '' @ object @ '' FROM PUBLIC;''] @
     (if owner \<noteq> [] then [pre @ ''REVOKE ALL '' @ object @ '' FROM '' @ getMappedRole owners owner @ '';''] else [])"

definition type_string :: "string \<Rightarrow> string" where
  "type_string objectType =
     (if objectType = ''VIEW'' \<or> objectType = ''FOREIGN TABLE'' \<or> objectType = ''MATERIALIZED VIEW'' then []
      else if objectType = ''COLUMN'' then ''TABLE '' else if objectType = ''AGGREGATE'' then ''FUNCTION '' else objectType @ '' '')"

definition GetPrivilegesStatements :: "(string, string) gomap \<Rightarrow> ObjectMetadata \<Rightarrow> string \<Rightarrow> string \<Rightarrow> string list \<Rightarrow> string" where
  "GetPrivilegesStatements owners obj objectName objectType columnName =
     (let columnStr = (if length columnName = 1 then ''('' @ hd columnName @ '') '' else []);
          object = columnStr @ ''ON '' @ type_string objectType @ objectName;
          statements = (if length (Privileges obj) \<noteq> 0
            then revokes owners [] object (Owner obj) @ concat (map (grants owners [] object objectType) (Privileges obj)) else [])
      in if length statements > 0 then NL @ NL @ Join statements NL else [])"

definition is_old_gpdb :: "ranges \<Rightarrow> GPDBVersion \<Rightarrow> string \<Rightarrow> bool res" where
  "is_old_gpdb rng v target = (if IsGPDB v then Before rng v target else Inr False)"

definition GetOwnerStatement :: "ranges \<Rightarrow> GPDBVersion \<Rightarrow> (string, string) gomap \<Rightarrow> ObjectMetadata \<Rightarrow> string \<Rightarrow> string \<Rightarrow> string res" where
  "GetOwnerStatement rng v owners obj objectName objectType =
     rbind (is_old_gpdb rng v ''6'') (\<lambda>old.
       let typeStr = (if old \<and> (objectType = ''SEQUENCE'' \<or> objectType = ''VIEW'') then ''TABLE''
                      else if objectType = ''FOREIGN SERVER'' then ''SERVER'' else objectType)
       in Inr (if Owner obj \<noteq> [] then ''ALTER '' @ typeStr @ '' '' @ objectName @ '' OWNER TO '' @ getMappedRole owners (Owner obj) @ '';'' else []))"

definition GetCommentStatement :: "ObjectMetadata \<Rightarrow> string \<Rightarrow> string \<Rightarrow> string \<Rightarrow> string" where
  "GetCommentStatement obj objectName objectType owningTable =
     (let tableStr = (if owningTable \<noteq> [] then '' ON '' @ owningTable else [])
      in if Comment obj \<noteq> [] then ''COMMENT ON '' @ objectType @ '' '' @ objectName @ tableStr @ '' IS '' @ [SQ] @
           EscapeSingleQuotes (Comment obj) @ [SQ] @ '';'' else [])"

definition GetSecurityLabelStatement :: "ObjectMetadata \<Rightarrow> string \<Rightarrow> string \<Rightarrow> string" where
  "GetSecurityLabelStatement obj objectName objectType =
     (if SecurityLabel obj \<noteq> [] then ''SECURITY LABEL FOR '' @ SecurityLabelProvider obj @ '' ON '' @ objectType @ '' '' @ objectName @ '' IS '' @
        [SQ] @ EscapeSingleQuotes (SecurityLabel obj) @ [SQ] @ '';'' else [])"

section \<open>Printing\<close>

text \<open>An object of the table of contents: its section and entry, its name, and a function's kind.\<close>

record toc_object =
  obj_section :: string
  obj_entry :: MetadataEntry
  obj_FQN :: string
  obj_Kind :: string

record acl_env =
  acl_ranges :: ranges
  acl_version :: GPDBVersion
  role_map :: "(string, string) gomap"

definition trimmed :: "string \<Rightarrow> string list" where
  "trimmed s = (if s \<noteq> [] then [TrimSpace s] else [])"

definition object_statements :: "'a acl_env_scheme \<Rightarrow> ObjectMetadata \<Rightarrow> toc_object \<Rightarrow> string \<Rightarrow> string list res" where
  "object_statements env metadata obj owningTable =
     (let entryType = (if ObjectType (obj_entry obj) = ''DATABASE METADATA'' then ''DATABASE'' else ObjectType (obj_entry obj));
          comment = trimmed (GetCommentStatement metadata (obj_FQN obj) entryType owningTable)
      in rbind (version_gate (acl_ranges env) (acl_version env) ''7'') (\<lambda>new.
         let objectType = (if new \<and> obj_Kind obj = ''p'' then ''PROCEDURE'' else entryType)
         in rbind (GetOwnerStatement (acl_ranges env) (acl_version env) (role_map env) metadata (obj_FQN obj) objectType) (\<lambda>owner.
            rbind (if owner \<noteq> [] then is_old_gpdb (acl_ranges env) (acl_version env) ''5'' else Inr False) (\<lambda>v4.
            let owners = (if owner \<noteq> [] \<and> \<not> (v4 \<and> entryType = ''LANGUAGE'') then [TrimSpace owner] else []);
                privileges = trimmed (GetPrivilegesStatements (role_map env) metadata (obj_FQN obj) entryType []);
                label = trimmed (GetSecurityLabelStatement metadata (obj_FQN obj) entryType)
            in Inr (comment @ owners @ privileges @ label)))))"

definition PrintObjectMetadata :: "'a acl_env_scheme \<Rightarrow> ObjectMetadata \<Rightarrow> toc_object \<Rightarrow> string \<Rightarrow> metafile \<Rightarrow> metafile res" where
  "PrintObjectMetadata env metadata obj owningTable st =
     rbind (object_statements env metadata obj owningTable) (\<lambda>statements.
       PrintStatements (obj_section obj) (obj_entry obj) statements st)"

text \<open>The loop over the functions of extensions, which carries its statements from one to the next.\<close>

fun extension_acls :: "(string, string) gomap \<Rightarrow> (toc_object \<times> ObjectMetadata) list \<Rightarrow> string list \<Rightarrow> metafile \<Rightarrow> metafile res" where
  "extension_acls owners [] statements st = Inr st"
| "extension_acls owners ((obj, metadata) # os) statements st =
     (let privileges = GetPrivilegesStatements owners metadata (obj_FQN obj) ''FUNCTION'' []
      in if privileges \<noteq> [] then
           (let statements = statements @ [TrimSpace privileges]
            in rbind (PrintStatements (obj_section obj) (obj_entry obj) statements st) (extension_acls owners os statements))
         else extension_acls owners os statements st)"

text \<open>\<open>order\<close> is the order in which Go visits the map; the stable sort is by the function's name.\<close>

definition printExtensionFunctionACLs :: "(string, string) gomap \<Rightarrow> UniqueID list \<Rightarrow> MetadataMap \<Rightarrow> (32 word, toc_object) gomap \<Rightarrow> metafile \<Rightarrow> metafile res" where
  "printExtensionFunctionACLs owners order metadataMap funcInfoMap st =
     (let objects = List.map_filter (\<lambda>k. map_option (\<lambda>info. (info, the (go_get metadataMap k))) (go_get funcInfoMap (Oid k))) order
      in extension_acls owners (sort_key (\<lambda>(o1, m). obj_FQN o1) objects) [] st)"

section \<open>Collecting rows\<close>

record MetadataQueryStruct =
  q_UniqueID :: UniqueID
  q_ObjectType :: string
  q_Owner :: string
  q_Comment :: string
  q_Privileges :: "string option"
  q_Kind :: string
  q_SecurityLabel :: string
  q_SecurityLabelProvider :: string

definition privileges_text :: "string option \<Rightarrow> string \<Rightarrow> string" where
  "privileges_text privileges kind =
     (if kind = ''Empty'' then ''GRANTEE=/GRANTOR'' else case privileges of Some s \<Rightarrow> s | None \<Rightarrow> [])"

definition parsed :: "(string, string) gomap \<Rightarrow> string option \<Rightarrow> string \<Rightarrow> ACL list" where
  "parsed quotedRoleNames privileges kind =
     (case ParseACL quotedRoleNames (privileges_text privileges kind) of Some acl \<Rightarrow> [acl] | None \<Rightarrow> [])"

definition getColumnACL :: "(string, string) gomap \<Rightarrow> string option \<Rightarrow> string \<Rightarrow> ACL list" where
  "getColumnACL = parsed"

definition zero_UniqueID :: UniqueID where
  "zero_UniqueID = \<lparr>ClassID = 0, Oid = 0\<rparr>"

definition metadata_of :: "MetadataQueryStruct \<Rightarrow> ObjectMetadata" where
  "metadata_of r = \<lparr>Privileges = [], om_ObjectType = q_ObjectType r, Owner = q_Owner r, Comment = q_Comment r,
     SecurityLabelProvider = q_SecurityLabelProvider r, SecurityLabel = q_SecurityLabel r\<rparr>"

definition sorted_metadata :: "ObjectMetadata \<Rightarrow> ObjectMetadata" where
  "sorted_metadata m = m\<lparr>Privileges := sortACLs (Privileges m)\<rparr>"

fun metadata_loop :: "(string, string) gomap \<Rightarrow> MetadataQueryStruct list \<Rightarrow> UniqueID \<Rightarrow> ObjectMetadata \<Rightarrow> MetadataMap \<Rightarrow> MetadataMap" where
  "metadata_loop roles [] current metadata metadataMap = go_set current (sorted_metadata metadata) metadataMap"
| "metadata_loop roles (r # rs) current metadata metadataMap =
     (let add = (\<lambda>m. m\<lparr>Privileges := Privileges m @ parsed roles (q_Privileges r) (q_Kind r)\<rparr>)
      in if q_UniqueID r \<noteq> current
         then metadata_loop roles rs (q_UniqueID r) (add (metadata_of r))
                (if current \<noteq> zero_UniqueID then go_set current (sorted_metadata metadata) metadataMap else metadataMap)
         else metadata_loop roles rs current (add metadata) metadataMap)"

definition ConstructMetadataMap :: "(string, string) gomap \<Rightarrow> MetadataQueryStruct list \<Rightarrow> MetadataMap" where
  "ConstructMetadataMap roles rows =
     (if length rows = 0 then [] else metadata_loop roles rows zero_UniqueID no_metadata [])"

record DefaultPrivilegesQueryStruct =
  dq_Oid :: "32 word"
  dq_Owner :: string
  dq_Schema :: string
  dq_Privileges :: "string option"
  dq_Kind :: string
  dq_ObjectType :: string

record DefaultPrivileges =
  dp_Owner :: string
  dp_Schema :: string
  dp_Privileges :: "ACL list"
  dp_ObjectType :: string

definition sorted_default :: "DefaultPrivileges \<Rightarrow> DefaultPrivileges" where
  "sorted_default p = p\<lparr>dp_Privileges := sortACLs (dp_Privileges p)\<rparr>"

fun default_loop :: "(string, string) gomap \<Rightarrow> DefaultPrivilegesQueryStruct list \<Rightarrow> 32 word \<Rightarrow> DefaultPrivileges \<Rightarrow>
    DefaultPrivileges list \<Rightarrow> DefaultPrivileges list" where
  "default_loop roles [] current priv acc = acc @ [sorted_default priv]"
| "default_loop roles (r # rs) current priv acc =
     (let add = (\<lambda>p. p\<lparr>dp_Privileges := dp_Privileges p @ parsed roles (dq_Privileges r) (dq_Kind r)\<rparr>)
      in if dq_Oid r \<noteq> current
         then default_loop roles rs (dq_Oid r)
                (add \<lparr>dp_Owner = dq_Owner r, dp_Schema = dq_Schema r, dp_Privileges = [], dp_ObjectType = dq_ObjectType r\<rparr>)
                (if current \<noteq> 0 then acc @ [sorted_default priv] else acc)
         else default_loop roles rs current (add priv) acc)"

definition ConstructDefaultPrivileges :: "(string, string) gomap \<Rightarrow> DefaultPrivilegesQueryStruct list \<Rightarrow> DefaultPrivileges list" where
  "ConstructDefaultPrivileges roles rows =
     (if length rows = 0 then []
      else default_loop roles rows 0 \<lparr>dp_Owner = [], dp_Schema = [], dp_Privileges = [], dp_ObjectType = []\<rparr> [])"

definition default_entry :: "DefaultPrivileges \<Rightarrow> string \<times> MetadataEntry" where
  "default_entry p = (''postdata'', \<lparr>me_Schema = dp_Schema p, me_Name = [], ObjectType = ''DEFAULT PRIVILEGES'', ReferenceObject = [],
     StartByte = 0, EndByte = 0\<rparr>)"

definition default_statements :: "(string, string) gomap \<Rightarrow> DefaultPrivileges \<Rightarrow> string list" where
  "default_statements owners p =
     (let roleStr = (if dp_Owner p \<noteq> [] then '' FOR ROLE '' @ getMappedRole owners (dp_Owner p) else []);
          schemaStr = (if dp_Schema p \<noteq> [] then '' IN SCHEMA '' @ dp_Schema p else []);
          objectType = (if dp_ObjectType p = ''r'' then ''TABLE'' else if dp_ObjectType p = ''S'' then ''SEQUENCE''
            else if dp_ObjectType p = ''f'' then ''FUNCTION'' else if dp_ObjectType p = ''T'' then ''TYPE'' else []);
          pre = ''ALTER DEFAULT PRIVILEGES'' @ roleStr @ schemaStr @ '' '';
          object = ''ON '' @ objectType @ ''S''
      in revokes owners pre object (dp_Owner p) @ concat (map (grants owners pre object objectType) (dp_Privileges p)))"

fun PrintDefaultPrivilegesStatements :: "(string, string) gomap \<Rightarrow> DefaultPrivileges list \<Rightarrow> metafile \<Rightarrow> metafile res" where
  "PrintDefaultPrivilegesStatements owners [] st = Inr st"
| "PrintDefaultPrivilegesStatements owners (p # ps) st =
     rbind (emit (fst (default_entry p)) (snd (default_entry p)) (NL @ NL @ Join (default_statements owners p) NL @ NL) st)
       (PrintDefaultPrivilegesStatements owners ps)"

section \<open>Reading an item\<close>

fun priv_char :: "priv \<Rightarrow> char" where
  "priv_char Insert = CHR ''a''" | "priv_char Select = CHR ''r''" | "priv_char Update = CHR ''w''" | "priv_char Delete = CHR ''d''"
| "priv_char Truncate = CHR ''D''" | "priv_char References = CHR ''x''" | "priv_char Trigger = CHR ''t''" | "priv_char Execute = CHR ''X''"
| "priv_char Usage = CHR ''U''" | "priv_char Create = CHR ''C''" | "priv_char Temporary = CHR ''T''" | "priv_char Connect = CHR ''c''"

text \<open>The server's notation of an item: grantee, privileges with a star for the grant option, grantor.\<close>

definition perm_text :: "(priv \<times> bool) list \<Rightarrow> string" where
  "perm_text ps = concat (map (\<lambda>(p, g). priv_char p # (if g then ''*'' else [])) ps)"

definition acl_text :: "string \<Rightarrow> (priv \<times> bool) list \<Rightarrow> string \<Rightarrow> string" where
  "acl_text grantee ps grantor = grantee @ ''='' @ perm_text ps @ ''/'' @ grantor"

lemma priv_of_char [simp]: "priv_of (priv_char p) = Some p"
  by (cases p) (simp_all add: priv_of_def)

lemma priv_of_star [simp]: "priv_of CHR ''*'' = None"
  by (simp add: priv_of_def)

lemma is_perm_char [simp]: "is_perm (priv_char p)" "is_perm CHR ''*''" "\<not> is_perm CHR ''/''" "\<not> is_perm CHR ''=''" "\<not> is_perm CHR 0x0A"
  by (cases p) (simp_all add: is_perm_def char_between_def less_eq_char_def)

lemma perm_text_perms: "list_all is_perm (perm_text ps)"
  by (induction ps) (auto simp: perm_text_def)

lemma parse_perms_text:
  "distinct (map fst ps) \<Longrightarrow> fst ` set ps \<inter> plain acl = {} \<Longrightarrow>
   parse_perms (perm_text ps) l acl =
     acl\<lparr>plain := plain acl \<union> {p. (p, False) \<in> set ps}, withGrant := withGrant acl \<union> {p. (p, True) \<in> set ps}\<rparr>"
proof (induction ps arbitrary: acl l)
  case Nil
  then show ?case by (simp add: perm_text_def)
next
  case (Cons x ps)
  obtain p g where x: "x = (p, g)" by (cases x)
  have new: "p \<notin> plain acl" "p \<notin> fst ` set ps" using Cons.prems x by auto
  show ?case
  proof (cases g)
    case True
    let ?acl = "acl\<lparr>withGrant := insert p (withGrant acl)\<rparr>"
    have "insert p (plain acl) - {p} = plain acl" using new by simp
    then have "parse_perms (perm_text (x # ps)) l acl = parse_perms (perm_text ps) (Some CHR ''*'') ?acl"
      using True x by (simp add: perm_text_def)
    also have "\<dots> = ?acl\<lparr>plain := plain acl \<union> {q. (q, False) \<in> set ps}, withGrant := withGrant ?acl \<union> {q. (q, True) \<in> set ps}\<rparr>"
      using Cons.IH[of ?acl] Cons.prems x by auto
    finally have "parse_perms (perm_text (x # ps)) l acl = ?acl\<lparr>plain := plain acl \<union> {q. (q, False) \<in> set ps}, withGrant := withGrant ?acl \<union> {q. (q, True) \<in> set ps}\<rparr>" .
    moreover have "withGrant ?acl \<union> {q. (q, True) \<in> set ps} = withGrant acl \<union> {q. (q, True) \<in> set (x # ps)}"
      "{q. (q, False) \<in> set (x # ps)} = {q. (q, False) \<in> set ps}" using True x by auto
    ultimately show ?thesis by simp
  next
    case False
    let ?acl = "acl\<lparr>plain := insert p (plain acl)\<rparr>"
    have "parse_perms (perm_text (x # ps)) l acl = parse_perms (perm_text ps) (Some (priv_char p)) ?acl"
      using False x by (simp add: perm_text_def)
    also have "\<dots> = ?acl\<lparr>plain := plain ?acl \<union> {q. (q, False) \<in> set ps}, withGrant := withGrant acl \<union> {q. (q, True) \<in> set ps}\<rparr>"
      using Cons.IH[of ?acl] Cons.prems x new by auto
    finally have "parse_perms (perm_text (x # ps)) l acl = ?acl\<lparr>plain := plain ?acl \<union> {q. (q, False) \<in> set ps}, withGrant := withGrant acl \<union> {q. (q, True) \<in> set ps}\<rparr>" .
    moreover have "plain ?acl \<union> {q. (q, False) \<in> set ps} = plain acl \<union> {q. (q, False) \<in> set (x # ps)}"
      "{q. (q, True) \<in> set (x # ps)} = {q. (q, True) \<in> set ps}" using False x by auto
    ultimately show ?thesis by simp
  qed
qed


lemma match_acl_text:
  assumes "CHR ''='' \<notin> set grantor" and "CHR 0x0A \<notin> set grantee" "CHR 0x0A \<notin> set grantor"
  shows "match_acl (acl_text grantee ps grantor) = Some (grantee, perm_text ps, grantor)"
proof -
  let ?r = "perm_text ps @ CHR ''/'' # grantor" and ?s = "acl_text grantee ps grantor"
  have s: "?s = grantee @ CHR ''='' # ?r" by (simp add: acl_text_def)
  have perms: "\<forall>c \<in> set (perm_text ps). is_perm c" using perm_text_perms by (simp add: list_all_iff)
  have tw: "takeWhile is_perm ?r = perm_text ps" "dropWhile is_perm ?r = CHR ''/'' # grantor"
    using perms by (simp_all add: takeWhile_append2 dropWhile_append2)
  have "CHR ''='' \<notin> set (perm_text ps)" "CHR 0x0A \<notin> set (perm_text ps)"
    using perms is_perm_char(4,5) by blast+
  then have eq: "CHR ''='' \<notin> set ?r" and nl: "CHR 0x0A \<notin> set ?s" using assms by (auto simp: s)
  have "last_such (acl_at ?s) [0..<length ?s] = Some (length grantee)"
  proof (rule last_such_eq)
    show "length grantee < length ?s" by (simp add: s)
    show "acl_at ?s (length grantee)" unfolding acl_at_def s by (simp add: tw)
  next
    fix q assume q: "length grantee < q" "q < length ?s"
    then have "?s ! q = ?r ! (q - Suc (length grantee))" "q - Suc (length grantee) < length ?r" by (auto simp: s nth_append)
    then have "?s ! q \<in> set ?r" by (metis nth_mem)
    with eq show "\<not> acl_at ?s q" unfolding acl_at_def by metis
  qed
  then show ?thesis using nl unfolding match_acl_def s by (simp add: tw)
qed

text \<open>
  Claim C29. The access control items of the catalog are read exactly: for every grantee, every list of
  distinct privileges each with or without grant option, and every grantor without an equals
  sign, \<open>ParseACL\<close> gives the quoted grantee, the privileges without and those with grant option.
\<close>

theorem ParseACL_roundtrip:
  assumes "distinct (map fst ps)" and "CHR ''='' \<notin> set grantor" and "CHR 0x0A \<notin> set grantee" "CHR 0x0A \<notin> set grantor"
  shows "ParseACL roles (acl_text grantee ps grantor) =
    Some \<lparr>Grantee = (case go_get roles grantee of Some q \<Rightarrow> q | None \<Rightarrow> grantee),
      plain = {p. (p, False) \<in> set ps}, withGrant = {p. (p, True) \<in> set ps}\<rparr>"
  using parse_perms_text[OF assms(1), of empty_ACL None] match_acl_text[OF assms(2-4)]
  by (simp add: ParseACL_def empty_ACL_def)

theorem ParseACL_roundtrip_witness:
  "ParseACL [] ''bob=r*w/alice'' = Some \<lparr>Grantee = ''bob'', plain = {Update}, withGrant = {Select}\<rparr>"
  using ParseACL_roundtrip[of "[(Select, True), (Update, False)]" "''alice''" "''bob''" "[]"]
  by (simp add: acl_text_def perm_text_def)

section \<open>Printing privileges\<close>

text \<open>What the server takes a privilege list for: \<open>ALL\<close> stands for all privileges of the object type.\<close>

definition denoted :: "string \<Rightarrow> string \<Rightarrow> priv set" where
  "denoted objectType s =
     (if s = ''ALL'' then (case all_privileges objectType of Some A \<Rightarrow> A | None \<Rightarrow> {})
      else {p. priv_name p \<in> set (Split CHR '','' s)})"

lemma priv_name_facts [simp]: "CHR '','' \<notin> set (priv_name p)" "priv_name p \<noteq> []" "priv_name p \<noteq> ''ALL''"
  by (cases p; simp)+

lemma priv_name_inject [simp]: "priv_name p = priv_name q \<longleftrightarrow> p = q"
  by (cases p; cases q; simp)

lemma Join_not_ALL: "Join (map priv_name ps) '','' \<noteq> ''ALL''"
proof (cases ps)
  case Nil
  then show ?thesis by simp
next
  case (Cons p qs)
  show ?thesis
  proof (cases qs)
    case Nil
    with Cons show ?thesis by simp
  next
    case q: (Cons q rs)
    then have "CHR '','' \<in> set (Join (map priv_name ps) '','')" using Cons by simp
    then show ?thesis by auto
  qed
qed

lemma Split_Join_privs:
  "ps \<noteq> [] \<Longrightarrow> Split CHR '','' (Join (map priv_name ps) '','') = map priv_name ps"
  by (rule Split_Join) auto

lemma denoted_list: "denoted t (Join (map priv_name ps) '','') = set ps"
proof (cases "ps = []")
  case True
  then show ?thesis by (simp add: denoted_def)
next
  case False
  then show ?thesis using Join_not_ALL[of ps] by (auto simp: denoted_def Split_Join_privs)
qed

lemma execute_only_all: "all_privileges t = Some A \<Longrightarrow> Execute \<in> A \<Longrightarrow> A = {Execute}"
  by (auto simp: all_privileges_def split: if_splits)

lemma all_privs_listed: "set listed_privileges = UNIV - {Execute}"
proof -
  have "p \<in> set listed_privileges \<longleftrightarrow> p \<noteq> Execute" for p by (cases p) (simp_all add: listed_privileges_def)
  then show ?thesis by blast
qed

lemma denoted_privilege_string:
  assumes "all_privileges t = Some A" and "ps \<subseteq> A"
  shows "denoted t (privilege_string t ps) = ps"
proof (cases "A \<subseteq> ps")
  case True
  with assms show ?thesis by (auto simp: privilege_string_def denoted_def)
next
  case False
  then have "Execute \<notin> ps" using assms execute_only_all by blast
  then have "set (filter (\<lambda>p. p \<in> ps) listed_privileges) = ps" using all_privs_listed by auto
  with False assms(1) denoted_list[of t] show ?thesis by (simp add: privilege_string_def)
qed

text \<open>
  The privilege lists in the printed grants are exact: for every object type whose privileges
  the code knows, an item with privileges of that type is printed as lists that denote exactly
  its privileges without and with grant option, \<open>ALL\<close> included.
\<close>

theorem privilege_strings_exact:
  assumes "all_privileges t = Some A" and "plain acl \<subseteq> A" and "withGrant acl \<subseteq> A"
  shows "denoted t (fst (createPrivilegeStrings acl t)) = plain acl \<and> denoted t (snd (createPrivilegeStrings acl t)) = withGrant acl"
  using denoted_privilege_string assms by (simp add: createPrivilegeStrings_def)

theorem privilege_strings_exact_witness:
  "denoted ''SCHEMA'' (fst (createPrivilegeStrings \<lparr>Grantee = [], plain = {Usage, Create}, withGrant = {}\<rparr> ''SCHEMA'')) = {Usage, Create} \<and>
   createPrivilegeStrings \<lparr>Grantee = [], plain = {Usage, Create}, withGrant = {}\<rparr> ''SCHEMA'' = (''ALL'', [])"
  using privilege_strings_exact[of "''SCHEMA''" "{Usage, Create}" "\<lparr>Grantee = [], plain = {Usage, Create}, withGrant = {}\<rparr>"]
  by (simp add: all_privileges_def createPrivilegeStrings_def privilege_string_def)

text \<open>
  Claim C40. Grants on aggregates are lost: an aggregate can only be executed, but the object type
  \<open>AGGREGATE\<close> has no case in \<open>createPrivilegeStrings\<close> and the list of single privileges leaves out
  \<open>EXECUTE\<close>; what is printed for it revokes all privileges and grants nothing.
\<close>

theorem aggregate_grants_lost:
  assumes "list_all (\<lambda>acl. plain acl \<subseteq> {Execute} \<and> withGrant acl \<subseteq> {Execute}) (Privileges obj)" and "Privileges obj \<noteq> []"
  shows "GetPrivilegesStatements owners obj name ''AGGREGATE'' [] = NL @ NL @ Join (revokes owners [] (''ON FUNCTION '' @ name) (Owner obj)) NL"
proof -
  have none: "privilege_string ''AGGREGATE'' ps = []" if "ps \<subseteq> {Execute}" for ps
  proof -
    have "filter (\<lambda>p. p \<in> ps) listed_privileges = []" using that all_privs_listed by (auto simp: filter_empty_conv)
    then show ?thesis by (simp add: privilege_string_def all_privileges_def)
  qed
  have "acl \<in> set (Privileges obj) \<Longrightarrow> grants owners [] ob ''AGGREGATE'' acl = []" for acl ob
    using assms(1) none by (auto simp: grants_def createPrivilegeStrings_def list_all_iff)
  then have ng: "concat (map (grants owners [] ob ''AGGREGATE'') (Privileges obj)) = []" for ob by simp
  have "revokes owners [] ob ow \<noteq> []" for ob ow by (simp add: revokes_def)
  then show ?thesis using assms(2) by (simp add: GetPrivilegesStatements_def type_string_def ng)
qed

theorem aggregate_grants_lost_witness:
  "GetPrivilegesStatements [] (no_metadata\<lparr>Privileges := [\<lparr>Grantee = ''bob'', plain = {Execute}, withGrant = {}\<rparr>]\<rparr>) ''s.sum2(integer)'' ''AGGREGATE'' [] =
     NL @ NL @ ''REVOKE ALL ON FUNCTION s.sum2(integer) FROM PUBLIC;''"
  using aggregate_grants_lost[of "no_metadata\<lparr>Privileges := [\<lparr>Grantee = ''bob'', plain = {Execute}, withGrant = {}\<rparr>]\<rparr>" "[]" "''s.sum2(integer)''"]
  by (simp add: no_metadata_def revokes_def)


section \<open>Collecting the rows of an object\<close>

definition row_acls :: "(string, string) gomap \<Rightarrow> MetadataQueryStruct list \<Rightarrow> ACL list" where
  "row_acls roles g = concat (map (\<lambda>r. parsed roles (q_Privileges r) (q_Kind r)) g)"

definition group_metadata :: "(string, string) gomap \<Rightarrow> MetadataQueryStruct list \<Rightarrow> ObjectMetadata" where
  "group_metadata roles g = (metadata_of (hd g))\<lparr>Privileges := sortACLs (row_acls roles g)\<rparr>"

definition group_of :: "UniqueID \<Rightarrow> MetadataQueryStruct list \<Rightarrow> bool" where
  "group_of k g \<longleftrightarrow> g \<noteq> [] \<and> k \<noteq> zero_UniqueID \<and> list_all (\<lambda>r. q_UniqueID r = k) g"

lemma metadata_loop_same:
  "list_all (\<lambda>r. q_UniqueID r = cur) rs \<Longrightarrow> metadata_loop roles (rs @ rest) cur m mm =
     metadata_loop roles rest cur (m\<lparr>Privileges := Privileges m @ row_acls roles rs\<rparr>) mm"
  by (induction rs arbitrary: m) (simp_all add: row_acls_def Let_def)

lemma metadata_loop_group:
  assumes "group_of k g" and "cur \<noteq> k"
  shows "metadata_loop roles (g @ rest) cur m mm =
    metadata_loop roles rest k ((metadata_of (hd g))\<lparr>Privileges := row_acls roles g\<rparr>)
      (if cur \<noteq> zero_UniqueID then go_set cur (sorted_metadata m) mm else mm)"
proof -
  obtain r rs where g: "g = r # rs" using assms(1) by (cases g) (auto simp: group_of_def)
  have k: "q_UniqueID r = k" "list_all (\<lambda>r. q_UniqueID r = k) rs" using assms(1) by (auto simp: group_of_def g)
  let ?m = "(metadata_of r)\<lparr>Privileges := Privileges (metadata_of r) @ parsed roles (q_Privileges r) (q_Kind r)\<rparr>"
  let ?mm = "if cur \<noteq> zero_UniqueID then go_set cur (sorted_metadata m) mm else mm"
  have "metadata_loop roles (g @ rest) cur m mm = metadata_loop roles (rs @ rest) k ?m ?mm"
    using assms(2) k(1) by (simp add: g Let_def)
  also have "\<dots> = metadata_loop roles rest k (?m\<lparr>Privileges := Privileges ?m @ row_acls roles rs\<rparr>) ?mm"
    by (rule metadata_loop_same[OF k(2)])
  finally show ?thesis by (simp add: g row_acls_def metadata_of_def)
qed

lemma metadata_loop_groups:
  assumes "distinct (go_keys mm @ cur # map fst gs)" and "cur \<noteq> zero_UniqueID" and "list_all (\<lambda>(k, g). group_of k g) gs"
  shows "metadata_loop roles (concat (map snd gs)) cur m mm =
    mm @ (cur, sorted_metadata m) # map (\<lambda>(k, g). (k, group_metadata roles g)) gs"
  using assms
proof (induction gs arbitrary: mm cur m)
  case Nil
  then show ?case by (simp add: go_set_new)
next
  case (Cons kg gs)
  obtain k g where kg: "kg = (k, g)" by (cases kg)
  have "cur \<notin> set (go_keys mm)" using Cons.prems(1) by auto
  then have set: "go_set cur (sorted_metadata m) mm = mm @ [(cur, sorted_metadata m)]" by (rule go_set_new)
  let ?m = "(metadata_of (hd g))\<lparr>Privileges := row_acls roles g\<rparr>"
  have "metadata_loop roles (concat (map snd (kg # gs))) cur m mm =
      metadata_loop roles (concat (map snd gs)) k ?m (mm @ [(cur, sorted_metadata m)])"
    using metadata_loop_group[of k g cur roles "concat (map snd gs)" m mm] Cons.prems kg set by auto
  also have "\<dots> = (mm @ [(cur, sorted_metadata m)]) @ (k, sorted_metadata ?m) # map (\<lambda>(k, g). (k, group_metadata roles g)) gs"
    by (rule Cons.IH) (use Cons.prems kg in \<open>auto simp: group_of_def\<close>)
  finally show ?case by (simp add: kg group_metadata_def sorted_metadata_def)
qed

text \<open>
  \<open>ConstructMetadataMap\<close> collects the rows of each object: when the rows of an object follow each
  other, as the query returns them, the map has exactly one entry per object, with the owner,
  comment and label of its first row and the privileges of all its rows, sorted by grantee.
\<close>

theorem ConstructMetadataMap_groups:
  assumes "distinct (map fst gs)" and "list_all (\<lambda>(k, g). group_of k g) gs"
  shows "ConstructMetadataMap roles (concat (map snd gs)) = map (\<lambda>(k, g). (k, group_metadata roles g)) gs"
proof (cases gs)
  case Nil
  then show ?thesis by (simp add: ConstructMetadataMap_def)
next
  case (Cons kg hs)
  obtain k g where kg: "kg = (k, g)" by (cases kg)
  have g: "group_of k g" "k \<noteq> zero_UniqueID" "g \<noteq> []" using assms(2) Cons kg by (auto simp: group_of_def)
  let ?m = "(metadata_of (hd g))\<lparr>Privileges := row_acls roles g\<rparr>"
  have "ConstructMetadataMap roles (concat (map snd gs)) = metadata_loop roles (g @ concat (map snd hs)) zero_UniqueID no_metadata []"
    using Cons kg g(3) by (simp add: ConstructMetadataMap_def)
  also have "\<dots> = metadata_loop roles (concat (map snd hs)) k ?m []"
    using metadata_loop_group[OF g(1)] g(2) by simp
  also have "\<dots> = [] @ (k, sorted_metadata ?m) # map (\<lambda>(k, g). (k, group_metadata roles g)) hs"
    by (rule metadata_loop_groups) (use assms Cons kg g(2) in auto)
  finally show ?thesis by (simp add: Cons kg group_metadata_def sorted_metadata_def)
qed

definition demo_row :: "32 word \<Rightarrow> string \<Rightarrow> MetadataQueryStruct" where
  "demo_row o1 acl = \<lparr>q_UniqueID = \<lparr>ClassID = 1259, Oid = o1\<rparr>, q_ObjectType = ''TABLE'', q_Owner = ''bob'', q_Comment = [],
     q_Privileges = Some acl, q_Kind = [], q_SecurityLabel = [], q_SecurityLabelProvider = []\<rparr>"

theorem ConstructMetadataMap_groups_witness:
  "ConstructMetadataMap [] [demo_row 1 ''z=r/bob'', demo_row 1 ''a=w/bob'', demo_row 2 ''a=r/bob''] =
     [(\<lparr>ClassID = 1259, Oid = 1\<rparr>, group_metadata [] [demo_row 1 ''z=r/bob'', demo_row 1 ''a=w/bob'']),
      (\<lparr>ClassID = 1259, Oid = 2\<rparr>, group_metadata [] [demo_row 2 ''a=r/bob''])]"
  using ConstructMetadataMap_groups[of "[(\<lparr>ClassID = 1259, Oid = 1\<rparr>, [demo_row 1 ''z=r/bob'', demo_row 1 ''a=w/bob'']),
      (\<lparr>ClassID = 1259, Oid = 2\<rparr>, [demo_row 2 ''a=r/bob''])]" "[]"]
  by (simp add: group_of_def demo_row_def zero_UniqueID_def)

text \<open>
  The grants of extension functions are printed again with every later function: the list of
  statements is never emptied between two functions.
\<close>

lemma extension_acls_repeat:
  assumes "GetPrivilegesStatements owners m1 (obj_FQN o1) ''FUNCTION'' [] \<noteq> []" and "GetPrivilegesStatements owners m2 (obj_FQN o2) ''FUNCTION'' [] \<noteq> []"
  defines "t1 \<equiv> TrimSpace (GetPrivilegesStatements owners m1 (obj_FQN o1) ''FUNCTION'' [])"
    and "t2 \<equiv> TrimSpace (GetPrivilegesStatements owners m2 (obj_FQN o2) ''FUNCTION'' [])"
  shows "extension_acls owners [(o1, m1), (o2, m2)] [] st =
    rbind (PrintStatements (obj_section o1) (obj_entry o1) [t1] st) (PrintStatements (obj_section o2) (obj_entry o2) [t1, t2])"
  using assms by (cases "PrintStatements (obj_section o1) (obj_entry o1) [t1] st") (simp_all add: Let_def rbind_def split: sum.splits)

end
