(* ===== verification/Printing.thy ===== *)
theory Printing
  imports Acl Complex_Main
begin

text \<open>
  What the printers of \<open>src/meta/builtin/predata_*.go\<close>, \<open>postdata.go\<close>, \<open>metadata_globals.go\<close> and
  \<open>statistics.go\<close> share. A printer writes text to the metadata file and records it in the table of
  contents; it is a function on the pair of both. The environment holds the package variables the
  printers read: the versions of the two servers, the role names, the destination tablespace.
  Go's formats for floating point numbers, \<open>%v\<close> and \<open>%f\<close>, and \<open>strconv.ParseFloat\<close> are functions of the
  environment; the numbers themselves are rational.

  The locale \<open>printer\<close> is the contract between the printers and the code that calls them: what a
  printer writes is a sequence of statements recorded for its own object. From it follows, once and
  for all printers, that printing never disturbs what was printed before and that all statements
  are read back byte for byte (\<open>printed_read_back\<close>).
\<close>

section \<open>Environment\<close>

record print_env = acl_env +
  dest_version :: GPDBVersion
  dest_tablespaces :: "string \<times> (string, string) gomap"
  quoted_roles :: "(string, string) gomap"
  float_text :: "rat \<Rightarrow> string"
  fixed_text :: "rat \<Rightarrow> string"
  ParseFloat :: "string \<Rightarrow> rat res"

definition src_at_least :: "'a acl_env_scheme \<Rightarrow> string \<Rightarrow> bool res" where
  "src_at_least env target = version_gate (acl_ranges env) (acl_version env) target"

definition src_old :: "'a acl_env_scheme \<Rightarrow> string \<Rightarrow> bool res" where
  "src_old env target = is_old_gpdb (acl_ranges env) (acl_version env) target"

definition src_is :: "'a acl_env_scheme \<Rightarrow> string \<Rightarrow> bool res" where
  "src_is env target = (if IsGPDB (acl_version env) then Is (acl_ranges env) (acl_version env) target else Inr False)"

text \<open>\<open>String\<close> of a \<open>sql.NullString\<close>: the empty string for NULL.\<close>

definition ns_String :: "string option \<Rightarrow> string" where
  "ns_String s = (case s of Some t \<Rightarrow> t | None \<Rightarrow> [])"

definition in_quotes :: "string \<Rightarrow> string" where
  "in_quotes s = [SQ] @ s @ [SQ]"

text \<open>\<open>strings.ToUpper\<close> on ASCII letters.\<close>

definition upper :: "char \<Rightarrow> char" where
  "upper c = (if char_between CHR ''a'' CHR ''z'' c then char_of (of_char c - 32 :: nat) else c)"

definition ToUpper :: "string \<Rightarrow> string" where
  "ToUpper s = map upper s"

text \<open>\<open>strings.ToLower\<close> on ASCII letters.\<close>

definition lower :: "char \<Rightarrow> char" where
  "lower c = (if char_between CHR ''A'' CHR ''Z'' c then char_of (of_char c + 32 :: nat) else c)"

definition ToLower :: "string \<Rightarrow> string" where
  "ToLower s = map lower s"

lemma char_nat:
  "char_between a b c \<longleftrightarrow> (of_char a :: nat) \<le> of_char c \<and> (of_char c :: nat) \<le> of_char b" "c = d \<longleftrightarrow> (of_char c :: nat) = of_char d"
  by (simp_all add: char_between_def less_eq_char_def)

lemma of_char_bound: "(of_char c :: nat) < 256"
  by simp

lemma ToLower_append [simp]: "ToLower (a @ b) = ToLower a @ ToLower b"
  by (simp add: ToLower_def)

text \<open>A piece of text, or an element of a list, that is printed under a condition.\<close>

definition text_if :: "bool \<Rightarrow> string \<Rightarrow> string" where
  "text_if b s = (if b then s else [])"

definition item_if :: "bool \<Rightarrow> string \<Rightarrow> string list" where
  "item_if b s = (if b then [s] else [])"

definition bool_text :: "bool \<Rightarrow> string" where
  "bool_text b = (if b then ''true'' else ''false'')"

definition oid_text :: "32 word \<Rightarrow> string" where
  "oid_text w = Itoa (int (unat w))"

lemma text_if_simps [simp]: "text_if True s = s" "text_if False s = []"
  by (simp_all add: text_if_def)

lemma item_if_simps [simp]: "item_if True s = [s]" "item_if False s = []"
  by (simp_all add: item_if_def)

abbreviation BR :: string where "BR \<equiv> NL @ NL"
abbreviation NT :: string where "NT \<equiv> NL @ TAB"
abbreviation CNT :: string where "CNT \<equiv> '','' @ NL @ TAB"

section \<open>Object identifiers\<close>

definition PG_AGGREGATE_OID :: "32 word" where "PG_AGGREGATE_OID = 1255"
definition PG_AUTHID_OID :: "32 word" where "PG_AUTHID_OID = 1260"
definition PG_CAST_OID :: "32 word" where "PG_CAST_OID = 2605"
definition PG_COLLATION_OID :: "32 word" where "PG_COLLATION_OID = 3456"
definition PG_CONSTRAINT_OID :: "32 word" where "PG_CONSTRAINT_OID = 2606"
definition PG_CONVERSION_OID :: "32 word" where "PG_CONVERSION_OID = 2607"
definition PG_DATABASE_OID :: "32 word" where "PG_DATABASE_OID = 1262"
definition PG_EXTENSION_OID :: "32 word" where "PG_EXTENSION_OID = 3079"
definition PG_FOREIGN_DATA_WRAPPER_OID :: "32 word" where "PG_FOREIGN_DATA_WRAPPER_OID = 2328"
definition PG_FOREIGN_SERVER_OID :: "32 word" where "PG_FOREIGN_SERVER_OID = 1417"
definition PG_INDEX_OID :: "32 word" where "PG_INDEX_OID = 2610"
definition PG_LANGUAGE_OID :: "32 word" where "PG_LANGUAGE_OID = 2612"
definition PG_TRANSFORM_OID :: "32 word" where "PG_TRANSFORM_OID = 3576"
definition PG_NAMESPACE_OID :: "32 word" where "PG_NAMESPACE_OID = 2615"
definition PG_OPCLASS_OID :: "32 word" where "PG_OPCLASS_OID = 2616"
definition PG_OPERATOR_OID :: "32 word" where "PG_OPERATOR_OID = 2617"
definition PG_OPFAMILY_OID :: "32 word" where "PG_OPFAMILY_OID = 2753"
definition PG_RESGROUP_OID :: "32 word" where "PG_RESGROUP_OID = 6436"
definition PG_RESQUEUE_OID :: "32 word" where "PG_RESQUEUE_OID = 6026"
definition PG_REWRITE_OID :: "32 word" where "PG_REWRITE_OID = 2618"
definition PG_STATISTIC_EXT_OID :: "32 word" where "PG_STATISTIC_EXT_OID = 3381"
definition PG_TABLESPACE_OID :: "32 word" where "PG_TABLESPACE_OID = 1213"
definition PG_TRIGGER_OID :: "32 word" where "PG_TRIGGER_OID = 2620"
definition PG_TS_CONFIG_OID :: "32 word" where "PG_TS_CONFIG_OID = 3602"
definition PG_TS_DICT_OID :: "32 word" where "PG_TS_DICT_OID = 3600"
definition PG_TS_PARSER_OID :: "32 word" where "PG_TS_PARSER_OID = 3601"
definition PG_TS_TEMPLATE_OID :: "32 word" where "PG_TS_TEMPLATE_OID = 3764"
definition PG_USER_MAPPING_OID :: "32 word" where "PG_USER_MAPPING_OID = 1418"

section \<open>Objects\<close>

definition mk_id :: "32 word \<Rightarrow> 32 word \<Rightarrow> UniqueID" where
  "mk_id c oid = \<lparr>ClassID = c, Oid = oid\<rparr>"

definition mk_entry :: "string \<Rightarrow> string \<Rightarrow> string \<Rightarrow> string \<Rightarrow> MetadataEntry" where
  "mk_entry schema name objectType ref =
     \<lparr>me_Schema = schema, me_Name = name, ObjectType = objectType, ReferenceObject = ref, StartByte = 0, EndByte = 0\<rparr>"

definition mk_object :: "string \<times> MetadataEntry \<Rightarrow> string \<Rightarrow> toc_object" where
  "mk_object se n = \<lparr>obj_section = fst se, obj_entry = snd se, obj_FQN = n, obj_Kind = []\<rparr>"

lemma mk_object_fields [simp]:
  "obj_section (mk_object se n) = fst se" "obj_entry (mk_object se n) = snd se" "obj_FQN (mk_object se n) = n"
  by (simp_all add: mk_object_def)

definition metadata_for :: "MetadataMap \<Rightarrow> UniqueID \<Rightarrow> ObjectMetadata" where
  "metadata_for m k = go_get0 no_metadata m k"

section \<open>Printing one object\<close>

text \<open>Text that belongs to no entry.\<close>

definition loose :: "string \<Rightarrow> metafile \<Rightarrow> metafile res" where
  "loose t st = Inr (MustPrint t (fst st), snd st)"

text \<open>
  The pattern of most printers: the text of the definition, its entry, then the owner, privileges
  and comment of the object.
\<close>

definition print_object :: "'a acl_env_scheme \<Rightarrow> toc_object \<Rightarrow> string \<Rightarrow> ObjectMetadata \<Rightarrow> string \<Rightarrow> metafile \<Rightarrow> metafile res" where
  "print_object env obj t metadata owningTable st =
     rbind (emit (obj_section obj) (obj_entry obj) t st) (PrintObjectMetadata env metadata obj owningTable)"

fun for_each :: "('a \<Rightarrow> metafile \<Rightarrow> metafile res) \<Rightarrow> 'a list \<Rightarrow> metafile \<Rightarrow> metafile res" where
  "for_each p [] st = Inr st"
| "for_each p (x # xs) st = rbind (p x st) (for_each p xs)"

section \<open>What was printed\<close>

datatype printed = Loose string | Stmt string MetadataEntry string

fun printed_text :: "printed \<Rightarrow> string" where
  "printed_text (Loose t) = t"
| "printed_text (Stmt s e t) = t"

fun stmts :: "printed list \<Rightarrow> (string \<times> MetadataEntry \<times> string) list" where
  "stmts [] = []"
| "stmts (Loose t # xs) = stmts xs"
| "stmts (Stmt s e t # xs) = (s, e, t) # stmts xs"

fun print_all :: "printed list \<Rightarrow> metafile \<Rightarrow> metafile res" where
  "print_all [] st = Inr st"
| "print_all (Loose t # xs) st = rbind (loose t st) (print_all xs)"
| "print_all (Stmt s e t # xs) st = rbind (emit s e t st) (print_all xs)"

lemma stmts_append [simp]: "stmts (xs @ ys) = stmts xs @ stmts ys"
  by (induction xs rule: stmts.induct) simp_all

lemma print_all_append: "print_all (xs @ ys) st = rbind (print_all xs st) (print_all ys)"
proof (induction xs arbitrary: st)
  case (Cons x xs)
  show ?case
  proof (cases x)
    case (Loose t)
    with Cons show ?thesis by (simp add: loose_def)
  next
    case (Stmt s e t)
    with Cons show ?thesis by (cases "emit s e t st") simp_all
  qed
qed simp

lemma print_all_records:
  assumes "toc_records (contents (fst st)) (snd st) xs" and "counted (fst st)" and "print_all ys st = Inr st'"
  shows "toc_records (contents (fst st')) (snd st') (xs @ stmts ys) \<and> counted (fst st') \<and>
    contents (fst st') = contents (fst st) @ concat (map printed_text ys)"
  using assms
proof (induction ys arbitrary: xs st)
  case (Cons y ys)
  obtain st1 x where st1: "fst st1 = MustPrint (printed_text y) (fst st)"
    "toc_records (contents (fst st1)) (snd st1) (xs @ x)" "print_all ys st1 = Inr st'" "stmts (y # ys) = x @ stmts ys"
  proof (cases y)
    case (Loose t)
    with Cons.prems that[of "(MustPrint t (fst st), snd st)" "[]"] show thesis
      by (simp add: loose_def toc_records_append)
  next
    case (Stmt s e t)
    with Cons.prems obtain f toc where e: "emit s e t (fst st, snd st) = Inr (f, toc)" "print_all ys (f, toc) = Inr st'"
      by (auto simp: rbind_Inr_iff)
    from emit_records[OF Cons.prems(1,2) e(1)] show thesis
      by (rule conjE) (rule that[of "(f, toc)" "[(s, e, t)]"], use Stmt e(2) in simp_all)
  qed
  have "counted (fst st1)" using st1(1) MustPrint_counted[OF Cons.prems(2)] by simp
  from Cons.IH[OF st1(2) this st1(3)]
  have rest: "toc_records (contents (fst st')) (snd st') ((xs @ x) @ stmts ys)" "counted (fst st')"
    "contents (fst st') = contents (fst st1) @ concat (map printed_text ys)" by blast+
  from rest(3) st1(1) have "contents (fst st') = contents (fst st) @ concat (map printed_text (y # ys))" by simp
  with rest(1,2) st1(4) show ?case by (metis append.assoc)
qed simp

text \<open>
  \<open>prints p P\<close>: when the printer \<open>p\<close> succeeds, it has written a sequence with property \<open>P\<close>; the
  rules follow the composition of printers.
\<close>

named_theorems printing \<open>what composed printers write\<close>

definition prints :: "(metafile \<Rightarrow> metafile res) \<Rightarrow> (printed list \<Rightarrow> bool) \<Rightarrow> bool" where
  "prints p P \<longleftrightarrow> (\<forall>st st'. p st = Inr st' \<longrightarrow> (\<exists>xs. P xs \<and> print_all xs st = Inr st'))"

lemma prints_weaken: "prints p P \<Longrightarrow> (\<And>xs. P xs \<Longrightarrow> Q xs) \<Longrightarrow> prints p Q"
  by (fastforce simp: prints_def)

lemma prints_none: "P [] \<Longrightarrow> prints Inr P"
  unfolding prints_def by (auto intro!: exI[of _ "[]"])

lemma prints_emit: "P [Stmt s e t] \<Longrightarrow> prints (emit s e t) P"
  unfolding prints_def by (auto intro!: exI[of _ "[Stmt s e t]"])

lemma prints_emit_eq: "prints (emit s e t) (\<lambda>xs. xs = [Stmt s e t])"
  by (rule prints_emit) simp

lemma prints_loose: "P [Loose t] \<Longrightarrow> prints (loose t) P"
  unfolding prints_def by (auto intro!: exI[of _ "[Loose t]"])

lemma prints_then:
  assumes "prints p P" and "prints q Q" and "\<And>xs ys. P xs \<Longrightarrow> Q ys \<Longrightarrow> R (xs @ ys)"
  shows "prints (\<lambda>st. rbind (p st) q) R"
  unfolding prints_def
proof (intro allI impI)
  fix st st' assume "rbind (p st) q = Inr st'"
  then obtain st1 where "p st = Inr st1" "q st1 = Inr st'" by (auto simp: rbind_Inr_iff)
  with assms(1,2) obtain xs ys where "P xs" "print_all xs st = Inr st1" "Q ys" "print_all ys st1 = Inr st'"
    unfolding prints_def by meson
  then show "\<exists>zs. R zs \<and> print_all zs st = Inr st'"
    using assms(3) by (auto simp: print_all_append intro!: exI[of _ "xs @ ys"])
qed

lemma prints_compute:
  "(\<And>a. m = Inr a \<Longrightarrow> prints (f a) P) \<Longrightarrow> prints (\<lambda>st. rbind m (\<lambda>a. f a st)) P"
  by (cases m) (auto simp: prints_def)

section \<open>Statements of one object\<close>

definition same_name :: "MetadataEntry \<Rightarrow> MetadataEntry \<Rightarrow> bool" where
  "same_name e e0 \<longleftrightarrow> me_Schema e = me_Schema e0 \<and> me_Name e = me_Name e0 \<and>
     (ObjectType e = ObjectType e0 \<or> ObjectType e = ObjectType e0 @ '' METADATA'')"

definition own :: "toc_object \<Rightarrow> printed \<Rightarrow> bool" where
  "own obj x \<longleftrightarrow> (\<exists>e t. x = Stmt (obj_section obj) e t \<and> same_name e (obj_entry obj))"

lemma same_name_simps [simp]: "same_name e e" "same_name (mark_postdata s e) e"
  by (simp_all add: same_name_def mark_postdata_def)

lemma own_simps [simp]: "own obj (Stmt (obj_section obj) (obj_entry obj) t)"
  "own obj (Stmt (obj_section obj) (mark_postdata (obj_section obj) (obj_entry obj)) t)"
  by (auto simp: own_def)

text \<open>The definition comes first, the rest belongs to the same object.\<close>

definition created :: "toc_object \<Rightarrow> string \<Rightarrow> printed list \<Rightarrow> bool" where
  "created obj t xs \<longleftrightarrow> (\<exists>ms. xs = Stmt (obj_section obj) (obj_entry obj) t # ms \<and> list_all (own obj) ms)"

lemma created_own: "created obj t xs \<Longrightarrow> list_all (own obj) xs"
  by (auto simp: created_def)

lemma prints_statements: "prints (PrintStatements (obj_section obj) (obj_entry obj) ts) (list_all (own obj))"
proof (induction ts)
  case Nil
  have "PrintStatements (obj_section obj) (obj_entry obj) [] = Inr" by (rule ext) simp
  then show ?case by (simp add: prints_none)
next
  case (Cons t ts)
  have "prints (emit (obj_section obj) (mark_postdata (obj_section obj) (obj_entry obj)) (NL @ NL @ t @ NL)) (list_all (own obj))"
    by (rule prints_emit) simp
  from prints_then[OF this Cons.IH, of "list_all (own obj)"] show ?case by simp
qed

lemma prints_object_metadata [printing]: "prints (PrintObjectMetadata env metadata obj owningTable) (list_all (own obj))"
  unfolding PrintObjectMetadata_def by (rule prints_compute) (rule prints_statements)

lemma prints_print_object [printing]: "prints (print_object env obj t metadata owningTable) (created obj t)"
  unfolding print_object_def
  by (rule prints_then[OF prints_emit_eq prints_object_metadata]) (simp add: created_def)

fun in_section :: "string \<Rightarrow> printed \<Rightarrow> bool" where
  "in_section s (Loose t) = True"
| "in_section s (Stmt s' e t) = (s' = s)"

lemma own_section: "list_all (own obj) xs \<Longrightarrow> obj_section obj = s \<Longrightarrow> list_all (in_section s) xs"
  by (auto simp: list_all_iff own_def)

section \<open>The contract of a printer\<close>

locale printer =
  fixes print :: "'a \<Rightarrow> metafile \<Rightarrow> metafile res" and obj :: "'a \<Rightarrow> toc_object"
  assumes prints_own: "prints (print a) (list_all (own (obj a)))"
begin

text \<open>A loop over objects writes one block for each of them, in the order of the loop.\<close>

definition blocks :: "'a list \<Rightarrow> printed list \<Rightarrow> bool" where
  "blocks as xs \<longleftrightarrow> (\<exists>bs. xs = concat bs \<and> list_all2 (\<lambda>a. list_all (own (obj a))) as bs)"

lemma blocks_Cons: "list_all (own (obj a)) b \<Longrightarrow> blocks as xs \<Longrightarrow> blocks (a # as) (b @ xs)"
  unfolding blocks_def by (metis concat.simps(2) list_all2_Cons)

lemma prints_loop: "prints (for_each print as) (blocks as)"
proof (induction as)
  case Nil
  have "for_each print [] = Inr" by (rule ext) simp
  then show ?case by (auto simp: blocks_def intro!: prints_none)
next
  case (Cons a as)
  from prints_then[OF prints_own Cons.IH, of _ "blocks (a # as)"] show ?case by (simp add: blocks_Cons)
qed

lemma blocks_section:
  assumes "blocks as xs" and "\<And>a. obj_section (obj a) = s"
  shows "list_all (in_section s) xs"
proof -
  from assms(1) obtain bs where bs: "xs = concat bs" "list_all2 (\<lambda>a. list_all (own (obj a))) as bs" by (auto simp: blocks_def)
  from bs(2) have "list_all (in_section s) (concat bs)"
    by (induction as bs rule: list_all2_induct) (auto intro: own_section[OF _ assms(2)])
  with bs(1) show ?thesis by simp
qed

lemma loop_section:
  "(\<And>a. obj_section (obj a) = s) \<Longrightarrow> prints (for_each print as) (list_all (in_section s))"
  by (rule prints_weaken[OF prints_loop]) (rule blocks_section)

lemma loop_read_back:
  assumes "for_each print as st = Inr st'"
    and "toc_records (contents (fst st)) (snd st) before" and "counted (fst st)"
    and "length (contents (fst st')) < 2 ^ 63" and "is_section s"
    and "constructFilterSets inT exT inS exS inR exR = (os, ss, rs)"
  shows "\<exists>xs. blocks as xs \<and> GetSQLStatementForObjectTypes (snd st') s (contents (fst st')) inT exT inS exS inR exR =
    Inr (map (\<lambda>(_, e, t). statement_of e t)
      (filter (\<lambda>(s', e, _). s' = s \<and> shouldIncludeStatement e os ss rs) (before @ stmts xs)))"
proof -
  from prints_loop assms(1) obtain xs where xs: "blocks as xs" "print_all xs st = Inr st'" unfolding prints_def by blast
  from print_all_records[OF assms(2,3) xs(2)] have "toc_records (contents (fst st')) (snd st') (before @ stmts xs)" by blast
  from xs(1) read_back[OF this assms(4-6)] show ?thesis by blast
qed

end

lemma own_entry: "same_name e (obj_entry obj) \<Longrightarrow> s = obj_section obj \<Longrightarrow> own obj (Stmt s e t)"
  by (auto simp: own_def)

text \<open>A printer that always creates its object satisfies the contract.\<close>

definition creates :: "toc_object \<Rightarrow> printed list \<Rightarrow> bool" where
  "creates obj xs \<longleftrightarrow> (\<exists>t. created obj t xs)"

lemma createdI [intro]: "created obj t xs \<Longrightarrow> creates obj xs"
  by (auto simp: creates_def)

lemma creates_own: "creates obj xs \<Longrightarrow> list_all (own obj) xs"
  by (auto simp: creates_def created_own)

lemma printer_created: "(\<And>a. prints (print a) (creates (obj a))) \<Longrightarrow> printer print obj"
  unfolding printer_def using creates_own prints_weaken by blast

lemma prints_creates [printing]: "prints (print_object env obj t metadata owningTable) (creates obj)"
  by (rule prints_weaken[OF prints_print_object]) auto

lemma creates_append: "creates obj xs \<Longrightarrow> list_all (own obj) ys \<Longrightarrow> creates obj (xs @ ys)"
  by (auto simp: creates_def created_def)

text \<open>Statements about other entries do not count as statements of an object.\<close>

lemma prints_each: "(\<And>a. a \<in> set as \<Longrightarrow> prints (p a) (list_all Q)) \<Longrightarrow> prints (for_each p as) (list_all Q)"
proof (induction as)
  case Nil
  have "for_each p [] = Inr" by (rule ext) simp
  then show ?case by (auto intro: prints_none)
next
  case (Cons a as)
  then have "prints (p a) (list_all Q)" "prints (for_each p as) (list_all Q)" by auto
  from prints_then[OF this, of "list_all Q"] show ?case by simp
qed

lemma prints_entries:
  "same_name e (obj_entry obj) \<Longrightarrow> s = obj_section obj \<Longrightarrow> prints (for_each (emit s e) ts) (list_all (own obj))"
  by (rule prints_each) (rule prints_emit, simp add: own_entry)

end
