(* ===== verification/PrintTypes.thy ===== *)
theory PrintTypes
  imports Printing
begin

text \<open>
  Types, \<open>src/meta/builtin/predata_types.go\<close>, and the objects of \<open>predata_shared.go\<close>: schemas, constraints
  and access methods, with their structs and methods of \<open>queries_types.go\<close> and \<open>queries_shared.go\<close>.
\<close>

section \<open>Objects\<close>

definition GetTypeMetadataEntry :: "string \<Rightarrow> string \<Rightarrow> 32 word \<Rightarrow> string \<times> MetadataEntry" where
  "GetTypeMetadataEntry schema name oid = (''predata'', mk_entry schema name ''TYPE'' [])"

record BaseType =
  bt_Oid :: "32 word"
  bt_Schema :: string
  bt_Name :: string
  bt_Input :: string
  bt_Output :: string
  bt_Receive :: string
  bt_Send :: string
  bt_ModIn :: string
  bt_ModOut :: string
  bt_InternalLength :: int
  bt_IsPassedByValue :: bool
  bt_Alignment :: string
  bt_Storage :: string
  bt_DefaultVal :: string
  bt_Element :: string
  bt_Category :: string
  bt_Preferred :: bool
  bt_Delimiter :: string
  bt_StorageOptions :: string
  bt_Collatable :: bool
  bt_Collation :: string

definition BaseType_FQN :: "BaseType \<Rightarrow> string" where
  "BaseType_FQN x = fqn (bt_Schema x) (bt_Name x)"

definition BaseType_GetMetadataEntry :: "BaseType \<Rightarrow> string \<times> MetadataEntry" where
  "BaseType_GetMetadataEntry x = GetTypeMetadataEntry (bt_Schema x) (bt_Name x) (bt_Oid x)"

definition BaseType_GetUniqueID :: "BaseType \<Rightarrow> UniqueID" where
  "BaseType_GetUniqueID x = mk_id PG_TYPE_OID (bt_Oid x)"

definition BaseType_object :: "BaseType \<Rightarrow> toc_object" where
  "BaseType_object x = mk_object (BaseType_GetMetadataEntry x) (BaseType_FQN x)"

record Attribute =
  at_CompositeTypeOid :: "32 word"
  at_Name :: string
  at_Type :: string
  at_Comment :: string
  at_Collation :: string

record CompositeType =
  ct_Oid :: "32 word"
  ct_Schema :: string
  ct_Name :: string
  ct_Attributes :: "Attribute list"

definition CompositeType_FQN :: "CompositeType \<Rightarrow> string" where
  "CompositeType_FQN x = fqn (ct_Schema x) (ct_Name x)"

definition CompositeType_GetMetadataEntry :: "CompositeType \<Rightarrow> string \<times> MetadataEntry" where
  "CompositeType_GetMetadataEntry x = GetTypeMetadataEntry (ct_Schema x) (ct_Name x) (ct_Oid x)"

definition CompositeType_GetUniqueID :: "CompositeType \<Rightarrow> UniqueID" where
  "CompositeType_GetUniqueID x = mk_id PG_TYPE_OID (ct_Oid x)"

definition CompositeType_object :: "CompositeType \<Rightarrow> toc_object" where
  "CompositeType_object x = mk_object (CompositeType_GetMetadataEntry x) (CompositeType_FQN x)"

record Domain =
  dom_Oid :: "32 word"
  dom_Schema :: string
  dom_Name :: string
  dom_DefaultVal :: string
  dom_Collation :: string
  dom_BaseType :: string
  dom_NotNull :: bool

definition Domain_FQN :: "Domain \<Rightarrow> string" where
  "Domain_FQN x = fqn (dom_Schema x) (dom_Name x)"

definition Domain_GetMetadataEntry :: "Domain \<Rightarrow> string \<times> MetadataEntry" where
  "Domain_GetMetadataEntry x = (''predata'', mk_entry (dom_Schema x) (dom_Name x) ''DOMAIN'' [])"

definition Domain_GetUniqueID :: "Domain \<Rightarrow> UniqueID" where
  "Domain_GetUniqueID x = mk_id PG_TYPE_OID (dom_Oid x)"

definition Domain_object :: "Domain \<Rightarrow> toc_object" where
  "Domain_object x = mk_object (Domain_GetMetadataEntry x) (Domain_FQN x)"

record EnumType =
  en_Oid :: "32 word"
  en_Schema :: string
  en_Name :: string
  en_EnumLabels :: string

definition EnumType_FQN :: "EnumType \<Rightarrow> string" where
  "EnumType_FQN x = fqn (en_Schema x) (en_Name x)"

definition EnumType_GetMetadataEntry :: "EnumType \<Rightarrow> string \<times> MetadataEntry" where
  "EnumType_GetMetadataEntry x = GetTypeMetadataEntry (en_Schema x) (en_Name x) (en_Oid x)"

definition EnumType_GetUniqueID :: "EnumType \<Rightarrow> UniqueID" where
  "EnumType_GetUniqueID x = mk_id PG_TYPE_OID (en_Oid x)"

definition EnumType_object :: "EnumType \<Rightarrow> toc_object" where
  "EnumType_object x = mk_object (EnumType_GetMetadataEntry x) (EnumType_FQN x)"

record RangeType =
  rt_Oid :: "32 word"
  rt_Schema :: string
  rt_Name :: string
  rt_SubType :: string
  rt_Collation :: string
  rt_SubTypeOpClass :: string
  rt_Canonical :: string
  rt_SubTypeDiff :: string

definition RangeType_FQN :: "RangeType \<Rightarrow> string" where
  "RangeType_FQN x = fqn (rt_Schema x) (rt_Name x)"

definition RangeType_GetMetadataEntry :: "RangeType \<Rightarrow> string \<times> MetadataEntry" where
  "RangeType_GetMetadataEntry x = GetTypeMetadataEntry (rt_Schema x) (rt_Name x) (rt_Oid x)"

definition RangeType_GetUniqueID :: "RangeType \<Rightarrow> UniqueID" where
  "RangeType_GetUniqueID x = mk_id PG_TYPE_OID (rt_Oid x)"

definition RangeType_object :: "RangeType \<Rightarrow> toc_object" where
  "RangeType_object x = mk_object (RangeType_GetMetadataEntry x) (RangeType_FQN x)"

record ShellType =
  sh_Oid :: "32 word"
  sh_Schema :: string
  sh_Name :: string

definition ShellType_FQN :: "ShellType \<Rightarrow> string" where
  "ShellType_FQN x = fqn (sh_Schema x) (sh_Name x)"

definition ShellType_GetMetadataEntry :: "ShellType \<Rightarrow> string \<times> MetadataEntry" where
  "ShellType_GetMetadataEntry x = GetTypeMetadataEntry (sh_Schema x) (sh_Name x) (sh_Oid x)"

definition ShellType_GetUniqueID :: "ShellType \<Rightarrow> UniqueID" where
  "ShellType_GetUniqueID x = mk_id PG_TYPE_OID (sh_Oid x)"

definition ShellType_object :: "ShellType \<Rightarrow> toc_object" where
  "ShellType_object x = mk_object (ShellType_GetMetadataEntry x) (ShellType_FQN x)"

record Collation =
  co_Oid :: "32 word"
  co_Schema :: string
  co_Name :: string
  co_Collate :: string
  co_Ctype :: string
  co_Provider :: string
  co_IsDeterministic :: string

definition Collation_FQN :: "Collation \<Rightarrow> string" where
  "Collation_FQN x = fqn (co_Schema x) (co_Name x)"

definition Collation_GetMetadataEntry :: "Collation \<Rightarrow> string \<times> MetadataEntry" where
  "Collation_GetMetadataEntry x = (''predata'', mk_entry (co_Schema x) (co_Name x) ''COLLATION'' [])"

definition Collation_GetUniqueID :: "Collation \<Rightarrow> UniqueID" where
  "Collation_GetUniqueID x = mk_id PG_COLLATION_OID (co_Oid x)"

definition Collation_object :: "Collation \<Rightarrow> toc_object" where
  "Collation_object x = mk_object (Collation_GetMetadataEntry x) (Collation_FQN x)"

record Schema =
  sch_Oid :: "32 word"
  sch_Name :: string

definition Schema_FQN :: "Schema \<Rightarrow> string" where
  "Schema_FQN x = sch_Name x"

definition Schema_GetMetadataEntry :: "Schema \<Rightarrow> string \<times> MetadataEntry" where
  "Schema_GetMetadataEntry x = (''predata'', mk_entry (sch_Name x) (sch_Name x) ''SCHEMA'' [])"

definition Schema_GetUniqueID :: "Schema \<Rightarrow> UniqueID" where
  "Schema_GetUniqueID x = mk_id PG_NAMESPACE_OID (sch_Oid x)"

definition Schema_object :: "Schema \<Rightarrow> toc_object" where
  "Schema_object x = mk_object (Schema_GetMetadataEntry x) (Schema_FQN x)"

record Constraint =
  con_Oid :: "32 word"
  con_Schema :: string
  con_Name :: string
  con_ConType :: string
  con_Def :: "string option"
  con_ConIsLocal :: bool
  con_OwningObject :: string
  con_IsDomainConstraint :: bool
  con_IsPartitionParent :: bool

definition Constraint_FQN :: "Constraint \<Rightarrow> string" where
  "Constraint_FQN x = con_Name x"

definition Constraint_GetMetadataEntry :: "Constraint \<Rightarrow> string \<times> MetadataEntry" where
  "Constraint_GetMetadataEntry x = (if (case con_Def x of Some d \<Rightarrow> \<not> Contains (ToUpper d) ''NOT VALID'' | None \<Rightarrow> False) then ''predata'' else ''postdata'',
     mk_entry (con_Schema x) (con_Name x) ''CONSTRAINT'' (con_OwningObject x))"

definition Constraint_GetUniqueID :: "Constraint \<Rightarrow> UniqueID" where
  "Constraint_GetUniqueID x = mk_id PG_CONSTRAINT_OID (con_Oid x)"

definition Constraint_object :: "Constraint \<Rightarrow> toc_object" where
  "Constraint_object x = mk_object (Constraint_GetMetadataEntry x) (Constraint_FQN x)"

record AccessMethod =
  am_Oid :: "32 word"
  am_Name :: string
  am_Handler :: string
  am_Type :: string

definition AccessMethod_FQN :: "AccessMethod \<Rightarrow> string" where
  "AccessMethod_FQN x = am_Name x"

definition AccessMethod_GetMetadataEntry :: "AccessMethod \<Rightarrow> string \<times> MetadataEntry" where
  "AccessMethod_GetMetadataEntry x = (''predata'', mk_entry [] (am_Name x) ''ACCESS METHOD'' [])"

definition AccessMethod_GetUniqueID :: "AccessMethod \<Rightarrow> UniqueID" where
  "AccessMethod_GetUniqueID x = mk_id PG_TYPE_OID (am_Oid x)"

definition AccessMethod_object :: "AccessMethod \<Rightarrow> toc_object" where
  "AccessMethod_object x = mk_object (AccessMethod_GetMetadataEntry x) (AccessMethod_FQN x)"

section \<open>Types\<close>

definition print_shell :: "toc_object \<Rightarrow> metafile \<Rightarrow> metafile res" where
  "print_shell obj = emit (obj_section obj) (obj_entry obj) (''CREATE TYPE '' @ obj_FQN obj @ '';'' @ NL)"

definition PrintCreateShellTypeStatements :: "ShellType list \<Rightarrow> BaseType list \<Rightarrow> RangeType list \<Rightarrow> metafile \<Rightarrow> metafile res" where
  "PrintCreateShellTypeStatements shells bases ranges st =
     rbind (loose BR st) (for_each print_shell (map ShellType_object shells @ map BaseType_object bases @ map RangeType_object ranges))"

definition domain_text :: "Domain \<Rightarrow> Constraint list \<Rightarrow> string" where
  "domain_text d cs =
     NL @ ''CREATE DOMAIN '' @ Domain_FQN d @ '' AS '' @ dom_BaseType d @
     text_if (dom_DefaultVal d \<noteq> []) ('' DEFAULT '' @ dom_DefaultVal d) @
     text_if (dom_Collation d \<noteq> []) ('' COLLATE '' @ dom_Collation d) @
     text_if (dom_NotNull d) '' NOT NULL'' @
     concat (map (\<lambda>c. NT @ ''CONSTRAINT '' @ con_Name c @ '' '' @ ns_String (con_Def c)) cs) @ '';'' @ NL"

definition PrintCreateDomainStatement :: "print_env \<Rightarrow> Domain \<Rightarrow> ObjectMetadata \<Rightarrow> Constraint list \<Rightarrow> metafile \<Rightarrow> metafile res" where
  "PrintCreateDomainStatement env d metadata cs = print_object env (Domain_object d) (domain_text d cs) metadata []"

definition alignment_clause :: "string \<Rightarrow> string" where
  "alignment_clause a = (if a = ''d'' then CNT @ ''ALIGNMENT = double'' else if a = ''i'' then CNT @ ''ALIGNMENT = int4''
     else if a = ''s'' then CNT @ ''ALIGNMENT = int2'' else [])"

definition storage_clause :: "string \<Rightarrow> string" where
  "storage_clause a = (if a = ''e'' then CNT @ ''STORAGE = external'' else if a = ''m'' then CNT @ ''STORAGE = main''
     else if a = ''x'' then CNT @ ''STORAGE = extended'' else [])"

definition option_clause :: "string \<Rightarrow> string \<Rightarrow> string" where
  "option_clause word v = text_if (v \<noteq> []) (CNT @ word @ '' = '' @ v)"

definition base_text :: "bool \<Rightarrow> BaseType \<Rightarrow> string" where
  "base_text at5 b =
     BR @ ''CREATE TYPE '' @ BaseType_FQN b @ '' ('' @ NL @
     TAB @ ''INPUT = '' @ bt_Input b @ CNT @ ''OUTPUT = '' @ bt_Output b @
     option_clause ''RECEIVE'' (bt_Receive b) @ option_clause ''SEND'' (bt_Send b) @
     text_if at5 (option_clause ''TYPMOD_IN'' (bt_ModIn b) @ option_clause ''TYPMOD_OUT'' (bt_ModOut b)) @
     text_if (bt_InternalLength b > 0) (CNT @ ''INTERNALLENGTH = '' @ Itoa (bt_InternalLength b)) @
     text_if (bt_IsPassedByValue b) (CNT @ ''PASSEDBYVALUE'') @
     alignment_clause (bt_Alignment b) @ storage_clause (bt_Storage b) @
     text_if (bt_DefaultVal b \<noteq> []) (CNT @ ''DEFAULT = '' @ in_quotes (bt_DefaultVal b)) @
     option_clause ''ELEMENT'' (bt_Element b) @
     text_if (bt_Delimiter b \<noteq> []) (CNT @ ''DELIMITER = '' @ in_quotes (bt_Delimiter b)) @
     text_if (bt_Category b \<noteq> ''U'') (CNT @ ''CATEGORY = '' @ in_quotes (bt_Category b)) @
     text_if (bt_Preferred b) (CNT @ ''PREFERRED = true'') @
     text_if (bt_Collatable b) (CNT @ ''COLLATABLE = true'') @ NL @ '');'' @ NL @
     text_if (bt_StorageOptions b \<noteq> [])
       (NL @ ''ALTER TYPE '' @ BaseType_FQN b @ NT @ ''SET DEFAULT ENCODING ('' @ bt_StorageOptions b @ '');'')"

definition PrintCreateBaseTypeStatement :: "print_env \<Rightarrow> BaseType \<Rightarrow> ObjectMetadata \<Rightarrow> metafile \<Rightarrow> metafile res" where
  "PrintCreateBaseTypeStatement env b metadata st =
     rbind (src_at_least env ''5'') (\<lambda>at5. print_object env (BaseType_object b) (base_text at5 b) metadata [] st)"

definition attribute_text :: "Attribute \<Rightarrow> string" where
  "attribute_text a = TAB @ at_Name a @ '' '' @ at_Type a @ text_if (at_Collation a \<noteq> []) ('' COLLATE '' @ at_Collation a)"

definition composite_text :: "CompositeType \<Rightarrow> string" where
  "composite_text c =
     BR @ ''CREATE TYPE '' @ CompositeType_FQN c @ '' AS ('' @ NL @ Join (map attribute_text (ct_Attributes c)) ('','' @ NL) @ NL @ '');''"

definition attribute_comments :: "CompositeType \<Rightarrow> string list" where
  "attribute_comments c = concat (map (\<lambda>a. item_if (at_Comment a \<noteq> [])
     (''COMMENT ON COLUMN '' @ CompositeType_FQN c @ ''.'' @ at_Name a @ '' IS '' @ at_Comment a @ '';'')) (ct_Attributes c))"

definition printPostCreateCompositeTypeStatement :: "print_env \<Rightarrow> CompositeType \<Rightarrow> ObjectMetadata \<Rightarrow> metafile \<Rightarrow> metafile res" where
  "printPostCreateCompositeTypeStatement env c metadata st =
     rbind (PrintObjectMetadata env metadata (CompositeType_object c) [] st)
       (PrintStatements (obj_section (CompositeType_object c)) (obj_entry (CompositeType_object c)) (attribute_comments c))"

definition PrintCreateCompositeTypeStatement :: "print_env \<Rightarrow> CompositeType \<Rightarrow> ObjectMetadata \<Rightarrow> metafile \<Rightarrow> metafile res" where
  "PrintCreateCompositeTypeStatement env c metadata st =
     rbind (emit (obj_section (CompositeType_object c)) (obj_entry (CompositeType_object c)) (composite_text c) st)
       (printPostCreateCompositeTypeStatement env c metadata)"

definition enum_text :: "EnumType \<Rightarrow> string" where
  "enum_text e = BR @ ''CREATE TYPE '' @ EnumType_FQN e @ '' AS ENUM ('' @ NT @ en_EnumLabels e @ NL @ '');'' @ NL"

definition print_enum :: "print_env \<Rightarrow> MetadataMap \<Rightarrow> EnumType \<Rightarrow> metafile \<Rightarrow> metafile res" where
  "print_enum env m e = print_object env (EnumType_object e) (enum_text e) (metadata_for m (EnumType_GetUniqueID e)) []"

definition PrintCreateEnumTypeStatements :: "print_env \<Rightarrow> EnumType list \<Rightarrow> MetadataMap \<Rightarrow> metafile \<Rightarrow> metafile res" where
  "PrintCreateEnumTypeStatements env es m = for_each (print_enum env m) es"

definition range_text :: "RangeType \<Rightarrow> string" where
  "range_text r =
     BR @ ''CREATE TYPE '' @ RangeType_FQN r @ '' AS RANGE ('' @ NT @ ''SUBTYPE = '' @ rt_SubType r @
     option_clause ''SUBTYPE_OPCLASS'' (rt_SubTypeOpClass r) @ option_clause ''COLLATION'' (rt_Collation r) @
     option_clause ''CANONICAL'' (rt_Canonical r) @ option_clause ''SUBTYPE_DIFF'' (rt_SubTypeDiff r) @ NL @ '');'' @ NL"

definition PrintCreateRangeTypeStatement :: "print_env \<Rightarrow> RangeType \<Rightarrow> ObjectMetadata \<Rightarrow> metafile \<Rightarrow> metafile res" where
  "PrintCreateRangeTypeStatement env r metadata = print_object env (RangeType_object r) (range_text r) metadata []"

definition provider_option :: "string \<Rightarrow> string res" where
  "provider_option p =
     (if p = [] then Inr []
      else rbind (if p = ''c'' then Inr ''libc'' else if p = ''i'' then Inr ''icu'' else if p = ''d'' then Inr ''default''
        else Inl (Fatal ''Unexpected collation provider'')) (\<lambda>w. Inr ('', PROVIDER = '' @ in_quotes w)))"

definition collation_text :: "Collation \<Rightarrow> string res" where
  "collation_text c =
     rbind (provider_option (co_Provider c)) (\<lambda>prov. Inr (
       NL @ ''CREATE COLLATION '' @ Collation_FQN c @ '' (LC_COLLATE = '' @ in_quotes (co_Collate c) @ '', LC_CTYPE = '' @ in_quotes (co_Ctype c) @
       prov @ text_if (co_IsDeterministic c = ''f'') ('', DETERMINISTIC = '' @ in_quotes ''false'') @ '');''))"

definition print_collation :: "print_env \<Rightarrow> MetadataMap \<Rightarrow> Collation \<Rightarrow> metafile \<Rightarrow> metafile res" where
  "print_collation env m c st =
     rbind (collation_text c) (\<lambda>t. print_object env (Collation_object c) t (metadata_for m (Collation_GetUniqueID c)) [] st)"

definition PrintCreateCollationStatements :: "print_env \<Rightarrow> Collation list \<Rightarrow> MetadataMap \<Rightarrow> metafile \<Rightarrow> metafile res" where
  "PrintCreateCollationStatements env cs m = for_each (print_collation env m) cs"

section \<open>Constraints, schemas and access methods\<close>

definition constraint_text :: "Constraint \<Rightarrow> string" where
  "constraint_text c =
     (let objStr = (if con_IsPartitionParent c \<or> con_ConType c = ''c'' \<and> con_ConIsLocal c then ''TABLE'' else ''TABLE ONLY'')
      in BR @ ''ALTER '' @ objStr @ '' '' @ con_OwningObject c @ '' ADD CONSTRAINT '' @ con_Name c @ '' '' @ ns_String (con_Def c) @ '';'' @ NL)"

definition PrintConstraintStatement :: "print_env \<Rightarrow> Constraint \<Rightarrow> ObjectMetadata \<Rightarrow> metafile \<Rightarrow> metafile res" where
  "PrintConstraintStatement env c metadata = print_object env (Constraint_object c) (constraint_text c) metadata (con_OwningObject c)"

text \<open>The schema \<open>public\<close> exists already; its entry holds an empty line.\<close>

definition schema_text :: "Schema \<Rightarrow> string" where
  "schema_text s = NL @ text_if (sch_Name s \<noteq> ''public'') (NL @ ''CREATE SCHEMA '' @ sch_Name s @ '';'')"

definition print_schema :: "print_env \<Rightarrow> MetadataMap \<Rightarrow> Schema \<Rightarrow> metafile \<Rightarrow> metafile res" where
  "print_schema env m s = print_object env (Schema_object s) (schema_text s) (metadata_for m (Schema_GetUniqueID s)) []"

definition PrintCreateSchemaStatements :: "print_env \<Rightarrow> Schema list \<Rightarrow> MetadataMap \<Rightarrow> metafile \<Rightarrow> metafile res" where
  "PrintCreateSchemaStatements env ss m = for_each (print_schema env m) ss"

text \<open>The pattern \<open>UNIQUE \(.*\<close>, found anywhere.\<close>

definition isUniqueConstraint :: "string \<Rightarrow> bool" where
  "isUniqueConstraint d = Contains d ''UNIQUE (''"

definition access_method_text :: "AccessMethod \<Rightarrow> string res" where
  "access_method_text a =
     rbind (if am_Type a = ''t'' then Inr ''TABLE'' else if am_Type a = ''i'' then Inr ''INDEX''
        else Inl (Fatal ''Invalid access method type'')) (\<lambda>ty.
       Inr (BR @ ''CREATE ACCESS METHOD '' @ am_Name a @ '' TYPE '' @ ty @ '' HANDLER '' @ am_Handler a @ '';''))"

definition print_access_method :: "print_env \<Rightarrow> MetadataMap \<Rightarrow> AccessMethod \<Rightarrow> metafile \<Rightarrow> metafile res" where
  "print_access_method env m a st =
     rbind (access_method_text a) (\<lambda>t. print_object env (AccessMethod_object a) t (metadata_for m (AccessMethod_GetUniqueID a)) [] st)"

definition PrintAccessMethodStatements :: "print_env \<Rightarrow> AccessMethod list \<Rightarrow> MetadataMap \<Rightarrow> metafile \<Rightarrow> metafile res" where
  "PrintAccessMethodStatements env as m = for_each (print_access_method env m) as"

section \<open>What is printed\<close>

lemma prints_domain [printing]: "prints (PrintCreateDomainStatement env d md cs) (creates (Domain_object d))"
  unfolding PrintCreateDomainStatement_def by (rule printing)

lemma prints_base [printing]: "prints (PrintCreateBaseTypeStatement env b md) (creates (BaseType_object b))"
  unfolding PrintCreateBaseTypeStatement_def[abs_def] by (intro prints_compute printing)

lemma prints_range [printing]: "prints (PrintCreateRangeTypeStatement env r md) (creates (RangeType_object r))"
  unfolding PrintCreateRangeTypeStatement_def by (rule printing)

lemma prints_constraint [printing]: "prints (PrintConstraintStatement env c md) (creates (Constraint_object c))"
  unfolding PrintConstraintStatement_def by (rule printing)

lemma prints_composite [printing]: "prints (PrintCreateCompositeTypeStatement env c md) (creates (CompositeType_object c))"
proof -
  let ?o = "CompositeType_object c"
  have "prints (printPostCreateCompositeTypeStatement env c md) (list_all (own ?o))"
    unfolding printPostCreateCompositeTypeStatement_def[abs_def]
    by (rule prints_then[OF prints_object_metadata prints_statements]) simp
  then show ?thesis
    unfolding PrintCreateCompositeTypeStatement_def[abs_def]
    by (rule prints_then[OF prints_emit_eq]) (auto simp: creates_def created_def)
qed

interpretation enum_printer: printer "print_enum env m" EnumType_object
  by (rule printer_created) (simp add: print_enum_def printing)

interpretation collation_printer: printer "print_collation env m" Collation_object
  by (rule printer_created, unfold print_collation_def[abs_def]) (intro prints_compute printing)

interpretation schema_printer: printer "print_schema env m" Schema_object
  by (rule printer_created) (simp add: print_schema_def printing)

interpretation access_method_printer: printer "print_access_method env m" AccessMethod_object
  by (rule printer_created, unfold print_access_method_def[abs_def]) (intro prints_compute printing)

interpretation shell_printer: printer print_shell id
  by (rule printer_created, unfold print_shell_def[abs_def] id_apply)
    (rule prints_emit, auto simp: creates_def created_def)

end
