(* ===== verification/PrintOperators.thy ===== *)
theory PrintOperators
  imports Printing
begin

text \<open>
  Operators, operator families and classes, \<open>src/meta/builtin/predata_operators.go\<close>, and the objects of text
  search, \<open>predata_textsearch.go\<close>, with their structs and methods of \<open>queries_operators.go\<close> and
  \<open>queries_textsearch.go\<close>.
\<close>

section \<open>Objects\<close>

record Operator =
  op_Oid :: "32 word"
  op_Schema :: string
  op_Name :: string
  op_Procedure :: string
  op_LeftArgType :: string
  op_RightArgType :: string
  op_CommutatorOp :: string
  op_NegatorOp :: string
  op_RestrictFunction :: string
  op_JoinFunction :: string
  op_CanHash :: bool
  op_CanMerge :: bool

definition Operator_FQN :: "Operator \<Rightarrow> string" where
  "Operator_FQN x = (let leftArg = (if op_LeftArgType x \<noteq> ''-'' then op_LeftArgType x else ''NONE'');
       rightArg = (if op_RightArgType x \<noteq> ''-'' then op_RightArgType x else ''NONE'')
     in op_Schema x @ ''.'' @ op_Name x @ '' ('' @ leftArg @ '', '' @ rightArg @ '')'')"

definition Operator_GetMetadataEntry :: "Operator \<Rightarrow> string \<times> MetadataEntry" where
  "Operator_GetMetadataEntry x = (''predata'', mk_entry (op_Schema x) (op_Name x) ''OPERATOR'' [])"

definition Operator_GetUniqueID :: "Operator \<Rightarrow> UniqueID" where
  "Operator_GetUniqueID x = mk_id PG_OPERATOR_OID (op_Oid x)"

definition Operator_object :: "Operator \<Rightarrow> toc_object" where
  "Operator_object x = mk_object (Operator_GetMetadataEntry x) (Operator_FQN x)"

record OperatorFamily =
  opf_Oid :: "32 word"
  opf_Schema :: string
  opf_Name :: string
  opf_IndexMethod :: string

definition OperatorFamily_FQN :: "OperatorFamily \<Rightarrow> string" where
  "OperatorFamily_FQN x = fqn (opf_Schema x) (opf_Name x) @ '' USING '' @ opf_IndexMethod x"

definition OperatorFamily_GetMetadataEntry :: "OperatorFamily \<Rightarrow> string \<times> MetadataEntry" where
  "OperatorFamily_GetMetadataEntry x = (''predata'', mk_entry (opf_Schema x) (opf_Name x) ''OPERATOR FAMILY'' [])"

definition OperatorFamily_GetUniqueID :: "OperatorFamily \<Rightarrow> UniqueID" where
  "OperatorFamily_GetUniqueID x = mk_id PG_OPFAMILY_OID (opf_Oid x)"

definition OperatorFamily_object :: "OperatorFamily \<Rightarrow> toc_object" where
  "OperatorFamily_object x = mk_object (OperatorFamily_GetMetadataEntry x) (OperatorFamily_FQN x)"

record OperatorClassOperator =
  oco_ClassOid :: "32 word"
  oco_StrategyNumber :: int
  oco_Operator :: string
  oco_Recheck :: bool
  oco_OrderByFamily :: string

record OperatorClassFunction =
  ocf_ClassOid :: "32 word"
  ocf_SupportNumber :: int
  ocf_FunctionName :: string
  ocf_LeftType :: string
  ocf_RightType :: string

record OperatorClass =
  opc_Oid :: "32 word"
  opc_Schema :: string
  opc_Name :: string
  opc_FamilySchema :: string
  opc_FamilyName :: string
  opc_IndexMethod :: string
  opc_Type :: string
  opc_Default :: bool
  opc_StorageType :: string
  opc_Operators :: "OperatorClassOperator list"
  opc_Functions :: "OperatorClassFunction list"

definition OperatorClass_FQN :: "OperatorClass \<Rightarrow> string" where
  "OperatorClass_FQN x = fqn (opc_Schema x) (opc_Name x) @ '' USING '' @ opc_IndexMethod x"

definition OperatorClass_GetMetadataEntry :: "OperatorClass \<Rightarrow> string \<times> MetadataEntry" where
  "OperatorClass_GetMetadataEntry x = (''predata'', mk_entry (opc_Schema x) (opc_Name x) ''OPERATOR CLASS'' [])"

definition OperatorClass_GetUniqueID :: "OperatorClass \<Rightarrow> UniqueID" where
  "OperatorClass_GetUniqueID x = mk_id PG_OPCLASS_OID (opc_Oid x)"

definition OperatorClass_object :: "OperatorClass \<Rightarrow> toc_object" where
  "OperatorClass_object x = mk_object (OperatorClass_GetMetadataEntry x) (OperatorClass_FQN x)"

record TextSearchParser =
  tsp_Oid :: "32 word"
  tsp_Schema :: string
  tsp_Name :: string
  tsp_StartFunc :: string
  tsp_TokenFunc :: string
  tsp_EndFunc :: string
  tsp_LexTypesFunc :: string
  tsp_HeadlineFunc :: string

definition TextSearchParser_FQN :: "TextSearchParser \<Rightarrow> string" where
  "TextSearchParser_FQN x = fqn (tsp_Schema x) (tsp_Name x)"

definition TextSearchParser_GetMetadataEntry :: "TextSearchParser \<Rightarrow> string \<times> MetadataEntry" where
  "TextSearchParser_GetMetadataEntry x = (''predata'', mk_entry (tsp_Schema x) (tsp_Name x) ''TEXT SEARCH PARSER'' [])"

definition TextSearchParser_GetUniqueID :: "TextSearchParser \<Rightarrow> UniqueID" where
  "TextSearchParser_GetUniqueID x = mk_id PG_TS_PARSER_OID (tsp_Oid x)"

definition TextSearchParser_object :: "TextSearchParser \<Rightarrow> toc_object" where
  "TextSearchParser_object x = mk_object (TextSearchParser_GetMetadataEntry x) (TextSearchParser_FQN x)"

record TextSearchTemplate =
  tst_Oid :: "32 word"
  tst_Schema :: string
  tst_Name :: string
  tst_InitFunc :: string
  tst_LexizeFunc :: string

definition TextSearchTemplate_FQN :: "TextSearchTemplate \<Rightarrow> string" where
  "TextSearchTemplate_FQN x = fqn (tst_Schema x) (tst_Name x)"

definition TextSearchTemplate_GetMetadataEntry :: "TextSearchTemplate \<Rightarrow> string \<times> MetadataEntry" where
  "TextSearchTemplate_GetMetadataEntry x = (''predata'', mk_entry (tst_Schema x) (tst_Name x) ''TEXT SEARCH TEMPLATE'' [])"

definition TextSearchTemplate_GetUniqueID :: "TextSearchTemplate \<Rightarrow> UniqueID" where
  "TextSearchTemplate_GetUniqueID x = mk_id PG_TS_TEMPLATE_OID (tst_Oid x)"

definition TextSearchTemplate_object :: "TextSearchTemplate \<Rightarrow> toc_object" where
  "TextSearchTemplate_object x = mk_object (TextSearchTemplate_GetMetadataEntry x) (TextSearchTemplate_FQN x)"

record TextSearchDictionary =
  tsd_Oid :: "32 word"
  tsd_Schema :: string
  tsd_Name :: string
  tsd_Template :: string
  tsd_InitOption :: string

definition TextSearchDictionary_FQN :: "TextSearchDictionary \<Rightarrow> string" where
  "TextSearchDictionary_FQN x = fqn (tsd_Schema x) (tsd_Name x)"

definition TextSearchDictionary_GetMetadataEntry :: "TextSearchDictionary \<Rightarrow> string \<times> MetadataEntry" where
  "TextSearchDictionary_GetMetadataEntry x = (''predata'', mk_entry (tsd_Schema x) (tsd_Name x) ''TEXT SEARCH DICTIONARY'' [])"

definition TextSearchDictionary_GetUniqueID :: "TextSearchDictionary \<Rightarrow> UniqueID" where
  "TextSearchDictionary_GetUniqueID x = mk_id PG_TS_DICT_OID (tsd_Oid x)"

definition TextSearchDictionary_object :: "TextSearchDictionary \<Rightarrow> toc_object" where
  "TextSearchDictionary_object x = mk_object (TextSearchDictionary_GetMetadataEntry x) (TextSearchDictionary_FQN x)"

record TextSearchConfiguration =
  tsc_Oid :: "32 word"
  tsc_Schema :: string
  tsc_Name :: string
  tsc_Parser :: string
  tsc_TokenToDicts :: "(string, string list) gomap"

definition TextSearchConfiguration_FQN :: "TextSearchConfiguration \<Rightarrow> string" where
  "TextSearchConfiguration_FQN x = fqn (tsc_Schema x) (tsc_Name x)"

definition TextSearchConfiguration_GetMetadataEntry :: "TextSearchConfiguration \<Rightarrow> string \<times> MetadataEntry" where
  "TextSearchConfiguration_GetMetadataEntry x = (''predata'', mk_entry (tsc_Schema x) (tsc_Name x) ''TEXT SEARCH CONFIGURATION'' [])"

definition TextSearchConfiguration_GetUniqueID :: "TextSearchConfiguration \<Rightarrow> UniqueID" where
  "TextSearchConfiguration_GetUniqueID x = mk_id PG_TS_CONFIG_OID (tsc_Oid x)"

definition TextSearchConfiguration_object :: "TextSearchConfiguration \<Rightarrow> toc_object" where
  "TextSearchConfiguration_object x = mk_object (TextSearchConfiguration_GetMetadataEntry x) (TextSearchConfiguration_FQN x)"

section \<open>Operators\<close>

definition operator_fields :: "Operator \<Rightarrow> string list" where
  "operator_fields p =
     item_if (op_LeftArgType p \<noteq> ''-'') (''LEFTARG = '' @ op_LeftArgType p) @
     item_if (op_RightArgType p \<noteq> ''-'') (''RIGHTARG = '' @ op_RightArgType p) @
     item_if (op_CommutatorOp p \<noteq> ''0'') (''COMMUTATOR = OPERATOR('' @ op_CommutatorOp p @ '')'') @
     item_if (op_NegatorOp p \<noteq> ''0'') (''NEGATOR = OPERATOR('' @ op_NegatorOp p @ '')'') @
     item_if (op_RestrictFunction p \<noteq> ''-'') (''RESTRICT = '' @ op_RestrictFunction p) @
     item_if (op_JoinFunction p \<noteq> ''-'') (''JOIN = '' @ op_JoinFunction p) @
     item_if (op_CanHash p) ''HASHES'' @
     item_if (op_CanMerge p) ''MERGES''"

definition operator_text :: "bool \<Rightarrow> Operator \<Rightarrow> string" where
  "operator_text at7 p =
     BR @ ''CREATE OPERATOR '' @ op_Schema p @ ''.'' @ op_Name p @ '' ('' @ NT @
     (if at7 then ''FUNCTION'' else ''PROCEDURE'') @ '' = '' @ op_Procedure p @ CNT @
     Join (operator_fields p) CNT @ NL @ '');''"

definition PrintCreateOperatorStatement :: "print_env \<Rightarrow> Operator \<Rightarrow> ObjectMetadata \<Rightarrow> metafile \<Rightarrow> metafile res" where
  "PrintCreateOperatorStatement env p metadata st =
     rbind (src_at_least env ''7'') (\<lambda>at7. print_object env (Operator_object p) (operator_text at7 p) metadata [] st)"

definition family_text :: "OperatorFamily \<Rightarrow> string" where
  "family_text f = BR @ ''CREATE OPERATOR FAMILY '' @ OperatorFamily_FQN f @ '';''"

definition print_family :: "print_env \<Rightarrow> MetadataMap \<Rightarrow> OperatorFamily \<Rightarrow> metafile \<Rightarrow> metafile res" where
  "print_family env m f = print_object env (OperatorFamily_object f) (family_text f) (metadata_for m (OperatorFamily_GetUniqueID f)) []"

definition PrintCreateOperatorFamilyStatements :: "print_env \<Rightarrow> OperatorFamily list \<Rightarrow> MetadataMap \<Rightarrow> metafile \<Rightarrow> metafile res" where
  "PrintCreateOperatorFamilyStatements env fs m = for_each (print_family env m) fs"

definition class_operator :: "OperatorClassOperator \<Rightarrow> string" where
  "class_operator p = ''OPERATOR '' @ Itoa (oco_StrategyNumber p) @ '' '' @ oco_Operator p @ text_if (oco_Recheck p) '' RECHECK'' @
     text_if (oco_OrderByFamily p \<noteq> []) ('' FOR ORDER BY '' @ oco_OrderByFamily p)"

definition class_function :: "OperatorClassFunction \<Rightarrow> string" where
  "class_function f = ''FUNCTION '' @ Itoa (ocf_SupportNumber f) @ '' '' @
     text_if (ocf_LeftType f \<noteq> [] \<and> ocf_RightType f \<noteq> []) (''('' @ ocf_LeftType f @ '', '' @ ocf_RightType f @ '') '') @ ocf_FunctionName f"

definition class_clauses :: "OperatorClass \<Rightarrow> string list" where
  "class_clauses c =
     (let members = map class_operator (opc_Operators c) @ map class_function (opc_Functions c)
      in members @ item_if (opc_StorageType c \<noteq> ''-'' \<or> members = [])
           (''STORAGE '' @ (if opc_StorageType c = ''-'' then opc_Type c else opc_StorageType c)))"

definition class_text :: "OperatorClass \<Rightarrow> string" where
  "class_text c =
     BR @ ''CREATE OPERATOR CLASS '' @ opc_Schema c @ ''.'' @ opc_Name c @ NT @
     text_if (opc_Default c) ''DEFAULT '' @ ''FOR TYPE '' @ opc_Type c @ '' USING '' @ opc_IndexMethod c @
     text_if (opc_FamilyName c \<noteq> [] \<and> opc_FamilyName c \<noteq> opc_Name c) ('' FAMILY '' @ fqn (opc_FamilySchema c) (opc_FamilyName c)) @
     '' AS'' @ NT @ Join (class_clauses c) CNT @ '';''"

definition PrintCreateOperatorClassStatement :: "print_env \<Rightarrow> OperatorClass \<Rightarrow> ObjectMetadata \<Rightarrow> metafile \<Rightarrow> metafile res" where
  "PrintCreateOperatorClassStatement env c metadata = print_object env (OperatorClass_object c) (class_text c) metadata []"

section \<open>Text search\<close>

definition parser_text :: "TextSearchParser \<Rightarrow> string" where
  "parser_text p =
     BR @ ''CREATE TEXT SEARCH PARSER '' @ TextSearchParser_FQN p @ '' ('' @
     NT @ ''START = '' @ tsp_StartFunc p @ '','' @ NT @ ''GETTOKEN = '' @ tsp_TokenFunc p @ '','' @
     NT @ ''END = '' @ tsp_EndFunc p @ '','' @ NT @ ''LEXTYPES = '' @ tsp_LexTypesFunc p @
     text_if (tsp_HeadlineFunc p \<noteq> []) (CNT @ ''HEADLINE = '' @ tsp_HeadlineFunc p) @ NL @ '');''"

definition PrintCreateTextSearchParserStatement :: "print_env \<Rightarrow> TextSearchParser \<Rightarrow> ObjectMetadata \<Rightarrow> metafile \<Rightarrow> metafile res" where
  "PrintCreateTextSearchParserStatement env p metadata = print_object env (TextSearchParser_object p) (parser_text p) metadata []"

definition template_text :: "TextSearchTemplate \<Rightarrow> string" where
  "template_text t =
     BR @ ''CREATE TEXT SEARCH TEMPLATE '' @ TextSearchTemplate_FQN t @ '' ('' @
     text_if (tst_InitFunc t \<noteq> []) (NT @ ''INIT = '' @ tst_InitFunc t @ '','') @ NT @ ''LEXIZE = '' @ tst_LexizeFunc t @ NL @ '');''"

definition PrintCreateTextSearchTemplateStatement :: "print_env \<Rightarrow> TextSearchTemplate \<Rightarrow> ObjectMetadata \<Rightarrow> metafile \<Rightarrow> metafile res" where
  "PrintCreateTextSearchTemplateStatement env t metadata = print_object env (TextSearchTemplate_object t) (template_text t) metadata []"

definition dictionary_text :: "TextSearchDictionary \<Rightarrow> string" where
  "dictionary_text d =
     BR @ ''CREATE TEXT SEARCH DICTIONARY '' @ TextSearchDictionary_FQN d @ '' ('' @ NT @ ''TEMPLATE = '' @ tsd_Template d @
     text_if (tsd_InitOption d \<noteq> []) (CNT @ tsd_InitOption d) @ NL @ '');''"

definition PrintCreateTextSearchDictionaryStatement :: "print_env \<Rightarrow> TextSearchDictionary \<Rightarrow> ObjectMetadata \<Rightarrow> metafile \<Rightarrow> metafile res" where
  "PrintCreateTextSearchDictionaryStatement env d metadata = print_object env (TextSearchDictionary_object d) (dictionary_text d) metadata []"

definition configuration_text :: "TextSearchConfiguration \<Rightarrow> string" where
  "configuration_text c =
     BR @ ''CREATE TEXT SEARCH CONFIGURATION '' @ TextSearchConfiguration_FQN c @ '' ('' @ NT @ ''PARSER = '' @ tsc_Parser c @ NL @ '');''"

definition token_text :: "TextSearchConfiguration \<Rightarrow> string \<Rightarrow> string" where
  "token_text c token =
     BR @ ''ALTER TEXT SEARCH CONFIGURATION '' @ TextSearchConfiguration_FQN c @
     NT @ ''ADD MAPPING FOR '' @ [DQ] @ token @ [DQ] @ '' WITH '' @ Join (go_get0 [] (tsc_TokenToDicts c) token) '', '' @ '';''"

text \<open>The tokens are sorted, so the order in which Go visits the map does not matter.\<close>

definition PrintCreateTextSearchConfigurationStatement :: "print_env \<Rightarrow> TextSearchConfiguration \<Rightarrow> ObjectMetadata \<Rightarrow> metafile \<Rightarrow> metafile res" where
  "PrintCreateTextSearchConfigurationStatement env c metadata st =
     (let obj = TextSearchConfiguration_object c
      in rbind (emit (obj_section obj) (obj_entry obj) (configuration_text c) st) (\<lambda>st.
         rbind (for_each (\<lambda>token. emit (obj_section obj) (obj_entry obj) (token_text c token)) (sort (go_keys (tsc_TokenToDicts c))) st)
           (PrintObjectMetadata env metadata obj [])))"

section \<open>What is printed\<close>

lemma prints_operator [printing]: "prints (PrintCreateOperatorStatement env p md) (creates (Operator_object p))"
  unfolding PrintCreateOperatorStatement_def[abs_def] by (intro prints_compute printing)

lemma prints_class [printing]: "prints (PrintCreateOperatorClassStatement env c md) (creates (OperatorClass_object c))"
  unfolding PrintCreateOperatorClassStatement_def by (rule printing)

lemma prints_parser [printing]: "prints (PrintCreateTextSearchParserStatement env p md) (creates (TextSearchParser_object p))"
  unfolding PrintCreateTextSearchParserStatement_def by (rule printing)

lemma prints_template [printing]: "prints (PrintCreateTextSearchTemplateStatement env t md) (creates (TextSearchTemplate_object t))"
  unfolding PrintCreateTextSearchTemplateStatement_def by (rule printing)

lemma prints_dictionary [printing]: "prints (PrintCreateTextSearchDictionaryStatement env d md) (creates (TextSearchDictionary_object d))"
  unfolding PrintCreateTextSearchDictionaryStatement_def by (rule printing)

lemma prints_configuration [printing]:
  "prints (PrintCreateTextSearchConfigurationStatement env c md) (creates (TextSearchConfiguration_object c))"
proof -
  let ?o = "TextSearchConfiguration_object c"
  have "prints (for_each (\<lambda>token. emit (obj_section ?o) (obj_entry ?o) (token_text c token)) ts) (list_all (own ?o))" for ts
    by (rule prints_each) (rule prints_emit, simp)
  from prints_then[OF this prints_object_metadata, of _ "list_all (own ?o)"]
  have "prints (\<lambda>st. rbind (for_each (\<lambda>token. emit (obj_section ?o) (obj_entry ?o) (token_text c token)) ts st)
      (PrintObjectMetadata env md ?o [])) (list_all (own ?o))" for ts by simp
  then show ?thesis
    unfolding PrintCreateTextSearchConfigurationStatement_def[abs_def] Let_def
    by (rule prints_then[OF prints_emit_eq]) (auto simp: creates_def created_def)
qed

interpretation family_printer: printer "print_family env m" OperatorFamily_object
  by (rule printer_created) (simp add: print_family_def printing)

text \<open>The clauses of an operator class are never empty, so the statement has no dangling \<open>AS\<close>.\<close>

lemma class_clauses_nonempty: "class_clauses c \<noteq> []"
  by (auto simp: class_clauses_def Let_def item_if_def)

end
