(* ===== verification/PrintFunctions.thy ===== *)
theory PrintFunctions
  imports Printing
begin

text \<open>
  Functions and the objects close to them, \<open>src/meta/builtin/predata_functions.go\<close> with the structs and
  their methods of \<open>queries_functions.go\<close>: functions and procedures, aggregates, casts, extensions,
  procedural languages, transforms, conversions, foreign data wrappers, servers and user mappings.

  A definition is printed piece by piece in the code; here the pieces are one text. The gates on
  the server version are read before the text is built, since a gate that fails ends the process
  wherever it stands.
\<close>

section \<open>Objects\<close>

record Function =
  fn_Oid :: "32 word"
  fn_Schema :: string
  fn_Name :: string
  fn_ReturnsSet :: bool
  fn_FunctionBody :: string
  fn_BinaryPath :: string
  fn_Arguments :: "string option"
  fn_IdentArgs :: "string option"
  fn_ResultType :: "string option"
  fn_Volatility :: string
  fn_IsStrict :: bool
  fn_IsLeakProof :: bool
  fn_IsSecurityDefiner :: bool
  fn_Config :: string
  fn_Cost :: rat
  fn_NumRows :: rat
  fn_DataAccess :: string
  fn_Language :: string
  fn_Kind :: string
  fn_PlannerSupport :: string
  fn_IsWindow :: bool
  fn_ExecLocation :: string
  fn_Parallel :: string
  fn_TransformTypes :: string

definition Function_GetMetadataEntry :: "Function \<Rightarrow> string \<times> MetadataEntry" where
  "Function_GetMetadataEntry f =
     (''predata'', mk_entry (fn_Schema f) (fn_Name f @ ''('' @ ns_String (fn_IdentArgs f) @ '')'') ''FUNCTION'' [])"

definition Function_GetUniqueID :: "Function \<Rightarrow> UniqueID" where
  "Function_GetUniqueID f = mk_id PG_PROC_OID (fn_Oid f)"

definition Function_FQN :: "Function \<Rightarrow> string" where
  "Function_FQN f = fn_Schema f @ ''.'' @ fn_Name f @ ''('' @ ns_String (fn_IdentArgs f) @ '')''"

definition Function_object :: "Function \<Rightarrow> toc_object" where
  "Function_object f = (mk_object (Function_GetMetadataEntry f) (Function_FQN f))\<lparr>obj_Kind := fn_Kind f\<rparr>"

record Aggregate =
  agg_Oid :: "32 word"
  agg_Schema :: string
  agg_Name :: string
  agg_Arguments :: "string option"
  agg_IdentArgs :: "string option"
  agg_TransitionFunction :: "32 word"
  agg_PreliminaryFunction :: "32 word"
  agg_CombineFunction :: "32 word"
  agg_SerialFunction :: "32 word"
  agg_DeserialFunction :: "32 word"
  agg_FinalFunction :: "32 word"
  agg_FinalFuncExtra :: bool
  agg_SortOperator :: string
  agg_SortOperatorSchema :: string
  agg_Hypothetical :: bool
  agg_Kind :: string
  agg_TransitionDataType :: string
  agg_TransitionDataSize :: int
  agg_InitialValue :: string
  agg_InitValIsNull :: bool
  agg_IsOrdered :: bool
  agg_MTransitionFunction :: "32 word"
  agg_MInverseTransitionFunction :: "32 word"
  agg_MTransitionDataType :: string
  agg_MTransitionDataSize :: int
  agg_MFinalFunction :: "32 word"
  agg_MFinalFuncExtra :: bool
  agg_MInitialValue :: string
  agg_MInitValIsNull :: bool
  agg_Finalmodify :: string
  agg_Mfinalmodify :: string
  agg_Parallel :: string

definition agg_ident :: "Aggregate \<Rightarrow> string" where
  "agg_ident a = (if ns_String (agg_IdentArgs a) \<noteq> [] then ns_String (agg_IdentArgs a) else ''*'')"

definition Aggregate_GetMetadataEntry :: "Aggregate \<Rightarrow> string \<times> MetadataEntry" where
  "Aggregate_GetMetadataEntry a =
     (''predata'', mk_entry (agg_Schema a) (agg_Name a @ ''('' @ agg_ident a @ '')'') ''AGGREGATE'' [])"

definition Aggregate_GetUniqueID :: "Aggregate \<Rightarrow> UniqueID" where
  "Aggregate_GetUniqueID a = mk_id PG_AGGREGATE_OID (agg_Oid a)"

definition Aggregate_FQN :: "Aggregate \<Rightarrow> string" where
  "Aggregate_FQN a = agg_Schema a @ ''.'' @ agg_Name a @ ''('' @ agg_ident a @ '')''"

definition Aggregate_object :: "Aggregate \<Rightarrow> toc_object" where
  "Aggregate_object a = mk_object (Aggregate_GetMetadataEntry a) (Aggregate_FQN a)"

record FunctionInfo =
  fi_Oid :: "32 word"
  fi_Name :: string
  fi_Schema :: string
  fi_QualifiedName :: string
  fi_Arguments :: "string option"
  fi_IdentArgs :: "string option"
  fi_IsInternal :: bool

definition FunctionInfo_FQN :: "FunctionInfo \<Rightarrow> string" where
  "FunctionInfo_FQN i = fi_QualifiedName i @ ''('' @ ns_String (fi_IdentArgs i) @ '')''"

definition FunctionInfo_GetMetadataEntry :: "FunctionInfo \<Rightarrow> string \<times> MetadataEntry" where
  "FunctionInfo_GetMetadataEntry i =
     (''predata'', mk_entry (fi_Schema i) (fi_Name i @ ''('' @ ns_String (fi_IdentArgs i) @ '')'') ''FUNCTION'' [])"

type_synonym func_infos = "(32 word, FunctionInfo) gomap"

text \<open>A missing function reads as the zero value, whose names are empty.\<close>

definition no_info :: FunctionInfo where
  "no_info = \<lparr>fi_Oid = 0, fi_Name = [], fi_Schema = [], fi_QualifiedName = [], fi_Arguments = None, fi_IdentArgs = None, fi_IsInternal = False\<rparr>"

definition info_name :: "func_infos \<Rightarrow> 32 word \<Rightarrow> string" where
  "info_name infos oid = fi_QualifiedName (go_get0 no_info infos oid)"

record Cast =
  cast_Oid :: "32 word"
  cast_SourceTypeFQN :: string
  cast_TargetTypeFQN :: string
  cast_FunctionOid :: "32 word"
  cast_FunctionSchema :: string
  cast_FunctionName :: string
  cast_FunctionArgs :: string
  cast_CastContext :: string
  cast_CastMethod :: string

definition Cast_FQN :: "Cast \<Rightarrow> string" where
  "Cast_FQN c = ''('' @ cast_SourceTypeFQN c @ '' AS '' @ cast_TargetTypeFQN c @ '')''"

definition Cast_GetMetadataEntry :: "Cast \<Rightarrow> string \<times> MetadataEntry" where
  "Cast_GetMetadataEntry c =
     (let castStr = ''('' @ cast_SourceTypeFQN c @ '' AS '' @ cast_TargetTypeFQN c @ '')'';
          filterSchema = (if cast_CastMethod c = ''f'' then cast_FunctionSchema c else ''pg_catalog'')
      in (''predata'', mk_entry filterSchema castStr ''CAST'' []))"

definition Cast_GetUniqueID :: "Cast \<Rightarrow> UniqueID" where
  "Cast_GetUniqueID c = mk_id PG_CAST_OID (cast_Oid c)"

definition Cast_object :: "Cast \<Rightarrow> toc_object" where
  "Cast_object c = mk_object (Cast_GetMetadataEntry c) (Cast_FQN c)"

record Extension =
  ex_Oid :: "32 word"
  ex_Name :: string
  ex_Schema :: string

definition Extension_GetMetadataEntry :: "Extension \<Rightarrow> string \<times> MetadataEntry" where
  "Extension_GetMetadataEntry e = (''predata'', mk_entry [] (ex_Name e) ''EXTENSION'' [])"

definition Extension_GetUniqueID :: "Extension \<Rightarrow> UniqueID" where
  "Extension_GetUniqueID e = mk_id PG_EXTENSION_OID (ex_Oid e)"

definition Extension_FQN :: "Extension \<Rightarrow> string" where
  "Extension_FQN e = ex_Name e"

definition Extension_object :: "Extension \<Rightarrow> toc_object" where
  "Extension_object e = mk_object (Extension_GetMetadataEntry e) (Extension_FQN e)"

record ProceduralLanguage =
  pl_Oid :: "32 word"
  pl_Name :: string
  pl_Owner :: string
  pl_IsPl :: bool
  pl_PlTrusted :: bool
  pl_Handler :: "32 word"
  pl_Inline :: "32 word"
  pl_Validator :: "32 word"

definition ProceduralLanguage_GetMetadataEntry :: "ProceduralLanguage \<Rightarrow> string \<times> MetadataEntry" where
  "ProceduralLanguage_GetMetadataEntry l = (''predata'', mk_entry [] (pl_Name l) ''LANGUAGE'' [])"

definition ProceduralLanguage_GetUniqueID :: "ProceduralLanguage \<Rightarrow> UniqueID" where
  "ProceduralLanguage_GetUniqueID l = mk_id PG_LANGUAGE_OID (pl_Oid l)"

definition ProceduralLanguage_FQN :: "ProceduralLanguage \<Rightarrow> string" where
  "ProceduralLanguage_FQN l = pl_Name l"

definition ProceduralLanguage_object :: "ProceduralLanguage \<Rightarrow> toc_object" where
  "ProceduralLanguage_object l = mk_object (ProceduralLanguage_GetMetadataEntry l) (ProceduralLanguage_FQN l)"

record Transform =
  trf_Oid :: "32 word"
  trf_TypeNamespace :: string
  trf_TypeName :: string
  trf_LanguageName :: string
  trf_FromSQLFunc :: "32 word"
  trf_ToSQLFunc :: "32 word"

definition Transform_GetMetadataEntry :: "Transform \<Rightarrow> string \<times> MetadataEntry" where
  "Transform_GetMetadataEntry t = (''predata'', mk_entry [] [] ''TRANSFORM'' [])"

definition Transform_GetUniqueID :: "Transform \<Rightarrow> UniqueID" where
  "Transform_GetUniqueID t = mk_id PG_TRANSFORM_OID (trf_Oid t)"

definition Transform_FQN :: "Transform \<Rightarrow> string" where
  "Transform_FQN t = ''FOR '' @ trf_TypeNamespace t @ ''.'' @ trf_TypeName t @ '' LANGUAGE '' @ trf_LanguageName t"

definition Transform_object :: "Transform \<Rightarrow> toc_object" where
  "Transform_object t = mk_object (Transform_GetMetadataEntry t) (Transform_FQN t)"

record Conversion =
  conv_Oid :: "32 word"
  conv_Schema :: string
  conv_Name :: string
  conv_ForEncoding :: string
  conv_ToEncoding :: string
  conv_ConversionFunction :: string
  conv_IsDefault :: bool

definition Conversion_GetMetadataEntry :: "Conversion \<Rightarrow> string \<times> MetadataEntry" where
  "Conversion_GetMetadataEntry c = (''predata'', mk_entry (conv_Schema c) (conv_Name c) ''CONVERSION'' [])"

definition Conversion_GetUniqueID :: "Conversion \<Rightarrow> UniqueID" where
  "Conversion_GetUniqueID c = mk_id PG_CONVERSION_OID (conv_Oid c)"

definition Conversion_FQN :: "Conversion \<Rightarrow> string" where
  "Conversion_FQN c = fqn (conv_Schema c) (conv_Name c)"

definition Conversion_object :: "Conversion \<Rightarrow> toc_object" where
  "Conversion_object c = mk_object (Conversion_GetMetadataEntry c) (Conversion_FQN c)"

record ForeignDataWrapper =
  fdw_Oid :: "32 word"
  fdw_Name :: string
  fdw_Handler :: "32 word"
  fdw_Validator :: "32 word"
  fdw_Options :: string

definition ForeignDataWrapper_GetMetadataEntry :: "ForeignDataWrapper \<Rightarrow> string \<times> MetadataEntry" where
  "ForeignDataWrapper_GetMetadataEntry w = (''predata'', mk_entry [] (fdw_Name w) ''FOREIGN DATA WRAPPER'' [])"

definition ForeignDataWrapper_GetUniqueID :: "ForeignDataWrapper \<Rightarrow> UniqueID" where
  "ForeignDataWrapper_GetUniqueID w = mk_id PG_FOREIGN_DATA_WRAPPER_OID (fdw_Oid w)"

definition ForeignDataWrapper_FQN :: "ForeignDataWrapper \<Rightarrow> string" where
  "ForeignDataWrapper_FQN w = fdw_Name w"

definition ForeignDataWrapper_object :: "ForeignDataWrapper \<Rightarrow> toc_object" where
  "ForeignDataWrapper_object w = mk_object (ForeignDataWrapper_GetMetadataEntry w) (ForeignDataWrapper_FQN w)"

record ForeignServer =
  srv_Oid :: "32 word"
  srv_Name :: string
  srv_Type :: string
  srv_Version :: string
  srv_ForeignDataWrapper :: string
  srv_Options :: string

definition ForeignServer_GetMetadataEntry :: "ForeignServer \<Rightarrow> string \<times> MetadataEntry" where
  "ForeignServer_GetMetadataEntry s = (''predata'', mk_entry [] (srv_Name s) ''FOREIGN SERVER'' [])"

definition ForeignServer_GetUniqueID :: "ForeignServer \<Rightarrow> UniqueID" where
  "ForeignServer_GetUniqueID s = mk_id PG_FOREIGN_SERVER_OID (srv_Oid s)"

definition ForeignServer_FQN :: "ForeignServer \<Rightarrow> string" where
  "ForeignServer_FQN s = srv_Name s"

definition ForeignServer_object :: "ForeignServer \<Rightarrow> toc_object" where
  "ForeignServer_object s = mk_object (ForeignServer_GetMetadataEntry s) (ForeignServer_FQN s)"

record UserMapping =
  um_Oid :: "32 word"
  um_User :: string
  um_Server :: string
  um_Options :: string

definition UserMapping_FQN :: "UserMapping \<Rightarrow> string" where
  "UserMapping_FQN m = um_User m @ '' ON '' @ um_Server m"

definition UserMapping_GetMetadataEntry :: "UserMapping \<Rightarrow> string \<times> MetadataEntry" where
  "UserMapping_GetMetadataEntry m = (''predata'', mk_entry [] (UserMapping_FQN m) ''USER MAPPING'' [])"

definition UserMapping_GetUniqueID :: "UserMapping \<Rightarrow> UniqueID" where
  "UserMapping_GetUniqueID m = mk_id PG_USER_MAPPING_OID (um_Oid m)"

definition UserMapping_object :: "UserMapping \<Rightarrow> toc_object" where
  "UserMapping_object m = mk_object (UserMapping_GetMetadataEntry m) (UserMapping_FQN m)"

section \<open>Functions\<close>

definition PrintFunctionBodyOrPath :: "Function \<Rightarrow> string" where
  "PrintFunctionBodyOrPath f =
     (if fn_BinaryPath f \<noteq> [] \<and> fn_BinaryPath f \<noteq> ''-''
      then NL @ in_quotes (fn_BinaryPath f) @ '', '' @ in_quotes (fn_FunctionBody f) @ NL
      else NL @ DollarQuoteString (fn_FunctionBody f) @ NL)"

definition data_access :: "string \<Rightarrow> string" where
  "data_access c = (if c = ''c'' then '' CONTAINS SQL'' else if c = ''m'' then '' MODIFIES SQL DATA''
     else if c = ''n'' then '' NO SQL'' else if c = ''r'' then '' READS SQL DATA'' else [])"

definition volatility :: "string \<Rightarrow> string" where
  "volatility c = (if c = ''i'' then '' IMMUTABLE'' else if c = ''s'' then '' STABLE'' else [])"

definition exec_location :: "string \<Rightarrow> string" where
  "exec_location c = (if c = ''m'' then '' EXECUTE ON MASTER'' else if c = ''c'' then '' EXECUTE ON COORDINATOR''
     else if c = ''s'' then '' EXECUTE ON ALL SEGMENTS'' else if c = ''i'' then '' EXECUTE ON INITPLAN'' else [])"

definition default_cost :: "Function \<Rightarrow> bool" where
  "default_cost f \<longleftrightarrow>
     (let isInternalOrC = fn_Language f = ''c'' \<or> fn_Language f = ''internal''
      in \<not> isInternalOrC \<and> fn_Cost f = 100 \<or> isInternalOrC \<and> fn_Cost f = 1 \<or> fn_Cost f = 0)"

definition parallel_clause :: "string \<Rightarrow> string \<Rightarrow> string res" where
  "parallel_clause pre c = (if c = ''u'' then Inr (pre @ ''UNSAFE'') else if c = ''s'' then Inr (pre @ ''SAFE'')
     else if c = ''r'' then Inr (pre @ ''RESTRICTED'') else Inl (Fatal ''unrecognized proparallel value''))"

definition PrintFunctionModifiers :: "print_env \<Rightarrow> bool \<Rightarrow> Function \<Rightarrow> string res" where
  "PrintFunctionModifiers env at7 f =
     rbind (if at7 \<and> fn_Kind f \<noteq> ''p'' then parallel_clause '' PARALLEL '' (fn_Parallel f) else Inr []) (\<lambda>par. Inr (
       data_access (fn_DataAccess f) @ volatility (fn_Volatility f) @ exec_location (fn_ExecLocation f) @
       text_if (fn_IsWindow f \<or> fn_Kind f = ''w'') '' WINDOW'' @
       text_if (fn_IsStrict f) '' STRICT'' @
       text_if (fn_IsLeakProof f) '' LEAKPROOF'' @
       text_if (fn_IsSecurityDefiner f) '' SECURITY DEFINER'' @
       text_if (at7 \<and> fn_TransformTypes f \<noteq> []) (NL @ ''TRANSFORM '' @ fn_TransformTypes f @ NL) @
       text_if (at7 \<and> fn_PlannerSupport f \<noteq> ''-'') (NL @ ''SUPPORT '' @ fn_PlannerSupport f) @
       text_if (\<not> default_cost f) (NL @ ''COST '' @ float_text env (fn_Cost f)) @
       text_if (fn_ReturnsSet f \<and> fn_NumRows f \<noteq> 0 \<and> fn_NumRows f \<noteq> 1000) (NL @ ''ROWS '' @ float_text env (fn_NumRows f)) @
       text_if (fn_Config f \<noteq> []) (NL @ fn_Config f) @ par))"

definition function_text :: "print_env \<Rightarrow> bool \<Rightarrow> Function \<Rightarrow> string res" where
  "function_text env at7 f =
     (let funcFQN = fqn (fn_Schema f) (fn_Name f)
      in rbind (PrintFunctionModifiers env at7 f) (\<lambda>modifiers. Inr (
        (if at7 \<and> fn_Kind f = ''p'' then BR @ ''CREATE PROCEDURE '' @ funcFQN @ ''('' @ ns_String (fn_Arguments f) @ '') AS''
         else BR @ ''CREATE FUNCTION '' @ funcFQN @ ''('' @ ns_String (fn_Arguments f) @ '') RETURNS '' @ ns_String (fn_ResultType f) @ '' AS'') @
        PrintFunctionBodyOrPath f @ ''LANGUAGE '' @ fn_Language f @ modifiers @ '';'' @ NL)))"

definition PrintCreateFunctionStatement :: "print_env \<Rightarrow> Function \<Rightarrow> ObjectMetadata \<Rightarrow> metafile \<Rightarrow> metafile res" where
  "PrintCreateFunctionStatement env f metadata st =
     rbind (src_at_least env ''7'') (\<lambda>at7. rbind (function_text env at7 f) (\<lambda>t.
       print_object env (Function_object f) t metadata [] st))"

section \<open>Aggregates\<close>

definition final_modify :: "string \<Rightarrow> string \<Rightarrow> string res" where
  "final_modify word m = (if m = ''r'' then Inr (CNT @ word @ '' = READ_ONLY'') else if m = ''s'' then Inr (CNT @ word @ '' = SHAREABLE'')
     else if m = ''w'' then Inr (CNT @ word @ '' = READ_WRITE'') else Inl (Fatal ''invalid aggfinalmodify value''))"

text \<open>An unset modify flag is taken for the default; only another value is printed.\<close>

definition modify_clause :: "bool \<Rightarrow> string \<Rightarrow> string \<Rightarrow> string \<Rightarrow> string res" where
  "modify_clause at7 kind word m =
     (let default_modify = (if kind = ''o'' then ''w'' else ''r''); m' = (if m = [] then default_modify else m)
      in if at7 \<and> m' \<noteq> default_modify then final_modify word m' else Inr [])"

definition func_clause :: "func_infos \<Rightarrow> string \<Rightarrow> 32 word \<Rightarrow> string" where
  "func_clause infos word oid = text_if (oid \<noteq> 0) (CNT @ word @ '' = '' @ info_name infos oid)"

definition hypothetical_clause :: "bool \<Rightarrow> Aggregate \<Rightarrow> string" where
  "hypothetical_clause old7 a = text_if (if old7 then agg_Hypothetical a else agg_Kind a = ''h'') (CNT @ ''HYPOTHETICAL'')"

definition aggregate_clauses :: "func_infos \<Rightarrow> bool \<Rightarrow> Aggregate \<Rightarrow> string" where
  "aggregate_clauses infos old7 a =
     text_if (agg_TransitionDataSize a \<noteq> 0) (CNT @ ''SSPACE = '' @ Itoa (agg_TransitionDataSize a)) @
     func_clause infos ''PREFUNC'' (agg_PreliminaryFunction a) @
     func_clause infos ''COMBINEFUNC'' (agg_CombineFunction a) @
     func_clause infos ''SERIALFUNC'' (agg_SerialFunction a) @
     func_clause infos ''DESERIALFUNC'' (agg_DeserialFunction a) @
     func_clause infos ''FINALFUNC'' (agg_FinalFunction a) @
     text_if (agg_FinalFuncExtra a) (CNT @ ''FINALFUNC_EXTRA'') @
     text_if (\<not> agg_InitValIsNull a) (CNT @ ''INITCOND = '' @ in_quotes (agg_InitialValue a)) @
     text_if (agg_SortOperator a \<noteq> []) (CNT @ ''SORTOP = '' @ agg_SortOperatorSchema a @ ''.'' @ [DQ] @ agg_SortOperator a @ [DQ]) @
     hypothetical_clause old7 a @
     func_clause infos ''MSFUNC'' (agg_MTransitionFunction a) @
     func_clause infos ''MINVFUNC'' (agg_MInverseTransitionFunction a) @
     text_if (agg_MTransitionDataType a \<noteq> []) (CNT @ ''MSTYPE = '' @ agg_MTransitionDataType a) @
     text_if (agg_MTransitionDataSize a \<noteq> 0) (CNT @ ''MSSPACE = '' @ Itoa (agg_MTransitionDataSize a)) @
     func_clause infos ''MFINALFUNC'' (agg_MFinalFunction a) @
     text_if (agg_MFinalFuncExtra a) (CNT @ ''MFINALFUNC_EXTRA'') @
     text_if (\<not> agg_MInitValIsNull a) (CNT @ ''MINITCOND = '' @ in_quotes (agg_MInitialValue a))"

definition aggregate_text :: "func_infos \<Rightarrow> bool \<Rightarrow> bool \<Rightarrow> Aggregate \<Rightarrow> string res" where
  "aggregate_text infos at7 old7 a =
     (let orderedStr = text_if (agg_IsOrdered a) ''ORDERED '';
          argumentsStr = (if ns_String (agg_Arguments a) \<noteq> [] then ns_String (agg_Arguments a) else ''*'')
      in rbind (modify_clause at7 (agg_Kind a) ''FINALFUNC_MODIFY'' (agg_Finalmodify a)) (\<lambda>fm.
         rbind (modify_clause at7 (agg_Kind a) ''MFINALFUNC_MODIFY'' (agg_Mfinalmodify a)) (\<lambda>mfm.
         rbind (if agg_Parallel a \<noteq> [] then parallel_clause (CNT @ ''PARALLEL = '') (agg_Parallel a) else Inr []) (\<lambda>par. Inr (
           BR @ ''CREATE '' @ orderedStr @ ''AGGREGATE '' @ agg_Schema a @ ''.'' @ agg_Name a @ ''('' @ argumentsStr @ '') ('' @ NL @
           TAB @ ''SFUNC = '' @ info_name infos (agg_TransitionFunction a) @ CNT @
           ''STYPE = '' @ agg_TransitionDataType a @
           aggregate_clauses infos old7 a @ fm @ mfm @ par @ NL @ '');'' @ NL)))))"

definition PrintCreateAggregateStatement :: "print_env \<Rightarrow> func_infos \<Rightarrow> Aggregate \<Rightarrow> ObjectMetadata \<Rightarrow> metafile \<Rightarrow> metafile res" where
  "PrintCreateAggregateStatement env infos a metadata st =
     rbind (src_at_least env ''7'') (\<lambda>at7. rbind (src_old env ''7'') (\<lambda>old7.
     rbind (aggregate_text infos at7 old7 a) (\<lambda>t. print_object env (Aggregate_object a) t metadata [] st)))"

section \<open>Casts and extensions\<close>

definition cast_text :: "Cast \<Rightarrow> string" where
  "cast_text c =
     BR @ ''CREATE CAST '' @ Cast_FQN c @ NL @
     (if cast_CastMethod c = ''i'' then TAB @ ''WITH INOUT''
      else if cast_CastMethod c = ''b'' then TAB @ ''WITHOUT FUNCTION''
      else if cast_CastMethod c = ''f'' then TAB @ ''WITH FUNCTION '' @ fqn (cast_FunctionSchema c) (cast_FunctionName c) @ ''('' @ cast_FunctionArgs c @ '')''
      else []) @
     (if cast_CastContext c = ''a'' then NL @ ''AS ASSIGNMENT'' else if cast_CastContext c = ''i'' then NL @ ''AS IMPLICIT'' else []) @ '';''"

definition PrintCreateCastStatement :: "print_env \<Rightarrow> Cast \<Rightarrow> ObjectMetadata \<Rightarrow> metafile \<Rightarrow> metafile res" where
  "PrintCreateCastStatement env c metadata = print_object env (Cast_object c) (cast_text c) metadata []"

definition extension_text :: "Extension \<Rightarrow> string" where
  "extension_text e =
     BR @ ''SET search_path='' @ ex_Schema e @ '',pg_catalog;'' @ NL @ ''CREATE EXTENSION IF NOT EXISTS '' @ ex_Name e @
     '' WITH SCHEMA '' @ ex_Schema e @ '';'' @ NL @ ''SET search_path=pg_catalog;''"

definition print_extension :: "print_env \<Rightarrow> MetadataMap \<Rightarrow> Extension \<Rightarrow> metafile \<Rightarrow> metafile res" where
  "print_extension env m e = print_object env (Extension_object e) (extension_text e) (metadata_for m (Extension_GetUniqueID e)) []"

definition PrintCreateExtensionStatements :: "print_env \<Rightarrow> Extension list \<Rightarrow> MetadataMap \<Rightarrow> metafile \<Rightarrow> metafile res" where
  "PrintCreateExtensionStatements env es m = for_each (print_extension env m) es"

section \<open>Procedural languages\<close>

definition is_lang_func :: "ProceduralLanguage \<Rightarrow> Function \<Rightarrow> bool" where
  "is_lang_func l f \<longleftrightarrow> fn_Oid f = pl_Handler l \<or> fn_Oid f = pl_Inline l \<or> fn_Oid f = pl_Validator l"

definition mark_lang_funcs :: "Function list \<Rightarrow> (32 word, bool) gomap \<Rightarrow> ProceduralLanguage \<Rightarrow> (32 word, bool) gomap" where
  "mark_lang_funcs fs m l = foldl (\<lambda>m f. go_set (fn_Oid f) (go_get0 False m (fn_Oid f) \<or> is_lang_func l f) m) m fs"

definition ExtractLanguageFunctions :: "Function list \<Rightarrow> ProceduralLanguage list \<Rightarrow> Function list \<times> Function list" where
  "ExtractLanguageFunctions fs ls =
     (let isLangFuncMap = foldl (mark_lang_funcs fs) [] ls
      in (filter (\<lambda>f. go_get0 False isLangFuncMap (fn_Oid f)) fs, filter (\<lambda>f. \<not> go_get0 False isLangFuncMap (fn_Oid f)) fs))"

text \<open>The pair of the parameter and the \<open>ALTER FUNCTION\<close> statement for one of a language's functions.\<close>

definition lang_func :: "func_infos \<Rightarrow> ProceduralLanguage \<Rightarrow> string \<Rightarrow> 32 word \<Rightarrow> string \<times> string" where
  "lang_func infos l word oid =
     (if oid \<noteq> 0 then
        let info = go_get0 no_info infos oid
        in ('' '' @ word @ '' '' @ fi_QualifiedName info,
            NL @ ''ALTER FUNCTION '' @ fi_QualifiedName info @ ''('' @ ns_String (fi_Arguments info) @ '') OWNER TO '' @ pl_Owner l @ '';'')
      else ([], []))"

definition language_params :: "func_infos \<Rightarrow> ProceduralLanguage \<Rightarrow> (string \<times> string) list" where
  "language_params infos l = [lang_func infos l ''HANDLER'' (pl_Handler l), lang_func infos l ''INLINE'' (pl_Inline l),
     lang_func infos l ''VALIDATOR'' (pl_Validator l)]"

definition language_text :: "func_infos \<Rightarrow> bool \<Rightarrow> ProceduralLanguage \<Rightarrow> string" where
  "language_text infos at6 l =
     BR @ ''CREATE '' @ text_if at6 ''OR REPLACE '' @ text_if (pl_PlTrusted l) ''TRUSTED '' @
     ''PROCEDURAL LANGUAGE '' @ pl_Name l @ concat (map fst (language_params infos l)) @ '';''"

definition print_language :: "print_env \<Rightarrow> func_infos \<Rightarrow> MetadataMap \<Rightarrow> ProceduralLanguage \<Rightarrow> metafile \<Rightarrow> metafile res" where
  "print_language env infos m l st =
     rbind (src_at_least env ''6'') (\<lambda>at6.
     rbind (rbind (emit (fst (ProceduralLanguage_GetMetadataEntry l)) (snd (ProceduralLanguage_GetMetadataEntry l)) (language_text infos at6 l) st)
       (emit (fst (ProceduralLanguage_GetMetadataEntry l)) (snd (ProceduralLanguage_GetMetadataEntry l)) (concat (map snd (language_params infos l)))))
       (PrintObjectMetadata env (metadata_for m (ProceduralLanguage_GetUniqueID l)) (ProceduralLanguage_object l) []))"

definition PrintCreateLanguageStatements :: "print_env \<Rightarrow> ProceduralLanguage list \<Rightarrow> func_infos \<Rightarrow> MetadataMap \<Rightarrow> metafile \<Rightarrow> metafile res" where
  "PrintCreateLanguageStatements env ls infos m = for_each (print_language env infos m) ls"

section \<open>A format without arguments\<close>

text \<open>
  \<open>PrintCreateTransformStatement\<close> passes the finished statement to \<open>MustPrintf\<close> as the format. This is
  \<open>fmt.Fprintf\<close> with no arguments: flags, an argument index in brackets, width and precision are skipped,
  and a verb prints an error notice. Verbs are single bytes here.
\<close>

fun skip_num :: "nat \<Rightarrow> string \<Rightarrow> string" where
  "skip_num n [] = []"
| "skip_num n (c # cs) =
     (if is_digit c then (if n > 1000000 then [] else skip_num (n * 10 + (of_char c - 48)) cs) else c # cs)"

fun num_ok :: "nat \<Rightarrow> string \<Rightarrow> bool" where
  "num_ok n [] = True"
| "num_ok n (c # cs) \<longleftrightarrow> is_digit c \<and> n \<le> 1000000 \<and> num_ok (n * 10 + (of_char c - 48)) cs"

definition is_index :: "string \<Rightarrow> bool" where
  "is_index d \<longleftrightarrow> d \<noteq> [] \<and> num_ok 0 d"

text \<open>The rest after an argument index, whether there was a bracket, and whether it was a number.\<close>

definition arg_number :: "string \<Rightarrow> string \<times> bool \<times> bool" where
  "arg_number s =
     (case s of
        c # r \<Rightarrow>
          if c = CHR ''['' then
            if length s < 3 \<or> CHR '']'' \<notin> set r then (r, True, False)
            else (tl (dropWhile (\<lambda>c. c \<noteq> CHR '']'') r), True, is_index (takeWhile (\<lambda>c. c \<noteq> CHR '']'') r))
          else (s, False, False)
      | [] \<Rightarrow> (s, False, False))"

definition star_or_num :: "string \<Rightarrow> string \<Rightarrow> bool \<Rightarrow> string \<times> string \<times> bool" where
  "star_or_num notice s afterIndex =
     (case s of c # r \<Rightarrow> if c = CHR ''*'' then (notice, r, False) else ([], skip_num 0 s, afterIndex) | [] \<Rightarrow> ([], [], afterIndex))"

definition format_verb :: "string \<Rightarrow> string \<times> string" where
  "format_verb s =
     (let (s1, bad1, after1) = arg_number (dropWhile (\<lambda>c. c \<in> set ''#0+- '') s);
          (out1, s2, after2) = star_or_num ''%!(BADWIDTH)'' s1 after1;
          (out2, s3, bad2, after3) =
            (if take 1 s2 = ''.''
             then let (p, b, a) = arg_number (tl s2); (o1, p', a') = star_or_num ''%!(BADPREC)'' p a in (o1, p', b, a')
             else ([], s2, False, after2));
          (s4, bad3, after4) = (if after3 then (s3, False, True) else arg_number s3);
          notice = out1 @ out2
      in case s4 of
           [] \<Rightarrow> (notice @ ''%!(NOVERB)'', [])
         | v # r \<Rightarrow> (notice @ (if v = CHR ''%'' then ''%'' else ''%!'' @ [v] @ (if bad1 \<or> bad2 \<or> bad3 then ''(BADINDEX)'' else ''(MISSING)'')), r))"

lemma skip_num_length: "length (skip_num n s) \<le> length s"
  by (induction n s rule: skip_num.induct) auto

lemma arg_number_length: "length (fst (arg_number s)) \<le> length s"
proof (cases s)
  case (Cons c r)
  have "length (tl (dropWhile P r)) \<le> Suc (length r)" for P
    using length_dropWhile_le[of P r] by simp
  with Cons show ?thesis by (simp add: arg_number_def)
qed (simp add: arg_number_def)

lemma star_or_num_length: "length (fst (snd (star_or_num t s a))) \<le> length s"
  using skip_num_length[of 0 s] by (auto simp: star_or_num_def split: list.splits)

lemma format_verb_length: "length (snd (format_verb s)) \<le> length s"
proof -
  define d where "d = dropWhile (\<lambda>c. c \<in> set ''#0+- '') s"
  obtain s1 b1 a1 where 1: "arg_number d = (s1, b1, a1)" by (metis prod.collapse)
  obtain o1 s2 a2 where 2: "star_or_num ''%!(BADWIDTH)'' s1 a1 = (o1, s2, a2)" by (metis prod.collapse)
  obtain p b a where 3: "arg_number (tl s2) = (p, b, a)" by (metis prod.collapse)
  obtain o2 p' a' where 4: "star_or_num ''%!(BADPREC)'' p a = (o2, p', a')" by (metis prod.collapse)
  define s3 where "s3 = (if take 1 s2 = ''.'' then p' else s2)"
  define a3 where "a3 = (if take 1 s2 = ''.'' then a' else a2)"
  obtain q c e where 5: "arg_number s3 = (q, c, e)" by (metis prod.collapse)
  have "length d \<le> length s" by (simp add: d_def length_dropWhile_le)
  moreover have "length s1 \<le> length d" using arg_number_length[of d] 1 by simp
  moreover have "length s2 \<le> length s1" using star_or_num_length[of "''%!(BADWIDTH)''" s1 a1] 2 by simp
  moreover have "length p \<le> length s2" using arg_number_length[of "tl s2"] 3 by simp
  moreover have "length p' \<le> length p" using star_or_num_length[of "''%!(BADPREC)''" p a] 4 by simp
  moreover have "length s3 \<le> length s2" using calculation by (simp add: s3_def)
  moreover have "length q \<le> length s3" using arg_number_length[of s3] 5 by simp
  ultimately have len: "length s3 \<le> length s" "length q \<le> length s" by linarith+
  define s4 where "s4 = (if a3 then s3 else q)"
  have "snd (format_verb s) = tl s4"
    unfolding format_verb_def d_def[symmetric] Let_def 1 2 3 4 prod.case s4_def s3_def a3_def
    using 5 by (cases "take 1 s2 = ''.''"; cases a3) (simp_all add: s3_def a3_def split: list.split)
  with len show ?thesis by (cases a3) (auto simp: s4_def)
qed

function Sprintf_none :: "string \<Rightarrow> string" where
  "Sprintf_none [] = []"
| "Sprintf_none (c # s) =
     (if c = CHR ''%'' then fst (format_verb s) @ Sprintf_none (snd (format_verb s)) else c # Sprintf_none s)"
  by pat_completeness auto
termination
  by (relation "measure length") (auto intro: le_less_trans[OF format_verb_length])

lemma Sprintf_none_plain: "CHR ''%'' \<notin> set s \<Longrightarrow> Sprintf_none s = s"
  by (induction s) auto

section \<open>Transforms, conversions, foreign data\<close>

definition transform_text :: "func_infos \<Rightarrow> Transform \<Rightarrow> string" where
  "transform_text infos t =
     (let fromSQL = go_get infos (trf_FromSQLFunc t); toSQL = go_get infos (trf_ToSQLFunc t)
      in BR @ ''CREATE TRANSFORM FOR '' @ trf_TypeNamespace t @ ''.'' @ trf_TypeName t @ '' LANGUAGE '' @ trf_LanguageName t @ '' ('' @
         (case fromSQL of Some i \<Rightarrow> ''FROM SQL WITH FUNCTION '' @ FunctionInfo_FQN i | None \<Rightarrow> []) @
         (case toSQL of Some i \<Rightarrow> text_if (fromSQL \<noteq> None) '', '' @ ''TO SQL WITH FUNCTION '' @ FunctionInfo_FQN i | None \<Rightarrow> []) @
         '');'')"

definition PrintCreateTransformStatement :: "print_env \<Rightarrow> func_infos \<Rightarrow> Transform \<Rightarrow> ObjectMetadata \<Rightarrow> metafile \<Rightarrow> metafile res" where
  "PrintCreateTransformStatement env infos t metadata =
     (if go_get infos (trf_FromSQLFunc t) = None \<and> go_get infos (trf_ToSQLFunc t) = None then Inr
      else print_object env (Transform_object t) (Sprintf_none (transform_text infos t)) metadata [])"

definition conversion_text :: "Conversion \<Rightarrow> string" where
  "conversion_text c =
     BR @ ''CREATE'' @ text_if (conv_IsDefault c) '' DEFAULT'' @ '' CONVERSION '' @ fqn (conv_Schema c) (conv_Name c) @ '' FOR '' @
     in_quotes (conv_ForEncoding c) @ '' TO '' @ in_quotes (conv_ToEncoding c) @ '' FROM '' @ conv_ConversionFunction c @ '';''"

definition print_conversion :: "print_env \<Rightarrow> MetadataMap \<Rightarrow> Conversion \<Rightarrow> metafile \<Rightarrow> metafile res" where
  "print_conversion env m c = print_object env (Conversion_object c) (conversion_text c) (metadata_for m (Conversion_GetUniqueID c)) []"

definition PrintCreateConversionStatements :: "print_env \<Rightarrow> Conversion list \<Rightarrow> MetadataMap \<Rightarrow> metafile \<Rightarrow> metafile res" where
  "PrintCreateConversionStatements env cs m = for_each (print_conversion env m) cs"

definition options_clause :: "string \<Rightarrow> string" where
  "options_clause opts = text_if (opts \<noteq> []) (NT @ ''OPTIONS ('' @ opts @ '')'')"

definition fdw_text :: "func_infos \<Rightarrow> ForeignDataWrapper \<Rightarrow> string" where
  "fdw_text infos w =
     BR @ ''CREATE FOREIGN DATA WRAPPER '' @ fdw_Name w @
     text_if (fdw_Handler w \<noteq> 0) (NT @ ''HANDLER '' @ info_name infos (fdw_Handler w)) @
     text_if (fdw_Validator w \<noteq> 0) (NT @ ''VALIDATOR '' @ info_name infos (fdw_Validator w)) @
     options_clause (fdw_Options w) @ '';''"

definition PrintCreateForeignDataWrapperStatement :: "print_env \<Rightarrow> func_infos \<Rightarrow> ForeignDataWrapper \<Rightarrow> ObjectMetadata \<Rightarrow> metafile \<Rightarrow> metafile res" where
  "PrintCreateForeignDataWrapperStatement env infos w metadata =
     print_object env (ForeignDataWrapper_object w) (fdw_text infos w) metadata []"

definition server_text :: "ForeignServer \<Rightarrow> string" where
  "server_text s =
     BR @ ''CREATE SERVER '' @ srv_Name s @
     text_if (srv_Type s \<noteq> []) (NT @ ''TYPE '' @ in_quotes (srv_Type s)) @
     text_if (srv_Version s \<noteq> []) (NT @ ''VERSION '' @ in_quotes (srv_Version s)) @
     NT @ ''FOREIGN DATA WRAPPER '' @ srv_ForeignDataWrapper s @ options_clause (srv_Options s) @ '';''"

definition PrintCreateServerStatement :: "print_env \<Rightarrow> ForeignServer \<Rightarrow> ObjectMetadata \<Rightarrow> metafile \<Rightarrow> metafile res" where
  "PrintCreateServerStatement env s metadata = print_object env (ForeignServer_object s) (server_text s) metadata []"

definition mapping_text :: "UserMapping \<Rightarrow> string" where
  "mapping_text m =
     BR @ ''CREATE USER MAPPING FOR '' @ um_User m @ NT @ ''SERVER '' @ um_Server m @ options_clause (um_Options m) @ '';''"

definition PrintCreateUserMappingStatement :: "UserMapping \<Rightarrow> metafile \<Rightarrow> metafile res" where
  "PrintCreateUserMappingStatement m =
     emit (fst (UserMapping_GetMetadataEntry m)) (snd (UserMapping_GetMetadataEntry m)) (mapping_text m)"

section \<open>What is printed\<close>

lemma prints_function [printing]: "prints (PrintCreateFunctionStatement env f md) (creates (Function_object f))"
  unfolding PrintCreateFunctionStatement_def[abs_def] by (intro prints_compute printing)

lemma prints_aggregate [printing]: "prints (PrintCreateAggregateStatement env infos a md) (creates (Aggregate_object a))"
  unfolding PrintCreateAggregateStatement_def[abs_def] by (intro prints_compute printing)

lemma prints_cast [printing]: "prints (PrintCreateCastStatement env c md) (creates (Cast_object c))"
  unfolding PrintCreateCastStatement_def by (rule printing)

lemma prints_fdw [printing]: "prints (PrintCreateForeignDataWrapperStatement env infos w md) (creates (ForeignDataWrapper_object w))"
  unfolding PrintCreateForeignDataWrapperStatement_def by (rule printing)

lemma prints_server [printing]: "prints (PrintCreateServerStatement env s md) (creates (ForeignServer_object s))"
  unfolding PrintCreateServerStatement_def by (rule printing)

lemma prints_mapping [printing]: "prints (PrintCreateUserMappingStatement m) (creates (UserMapping_object m))"
  unfolding PrintCreateUserMappingStatement_def
  by (rule prints_emit) (auto simp: creates_def created_def UserMapping_object_def)

lemma prints_transform [printing]: "prints (PrintCreateTransformStatement env infos t md) (list_all (own (Transform_object t)))"
  unfolding PrintCreateTransformStatement_def
  by (auto intro: prints_none prints_weaken[OF prints_creates] creates_own)

text \<open>A language has two entries of its own: its definition and the owners of its functions.\<close>

lemma prints_language [printing]: "prints (print_language env infos m l) (creates (ProceduralLanguage_object l))"
  unfolding print_language_def[abs_def]
proof (rule prints_compute)
  fix at6
  let ?o = "ProceduralLanguage_object l" and ?e = "ProceduralLanguage_GetMetadataEntry l"
  have o: "obj_section ?o = fst ?e" "obj_entry ?o = snd ?e" by (simp_all add: ProceduralLanguage_object_def)
  have "prints (\<lambda>st. rbind (emit (fst ?e) (snd ?e) (language_text infos at6 l) st)
      (emit (fst ?e) (snd ?e) (concat (map snd (language_params infos l))))) (creates ?o)"
    unfolding o[symmetric] by (rule prints_then[OF prints_emit_eq prints_emit_eq]) (auto simp: creates_def created_def)
  from prints_then[OF this prints_object_metadata, of ?o "creates ?o"]
  show "prints (\<lambda>st. rbind (rbind (emit (fst ?e) (snd ?e) (language_text infos at6 l) st)
      (emit (fst ?e) (snd ?e) (concat (map snd (language_params infos l)))))
      (PrintObjectMetadata env (metadata_for m (ProceduralLanguage_GetUniqueID l)) ?o [])) (creates ?o)"
    by (simp add: creates_append)
qed

interpretation function_printer: printer "\<lambda>f. PrintCreateFunctionStatement env f (md f)" Function_object
  by (rule printer_created) (rule printing)

interpretation extension_printer: printer "print_extension env m" Extension_object
  by (rule printer_created) (simp add: print_extension_def printing)

interpretation language_printer: printer "print_language env infos m" ProceduralLanguage_object
  by (rule printer_created) (rule printing)

interpretation conversion_printer: printer "print_conversion env m" Conversion_object
  by (rule printer_created) (simp add: print_conversion_def printing)

section \<open>Functions of languages\<close>

lemma mark_lang_funcs_get:
  "go_get0 False (mark_lang_funcs fs m l) oid \<longleftrightarrow> go_get0 False m oid \<or> (\<exists>f \<in> set fs. fn_Oid f = oid \<and> is_lang_func l f)"
  unfolding mark_lang_funcs_def
  by (induction fs arbitrary: m) (auto simp: go_map)

lemma lang_func_map_get:
  "go_get0 False (foldl (mark_lang_funcs fs) m ls) oid \<longleftrightarrow>
     go_get0 False m oid \<or> (\<exists>l \<in> set ls. \<exists>f \<in> set fs. fn_Oid f = oid \<and> is_lang_func l f)"
  by (induction ls arbitrary: m) (auto simp: mark_lang_funcs_get)

lemma is_lang_func_oid: "fn_Oid f = fn_Oid g \<Longrightarrow> is_lang_func l f = is_lang_func l g"
  by (simp add: is_lang_func_def)

end
