(* ===== verification/Restore.thy ===== *)
theory Restore
  imports Toc Options CopyManager Dependencies
begin

text \<open>
  Restoring the metadata on the destination: \<open>src/meta/builtin/parallel.go\<close>,
  \<open>src/meta/builtin/parallel_depend.go\<close>, \<open>src/meta/builtin/restore_helper.go\<close> and the restore
  part of \<open>src/meta/builtin/builtin.go\<close>, together with the encoding of the table map in
  \<open>src/copy/copy_query_wrapper.go\<close>.

  As soon as a table has been created its pair of source and destination table is sent to the
  channel the copy workers read; what is left in the table map at the end is sent by
  \<open>RestoreCleanup\<close>. Shown here: every table of the map is sent exactly once with its statistics;
  the scheduler respects the dependencies between statements, does not get stuck, and, since the
  statements carry no object numbers, runs one statement at a time; the predata restore steps
  cover every predata statement exactly once.
\<close>

section \<open>The table map\<close>

fun FormUserTableMap_loop :: "Table list \<Rightarrow> Table list \<Rightarrow> nat \<Rightarrow> (string, string) gomap \<Rightarrow> (string, string) gomap res" where
  "FormUserTableMap_loop [] dest i m = Inr m"
| "FormUserTableMap_loop (t # ts) dest i m =
     rbind (go_index dest i) (\<lambda>d. FormUserTableMap_loop ts dest (Suc i)
       (go_set (fqn (Schema d) (Name d))
          (Schema t @ ''.'' @ Name t @ ''.'' @ Itoa (RelTuples t) @ ''.'' @ (if IsReplicated t then ''true'' else ''false'')) m))"

definition FormUserTableMap :: "Table list \<Rightarrow> Table list \<Rightarrow> (string, string) gomap res" where
  "FormUserTableMap srcs dests = FormUserTableMap_loop srcs dests 0 []"

text \<open>Decoding a source name: shared by \<open>formTablePair\<close> and \<open>RestoreCleanup\<close>.\<close>

definition decode_source :: "string \<Rightarrow> Table res" where
  "decode_source srcFqn =
     (let sl = Split CHR ''.'' srcFqn
      in rbind (go_index sl 2) (\<lambda>n. rbind (go_index sl 0) (\<lambda>s. rbind (go_index sl 1) (\<lambda>nm.
           Inr \<lparr>Schema = s, Name = nm, Partition = 0, RelTuples = fst (ParseInt n),
                IsReplicated = (length sl > 3 \<and> sl ! 3 = ''true'')\<rparr>))))"

definition formTablePair :: "string \<Rightarrow> string \<Rightarrow> (string, string) gomap \<Rightarrow> (TablePair option \<times> (string, string) gomap) res" where
  "formTablePair schema name tabMap =
     (let destFqn = fqn schema name
      in case go_get tabMap destFqn of
           None \<Rightarrow> Inr (None, tabMap)
         | Some srcFqn \<Rightarrow> rbind (decode_source srcFqn) (\<lambda>src.
             Inr (Some \<lparr>SrcTable = src, DestTable = mkTable schema name\<rparr>, go_delete destFqn tabMap)))"

fun form_leaves :: "string list \<Rightarrow> (string, string) gomap \<Rightarrow> (TablePair list \<times> (string, string) gomap) res" where
  "form_leaves [] tabMap = Inr ([], tabMap)"
| "form_leaves (l # ls) tabMap =
     (let sl = Split CHR ''.'' l
      in rbind (go_index sl 0) (\<lambda>s. rbind (go_index sl 1) (\<lambda>n.
         rbind (formTablePair s n tabMap) (\<lambda>(tp, tabMap).
         rbind (form_leaves ls tabMap) (\<lambda>(tps, tabMap). Inr (case tp of None \<Rightarrow> tps | Some p \<Rightarrow> p # tps, tabMap))))))"

text \<open>\<open>gp7\<close>: the source is Greenplum 7 or a Cloudberry product, where leaves are created separately.\<close>

definition lookupSourceTables :: "bool \<Rightarrow> string \<Rightarrow> string \<Rightarrow> (string, string list) gomap \<Rightarrow> (string, string) gomap \<Rightarrow>
    (TablePair list \<times> (string, string) gomap) res" where
  "lookupSourceTables gp7 schema name partNameMap tabMap =
     (case (if gp7 then None else go_get partNameMap (fqn schema name)) of
        None \<Rightarrow> rbind (formTablePair schema name tabMap) (\<lambda>(tp, tabMap).
          Inr (case tp of None \<Rightarrow> [] | Some p \<Rightarrow> [p], tabMap))
      | Some leafTables \<Rightarrow> form_leaves leafTables tabMap)"

definition cleanup_pair :: "string \<times> string \<Rightarrow> TablePair res" where
  "cleanup_pair = (\<lambda>(k, v).
     let dsl = Split CHR ''.'' k
     in rbind (decode_source v) (\<lambda>src. rbind (go_index dsl 0) (\<lambda>s. rbind (go_index dsl 1) (\<lambda>n.
          Inr \<lparr>SrcTable = src, DestTable = mkTable s n\<rparr>))))"

fun rmap :: "('a \<Rightarrow> 'b res) \<Rightarrow> 'a list \<Rightarrow> 'b list res" where
  "rmap f [] = Inr []"
| "rmap f (x # xs) = rbind (f x) (\<lambda>y. rbind (rmap f xs) (\<lambda>ys. Inr (y # ys)))"

text \<open>\<open>entries\<close> are the remaining entries of the map in the order Go visits them.\<close>

definition RestoreCleanup :: "(string \<times> string) list \<Rightarrow> TablePair list res" where
  "RestoreCleanup entries = rmap cleanup_pair entries"

section \<open>Executing statements\<close>

text \<open>
  One statement: an error other than an existing object is counted and the object is noted in
  \<open>errorTablesMetadata\<close>.
\<close>

record exec_state =
  numErrors :: nat
  errorTablesMetadata :: "(string, unit) gomap"
  restored :: nat

definition note_result :: "StatementWithType \<Rightarrow> int res \<Rightarrow> exec_state \<Rightarrow> exec_state" where
  "note_result st r s =
     (case r of
        Inl (Error e) \<Rightarrow>
          if \<not> Contains e ''already exists''
          then s\<lparr>numErrors := Suc (numErrors s),
                 errorTablesMetadata := go_set (fqn (st_Schema st) (st_Name st)) () (errorTablesMetadata s),
                 restored := Suc (restored s)\<rparr>
          else s\<lparr>restored := Suc (restored s)\<rparr>
      | _ \<Rightarrow> s\<lparr>restored := Suc (restored s)\<rparr>)"

fun executeStatementsForConn :: "'db driver \<Rightarrow> int list \<Rightarrow> StatementWithType list \<Rightarrow> 'db DBConn \<times> exec_state \<Rightarrow>
    ('db DBConn \<times> exec_state) res" where
  "executeStatementsForConn drv whichConn [] s = Inr s"
| "executeStatementsForConn drv whichConn (st # sts) s =
     (case s of (d, es) \<Rightarrow>
       (case Exec drv (Statement st) whichConn d of (r, d') \<Rightarrow>
          (case r of
             Inl (Fatal e) \<Rightarrow> Inl (Fatal e)
           | Inl (Panic e) \<Rightarrow> Inl (Panic e)
           | _ \<Rightarrow> executeStatementsForConn drv whichConn sts (d', note_result st r es))))"

text \<open>
  Post-data statements in three batches: one index of every table, then everything else, then
  the comments and the like of the postdata objects.
\<close>

fun batch_loop :: "StatementWithType list \<Rightarrow> (string, bool) gomap \<Rightarrow>
    StatementWithType list \<times> StatementWithType list \<times> StatementWithType list" where
  "batch_loop [] indexMap = ([], [], [])"
| "batch_loop (st # sts) indexMap =
     (if st_ObjectType st = ''INDEX'' \<and> \<not> go_has indexMap (st_ReferenceObject st) then
        (case batch_loop sts (go_set (st_ReferenceObject st) True indexMap) of (a, b, c) \<Rightarrow> (st # a, b, c))
      else if Contains (st_ObjectType st) '' METADATA'' then
        (case batch_loop sts indexMap of (a, b, c) \<Rightarrow> (a, b, st # c))
      else (case batch_loop sts indexMap of (a, b, c) \<Rightarrow> (a, st # b, c)))"

definition BatchPostdataStatements :: "StatementWithType list \<Rightarrow>
    StatementWithType list \<times> StatementWithType list \<times> StatementWithType list" where
  "BatchPostdataStatements sts = batch_loop sts []"

section \<open>Redirecting schemas and tablespaces\<close>

definition edit_statement :: "(string, string) gomap \<Rightarrow> string \<Rightarrow> bool \<Rightarrow> StatementWithType \<Rightarrow> StatementWithType" where
  "edit_statement redirectSchema inclDestSchema isSchema st =
     (case (if length redirectSchema > 0 then go_get redirectSchema (st_Schema st) else Some inclDestSchema) of
        None \<Rightarrow> st
      | Some schema \<Rightarrow>
          st\<lparr>st_Schema := schema,
             Statement := if isSchema then Replace (Statement st) (st_Schema st) schema 2
                          else Replace (Statement st) (st_Schema st @ ''.'') (schema @ ''.'') (-1),
             st_ReferenceObject := if st_ReferenceObject st \<noteq> []
               then Replace (st_ReferenceObject st) (st_Schema st @ ''.'') (schema @ ''.'') 1 else st_ReferenceObject st\<rparr>)"

definition editStatementsRedirectSchema :: "(string, string) gomap \<Rightarrow> string \<Rightarrow> bool \<Rightarrow> StatementWithType list \<Rightarrow> StatementWithType list" where
  "editStatementsRedirectSchema redirectSchema inclDestSchema isSchema sts =
     (if length redirectSchema = 0 \<and> inclDestSchema = [] then sts
      else map (edit_statement redirectSchema inclDestSchema isSchema) sts)"

text \<open>The two globals \<open>destTablespace\<close> and \<open>destTablespaceMap\<close>.\<close>

definition TransformTablespace :: "(string, string) gomap \<Rightarrow> string \<times> (string, string) gomap" where
  "TransformTablespace tsMap =
     (case tsMap of
        [] \<Rightarrow> ([], [])
      | [(key, value)] \<Rightarrow> if value = [] then (key, []) else ([], [(key, value)])
      | _ \<Rightarrow> ([], foldl (\<lambda>m (k, v). go_set k v m) [] tsMap))"

definition ShouldReplaceTablespace :: "string \<times> (string, string) gomap \<Rightarrow> bool" where
  "ShouldReplaceTablespace = (\<lambda>(destTablespace, destTablespaceMap).
     \<not> (destTablespace = [] \<and> length destTablespaceMap = 0))"

definition GetDestTablespace :: "string \<times> (string, string) gomap \<Rightarrow> string \<Rightarrow> string" where
  "GetDestTablespace = (\<lambda>(destTablespace, destTablespaceMap) tablespace.
     if destTablespace \<noteq> [] then destTablespace
     else case go_get destTablespaceMap tablespace of Some value \<Rightarrow> value | None \<Rightarrow> tablespace)"


section \<open>The scheduler\<close>

definition uid_of :: "StatementWithType \<Rightarrow> UniqueID" where
  "uid_of st = \<lparr>ClassID = ClassOID st, Oid = st_Oid st\<rparr>"

definition isDependentStatementRunning :: "StatementWithType \<Rightarrow> dep_set \<Rightarrow> bool" where
  "isDependentStatementRunning r depMap = go_has depMap (uid_of r)"

definition shouldScheduleStatement :: "DependencyMap \<Rightarrow> (nat, StatementWithType) gomap \<Rightarrow> StatementWithType \<Rightarrow> nat \<Rightarrow> bool" where
  "shouldScheduleStatement relevantDeps runningTasks st numTasks =
     (let depMap = go_get0 [] relevantDeps (uid_of st)
      in list_all (\<lambda>(_, t). \<not> (ClassOID st = ClassOID t \<and> st_Oid st = st_Oid t) \<and>
             \<not> isDependentStatementRunning t depMap) runningTasks \<and>
         length runningTasks < numTasks)"

text \<open>
  The state of \<open>ExecuteDependentStatements\<close>: the main goroutine has scheduled the statements
  before \<open>next_stmt\<close>; \<open>runningTasks\<close> is the shared map; \<open>tasks\<close> is the channel and \<open>executing\<close> holds
  the statements the workers have received. A worker that has executed a statement notes the
  result, sends the table pairs that become ready and removes the task.
\<close>

record restore_state =
  next_stmt :: nat
  runningTasks :: "(nat, StatementWithType) gomap"
  tasks :: "nat list"
  executing :: "nat list"
  finished :: "nat list"
  counts :: exec_state
  tabMap :: "(string, string) gomap"
  tablec :: "TablePair list"

definition ExecuteDependentStatements :: "(string, string) gomap \<Rightarrow> restore_state" where
  "ExecuteDependentStatements tm = \<lparr>next_stmt = 0, runningTasks = [], tasks = [], executing = [], finished = [],
     counts = \<lparr>numErrors = 0, errorTablesMetadata = [], restored = 0\<rparr>, tabMap = tm, tablec = []\<rparr>"

definition after_statement :: "bool \<Rightarrow> (string, string list) gomap \<Rightarrow> StatementWithType \<Rightarrow> (string, string) gomap \<Rightarrow>
    (TablePair list \<times> (string, string) gomap) res" where
  "after_statement gp7 partNameMap st tm =
     (if st_ObjectType st = ''TABLE'' then lookupSourceTables gp7 (st_Schema st) (st_Name st) partNameMap tm
      else Inr ([], tm))"

inductive restore_step :: "bool \<Rightarrow> (string, string list) gomap \<Rightarrow> DependencyMap \<Rightarrow> nat \<Rightarrow> StatementWithType list \<Rightarrow>
    restore_state \<Rightarrow> restore_state \<Rightarrow> bool" for gp7 pm deps numConns stmts where
  scheduleStatements: "next_stmt s < length stmts \<Longrightarrow>
    shouldScheduleStatement deps (runningTasks s) (stmts ! next_stmt s) numConns \<Longrightarrow>
    restore_step gp7 pm deps numConns stmts s
      (s\<lparr>runningTasks := go_set (next_stmt s) (stmts ! next_stmt s) (runningTasks s),
         tasks := tasks s @ [next_stmt s], next_stmt := Suc (next_stmt s)\<rparr>)"
| take_task: "tasks s = i # is \<Longrightarrow> length (executing s) < numConns \<Longrightarrow>
    restore_step gp7 pm deps numConns stmts s (s\<lparr>tasks := is, executing := i # executing s\<rparr>)"
| executeStatementsForDependentObject: "i \<in> set (executing s) \<Longrightarrow>
    after_statement gp7 pm (stmts ! i) (tabMap s) = Inr (tps, tm) \<Longrightarrow>
    restore_step gp7 pm deps numConns stmts s
      (s\<lparr>executing := remove1 i (executing s), counts := note_result (stmts ! i) r (counts s), tabMap := tm,
         tablec := tablec s @ tps, runningTasks := go_delete i (runningTasks s), finished := finished s @ [i]\<rparr>)"

inductive_cases restore_stepE: "restore_step gp7 pm deps numConns stmts s t"

interpretation restoring: machine "\<lambda>s. s = ExecuteDependentStatements tm" "restore_step gp7 pm deps numConns stmts"
  for tm gp7 pm deps numConns stmts .

definition uid_dep :: "DependencyMap \<Rightarrow> StatementWithType \<Rightarrow> StatementWithType \<Rightarrow> bool" where
  "uid_dep deps st r \<longleftrightarrow> go_has (go_get0 [] deps (uid_of st)) (uid_of r)"

definition sched_inv :: "DependencyMap \<Rightarrow> nat \<Rightarrow> StatementWithType list \<Rightarrow> restore_state \<Rightarrow> bool" where
  "sched_inv deps n stmts s \<longleftrightarrow>
     mset (finished s) + mset (executing s) + mset (tasks s) = mset [0..<next_stmt s] \<and> next_stmt s \<le> length stmts \<and>
     go_wf (runningTasks s) \<and> set (go_keys (runningTasks s)) = set (executing s) \<union> set (tasks s) \<and>
     (\<forall>(i, st) \<in> set (runningTasks s). st = stmts ! i) \<and> length (runningTasks s) \<le> n \<and>
     restored (counts s) = length (finished s) \<and>
     (\<forall>i \<in> set (executing s) \<union> set (tasks s). \<forall>j < i. uid_dep deps (stmts ! i) (stmts ! j) \<longrightarrow> j \<in> set (finished s))"

lemma sched_inv_init: "sched_inv deps n stmts (ExecuteDependentStatements tm)"
  by (simp add: sched_inv_def ExecuteDependentStatements_def)

lemma restored_note [simp]: "restored (note_result st r es) = Suc (restored es)"
  by (simp add: note_result_def split: sum.splits goerr.splits)

lemma sched_inv_members:
  assumes "sched_inv deps n stmts s"
  shows "set (finished s) \<union> set (executing s) \<union> set (tasks s) = {..<next_stmt s}"
    "distinct (finished s @ executing s @ tasks s)"
proof -
  have m: "mset (finished s @ executing s @ tasks s) = mset [0..<next_stmt s]"
    using assms by (simp add: sched_inv_def add.assoc)
  then show "set (finished s) \<union> set (executing s) \<union> set (tasks s) = {..<next_stmt s}"
    using mset_eq_setD[OF m] by (auto simp: atLeast0LessThan)
  show "distinct (finished s @ executing s @ tasks s)"
    using mset_eq_imp_distinct_iff[OF m] by simp
qed


lemma executing_bound:
  assumes "sched_inv deps n stmts s" and "i \<in> set (executing s)"
  shows "i < next_stmt s \<and> i < length stmts"
proof -
  have "i < next_stmt s" using sched_inv_members(1)[OF assms(1)] assms(2) by blast
  moreover have "next_stmt s \<le> length stmts" using assms(1) by (simp add: sched_inv_def)
  ultimately show ?thesis by simp
qed

lemma running_entry:
  assumes "sched_inv deps n stmts s" and "(i, st) \<in> set (runningTasks s)"
  shows "st = stmts ! i \<and> i < next_stmt s"
proof -
  have "i \<in> set (go_keys (runningTasks s))" using assms(2) by force
  then have "i \<in> set (executing s) \<union> set (tasks s)" using assms(1) unfolding sched_inv_def by blast
  then have "i < next_stmt s" using sched_inv_members(1)[OF assms(1)] by blast
  with assms show ?thesis unfolding sched_inv_def by blast
qed

lemma length_go_set_fresh: "k \<notin> set (go_keys m) \<Longrightarrow> length (go_set k v m) = Suc (length m)"
  by (induction m) auto

lemma set_go_set: "set (go_set k v m) \<subseteq> insert (k, v) (set m)"
  by (induction m) auto

lemma set_go_delete: "set (go_delete k m) \<subseteq> set m"
  by (induction m) auto

lemma sched_inv_step:
  assumes "restore_step gp7 pm deps n stmts s t" and "sched_inv deps n stmts s"
  shows "sched_inv deps n stmts t"
  using assms(1)
proof (cases rule: restore_step.cases)
  case scheduleStatements
  let ?nx = "next_stmt s"
  note mem = sched_inv_members[OF assms(2)]
  have keys: "set (go_keys (runningTasks s)) = set (executing s) \<union> set (tasks s)"
    and run: "\<And>i st. (i, st) \<in> set (runningTasks s) \<Longrightarrow> st = stmts ! i"
    using assms(2) by (auto simp: sched_inv_def)
  have fresh: "?nx \<notin> set (go_keys (runningTasks s))" using keys mem(1) by auto
  have new: "j \<in> set (finished s)" if "j < ?nx" "uid_dep deps (stmts ! ?nx) (stmts ! j)" for j
  proof (rule ccontr)
    assume "j \<notin> set (finished s)"
    with that(1) mem(1) keys have "j \<in> set (go_keys (runningTasks s))" by auto
    then have "(j, stmts ! j) \<in> set (runningTasks s)" using run by (auto simp: image_iff)
    with scheduleStatements(3) that(2) show False
      by (auto simp: shouldScheduleStatement_def isDependentStatementRunning_def uid_dep_def Let_def list_all_iff)
  qed
  have "length (runningTasks s) < n"
    using scheduleStatements(3) by (simp add: shouldScheduleStatement_def Let_def)
  moreover have "\<forall>(i, st) \<in> set (go_set ?nx (stmts ! ?nx) (runningTasks s)). st = stmts ! i"
    using run set_go_set[of ?nx "stmts ! ?nx" "runningTasks s"] by blast
  ultimately show ?thesis
    using assms(2) scheduleStatements(1,2) fresh new length_go_set_fresh[OF fresh]
    by (auto simp: sched_inv_def go_keys_set simp del: set_map)
next
  case (take_task i "is")
  with assms(2) show ?thesis by (auto simp: sched_inv_def)
next
  case (executeStatementsForDependentObject i tps tm r)
  note mem = sched_inv_members[OF assms(2)]
  have keys: "set (go_keys (runningTasks s)) = set (executing s) \<union> set (tasks s)"
    using assms(2) by (simp add: sched_inv_def)
  have rest: "set (remove1 i (executing s)) = set (executing s) - {i}" "i \<notin> set (tasks s)"
    using mem(2) executeStatementsForDependentObject(2) by auto
  have m: "mset (finished s @ [i]) + mset (remove1 i (executing s)) + mset (tasks s) = mset [0..<next_stmt s]"
  proof -
    obtain M where M: "mset (executing s) = add_mset i M" "mset (remove1 i (executing s)) = M"
      using executeStatementsForDependentObject(2) by (metis insert_DiffM mset_remove1 set_mset_mset)
    have "mset (finished s) + mset (executing s) + mset (tasks s) = mset [0..<next_stmt s]"
      using assms(2) unfolding sched_inv_def by blast
    then show ?thesis unfolding M mset_append by (simp del: mset_upt)
  qed
  have l: "length (go_delete i (runningTasks s)) \<le> n"
    using length_delete_le[of i "runningTasks s"] assms(2) unfolding sched_inv_def by (meson le_trans)
  have r: "\<forall>(j, st) \<in> set (go_delete i (runningTasks s)). st = stmts ! j"
    using assms(2) set_go_delete[of i "runningTasks s"] unfolding sched_inv_def by blast
  have k: "set (go_keys (go_delete i (runningTasks s))) = set (remove1 i (executing s)) \<union> set (tasks s)"
    using keys rest go_keys_delete[of i "runningTasks s"] by (auto simp del: set_map)
  have d: "\<forall>i' \<in> set (remove1 i (executing s)) \<union> set (tasks s). \<forall>j < i'. uid_dep deps (stmts ! i') (stmts ! j) \<longrightarrow>
      j \<in> set (finished s @ [i])"
  proof -
    have "\<forall>i' \<in> set (executing s) \<union> set (tasks s). \<forall>j < i'. uid_dep deps (stmts ! i') (stmts ! j) \<longrightarrow> j \<in> set (finished s)"
      using assms(2) unfolding sched_inv_def by blast
    with rest(1) show ?thesis by fastforce
  qed
  have "next_stmt s \<le> length stmts" "go_wf (go_delete i (runningTasks s))" "restored (counts s) = length (finished s)"
    using assms(2) by (simp_all add: sched_inv_def)
  with m l r k d show ?thesis
    unfolding sched_inv_def executeStatementsForDependentObject(1) by (simp del: set_map mset_upt mset_remove1)
qed


section \<open>Which tables are sent\<close>

text \<open>
  The map of a list of table pairs, entry by entry, and the pair that is sent for an entry: the
  statistics of the source table, and only the name of the destination table.
\<close>

definition encode_source :: "Table \<Rightarrow> string" where
  "encode_source t = Schema t @ ''.'' @ Name t @ ''.'' @ Itoa (RelTuples t) @ ''.'' @ (if IsReplicated t then ''true'' else ''false'')"

definition dest_fqn :: "Table \<times> Table \<Rightarrow> string" where
  "dest_fqn p = fqn (Schema (snd p)) (Name (snd p))"

definition coded :: "(Table \<times> Table) list \<Rightarrow> (string, string) gomap" where
  "coded ps = map (\<lambda>p. (dest_fqn p, encode_source (fst p))) ps"

definition sent_pair :: "Table \<times> Table \<Rightarrow> TablePair" where
  "sent_pair p = \<lparr>SrcTable = (fst p)\<lparr>Partition := 0\<rparr>, DestTable = mkTable (Schema (snd p)) (Name (snd p))\<rparr>"

definition no_dot :: "string \<Rightarrow> bool" where
  "no_dot s \<longleftrightarrow> CHR ''.'' \<notin> set s"

definition plain_table :: "Table \<Rightarrow> bool" where
  "plain_table t \<longleftrightarrow> no_dot (Schema t) \<and> no_dot (Name t) \<and> - (2 ^ 63) \<le> RelTuples t \<and> RelTuples t < 2 ^ 63"

definition plain_pair :: "Table \<times> Table \<Rightarrow> bool" where
  "plain_pair p \<longleftrightarrow> plain_table (fst p) \<and> no_dot (Schema (snd p)) \<and> no_dot (Name (snd p))"

lemma decode_encode:
  assumes "plain_table t"
  shows "decode_source (encode_source t) = Inr (t\<lparr>Partition := 0\<rparr>)"
proof -
  have d: "CHR ''.'' \<notin> set (Schema t)" "CHR ''.'' \<notin> set (Name t)" "CHR ''.'' \<notin> set (Itoa (RelTuples t))"
    using assms by (simp_all add: plain_table_def no_dot_def)
  have "Split CHR ''.'' (encode_source t) =
      [Schema t, Name t, Itoa (RelTuples t), if IsReplicated t then ''true'' else ''false'']"
    by (simp add: encode_source_def Split_append[OF d(1)] Split_append[OF d(2)] Split_append[OF d(3)] Split_fresh)
  moreover have "ParseInt (Itoa (RelTuples t)) = (RelTuples t, True)"
    using assms by (intro ParseInt_Itoa) (simp_all add: plain_table_def)
  ultimately show ?thesis by (simp add: decode_source_def)
qed

lemma FormUserTableMap_loop_coded:
  "i + length ts \<le> length dests \<Longrightarrow> distinct (go_keys m @ map dest_fqn (zip ts (drop i dests))) \<Longrightarrow>
   FormUserTableMap_loop ts dests i m = Inr (m @ coded (zip ts (drop i dests)))"
proof (induction ts arbitrary: i m)
  case Nil
  then show ?case by (simp add: coded_def)
next
  case (Cons t ts)
  then have i: "i < length dests" by simp
  then have z: "zip (t # ts) (drop i dests) = (t, dests ! i) # zip ts (drop (Suc i) dests)"
    by (simp add: Cons_nth_drop_Suc[symmetric])
  let ?k = "fqn (Schema (dests ! i)) (Name (dests ! i))"
  let ?m = "m @ [(?k, encode_source t)]"
  have d: "distinct (go_keys m @ map dest_fqn ((t, dests ! i) # zip ts (drop (Suc i) dests)))"
    using Cons.prems(2) unfolding z .
  then have "?k \<notin> set (go_keys m)" by (auto simp: dest_fqn_def)
  then have "go_set ?k (encode_source t) m = ?m" by (rule go_set_new)
  moreover have "distinct (go_keys ?m @ map dest_fqn (zip ts (drop (Suc i) dests)))"
    using d by (auto simp: dest_fqn_def)
  ultimately have "FormUserTableMap_loop (t # ts) dests i m = Inr (?m @ coded (zip ts (drop (Suc i) dests)))"
    using i Cons.IH[of "Suc i" ?m] Cons.prems(1) by (simp add: encode_source_def)
  then show ?case unfolding z by (simp add: coded_def dest_fqn_def)
qed

lemma FormUserTableMap_coded:
  assumes "length srcs \<le> length dests" and "distinct (map dest_fqn (zip srcs dests))"
  shows "FormUserTableMap srcs dests = Inr (coded (zip srcs dests))"
  using FormUserTableMap_loop_coded[of 0 srcs dests "[]"] assms by (simp add: FormUserTableMap_def)

lemma mset_map_split: "mset (map f xs) = mset (map f (filter P xs)) + mset (map f (filter (\<lambda>x. \<not> P x) xs))"
  by (induction xs) simp_all

text \<open>\<open>distinct_plain ps\<close>: the destination names are distinct, and no name has a dot in it.\<close>

definition distinct_plain :: "(Table \<times> Table) list \<Rightarrow> bool" where
  "distinct_plain ps \<longleftrightarrow> distinct (map dest_fqn ps) \<and> list_all plain_pair ps"

lemma distinct_plain_filter: "distinct_plain ps \<Longrightarrow> distinct_plain (filter P ps)"
  by (auto simp: distinct_plain_def list_all_iff distinct_map inj_on_def)

lemma go_delete_coded: "go_delete k (coded ps) = coded (filter (\<lambda>p. dest_fqn p \<noteq> k) ps)"
  by (induction ps) (auto simp: coded_def)

text \<open>A name that is qualified by dot-free parts can only be split in one way.\<close>

lemma fqn_split_unique:
  assumes "no_dot a" and "no_dot b" and "fqn a b = fqn s n"
  shows "s = a \<and> n = b"
proof -
  have "count_list (fqn a b) CHR ''.'' = 1" using assms(1,2) by (simp add: fqn_def no_dot_def count_notin)
  then have "count_list (fqn s n) CHR ''.'' = 1" by (simp only: assms(3))
  then have "count_list s CHR ''.'' = 0" by (simp add: fqn_def)
  then have "CHR ''.'' \<notin> set s" by (simp add: count_list_0_iff)
  with assms fqn_inject[of a s b n] show ?thesis by (simp add: no_dot_def)
qed

lemma formTablePair_coded:
  assumes "distinct_plain ps"
  shows "\<exists>qs tp. formTablePair s n (coded ps) = Inr (tp, coded qs) \<and> distinct_plain qs \<and>
    mset (map sent_pair ps) = mset (map sent_pair qs) + mset (case tp of None \<Rightarrow> [] | Some p \<Rightarrow> [p])"
proof (cases "\<exists>p \<in> set ps. dest_fqn p = fqn s n")
  case False
  then have "go_get (coded ps) (fqn s n) = None" by (auto simp: coded_def map_of_eq_None_iff)
  with assms(1) show ?thesis by (intro exI[of _ ps] exI[of _ None]) (simp add: formTablePair_def)
next
  case True
  then obtain p where p: "p \<in> set ps" "dest_fqn p = fqn s n" by blast
  let ?qs = "filter (\<lambda>q. dest_fqn q \<noteq> fqn s n) ps"
  have dist: "distinct (map dest_fqn ps)" and pl: "plain_pair p" using assms(1) p(1) by (auto simp: distinct_plain_def list_all_iff)
  have "(fqn s n, encode_source (fst p)) \<in> set (coded ps)" using p by (force simp: coded_def)
  moreover have "go_wf (coded ps)" using dist by (simp add: coded_def o_def)
  ultimately have get: "go_get (coded ps) (fqn s n) = Some (encode_source (fst p))" by simp
  have names: "Schema (snd p) = s" "Name (snd p) = n"
    using p(2) pl fqn_split_unique[of "Schema (snd p)" "Name (snd p)" s n] by (simp_all add: dest_fqn_def plain_pair_def)
  have "formTablePair s n (coded ps) = Inr (Some (sent_pair p), coded ?qs)"
    using get decode_encode[of "fst p"] pl names by (simp add: formTablePair_def sent_pair_def plain_pair_def go_delete_coded)
  moreover have "mset (map sent_pair ps) = mset (map sent_pair ?qs) + {#sent_pair p#}"
  proof -
    have "filter (\<lambda>q. dest_fqn q = fqn s n) ps = [p]"
      using p dist
    proof (induction ps)
      case (Cons a ps)
      then show ?case by (cases "dest_fqn a = fqn s n") (auto simp: filter_empty_conv image_iff)
    qed simp
    with mset_map_split[of sent_pair ps "\<lambda>q. dest_fqn q = fqn s n"] show ?thesis by simp
  qed
  ultimately show ?thesis using distinct_plain_filter[OF assms(1)] by (intro exI[of _ ?qs] exI[of _ "Some (sent_pair p)"]) simp
qed


text \<open>The leaf partitions are recorded with their schema; a name without a dot is an index out of range.\<close>

definition qualified_leaves :: "(string, string list) gomap \<Rightarrow> bool" where
  "qualified_leaves pm \<longleftrightarrow> list_all (\<lambda>(root, leaves). list_all (\<lambda>l. CHR ''.'' \<in> set l) leaves) pm"

lemma length_Split: "length (Split c s) = Suc (count_list s c)"
  by (induction s) (auto split: list.splits)

lemma Split_two: "c \<in> set s \<Longrightarrow> \<exists>a b rest. Split c s = a # b # rest"
  using length_Split[of c s] count_list_0_iff[of s c] by (metis Suc_length_conv not0_implies_Suc)

text \<open>
  \<open>takes_pairs f\<close>: a step that takes a coded map sends some pairs and leaves the map of the others.
\<close>

definition takes_pairs :: "((string, string) gomap \<Rightarrow> (TablePair list \<times> (string, string) gomap) res) \<Rightarrow> bool" where
  "takes_pairs f \<longleftrightarrow> (\<forall>ps. distinct_plain ps \<longrightarrow> (\<exists>tps qs. f (coded ps) = Inr (tps, coded qs) \<and> distinct_plain qs \<and>
     mset (map sent_pair ps) = mset (map sent_pair qs) + mset tps))"

lemma takes_pairs_none: "takes_pairs (\<lambda>m. Inr ([], m))"
  by (auto simp: takes_pairs_def)

lemma takes_pairs_single:
  "takes_pairs (\<lambda>m. rbind (formTablePair s n m) (\<lambda>(tp, m). Inr (case tp of None \<Rightarrow> [] | Some p \<Rightarrow> [p], m)))"
  unfolding takes_pairs_def
proof (intro allI impI)
  fix ps assume "distinct_plain ps"
  from formTablePair_coded[OF this] obtain qs tp where "formTablePair s n (coded ps) = Inr (tp, coded qs)"
    "distinct_plain qs" "mset (map sent_pair ps) = mset (map sent_pair qs) + mset (case tp of None \<Rightarrow> [] | Some p \<Rightarrow> [p])"
    by blast
  then show "\<exists>tps qs. rbind (formTablePair s n (coded ps)) (\<lambda>(tp, m). Inr (case tp of None \<Rightarrow> [] | Some p \<Rightarrow> [p], m)) =
      Inr (tps, coded qs) \<and> distinct_plain qs \<and> mset (map sent_pair ps) = mset (map sent_pair qs) + mset tps"
    by (intro exI[of _ "case tp of None \<Rightarrow> [] | Some p \<Rightarrow> [p]"] exI[of _ qs]) simp
qed

lemma takes_pairs_leaves: "list_all (\<lambda>l. CHR ''.'' \<in> set l) ls \<Longrightarrow> takes_pairs (form_leaves ls)"
proof (induction ls)
  case Nil
  then show ?case by (auto simp: takes_pairs_def)
next
  case (Cons l ls)
  then obtain a b rest where ab: "Split CHR ''.'' l = a # b # rest" using Split_two[of "CHR ''.''" l] by auto
  show ?case unfolding takes_pairs_def
  proof (intro allI impI)
    fix ps assume "distinct_plain ps"
    from formTablePair_coded[OF this] obtain qs tp where 1: "formTablePair a b (coded ps) = Inr (tp, coded qs)"
      "distinct_plain qs" "mset (map sent_pair ps) = mset (map sent_pair qs) + mset (case tp of None \<Rightarrow> [] | Some p \<Rightarrow> [p])"
      by blast
    from Cons 1(2) obtain tps rs where 2: "form_leaves ls (coded qs) = Inr (tps, coded rs)" "distinct_plain rs"
      "mset (map sent_pair qs) = mset (map sent_pair rs) + mset tps" by (auto simp: takes_pairs_def)
    have "form_leaves (l # ls) (coded ps) = Inr (case tp of None \<Rightarrow> tps | Some p \<Rightarrow> p # tps, coded rs)"
      using ab 1(1) 2(1) by simp
    with 1(3) 2(2,3) show "\<exists>tps qs. form_leaves (l # ls) (coded ps) = Inr (tps, coded qs) \<and> distinct_plain qs \<and>
        mset (map sent_pair ps) = mset (map sent_pair qs) + mset tps"
      by (intro exI[of _ "case tp of None \<Rightarrow> tps | Some p \<Rightarrow> p # tps"] exI[of _ rs]) (simp split: option.splits)
  qed
qed

lemma after_statement_takes:
  assumes "qualified_leaves pm"
  shows "takes_pairs (after_statement gp7 pm st)"
proof -
  have "takes_pairs (lookupSourceTables gp7 (st_Schema st) (st_Name st) pm)"
  proof (cases "if gp7 then None else go_get pm (fqn (st_Schema st) (st_Name st))")
    case None
    then show ?thesis
      using takes_pairs_single[of "st_Schema st" "st_Name st"] by (simp add: lookupSourceTables_def[abs_def])
  next
    case (Some ls)
    then have "go_get pm (fqn (st_Schema st) (st_Name st)) = Some ls" by (simp split: if_splits)
    from map_of_SomeD[OF this] have "list_all (\<lambda>l. CHR ''.'' \<in> set l) ls" using assms by (auto simp: qualified_leaves_def list_all_iff)
    from takes_pairs_leaves[OF this] Some show ?thesis by (simp add: lookupSourceTables_def[abs_def])
  qed
  then show ?thesis using takes_pairs_none unfolding after_statement_def takes_pairs_def by simp
qed

lemma rmap_all: "(\<And>x. x \<in> set xs \<Longrightarrow> f x = Inr (g x)) \<Longrightarrow> rmap f xs = Inr (map g xs)"
  by (induction xs) simp_all

lemma RestoreCleanup_coded:
  assumes "distinct_plain ps" and "mset entries = mset (coded ps)"
  shows "\<exists>tps. RestoreCleanup entries = Inr tps \<and> mset tps = mset (map sent_pair ps)"
proof -
  define g where "g = (\<lambda>e. case cleanup_pair e of Inr p \<Rightarrow> p | Inl _ \<Rightarrow> undefined)"
  have one: "cleanup_pair (dest_fqn p, encode_source (fst p)) = Inr (sent_pair p)" if "p \<in> set ps" for p
  proof -
    have pl: "plain_pair p" using assms(1) that by (simp add: distinct_plain_def list_all_iff)
    then have "Split CHR ''.'' (dest_fqn p) = [Schema (snd p), Name (snd p)]"
      unfolding dest_fqn_def by (intro Split_fqn) (simp_all add: plain_pair_def no_dot_def)
    with decode_encode[of "fst p"] pl show ?thesis by (simp add: cleanup_pair_def sent_pair_def plain_pair_def)
  qed
  have "set entries = set (coded ps)" using assms(2) by (rule mset_eq_setD)
  then have "cleanup_pair e = Inr (g e)" if "e \<in> set entries" for e
    using that one by (auto simp: coded_def g_def)
  then have "RestoreCleanup entries = Inr (map g entries)" unfolding RestoreCleanup_def by (intro rmap_all)
  moreover have "mset (map g entries) = mset (map sent_pair ps)"
  proof -
    have "mset (map g entries) = mset (map g (coded ps))" using assms(2) by simp
    also have "map g (coded ps) = map sent_pair ps" using one by (simp add: coded_def g_def)
    finally show ?thesis .
  qed
  ultimately show ?thesis by blast
qed


section \<open>Properties of the restore\<close>

definition tables_inv :: "(Table \<times> Table) list \<Rightarrow> restore_state \<Rightarrow> bool" where
  "tables_inv ps s \<longleftrightarrow> (\<exists>qs. tabMap s = coded qs \<and> distinct_plain qs \<and>
     mset (map sent_pair ps) = mset (map sent_pair qs) + mset (tablec s))"

lemma tables_inv_step:
  assumes "restore_step gp7 pm deps n stmts s t" and "tables_inv ps s" and "qualified_leaves pm"
  shows "tables_inv ps t"
  using assms(1)
proof (cases rule: restore_step.cases)
  case (executeStatementsForDependentObject i tps tm r)
  from assms(2) obtain qs where qs: "tabMap s = coded qs" "distinct_plain qs"
    "mset (map sent_pair ps) = mset (map sent_pair qs) + mset (tablec s)" by (auto simp: tables_inv_def)
  from after_statement_takes[OF assms(3), of gp7 "stmts ! i"] qs(2)
  obtain tps' rs where "after_statement gp7 pm (stmts ! i) (coded qs) = Inr (tps', coded rs)" "distinct_plain rs"
    "mset (map sent_pair qs) = mset (map sent_pair rs) + mset tps'" unfolding takes_pairs_def by blast
  with qs executeStatementsForDependentObject(1,3) show ?thesis
    by (auto simp: tables_inv_def intro!: exI[of _ rs])
qed (use assms(2) in \<open>auto simp: tables_inv_def\<close>)

text \<open>
  Claim C6. Every table of the table map is sent to the copy workers exactly once, for tables with
  distinct destination names and without a dot in a schema or table name, row counts of 64 bits
  and leaf partitions recorded with their schema: for every list of statements and every
  interleaving of the restore of the dependent objects, the pairs sent by then, together with
  those \<open>RestoreCleanup\<close> sends for what is left in the map (in any order), are exactly the pairs
  of source and destination tables, with the row counts and replication flags of the sources. The
  names of the statements are arbitrary. A table whose quoted name has a dot is cut at the wrong
  place (\<open>dotted_name_cut\<close> below).
\<close>

theorem tables_sent_once:
  assumes "FormUserTableMap srcs dests = Inr tm" and "length srcs = length dests"
    and "distinct_plain (zip srcs dests)" and "qualified_leaves pm"
    and "restoring.reachable tm gp7 pm deps n stmts s" and "mset entries = mset (tabMap s)"
  shows "\<exists>rest. RestoreCleanup entries = Inr rest \<and>
    mset (tablec s @ rest) = mset (map sent_pair (zip srcs dests))"
proof -
  let ?ps = "zip srcs dests"
  have tm: "tm = coded ?ps"
    using FormUserTableMap_coded[of srcs dests] assms(1-3) by (simp add: distinct_plain_def)
  have "tables_inv ?ps s"
  proof (rule restoring.invariant_holds[OF assms(5)])
    fix s assume "s = ExecuteDependentStatements tm"
    then show "tables_inv ?ps s" using assms(3) tm by (auto simp: tables_inv_def ExecuteDependentStatements_def)
  qed (use tables_inv_step[OF _ _ assms(4)] in blast)
  then obtain qs where qs: "tabMap s = coded qs" "distinct_plain qs"
    "mset (map sent_pair ?ps) = mset (map sent_pair qs) + mset (tablec s)" by (auto simp: tables_inv_def)
  from RestoreCleanup_coded[OF qs(2)] assms(6) qs(1) obtain rest where
    "RestoreCleanup entries = Inr rest" "mset rest = mset (map sent_pair qs)" by auto
  with qs(3) show ?thesis by (auto simp: add.commute)
qed

definition demo_tab :: "string \<Rightarrow> Table" where
  "demo_tab n = \<lparr>Schema = ''s'', Name = n, Partition = 0, RelTuples = 7, IsReplicated = True\<rparr>"

definition demo_create :: "string \<Rightarrow> string \<Rightarrow> StatementWithType" where
  "demo_create ty n = \<lparr>st_Schema = ''s'', st_Name = n, st_ObjectType = ty, st_ReferenceObject = [],
     Statement = ''CREATE'', ClassOID = 0, st_Oid = 0\<rparr>"

lemma demo_table_map:
  "distinct_plain (zip [demo_tab ''a'', demo_tab ''b''] [demo_tab ''c'', demo_tab ''d''])"
  "FormUserTableMap [demo_tab ''a'', demo_tab ''b''] [demo_tab ''c'', demo_tab ''d''] =
     Inr (coded (zip [demo_tab ''a'', demo_tab ''b''] [demo_tab ''c'', demo_tab ''d'']))"
proof -
  let ?s = "[demo_tab ''a'', demo_tab ''b'']" and ?d = "[demo_tab ''c'', demo_tab ''d'']"
  show dp: "distinct_plain (zip ?s ?d)"
    by (simp add: distinct_plain_def dest_fqn_def fqn_def demo_tab_def plain_pair_def plain_table_def no_dot_def)
  show "FormUserTableMap ?s ?d = Inr (coded (zip ?s ?d))"
    by (rule FormUserTableMap_coded) (use dp in \<open>simp_all add: distinct_plain_def\<close>)
qed

text \<open>A run that executes a function whose name has dots and the table \<open>s.c\<close>; \<open>s.d\<close> stays in the map.\<close>

lemma demo_table_run:
  defines "sts \<equiv> [demo_create ''FUNCTION'' ''f(s.t, s.u)'', demo_create ''TABLE'' ''c'']"
    and "tm \<equiv> coded (zip [demo_tab ''a'', demo_tab ''b''] [demo_tab ''c'', demo_tab ''d''])"
  shows "\<exists>s. restoring.reachable tm True [] [] 1 sts s \<and> finished s = [0, 1] \<and>
    tablec s = [sent_pair (demo_tab ''a'', demo_tab ''c'')] \<and> tabMap s = coded [(demo_tab ''b'', demo_tab ''d'')]"
proof -
  let ?tm' = "coded [(demo_tab ''b'', demo_tab ''d'')]"
  have f: "after_statement True [] (sts ! 0) tm = Inr ([], tm)"
    by (simp add: sts_def after_statement_def demo_create_def)
  have t: "after_statement True [] (sts ! 1) tm = Inr ([sent_pair (demo_tab ''a'', demo_tab ''c'')], ?tm')"
    using decode_encode[of "demo_tab ''a''"]
    by (simp add: sts_def after_statement_def demo_create_def lookupSourceTables_def formTablePair_def tm_def coded_def
        dest_fqn_def demo_tab_def fqn_def sent_pair_def plain_table_def no_dot_def)
  let ?step = "restore_step True [] [] 1 sts"
  let ?s0 = "ExecuteDependentStatements tm"
  let ?sched = "\<lambda>s. s\<lparr>runningTasks := go_set (next_stmt s) (sts ! next_stmt s) (runningTasks s),
         tasks := tasks s @ [next_stmt s], next_stmt := Suc (next_stmt s)\<rparr>"
  let ?exec = "\<lambda>i tps m s. s\<lparr>executing := remove1 i (executing s), counts := note_result (sts ! i) (Inr 0) (counts s), tabMap := m,
         tablec := tablec s @ tps, runningTasks := go_delete i (runningTasks s), finished := finished s @ [i]\<rparr>"
  let ?take = "\<lambda>i s. s\<lparr>tasks := [], executing := i # executing s\<rparr>"
  let ?s3 = "?exec 0 [] tm (?take 0 (?sched ?s0))"
  let ?s6 = "?exec 1 [sent_pair (demo_tab ''a'', demo_tab ''c'')] ?tm' (?take 1 (?sched ?s3))"
  note [simp] = ExecuteDependentStatements_def shouldScheduleStatement_def
  have len: "length sts = 2" by (simp add: sts_def)
  note sched = restore_step.scheduleStatements[of _ sts "[]" 1 True "[]"]
  note take = restore_step.take_task[of _ _ "[]" 1 True "[]" "[]" sts]
  note exec = restore_step.executeStatementsForDependentObject[of _ _ True "[]" sts _ _ "[]" 1 "Inr 0"]
  let ?run = "restoring.reachable tm True [] [] 1 sts"
  have "?run ?s0" by (rule restoring.reach_init) simp
  then have "?run (?sched ?s0)" by (rule restoring.reach_step) (rule sched; simp add: len)
  then have "?run (?take 0 (?sched ?s0))" by (rule restoring.reach_step) (rule take; simp)
  then have "?run ?s3" by (rule restoring.reach_step) (rule exec; simp add: f)
  then have "?run (?sched ?s3)" by (rule restoring.reach_step) (rule sched; simp add: len)
  then have "?run (?take 1 (?sched ?s3))" by (rule restoring.reach_step) (rule take; simp)
  then have "?run ?s6" by (rule restoring.reach_step) (rule exec; simp add: t[simplified])
  then show ?thesis by (intro exI[of _ ?s6]) simp
qed

theorem tables_sent_once_witness:
  "\<exists>s rest. restoring.reachable (coded (zip [demo_tab ''a'', demo_tab ''b''] [demo_tab ''c'', demo_tab ''d''])) True [] [] 1
       [demo_create ''FUNCTION'' ''f(s.t, s.u)'', demo_create ''TABLE'' ''c''] s \<and>
     tablec s = [sent_pair (demo_tab ''a'', demo_tab ''c'')] \<and> RestoreCleanup (tabMap s) = Inr rest \<and>
     mset (tablec s @ rest) = mset (map sent_pair (zip [demo_tab ''a'', demo_tab ''b''] [demo_tab ''c'', demo_tab ''d'']))"
proof -
  from demo_table_run obtain s where
    s: "restoring.reachable (coded (zip [demo_tab ''a'', demo_tab ''b''] [demo_tab ''c'', demo_tab ''d''])) True [] [] 1
      [demo_create ''FUNCTION'' ''f(s.t, s.u)'', demo_create ''TABLE'' ''c''] s"
    "tablec s = [sent_pair (demo_tab ''a'', demo_tab ''c'')]" by blast
  have "qualified_leaves []" by (simp add: qualified_leaves_def)
  from tables_sent_once[OF demo_table_map(2) _ demo_table_map(1) this s(1) refl] s show ?thesis
    unfolding length_Cons by blast
qed

text \<open>
  What the encoding does to a dot in a table name: the quoted name is cut, and the row count is lost.
\<close>

lemma dotted_name_cut:
  "rbind (FormUserTableMap [demo_tab ''x.y''] [demo_tab ''x.y'']) RestoreCleanup =
     Inr [\<lparr>SrcTable = (demo_tab ''x'')\<lparr>RelTuples := 0, IsReplicated := False\<rparr>, DestTable = mkTable ''s'' ''x''\<rparr>]"
  by code_simp

text \<open>
  Claim C7. The scheduler respects the dependencies between statements, for every dependency map and
  every interleaving: when a worker executes a statement, every earlier statement on which it
  depends has been finished, and never are more statements running than there are connections.
\<close>

theorem dependencies_respected:
  assumes "restoring.reachable tm gp7 pm deps n stmts s" and "i \<in> set (executing s)" and "j < i"
    and "uid_dep deps (stmts ! i) (stmts ! j)"
  shows "j \<in> set (finished s) \<and> length (runningTasks s) \<le> n"
proof -
  have "sched_inv deps n stmts s"
    by (rule restoring.invariant_holds[OF assms(1)]) (use sched_inv_init sched_inv_step in blast)+
  with assms(2-4) show ?thesis unfolding sched_inv_def by blast
qed

definition demo_stmt :: "string \<Rightarrow> 32 word \<Rightarrow> StatementWithType" where
  "demo_stmt n oid = \<lparr>st_Schema = ''s'', st_Name = n, st_ObjectType = ''VIEW'', st_ReferenceObject = [],
     Statement = n, ClassOID = 1259, st_Oid = oid\<rparr>"

definition demo_stmts :: "StatementWithType list" where
  "demo_stmts = [demo_stmt ''a'' 1, demo_stmt ''b'' 2]"

definition demo_deps :: DependencyMap where
  "demo_deps = [(\<lparr>ClassID = 1259, Oid = 2\<rparr>, [(\<lparr>ClassID = 1259, Oid = 1\<rparr>, True)])]"

lemma demo_restore_run:
  "\<exists>s. restoring.reachable [] True [] demo_deps 2 demo_stmts s \<and> executing s = [1]"
proof -
  note [simp] = ExecuteDependentStatements_def demo_stmts_def demo_stmt_def shouldScheduleStatement_def after_statement_def
    isDependentStatementRunning_def demo_deps_def uid_of_def go_get0_def go_has_def
  let ?s0 = "ExecuteDependentStatements []"
  let ?run = "restoring.reachable [] True [] demo_deps 2 demo_stmts"
  let ?sched = "\<lambda>s. s\<lparr>runningTasks := go_set (next_stmt s) (demo_stmts ! next_stmt s) (runningTasks s),
         tasks := tasks s @ [next_stmt s], next_stmt := Suc (next_stmt s)\<rparr>"
  let ?s1 = "?sched ?s0"
  let ?s2 = "?s1\<lparr>tasks := [], executing := [0]\<rparr>"
  let ?s3 = "?s2\<lparr>executing := remove1 0 (executing ?s2), counts := note_result (demo_stmts ! 0) (Inr 0) (counts ?s2), tabMap := [],
         tablec := tablec ?s2 @ [], runningTasks := go_delete 0 (runningTasks ?s2), finished := finished ?s2 @ [0]\<rparr>"
  let ?s4 = "?sched ?s3"
  let ?s5 = "?s4\<lparr>tasks := [], executing := [1]\<rparr>"
  have "?run ?s0" by (rule restoring.reach_init) simp
  then have "?run ?s1" by (rule restoring.reach_step) (rule scheduleStatements, simp_all)
  then have "?run ?s2" by (rule restoring.reach_step) (use take_task[of ?s1 0 "[]" 2 True "[]" demo_deps demo_stmts] in simp)
  then have "?run ?s3" by (rule restoring.reach_step) (rule executeStatementsForDependentObject, simp_all)
  then have "?run ?s4" by (rule restoring.reach_step) (rule scheduleStatements, simp_all)
  then have "?run ?s5" by (rule restoring.reach_step) (use take_task[of ?s4 1 "[]" 2 True "[]" demo_deps demo_stmts] in simp)
  then show ?thesis by (intro exI[of _ ?s5]) simp
qed

theorem dependencies_respected_witness:
  "\<exists>s. restoring.reachable [] True [] demo_deps 2 demo_stmts s \<and> executing s = [1] \<and> 0 \<in> set (finished s)"
proof -
  obtain s where s: "restoring.reachable [] True [] demo_deps 2 demo_stmts s" "executing s = [1]"
    using demo_restore_run by blast
  have "uid_dep demo_deps (demo_stmts ! 1) (demo_stmts ! 0)"
    by (simp add: uid_dep_def demo_deps_def demo_stmts_def demo_stmt_def uid_of_def go_get0_def go_has_def)
  with dependencies_respected[OF s(1), of 1 0] s show ?thesis by auto
qed


section \<open>The restore as a sequential program\<close>

text \<open>
  The specification: the statements one after the other, in the order of the metadata file, on one
  connection.
\<close>

record seq_state =
  seq_done :: nat
  seq_counts :: exec_state
  seq_map :: "(string, string) gomap"
  seq_sent :: "TablePair list"

inductive seq_step :: "bool \<Rightarrow> (string, string list) gomap \<Rightarrow> StatementWithType list \<Rightarrow> seq_state \<Rightarrow> seq_state \<Rightarrow> bool"
  for gp7 pm stmts where
  "seq_done s < length stmts \<Longrightarrow> after_statement gp7 pm (stmts ! seq_done s) (seq_map s) = Inr (tps, tm) \<Longrightarrow>
   seq_step gp7 pm stmts s (s\<lparr>seq_done := Suc (seq_done s), seq_counts := note_result (stmts ! seq_done s) r (seq_counts s),
     seq_map := tm, seq_sent := seq_sent s @ tps\<rparr>)"

definition observed :: "restore_state \<Rightarrow> seq_state" where
  "observed s = \<lparr>seq_done = length (finished s), seq_counts = counts s, seq_map = tabMap s, seq_sent = tablec s\<rparr>"

definition no_oid :: "StatementWithType \<Rightarrow> bool" where
  "no_oid st \<longleftrightarrow> ClassOID st = 0 \<and> st_Oid st = 0"

definition serial_inv :: "DependencyMap \<Rightarrow> nat \<Rightarrow> StatementWithType list \<Rightarrow> restore_state \<Rightarrow> bool" where
  "serial_inv deps n stmts s \<longleftrightarrow> sched_inv deps n stmts s \<and> list_all no_oid stmts \<and>
     length (runningTasks s) \<le> 1 \<and> finished s = [0..<length (finished s)]"

lemma serial_next:
  assumes "serial_inv deps n stmts s" and "i \<in> set (executing s)"
  shows "i = length (finished s) \<and> i < length stmts"
proof -
  let ?m = "length (finished s)"
  have inv: "sched_inv deps n stmts s" and fin: "finished s = [0..<?m]" using assms(1) by (simp_all add: serial_inv_def)
  have keys: "set (go_keys (runningTasks s)) = set (executing s) \<union> set (tasks s)" using inv by (simp add: sched_inv_def)
  have "card (set (go_keys (runningTasks s))) \<le> 1"
    using assms(1) card_length[of "go_keys (runningTasks s)"] by (simp add: serial_inv_def)
  then have one: "set (executing s) \<union> set (tasks s) = {i}"
  proof -
    have "\<forall>x \<in> set (go_keys (runningTasks s)). \<forall>y \<in> set (go_keys (runningTasks s)). x = y"
      using \<open>card (set (go_keys (runningTasks s))) \<le> 1\<close> card_le_Suc0_iff_eq[OF List.finite_set] by (metis One_nat_def)
    then show ?thesis using assms(2) unfolding keys by blast
  qed
  have "set (finished s) \<union> {i} = {..<next_stmt s}"
    using sched_inv_members(1)[OF inv] one by (simp add: Un_assoc)
  then have mem: "{..<?m} \<union> {i} = {..<next_stmt s}" using fin by (metis atLeast0LessThan set_upt)
  have "i \<notin> set (finished s)" using sched_inv_members(2)[OF inv] assms(2) by auto
  then have "?m \<le> i" using fin by (metis atLeastLessThan_iff not_le set_upt zero_le)
  moreover have "i \<le> ?m"
  proof (rule ccontr)
    assume "\<not> i \<le> ?m"
    moreover have "i \<in> {..<next_stmt s}" using mem by blast
    ultimately have "?m \<in> {..<next_stmt s}" by simp
    then have "?m \<in> {..<?m} \<union> {i}" unfolding mem .
    with \<open>\<not> i \<le> ?m\<close> show False by simp
  qed
  ultimately show ?thesis using executing_bound[OF inv assms(2)] by simp
qed

lemma serial_inv_step:
  assumes "serial_inv deps n stmts s" and "restore_step gp7 pm deps n stmts s t"
  shows "serial_inv deps n stmts t"
proof -
  have inv: "sched_inv deps n stmts t" using sched_inv_step[OF assms(2)] assms(1) by (simp add: serial_inv_def)
  from assms(2) show ?thesis
  proof (cases rule: restore_step.cases)
    case scheduleStatements
    have "runningTasks s = []"
    proof (cases "runningTasks s")
      case (Cons p ps)
      obtain i st where p: "p = (i, st)" by fastforce
      have "(i, st) \<in> set (runningTasks s)" using Cons p by simp
      then have "st = stmts ! i" "i < next_stmt s"
        using running_entry[of deps n stmts s] assms(1) by (simp_all add: serial_inv_def)
      then have "no_oid st" "no_oid (stmts ! next_stmt s)"
        using assms(1) scheduleStatements(2) by (simp_all add: serial_inv_def list_all_length)
      with scheduleStatements(3) Cons p show ?thesis by (simp add: shouldScheduleStatement_def no_oid_def Let_def)
    qed simp
    with assms(1) inv scheduleStatements(1) show ?thesis by (simp add: serial_inv_def)
  next
    case (take_task i "is")
    with assms(1) inv show ?thesis by (simp add: serial_inv_def)
  next
    case (executeStatementsForDependentObject i tps tm r)
    from serial_next[OF assms(1) executeStatementsForDependentObject(2)] have "i = length (finished s)" by blast
    moreover have "length (go_delete i (runningTasks s)) \<le> length (runningTasks s)" by (rule length_delete_le)
    ultimately show ?thesis
      using assms(1) inv executeStatementsForDependentObject(1) unfolding serial_inv_def
      by (auto intro: le_trans)
  qed
qed


interpretation serial: refinement "\<lambda>s. s = ExecuteDependentStatements tm \<and> list_all no_oid stmts"
    "restore_step gp7 pm deps n stmts"
    "\<lambda>a. a = observed (ExecuteDependentStatements tm)" "seq_step gp7 pm stmts" observed "serial_inv deps n stmts"
  for tm gp7 pm deps n stmts
proof
  fix s t
  show "s = ExecuteDependentStatements tm \<and> list_all no_oid stmts \<Longrightarrow> serial_inv deps n stmts s"
    using sched_inv_init by (simp add: serial_inv_def ExecuteDependentStatements_def)
  show "serial_inv deps n stmts s \<Longrightarrow> restore_step gp7 pm deps n stmts s t \<Longrightarrow> serial_inv deps n stmts t"
    by (rule serial_inv_step)
  show "s = ExecuteDependentStatements tm \<and> list_all no_oid stmts \<Longrightarrow> observed s = observed (ExecuteDependentStatements tm)"
    by simp
  assume inv: "serial_inv deps n stmts s" and st: "restore_step gp7 pm deps n stmts s t"
  from st show "seq_step gp7 pm stmts (observed s) (observed t) \<or> observed t = observed s"
  proof (cases rule: restore_step.cases)
    case (executeStatementsForDependentObject i tps tm' r)
    with serial_next[OF inv executeStatementsForDependentObject(2)]
      seq_step.intros[of "observed s" stmts gp7 pm tps tm' r] show ?thesis by (simp add: observed_def)
  qed (simp_all add: observed_def)
qed

text \<open>
  Claim C8. The statements read through the table of contents carry no object numbers, and for such
  statements the parallel restore of dependent objects is the sequential program: whatever the
  number of connections and the interleaving, at most one statement is running, the statements
  finish in the order of the metadata file, and counters, table map and sent tables are those of
  a sequential run.
\<close>

theorem restore_is_sequential:
  assumes "GetSQLStatementForObjectTypes toc sec file inT exT inS exS inR exR = Inr stmts"
    and "restoring.reachable tm gp7 pm deps n stmts s"
  shows "length (runningTasks s) \<le> 1 \<and> finished s = [0..<length (finished s)] \<and>
    (seq_step gp7 pm stmts)\<^sup>*\<^sup>* (observed (ExecuteDependentStatements tm)) (observed s)"
proof -
  have "list_all no_oid stmts"
    using statements_have_no_oids[OF assms(1)] by (simp add: no_oid_def[abs_def])
  then have reach: "serial.conc.reachable tm stmts gp7 pm deps n s" using assms(2) by simp
  have "(seq_step gp7 pm stmts)\<^sup>*\<^sup>* (observed (ExecuteDependentStatements tm)) a" if "serial.spec.reachable tm gp7 pm stmts a" for a
    using that by (induction rule: serial.spec.reachable.induct) (auto intro: rtranclp.rtrancl_into_rtrancl)
  with serial.reachable_obs[OF reach] serial.reachable_inv[OF reach] show ?thesis by (simp add: serial_inv_def)
qed


definition demo_toc :: TOC where
  "demo_toc = empty_TOC\<lparr>PredataEntries := [(demo_entry ''v'' ''VIEW'')\<lparr>EndByte := 2\<rparr>]\<rparr>"

lemma demo_toc_statements:
  "GetSQLStatementForObjectTypes demo_toc ''predata'' ''ab'' [] [] [] [] [] [] = Inr [statement_of (demo_entry ''v'' ''VIEW'') ''ab'']"
  unfolding no_filter_selects
  by (simp add: demo_toc_def section_entries_def selects_def demo_entry_def ReadAt_def statement_of_def)

theorem restore_is_sequential_witness:
  "\<exists>s. restoring.reachable [] True [] demo_deps 2 [statement_of (demo_entry ''v'' ''VIEW'') ''ab''] s \<and>
     length (runningTasks s) = 1 \<and> finished s = [0..<length (finished s)]"
proof -
  let ?st = "[statement_of (demo_entry ''v'' ''VIEW'') ''ab'']"
  let ?s0 = "ExecuteDependentStatements []"
  let ?s1 = "?s0\<lparr>runningTasks := go_set (next_stmt ?s0) (?st ! next_stmt ?s0) (runningTasks ?s0),
         tasks := tasks ?s0 @ [next_stmt ?s0], next_stmt := Suc (next_stmt ?s0)\<rparr>"
  have "restoring.reachable [] True [] demo_deps 2 ?st ?s0" by (rule restoring.reach_init) simp
  then have r: "restoring.reachable [] True [] demo_deps 2 ?st ?s1"
    by (rule restoring.reach_step)
      (rule scheduleStatements, simp_all add: ExecuteDependentStatements_def shouldScheduleStatement_def)
  have "length (runningTasks ?s1) = 1" by (simp add: ExecuteDependentStatements_def)
  with restore_is_sequential[OF demo_toc_statements r] r show ?thesis by blast
qed

section \<open>Progress of the restore\<close>

definition work_left :: "StatementWithType list \<Rightarrow> restore_state \<Rightarrow> nat" where
  "work_left stmts s = 3 * (length stmts - next_stmt s) + 2 * length (tasks s) + length (executing s)"

lemma work_left_step:
  assumes "restore_step gp7 pm deps n stmts s t"
  shows "work_left stmts s = Suc (work_left stmts t)"
  using assms
proof (cases rule: restore_step.cases)
  case (executeStatementsForDependentObject i tps tm r)
  have "0 < length (executing s)" using executeStatementsForDependentObject(2) by (cases "executing s") auto
  then show ?thesis using executeStatementsForDependentObject(1,2) by (simp add: work_left_def length_remove1)
qed (simp_all add: work_left_def)

text \<open>
  No operation on the table map fails: whatever the names are, a value of the map has at least three
  parts and a key at least two.
\<close>

definition decodable :: "(string, string) gomap \<Rightarrow> bool" where
  "decodable tm \<longleftrightarrow> list_all (\<lambda>(k, v). 1 \<le> count_list k CHR ''.'' \<and> 2 \<le> count_list v CHR ''.'') tm"

lemma decode_source_returns:
  assumes "2 \<le> count_list v CHR ''.''"
  shows "\<exists>t. decode_source v = Inr t"
proof -
  obtain a b c rest where "Split CHR ''.'' v = a # b # c # rest"
    using assms length_Split[of "CHR ''.''" v] by (metis One_nat_def Suc_le_length_iff Suc_le_mono numeral_2_eq_2)
  then show ?thesis by (simp add: decode_source_def)
qed

lemma decodable_member: "decodable tm \<Longrightarrow> go_get tm k = Some v \<Longrightarrow> \<exists>t. decode_source v = Inr t"
  by (rule decode_source_returns) (auto simp: decodable_def list_all_iff dest: map_of_SomeD)

lemma decodable_delete: "decodable tm \<Longrightarrow> decodable (go_delete k tm)"
  using set_go_delete[of k tm] unfolding decodable_def list_all_iff by blast

lemma FormUserTableMap_loop_decodable:
  "FormUserTableMap_loop ts dests i m = Inr tm \<Longrightarrow> decodable m \<Longrightarrow> decodable tm"
proof (induction ts arbitrary: i m)
  case (Cons t ts)
  then obtain d where "go_index dests i = Inr d" by (auto simp: rbind_Inr_iff)
  with Cons.prems(1) have d: "FormUserTableMap_loop ts dests (Suc i) (go_set (fqn (Schema d) (Name d)) (encode_source t) m) = Inr tm"
    by (simp add: encode_source_def)
  have "decodable (go_set (fqn (Schema d) (Name d)) (encode_source t) m)"
    using Cons.prems(2) set_go_set[of "fqn (Schema d) (Name d)" "encode_source t" m]
    by (fastforce simp: decodable_def list_all_iff fqn_def encode_source_def)
  from Cons.IH[OF d this] show ?case .
qed simp

lemma FormUserTableMap_decodable: "FormUserTableMap srcs dests = Inr tm \<Longrightarrow> decodable tm"
  using FormUserTableMap_loop_decodable[of srcs dests 0 "[]" tm] by (simp add: FormUserTableMap_def decodable_def)

lemma formTablePair_returns:
  assumes "decodable tm"
  shows "\<exists>tp tm'. formTablePair s n tm = Inr (tp, tm') \<and> decodable tm'"
  using assms decodable_member[OF assms, of "fqn s n"] decodable_delete[OF assms, of "fqn s n"]
  by (cases "go_get tm (fqn s n)") (auto simp: formTablePair_def)

lemma form_leaves_returns:
  "list_all (\<lambda>l. CHR ''.'' \<in> set l) ls \<Longrightarrow> decodable tm \<Longrightarrow> \<exists>tps tm'. form_leaves ls tm = Inr (tps, tm') \<and> decodable tm'"
proof (induction ls arbitrary: tm)
  case (Cons l ls)
  obtain a b rest where ab: "Split CHR ''.'' l = a # b # rest" using Cons.prems(1) Split_two[of "CHR ''.''" l] by auto
  obtain tp tm1 where 1: "formTablePair a b tm = Inr (tp, tm1)" "decodable tm1" using formTablePair_returns[OF Cons.prems(2)] by blast
  obtain tps tm2 where "form_leaves ls tm1 = Inr (tps, tm2)" "decodable tm2" using Cons.IH[OF _ 1(2)] Cons.prems(1) by auto
  with ab 1(1) show ?case by simp
qed simp

lemma after_statement_returns:
  assumes "qualified_leaves pm" and "decodable tm"
  shows "\<exists>tps tm'. after_statement gp7 pm st tm = Inr (tps, tm') \<and> decodable tm'"
proof -
  obtain tp tm1 where 1: "formTablePair (st_Schema st) (st_Name st) tm = Inr (tp, tm1)" "decodable tm1"
    using formTablePair_returns[OF assms(2)] by blast
  have 2: "\<exists>tps tm'. form_leaves ls tm = Inr (tps, tm') \<and> decodable tm'"
    if "go_get pm (fqn (st_Schema st) (st_Name st)) = Some ls" for ls
    using form_leaves_returns[OF _ assms(2), of ls] map_of_SomeD[OF that] assms(1) by (auto simp: qualified_leaves_def list_all_iff)
  from 1 2 assms(2) show ?thesis by (auto simp: after_statement_def lookupSourceTables_def split: option.splits)
qed

lemma decodable_step:
  assumes "restore_step gp7 pm deps n stmts s t" and "qualified_leaves pm" and "decodable (tabMap s)"
  shows "decodable (tabMap t)"
  using assms(1)
proof (cases rule: restore_step.cases)
  case (executeStatementsForDependentObject i tps tm r)
  with after_statement_returns[OF assms(2,3), of gp7 "stmts ! i"] show ?thesis by auto
qed (use assms(3) in simp_all)

lemma RestoreCleanup_returns:
  assumes "decodable tm"
  shows "\<exists>rest. RestoreCleanup tm = Inr rest"
  using assms unfolding RestoreCleanup_def
proof (induction tm)
  case (Cons e tm)
  obtain k v where e: "e = (k, v)" by fastforce
  with Cons.prems have kv: "1 \<le> count_list k CHR ''.''" "2 \<le> count_list v CHR ''.''" by (simp_all add: decodable_def)
  obtain a b rest where "Split CHR ''.'' k = a # b # rest"
    using Split_two[of "CHR ''.''" k] kv(1) by (metis count_notin not_one_le_zero)
  with decode_source_returns[OF kv(2)] have "\<exists>p. cleanup_pair e = Inr p" by (auto simp: cleanup_pair_def e)
  moreover obtain rest where "rmap cleanup_pair tm = Inr rest" using Cons by (auto simp: decodable_def)
  ultimately show ?case by auto
qed simp

lemma not_stuck:
  assumes "sched_inv deps n stmts s" and "decodable (tabMap s)" and "0 < n" and "0 < work_left stmts s"
    and "qualified_leaves pm"
  shows "\<exists>t. restore_step gp7 pm deps n stmts s t"
proof (cases "executing s")
  case (Cons i "is")
  then have i: "i \<in> set (executing s)" by simp
  obtain tps m where "after_statement gp7 pm (stmts ! i) (tabMap s) = Inr (tps, m)"
    using after_statement_returns[OF assms(5,2)] by blast
  with restore_step.executeStatementsForDependentObject[OF i] show ?thesis by blast
next
  case Nil
  show ?thesis
  proof (cases "tasks s")
    case (Cons i "is")
    with Nil assms(3) have "restore_step gp7 pm deps n stmts s (s\<lparr>tasks := is, executing := i # executing s\<rparr>)"
      by (intro restore_step.take_task) simp_all
    then show ?thesis by blast
  next
    case tasks: Nil
    then have "set (go_keys (runningTasks s)) = {}" using Nil assms(1) by (simp add: sched_inv_def)
    then have "runningTasks s = []" by simp
    moreover have "next_stmt s < length stmts" using assms(4) Nil tasks by (simp add: work_left_def)
    ultimately show ?thesis
      using restore_step.scheduleStatements[of s stmts deps n gp7 pm] assms(3) by (auto simp: shouldScheduleStatement_def)
  qed
qed

text \<open>
  Claim C9. The restore of dependent objects ends: every run has at most three steps per statement, and
  a run that cannot go on has finished all statements. There is no deadlock between the scheduler
  and the workers, and no table name of the map and no name of a statement, with dots or without,
  makes a worker panic. The table map is the one \<open>FormUserTableMap\<close> builds, the leaf partitions
  are recorded with their schema, and there is at least one connection.
\<close>

theorem restore_terminates:
  assumes "FormUserTableMap srcs dests = Inr tm" and "qualified_leaves pm" and "0 < n"
    and "(restore_step gp7 pm deps n stmts ^^ k) (ExecuteDependentStatements tm) s"
  shows "k \<le> 3 * length stmts \<and>
    ((\<exists>t. restore_step gp7 pm deps n stmts s t) \<or> mset (finished s) = mset [0..<length stmts])"
proof -
  have inv: "sched_inv deps n stmts s \<and> decodable (tabMap s) \<and> k + work_left stmts s = 3 * length stmts"
    using assms(4)
  proof (induction k arbitrary: s)
    case 0
    then have "s = ExecuteDependentStatements tm" by simp
    with FormUserTableMap_decodable[OF assms(1)] sched_inv_init show ?case
      by (simp add: work_left_def ExecuteDependentStatements_def)
  next
    case (Suc k)
    then obtain u where u: "(restore_step gp7 pm deps n stmts ^^ k) (ExecuteDependentStatements tm) u"
      "restore_step gp7 pm deps n stmts u s" by auto
    from Suc.IH[OF u(1)] sched_inv_step[OF u(2)] decodable_step[OF u(2) assms(2)] work_left_step[OF u(2)]
    show ?case by simp
  qed
  show ?thesis
  proof (cases "work_left stmts s")
    case 0
    then have "next_stmt s = length stmts" "tasks s = []" "executing s = []" using inv by (auto simp: work_left_def sched_inv_def)
    then have "mset (finished s) = mset [0..<length stmts]" using inv unfolding sched_inv_def by (metis add.right_neutral mset.simps(1))
    with inv show ?thesis by simp
  next
    case (Suc w)
    with not_stuck[of deps n stmts s pm gp7] inv assms(2,3) show ?thesis by auto
  qed
qed

theorem restore_terminates_witness:
  "\<exists>tm t. FormUserTableMap [demo_tab ''x.y''] [demo_tab ''x.y''] = Inr tm \<and>
     restore_step False [(''s.r'', [''s.x.y''])] demo_deps 2 [demo_create ''TABLE'' ''r'', demo_create ''FUNCTION'' ''f(s.t, s.u)'']
       (ExecuteDependentStatements tm) t"
proof -
  obtain tm where tm: "FormUserTableMap [demo_tab ''x.y''] [demo_tab ''x.y''] = Inr tm"
    by (simp add: FormUserTableMap_def)
  have "qualified_leaves [(''s.r'', [''s.x.y''])]" by (simp add: qualified_leaves_def)
  from restore_terminates[OF tm this, where n = 2 and ?gp7.0 = False and deps = demo_deps and k = 0 and
      stmts = "[demo_create ''TABLE'' ''r'', demo_create ''FUNCTION'' ''f(s.t, s.u)'']" and
      s = "ExecuteDependentStatements tm"] tm show ?thesis
    by (auto simp: ExecuteDependentStatements_def)
qed


section \<open>Selecting the statements to restore\<close>

record Filters =
  f_includeSchemas :: "string list"
  f_excludeSchemas :: "string list"
  f_includeRelations :: "string list"
  f_excludeRelations :: "string list"

definition NewFilters :: "string list \<Rightarrow> string list \<Rightarrow> string list \<Rightarrow> string list \<Rightarrow> Filters" where
  "NewFilters inS exS inR exR = \<lparr>f_includeSchemas = inS, f_excludeSchemas = exS, f_includeRelations = inR, f_excludeRelations = exR\<rparr>"

definition filtersEmpty :: "Filters \<Rightarrow> bool" where
  "filtersEmpty f \<longleftrightarrow> length (f_includeSchemas f) = 0 \<and> length (f_excludeSchemas f) = 0 \<and>
     length (f_includeRelations f) = 0 \<and> length (f_excludeRelations f) = 0"

text \<open>The schemas of the relations are added; a relation without a dot is a slice out of range.\<close>

fun add_relation_schemas :: "string list \<Rightarrow> string list \<Rightarrow> string list res" where
  "add_relation_schemas [] inSchemas = Inr inSchemas"
| "add_relation_schemas (r # rs) inSchemas =
     (case Index r ''.'' of
        None \<Rightarrow> Inl (Panic ''slice bounds out of range'')
      | Some i \<Rightarrow> add_relation_schemas rs (if take i r \<in> set inSchemas then inSchemas else inSchemas @ [take i r]))"

definition GetRestoreMetadataStatementsFiltered :: "TOC \<Rightarrow> string \<Rightarrow> string \<Rightarrow> string list \<Rightarrow> string list \<Rightarrow> Filters \<Rightarrow>
    StatementWithType list res" where
  "GetRestoreMetadataStatementsFiltered toc sec file inT exT f =
     (if filtersEmpty f then GetSQLStatementForObjectTypes toc sec file inT exT [] [] [] []
      else if ''SCHEMA'' \<in> set inT then
        rbind (add_relation_schemas (f_includeRelations f) (f_includeSchemas f)) (\<lambda>inS.
          GetSQLStatementForObjectTypes toc sec file inT exT inS (f_excludeSchemas f) [] [])
      else GetSQLStatementForObjectTypes toc sec file inT exT (f_includeSchemas f) (f_excludeSchemas f)
             (f_includeRelations f) (f_excludeRelations f))"

definition GetRestoreMetadataStatements :: "TOC \<Rightarrow> string \<Rightarrow> string \<Rightarrow> string list \<Rightarrow> string list \<Rightarrow> StatementWithType list res" where
  "GetRestoreMetadataStatements toc sec file inT exT =
     GetRestoreMetadataStatementsFiltered toc sec file inT exT (NewFilters [] [] [] [])"

text \<open>The steps of \<open>restorePredata\<close> in their order, by the object types they include or exclude.\<close>

definition schema_statements :: "string list \<times> string list" where "schema_statements = ([''SCHEMA''], [])"

definition dependent_excludes :: "string list" where
  "dependent_excludes = [''EXTENSION'', ''COLLATION'', ''LANGUAGE'', ''TYPE'', ''OPERATOR FAMILY'', ''SEQUENCE'',
     ''EXCHANGE PARTITION'', ''SEQUENCE OWNER'', ''CONVERSION'', ''CONSTRAINT'', ''SCHEMA'']"

definition predata_steps :: "(string list \<times> string list) list" where
  "predata_steps = [schema_statements, ([''EXTENSION''], []), ([''COLLATION''], []), ([''TYPE''], []),
     ([''OPERATOR FAMILY''], []), ([''SEQUENCE''], []), ([], dependent_excludes), ([''LANGUAGE''], []),
     ([''EXCHANGE PARTITION''], []), ([''SEQUENCE OWNER''], []), ([''CONVERSION''], []), ([''CONSTRAINT''], [])]"

definition restorePredata_statements :: "TOC \<Rightarrow> string \<Rightarrow> StatementWithType list list res" where
  "restorePredata_statements toc file = rmap (\<lambda>(inT, exT). GetRestoreMetadataStatements toc ''predata'' file inT exT) predata_steps"

text \<open>
  \<open>RestoreSchemas\<close>: the edited statements run one after the other on the first connection; errors
  are counted but do not stop it.
\<close>

fun schema_loop :: "'db driver \<Rightarrow> StatementWithType list \<Rightarrow> 'db DBConn \<times> nat \<Rightarrow> ('db DBConn \<times> nat) res" where
  "schema_loop drv [] s = Inr s"
| "schema_loop drv (st # sts) s =
     (case s of (d, errs) \<Rightarrow>
       (case Exec drv (Statement st) [0] d of
          (Inl (Error e), d') \<Rightarrow> schema_loop drv sts (d', if Contains e ''already exists'' then errs else Suc errs)
        | (Inl e, d') \<Rightarrow> Inl e
        | (Inr _, d') \<Rightarrow> schema_loop drv sts (d', errs)))"

definition RestoreSchemas :: "'db driver \<Rightarrow> (string, string) gomap \<Rightarrow> string \<Rightarrow> StatementWithType list \<Rightarrow> 'db DBConn \<Rightarrow>
    ('db DBConn \<times> nat) res" where
  "RestoreSchemas drv redirect incl sts d = schema_loop drv (editStatementsRedirectSchema redirect incl True sts) (d, 0)"

text \<open>All the other steps but the dependent objects: read, redirect, execute on the first connection.\<close>

definition ExecuteRestoreMetadataStatements :: "'db driver \<Rightarrow> StatementWithType list \<Rightarrow> 'db DBConn \<times> exec_state \<Rightarrow>
    ('db DBConn \<times> exec_state) res" where
  "ExecuteRestoreMetadataStatements drv sts s = (if length sts = 0 then Inr s else executeStatementsForConn drv [] sts s)"

definition restore_type :: "'db driver \<Rightarrow> TOC \<Rightarrow> string \<Rightarrow> (string, string) gomap \<Rightarrow> string \<Rightarrow> string \<Rightarrow>
    'db DBConn \<times> exec_state \<Rightarrow> ('db DBConn \<times> exec_state) res" where
  "restore_type drv toc file redirect incl objectType s =
     rbind (GetRestoreMetadataStatements toc ''predata'' file [objectType] []) (\<lambda>stmts.
       ExecuteRestoreMetadataStatements drv (editStatementsRedirectSchema redirect incl False stmts) s)"

section \<open>Coverage of the predata steps\<close>

lemma read_statements_filter:
  "read_statements file es = Inr all \<Longrightarrow>
   read_statements file (filter P es) = Inr (map snd (filter (\<lambda>x. P (fst x)) (zip es all))) \<and> length es = length all"
proof (induction es arbitrary: all)
  case (Cons e es)
  then obtain c sts where "ReadAt file (StartByte e) (EndByte e - StartByte e) = Inr c" "read_statements file es = Inr sts"
    "all = statement_of e c # sts" by (auto simp: rbind_Inr_iff)
  with Cons.IH[of sts] show ?case by simp
qed simp

lemma filter_by_types:
  assumes "distinct ts"
  shows "mset (concat (map (\<lambda>t. filter (\<lambda>x. f x = t) xs) ts)) + mset (filter (\<lambda>x. f x \<notin> set ts) xs) = mset xs"
  using assms
proof (induction ts)
  case (Cons t ts)
  have "mset (filter (\<lambda>x. f x \<notin> set ts) xs) = mset (filter (\<lambda>x. f x = t) xs) + mset (filter (\<lambda>x. f x \<notin> set (t # ts)) xs)"
    using Cons.prems by (induction xs) auto
  with Cons show ?case by (simp add: add.assoc add.left_commute)
qed simp

text \<open>
  The steps of the predata restore cover the metadata file: every predata statement is
  selected by exactly one step, so that all of them together are the predata statements of the
  file, each once.
\<close>

theorem predata_steps_cover:
  assumes "GetSQLStatementForObjectTypes toc ''predata'' file [] [] [] [] [] [] = Inr all"
  shows "\<exists>steps. restorePredata_statements toc file = Inr steps \<and> mset (concat steps) = mset all"
proof -
  obtain es where es: "section_entries toc ''predata'' = Inr es" "read_statements file es = Inr all"
    using assms unfolding no_filter_selects by (auto simp: rbind_Inr_iff selects_def[abs_def])
  let ?xs = "zip es all"
  let ?sel = "\<lambda>(inT, exT). map snd (filter (\<lambda>x. selects inT exT (fst x)) ?xs)"
  have one: "GetRestoreMetadataStatements toc ''predata'' file inT exT = Inr (?sel (inT, exT))" for inT exT
    using es read_statements_filter[OF es(2), of "selects inT exT"]
    by (simp add: GetRestoreMetadataStatements_def GetRestoreMetadataStatementsFiltered_def filtersEmpty_def NewFilters_def no_filter_selects)
  have steps: "restorePredata_statements toc file = Inr (map ?sel predata_steps)"
    unfolding restorePredata_statements_def by (rule rmap_all) (auto simp: one)
  let ?f = "\<lambda>x :: MetadataEntry \<times> StatementWithType. ObjectType (fst x)"
  have "mset (concat (map (\<lambda>t. filter (\<lambda>x. ?f x = t) ?xs) dependent_excludes)) +
      mset (filter (\<lambda>x. ?f x \<notin> set dependent_excludes) ?xs) = mset ?xs"
    by (rule filter_by_types) (simp add: dependent_excludes_def)
  from arg_cong[OF this, of "image_mset snd"]
  have "mset (concat (map ?sel predata_steps)) = mset (map snd ?xs)"
    by (simp add: predata_steps_def dependent_excludes_def schema_statements_def selects_def add_ac)
  also have "map snd ?xs = all" using read_statements_filter[OF es(2), of "\<lambda>_. True"] by simp
  finally show ?thesis using steps by blast
qed


theorem predata_steps_cover_witness:
  "\<exists>steps. restorePredata_statements demo_toc ''ab'' = Inr steps \<and>
     mset (concat steps) = {#statement_of (demo_entry ''v'' ''VIEW'') ''ab''#}"
  using predata_steps_cover[OF demo_toc_statements] by simp

section \<open>Batches of post-data statements\<close>

lemma batch_loop_spec:
  assumes "batch_loop sts m = (a, b, c)"
  shows "mset (a @ b @ c) = mset sts \<and> (\<forall>x \<in> set a. st_ObjectType x = ''INDEX'') \<and>
    distinct (map st_ReferenceObject a) \<and> (\<forall>x \<in> set a. \<not> go_has m (st_ReferenceObject x)) \<and>
    (\<forall>x \<in> set (b @ c). st_ObjectType x = ''INDEX'' \<longrightarrow>
       go_has m (st_ReferenceObject x) \<or> st_ReferenceObject x \<in> st_ReferenceObject ` set a) \<and>
    (\<forall>x \<in> set c. Contains (st_ObjectType x) '' METADATA'')"
  using assms
proof (induction sts m arbitrary: a b c rule: batch_loop.induct)
  case (1 m)
  then show ?case by simp
next
  case (2 st sts m)
  show ?case
  proof (cases "st_ObjectType st = ''INDEX'' \<and> \<not> go_has m (st_ReferenceObject st)")
    case True
    obtain a' where r: "batch_loop sts (go_set (st_ReferenceObject st) True m) = (a', b, c)" "a = st # a'"
      using 2(4) True by (auto split: prod.splits)
    from 2(1)[OF True r(1)] r(2) True show ?thesis by auto
  next
    case False
    obtain a' b' c' where r: "batch_loop sts m = (a', b', c')" by (metis prod.collapse)
    show ?thesis
    proof (cases "Contains (st_ObjectType st) '' METADATA''")
      case True
      with False r 2(4) have "a = a'" "b = b'" "c = st # c'" by auto
      with 2(2)[OF False True r] True False show ?thesis by auto
    next
      case no: False
      with False r 2(4) have "a = a'" "b = st # b'" "c = c'" by auto
      with 2(3)[OF False no r] no False show ?thesis by auto
    qed
  qed
qed

text \<open>
  Claim C23. The post-data statements are split into three batches without loss. The first one has at
  most one index per table and nothing else; every other index belongs to a table that has one in
  the first batch, so when the later batches run in parallel no table gets its first index there;
  comments and the like of post-data objects come last.
\<close>

theorem BatchPostdataStatements_correct:
  "case BatchPostdataStatements sts of (first, second, third) \<Rightarrow>
     mset (first @ second @ third) = mset sts \<and>
     list_all (\<lambda>x. st_ObjectType x = ''INDEX'') first \<and> distinct (map st_ReferenceObject first) \<and>
     list_all (\<lambda>x. st_ReferenceObject x \<in> set (map st_ReferenceObject first)) (filter (\<lambda>x. st_ObjectType x = ''INDEX'') (second @ third)) \<and>
     list_all (\<lambda>x. Contains (st_ObjectType x) '' METADATA'') third"
proof -
  obtain a b c where r: "BatchPostdataStatements sts = (a, b, c)" by (metis prod.collapse)
  from batch_loop_spec[OF r[unfolded BatchPostdataStatements_def]] r show ?thesis by (auto simp: list_all_iff)
qed

section \<open>Errors do not stop the restore\<close>

lemma executeStatements_traced:
  assumes "conn_ok w d" and "executeStatementsForConn (traced drv) [int w] sts (d, es) = Inr (d', es')"
  shows "log_of d' = log_of d @ map (\<lambda>st. Ev_exec w (Statement st)) sts \<and> restored es' = restored es + length sts"
  using assms
proof (induction sts arbitrary: d es)
  case Nil
  then show ?case by simp
next
  case (Cons st sts)
  obtain r d1 where e: "Exec (traced drv) (Statement st) [int w] d = (r, d1)" by fastforce
  have d1: "conn_ok w d1" "log_of d1 = log_of d @ [Ev_exec w (Statement st)]"
    using Exec_traced[OF Cons.prems(1), of drv "Statement st"] e Cons.prems(1) by (simp_all add: conn_ok_def)
  have "executeStatementsForConn (traced drv) [int w] sts (d1, note_result st r es) = Inr (d', es')"
    using Cons.prems(2) e by (auto split: sum.splits goerr.splits)
  from Cons.IH[OF d1(1) this] d1(2) show ?case by simp
qed

text \<open>
  When the restore of a list of statements on one connection returns, every statement has been
  sent to the server, in the order of the list, and counted, whatever errors the statements met.
\<close>

theorem errors_do_not_stop_restore:
  assumes "conn_ok w d" and "executeStatementsForConn (traced drv) [int w] sts (d, es) = Inr (d', es')"
  shows "log_of d' = log_of d @ map (\<lambda>st. Ev_exec w (Statement st)) sts \<and> restored es' = restored es + length sts \<and>
    numErrors es \<le> numErrors es' \<and> numErrors es' \<le> numErrors es + length sts"
proof -
  have "executeStatementsForConn drv' cs sts (d, es) = Inr (d', es') \<Longrightarrow>
      numErrors es \<le> numErrors es' \<and> numErrors es' \<le> numErrors es + length sts" for drv' :: "'b driver" and cs d es d' es'
  proof (induction sts arbitrary: d es)
    case (Cons st sts)
    obtain r d1 where e: "Exec drv' (Statement st) cs d = (r, d1)" by fastforce
    then have "executeStatementsForConn drv' cs sts (d1, note_result st r es) = Inr (d', es')"
      using Cons.prems by (auto split: sum.splits goerr.splits)
    from Cons.IH[OF this] show ?case by (auto simp: note_result_def split: sum.splits goerr.splits if_splits)
  qed simp
  with executeStatements_traced[OF assms] assms(2) show ?thesis by blast
qed

definition demo_failing :: "unit driver" where
  "demo_failing = demo_driver\<lparr>drv_exec := (\<lambda>_ _ _ s. (Inl (Error ''no such type''), s))\<rparr>"

theorem errors_do_not_stop_restore_witness:
  "\<exists>d' es'. executeStatementsForConn (traced demo_failing) [int 1] demo_stmts
      (demo_traced_conn False [], counts (ExecuteDependentStatements [])) = Inr (d', es') \<and>
     log_of d' = [Ev_exec 1 ''a'', Ev_exec 1 ''b''] \<and> restored es' = 2"
proof -
  have "\<exists>d' es'. executeStatementsForConn (traced demo_failing) [int 1] demo_stmts
      (demo_traced_conn False [], counts (ExecuteDependentStatements [])) = Inr (d', es')"
    by (simp add: demo_stmts_def demo_traced_conn_def Exec_def obind_def tx_of_def ValidateConnNum_def traced_def demo_failing_def demo_driver_def)
  then obtain d' es' where e: "executeStatementsForConn (traced demo_failing) [int 1] demo_stmts
      (demo_traced_conn False [], counts (ExecuteDependentStatements [])) = Inr (d', es')" by blast
  from errors_do_not_stop_restore[OF demo_traced_ok e] e show ?thesis
    by (simp add: demo_stmts_def demo_stmt_def demo_traced_conn_def ExecuteDependentStatements_def)
qed

end
