(* ===== verification/SkipExisting.thy ===== *)
theory SkipExisting
  imports CopyManager Options
begin

text \<open>
  \<open>--skip-existing\<close>: the filter of the table definitions and the record of what was skipped,
  \<open>src/meta/builtin/skip_existing.go\<close> with \<open>AppendExtPartSuffix\<close> of \<open>predata_relations.go\<close>, and the
  filter of the table pairs, \<open>filterTablePairsByDestExisting\<close> of \<open>src/copy/copy_metadata.go\<close>.

  The variable \<open>skipExistingTables\<close> is the list of records a call returns, to be appended to the
  ones before. Shown here: the list file has one entry per destination table, with the strongest
  reason recorded for it; a pair the data filter keeps has a definition the definition filter
  keeps; and where the two filters look at different names.
\<close>

section \<open>The record\<close>

datatype SkipReason = SkipReasonExists | SkipReasonRootExists | SkipReasonHalfBuiltLeaf

record SkippedTable =
  SourceDbName :: string
  SourceSchema :: string
  SourceName :: string
  DestDbName :: string
  DestSchema :: string
  DestName :: string
  Reason :: SkipReason

fun reason_String :: "SkipReason \<Rightarrow> string" where
  "reason_String SkipReasonExists = ''exists''"
| "reason_String SkipReasonRootExists = ''root_exists''"
| "reason_String SkipReasonHalfBuiltLeaf = ''half_built_leaf''"

definition recordSkip :: "SkippedTable list \<Rightarrow> SkippedTable \<Rightarrow> SkippedTable list" where
  "recordSkip recorded s = recorded @ [s]"

definition RecordPairSkip :: "SkippedTable list \<Rightarrow> string \<Rightarrow> string \<Rightarrow> string \<Rightarrow> string \<Rightarrow> string \<Rightarrow> string \<Rightarrow> SkippedTable list" where
  "RecordPairSkip recorded srcDb srcSchema srcName destDb destSch destNm =
     recordSkip recorded \<lparr>SourceDbName = srcDb, SourceSchema = srcSchema, SourceName = srcName,
       DestDbName = destDb, DestSchema = destSch, DestName = destNm, Reason = SkipReasonExists\<rparr>"

fun score :: "SkipReason \<Rightarrow> nat" where
  "score SkipReasonHalfBuiltLeaf = 3"
| "score SkipReasonRootExists = 2"
| "score SkipReasonExists = 1"

type_synonym skip_key = "string \<times> string \<times> string"

definition skip_key :: "SkippedTable \<Rightarrow> skip_key" where
  "skip_key s = (DestDbName s, DestSchema s, DestName s)"

fun dedup_loop :: "SkippedTable list \<Rightarrow> (skip_key, nat) gomap \<Rightarrow> SkippedTable list \<Rightarrow> SkippedTable list" where
  "dedup_loop [] indexByKey out = out"
| "dedup_loop (s # snapshot) indexByKey out =
     (case go_get indexByKey (skip_key s) of
        Some idx \<Rightarrow>
          dedup_loop snapshot indexByKey
            (if score (Reason s) > score (Reason (out ! idx)) then out[idx := (out ! idx)\<lparr>Reason := Reason s\<rparr>] else out)
      | None \<Rightarrow> dedup_loop snapshot (go_set (skip_key s) (length out) indexByKey) (out @ [s]))"

definition dedupByDestFQN :: "SkippedTable list \<Rightarrow> SkippedTable list" where
  "dedupByDestFQN snapshot = dedup_loop snapshot [] []"

definition skip_line :: "SkippedTable \<Rightarrow> string" where
  "skip_line s = reason_String (Reason s) @ TAB @
     (if SourceDbName s \<noteq> [] then SourceDbName s @ ''.'' else []) @ SourceSchema s @ ''.'' @ SourceName s @ TAB @
     (if DestDbName s \<noteq> [] then DestDbName s @ ''.'' else []) @ DestSchema s @ ''.'' @ DestName s @ NL"

text \<open>
  What \<open>WriteSkipExistingList\<close> writes: the file's path and content, or nothing. The user's home
  directory and the success of creating the directory and the file are parameters.
\<close>

definition wrap_error :: "string \<Rightarrow> 'a res \<Rightarrow> 'a res" where
  "wrap_error pre r = (case r of Inl (Error e) \<Rightarrow> Inl (Error (pre @ e)) | _ \<Rightarrow> r)"

definition WriteSkipExistingList :: "string res \<Rightarrow> (string \<Rightarrow> unit res) \<Rightarrow> (string \<Rightarrow> string \<Rightarrow> unit res) \<Rightarrow> string \<Rightarrow>
    SkippedTable list \<Rightarrow> (string \<times> string) option res" where
  "WriteSkipExistingList homeDirectory mkdirAll writeFile stamp recorded =
     (if recorded = [] then Inr None
      else let snapshot = dedupByDestFQN recorded
        in rbind (wrap_error ''resolve user home: '' homeDirectory) (\<lambda>homeDir.
          let logDir = homeDir @ ''/gpAdminLogs''
          in rbind (wrap_error (''create '' @ logDir @ '': '') (mkdirAll logDir)) (\<lambda>_.
            let path = logDir @ ''/'' @ stamp @ ''_skip_existing.list'';
                b = concat (map skip_line snapshot)
            in rbind (wrap_error (''write '' @ path @ '': '') (writeFile path b)) (\<lambda>_. Inr (Some (path, b))))))"

definition LogSkipExistingSummary :: "SkippedTable list \<Rightarrow> (nat \<times> nat \<times> nat \<times> nat) option" where
  "LogSkipExistingSummary recorded =
     (if recorded = [] then None
      else let snapshot = dedupByDestFQN recorded;
               count = (\<lambda>r. length (filter (\<lambda>s. Reason s = r) snapshot))
        in Some (length snapshot, count SkipReasonExists, count SkipReasonRootExists, count SkipReasonHalfBuiltLeaf))"

section \<open>The filter of the definitions\<close>

text \<open>The fields of \<open>Table\<close> the filter reads.\<close>

record RelTable =
  t_Schema :: string
  t_Name :: string
  IsExternal :: bool
  Level :: string
  Inherits :: "string list"

definition t_FQN :: "'r RelTable_scheme \<Rightarrow> string" where
  "t_FQN t = fqn (t_Schema t) (t_Name t)"

definition ext_SUFFIX :: string where "ext_SUFFIX = ''_ext_part_''"
definition MAX_LEN :: nat where "MAX_LEN = 63"
definition QUOTED_MAX_LEN :: nat where "QUOTED_MAX_LEN = MAX_LEN + 2"

definition AppendExtPartSuffix :: "string \<Rightarrow> string res" where
  "AppendExtPartSuffix name =
     (if name = [] then Inl index_panic
      else Inr (if List.last name = DQ
        then (if length name + length ext_SUFFIX > QUOTED_MAX_LEN
              then take (QUOTED_MAX_LEN - length ext_SUFFIX) name @ ext_SUFFIX @ [DQ]
              else butlast name @ ext_SUFFIX @ [DQ])
        else (if length name + length ext_SUFFIX > MAX_LEN
              then take (MAX_LEN + 1 - length ext_SUFFIX) name @ ext_SUFFIX
              else name @ ext_SUFFIX)))"

definition is_root_level :: "'r RelTable_scheme \<Rightarrow> bool" where
  "is_root_level t \<longleftrightarrow> Level t = ''p'' \<or> Level t = []"

fun walk_up :: "nat \<Rightarrow> 'r RelTable_scheme \<Rightarrow> (string, 'r RelTable_scheme) gomap \<Rightarrow> string" where
  "walk_up 0 t byFQN = t_FQN t"
| "walk_up (Suc i) t byFQN =
     (if is_root_level t then t_FQN t
      else if length (Inherits t) = 0 then t_FQN t
      else case go_get byFQN (hd (Inherits t)) of
             None \<Rightarrow> hd (Inherits t)
           | Some parent \<Rightarrow> walk_up i parent byFQN)"

definition walkToRoot :: "'r RelTable_scheme \<Rightarrow> (string, 'r RelTable_scheme) gomap \<Rightarrow> string" where
  "walkToRoot = walk_up 16"

record skip_env =
  se_flags :: flagset
  runtimeOption :: "Option option"
  srcDbName :: string
  destDbName :: string
  srcDBVersion :: GPDBVersion
  version_ranges :: ranges

definition isCBDBFamilyPath :: "skip_env \<Rightarrow> bool res" where
  "isCBDBFamilyPath env = version_gate (version_ranges env) (srcDBVersion env) ''7''"

definition skip_record :: "skip_env \<Rightarrow> 'r RelTable_scheme \<Rightarrow> string \<Rightarrow> string \<Rightarrow> SkipReason \<Rightarrow> SkippedTable" where
  "skip_record env t ds dn r =
     \<lparr>SourceDbName = srcDbName env, SourceSchema = t_Schema t, SourceName = t_Name t,
      DestDbName = destDbName env, DestSchema = ds, DestName = dn, Reason = r\<rparr>"

definition on_dest :: "skip_env \<Rightarrow> Option \<Rightarrow> string \<Rightarrow> string \<Rightarrow> (string \<times> string \<times> bool) res" where
  "on_dest env opt schema name =
     rbind (TranslateToDestFQN opt schema name) (\<lambda>(ds, dn).
       Inr (ds, dn, IsDestTableExisting opt (destDbName env) ds dn))"

fun root_skips :: "skip_env \<Rightarrow> Option \<Rightarrow> 'r RelTable_scheme list \<Rightarrow> (string, bool) gomap \<Rightarrow> (string, bool) gomap res" where
  "root_skips env opt [] rootSkip = Inr rootSkip"
| "root_skips env opt (t # ts) rootSkip =
     (if \<not> is_root_level t then root_skips env opt ts rootSkip
      else rbind (on_dest env opt (t_Schema t) (t_Name t)) (\<lambda>(ds, dn, existing).
        root_skips env opt ts (if existing then go_set (t_FQN t) True rootSkip else rootSkip)))"

definition ext_leaf_skip :: "skip_env \<Rightarrow> Option \<Rightarrow> 'r RelTable_scheme \<Rightarrow> SkippedTable option res" where
  "ext_leaf_skip env opt t =
     rbind (if IsExternal t \<and> IsGPDB (srcDBVersion env) then Before (version_ranges env) (srcDBVersion env) ''7'' else Inr False) (\<lambda>old.
       if old then
         rbind (AppendExtPartSuffix (t_Name t)) (\<lambda>suffixed.
         rbind (on_dest env opt (t_Schema t) suffixed) (\<lambda>(ds, dn, existing).
           Inr (if existing then Some (skip_record env t ds dn SkipReasonExists) else None)))
       else Inr None)"

definition half_built :: "skip_env \<Rightarrow> Option \<Rightarrow> 'r RelTable_scheme \<Rightarrow> SkippedTable list res" where
  "half_built env opt t =
     rbind (isCBDBFamilyPath env) (\<lambda>family.
       if family then
         rbind (on_dest env opt (t_Schema t) (t_Name t)) (\<lambda>(ds, dn, existing).
           Inr (if existing then [skip_record env t ds dn SkipReasonHalfBuiltLeaf] else []))
       else Inr [])"

text \<open>The second pass at one table: whether it is kept and what is recorded.\<close>

definition filter_table :: "skip_env \<Rightarrow> Option \<Rightarrow> (string, 'r RelTable_scheme) gomap \<Rightarrow> (string, bool) gomap \<Rightarrow> 'r RelTable_scheme \<Rightarrow>
    (bool \<times> SkippedTable list) res" where
  "filter_table env opt byFQN rootSkip t =
     (let bypass = (\<lambda>r. rbind (TranslateToDestFQN opt (t_Schema t) (t_Name t)) (\<lambda>(ds, dn).
            Inr (False, [skip_record env t ds dn r])))
      in if is_root_level t then
           (if go_get rootSkip (t_FQN t) = Some True then bypass SkipReasonExists else Inr (True, []))
         else if Level t = ''l'' \<or> Level t = ''i'' then
           (if go_get rootSkip (walkToRoot t byFQN) = Some True then bypass SkipReasonRootExists
            else if Level t = ''l'' then
              rbind (ext_leaf_skip env opt t) (\<lambda>skip.
                case skip of
                  Some s \<Rightarrow> Inr (False, [s])
                | None \<Rightarrow> rbind (half_built env opt t) (\<lambda>ws. Inr (True, ws)))
            else Inr (True, []))
         else Inr (True, []))"

fun filter_tables :: "skip_env \<Rightarrow> Option \<Rightarrow> (string, 'r RelTable_scheme) gomap \<Rightarrow> (string, bool) gomap \<Rightarrow> 'r RelTable_scheme list \<Rightarrow>
    ('r RelTable_scheme list \<times> SkippedTable list) res" where
  "filter_tables env opt byFQN rootSkip [] = Inr ([], [])"
| "filter_tables env opt byFQN rootSkip (t # ts) =
     rbind (filter_table env opt byFQN rootSkip t) (\<lambda>(keep, ss).
     rbind (filter_tables env opt byFQN rootSkip ts) (\<lambda>(kept, rs).
       Inr (if keep then t # kept else kept, ss @ rs)))"

definition index_tables :: "'r RelTable_scheme list \<Rightarrow> (string, 'r RelTable_scheme) gomap" where
  "index_tables tables = foldl (\<lambda>m t. go_set (t_FQN t) t m) [] tables"

definition FilterTablesByDestExisting :: "skip_env \<Rightarrow> 'r RelTable_scheme list \<Rightarrow> ('r RelTable_scheme list \<times> SkippedTable list) res" where
  "FilterTablesByDestExisting env tables =
     rbind (MustGetFlagBool (se_flags env) ''skip-existing'') (\<lambda>on.
       if \<not> on then Inr (tables, [])
       else case runtimeOption env of
         None \<Rightarrow> Inr (tables, [])
       | Some opt \<Rightarrow>
           rbind (root_skips env opt tables []) (\<lambda>rootSkip.
             filter_tables env opt (index_tables tables) rootSkip tables))"

section \<open>The filter of the table pairs\<close>

definition leaf_to_root :: "(string, string list) gomap \<Rightarrow> string list \<Rightarrow> (string, string) gomap" where
  "leaf_to_root partNameMap roots =
     foldl (\<lambda>m root. case go_get partNameMap root of
              Some leaves \<Rightarrow> foldl (\<lambda>m leaf. go_set leaf root m) m leaves
            | None \<Rightarrow> m) [] roots"

definition rootExistsOnDest :: "Option \<Rightarrow> string \<Rightarrow> string \<Rightarrow> bool" where
  "rootExistsOnDest config destDb rootFQN =
     (case SplitN2 CHR ''.'' rootFQN of
        [s, n] \<Rightarrow> IsDestTableExisting config destDb s n
      | _ \<Rightarrow> False)"

definition skip_pair :: "Option \<Rightarrow> string \<Rightarrow> (string, string) gomap \<Rightarrow> Table \<Rightarrow> bool" where
  "skip_pair config destDb leafToRoot d =
     (if IsDestTableExisting config destDb (Schema d) (Name d) then True
      else case go_get leafToRoot (fqn (Schema d) (Name d)) of
        Some rootFQN \<Rightarrow> rootExistsOnDest config destDb rootFQN
      | None \<Rightarrow> False)"

fun pairs_loop :: "Option \<Rightarrow> string \<Rightarrow> string \<Rightarrow> (string, string) gomap \<Rightarrow> Table list \<Rightarrow> Table list \<Rightarrow> SkippedTable list \<Rightarrow>
    (Table list \<times> Table list \<times> SkippedTable list) res" where
  "pairs_loop config srcDb destDb leafToRoot [] dst recorded = Inr ([], [], recorded)"
| "pairs_loop config srcDb destDb leafToRoot (s # src) [] recorded = Inl index_panic"
| "pairs_loop config srcDb destDb leafToRoot (s # src) (d # dst) recorded =
     (if skip_pair config destDb leafToRoot d
      then pairs_loop config srcDb destDb leafToRoot src dst
             (RecordPairSkip recorded srcDb (Schema s) (Name s) destDb (Schema d) (Name d))
      else rbind (pairs_loop config srcDb destDb leafToRoot src dst recorded) (\<lambda>(ks, kd, rs).
             Inr (s # ks, d # kd, rs)))"

text \<open>\<open>roots\<close> is the order in which the loop over \<open>partNameMap\<close> visits the roots.\<close>

definition filterTablePairsByDestExisting :: "Option \<Rightarrow> string list \<Rightarrow> string \<Rightarrow> string \<Rightarrow> Table list \<Rightarrow> Table list \<Rightarrow>
    (string, string list) gomap \<Rightarrow> SkippedTable list \<Rightarrow> (Table list \<times> Table list \<times> SkippedTable list) res" where
  "filterTablePairsByDestExisting config roots srcDb destDb src dst partNameMap recorded =
     (if length src = 0 then Inr (src, dst, recorded)
      else pairs_loop config srcDb destDb (leaf_to_root partNameMap roots) src dst recorded)"

section \<open>One entry per destination\<close>

text \<open>
  The reference: the destinations in the order of their first record, each with its first record
  and the strongest reason recorded for it.
\<close>

definition first_keys :: "SkippedTable list \<Rightarrow> skip_key list" where
  "first_keys xs = rev (remdups (rev (map skip_key xs)))"

definition strongest :: "SkipReason set \<Rightarrow> SkipReason" where
  "strongest rs =
     (if SkipReasonHalfBuiltLeaf \<in> rs then SkipReasonHalfBuiltLeaf
      else if SkipReasonRootExists \<in> rs then SkipReasonRootExists else SkipReasonExists)"

definition entries_for :: "skip_key \<Rightarrow> SkippedTable list \<Rightarrow> SkippedTable list" where
  "entries_for k xs = filter (\<lambda>s. skip_key s = k) xs"

definition dedup_spec :: "SkippedTable list \<Rightarrow> SkippedTable list" where
  "dedup_spec xs =
     map (\<lambda>k. (hd (entries_for k xs))\<lparr>Reason := strongest (Reason ` set (entries_for k xs))\<rparr>) (first_keys xs)"

lemma first_keys_snoc:
  "first_keys (xs @ [s]) = (if skip_key s \<in> skip_key ` set xs then first_keys xs else first_keys xs @ [skip_key s])"
  by (simp add: first_keys_def)

lemma first_keys_facts [simp]: "distinct (first_keys xs)" "set (first_keys xs) = skip_key ` set xs"
  by (simp_all add: first_keys_def)

lemma entries_for_snoc:
  "entries_for k (xs @ [s]) = (if skip_key s = k then entries_for k xs @ [s] else entries_for k xs)"
  by (simp add: entries_for_def)

lemma entries_for_Nil: "entries_for k xs = [] \<longleftrightarrow> k \<notin> skip_key ` set xs"
  by (auto simp: entries_for_def filter_empty_conv)

lemma strongest_insert:
  "rs \<noteq> {} \<Longrightarrow> strongest (insert r rs) = (if score r > score (strongest rs) then r else strongest rs)"
  by (cases r) (auto simp: strongest_def)

lemma strongest_single [simp]: "strongest {r} = r"
  by (cases r) (simp_all add: strongest_def)

definition index_ok :: "SkippedTable list \<Rightarrow> (skip_key, nat) gomap \<Rightarrow> bool" where
  "index_ok xs m \<longleftrightarrow> (\<forall>k i. go_get m k = Some i \<longleftrightarrow> i < length (first_keys xs) \<and> first_keys xs ! i = k)"

lemma index_ok_None: "index_ok xs m \<Longrightarrow> go_get m k = None \<longleftrightarrow> k \<notin> skip_key ` set xs"
  unfolding index_ok_def by (metis first_keys_facts(2) in_set_conv_nth not_Some_eq)

lemma index_ok_new:
  assumes "index_ok xs m" and "skip_key s \<notin> skip_key ` set xs"
  shows "index_ok (xs @ [s]) (go_set (skip_key s) (length (first_keys xs)) m)"
  using assms unfolding index_ok_def
  by (auto simp: go_get_set first_keys_snoc nth_append less_Suc_eq) (metis first_keys_facts(2) nth_mem)+

lemma map_one_changed:
  assumes "distinct ks" and "i < length ks" and "\<And>k. k \<in> set ks \<Longrightarrow> k \<noteq> ks ! i \<Longrightarrow> g k = f k"
  shows "map g ks = (map f ks)[i := g (ks ! i)]"
  using assms by (intro nth_equalityI) (auto simp: nth_list_update nth_eq_iff_index_eq)

lemma dedup_spec_again:
  assumes i: "i < length (first_keys xs)" "first_keys xs ! i = skip_key s"
  defines "e \<equiv> dedup_spec xs ! i"
  shows "dedup_spec (xs @ [s]) =
    (if score (Reason s) > score (Reason e) then (dedup_spec xs)[i := e\<lparr>Reason := Reason s\<rparr>] else dedup_spec xs)"
proof -
  let ?k = "skip_key s"
  let ?f = "\<lambda>xs k. (hd (entries_for k xs))\<lparr>Reason := strongest (Reason ` set (entries_for k xs))\<rparr>"
  have old: "?k \<in> skip_key ` set xs" using i by (metis first_keys_facts(2) nth_mem)
  then have ne: "entries_for ?k xs \<noteq> []" by (simp add: entries_for_Nil)
  have e: "e = ?f xs ?k" using i by (simp add: e_def dedup_spec_def)
  have new: "?f (xs @ [s]) ?k = (if score (Reason s) > score (Reason e) then e\<lparr>Reason := Reason s\<rparr> else e)"
    using ne by (simp add: e entries_for_snoc strongest_insert)
  have "dedup_spec (xs @ [s]) = map (?f (xs @ [s])) (first_keys xs)"
    using old by (simp add: dedup_spec_def first_keys_snoc)
  also have "\<dots> = (dedup_spec xs)[i := ?f (xs @ [s]) ?k]"
    unfolding dedup_spec_def i(2)[symmetric]
    by (rule map_one_changed) (use i in \<open>auto simp: entries_for_snoc\<close>)
  finally show ?thesis unfolding new by (simp add: e_def)
qed

lemma dedup_spec_new:
  assumes "skip_key s \<notin> skip_key ` set xs"
  shows "dedup_spec (xs @ [s]) = dedup_spec xs @ [s]"
proof -
  have "entries_for (skip_key s) xs = []" using assms by (simp add: entries_for_Nil)
  moreover have "entries_for k (xs @ [s]) = entries_for k xs" if "k \<in> set (first_keys xs)" for k
    using that assms by (auto simp: entries_for_snoc)
  ultimately show ?thesis using assms by (simp add: dedup_spec_def first_keys_snoc entries_for_snoc)
qed

lemma dedup_loop_spec:
  "index_ok ys m \<Longrightarrow> dedup_loop xs m (dedup_spec ys) = dedup_spec (ys @ xs)"
proof (induction xs arbitrary: ys m)
  case Nil
  then show ?case by simp
next
  case (Cons s xs)
  show ?case
  proof (cases "go_get m (skip_key s)")
    case None
    with Cons.prems have new: "skip_key s \<notin> skip_key ` set ys" by (simp add: index_ok_None)
    have "length (dedup_spec ys) = length (first_keys ys)" by (simp add: dedup_spec_def)
    with None Cons.IH[OF index_ok_new[OF Cons.prems new]] show ?thesis
      by (simp add: dedup_spec_new[OF new])
  next
    case (Some i)
    with Cons.prems have i: "i < length (first_keys ys)" "first_keys ys ! i = skip_key s"
      unfolding index_ok_def by blast+
    then have "skip_key s \<in> skip_key ` set ys" by (metis first_keys_facts(2) nth_mem)
    then have "index_ok (ys @ [s]) m" using Cons.prems by (simp add: index_ok_def first_keys_snoc)
    from Cons.IH[OF this] Some show ?thesis by (simp add: dedup_spec_again[OF i])
  qed
qed

text \<open>
  The list of skipped tables holds one entry per destination table: \<open>dedupByDestFQN\<close>, which
  works in one pass with an index, agrees with the reference that lists the destinations in the
  order of their first record, each with its first record and the strongest of the reasons
  recorded for it (half-built leaf before root exists before exists).
\<close>

theorem dedupByDestFQN_spec: "dedupByDestFQN snapshot = dedup_spec snapshot"
  using dedup_loop_spec[of "[]" "[]" snapshot]
  by (simp add: dedupByDestFQN_def index_ok_def dedup_spec_def first_keys_def)

section \<open>The two filters agree\<close>

lemma root_skips_has:
  assumes "root_skips env opt ts m = Inr m'" and "go_get m' k = Some True"
  shows "go_get m k = Some True \<or> (\<exists>t ds dn. t \<in> set ts \<and> is_root_level t \<and> t_FQN t = k \<and>
    TranslateToDestFQN opt (t_Schema t) (t_Name t) = Inr (ds, dn) \<and>
    IsDestTableExisting opt (destDbName env) ds dn)"
  using assms
proof (induction ts arbitrary: m)
  case Nil
  then show ?case by simp
next
  case (Cons t ts)
  show ?case
  proof (cases "is_root_level t")
    case False
    with Cons.prems Cons.IH[of m] show ?thesis by auto
  next
    case True
    with Cons.prems obtain ds dn where tr: "TranslateToDestFQN opt (t_Schema t) (t_Name t) = Inr (ds, dn)"
      and rest: "root_skips env opt ts
        (if IsDestTableExisting opt (destDbName env) ds dn then go_set (t_FQN t) True m else m) = Inr m'"
      by (auto simp: on_dest_def rbind_Inr_iff)
    from Cons.IH[OF rest Cons.prems(2)] True tr show ?thesis
      by (auto simp: go_get_set split: if_splits)
  qed
qed

lemma filter_tables_drops:
  assumes "filter_tables env opt byFQN rootSkip ts = Inr (kept, rs)" and "t \<in> set ts" and "t \<notin> set kept"
  shows "\<exists>ss. filter_table env opt byFQN rootSkip t = Inr (False, ss)"
  using assms by (induction ts arbitrary: kept rs) (auto simp: rbind_Inr_iff split: if_splits)

lemma filter_tables_kept:
  "filter_tables env opt byFQN rootSkip ts = Inr (kept, rs) \<Longrightarrow> subseq kept ts"
  by (induction ts arbitrary: kept rs) (auto simp: rbind_Inr_iff split: if_splits)

lemma ext_leaf_skip_none [simp]: "\<not> IsExternal t \<Longrightarrow> ext_leaf_skip env opt t = Inr None"
  by (simp add: ext_leaf_skip_def)

lemma dropped_table:
  assumes "filter_table env opt byFQN rootSkip t = Inr (False, ss)" and "\<not> IsExternal t"
  shows "go_get rootSkip (if is_root_level t then t_FQN t else walkToRoot t byFQN) = Some True"
  using assms by (auto simp: filter_table_def Let_def rbind_Inr_iff ext_leaf_skip_none split: if_splits)

lemma pairs_loop_kept:
  "pairs_loop config srcDb destDb m src dst rs = Inr (ks, kd, rs') \<Longrightarrow>
    length ks = length kd \<and> zip ks kd = filter (\<lambda>(s, d). \<not> skip_pair config destDb m d) (zip src dst) \<and>
    length rs' + length ks = length rs + length src"
  by (induction config srcDb destDb m src dst rs arbitrary: ks kd rs' rule: pairs_loop.induct)
    (auto simp: rbind_Inr_iff RecordPairSkip_def recordSkip_def split: if_splits)

lemma foldl_leaves:
  "go_get (foldl (\<lambda>m leaf. go_set leaf root m) m leaves) k = (if k \<in> set leaves then Some root else go_get m k)"
  by (induction leaves arbitrary: m) (auto simp: go_get_set)

lemma leaf_to_root_get:
  assumes "go_wf pm" and "iter_order pm roots" and "go_get pm r = Some ls" and "leaf \<in> set ls"
    and only: "\<And>r' ls'. go_get pm r' = Some ls' \<Longrightarrow> leaf \<in> set ls' \<Longrightarrow> r' = r"
  shows "go_get (leaf_to_root pm roots) leaf = Some r"
proof -
  let ?f = "\<lambda>m root. case go_get pm root of
              Some leaves \<Rightarrow> foldl (\<lambda>m leaf. go_set leaf root m) m leaves | None \<Rightarrow> m"
  have step: "go_get (foldl ?f m rs) leaf = (if r \<in> set rs then Some r else go_get m leaf)" for m rs
  proof (induction rs arbitrary: m)
    case Nil
    then show ?case by simp
  next
    case (Cons r' rs)
    have "go_get (?f m r') leaf = (if r' = r then Some r else go_get m leaf)"
    proof (cases "go_get pm r'")
      case None
      with assms(3) show ?thesis by auto
    next
      case (Some ls')
      with only[OF Some] assms(3,4) show ?thesis by (auto simp: foldl_leaves)
    qed
    with Cons show ?case by auto
  qed
  have "r \<in> set roots" using assms(2,3) iter_order_set map_of_SomeD
    by (metis imageI fst_conv set_map)
  with step show ?thesis by (simp add: leaf_to_root_def)
qed

text \<open>
  What the two filters are given: \<open>t\<close> is the definition of the source table \<open>s\<close>, \<open>d\<close> the table it
  is copied to, under the name the option translates it to; and a partition that is no root has
  its root, translated, in the map from destination roots to destination leaves, under which
  \<open>d\<close> is listed and under no other.
\<close>

definition same_table :: "Option \<Rightarrow> 'r RelTable_scheme \<Rightarrow> Table \<Rightarrow> Table \<Rightarrow> bool" where
  "same_table opt t s d \<longleftrightarrow> t_Schema t = Schema s \<and> t_Name t = Name s \<and>
     TranslateToDestFQN opt (Schema s) (Name s) = Inr (Schema d, Name d)"

definition leaf_listed :: "Option \<Rightarrow> (string, string list) gomap \<Rightarrow> string \<Rightarrow> Table \<Rightarrow> bool" where
  "leaf_listed opt pm root d \<longleftrightarrow> (\<exists>rs rn ds dn ls. root = fqn rs rn \<and> CHR ''.'' \<notin> set rs \<and> CHR ''.'' \<notin> set ds \<and>
     TranslateToDestFQN opt rs rn = Inr (ds, dn) \<and> go_get pm (fqn ds dn) = Some ls \<and> fqn (Schema d) (Name d) \<in> set ls \<and>
     (\<forall>r' ls'. go_get pm r' = Some ls' \<longrightarrow> fqn (Schema d) (Name d) \<in> set ls' \<longrightarrow> r' = fqn ds dn))"

lemma skip_pair_leaf:
  assumes "go_wf pm" and "iter_order pm roots" and "go_get pm (fqn ds dn) = Some ls" and "fqn (Schema d) (Name d) \<in> set ls"
    and "\<And>r' ls'. go_get pm r' = Some ls' \<Longrightarrow> fqn (Schema d) (Name d) \<in> set ls' \<Longrightarrow> r' = fqn ds dn"
    and "CHR ''.'' \<notin> set ds" and "IsDestTableExisting opt destDb ds dn"
  shows "skip_pair opt destDb (leaf_to_root pm roots) d"
  using leaf_to_root_get[OF assms(1-5)] assms(6,7)
  by (simp add: skip_pair_def rootExistsOnDest_def fqn_def go_str)

text \<open>
  Claim C22. The two filters of \<open>--skip-existing\<close> fit together for tables and partitions that are not
  external, when the destination name of a pair is the one the option translates the source name
  to, the partition map lists a partition under its root and under no other, and no schema name
  has a dot: a table whose pair the filter of the pairs lets through to be copied keeps its
  definition in the filter of the definitions, so data is not copied into a table whose creation
  was left out. Included tables with a destination schema are not covered: there the destination
  name is not the translated one.
\<close>

theorem kept_pairs_have_definitions:
  assumes env: "MustGetFlagBool (se_flags env) ''skip-existing'' = Inr True" "runtimeOption env = Some opt"
    and ddl: "FilterTablesByDestExisting env tables = Inr (kept, skipped)"
    and dat: "filterTablePairsByDestExisting opt roots srcDb (destDbName env) src dst pm recorded = Inr (ksrc, kdst, recorded')"
    and pm: "go_wf pm" "iter_order pm roots"
    and t: "t \<in> set tables" "\<not> IsExternal t" "list_all (\<lambda>u. CHR ''.'' \<notin> set (t_Schema u)) tables"
    and pair: "(s, d) \<in> set (zip ksrc kdst)" "same_table opt t s d"
    and leaf: "is_root_level t \<or> leaf_listed opt pm (walkToRoot t (index_tables tables)) d"
  shows "t \<in> set kept"
proof (rule ccontr)
  assume gone: "t \<notin> set kept"
  let ?by = "index_tables tables"
  obtain rootSkip where rs: "root_skips env opt tables [] = Inr rootSkip"
    and ft: "filter_tables env opt ?by rootSkip tables = Inr (kept, skipped)"
    using ddl env by (auto simp: FilterTablesByDestExisting_def rbind_Inr_iff)
  let ?k = "if is_root_level t then t_FQN t else walkToRoot t ?by"
  have "go_get rootSkip ?k = Some True"
    using filter_tables_drops[OF ft t(1) gone] dropped_table t(2) by blast
  from root_skips_has[OF rs this] obtain u ds dn where u: "u \<in> set tables" "t_FQN u = ?k"
      "TranslateToDestFQN opt (t_Schema u) (t_Name u) = Inr (ds, dn)" "IsDestTableExisting opt (destDbName env) ds dn"
    by auto
  have nodot: "CHR ''.'' \<notin> set (t_Schema u)" "CHR ''.'' \<notin> set (t_Schema t)"
    using t u(1) by (auto simp: list_all_iff)
  have kept: "\<not> skip_pair opt (destDbName env) (leaf_to_root pm roots) d"
    using dat pair(1) by (auto simp: filterTablePairsByDestExisting_def dest: pairs_loop_kept split: if_splits)
  show False
  proof (cases "is_root_level t")
    case True
    with u(2) nodot have "t_Schema u = t_Schema t" "t_Name u = t_Name t"
      by (auto simp: t_FQN_def fqn_inject)
    with u(3) pair(2) have "ds = Schema d" "dn = Name d" by (auto simp: same_table_def)
    with kept u(4) show False by (simp add: skip_pair_def)
  next
    case False
    with leaf obtain rs rn ds' dn' ls where l: "walkToRoot t ?by = fqn rs rn" "CHR ''.'' \<notin> set rs" "CHR ''.'' \<notin> set ds'"
        "TranslateToDestFQN opt rs rn = Inr (ds', dn')" "go_get pm (fqn ds' dn') = Some ls" "fqn (Schema d) (Name d) \<in> set ls"
        "\<And>r' ls'. go_get pm r' = Some ls' \<Longrightarrow> fqn (Schema d) (Name d) \<in> set ls' \<Longrightarrow> r' = fqn ds' dn'"
      unfolding leaf_listed_def by blast
    from u(2) False l(1,2) nodot have "t_Schema u = rs" "t_Name u = rn" by (auto simp: t_FQN_def fqn_inject)
    with u(3,4) l(4) have "IsDestTableExisting opt (destDbName env) ds' dn'" by simp
    with kept skip_pair_leaf[OF pm l(5,6) _ l(3)] l(7) show False by blast
  qed
qed

definition demo_skip_opt :: Option where
  "demo_skip_opt = demo_opt\<lparr>destDbInventory := [(''db'', [(''d1.old'', ())])], destDbRootParts := []\<rparr>"

definition demo_skip_env :: skip_env where
  "demo_skip_env = \<lparr>se_flags = \<lparr>GetString = \<lambda>_. Inr [], GetInt = \<lambda>_. Inr 0, GetBool = \<lambda>_. Inr True,
      GetStringSlice = \<lambda>_. Inr [], Changed = \<lambda>_. False\<rparr>,
     runtimeOption = Some demo_skip_opt, srcDbName = ''db'', destDbName = ''db'',
     srcDBVersion = no_version\<lparr>Type := CBDB\<rparr>, version_ranges = demo_ranges\<rparr>"

definition demo_rel :: "string \<Rightarrow> string \<Rightarrow> string list \<Rightarrow> RelTable" where
  "demo_rel n l is = \<lparr>t_Schema = ''s1'', t_Name = n, IsExternal = False, Level = l, Inherits = is\<rparr>"

definition demo_rels :: "RelTable list" where
  "demo_rels = [demo_rel ''old'' ''p'' [], demo_rel ''old_1'' ''l'' [''s1.old''],
     demo_rel ''new'' ''p'' [], demo_rel ''new_1'' ''l'' [''s1.new'']]"

definition demo_parts :: "(string, string list) gomap" where
  "demo_parts = [(''d1.old'', [''d1.old_1'']), (''d1.new'', [''d1.new_1''])]"

lemmas demo_skip = demo_skip_opt_def demo_skip_env_def demo_rel_def demo_rels_def demo_parts_def demo_opt_def

lemma demo_FilterTables:
  "FilterTablesByDestExisting demo_skip_env demo_rels =
     Inr ([demo_rel ''new'' ''p'' [], demo_rel ''new_1'' ''l'' [''s1.new'']],
       [skip_record demo_skip_env (demo_rel ''old'' ''p'' []) ''d1'' ''old'' SkipReasonExists,
        skip_record demo_skip_env (demo_rel ''old_1'' ''l'' [''s1.old'']) ''d1'' ''old_1'' SkipReasonRootExists])"
  by code_simp

lemma demo_filterPairs:
  "filterTablePairsByDestExisting demo_skip_opt [''d1.old'', ''d1.new''] ''db'' ''db''
     [mkTable ''s1'' ''old_1'', mkTable ''s1'' ''new_1''] [mkTable ''d1'' ''old_1'', mkTable ''d1'' ''new_1''] demo_parts [] =
   Inr ([mkTable ''s1'' ''new_1''], [mkTable ''d1'' ''new_1''],
     RecordPairSkip [] ''db'' ''s1'' ''old_1'' ''db'' ''d1'' ''old_1'')"
  by code_simp

lemma demo_leaf_listed:
  "leaf_listed demo_skip_opt demo_parts (walkToRoot (demo_rel ''new_1'' ''l'' [''s1.new'']) (index_tables demo_rels)) (mkTable ''d1'' ''new_1'')"
proof -
  have "walkToRoot (demo_rel ''new_1'' ''l'' [''s1.new'']) (index_tables demo_rels) = fqn ''s1'' ''new''" by code_simp
  moreover have "TranslateToDestFQN demo_skip_opt ''s1'' ''new'' = Inr (''d1'', ''new'')" by code_simp
  ultimately show ?thesis unfolding leaf_listed_def
    by (intro exI[of _ "''s1''"] exI[of _ "''new''"] exI[of _ "''d1''"] exI[of _ "[''d1.new_1'']"])
      (auto simp: demo_parts_def fqn_def mkTable_def split: if_splits)
qed

theorem kept_pairs_have_definitions_witness:
  "demo_rel ''new_1'' ''l'' [''s1.new''] \<in> set (fst (projr (FilterTablesByDestExisting demo_skip_env demo_rels)))"
  unfolding demo_FilterTables sum.sel prod.sel
proof (rule kept_pairs_have_definitions[OF _ _ demo_FilterTables])
  show "MustGetFlagBool (se_flags demo_skip_env) ''skip-existing'' = Inr True" by code_simp
  show "runtimeOption demo_skip_env = Some demo_skip_opt" by (simp add: demo_skip_env_def)
  show "filterTablePairsByDestExisting demo_skip_opt [''d1.old'', ''d1.new''] ''db'' (destDbName demo_skip_env)
     [mkTable ''s1'' ''old_1'', mkTable ''s1'' ''new_1''] [mkTable ''d1'' ''old_1'', mkTable ''d1'' ''new_1''] demo_parts [] =
   Inr ([mkTable ''s1'' ''new_1''], [mkTable ''d1'' ''new_1''],
     RecordPairSkip [] ''db'' ''s1'' ''old_1'' ''db'' ''d1'' ''old_1'')"
    unfolding demo_filterPairs[symmetric] by (simp add: demo_skip_env_def)
  show "is_root_level (demo_rel ''new_1'' ''l'' [''s1.new'']) \<or>
    leaf_listed demo_skip_opt demo_parts (walkToRoot (demo_rel ''new_1'' ''l'' [''s1.new'']) (index_tables demo_rels)) (mkTable ''d1'' ''new_1'')"
    using demo_leaf_listed by simp
  show "same_table demo_skip_opt (demo_rel ''new_1'' ''l'' [''s1.new'']) (mkTable ''s1'' ''new_1'') (mkTable ''d1'' ''new_1'')"
    by code_simp
qed (auto simp: demo_parts_def iter_order_def demo_rels_def demo_rel_def)

section \<open>Partition trees and long names\<close>

text \<open>\<open>up n t r\<close>: \<open>r\<close> is reached from \<open>t\<close> by following the first parent \<open>n\<close> times.\<close>

inductive up :: "(string, 'r RelTable_scheme) gomap \<Rightarrow> nat \<Rightarrow> 'r RelTable_scheme \<Rightarrow> 'r RelTable_scheme \<Rightarrow> bool" for byFQN where
  up_here: "up byFQN 0 t t"
| up_parent: "\<not> is_root_level t \<Longrightarrow> Inherits t = p # ps \<Longrightarrow> go_get byFQN p = Some u \<Longrightarrow> up byFQN n u r \<Longrightarrow>
    up byFQN (Suc n) t r"

lemma walk_up_root: "up byFQN n t r \<Longrightarrow> is_root_level r \<Longrightarrow> n \<le> i \<Longrightarrow> walk_up i t byFQN = t_FQN r"
proof (induction arbitrary: i rule: up.induct)
  case (up_here t)
  then show ?case by (cases i) simp_all
next
  case (up_parent t p ps u n r)
  then show ?case by (cases i) auto
qed

lemma walk_up_cut: "up byFQN n t r \<Longrightarrow> walk_up n t byFQN = t_FQN r"
  by (induction rule: up.induct) auto

text \<open>
  Claim C34. \<open>walkToRoot\<close> always ends, after at most 16 steps: it finds the root of a partition tree in
  which the table lies at most 16 levels below it, and where the chain of parents is longer it
  answers with the ancestor at distance 16, even when the parents form a cycle.
\<close>

theorem walkToRoot_bound:
  assumes "up byFQN n t r"
  shows "if is_root_level r \<and> n \<le> 16 then walkToRoot t byFQN = t_FQN r
    else n = 16 \<longrightarrow> walkToRoot t byFQN = t_FQN r"
  using walk_up_root[OF assms] walk_up_cut[OF assms] by (auto simp: walkToRoot_def)

lemma demo_up: "up (index_tables demo_rels) 1 (demo_rel ''new_1'' ''l'' [''s1.new'']) (demo_rel ''new'' ''p'' [])"
proof -
  have "up (index_tables demo_rels) (Suc 0) (demo_rel ''new_1'' ''l'' [''s1.new'']) (demo_rel ''new'' ''p'' [])"
  proof (rule up_parent)
    show "go_get (index_tables demo_rels) ''s1.new'' = Some (demo_rel ''new'' ''p'' [])" by code_simp
  qed (auto simp: demo_rel_def is_root_level_def up_here)
  then show ?thesis by simp
qed

theorem walkToRoot_bound_witness:
  "walkToRoot (demo_rel ''new_1'' ''l'' [''s1.new'']) (index_tables demo_rels) = ''s1.new''"
  using walkToRoot_bound[OF demo_up] by (simp add: is_root_level_def demo_rel_def t_FQN_def fqn_def)

text \<open>
  The suffix of an external partition keeps short names whole, but a name it has to shorten comes
  out one character too long: 64 characters, where a relation name has at most 63.
\<close>

lemma AppendExtPartSuffix_short:
  "name \<noteq> [] \<Longrightarrow> List.last name \<noteq> DQ \<Longrightarrow> length name \<le> 53 \<Longrightarrow> AppendExtPartSuffix name = Inr (name @ ext_SUFFIX)"
  by (simp add: AppendExtPartSuffix_def MAX_LEN_def ext_SUFFIX_def)

lemma AppendExtPartSuffix_too_long:
  assumes "54 \<le> length name" and "List.last name \<noteq> DQ"
  shows "\<exists>r. AppendExtPartSuffix name = Inr r \<and> length r = MAX_LEN + 1"
proof -
  have "name \<noteq> []" using assms(1) by auto
  with assms show ?thesis by (simp add: AppendExtPartSuffix_def MAX_LEN_def ext_SUFFIX_def)
qed

end
