(* ===== verification/PrintRelations.thy ===== *)
theory PrintRelations
  imports PrintFunctions Restore SkipExisting
begin

text \<open>
  Tables, sequences and views, \<open>src/meta/builtin/predata_relations.go\<close>, and external tables and protocols,
  \<open>predata_externals.go\<close>, with their structs and methods of \<open>queries_table_defs.go\<close>, \<open>queries_relations.go\<close>
  and \<open>queries_externals.go\<close>.

  The regular expressions of the rewriting functions are scans over a line: a greedy \<open>.*\<close> before a
  literal finds its last occurrence, a negated class stops at the first excluded byte.
\<close>

section \<open>Objects\<close>

record ExternalTableDefinition =
  ed_Oid :: "32 word"
  ed_Type :: int
  ed_Protocol :: int
  ed_Location :: "string option"
  ed_ExecLocation :: string
  ed_FormatType :: string
  ed_FormatOpts :: string
  ed_Command :: string
  ed_RejectLimit :: int
  ed_RejectLimitType :: string
  ed_ErrTableName :: string
  ed_ErrTableSchema :: string
  ed_LogErrors :: bool
  ed_LogErrPersist :: bool
  ed_Encoding :: string
  ed_Writable :: bool
  ed_URIs :: "string list"

record PartitionLevelInfo =
  pli_Oid :: "32 word"
  pli_Level :: string
  pli_RootName :: string

record ColumnDefinition =
  cd_Oid :: "32 word"
  cd_Num :: int
  cd_Name :: string
  cd_NotNull :: bool
  cd_HasDefault :: bool
  cd_Type :: string
  cd_Encoding :: string
  cd_StatTarget :: int
  cd_StorageType :: string
  cd_DefaultVal :: string
  cd_Comment :: string
  cd_Privileges :: "string option"
  cd_Kind :: string
  cd_Options :: string
  cd_FdwOptions :: string
  cd_Collation :: string
  cd_SecurityLabelProvider :: string
  cd_SecurityLabel :: string
  cd_AttGenerated :: string

record AlteredPartitionRelation =
  ap_OldSchema :: string
  ap_NewSchema :: string
  ap_Name :: string

record ForeignTableDefinition =
  ft_Oid :: "32 word"
  ft_Options :: string
  ft_Server :: string

record AttachPartitionInfo =
  ai_Oid :: "32 word"
  ai_Relname :: string
  ai_Parent :: string
  ai_Expr :: string

definition no_foreign :: ForeignTableDefinition where
  "no_foreign = \<lparr>ft_Oid = 0, ft_Options = [], ft_Server = []\<rparr>"

definition no_attach :: AttachPartitionInfo where
  "no_attach = \<lparr>ai_Oid = 0, ai_Relname = [], ai_Parent = [], ai_Expr = []\<rparr>"

record Relation =
  r_SchemaOid :: "32 word"
  r_Oid :: "32 word"
  r_Schema :: string
  r_Name :: string

definition Relation_FQN :: "'a Relation_scheme \<Rightarrow> string" where
  "Relation_FQN x = fqn (r_Schema x) (r_Name x)"

definition Relation_GetUniqueID :: "'a Relation_scheme \<Rightarrow> UniqueID" where
  "Relation_GetUniqueID x = mk_id PG_CLASS_OID (r_Oid x)"

text \<open>\<open>Table\<close> embeds \<open>Relation\<close> and \<open>TableDefinition\<close>.\<close>

record Table = Relation +
  tb_DistPolicy :: string
  tb_PartDef :: string
  tb_PartTemplateDef :: string
  tb_StorageOpts :: string
  tb_TablespaceName :: string
  tb_ColumnDefs :: "ColumnDefinition list"
  tb_IsExternal :: bool
  tb_ExtTableDef :: ExternalTableDefinition
  tb_PartitionLevelInfo :: PartitionLevelInfo
  tb_TableType :: string
  tb_IsUnlogged :: bool
  tb_ForeignDef :: ForeignTableDefinition
  tb_Inherits :: "string list"
  tb_ReplicaIdentity :: string
  tb_PartitionAlteredSchemas :: "AlteredPartitionRelation list"
  tb_AccessMethodName :: string
  tb_PartitionKeyDef :: string
  tb_AttachPartitionInfo :: AttachPartitionInfo
  tb_ForceRowSecurity :: bool

definition Table_SkipDataBackup :: "Table \<Rightarrow> bool" where
  "Table_SkipDataBackup t \<longleftrightarrow> tb_IsExternal t \<or> tb_ForeignDef t \<noteq> no_foreign"

definition Table_GetMetadataEntry :: "'a acl_env_scheme \<Rightarrow> Table \<Rightarrow> (string \<times> MetadataEntry) res" where
  "Table_GetMetadataEntry env t =
     rbind (if tb_IsExternal t then src_at_least env ''7'' else Inr False) (\<lambda>ext7.
       let objectType = (if tb_ForeignDef t \<noteq> no_foreign \<or> ext7 then ''FOREIGN TABLE'' else ''TABLE'');
           referenceObject = (if tb_AttachPartitionInfo t \<noteq> no_attach then ai_Parent (tb_AttachPartitionInfo t) else [])
       in Inr (''predata'', mk_entry (r_Schema t) (r_Name t) objectType referenceObject))"

definition Table_object :: "'a acl_env_scheme \<Rightarrow> Table \<Rightarrow> toc_object res" where
  "Table_object env t = rbind (Table_GetMetadataEntry env t) (\<lambda>se. Inr (mk_object se (Relation_FQN t)))"

record SequenceDefinition =
  sd_LastVal :: int
  sd_StartVal :: int
  sd_Increment :: int
  sd_MaxVal :: int
  sd_MinVal :: int
  sd_CacheVal :: int
  sd_Type :: string
  sd_IsCycled :: bool
  sd_IsCalled :: bool
  sd_OwningTable :: string

record Sequence = Relation +
  sq_OwningTableOid :: string
  sq_OwningTableSchema :: string
  sq_OwningTable :: string
  sq_OwningColumn :: string
  sq_UnqualifiedOwningColumn :: string
  sq_OwningColumnAttIdentity :: string
  sq_IsIdentity :: bool
  sq_Definition :: SequenceDefinition

definition Sequence_GetMetadataEntry :: "Sequence \<Rightarrow> string \<times> MetadataEntry" where
  "Sequence_GetMetadataEntry x = (''predata'', mk_entry (r_Schema x) (r_Name x) ''SEQUENCE'' [])"

definition Sequence_object :: "Sequence \<Rightarrow> toc_object" where
  "Sequence_object x = mk_object (Sequence_GetMetadataEntry x) (Relation_FQN x)"

record View =
  vw_Oid :: "32 word"
  vw_Schema :: string
  vw_Name :: string
  vw_Options :: string
  vw_Definition :: "string option"
  vw_Tablespace :: string
  vw_IsMaterialized :: bool
  vw_DistPolicy :: string
  vw_AccessMethodName :: string

definition View_ObjectType :: "View \<Rightarrow> string" where
  "View_ObjectType x = (if vw_IsMaterialized x then ''MATERIALIZED VIEW'' else ''VIEW'')"

definition View_FQN :: "View \<Rightarrow> string" where
  "View_FQN x = fqn (vw_Schema x) (vw_Name x)"

definition View_GetMetadataEntry :: "View \<Rightarrow> string \<times> MetadataEntry" where
  "View_GetMetadataEntry x = (''predata'', mk_entry (vw_Schema x) (vw_Name x) (View_ObjectType x) [])"

definition View_GetUniqueID :: "View \<Rightarrow> UniqueID" where
  "View_GetUniqueID x = mk_id PG_CLASS_OID (vw_Oid x)"

definition View_object :: "View \<Rightarrow> toc_object" where
  "View_object x = mk_object (View_GetMetadataEntry x) (View_FQN x)"

record ExternalProtocol =
  xp_Oid :: "32 word"
  xp_Name :: string
  xp_Owner :: string
  xp_Trusted :: bool
  xp_ReadFunction :: "32 word"
  xp_WriteFunction :: "32 word"
  xp_Validator :: "32 word"

definition ExternalProtocol_FQN :: "ExternalProtocol \<Rightarrow> string" where
  "ExternalProtocol_FQN x = xp_Name x"

definition ExternalProtocol_GetMetadataEntry :: "ExternalProtocol \<Rightarrow> string \<times> MetadataEntry" where
  "ExternalProtocol_GetMetadataEntry x = (''predata'', mk_entry [] (xp_Name x) ''PROTOCOL'' [])"

definition ExternalProtocol_GetUniqueID :: "ExternalProtocol \<Rightarrow> UniqueID" where
  "ExternalProtocol_GetUniqueID x = mk_id PG_EXTPROTOCOL_OID (xp_Oid x)"

definition ExternalProtocol_object :: "ExternalProtocol \<Rightarrow> toc_object" where
  "ExternalProtocol_object x = mk_object (ExternalProtocol_GetMetadataEntry x) (ExternalProtocol_FQN x)"

record PartitionInfo =
  pi_PartitionRuleOid :: "32 word"
  pi_PartitionParentRuleOid :: "32 word"
  pi_ParentRelationOid :: "32 word"
  pi_ParentSchema :: string
  pi_ParentRelationName :: string
  pi_RelationOid :: "32 word"
  pi_PartitionName :: string
  pi_PartitionRank :: int
  pi_IsExternal :: bool

definition PartitionInfo_GetMetadataEntry :: "PartitionInfo \<Rightarrow> string \<times> MetadataEntry" where
  "PartitionInfo_GetMetadataEntry x = (''predata'', mk_entry (pi_ParentSchema x) (pi_ParentRelationName x) ''EXCHANGE PARTITION'' [])"

section \<open>Splitting by partition type\<close>

text \<open>
  Leaf data is always copied (\<open>tempVarLeafPartitionData\<close>), so the list of included tables plays no role.
  The lists hold the table with the name it has after the suffix was added.
\<close>

definition split_table :: "ranges \<Rightarrow> GPDBVersion \<Rightarrow> Table \<Rightarrow> (Table list \<times> Table list) res" where
  "split_table rng v t =
     (let level = pli_Level (tb_PartitionLevelInfo t); extLeaf = tb_IsExternal t \<and> level = ''l''
      in rbind (if extLeaf then is_old_gpdb rng v ''7'' else Inr False) (\<lambda>old.
         rbind (if old then AppendExtPartSuffix (r_Name t) else Inr (r_Name t)) (\<lambda>name.
         rbind (version_gate rng v ''7'') (\<lambda>at7.
           let t' = t\<lparr>r_Name := name\<rparr>
           in Inr ((if extLeaf then [t'] else []) @ (if at7 \<or> level \<noteq> ''l'' \<and> level \<noteq> ''i'' then [t'] else []),
                   if level \<noteq> ''p'' \<and> level \<noteq> ''i'' then [t'] else [])))))"

fun SplitTablesByPartitionType :: "ranges \<Rightarrow> GPDBVersion \<Rightarrow> Table list \<Rightarrow> string list \<Rightarrow> (Table list \<times> Table list) res" where
  "SplitTablesByPartitionType rng v [] includeList = Inr ([], [])"
| "SplitTablesByPartitionType rng v (t # ts) includeList =
     rbind (split_table rng v t) (\<lambda>(ms, ds). rbind (SplitTablesByPartitionType rng v ts includeList) (\<lambda>(ms', ds').
       Inr (ms @ ms', ds @ ds')))"

section \<open>Rewriting storage options\<close>

definition HasPrefix :: "string \<Rightarrow> string \<Rightarrow> bool" where
  "HasPrefix s p = prefix p s"

definition TrimPrefix :: "string \<Rightarrow> string \<Rightarrow> string" where
  "TrimPrefix s p = (if prefix p s then drop (length p) s else s)"

definition TrimSuffix :: "string \<Rightarrow> string \<Rightarrow> string" where
  "TrimSuffix s p = (if suffix p s then take (length s - length p) s else s)"

definition removeFillFactor :: "string \<Rightarrow> string" where
  "removeFillFactor storageOpts =
     Join (filter (\<lambda>opt. \<not> HasPrefix opt ''fillfactor='') (map TrimSpace (Split CHR '','' storageOpts))) '', ''"

text \<open>
  \<open>(.+)TABLESPACE ([^,]+)(,| |$)\<close>: the last \<open>TABLESPACE\<close> that is not at the start of the line and is followed by
  a byte other than a comma; the second group runs to the next comma or to the end of the line.
  What comes after the third group is not part of the new line.
\<close>

definition tablespace_at :: "string \<Rightarrow> nat \<Rightarrow> bool" where
  "tablespace_at s p \<longleftrightarrow> p > 0 \<and> prefix ''TABLESPACE '' (drop p s) \<and> takeWhile (\<lambda>c. c \<noteq> CHR '','') (drop (p + 11) s) \<noteq> []"

definition match_tablespace :: "string \<Rightarrow> (string \<times> string \<times> string) option" where
  "match_tablespace s =
     map_option (\<lambda>p. let r = drop (p + 11) s; name = takeWhile (\<lambda>c. c \<noteq> CHR '','') r in (take p s, name, take 1 (drop (length name) r)))
       (last_such (tablespace_at s) [0..<length s])"

definition replace_line :: "string \<times> (string, string) gomap \<Rightarrow> string \<Rightarrow> string" where
  "replace_line dest line =
     (case match_tablespace line of
        Some (m1, m2, m3) \<Rightarrow> m1 @ ''TABLESPACE '' @ GetDestTablespace dest m2 @ m3
      | None \<Rightarrow> line)"

definition replaceTableSpace :: "string \<times> (string, string) gomap \<Rightarrow> string \<Rightarrow> string" where
  "replaceTableSpace dest content =
     TrimSuffix (concat (map (\<lambda>line. replace_line dest line @ NL) (Split CHR 0x0A content))) NL"

text \<open>The loop of the other three: a line feed after every line when there are several, one removed at the end.\<close>

definition each_line :: "(string \<Rightarrow> string) \<Rightarrow> string \<Rightarrow> string" where
  "each_line f content =
     (let lines = Split CHR 0x0A content
      in TrimSuffix (concat (map (\<lambda>line. f line @ text_if (length lines > 1) NL) lines)) NL)"

text \<open>\<open>(.*)\<close>, a word, \<open>(.*)\<close>: the last occurrence of the word in the line is replaced.\<close>

definition replace_last :: "string list \<Rightarrow> string \<Rightarrow> string \<Rightarrow> string" where
  "replace_last words new line =
     (case last_such (\<lambda>p. \<exists>w \<in> set words. prefix w (drop p line)) [0..<length line] of
        None \<Rightarrow> line
      | Some p \<Rightarrow> (case List.find (\<lambda>w. prefix w (drop p line)) words of
          Some w \<Rightarrow> take p line @ new @ drop (p + length w) line
        | None \<Rightarrow> line))"

definition rewriteCompressAlgorithm :: "string \<Rightarrow> string" where
  "rewriteCompressAlgorithm = each_line (replace_last [''compresstype=zlib'', ''compresstype=quicklz''] ''compresstype=zstd'')"

definition rewriteAppendonly :: "string \<Rightarrow> string" where
  "rewriteAppendonly = each_line (replace_last [''appendonly=false''] ''appendonly=true'')"

text \<open>\<open>blocksize=\d+\<close> at the beginning of a text, and the rest.\<close>

definition blocksize :: "string \<Rightarrow> string option" where
  "blocksize s =
     (if prefix ''blocksize='' s \<and> takeWhile is_digit (drop 10 s) \<noteq> [] then Some (dropWhile is_digit (drop 10 s)) else None)"

definition after_sep :: "string \<Rightarrow> string option" where
  "after_sep s = (case s of c # r \<Rightarrow> if c = CHR '','' then Some (if take 1 r = '' '' then tl r else r) else None | [] \<Rightarrow> None)"

text \<open>\<open>(, |,)blocksize=\d+\<close> and the rest.\<close>

definition sep_blocksize :: "string \<Rightarrow> string option" where
  "sep_blocksize s = Option.bind (after_sep s) blocksize"

text \<open>
  \<open>([^,]+)(, |,)blocksize=\d+($|\))\<close>, all matches: \<open>ne\<close> says that the run of bytes before is not empty.
\<close>

definition right_match :: "string \<Rightarrow> string option" where
  "right_match s = (case sep_blocksize s of Some r \<Rightarrow> if r = [] \<or> hd r = CHR '')'' then Some r else None | None \<Rightarrow> None)"

lemma sep_blocksize_length: "sep_blocksize s = Some r \<Longrightarrow> length r < length s"
proof -
  assume a: "sep_blocksize s = Some r"
  then obtain u where u: "after_sep s = Some u" "blocksize u = Some r" by (auto simp: sep_blocksize_def Option.bind_eq_Some_conv)
  from u(2) have "length r \<le> length u"
    using length_dropWhile_le[of is_digit "drop 10 u"] by (auto simp: blocksize_def split: if_splits)
  moreover from u(1) have "length u < length s" by (auto simp: after_sep_def split: list.splits if_splits)
  ultimately show ?thesis by simp
qed

lemma right_match_length: "right_match s = Some r \<Longrightarrow> length r < length s"
  by (auto simp: right_match_def split: option.splits if_splits dest: sep_blocksize_length)

function drop_right :: "bool \<Rightarrow> string \<Rightarrow> string" where
  "drop_right ne [] = []"
| "drop_right ne (c # s) =
     (case (if ne then right_match (c # s) else None) of
        Some r \<Rightarrow> take 1 r @ drop_right False (tl r)
      | None \<Rightarrow> c # drop_right (c \<noteq> CHR '','') s)"
  by pat_completeness auto
termination
proof (relation "measure (\<lambda>(ne, s). length s)")
  fix ne c s r assume "(if ne then right_match (c # s) else None) = Some r"
  then have "length r < length (c # s)" by (auto split: if_splits dest: right_match_length)
  then show "((False, tl r), (ne, c # s)) \<in> measure (\<lambda>(ne, s). length s)" by simp
qed auto

fun has_right :: "bool \<Rightarrow> string \<Rightarrow> bool" where
  "has_right ne [] = False"
| "has_right ne (c # s) \<longleftrightarrow> ne \<and> right_match (c # s) \<noteq> None \<or> has_right (c \<noteq> CHR '','') s"

text \<open>\<open>([^,]+)(, |,)blocksize=\d+(, |,)(.*)\<close>: the first match, which takes the rest of the line.\<close>

definition middle_match :: "string \<Rightarrow> string option" where
  "middle_match s = (case sep_blocksize s of Some r \<Rightarrow> if take 1 r = '','' then Some r else None | None \<Rightarrow> None)"

fun drop_middle :: "bool \<Rightarrow> string \<Rightarrow> string option" where
  "drop_middle ne [] = None"
| "drop_middle ne (c # s) =
     (case (if ne then middle_match (c # s) else None) of
        Some r \<Rightarrow> Some r
      | None \<Rightarrow> map_option (\<lambda>u. c # u) (drop_middle (c \<noteq> CHR '','') s))"

text \<open>\<open>(^|[^(]+\()blocksize=\d+(, |,)(.*)\<close>: at the start of the line or after an opening parenthesis that follows another byte.\<close>

definition left_match :: "string \<Rightarrow> string option" where
  "left_match s = Option.bind (blocksize s) after_sep"

fun drop_left :: "bool \<Rightarrow> string \<Rightarrow> string option" where
  "drop_left ne [] = None"
| "drop_left ne (c # s) =
     (case (if ne \<and> c = CHR ''('' then left_match s else None) of
        Some r \<Rightarrow> Some (c # r)
      | None \<Rightarrow> map_option (\<lambda>u. c # u) (drop_left (c \<noteq> CHR ''('') s))"

definition blocksize_line :: "string \<Rightarrow> string" where
  "blocksize_line line =
     (if has_right False line then drop_right False line
      else case drop_middle False line of
        Some r \<Rightarrow> r
      | None \<Rightarrow> (case left_match line of
          Some r \<Rightarrow> r
        | None \<Rightarrow> (case drop_left False line of Some r \<Rightarrow> r | None \<Rightarrow> line)))"

definition replaceBlocksize :: "string \<Rightarrow> string" where
  "replaceBlocksize = each_line blocksize_line"

section \<open>Tables\<close>

definition dest_hdw3 :: "print_env \<Rightarrow> bool res" where
  "dest_hdw3 env = (if IsHDW (dest_version env) then Is (acl_ranges env) (dest_version env) ''3'' else Inr False)"

definition rewrite_options :: "string \<Rightarrow> string" where
  "rewrite_options s = rewriteAppendonly (rewriteCompressAlgorithm (replaceBlocksize s))"

definition column_line :: "bool \<Rightarrow> string \<Rightarrow> ColumnDefinition \<Rightarrow> string" where
  "column_line hdw3 tableType c =
     (if tableType \<noteq> [] then TAB @ cd_Name c @ '' WITH OPTIONS'' else TAB @ cd_Name c @ '' '' @ cd_Type c) @
     text_if (cd_FdwOptions c \<noteq> []) ('' OPTIONS ('' @ cd_FdwOptions c @ '')'') @
     text_if (cd_Collation c \<noteq> []) ('' COLLATE '' @ cd_Collation c) @
     text_if (cd_HasDefault c)
       (if cd_AttGenerated c \<noteq> [] then '' GENERATED ALWAYS AS '' @ cd_DefaultVal c @ '' '' @ cd_AttGenerated c
        else '' DEFAULT '' @ cd_DefaultVal c) @
     text_if (cd_NotNull c) '' NOT NULL'' @
     text_if (cd_Encoding c \<noteq> []) ('' ENCODING ('' @ (if hdw3 then rewrite_options (cd_Encoding c) else cd_Encoding c) @ '')'')"

definition printColumnDefinitions :: "bool \<Rightarrow> ColumnDefinition list \<Rightarrow> string \<Rightarrow> string" where
  "printColumnDefinitions hdw3 cs tableType =
     (let lines = map (column_line hdw3 tableType) cs in text_if (length lines > 0) (Join lines ('','' @ NL) @ NL))"

definition alter_column :: "Table \<Rightarrow> ColumnDefinition \<Rightarrow> string" where
  "alter_column t c =
     (let pre = NL @ ''ALTER TABLE ONLY '' @ Relation_FQN t @ '' ALTER COLUMN '' @ cd_Name c
      in text_if (cd_StatTarget c > -1) (pre @ '' SET STATISTICS '' @ Itoa (cd_StatTarget c) @ '';'') @
         text_if (cd_StorageType c \<noteq> []) (pre @ '' SET STORAGE '' @ cd_StorageType c @ '';'') @
         text_if (cd_Options c \<noteq> []) (pre @ '' SET ('' @ cd_Options c @ '');''))"

definition printAlterColumnStatements :: "Table \<Rightarrow> ColumnDefinition list \<Rightarrow> string" where
  "printAlterColumnStatements t cs = concat (map (alter_column t) cs)"

definition storage_with :: "bool \<Rightarrow> Table \<Rightarrow> string" where
  "storage_with hdw3 t =
     (let opts = (if Contains (tb_StorageOpts t) ''appendonly=true'' then removeFillFactor (tb_StorageOpts t) else tb_StorageOpts t)
      in text_if (tb_StorageOpts t \<noteq> []) (''WITH ('' @ (if hdw3 then rewrite_options opts else opts) @ '') ''))"

definition part_text :: "print_env \<Rightarrow> bool \<Rightarrow> string \<Rightarrow> string" where
  "part_text env hdw3 d =
     (if hdw3 then TrimSpace (rewrite_options (replaceTableSpace (dest_tablespaces env) d))
      else replaceTableSpace (dest_tablespaces env) (TrimSpace d))"

definition table_modifier :: "Table \<Rightarrow> string" where
  "table_modifier t = (if tb_IsUnlogged t then ''UNLOGGED '' else if tb_ForeignDef t \<noteq> no_foreign then ''FOREIGN '' else [])"

definition foreign_clause :: "Table \<Rightarrow> string" where
  "foreign_clause t = text_if (tb_ForeignDef t \<noteq> no_foreign)
     (''SERVER '' @ ft_Server (tb_ForeignDef t) @ '' '' @
      text_if (ft_Options (tb_ForeignDef t) \<noteq> []) (''OPTIONS ('' @ ft_Options (tb_ForeignDef t) @ '') ''))"

text \<open>The table of contents that the printers of a table receive is nil, so they only write text.\<close>

definition PrintRegularTableCreateStatement :: "print_env \<Rightarrow> bool \<Rightarrow> Table \<Rightarrow> string" where
  "PrintRegularTableCreateStatement env hdw3 t =
     BR @ ''CREATE '' @ table_modifier t @ ''TABLE '' @ Relation_FQN t @ '' '' @
     text_if (tb_TableType t \<noteq> []) (''OF '' @ tb_TableType t @ '' '') @ ''('' @ NL @
     printColumnDefinitions hdw3 (tb_ColumnDefs t) (tb_TableType t) @ '') '' @
     text_if (tb_PartitionKeyDef t \<noteq> []) (''PARTITION BY '' @ tb_PartitionKeyDef t @ '' '') @
     text_if (tb_Inherits t \<noteq> [] \<and> tb_AttachPartitionInfo t = no_attach) (''INHERITS ('' @ Join (tb_Inherits t) '', '' @ '') '') @
     foreign_clause t @
     text_if (tb_AccessMethodName t \<noteq> []) (''USING '' @ tb_AccessMethodName t @ '' '') @
     storage_with hdw3 t @
     text_if (tb_TablespaceName t \<noteq> []) (''TABLESPACE '' @ GetDestTablespace (dest_tablespaces env) (tb_TablespaceName t) @ '' '') @
     tb_DistPolicy t @
     text_if (tb_PartDef t \<noteq> []) ('' '' @ part_text env hdw3 (tb_PartDef t)) @ '';'' @ NL @
     text_if (tb_PartTemplateDef t \<noteq> []) (part_text env hdw3 (tb_PartTemplateDef t) @ '';'' @ NL) @
     printAlterColumnStatements t (tb_ColumnDefs t)"

definition column_metadata :: "print_env \<Rightarrow> Table \<Rightarrow> ObjectMetadata \<Rightarrow> ColumnDefinition \<Rightarrow> string list" where
  "column_metadata env t metadata a =
     item_if (cd_Comment a \<noteq> [])
       (''COMMENT ON COLUMN '' @ Relation_FQN t @ ''.'' @ cd_Name a @ '' IS '' @ in_quotes (EscapeSingleQuotes (cd_Comment a)) @ '';'') @
     item_if (cd_Privileges a \<noteq> None)
       (TrimSpace (GetPrivilegesStatements (role_map env)
          (no_metadata\<lparr>Privileges := getColumnACL (quoted_roles env) (cd_Privileges a) (cd_Kind a), Owner := Owner metadata\<rparr>)
          (Relation_FQN t) ''COLUMN'' [cd_Name a])) @
     item_if (cd_SecurityLabel a \<noteq> [])
       (''SECURITY LABEL FOR '' @ cd_SecurityLabelProvider a @ '' ON COLUMN '' @ Relation_FQN t @ ''.'' @ cd_Name a @ '' IS '' @
        in_quotes (EscapeSingleQuotes (cd_SecurityLabel a)) @ '';'')"

definition replica_identity :: "Table \<Rightarrow> string list" where
  "replica_identity t =
     (if tb_ReplicaIdentity t \<noteq> [] \<and> tb_ForeignDef t = no_foreign
      then item_if (tb_ReplicaIdentity t = ''n'') (''ALTER TABLE '' @ Relation_FQN t @ '' REPLICA IDENTITY NOTHING;'') @
           item_if (tb_ReplicaIdentity t = ''f'') (''ALTER TABLE '' @ Relation_FQN t @ '' REPLICA IDENTITY FULL;'')
      else [])"

definition altered_schemas :: "Table \<Rightarrow> string list" where
  "altered_schemas t = map (\<lambda>p. ''ALTER TABLE '' @ fqn (ap_OldSchema p) (ap_Name p) @ '' SET SCHEMA '' @ ap_NewSchema p @ '';'')
     (tb_PartitionAlteredSchemas t)"

definition attach_statements :: "Table \<Rightarrow> string list res" where
  "attach_statements t =
     rbind (if tb_AttachPartitionInfo t \<noteq> no_attach
        then rbind (go_index (tb_Inherits t) 0) (\<lambda>parent. Inr [''ALTER TABLE ONLY '' @ parent @ '' ATTACH PARTITION '' @
          ai_Relname (tb_AttachPartitionInfo t) @ '' '' @ ai_Expr (tb_AttachPartitionInfo t) @ '';''])
        else Inr []) (\<lambda>attach.
       Inr (attach @ item_if (tb_ForceRowSecurity t) (''ALTER TABLE ONLY '' @ Relation_FQN t @ '' FORCE ROW LEVEL SECURITY;'')))"

definition PrintPostCreateTableStatements :: "print_env \<Rightarrow> toc_object \<Rightarrow> Table \<Rightarrow> ObjectMetadata \<Rightarrow> string list res" where
  "PrintPostCreateTableStatements env obj t metadata =
     rbind (object_statements env metadata obj []) (\<lambda>statements.
     rbind (src_at_least env ''7'') (\<lambda>at7.
     rbind (if at7 then attach_statements t else Inr []) (\<lambda>attach.
       Inr (statements @ concat (map (column_metadata env t metadata) (tb_ColumnDefs t)) @ replica_identity t @ altered_schemas t @ attach))))"

section \<open>External tables\<close>

definition READABLE :: int where "READABLE = 0"
definition READABLE_WEB :: int where "READABLE_WEB = 1"
definition WRITABLE :: int where "WRITABLE = 2"
definition WRITABLE_WEB :: int where "WRITABLE_WEB = 3"
definition FILE :: int where "FILE = 4"
definition GPFDIST :: int where "GPFDIST = 5"
definition GPHDFS :: int where "GPHDFS = 6"
definition HTTP :: int where "HTTP = 7"
definition S3 :: int where "S3 = 8"

lemmas ext_consts = READABLE_def READABLE_WEB_def WRITABLE_def WRITABLE_WEB_def FILE_def GPFDIST_def GPHDFS_def HTTP_def S3_def

definition protocol_of :: "string \<Rightarrow> int" where
  "protocol_of p = (case go_get [(''file'', FILE), (''gpfdist'', GPFDIST), (''gpfdists'', GPFDIST), (''gphdfs'', GPHDFS),
     (''http'', HTTP), (''https'', HTTP), (''s3'', S3)] p of Some k \<Rightarrow> k | None \<Rightarrow> -1)"

definition DetermineExternalTableCharacteristics :: "ExternalTableDefinition \<Rightarrow> (int \<times> int) res" where
  "DetermineExternalTableCharacteristics d =
     (let loc = ns_String (ed_Location d)
      in if loc = [] then Inr (if ed_Writable d then WRITABLE_WEB else READABLE_WEB, HTTP)
         else let isWeb = HasPrefix loc ''http'';
                  tableType = (if isWeb then (if ed_Writable d then WRITABLE_WEB else READABLE_WEB)
                    else if ed_Writable d then WRITABLE else READABLE)
              in case Index loc ''://'' of
                   None \<Rightarrow> Inl (Panic ''slice bounds out of range'')
                 | Some i \<Rightarrow> Inr (tableType, protocol_of (take i loc)))"

definition generateExecuteStatement :: "ExternalTableDefinition \<Rightarrow> string res" where
  "generateExecuteStatement d =
     (let execType = Split CHR '':'' (ed_ExecLocation d); kind = hd execType;
          execute = ''EXECUTE '' @ in_quotes (EscapeSingleQuotes (ed_Command d))
      in if kind = ''HOST'' then rbind (go_index execType 1) (\<lambda>h. Inr (execute @ '' ON HOST '' @ in_quotes h))
         else if kind = ''MASTER_ONLY'' then Inr (execute @ '' ON MASTER'')
         else if kind = ''COORDINATOR_ONLY'' then Inr (execute @ '' ON COORDINATOR'')
         else if kind = ''PER_HOST'' then Inr (execute @ '' ON HOST'')
         else if kind = ''SEGMENT_ID'' then rbind (go_index execType 1) (\<lambda>n. Inr (execute @ '' ON SEGMENT '' @ n))
         else if kind = ''TOTAL_SEGS'' then rbind (go_index execType 1) (\<lambda>n. Inr (execute @ '' ON '' @ n))
         else Inr execute)"

text \<open>\<open>string(b)\<close> of a byte is the UTF-8 encoding of the code point with that number.\<close>

definition byte_string :: "char \<Rightarrow> string" where
  "byte_string c = (let n = of_char c :: nat in if n < 128 then [c] else [char_of (192 + n div 64), char_of (128 + n mod 64)])"

abbreviation BS :: char where "BS \<equiv> CHR 0x5C"

fun tokenize :: "bool \<Rightarrow> string \<Rightarrow> string \<Rightarrow> string list" where
  "tokenize inString cur [] = [cur]"
| "tokenize inString cur (c # s) =
     (if c = SQ then
        if inString then
          if s = [] \<or> hd s = CHR '' '' then tokenize False (cur @ [c]) s else tokenize True (cur @ [BS, c]) s
        else tokenize True (''E'' @ [c]) s
      else if c = BS then tokenize inString (cur @ [BS, c]) s
      else if c = CHR '' '' \<and> \<not> inString then cur # tokenize False [] s
      else tokenize inString (cur @ byte_string c) s)"

definition tokenizeAndEscapeFormatOpts :: "string \<Rightarrow> string list" where
  "tokenizeAndEscapeFormatOpts formatOpts = tokenize False [] formatOpts"

fun makeCustomFormatOpts_items :: "string list \<Rightarrow> string list" where
  "makeCustomFormatOpts_items (k # v # ts) = (k @ '' = '' @ v) # makeCustomFormatOpts_items ts"
| "makeCustomFormatOpts_items ts = []"

definition makeCustomFormatOpts :: "string list \<Rightarrow> string" where
  "makeCustomFormatOpts tokens = Join (makeCustomFormatOpts_items tokens) '', ''"

definition format_type :: "string \<Rightarrow> string" where
  "format_type c = (case go_get [(''t'', ''TEXT''), (''c'', ''CSV''), (''b'', ''CUSTOM''), (''a'', ''AVRO''), (''p'', ''PARQUET'')] c of Some t \<Rightarrow> t | None \<Rightarrow> [])"

definition GenerateFormatStatement :: "ExternalTableDefinition \<Rightarrow> string" where
  "GenerateFormatStatement d =
     (let formatType = format_type (ed_FormatType d); tokens = tokenizeAndEscapeFormatOpts (TrimSpace (ed_FormatOpts d))
      in ''FORMAT '' @ in_quotes formatType @
         text_if (ed_FormatOpts d \<noteq> [])
           ('' ('' @ (if formatType = ''TEXT'' \<or> formatType = ''CSV'' then Join tokens '' '' else makeCustomFormatOpts tokens) @ '')''))"

definition generateLogErrorStatement :: "ExternalTableDefinition \<Rightarrow> string" where
  "generateLogErrorStatement d =
     (if ed_LogErrors d then (if ed_LogErrPersist d then NL @ ''LOG ERRORS PERSISTENTLY'' else NL @ ''LOG ERRORS'')
      else text_if (ed_ErrTableName d \<noteq> [] \<and> ed_ErrTableSchema d \<noteq> []) (NL @ ''LOG ERRORS INTO '' @ fqn (ed_ErrTableSchema d) (ed_ErrTableName d))) @
     text_if (ed_RejectLimit d \<noteq> 0)
       (NL @ ''SEGMENT REJECT LIMIT '' @ Itoa (ed_RejectLimit d) @ '' '' @
        text_if (ed_RejectLimitType d = ''r'') ''ROWS'' @ text_if (ed_RejectLimitType d = ''p'') ''PERCENT'')"

definition PrintExternalTableStatements :: "ExternalTableDefinition \<Rightarrow> string res" where
  "PrintExternalTableStatements d =
     rbind (if (ed_Type d = READABLE_WEB \<or> ed_Type d = WRITABLE_WEB) \<and> ed_Command d \<noteq> [] then generateExecuteStatement d else Inr []) (\<lambda>execute. Inr (
       text_if (ed_Type d \<noteq> WRITABLE_WEB \<and> length (ed_URIs d) > 0)
         (''LOCATION ('' @ NT @ in_quotes (Join (ed_URIs d) ([SQ] @ CNT @ [SQ])) @ NL @ '')'') @
       text_if (ed_Type d = READABLE \<or> ed_Type d = WRITABLE_WEB \<and> ed_Protocol d = S3)
         (if ed_ExecLocation d = ''MASTER_ONLY'' then '' ON MASTER''
          else text_if (ed_ExecLocation d = ''COORDINATOR_ONLY'') '' ON COORDINATOR'') @
       execute @ NL @ GenerateFormatStatement d @ NL @ ''ENCODING '' @ in_quotes (ed_Encoding d) @
       text_if (ed_Type d = READABLE \<or> ed_Type d = READABLE_WEB) (generateLogErrorStatement d)))"

definition table_type_text :: "int \<Rightarrow> string" where
  "table_type_text k = (case go_get [(READABLE, ''READABLE EXTERNAL''), (READABLE_WEB, ''READABLE EXTERNAL WEB''),
     (WRITABLE, ''WRITABLE EXTERNAL''), (WRITABLE_WEB, ''WRITABLE EXTERNAL WEB'')] k of Some t \<Rightarrow> t | None \<Rightarrow> [])"

definition PrintExternalTableCreateStatement :: "bool \<Rightarrow> Table \<Rightarrow> string res" where
  "PrintExternalTableCreateStatement hdw3 t =
     rbind (DetermineExternalTableCharacteristics (tb_ExtTableDef t)) (\<lambda>(ty, proto).
     let d = (tb_ExtTableDef t)\<lparr>ed_Type := ty, ed_Protocol := proto\<rparr>
     in rbind (PrintExternalTableStatements d) (\<lambda>ext. Inr (
       BR @ ''CREATE '' @ table_type_text ty @ '' TABLE '' @ Relation_FQN t @ '' ('' @ NL @
       printColumnDefinitions hdw3 (tb_ColumnDefs t) [] @ '') '' @ ext @
       text_if (ed_Writable d) (NL @ tb_DistPolicy t) @ '';'')))"

text \<open>Definition, owner and column statements of a table form one entry.\<close>

definition table_text :: "print_env \<Rightarrow> toc_object \<Rightarrow> Table \<Rightarrow> ObjectMetadata \<Rightarrow> string res" where
  "table_text env obj t metadata =
     rbind (dest_hdw3 env) (\<lambda>hdw3.
     rbind (if tb_IsExternal t \<and> pli_Level (tb_PartitionLevelInfo t) \<noteq> ''p'' then PrintExternalTableCreateStatement hdw3 t
            else Inr (PrintRegularTableCreateStatement env hdw3 t)) (\<lambda>create.
     rbind (PrintPostCreateTableStatements env obj t metadata) (\<lambda>statements.
       Inr (create @ concat (map (\<lambda>s. BR @ s @ NL) statements)))))"

definition PrintCreateTableStatement :: "print_env \<Rightarrow> Table \<Rightarrow> ObjectMetadata \<Rightarrow> metafile \<Rightarrow> metafile res" where
  "PrintCreateTableStatement env t metadata st =
     rbind (Table_object env t) (\<lambda>obj. rbind (table_text env obj t metadata) (\<lambda>s. emit (obj_section obj) (obj_entry obj) s st))"

definition user_defined :: "(32 word, FunctionInfo) gomap \<Rightarrow> ExternalProtocol \<Rightarrow> bool" where
  "user_defined infos p \<longleftrightarrow> list_ex (\<lambda>oid. case go_get infos oid of Some i \<Rightarrow> \<not> fi_IsInternal i | None \<Rightarrow> False)
     [xp_ReadFunction p, xp_WriteFunction p, xp_Validator p]"

definition protocol_functions :: "(32 word, FunctionInfo) gomap \<Rightarrow> ExternalProtocol \<Rightarrow> string list" where
  "protocol_functions infos p =
     item_if (xp_ReadFunction p \<noteq> 0) (''readfunc = '' @ info_name infos (xp_ReadFunction p)) @
     item_if (xp_WriteFunction p \<noteq> 0) (''writefunc = '' @ info_name infos (xp_WriteFunction p)) @
     item_if (xp_Validator p \<noteq> 0) (''validatorfunc = '' @ info_name infos (xp_Validator p))"

definition protocol_text :: "(32 word, FunctionInfo) gomap \<Rightarrow> ExternalProtocol \<Rightarrow> string" where
  "protocol_text infos p =
     BR @ ''CREATE '' @ text_if (xp_Trusted p) ''TRUSTED '' @ ''PROTOCOL '' @ xp_Name p @ '' ('' @ Join (protocol_functions infos p) '', '' @ '');'' @ NL"

definition PrintCreateExternalProtocolStatement :: "print_env \<Rightarrow> (32 word, FunctionInfo) gomap \<Rightarrow> ExternalProtocol \<Rightarrow> ObjectMetadata \<Rightarrow> metafile \<Rightarrow> metafile res" where
  "PrintCreateExternalProtocolStatement env infos p metadata =
     (if user_defined infos p then print_object env (ExternalProtocol_object p) (protocol_text infos p) metadata []
      else PrintObjectMetadata env metadata (ExternalProtocol_object p) [])"

text \<open>
  The walk up the partition rules: the code follows the parent rules until it finds a rule without
  parent; \<open>n\<close> bounds the steps, and \<open>None\<close> stands for a walk that goes on.
\<close>

definition no_partition :: PartitionInfo where
  "no_partition = \<lparr>pi_PartitionRuleOid = 0, pi_PartitionParentRuleOid = 0, pi_ParentRelationOid = 0, pi_ParentSchema = [],
     pi_ParentRelationName = [], pi_RelationOid = 0, pi_PartitionName = [], pi_PartitionRank = 0, pi_IsExternal = False\<rparr>"

definition partition_ref :: "PartitionInfo \<Rightarrow> string" where
  "partition_ref p = (if pi_PartitionName p = [] then ''PARTITION FOR (RANK('' @ Itoa (pi_PartitionRank p) @ '')) ''
     else ''PARTITION '' @ pi_PartitionName p @ '' '')"

fun alter_partitions :: "nat \<Rightarrow> (32 word, PartitionInfo) gomap \<Rightarrow> PartitionInfo \<Rightarrow> string \<Rightarrow> string option" where
  "alter_partitions n infos p acc =
     (if pi_PartitionParentRuleOid p = 0 then Some acc
      else case n of 0 \<Rightarrow> None
        | Suc k \<Rightarrow> let parent = go_get0 no_partition infos (pi_PartitionParentRuleOid p)
                   in alter_partitions k infos parent (''ALTER '' @ partition_ref parent @ acc))"

declare alter_partitions.simps [simp del]

definition exchange_text :: "string \<Rightarrow> PartitionInfo \<Rightarrow> string \<Rightarrow> string" where
  "exchange_text alterStr p name =
     BR @ ''ALTER TABLE '' @ fqn (pi_ParentSchema p) (pi_ParentRelationName p) @ '' '' @ alterStr @ ''EXCHANGE '' @ partition_ref p @
     ''WITH TABLE '' @ name @ '' WITHOUT VALIDATION;'' @ BR @ ''DROP TABLE '' @ name @ '';''"

text \<open>A walk that does not end keeps the process busy for ever; it is reported as a panic here.\<close>

definition print_exchange :: "(32 word, PartitionInfo) gomap \<Rightarrow> (32 word, string) gomap \<Rightarrow> PartitionInfo \<Rightarrow> metafile \<Rightarrow> metafile res" where
  "print_exchange infos tableNameMap p st =
     (let name = go_get0 [] tableNameMap (pi_RelationOid p)
      in if name = [] then Inr st
         else case alter_partitions (Suc (length infos)) infos p [] of
           None \<Rightarrow> Inl (Panic ''endless walk'')
         | Some alterStr \<Rightarrow> emit (fst (PartitionInfo_GetMetadataEntry p)) (snd (PartitionInfo_GetMetadataEntry p)) (exchange_text alterStr p name) st)"

definition PrintExchangeExternalPartitionStatements :: "PartitionInfo list \<Rightarrow> (32 word, PartitionInfo) gomap \<Rightarrow> Table list \<Rightarrow> metafile \<Rightarrow> metafile res" where
  "PrintExchangeExternalPartitionStatements extPartitions infos tables =
     (let tableNameMap = foldl (\<lambda>m t. go_set (r_Oid t) (Relation_FQN t) m) [] tables
      in for_each (print_exchange infos tableNameMap) extPartitions)"

section \<open>Sequences\<close>

definition MaxInt64 :: int where "MaxInt64 = 2 ^ 63 - 1"
definition MinInt64 :: int where "MinInt64 = - (2 ^ 63)"

definition type_bounds :: "bool \<Rightarrow> Sequence \<Rightarrow> int \<times> int" where
  "type_bounds at7 s =
     (if at7 \<and> sq_OwningColumnAttIdentity s = [] then
        if sd_Type (sq_Definition s) = ''smallint'' then (- (2 ^ 15), 2 ^ 15 - 1)
        else if sd_Type (sq_Definition s) = ''integer'' then (- (2 ^ 31), 2 ^ 31 - 1)
        else (MinInt64, MaxInt64)
      else (MinInt64, MaxInt64))"

definition max_clause :: "int \<Rightarrow> SequenceDefinition \<Rightarrow> string" where
  "max_clause maxVal d =
     (if \<not> (sd_MaxVal d = maxVal \<and> sd_Increment d > 0 \<or> sd_MaxVal d = -1 \<and> sd_Increment d < 0)
      then NT @ ''MAXVALUE '' @ Itoa (sd_MaxVal d) else NT @ ''NO MAXVALUE'')"

definition min_clause :: "int \<Rightarrow> SequenceDefinition \<Rightarrow> string" where
  "min_clause minVal d =
     (if \<not> (sd_MinVal d = minVal \<and> sd_Increment d < 0 \<or> sd_MinVal d = 1 \<and> sd_Increment d > 0)
      then NT @ ''MINVALUE '' @ Itoa (sd_MinVal d) else NT @ ''NO MINVALUE'')"

definition generateSequenceDefinitionStatement :: "print_env \<Rightarrow> Sequence \<Rightarrow> string res" where
  "generateSequenceDefinitionStatement env s =
     rbind (src_at_least env ''7'') (\<lambda>at7. rbind (src_at_least env ''6'') (\<lambda>at6.
       let d = sq_Definition s; (minVal, maxVal) = type_bounds at7 s
       in Inr (text_if (at7 \<and> sq_OwningColumnAttIdentity s = [] \<and> sd_Type d \<noteq> ''bigint'') (NT @ ''AS '' @ sd_Type d) @
          (if at6 then NT @ ''START WITH '' @ Itoa (sd_StartVal d)
           else text_if (\<not> sd_IsCalled d) (NT @ ''START WITH '' @ Itoa (sd_LastVal d))) @
          NT @ ''INCREMENT BY '' @ Itoa (sd_Increment d) @ max_clause maxVal d @ min_clause minVal d @
          NT @ ''CACHE '' @ Itoa (sd_CacheVal d) @ text_if (sd_IsCycled d) (NT @ ''CYCLE''))))"

definition identity_text :: "print_env \<Rightarrow> Sequence \<Rightarrow> string res" where
  "identity_text env s =
     rbind (if sq_OwningColumnAttIdentity s = ''a'' then Inr ''ALWAYS'' else if sq_OwningColumnAttIdentity s = ''d'' then Inr ''BY DEFAULT''
       else Inl (Fatal ''Invalid Owning Column Attribute'')) (\<lambda>kind.
     rbind (generateSequenceDefinitionStatement env s) (\<lambda>d.
       Inr (''ALTER TABLE '' @ sq_OwningTable s @ NL @ ''ALTER COLUMN '' @ sq_UnqualifiedOwningColumn s @ '' ADD GENERATED '' @ kind @
         '' AS IDENTITY ('' @ NT @ ''SEQUENCE NAME '' @ Relation_FQN s @ d @ '');'' @ NL)))"

definition print_identity :: "print_env \<Rightarrow> Sequence \<Rightarrow> metafile \<Rightarrow> metafile res" where
  "print_identity env s st =
     (if sq_IsIdentity s
      then rbind (identity_text env s) (\<lambda>t. emit (obj_section (Sequence_object s)) (obj_entry (Sequence_object s)) t st)
      else Inr st)"

definition PrintIdentityColumns :: "print_env \<Rightarrow> Sequence list \<Rightarrow> metafile \<Rightarrow> metafile res" where
  "PrintIdentityColumns env ss = for_each (print_identity env) ss"

definition sequence_text :: "print_env \<Rightarrow> Sequence \<Rightarrow> string res" where
  "sequence_text env s =
     rbind (generateSequenceDefinitionStatement env s) (\<lambda>d.
       Inr (BR @ ''CREATE SEQUENCE '' @ Relation_FQN s @ d @ '';'' @ BR @ ''SELECT pg_catalog.setval('' @
         in_quotes (EscapeSingleQuotes (Relation_FQN s)) @ '', '' @ Itoa (sd_LastVal (sq_Definition s)) @ '', '' @
         bool_text (sd_IsCalled (sq_Definition s)) @ '');'' @ NL))"

definition print_sequence :: "print_env \<Rightarrow> MetadataMap \<Rightarrow> Sequence \<Rightarrow> metafile \<Rightarrow> metafile res" where
  "print_sequence env m s st =
     (if sq_IsIdentity s then Inr st
      else rbind (sequence_text env s) (\<lambda>t. print_object env (Sequence_object s) t (metadata_for m (Relation_GetUniqueID s)) [] st))"

definition PrintCreateSequenceStatements :: "print_env \<Rightarrow> Sequence list \<Rightarrow> MetadataMap \<Rightarrow> metafile \<Rightarrow> metafile res" where
  "PrintCreateSequenceStatements env ss m = for_each (print_sequence env m) ss"

definition owner_entry :: "Sequence \<Rightarrow> MetadataEntry" where
  "owner_entry s = mk_entry (r_Schema s) (r_Name s) ''SEQUENCE OWNER'' (sq_OwningTable s)"

definition print_alter_sequence :: "Sequence \<Rightarrow> metafile \<Rightarrow> metafile res" where
  "print_alter_sequence s st =
     (if sq_IsIdentity s \<or> sq_OwningColumn s = [] then Inr st
      else emit ''predata'' (owner_entry s) (BR @ ''ALTER SEQUENCE '' @ Relation_FQN s @ '' OWNED BY '' @ sq_OwningColumn s @ '';'' @ NL) st)"

definition PrintAlterSequenceStatements :: "Sequence list \<Rightarrow> metafile \<Rightarrow> metafile res" where
  "PrintAlterSequenceStatements ss = for_each print_alter_sequence ss"

section \<open>Views\<close>

definition transformViewOptions :: "string \<Rightarrow> string" where
  "transformViewOptions viewOptions =
     (let content = TrimSuffix (TrimPrefix viewOptions ''WITH ('') '')'';
          filtered = filter (\<lambda>opt. \<not> Contains opt ''mvhashvalue'') (map TrimSpace (Split CHR '','' content))
      in if filtered = [] then [] else ''WITH ('' @ Join filtered '', '' @ '')'')"

text \<open>Taking the last byte of an empty definition is a slice with a negative bound.\<close>

definition view_text :: "print_env \<Rightarrow> View \<Rightarrow> string res" where
  "view_text env v =
     (let d = ns_String (vw_Definition v);
          tablespaceClause = text_if (vw_Tablespace v \<noteq> []) ('' TABLESPACE '' @ GetDestTablespace (dest_tablespaces env) (vw_Tablespace v))
      in if \<not> vw_IsMaterialized v then Inr (BR @ ''CREATE VIEW '' @ View_FQN v @ vw_Options v @ '' AS '' @ d @ NL)
         else rbind (if IsHDW (acl_version env) then Is (acl_ranges env) (acl_version env) ''3'' else Inr False) (\<lambda>hdw3.
           let viewOptions = (if hdw3 \<and> vw_Options v \<noteq> [] then transformViewOptions (vw_Options v) else vw_Options v);
               accessMethodClause = text_if (vw_AccessMethodName v \<noteq> []) ('' USING '' @ vw_AccessMethodName v)
           in if d = [] then Inl (Panic ''slice bounds out of range'')
              else Inr (BR @ ''CREATE MATERIALIZED VIEW '' @ View_FQN v @ accessMethodClause @ viewOptions @ tablespaceClause @ '' AS '' @
                butlast d @ NL @ ''WITH NO DATA'' @ NL @ vw_DistPolicy v @ '';'' @ NL)))"

definition PrintCreateViewStatement :: "print_env \<Rightarrow> View \<Rightarrow> ObjectMetadata \<Rightarrow> metafile \<Rightarrow> metafile res" where
  "PrintCreateViewStatement env v metadata st =
     rbind (view_text env v) (\<lambda>t. print_object env (View_object v) t metadata [] st)"

section \<open>What is printed\<close>

lemma prints_view [printing]: "prints (PrintCreateViewStatement env v md) (creates (View_object v))"
  unfolding PrintCreateViewStatement_def[abs_def] by (intro prints_compute printing)

lemma prints_table:
  "Table_object env t = Inr obj \<Longrightarrow> prints (PrintCreateTableStatement env t md) (creates obj)"
  unfolding PrintCreateTableStatement_def[abs_def]
  by (intro prints_compute) (auto simp: creates_def created_def intro!: prints_emit)

lemma prints_protocol [printing]:
  "prints (PrintCreateExternalProtocolStatement env infos p md) (list_all (own (ExternalProtocol_object p)))"
  unfolding PrintCreateExternalProtocolStatement_def
  by (auto intro: printing prints_weaken[OF prints_creates] creates_own)

interpretation identity_printer: printer "print_identity env" Sequence_object
proof (unfold_locales)
  fix s
  have "prints (\<lambda>st. rbind (identity_text env s) (\<lambda>t. emit (obj_section (Sequence_object s)) (obj_entry (Sequence_object s)) t st))
    (list_all (own (Sequence_object s)))"
    by (intro prints_compute prints_emit) simp
  then show "prints (print_identity env s) (list_all (own (Sequence_object s)))"
    unfolding print_identity_def[abs_def] by (cases "sq_IsIdentity s") (auto intro: prints_none)
qed

interpretation sequence_printer: printer "print_sequence env m" Sequence_object
proof (unfold_locales)
  fix s
  have "prints (\<lambda>st. rbind (sequence_text env s) (\<lambda>t. print_object env (Sequence_object s) t md [] st))
    (list_all (own (Sequence_object s)))" for md
    by (intro prints_compute prints_weaken[OF prints_creates] creates_own)
  then show "prints (print_sequence env m s) (list_all (own (Sequence_object s)))"
    unfolding print_sequence_def[abs_def] by (cases "sq_IsIdentity s") (auto intro: prints_none)
qed

definition owner_object :: "Sequence \<Rightarrow> toc_object" where
  "owner_object s = mk_object (''predata'', owner_entry s) (Relation_FQN s)"

interpretation alter_sequence_printer: printer print_alter_sequence owner_object
proof (unfold_locales)
  fix s
  have "own (owner_object s) (Stmt ''predata'' (owner_entry s) t)" for t
    using own_simps(1)[of "owner_object s" t] by (simp add: owner_object_def)
  then show "prints (print_alter_sequence s) (list_all (own (owner_object s)))"
    unfolding print_alter_sequence_def[abs_def]
    by (cases "sq_IsIdentity s \<or> sq_OwningColumn s = []") (auto intro: prints_none prints_emit)
qed

definition exchange_object :: "PartitionInfo \<Rightarrow> toc_object" where
  "exchange_object p = mk_object (PartitionInfo_GetMetadataEntry p) []"

interpretation exchange_printer: printer "print_exchange infos names" exchange_object
proof (unfold_locales)
  fix p
  let ?e = "PartitionInfo_GetMetadataEntry p"
  have own: "own (exchange_object p) (Stmt (fst ?e) (snd ?e) t)" for t
    using own_simps(1)[of "exchange_object p" t] by (simp add: exchange_object_def)
  let ?n = "go_get0 [] names (pi_RelationOid p)" and ?a = "alter_partitions (Suc (length infos)) infos p []"
  consider "?n = []" | "?n \<noteq> []" "?a = None" | a where "?n \<noteq> []" "?a = Some a" by (cases ?a) blast+
  then show "prints (print_exchange infos names p) (list_all (own (exchange_object p)))"
  proof cases
    case 1
    then have "print_exchange infos names p = Inr" by (intro ext) (simp add: print_exchange_def)
    then show ?thesis by (simp add: prints_none)
  next
    case 2
    then have "print_exchange infos names p st = Inl (Panic ''endless walk'')" for st by (simp add: print_exchange_def)
    then show ?thesis by (simp add: prints_def)
  next
    case (3 a)
    then have "print_exchange infos names p = emit (fst ?e) (snd ?e) (exchange_text a p ?n)"
      by (intro ext) (simp add: print_exchange_def)
    then show ?thesis using own by (simp add: prints_emit)
  qed
qed

end
