(* ===== verification/PrintPostdata.thy ===== *)
theory PrintPostdata
  imports Printing
begin

text \<open>
  What is restored after the data, \<open>src/meta/builtin/postdata.go\<close>: indexes, rules, triggers, event triggers,
  policies and extended statistics, with their structs and methods of \<open>queries_postdata.go\<close>.
\<close>

section \<open>Objects\<close>

definition PG_EVENT_TRIGGER :: "32 word" where "PG_EVENT_TRIGGER = 3466"

record IndexDefinition =
  ix_Oid :: "32 word"
  ix_Name :: string
  ix_OwningSchema :: string
  ix_OwningTable :: string
  ix_Tablespace :: string
  ix_Def :: "string option"
  ix_IsClustered :: bool
  ix_SupportsConstraint :: bool
  ix_IsReplicaIdentity :: bool
  ix_StatisticsColumns :: string
  ix_StatisticsValues :: string
  ix_ParentIndex :: "32 word"
  ix_ParentIndexFQN :: string

definition IndexDefinition_FQN :: "IndexDefinition \<Rightarrow> string" where
  "IndexDefinition_FQN x = fqn (ix_OwningSchema x) (ix_Name x)"

definition IndexDefinition_GetMetadataEntry :: "IndexDefinition \<Rightarrow> string \<times> MetadataEntry" where
  "IndexDefinition_GetMetadataEntry x = (''postdata'', mk_entry (ix_OwningSchema x) (ix_Name x) ''INDEX'' (fqn (ix_OwningSchema x) (ix_OwningTable x)))"

definition IndexDefinition_GetUniqueID :: "IndexDefinition \<Rightarrow> UniqueID" where
  "IndexDefinition_GetUniqueID x = mk_id PG_INDEX_OID (ix_Oid x)"

definition IndexDefinition_object :: "IndexDefinition \<Rightarrow> toc_object" where
  "IndexDefinition_object x = mk_object (IndexDefinition_GetMetadataEntry x) (IndexDefinition_FQN x)"

record RuleDefinition =
  ru_Oid :: "32 word"
  ru_Name :: string
  ru_OwningSchema :: string
  ru_OwningTable :: string
  ru_Def :: "string option"

definition RuleDefinition_FQN :: "RuleDefinition \<Rightarrow> string" where
  "RuleDefinition_FQN x = ru_Name x"

definition RuleDefinition_GetMetadataEntry :: "RuleDefinition \<Rightarrow> string \<times> MetadataEntry" where
  "RuleDefinition_GetMetadataEntry x = (''postdata'', mk_entry (ru_OwningSchema x) (ru_Name x) ''RULE'' (fqn (ru_OwningSchema x) (ru_OwningTable x)))"

definition RuleDefinition_GetUniqueID :: "RuleDefinition \<Rightarrow> UniqueID" where
  "RuleDefinition_GetUniqueID x = mk_id PG_REWRITE_OID (ru_Oid x)"

definition RuleDefinition_object :: "RuleDefinition \<Rightarrow> toc_object" where
  "RuleDefinition_object x = mk_object (RuleDefinition_GetMetadataEntry x) (RuleDefinition_FQN x)"

text \<open>\<open>TriggerDefinition\<close> is a type with the structure of \<open>RuleDefinition\<close>.\<close>

type_synonym TriggerDefinition = RuleDefinition

definition TriggerDefinition_FQN :: "TriggerDefinition \<Rightarrow> string" where
  "TriggerDefinition_FQN x = ru_Name x"

definition TriggerDefinition_GetMetadataEntry :: "TriggerDefinition \<Rightarrow> string \<times> MetadataEntry" where
  "TriggerDefinition_GetMetadataEntry x = (''postdata'', mk_entry (ru_OwningSchema x) (ru_Name x) ''TRIGGER'' (fqn (ru_OwningSchema x) (ru_OwningTable x)))"

definition TriggerDefinition_GetUniqueID :: "TriggerDefinition \<Rightarrow> UniqueID" where
  "TriggerDefinition_GetUniqueID x = mk_id PG_TRIGGER_OID (ru_Oid x)"

definition TriggerDefinition_object :: "TriggerDefinition \<Rightarrow> toc_object" where
  "TriggerDefinition_object x = mk_object (TriggerDefinition_GetMetadataEntry x) (TriggerDefinition_FQN x)"

record EventTrigger =
  et_Oid :: "32 word"
  et_Name :: string
  et_Event :: string
  et_FunctionName :: string
  et_Enabled :: string
  et_EventTags :: string

definition EventTrigger_FQN :: "EventTrigger \<Rightarrow> string" where
  "EventTrigger_FQN x = et_Name x"

definition EventTrigger_GetMetadataEntry :: "EventTrigger \<Rightarrow> string \<times> MetadataEntry" where
  "EventTrigger_GetMetadataEntry x = (''postdata'', mk_entry [] (et_Name x) ''EVENT TRIGGER'' [])"

definition EventTrigger_GetUniqueID :: "EventTrigger \<Rightarrow> UniqueID" where
  "EventTrigger_GetUniqueID x = mk_id PG_EVENT_TRIGGER (et_Oid x)"

definition EventTrigger_object :: "EventTrigger \<Rightarrow> toc_object" where
  "EventTrigger_object x = mk_object (EventTrigger_GetMetadataEntry x) (EventTrigger_FQN x)"

record RLSPolicy =
  po_Oid :: "32 word"
  po_Name :: string
  po_Cmd :: string
  po_Permissive :: string
  po_Schema :: string
  po_Table :: string
  po_Roles :: string
  po_Qual :: string
  po_WithCheck :: string

definition RLSPolicy_FQN :: "RLSPolicy \<Rightarrow> string" where
  "RLSPolicy_FQN x = po_Name x"

definition RLSPolicy_GetMetadataEntry :: "RLSPolicy \<Rightarrow> string \<times> MetadataEntry" where
  "RLSPolicy_GetMetadataEntry x = (''postdata'', mk_entry (po_Schema x) (po_Table x) ''POLICY'' (fqn (po_Schema x) (po_Table x)))"

definition RLSPolicy_GetUniqueID :: "RLSPolicy \<Rightarrow> UniqueID" where
  "RLSPolicy_GetUniqueID x = mk_id PG_REWRITE_OID (po_Oid x)"

definition RLSPolicy_object :: "RLSPolicy \<Rightarrow> toc_object" where
  "RLSPolicy_object x = mk_object (RLSPolicy_GetMetadataEntry x) (RLSPolicy_FQN x)"

record StatisticExt =
  se_Oid :: "32 word"
  se_Name :: string
  se_Namespace :: string
  se_Owner :: string
  se_TableSchema :: string
  se_TableName :: string
  se_Definition :: string

definition StatisticExt_FQN :: "StatisticExt \<Rightarrow> string" where
  "StatisticExt_FQN x = se_Namespace x @ ''.'' @ se_Name x"

definition StatisticExt_GetMetadataEntry :: "StatisticExt \<Rightarrow> string \<times> MetadataEntry" where
  "StatisticExt_GetMetadataEntry x = (''postdata'', mk_entry (se_Namespace x) (se_Name x) ''STATISTICS'' (fqn (se_TableSchema x) (se_TableName x)))"

definition StatisticExt_GetUniqueID :: "StatisticExt \<Rightarrow> UniqueID" where
  "StatisticExt_GetUniqueID x = mk_id PG_STATISTIC_EXT_OID (se_Oid x)"

definition StatisticExt_object :: "StatisticExt \<Rightarrow> toc_object" where
  "StatisticExt_object x = mk_object (StatisticExt_GetMetadataEntry x) (StatisticExt_FQN x)"

section \<open>Indexes\<close>

definition index_metadata :: "IndexDefinition \<Rightarrow> MetadataEntry" where
  "index_metadata x = (snd (IndexDefinition_GetMetadataEntry x))\<lparr>ReferenceObject := IndexDefinition_FQN x, ObjectType := ''INDEX METADATA''\<rparr>"

definition index_statistics :: "IndexDefinition \<Rightarrow> string list res" where
  "index_statistics x =
     (if ix_StatisticsColumns x \<noteq> [] \<and> ix_StatisticsValues x \<noteq> [] then
        let cols = Split CHR '','' (ix_StatisticsColumns x); vals = Split CHR '','' (ix_StatisticsValues x)
        in if length cols \<noteq> length vals then Inl (Fatal ''Index StatisticsColumns and StatisticsValues count mismatch'')
           else Inr (map2 (\<lambda>c v. NL @ ''ALTER INDEX '' @ IndexDefinition_FQN x @ '' ALTER COLUMN '' @ c @ '' SET STATISTICS '' @ v @ '';'') cols vals)
      else Inr [])"

definition index_statements :: "bool \<Rightarrow> IndexDefinition \<Rightarrow> string list" where
  "index_statements at7 x =
     (let tableFQN = fqn (ix_OwningSchema x) (ix_OwningTable x)
      in item_if (ix_Tablespace x \<noteq> []) (NL @ ''ALTER INDEX '' @ IndexDefinition_FQN x @ '' SET TABLESPACE '' @ ix_Tablespace x @ '';'') @
         item_if (ix_ParentIndexFQN x \<noteq> [] \<and> at7) (NL @ ''ALTER INDEX '' @ ix_ParentIndexFQN x @ '' ATTACH PARTITION '' @ IndexDefinition_FQN x @ '';'') @
         item_if (ix_IsClustered x) (NL @ ''ALTER TABLE '' @ tableFQN @ '' CLUSTER ON '' @ ix_Name x @ '';'') @
         item_if (ix_IsReplicaIdentity x) (NL @ ''ALTER TABLE '' @ tableFQN @ '' REPLICA IDENTITY USING INDEX '' @ ix_Name x @ '';''))"

definition print_index_definition :: "bool \<Rightarrow> IndexDefinition \<Rightarrow> metafile \<Rightarrow> metafile res" where
  "print_index_definition at7 x st =
     rbind (index_statistics x) (\<lambda>stats.
     rbind (emit ''postdata'' (snd (IndexDefinition_GetMetadataEntry x)) (BR @ ns_String (ix_Def x) @ '';'') st)
       (for_each (emit ''postdata'' (index_metadata x)) (index_statements at7 x @ stats)))"

definition print_index :: "print_env \<Rightarrow> MetadataMap \<Rightarrow> IndexDefinition \<Rightarrow> metafile \<Rightarrow> metafile res" where
  "print_index env m x st =
     rbind (src_at_least env ''7'') (\<lambda>at7.
     rbind ((if ix_SupportsConstraint x then Inr else print_index_definition at7 x) st)
       (PrintObjectMetadata env (metadata_for m (IndexDefinition_GetUniqueID x)) (IndexDefinition_object x) []))"

definition PrintCreateIndexStatements :: "print_env \<Rightarrow> IndexDefinition list \<Rightarrow> MetadataMap \<Rightarrow> metafile \<Rightarrow> metafile res" where
  "PrintCreateIndexStatements env xs m = for_each (print_index env m) xs"

section \<open>Rules and triggers\<close>

definition print_rule :: "print_env \<Rightarrow> MetadataMap \<Rightarrow> RuleDefinition \<Rightarrow> metafile \<Rightarrow> metafile res" where
  "print_rule env m r = print_object env (RuleDefinition_object r) (BR @ ns_String (ru_Def r)) (metadata_for m (RuleDefinition_GetUniqueID r))
     (fqn (ru_OwningSchema r) (ru_OwningTable r))"

definition PrintCreateRuleStatements :: "print_env \<Rightarrow> RuleDefinition list \<Rightarrow> MetadataMap \<Rightarrow> metafile \<Rightarrow> metafile res" where
  "PrintCreateRuleStatements env rs m = for_each (print_rule env m) rs"

definition print_trigger :: "print_env \<Rightarrow> MetadataMap \<Rightarrow> TriggerDefinition \<Rightarrow> metafile \<Rightarrow> metafile res" where
  "print_trigger env m t = print_object env (TriggerDefinition_object t) (BR @ ns_String (ru_Def t) @ '';'') (metadata_for m (TriggerDefinition_GetUniqueID t))
     (fqn (ru_OwningSchema t) (ru_OwningTable t))"

definition PrintCreateTriggerStatements :: "print_env \<Rightarrow> TriggerDefinition list \<Rightarrow> MetadataMap \<Rightarrow> metafile \<Rightarrow> metafile res" where
  "PrintCreateTriggerStatements env ts m = for_each (print_trigger env m) ts"

section \<open>Event triggers\<close>

definition event_trigger_text :: "bool \<Rightarrow> EventTrigger \<Rightarrow> string" where
  "event_trigger_text at7 t =
     BR @ ''CREATE EVENT TRIGGER '' @ et_Name t @ NL @ ''ON '' @ et_Event t @
     text_if (et_EventTags t \<noteq> []) (NL @ ''WHEN TAG IN ('' @ et_EventTags t @ '')'') @
     NL @ ''EXECUTE '' @ (if at7 then ''FUNCTION '' else ''PROCEDURE '') @ et_FunctionName t @ ''();''"

definition enable_option :: "string \<Rightarrow> string" where
  "enable_option e = (if e = ''D'' then ''DISABLE'' else if e = ''A'' then ''ENABLE ALWAYS'' else if e = ''R'' then ''ENABLE REPLICA'' else ''ENABLE'')"

definition event_trigger_metadata :: "EventTrigger \<Rightarrow> MetadataEntry" where
  "event_trigger_metadata t = (snd (EventTrigger_GetMetadataEntry t))\<lparr>ReferenceObject := et_Name t, ObjectType := ''EVENT TRIGGER METADATA''\<rparr>"

definition print_event_trigger :: "print_env \<Rightarrow> MetadataMap \<Rightarrow> EventTrigger \<Rightarrow> metafile \<Rightarrow> metafile res" where
  "print_event_trigger env m t st =
     rbind (src_at_least env ''7'') (\<lambda>at7.
     rbind (emit ''postdata'' (snd (EventTrigger_GetMetadataEntry t)) (event_trigger_text at7 t) st) (\<lambda>st.
     rbind (for_each (emit ''postdata'' (event_trigger_metadata t))
         (item_if (et_Enabled t \<noteq> ''O'') (NL @ ''ALTER EVENT TRIGGER '' @ et_Name t @ '' '' @ enable_option (et_Enabled t) @ '';'')) st)
       (PrintObjectMetadata env (metadata_for m (EventTrigger_GetUniqueID t)) (EventTrigger_object t) [])))"

definition PrintCreateEventTriggerStatements :: "print_env \<Rightarrow> EventTrigger list \<Rightarrow> MetadataMap \<Rightarrow> metafile \<Rightarrow> metafile res" where
  "PrintCreateEventTriggerStatements env ts m = for_each (print_event_trigger env m) ts"

section \<open>Policies and extended statistics\<close>

definition policy_command :: "string \<Rightarrow> string res" where
  "policy_command c = (if c = [] \<or> c = ''*'' then Inr [] else if c = ''r'' then Inr '' FOR SELECT'' else if c = ''a'' then Inr '' FOR INSERT''
     else if c = ''w'' then Inr '' FOR UPDATE'' else if c = ''d'' then Inr '' FOR DELETE'' else Inl (Fatal ''Unexpected policy command''))"

definition policy_text :: "string \<Rightarrow> RLSPolicy \<Rightarrow> string" where
  "policy_text cmdOption p =
     NL @ ''CREATE POLICY '' @ po_Name p @ NL @ ''ON '' @ fqn (po_Schema p) (po_Table p) @
     text_if (po_Permissive p = ''false'') '' AS RESTRICTIVE'' @ cmdOption @
     text_if (po_Roles p \<noteq> []) (NL @ '' TO '' @ po_Roles p) @
     text_if (po_Qual p \<noteq> []) (NL @ '' USING ('' @ po_Qual p @ '')'') @
     text_if (po_WithCheck p \<noteq> []) (NL @ '' WITH CHECK ('' @ po_WithCheck p @ '')'') @ '';'' @ NL"

definition print_policy :: "print_env \<Rightarrow> MetadataMap \<Rightarrow> RLSPolicy \<Rightarrow> metafile \<Rightarrow> metafile res" where
  "print_policy env m p st =
     rbind (policy_command (po_Cmd p)) (\<lambda>cmd.
     rbind (emit ''postdata'' (snd (RLSPolicy_GetMetadataEntry p)) (BR @ ''ALTER TABLE '' @ fqn (po_Schema p) (po_Table p) @ '' ENABLE ROW LEVEL SECURITY;'') st)
       (print_object env (RLSPolicy_object p) (policy_text cmd p) (metadata_for m (RLSPolicy_GetUniqueID p)) []))"

definition PrintCreatePolicyStatements :: "print_env \<Rightarrow> RLSPolicy list \<Rightarrow> MetadataMap \<Rightarrow> metafile \<Rightarrow> metafile res" where
  "PrintCreatePolicyStatements env ps m = for_each (print_policy env m) ps"

definition print_statistics :: "print_env \<Rightarrow> MetadataMap \<Rightarrow> StatisticExt \<Rightarrow> metafile \<Rightarrow> metafile res" where
  "print_statistics env m s = print_object env (StatisticExt_object s) (NL @ NL @ se_Definition s @ '';'') (metadata_for m (StatisticExt_GetUniqueID s)) []"

definition PrintCreateExtendedStatistics :: "print_env \<Rightarrow> StatisticExt list \<Rightarrow> MetadataMap \<Rightarrow> metafile \<Rightarrow> metafile res" where
  "PrintCreateExtendedStatistics env ss m = for_each (print_statistics env m) ss"

section \<open>What is printed\<close>

interpretation rule_printer: printer "print_rule env m" RuleDefinition_object
  by (rule printer_created) (simp add: print_rule_def printing)

interpretation trigger_printer: printer "print_trigger env m" TriggerDefinition_object
  by (rule printer_created) (simp add: print_trigger_def printing)

interpretation statistics_printer: printer "print_statistics env m" StatisticExt_object
  by (rule printer_created) (simp add: print_statistics_def printing)

interpretation index_printer: printer "print_index env m" IndexDefinition_object
proof (unfold_locales)
  fix x
  let ?o = "IndexDefinition_object x"
  have o: "obj_section ?o = ''postdata''" "obj_entry ?o = snd (IndexDefinition_GetMetadataEntry x)"
    by (simp_all add: IndexDefinition_object_def IndexDefinition_GetMetadataEntry_def)
  have meta: "same_name (index_metadata x) (obj_entry ?o)"
    by (simp add: o index_metadata_def same_name_def IndexDefinition_GetMetadataEntry_def mk_entry_def)
  have d: "prints (print_index_definition at7 x) (list_all (own ?o))" for at7
    unfolding print_index_definition_def[abs_def]
    by (rule prints_compute, rule prints_then[OF prints_emit[where P = "list_all (own ?o)"] prints_entries[OF meta]]) (simp_all add: o own_entry)
  have guarded: "prints (if ix_SupportsConstraint x then Inr else print_index_definition at7 x) (list_all (own ?o))" for at7
    using d[of at7] by (auto intro: prints_none)
  show "prints (print_index env m x) (list_all (own ?o))"
    unfolding print_index_def[abs_def] by (rule prints_compute, rule prints_then[OF guarded prints_object_metadata]) simp
qed

interpretation event_trigger_printer: printer "print_event_trigger env m" EventTrigger_object
proof (unfold_locales)
  fix x
  let ?o = "EventTrigger_object x"
  have o: "obj_section ?o = ''postdata''" "obj_entry ?o = snd (EventTrigger_GetMetadataEntry x)"
    by (simp_all add: EventTrigger_object_def EventTrigger_GetMetadataEntry_def)
  have meta: "same_name (event_trigger_metadata x) (obj_entry ?o)"
    by (simp add: o event_trigger_metadata_def same_name_def EventTrigger_GetMetadataEntry_def mk_entry_def)
  have "prints (\<lambda>st. rbind (for_each (emit ''postdata'' (event_trigger_metadata x)) ts st) (PrintObjectMetadata env md ?o [])) (list_all (own ?o))" for ts md
    by (rule prints_then[OF prints_entries[OF meta] prints_object_metadata]) (simp_all add: o)
  then show "prints (print_event_trigger env m x) (list_all (own ?o))"
    unfolding print_event_trigger_def[abs_def]
    by (intro prints_compute, intro prints_then[OF prints_emit[where P = "list_all (own ?o)"]]) (simp_all add: o own_entry)
qed

interpretation policy_printer: printer "print_policy env m" RLSPolicy_object
proof (unfold_locales)
  fix x
  let ?o = "RLSPolicy_object x"
  have o: "obj_section ?o = ''postdata''" "obj_entry ?o = snd (RLSPolicy_GetMetadataEntry x)"
    by (simp_all add: RLSPolicy_object_def RLSPolicy_GetMetadataEntry_def)
  have "prints (print_object env ?o t md []) (list_all (own ?o))" for t md
    by (rule prints_weaken[OF prints_creates creates_own])
  then show "prints (print_policy env m x) (list_all (own ?o))"
    unfolding print_policy_def[abs_def]
    by (intro prints_compute, intro prints_then[OF prints_emit[where P = "list_all (own ?o)"]]) (simp_all add: o own_entry)
qed

end
