(* ===== verification/PrintGlobals.thy ===== *)
theory PrintGlobals
  imports Printing Restore
begin

text \<open>
  Cluster-wide objects, \<open>src/meta/builtin/metadata_globals.go\<close>: session settings, databases, resource queues and
  groups, roles, their settings and memberships, tablespaces, with their structs and methods of
  \<open>queries_globals.go\<close>.
\<close>

section \<open>Objects\<close>

record SessionGUCs =
  sg_ClientEncoding :: string

definition SessionGUCs_GetMetadataEntry :: "SessionGUCs \<Rightarrow> string \<times> MetadataEntry" where
  "SessionGUCs_GetMetadataEntry x = (''global'', mk_entry [] [] ''SESSION GUCS'' [])"

record Database =
  db_Oid :: "32 word"
  db_Name :: string
  db_Tablespace :: string
  db_Collate :: string
  db_CType :: string
  db_Encoding :: string

definition Database_FQN :: "Database \<Rightarrow> string" where
  "Database_FQN x = db_Name x"

definition Database_GetMetadataEntry :: "Database \<Rightarrow> string \<times> MetadataEntry" where
  "Database_GetMetadataEntry x = (''global'', mk_entry [] (db_Name x) ''DATABASE METADATA'' [])"

definition Database_GetUniqueID :: "Database \<Rightarrow> UniqueID" where
  "Database_GetUniqueID x = mk_id PG_DATABASE_OID (db_Oid x)"

definition Database_object :: "Database \<Rightarrow> toc_object" where
  "Database_object x = mk_object (Database_GetMetadataEntry x) (Database_FQN x)"

record ResourceQueue =
  rq_Oid :: "32 word"
  rq_Name :: string
  rq_ActiveStatements :: int
  rq_MaxCost :: string
  rq_CostOvercommit :: bool
  rq_MinCost :: string
  rq_Priority :: string
  rq_MemoryLimit :: string

definition ResourceQueue_FQN :: "ResourceQueue \<Rightarrow> string" where
  "ResourceQueue_FQN x = rq_Name x"

definition ResourceQueue_GetMetadataEntry :: "ResourceQueue \<Rightarrow> string \<times> MetadataEntry" where
  "ResourceQueue_GetMetadataEntry x = (''global'', mk_entry [] (rq_Name x) ''RESOURCE QUEUE'' [])"

definition ResourceQueue_GetUniqueID :: "ResourceQueue \<Rightarrow> UniqueID" where
  "ResourceQueue_GetUniqueID x = mk_id PG_RESQUEUE_OID (rq_Oid x)"

definition ResourceQueue_object :: "ResourceQueue \<Rightarrow> toc_object" where
  "ResourceQueue_object x = mk_object (ResourceQueue_GetMetadataEntry x) (ResourceQueue_FQN x)"

record ResourceGroup =
  rg_Oid :: "32 word"
  rg_Name :: string
  rg_Concurrency :: string
  rg_Cpuset :: string

definition ResourceGroup_FQN :: "'a ResourceGroup_scheme \<Rightarrow> string" where
  "ResourceGroup_FQN x = rg_Name x"

definition ResourceGroup_GetMetadataEntry :: "'a ResourceGroup_scheme \<Rightarrow> string \<times> MetadataEntry" where
  "ResourceGroup_GetMetadataEntry x = (''global'', mk_entry [] (rg_Name x) ''RESOURCE GROUP'' [])"

definition ResourceGroup_GetUniqueID :: "'a ResourceGroup_scheme \<Rightarrow> UniqueID" where
  "ResourceGroup_GetUniqueID x = mk_id PG_RESGROUP_OID (rg_Oid x)"

definition ResourceGroup_object :: "'a ResourceGroup_scheme \<Rightarrow> toc_object" where
  "ResourceGroup_object x = mk_object (ResourceGroup_GetMetadataEntry x) (ResourceGroup_FQN x)"

record ResourceGroupBefore7 = ResourceGroup +
  rb_CPURateLimit :: string
  rb_MemoryLimit :: string
  rb_MemorySharedQuota :: string
  rb_MemorySpillRatio :: string
  rb_MemoryAuditor :: string

record ResourceGroupAtLeast7 = ResourceGroup +
  ra_CpuMaxPercent :: string
  ra_CpuWeight :: string

record TimeConstraint =
  tc_Oid :: "32 word"
  tc_StartDay :: int
  tc_StartTime :: string
  tc_EndDay :: int
  tc_EndTime :: string

record Role =
  ro_Oid :: "32 word"
  ro_Name :: string
  ro_Super :: bool
  ro_Inherit :: bool
  ro_CreateRole :: bool
  ro_CreateDB :: bool
  ro_CanLogin :: bool
  ro_Replication :: bool
  ro_ConnectionLimit :: int
  ro_Password :: string
  ro_ValidUntil :: string
  ro_ResQueue :: string
  ro_ResGroup :: string
  ro_Createrexthttp :: bool
  ro_Createrextgpfd :: bool
  ro_Createwextgpfd :: bool
  ro_Createrexthdfs :: bool
  ro_Createwexthdfs :: bool
  ro_TimeConstraints :: "TimeConstraint list"

definition Role_FQN :: "Role \<Rightarrow> string" where
  "Role_FQN x = ro_Name x"

definition Role_GetMetadataEntry :: "Role \<Rightarrow> string \<times> MetadataEntry" where
  "Role_GetMetadataEntry x = (''global'', mk_entry [] (ro_Name x) ''ROLE'' [])"

definition Role_GetUniqueID :: "Role \<Rightarrow> UniqueID" where
  "Role_GetUniqueID x = mk_id PG_AUTHID_OID (ro_Oid x)"

definition Role_object :: "Role \<Rightarrow> toc_object" where
  "Role_object x = mk_object (Role_GetMetadataEntry x) (Role_FQN x)"

record RoleGUC =
  gu_RoleName :: string
  gu_DbName :: string
  gu_Config :: string

definition RoleGUC_GetMetadataEntry :: "RoleGUC \<Rightarrow> string \<times> MetadataEntry" where
  "RoleGUC_GetMetadataEntry x = (''global'', mk_entry [] (gu_RoleName x) ''ROLE GUCS'' [])"

record RoleMember =
  rm_Role :: string
  rm_Member :: string
  rm_Grantor :: string
  rm_IsAdmin :: bool

definition RoleMember_GetMetadataEntry :: "RoleMember \<Rightarrow> string \<times> MetadataEntry" where
  "RoleMember_GetMetadataEntry x = (''global'', mk_entry [] (rm_Member x) ''ROLE GRANT'' [])"

record Tablespace =
  tbs_Oid :: "32 word"
  tbs_Tablespace :: string
  tbs_FileLocation :: string
  tbs_SegmentLocations :: "string list option"
  tbs_Options :: string

definition Tablespace_FQN :: "Tablespace \<Rightarrow> string" where
  "Tablespace_FQN x = tbs_Tablespace x"

definition Tablespace_GetMetadataEntry :: "Tablespace \<Rightarrow> string \<times> MetadataEntry" where
  "Tablespace_GetMetadataEntry x = (''global'', mk_entry [] (tbs_Tablespace x) ''TABLESPACE'' [])"

definition Tablespace_GetUniqueID :: "Tablespace \<Rightarrow> UniqueID" where
  "Tablespace_GetUniqueID x = mk_id PG_TABLESPACE_OID (tbs_Oid x)"

definition Tablespace_object :: "Tablespace \<Rightarrow> toc_object" where
  "Tablespace_object x = mk_object (Tablespace_GetMetadataEntry x) (Tablespace_FQN x)"

section \<open>Session and database\<close>

definition PrintSessionGUCs :: "SessionGUCs \<Rightarrow> metafile \<Rightarrow> metafile res" where
  "PrintSessionGUCs g = emit (fst (SessionGUCs_GetMetadataEntry g)) (snd (SessionGUCs_GetMetadataEntry g))
     (NL @ ''SET client_encoding = '' @ in_quotes (sg_ClientEncoding g) @ '';'' @ NL)"

definition database_text :: "Database \<Rightarrow> Database \<Rightarrow> string" where
  "database_text defaultDB d =
     BR @ ''CREATE DATABASE '' @ db_Name d @ '' TEMPLATE template0'' @
     text_if (db_Tablespace d \<noteq> ''pg_default'') ('' TABLESPACE '' @ db_Tablespace d) @
     text_if (db_Encoding d \<noteq> [] \<and> db_Encoding d \<noteq> db_Encoding defaultDB) ('' ENCODING '' @ in_quotes (db_Encoding d)) @
     text_if (db_Collate d \<noteq> [] \<and> db_Collate d \<noteq> db_Collate defaultDB) ('' LC_COLLATE '' @ in_quotes (db_Collate d)) @
     text_if (db_CType d \<noteq> [] \<and> db_CType d \<noteq> db_CType defaultDB) ('' LC_CTYPE '' @ in_quotes (db_CType d)) @ '';''"

definition PrintCreateDatabaseStatement :: "print_env \<Rightarrow> Database \<Rightarrow> Database \<Rightarrow> MetadataMap \<Rightarrow> metafile \<Rightarrow> metafile res" where
  "PrintCreateDatabaseStatement env defaultDB d m st =
     rbind (emit ''global'' (mk_entry [] (db_Name d) ''DATABASE'' []) (database_text defaultDB d) st)
       (PrintObjectMetadata env (metadata_for m (Database_GetUniqueID d)) (Database_object d) [])"

definition PrintDatabaseGUCs :: "string list \<Rightarrow> string \<Rightarrow> metafile \<Rightarrow> metafile res" where
  "PrintDatabaseGUCs gucs dbname =
     for_each (emit ''global'' (mk_entry [] dbname ''DATABASE GUC'' [])) (map (\<lambda>guc. NL @ ''ALTER DATABASE '' @ dbname @ '' '' @ guc @ '';'') gucs)"

section \<open>Resource queues\<close>

definition queue_attributes :: "rat \<Rightarrow> rat \<Rightarrow> ResourceQueue \<Rightarrow> string list" where
  "queue_attributes maxCost minCost q =
     item_if (rq_ActiveStatements q \<noteq> -1) (''ACTIVE_STATEMENTS='' @ Itoa (rq_ActiveStatements q)) @
     item_if (maxCost > -1) (''MAX_COST='' @ rq_MaxCost q) @
     item_if (rq_CostOvercommit q) ''COST_OVERCOMMIT=TRUE'' @
     item_if (minCost > 0) (''MIN_COST='' @ rq_MinCost q) @
     item_if (rq_Priority q \<noteq> ''medium'') (''PRIORITY='' @ ToUpper (rq_Priority q)) @
     item_if (rq_MemoryLimit q \<noteq> ''-1'') (''MEMORY_LIMIT='' @ in_quotes (rq_MemoryLimit q))"

definition queue_text :: "print_env \<Rightarrow> ResourceQueue \<Rightarrow> string res" where
  "queue_text env q =
     rbind (FatalOnError (ParseFloat env (rq_MaxCost q))) (\<lambda>maxCost. rbind (FatalOnError (ParseFloat env (rq_MinCost q))) (\<lambda>minCost.
       Inr (BR @ (if rq_Name q = ''pg_default'' then ''ALTER'' else ''CREATE'') @ '' RESOURCE QUEUE '' @ rq_Name q @ '' WITH ('' @
         Join (queue_attributes maxCost minCost q) '', '' @ '');'')))"

definition print_queue :: "print_env \<Rightarrow> MetadataMap \<Rightarrow> ResourceQueue \<Rightarrow> metafile \<Rightarrow> metafile res" where
  "print_queue env m q st =
     rbind (queue_text env q) (\<lambda>t. print_object env (ResourceQueue_object q) t (metadata_for m (ResourceQueue_GetUniqueID q)) [] st)"

definition PrintCreateResourceQueueStatements :: "print_env \<Rightarrow> ResourceQueue list \<Rightarrow> MetadataMap \<Rightarrow> metafile \<Rightarrow> metafile res" where
  "PrintCreateResourceQueueStatements env qs m = for_each (print_queue env m) qs"

section \<open>Resource groups\<close>

definition dest_at_least :: "print_env \<Rightarrow> string \<Rightarrow> bool res" where
  "dest_at_least env target = version_gate (acl_ranges env) (dest_version env) target"

definition reset_settings :: "bool \<Rightarrow> (string \<times> string) list" where
  "reset_settings destOld =
     (if destOld then [(''admin_group'', ''SET CPU_RATE_LIMIT 1''), (''admin_group'', ''SET MEMORY_LIMIT 1''),
        (''default_group'', ''SET CPU_RATE_LIMIT 1''), (''default_group'', ''SET MEMORY_LIMIT 1'')]
      else [(''admin_group'', ''SET CPU_MAX_PERCENT 1''), (''admin_group'', ''SET CPU_WEIGHT 100''),
        (''default_group'', ''SET CPU_MAX_PERCENT 1''), (''default_group'', ''SET CPU_WEIGHT 100''),
        (''system_group'', ''SET CPU_MAX_PERCENT 1''), (''system_group'', ''SET CPU_WEIGHT 100'')])"

definition PrintResetResourceGroupStatements :: "print_env \<Rightarrow> metafile \<Rightarrow> metafile res" where
  "PrintResetResourceGroupStatements env st =
     rbind (is_old_gpdb (acl_ranges env) (dest_version env) ''7'') (\<lambda>destOld.
       for_each (\<lambda>(name, setting). emit ''global'' (mk_entry [] name ''RESOURCE GROUP'' []) (BR @ ''ALTER RESOURCE GROUP '' @ name @ '' '' @ setting @ '';''))
         (reset_settings destOld) st)"

definition alter_group :: "'a ResourceGroup_scheme \<Rightarrow> string \<Rightarrow> string \<Rightarrow> string" where
  "alter_group g setting v = BR @ ''ALTER RESOURCE GROUP '' @ rg_Name g @ '' SET '' @ setting @ '' '' @ v @ '';''"

definition create_group :: "'a ResourceGroup_scheme \<Rightarrow> string list \<Rightarrow> string" where
  "create_group g attributes = BR @ ''CREATE RESOURCE GROUP '' @ rg_Name g @ '' WITH ('' @ Join attributes '', '' @ '');''"

definition print_group :: "print_env \<Rightarrow> MetadataMap \<Rightarrow> 'a ResourceGroup_scheme \<Rightarrow> string list \<Rightarrow> metafile \<Rightarrow> metafile res" where
  "print_group env m g statements st =
     rbind (for_each (emit (obj_section (ResourceGroup_object g)) (obj_entry (ResourceGroup_object g))) statements st)
       (PrintObjectMetadata env (metadata_for m (ResourceGroup_GetUniqueID g)) (ResourceGroup_object g) [])"

definition group_statements_at7 :: "bool \<Rightarrow> ResourceGroupAtLeast7 \<Rightarrow> string list" where
  "group_statements_at7 src59 g =
     (let rate = \<not> prefix ''-'' (ra_CpuMaxPercent g)
      in if rg_Name g \<in> set [''default_group'', ''admin_group'', ''system_group'']
         then [alter_group g ''CPU_WEIGHT'' (ra_CpuWeight g), alter_group g ''CONCURRENCY'' (rg_Concurrency g),
               if rate then alter_group g ''CPU_MAX_PERCENT'' (ra_CpuMaxPercent g) else alter_group g ''CPUSET'' (in_quotes (rg_Cpuset g))]
         else [create_group g ((if rate then [''CPU_MAX_PERCENT='' @ ra_CpuMaxPercent g] else item_if src59 (''CPUSET='' @ in_quotes (rg_Cpuset g))) @
           [''CPU_WEIGHT='' @ ra_CpuWeight g, ''CONCURRENCY='' @ rg_Concurrency g])])"

definition print_group_at7 :: "print_env \<Rightarrow> MetadataMap \<Rightarrow> ResourceGroupAtLeast7 \<Rightarrow> metafile \<Rightarrow> metafile res" where
  "print_group_at7 env m g st = rbind (src_at_least env ''5.9.0'') (\<lambda>src59. print_group env m g (group_statements_at7 src59 g) st)"

definition PrintCreateResourceGroupStatementsAtLeast7 :: "print_env \<Rightarrow> ResourceGroupAtLeast7 list \<Rightarrow> MetadataMap \<Rightarrow> metafile \<Rightarrow> metafile res" where
  "PrintCreateResourceGroupStatementsAtLeast7 env gs m = for_each (print_group_at7 env m) gs"

definition group_statements_for7 :: "ResourceGroupBefore7 \<Rightarrow> string list" where
  "group_statements_for7 g =
     (let rate = \<not> prefix ''-'' (rb_CPURateLimit g)
      in if rg_Name g \<in> set [''default_group'', ''admin_group'', ''system_group'']
         then [alter_group g ''CONCURRENCY'' (rg_Concurrency g), alter_group g ''CPU_WEIGHT'' ''100'',
               if rate then alter_group g ''CPU_MAX_PERCENT'' (rb_CPURateLimit g) else alter_group g ''CPUSET'' (in_quotes (rg_Cpuset g))]
         else [create_group g [''CONCURRENCY='' @ rg_Concurrency g, ''CPU_WEIGHT=100'',
               if rate then ''CPU_MAX_PERCENT='' @ rb_CPURateLimit g else ''CPUSET='' @ in_quotes (rg_Cpuset g)]])"

definition printResGroupStmtsBefore7ForTarget7OrLater :: "print_env \<Rightarrow> MetadataMap \<Rightarrow> ResourceGroupBefore7 \<Rightarrow> metafile \<Rightarrow> metafile res" where
  "printResGroupStmtsBefore7ForTarget7OrLater env m g = print_group env m g (group_statements_for7 g)"

text \<open>
  For an old destination; a default group in cpuset mode on a source before 5.9.0 gets an entry with
  no text. \<open>src58\<close> and \<open>src59\<close> are the gates of the source server on the versions 5.8.0 and 5.9.0.
\<close>

definition spill_ratio :: "bool \<Rightarrow> string \<Rightarrow> string" where
  "spill_ratio src5 r = (if src5 \<and> \<not> snd (Atoi r) then in_quotes r else r)"

definition group_statements_old :: "bool \<Rightarrow> bool \<Rightarrow> bool \<Rightarrow> ResourceGroupBefore7 \<Rightarrow> string list" where
  "group_statements_old src5 src58 src59 g =
     (let rate = \<not> prefix ''-'' (rb_CPURateLimit g); spill = spill_ratio src5 (rb_MemorySpillRatio g)
      in if rg_Name g \<in> set [''default_group'', ''admin_group'']
         then [alter_group g ''MEMORY_LIMIT'' (rb_MemoryLimit g), alter_group g ''MEMORY_SHARED_QUOTA'' (rb_MemorySharedQuota g),
               alter_group g ''MEMORY_SPILL_RATIO'' spill, alter_group g ''CONCURRENCY'' (rg_Concurrency g),
               if rate then alter_group g ''CPU_RATE_LIMIT'' (rb_CPURateLimit g) else text_if src59 (alter_group g ''CPUSET'' (in_quotes (rg_Cpuset g)))]
         else [create_group g ((if rate then [''CPU_RATE_LIMIT='' @ rb_CPURateLimit g] else item_if src59 (''CPUSET='' @ in_quotes (rg_Cpuset g))) @
               (if rb_MemoryAuditor g = ''1'' then [''MEMORY_AUDITOR=cgroup''] else item_if src58 ''MEMORY_AUDITOR=vmtracker'') @
               [''MEMORY_LIMIT='' @ rb_MemoryLimit g, ''MEMORY_SHARED_QUOTA='' @ rb_MemorySharedQuota g, ''MEMORY_SPILL_RATIO='' @ spill,
                ''CONCURRENCY='' @ rg_Concurrency g])])"

definition src_gpdb :: "print_env \<Rightarrow> (ranges \<Rightarrow> GPDBVersion \<Rightarrow> string \<Rightarrow> bool res) \<Rightarrow> string \<Rightarrow> bool res" where
  "src_gpdb env test target = (if IsGPDB (acl_version env) then test (acl_ranges env) (acl_version env) target else Inr False)"

definition printResGroupStmtsBefore7ForTargetBefore7 :: "print_env \<Rightarrow> MetadataMap \<Rightarrow> ResourceGroupBefore7 \<Rightarrow> metafile \<Rightarrow> metafile res" where
  "printResGroupStmtsBefore7ForTargetBefore7 env m g st =
     rbind (src_gpdb env Is ''5'') (\<lambda>src5. rbind (src_gpdb env AtLeast ''5.8.0'') (\<lambda>src58. rbind (src_gpdb env AtLeast ''5.9.0'') (\<lambda>src59.
       print_group env m g (group_statements_old src5 src58 src59 g) st)))"

definition print_group_before7 :: "print_env \<Rightarrow> MetadataMap \<Rightarrow> ResourceGroupBefore7 \<Rightarrow> metafile \<Rightarrow> metafile res" where
  "print_group_before7 env m g st =
     rbind (dest_at_least env ''7'') (\<lambda>isTargetGpdb7OrLater.
       (if isTargetGpdb7OrLater then printResGroupStmtsBefore7ForTarget7OrLater env m g else printResGroupStmtsBefore7ForTargetBefore7 env m g) st)"

definition PrintCreateResourceGroupStatementsBefore7 :: "print_env \<Rightarrow> ResourceGroupBefore7 list \<Rightarrow> MetadataMap \<Rightarrow> metafile \<Rightarrow> metafile res" where
  "PrintCreateResourceGroupStatementsBefore7 env gs m = for_each (print_group_before7 env m) gs"

section \<open>Roles\<close>

definition flag_attr :: "bool \<Rightarrow> string \<Rightarrow> string" where
  "flag_attr b word = (if b then word else ''NO'' @ word)"

definition role_attrs :: "bool \<Rightarrow> Role \<Rightarrow> string list" where
  "role_attrs at5 r =
     [flag_attr (ro_Super r) ''SUPERUSER'', flag_attr (ro_Inherit r) ''INHERIT'', flag_attr (ro_CreateRole r) ''CREATEROLE'',
      flag_attr (ro_CreateDB r) ''CREATEDB'', flag_attr (ro_CanLogin r) ''LOGIN''] @
     item_if (ro_Replication r) ''REPLICATION'' @
     item_if (ro_ConnectionLimit r \<noteq> -1) (''CONNECTION LIMIT '' @ Itoa (ro_ConnectionLimit r)) @
     item_if (ro_Password r \<noteq> []) (''PASSWORD '' @ in_quotes (ro_Password r)) @
     item_if (ro_ValidUntil r \<noteq> []) (''VALID UNTIL '' @ in_quotes (ro_ValidUntil r)) @
     [''RESOURCE QUEUE '' @ ro_ResQueue r] @
     item_if at5 (''RESOURCE GROUP '' @ ro_ResGroup r) @
     item_if (ro_Createrexthttp r) (''CREATEEXTTABLE (protocol='' @ in_quotes ''http'' @ '')'') @
     item_if (ro_Createrextgpfd r) (''CREATEEXTTABLE (protocol='' @ in_quotes ''gpfdist'' @ '', type='' @ in_quotes ''readable'' @ '')'') @
     item_if (ro_Createwextgpfd r) (''CREATEEXTTABLE (protocol='' @ in_quotes ''gpfdist'' @ '', type='' @ in_quotes ''writable'' @ '')'') @
     item_if (ro_Createrexthdfs r) (''CREATEEXTTABLE (protocol='' @ in_quotes ''gphdfs'' @ '', type='' @ in_quotes ''readable'' @ '')'') @
     item_if (ro_Createwexthdfs r) (''CREATEEXTTABLE (protocol='' @ in_quotes ''gphdfs'' @ '', type='' @ in_quotes ''writable'' @ '')'')"

definition role_text :: "bool \<Rightarrow> Role \<Rightarrow> string" where
  "role_text at5 r = BR @ ''CREATE ROLE '' @ ro_Name r @ '';'' @ NL @ ''ALTER ROLE '' @ ro_Name r @ '' WITH '' @ Join (role_attrs at5 r) '' '' @ '';''"

definition deny_text :: "Role \<Rightarrow> TimeConstraint \<Rightarrow> string" where
  "deny_text r c =
     NL @ ''ALTER ROLE '' @ ro_Name r @ '' DENY BETWEEN DAY '' @ Itoa (tc_StartDay c) @ '' TIME '' @ in_quotes (tc_StartTime c) @
     '' AND DAY '' @ Itoa (tc_EndDay c) @ '' TIME '' @ in_quotes (tc_EndTime c) @ '';''"

definition print_role :: "print_env \<Rightarrow> MetadataMap \<Rightarrow> Role \<Rightarrow> metafile \<Rightarrow> metafile res" where
  "print_role env m r st =
     rbind (src_at_least env ''5'') (\<lambda>at5.
     rbind (for_each (emit (obj_section (Role_object r)) (obj_entry (Role_object r))) (role_text at5 r # map (deny_text r) (ro_TimeConstraints r)) st)
       (PrintObjectMetadata env (metadata_for m (Role_GetUniqueID r)) (Role_object r) []))"

definition PrintCreateRoleStatements :: "print_env \<Rightarrow> Role list \<Rightarrow> MetadataMap \<Rightarrow> metafile \<Rightarrow> metafile res" where
  "PrintCreateRoleStatements env rs m = for_each (print_role env m) rs"

text \<open>\<open>SET default_tablespace TO '([^']+)'\<close>: the first match.\<close>

definition tablespace_guc :: string where
  "tablespace_guc = ''SET default_tablespace TO '' @ [SQ]"

definition guc_at :: "string \<Rightarrow> nat \<Rightarrow> string option" where
  "guc_at s p =
     (let r = drop (p + length tablespace_guc) s; name = takeWhile (\<lambda>c. c \<noteq> SQ) r
      in if prefix tablespace_guc (drop p s) \<and> name \<noteq> [] \<and> length name < length r then Some name else None)"

definition transformRoleDefaultTablespace :: "string \<times> (string, string) gomap \<Rightarrow> string \<Rightarrow> string" where
  "transformRoleDefaultTablespace dest gucConfig =
     (case List.find (\<lambda>p. guc_at gucConfig p \<noteq> None) [0..<length gucConfig] of
        None \<Rightarrow> gucConfig
      | Some p \<Rightarrow> tablespace_guc @ GetDestTablespace dest (the (guc_at gucConfig p)) @ [SQ])"

definition guc_text :: "print_env \<Rightarrow> string \<Rightarrow> RoleGUC \<Rightarrow> string" where
  "guc_text env roleName g =
     (let dbString = text_if (gu_DbName g \<noteq> []) (''IN DATABASE '' @ gu_DbName g @ '' '');
          gucConfig = (if Contains (gu_Config g) ''SET default_tablespace'' then transformRoleDefaultTablespace (dest_tablespaces env) (gu_Config g) else gu_Config g)
      in BR @ ''ALTER ROLE '' @ roleName @ '' '' @ dbString @ gucConfig @ '';'')"

definition print_guc :: "print_env \<Rightarrow> string \<times> RoleGUC \<Rightarrow> metafile \<Rightarrow> metafile res" where
  "print_guc env = (\<lambda>(roleName, g). emit (fst (RoleGUC_GetMetadataEntry g)) (snd (RoleGUC_GetMetadataEntry g)) (guc_text env roleName g))"

text \<open>\<open>order\<close> is the order in which Go visits the roles.\<close>

definition PrintRoleGUCStatements :: "print_env \<Rightarrow> string list \<Rightarrow> (string, RoleGUC list) gomap \<Rightarrow> metafile \<Rightarrow> metafile res" where
  "PrintRoleGUCStatements env order roleGUCs =
     for_each (print_guc env) (concat (map (\<lambda>r. map (\<lambda>g. (r, g)) (go_get0 [] roleGUCs r)) order))"

definition member_text :: "RoleMember \<Rightarrow> string" where
  "member_text r =
     NL @ ''GRANT '' @ rm_Role r @ '' TO '' @ rm_Member r @ text_if (rm_IsAdmin r) '' WITH ADMIN OPTION'' @
     text_if (rm_Grantor r \<noteq> []) ('' GRANTED BY '' @ rm_Grantor r) @ '';''"

definition print_member :: "RoleMember \<Rightarrow> metafile \<Rightarrow> metafile res" where
  "print_member r = emit (fst (RoleMember_GetMetadataEntry r)) (snd (RoleMember_GetMetadataEntry r)) (member_text r)"

definition PrintRoleMembershipStatements :: "RoleMember list \<Rightarrow> metafile \<Rightarrow> metafile res" where
  "PrintRoleMembershipStatements rs st = rbind (loose BR st) (for_each print_member rs)"

section \<open>Tablespaces\<close>

definition location_text :: "Tablespace \<Rightarrow> string" where
  "location_text t =
     (case tbs_SegmentLocations t of
        None \<Rightarrow> ''FILESPACE '' @ tbs_FileLocation t
      | Some ls \<Rightarrow> if length ls = 0 then ''LOCATION '' @ tbs_FileLocation t
          else ''LOCATION '' @ tbs_FileLocation t @ NT @ ''WITH ('' @ Join ls '', '' @ '')'')"

definition tablespace_statements :: "Tablespace \<Rightarrow> string list" where
  "tablespace_statements t =
     [BR @ ''CREATE TABLESPACE '' @ tbs_Tablespace t @ '' '' @ location_text t @ '';''] @
     item_if (tbs_Options t \<noteq> []) (BR @ ''ALTER TABLESPACE '' @ tbs_Tablespace t @ '' SET ('' @ tbs_Options t @ '');'' @ NL)"

definition print_tablespace :: "print_env \<Rightarrow> MetadataMap \<Rightarrow> Tablespace \<Rightarrow> metafile \<Rightarrow> metafile res" where
  "print_tablespace env m t st =
     rbind (for_each (emit (obj_section (Tablespace_object t)) (obj_entry (Tablespace_object t))) (tablespace_statements t) st)
       (PrintObjectMetadata env (metadata_for m (Tablespace_GetUniqueID t)) (Tablespace_object t) [])"

definition PrintCreateTablespaceStatements :: "print_env \<Rightarrow> Tablespace list \<Rightarrow> MetadataMap \<Rightarrow> metafile \<Rightarrow> metafile res" where
  "PrintCreateTablespaceStatements env ts m = for_each (print_tablespace env m) ts"

section \<open>What is printed\<close>

lemma prints_entries_metadata:
  "prints (\<lambda>st. rbind (for_each (emit (obj_section obj) (obj_entry obj)) ts st) (PrintObjectMetadata env md obj owning)) (list_all (own obj))"
  by (rule prints_then[OF prints_entries prints_object_metadata]) simp_all

lemma prints_group: "prints (print_group env m g ts) (list_all (own (ResourceGroup_object g)))"
  unfolding print_group_def[abs_def] by (rule prints_entries_metadata)

interpretation queue_printer: printer "print_queue env m" ResourceQueue_object
  by (rule printer_created, unfold print_queue_def[abs_def]) (intro prints_compute printing)

interpretation group7_printer: printer "print_group_at7 env m" ResourceGroup_object
  by unfold_locales (unfold print_group_at7_def[abs_def], intro prints_compute prints_group)

interpretation group_printer: printer "print_group_before7 env m" ResourceGroup_object
proof (unfold_locales, unfold print_group_before7_def[abs_def], rule prints_compute)
  fix g new
  have "prints (printResGroupStmtsBefore7ForTarget7OrLater env m g) (list_all (own (ResourceGroup_object g)))"
    unfolding printResGroupStmtsBefore7ForTarget7OrLater_def by (rule prints_group)
  moreover have "prints (printResGroupStmtsBefore7ForTargetBefore7 env m g) (list_all (own (ResourceGroup_object g)))"
    unfolding printResGroupStmtsBefore7ForTargetBefore7_def[abs_def] by (intro prints_compute prints_group)
  ultimately show "prints ((if new then printResGroupStmtsBefore7ForTarget7OrLater env m g else printResGroupStmtsBefore7ForTargetBefore7 env m g))
    (list_all (own (ResourceGroup_object g)))" by simp
qed

interpretation role_printer: printer "print_role env m" Role_object
  by unfold_locales (unfold print_role_def[abs_def], intro prints_compute prints_entries_metadata)

interpretation tablespace_printer: printer "print_tablespace env m" Tablespace_object
  by unfold_locales (unfold print_tablespace_def[abs_def], rule prints_entries_metadata)

end
