(* ===== verification/Extract.thy ===== *)
theory Extract
  imports Dependencies PrintTypes PrintOperators PrintRelations PrintPostdata PrintGlobals
begin

text \<open>
  \<open>src/meta/builtin/extract_helper.go\<close> with the callers in \<open>builtin.go\<close> and
  \<open>PrintDependentObjectStatements\<close> of \<open>dependencies.go\<close>: the objects of the source database are
  collected, sorted by their dependencies and printed. The answers of the catalog queries are the
  record \<open>catalog\<close>; the metadata file, the table of contents, the collected objects, their metadata
  and the package variable \<open>objectCounts\<close> are the state \<open>extraction\<close>. The version of the connection is
  the source version of the environment.

  The main result is about the file as a whole: everything is recorded in the section it belongs
  to, and the definitions of the dependent objects stand in an order in which each one follows the
  objects it depends on.
\<close>

section \<open>Sortable objects\<close>

datatype object_value =
    BaseTypeV BaseType | CompositeTypeV CompositeType | DomainV Domain | RangeTypeV RangeType
  | FunctionV Function | TableV PrintRelations.Table | ExternalProtocolV ExternalProtocol | ViewV View
  | TextSearchParserV TextSearchParser | TextSearchConfigurationV TextSearchConfiguration
  | TextSearchTemplateV TextSearchTemplate | TextSearchDictionaryV TextSearchDictionary
  | OperatorV Operator | OperatorClassV OperatorClass | AggregateV Aggregate | CastV Cast
  | ForeignDataWrapperV ForeignDataWrapper | ForeignServerV ForeignServer | UserMappingV UserMapping
  | ConstraintV Constraint | TransformV Transform

fun value_FQN :: "object_value \<Rightarrow> string" where
  "value_FQN (BaseTypeV x) = BaseType_FQN x"
| "value_FQN (CompositeTypeV x) = CompositeType_FQN x"
| "value_FQN (DomainV x) = Domain_FQN x"
| "value_FQN (RangeTypeV x) = RangeType_FQN x"
| "value_FQN (FunctionV x) = Function_FQN x"
| "value_FQN (TableV x) = Relation_FQN x"
| "value_FQN (ExternalProtocolV x) = ExternalProtocol_FQN x"
| "value_FQN (ViewV x) = View_FQN x"
| "value_FQN (TextSearchParserV x) = TextSearchParser_FQN x"
| "value_FQN (TextSearchConfigurationV x) = TextSearchConfiguration_FQN x"
| "value_FQN (TextSearchTemplateV x) = TextSearchTemplate_FQN x"
| "value_FQN (TextSearchDictionaryV x) = TextSearchDictionary_FQN x"
| "value_FQN (OperatorV x) = Operator_FQN x"
| "value_FQN (OperatorClassV x) = OperatorClass_FQN x"
| "value_FQN (AggregateV x) = Aggregate_FQN x"
| "value_FQN (CastV x) = Cast_FQN x"
| "value_FQN (ForeignDataWrapperV x) = ForeignDataWrapper_FQN x"
| "value_FQN (ForeignServerV x) = ForeignServer_FQN x"
| "value_FQN (UserMappingV x) = UserMapping_FQN x"
| "value_FQN (ConstraintV x) = Constraint_FQN x"
| "value_FQN (TransformV x) = Transform_FQN x"

fun value_GetUniqueID :: "object_value \<Rightarrow> UniqueID" where
  "value_GetUniqueID (BaseTypeV x) = BaseType_GetUniqueID x"
| "value_GetUniqueID (CompositeTypeV x) = CompositeType_GetUniqueID x"
| "value_GetUniqueID (DomainV x) = Domain_GetUniqueID x"
| "value_GetUniqueID (RangeTypeV x) = RangeType_GetUniqueID x"
| "value_GetUniqueID (FunctionV x) = Function_GetUniqueID x"
| "value_GetUniqueID (TableV x) = Relation_GetUniqueID x"
| "value_GetUniqueID (ExternalProtocolV x) = ExternalProtocol_GetUniqueID x"
| "value_GetUniqueID (ViewV x) = View_GetUniqueID x"
| "value_GetUniqueID (TextSearchParserV x) = TextSearchParser_GetUniqueID x"
| "value_GetUniqueID (TextSearchConfigurationV x) = TextSearchConfiguration_GetUniqueID x"
| "value_GetUniqueID (TextSearchTemplateV x) = TextSearchTemplate_GetUniqueID x"
| "value_GetUniqueID (TextSearchDictionaryV x) = TextSearchDictionary_GetUniqueID x"
| "value_GetUniqueID (OperatorV x) = Operator_GetUniqueID x"
| "value_GetUniqueID (OperatorClassV x) = OperatorClass_GetUniqueID x"
| "value_GetUniqueID (AggregateV x) = Aggregate_GetUniqueID x"
| "value_GetUniqueID (CastV x) = Cast_GetUniqueID x"
| "value_GetUniqueID (ForeignDataWrapperV x) = ForeignDataWrapper_GetUniqueID x"
| "value_GetUniqueID (ForeignServerV x) = ForeignServer_GetUniqueID x"
| "value_GetUniqueID (UserMappingV x) = UserMapping_GetUniqueID x"
| "value_GetUniqueID (ConstraintV x) = Constraint_GetUniqueID x"
| "value_GetUniqueID (TransformV x) = Transform_GetUniqueID x"

text \<open>An interface value: the two methods of \<open>Sortable\<close> and the value behind them.\<close>

record SortableObject = Sortable +
  dynamic :: object_value

definition as_sortable :: "object_value \<Rightarrow> SortableObject" where
  "as_sortable v = \<lparr>FQN = value_FQN v, GetUniqueID = value_GetUniqueID v, dynamic = v\<rparr>"

definition convertToSortableSlice :: "('a \<Rightarrow> object_value) \<Rightarrow> 'a list \<Rightarrow> SortableObject list" where
  "convertToSortableSlice f xs = map (\<lambda>x. as_sortable (f x)) xs"

section \<open>Printing the dependent objects\<close>

definition domain_constraints :: "Constraint list \<Rightarrow> (string, Constraint list) gomap" where
  "domain_constraints cs =
     foldl (\<lambda>m c. go_set (con_OwningObject c) (go_get0 [] m (con_OwningObject c) @ [c]) m) [] cs"

fun print_value :: "print_env \<Rightarrow> func_infos \<Rightarrow> (string, Constraint list) gomap \<Rightarrow> object_value \<Rightarrow> ObjectMetadata \<Rightarrow>
    metafile \<Rightarrow> metafile res" where
  "print_value env infos cons (BaseTypeV x) md = PrintCreateBaseTypeStatement env x md"
| "print_value env infos cons (CompositeTypeV x) md = PrintCreateCompositeTypeStatement env x md"
| "print_value env infos cons (DomainV x) md = PrintCreateDomainStatement env x md (go_get0 [] cons (Domain_FQN x))"
| "print_value env infos cons (RangeTypeV x) md = PrintCreateRangeTypeStatement env x md"
| "print_value env infos cons (FunctionV x) md = PrintCreateFunctionStatement env x md"
| "print_value env infos cons (TableV x) md = PrintCreateTableStatement env x md"
| "print_value env infos cons (ExternalProtocolV x) md = PrintCreateExternalProtocolStatement env infos x md"
| "print_value env infos cons (ViewV x) md = PrintCreateViewStatement env x md"
| "print_value env infos cons (TextSearchParserV x) md = PrintCreateTextSearchParserStatement env x md"
| "print_value env infos cons (TextSearchConfigurationV x) md = PrintCreateTextSearchConfigurationStatement env x md"
| "print_value env infos cons (TextSearchTemplateV x) md = PrintCreateTextSearchTemplateStatement env x md"
| "print_value env infos cons (TextSearchDictionaryV x) md = PrintCreateTextSearchDictionaryStatement env x md"
| "print_value env infos cons (OperatorV x) md = PrintCreateOperatorStatement env x md"
| "print_value env infos cons (OperatorClassV x) md = PrintCreateOperatorClassStatement env x md"
| "print_value env infos cons (AggregateV x) md = PrintCreateAggregateStatement env infos x md"
| "print_value env infos cons (CastV x) md = PrintCreateCastStatement env x md"
| "print_value env infos cons (ForeignDataWrapperV x) md = PrintCreateForeignDataWrapperStatement env infos x md"
| "print_value env infos cons (ForeignServerV x) md = PrintCreateServerStatement env x md"
| "print_value env infos cons (UserMappingV x) md = PrintCreateUserMappingStatement x"
| "print_value env infos cons (ConstraintV x) md = PrintConstraintStatement env x md"
| "print_value env infos cons (TransformV x) md = PrintCreateTransformStatement env infos x md"

text \<open>The metadata of an object is deleted once it is printed; the rest belongs to functions of extensions.\<close>

fun print_dependents :: "print_env \<Rightarrow> func_infos \<Rightarrow> (string, Constraint list) gomap \<Rightarrow> SortableObject list \<Rightarrow> MetadataMap \<Rightarrow>
    metafile \<Rightarrow> metafile res" where
  "print_dependents env infos cons [] m st = Inr st"
| "print_dependents env infos cons (x # xs) m st =
     rbind (print_value env infos cons (dynamic x) (metadata_for m (GetUniqueID x)) st)
       (print_dependents env infos cons xs (go_delete (GetUniqueID x) m))"

definition leftover_metadata :: "SortableObject list \<Rightarrow> MetadataMap \<Rightarrow> MetadataMap" where
  "leftover_metadata xs m = foldl (\<lambda>m x. go_delete (GetUniqueID x) m) m xs"

definition FunctionInfo_object :: "FunctionInfo \<Rightarrow> toc_object" where
  "FunctionInfo_object i = mk_object (FunctionInfo_GetMetadataEntry i) (FunctionInfo_FQN i)"

text \<open>\<open>order\<close> is the order in which the loop over the remaining metadata visits the map.\<close>

definition PrintDependentObjectStatements :: "print_env \<Rightarrow> (MetadataMap \<Rightarrow> UniqueID list) \<Rightarrow> SortableObject list \<Rightarrow> MetadataMap \<Rightarrow>
    Constraint list \<Rightarrow> func_infos \<Rightarrow> metafile \<Rightarrow> metafile res" where
  "PrintDependentObjectStatements env order objs m domainConstraints infos st =
     rbind (print_dependents env infos (domain_constraints domainConstraints) objs m st)
       (printExtensionFunctionACLs (role_map env) (order (leftover_metadata objs m)) (leftover_metadata objs m)
          (map (\<lambda>(oid, i). (oid, FunctionInfo_object i)) infos))"

section \<open>The catalog\<close>

text \<open>
  What the queries return. A failing query ends the program, so every answer may be an error. The
  functions that take the rows further (\<open>RenameExchangedPartitionIndexes\<close> and its like ask the server
  again) are functions here.
\<close>

record catalog =
  QuoteIdents :: "string \<Rightarrow> (string \<times> string) list res"
  GetIncludedUserTableRelations :: "string list \<Rightarrow> Relation list res"
  GetForeignTableRelations :: "Relation list res"
  ConstructDefinitionsForTables :: "Relation list \<Rightarrow> PrintRelations.Table list res"
  GetMetadataForObjectType :: "string \<Rightarrow> MetadataMap res"
  GetCommentsForObjectType :: "string \<Rightarrow> MetadataMap res"
  GetFunctionsAllVersions :: "Function list res"
  GetFunctionOidToInfoMap :: "func_infos res"
  GetTransforms :: "Transform list res"
  GetShellTypes :: "ShellType list res"
  GetBaseTypes :: "BaseType list res"
  GetCompositeTypes :: "CompositeType list res"
  GetDomainTypes :: "Domain list res"
  GetRangeTypes :: "RangeType list res"
  GetEnumTypes :: "EnumType list res"
  GetConstraints :: "Constraint list res"
  RenameExchangedPartitionConstraints :: "Constraint list \<Rightarrow> Constraint list res"
  GetAllSequences :: "Sequence list res"
  GetExternalProtocols :: "ExternalProtocol list res"
  GetAllViews :: "View list res"
  GetTextSearchParsers :: "TextSearchParser list res"
  GetTextSearchConfigurations :: "TextSearchConfiguration list res"
  GetTextSearchTemplates :: "TextSearchTemplate list res"
  GetTextSearchDictionaries :: "TextSearchDictionary list res"
  GetOperators :: "Operator list res"
  GetOperatorClasses :: "OperatorClass list res"
  GetOperatorFamilies :: "OperatorFamily list res"
  GetAggregates :: "Aggregate list res"
  GetCasts :: "Cast list res"
  GetForeignDataWrappers :: "ForeignDataWrapper list res"
  GetForeignServers :: "ForeignServer list res"
  GetUserMappings :: "UserMapping list res"
  GetSessionGUCs :: "SessionGUCs res"
  GetTablespaces :: "Tablespace list res"
  GetDefaultDatabaseEncodingInfo :: "Database res"
  GetDatabaseInfo :: "Database res"
  GetDatabaseGUCs :: "string list res"
  GetResourceQueues :: "ResourceQueue list res"
  GetResourceGroupsBefore7 :: "ResourceGroupBefore7 list res"
  GetResourceGroupsAtLeast7 :: "ResourceGroupAtLeast7 list res"
  GetRoles :: "Role list res"
  GetRoleGUCs :: "(string, RoleGUC list) gomap res"
  GetRoleMembers :: "RoleMember list res"
  GetAllUserSchemas :: "(string, bool) gomap \<Rightarrow> Schema list res"
  GetProceduralLanguages :: "ProceduralLanguage list res"
  GetAccessMethods :: "AccessMethod list res"
  GetCollations :: "Collation list res"
  GetExtensions :: "Extension list res"
  GetConversions :: "Conversion list res"
  GetExternalPartitionInfo :: "(PartitionInfo list \<times> (32 word, PartitionInfo) gomap) res"
  GetIndexes :: "IndexDefinition list res"
  RenameExchangedPartitionIndexes :: "IndexDefinition list \<Rightarrow> IndexDefinition list res"
  EnsurePartitionKeysInUniqueIndexDefs :: "IndexDefinition list \<Rightarrow> IndexDefinition list res"
  GetRules :: "RuleDefinition list res"
  GetTriggers :: "TriggerDefinition list res"
  GetEventTriggers :: "EventTrigger list res"
  GetDefaultPrivileges :: "DefaultPrivileges list res"
  GetPolicies :: "RLSPolicy list res"
  GetExtendedStatistics :: "StatisticExt list res"
  pg_depend_rows :: "SortableDependency list res"
  synthetic_rows :: "PrintRelations.Table list \<Rightarrow> SortableDependency list res"

text \<open>How Go visits the maps that the extraction ranges over.\<close>

record orders =
  dep_order :: "DependencyMap \<Rightarrow> UniqueID \<Rightarrow> UniqueID list"
  dep_entries :: "DependencyMap \<Rightarrow> UniqueID list"
  metadata_order :: "MetadataMap \<Rightarrow> UniqueID list"
  role_order :: "(string, RoleGUC list) gomap \<Rightarrow> string list"

section \<open>State\<close>

record extraction =
  x_out :: metafile
  x_objects :: "SortableObject list"
  x_metadata :: MetadataMap
  objectCounts :: "(string, int) gomap"

definition write_with :: "(metafile \<Rightarrow> metafile res) \<Rightarrow> extraction \<Rightarrow> extraction res" where
  "write_with p s = rbind (p (x_out s)) (\<lambda>f. Inr (s\<lparr>x_out := f\<rparr>))"

definition set_count :: "string \<Rightarrow> nat \<Rightarrow> extraction \<Rightarrow> extraction" where
  "set_count k n s = s\<lparr>objectCounts := go_set k (int n) (objectCounts s)\<rparr>"

definition add_count :: "string \<Rightarrow> nat \<Rightarrow> extraction \<Rightarrow> extraction" where
  "add_count k n s = s\<lparr>objectCounts := go_set k (go_get0 0 (objectCounts s) k + int n) (objectCounts s)\<rparr>"

definition addToMetadataMap :: "MetadataMap \<Rightarrow> MetadataMap \<Rightarrow> MetadataMap" where
  "addToMetadataMap newMetadata m = foldl (\<lambda>m (k, v). go_set k v m) m newMetadata"

definition add_objects :: "SortableObject list \<Rightarrow> extraction \<Rightarrow> extraction" where
  "add_objects xs s = s\<lparr>x_objects := x_objects s @ xs\<rparr>"

definition add_metadata :: "MetadataMap \<Rightarrow> extraction \<Rightarrow> extraction" where
  "add_metadata m s = s\<lparr>x_metadata := addToMetadataMap m (x_metadata s)\<rparr>"

definition createBackupSet :: "SortableObject list \<Rightarrow> (UniqueID, bool) gomap" where
  "createBackupSet objs = foldl (\<lambda>m x. go_set (GetUniqueID x) True m) [] objs"

definition createAlteredPartitionSchemaSet :: "PrintRelations.Table list \<Rightarrow> (string, bool) gomap" where
  "createAlteredPartitionSchemaSet ts =
     foldl (\<lambda>m p. go_set (ap_NewSchema p) True m) [] (concat (map tb_PartitionAlteredSchemas ts))"

section \<open>Tables\<close>

text \<open>The filter reads five fields of a table and keeps the table itself.\<close>

record FilterTable = RelTable +
  whole_table :: PrintRelations.Table

definition filter_view :: "PrintRelations.Table \<Rightarrow> FilterTable" where
  "filter_view t = \<lparr>t_Schema = r_Schema t, t_Name = r_Name t, IsExternal = tb_IsExternal t,
     Level = pli_Level (tb_PartitionLevelInfo t), Inherits = tb_Inherits t, whole_table = t\<rparr>"

definition RetrieveAndProcessTables :: "print_env \<Rightarrow> catalog \<Rightarrow> skip_env \<Rightarrow> string list \<Rightarrow> extraction \<Rightarrow>
    (PrintRelations.Table list \<times> PrintRelations.Table list \<times> SkippedTable list \<times> extraction) res" where
  "RetrieveAndProcessTables env c senv includeTables s =
     rbind (case QuoteTableNames (QuoteIdents c) includeTables of Inl (Error e) \<Rightarrow> Inl (Fatal e) | r \<Rightarrow> r) (\<lambda>quotedIncludes.
     rbind (GetIncludedUserTableRelations c quotedIncludes) (\<lambda>rels.
     rbind (src_at_least env ''6'') (\<lambda>at6.
     rbind (if at6 then rbind (GetForeignTableRelations c) (\<lambda>fs. Inr (rels @ fs)) else Inr rels) (\<lambda>rels.
     rbind (ConstructDefinitionsForTables c rels) (\<lambda>tables.
     rbind (FilterTablesByDestExisting senv (map filter_view tables)) (\<lambda>(kept, skipped).
     rbind (SplitTablesByPartitionType (acl_ranges env) (acl_version env) (map whole_table kept) quotedIncludes) (\<lambda>(metadataTables, dataTables).
       Inr (metadataTables, dataTables, skipped, set_count ''Tables'' (length metadataTables) s))))))))"

section \<open>Collecting objects\<close>

text \<open>
  The shape of most of the \<open>retrieve\<close> functions: the objects are counted and appended, their
  metadata is added.
\<close>

definition retrieve_kind :: "('a \<Rightarrow> object_value) \<Rightarrow> 'a list res \<Rightarrow> string \<Rightarrow> MetadataMap res \<Rightarrow> extraction \<Rightarrow> extraction res" where
  "retrieve_kind f rows name md s =
     rbind rows (\<lambda>xs. rbind md (\<lambda>m.
       Inr (add_metadata m (add_objects (convertToSortableSlice f xs) (set_count name (length xs) s)))))"

definition retrieveFunctions :: "catalog \<Rightarrow> extraction \<Rightarrow> (Function list \<times> func_infos \<times> extraction) res" where
  "retrieveFunctions c s =
     rbind (GetMetadataForObjectType c ''FUNCTION'') (\<lambda>m.
     rbind (GetFunctionsAllVersions c) (\<lambda>fs.
     rbind (GetFunctionOidToInfoMap c) (\<lambda>infos.
       Inr (fs, infos, add_objects (convertToSortableSlice FunctionV fs) (set_count ''Functions'' (length fs) (add_metadata m s))))))"

definition retrieveTransforms :: "print_env \<Rightarrow> catalog \<Rightarrow> extraction \<Rightarrow> extraction res" where
  "retrieveTransforms env c s =
     rbind (src_old env ''7'') (\<lambda>old. if old then Inr s else retrieve_kind TransformV (GetTransforms c) ''Transforms'' (Inr []) s)"

definition retrieveProtocols :: "catalog \<Rightarrow> extraction \<Rightarrow> (ExternalProtocol list \<times> extraction) res" where
  "retrieveProtocols c s =
     rbind (GetExternalProtocols c) (\<lambda>ps.
     rbind (retrieve_kind ExternalProtocolV (Inr ps) ''Protocols'' (GetMetadataForObjectType c ''PROTOCOL'') s) (\<lambda>s. Inr (ps, s)))"

definition retrieveViews :: "catalog \<Rightarrow> extraction \<Rightarrow> extraction res" where
  "retrieveViews c = retrieve_kind ViewV (GetAllViews c) ''Views'' (Inr [])"

definition retrieveTSParsers :: "catalog \<Rightarrow> extraction \<Rightarrow> extraction res" where
  "retrieveTSParsers c = retrieve_kind TextSearchParserV (GetTextSearchParsers c) ''Text Search Parsers''
     (GetCommentsForObjectType c ''TEXT SEARCH PARSER'')"

definition retrieveTSTemplates :: "catalog \<Rightarrow> extraction \<Rightarrow> extraction res" where
  "retrieveTSTemplates c = retrieve_kind TextSearchTemplateV (GetTextSearchTemplates c) ''Text Search Templates''
     (GetCommentsForObjectType c ''TEXT SEARCH TEMPLATE'')"

definition retrieveTSDictionaries :: "catalog \<Rightarrow> extraction \<Rightarrow> extraction res" where
  "retrieveTSDictionaries c = retrieve_kind TextSearchDictionaryV (GetTextSearchDictionaries c) ''Text Search Dictionaries''
     (GetMetadataForObjectType c ''TEXT SEARCH DICTIONARY'')"

definition retrieveTSConfigurations :: "catalog \<Rightarrow> extraction \<Rightarrow> extraction res" where
  "retrieveTSConfigurations c = retrieve_kind TextSearchConfigurationV (GetTextSearchConfigurations c) ''Text Search Configurations''
     (GetMetadataForObjectType c ''TEXT SEARCH CONFIGURATION'')"

text \<open>One step after the other, and a step that is only made from a version on.\<close>

fun in_turn :: "(extraction \<Rightarrow> extraction res) list \<Rightarrow> extraction \<Rightarrow> extraction res" where
  "in_turn [] s = Inr s"
| "in_turn (f # fs) s = rbind (f s) (in_turn fs)"

definition only_from :: "print_env \<Rightarrow> string \<Rightarrow> (extraction \<Rightarrow> extraction res) \<Rightarrow> extraction \<Rightarrow> extraction res" where
  "only_from env target f s = rbind (src_at_least env target) (\<lambda>b. if b then f s else Inr s)"

definition retrieveTSObjects :: "print_env \<Rightarrow> catalog \<Rightarrow> extraction \<Rightarrow> extraction res" where
  "retrieveTSObjects env c = only_from env ''5''
     (in_turn [retrieveTSParsers c, retrieveTSConfigurations c, retrieveTSTemplates c, retrieveTSDictionaries c])"

definition retrieveOperators :: "catalog \<Rightarrow> extraction \<Rightarrow> extraction res" where
  "retrieveOperators c = retrieve_kind OperatorV (GetOperators c) ''Operators'' (GetMetadataForObjectType c ''OPERATOR'')"

definition retrieveOperatorClasses :: "catalog \<Rightarrow> extraction \<Rightarrow> extraction res" where
  "retrieveOperatorClasses c = retrieve_kind OperatorClassV (GetOperatorClasses c) ''Operator Classes''
     (GetMetadataForObjectType c ''OPERATOR CLASS'')"

definition retrieveOperatorObjects :: "catalog \<Rightarrow> extraction \<Rightarrow> extraction res" where
  "retrieveOperatorObjects c = in_turn [retrieveOperators c, retrieveOperatorClasses c]"

definition retrieveAggregates :: "catalog \<Rightarrow> extraction \<Rightarrow> extraction res" where
  "retrieveAggregates c = retrieve_kind AggregateV (GetAggregates c) ''Aggregates'' (GetMetadataForObjectType c ''AGGREGATE'')"

definition retrieveCasts :: "catalog \<Rightarrow> extraction \<Rightarrow> extraction res" where
  "retrieveCasts c = retrieve_kind CastV (GetCasts c) ''Casts'' (GetCommentsForObjectType c ''CAST'')"

definition retrieveForeignDataWrappers :: "catalog \<Rightarrow> extraction \<Rightarrow> extraction res" where
  "retrieveForeignDataWrappers c = retrieve_kind ForeignDataWrapperV (GetForeignDataWrappers c) ''Foreign Data Wrappers''
     (GetMetadataForObjectType c ''FOREIGN DATA WRAPPER'')"

definition retrieveForeignServers :: "catalog \<Rightarrow> extraction \<Rightarrow> extraction res" where
  "retrieveForeignServers c = retrieve_kind ForeignServerV (GetForeignServers c) ''Foreign Servers''
     (GetMetadataForObjectType c ''SERVER'')"

definition retrieveUserMappings :: "catalog \<Rightarrow> extraction \<Rightarrow> extraction res" where
  "retrieveUserMappings c = retrieve_kind UserMappingV (GetUserMappings c) ''User Mappings'' (Inr [])"

definition retrieveFDWObjects :: "print_env \<Rightarrow> catalog \<Rightarrow> extraction \<Rightarrow> extraction res" where
  "retrieveFDWObjects env c = only_from env ''6''
     (in_turn [retrieveForeignDataWrappers c, retrieveForeignServers c, retrieveUserMappings c])"

definition retrieveConstraints :: "print_env \<Rightarrow> catalog \<Rightarrow> extraction \<Rightarrow> (Constraint list \<times> extraction) res" where
  "retrieveConstraints env c s =
     rbind (GetConstraints c) (\<lambda>cs.
     rbind (if cs \<noteq> [] then src_at_least env ''7'' else Inr False) (\<lambda>at7.
     rbind (if at7 then RenameExchangedPartitionConstraints c cs else Inr cs) (\<lambda>cs.
     rbind (retrieve_kind ConstraintV (Inr (filter (\<lambda>con. \<not> con_IsDomainConstraint con) cs)) ''Constraints''
         (GetCommentsForObjectType c ''CONSTRAINT'') s) (\<lambda>s.
       Inr (filter con_IsDomainConstraint cs, s)))))"

section \<open>Writing objects that are not sorted\<close>

text \<open>Rows, their number, their metadata, and the statements for all of them.\<close>

definition backup_kind :: "'a list res \<Rightarrow> string \<Rightarrow> MetadataMap res \<Rightarrow> ('a list \<Rightarrow> MetadataMap \<Rightarrow> metafile \<Rightarrow> metafile res) \<Rightarrow>
    extraction \<Rightarrow> extraction res" where
  "backup_kind rows name md p s =
     rbind rows (\<lambda>xs. rbind md (\<lambda>m. write_with (p xs m) (set_count name (length xs) s)))"

definition backupSessionGUC :: "catalog \<Rightarrow> extraction \<Rightarrow> extraction res" where
  "backupSessionGUC c s = rbind (GetSessionGUCs c) (\<lambda>g. write_with (PrintSessionGUCs g) s)"

definition backupTablespaces :: "print_env \<Rightarrow> catalog \<Rightarrow> extraction \<Rightarrow> extraction res" where
  "backupTablespaces env c = backup_kind (GetTablespaces c) ''Tablespaces'' (GetMetadataForObjectType c ''TABLESPACE'')
     (PrintCreateTablespaceStatements env)"

definition backupCreateDatabase :: "print_env \<Rightarrow> catalog \<Rightarrow> extraction \<Rightarrow> extraction res" where
  "backupCreateDatabase env c s =
     rbind (GetDefaultDatabaseEncodingInfo c) (\<lambda>defaultDB.
     rbind (GetDatabaseInfo c) (\<lambda>db.
     rbind (GetMetadataForObjectType c ''DATABASE'') (\<lambda>m.
       write_with (PrintCreateDatabaseStatement env defaultDB db m) s)))"

definition backupDatabaseGUCs :: "catalog \<Rightarrow> string \<Rightarrow> extraction \<Rightarrow> extraction res" where
  "backupDatabaseGUCs c dbname = backup_kind (GetDatabaseGUCs c) ''Database GUCs'' (Inr []) (\<lambda>gucs m. PrintDatabaseGUCs gucs dbname)"

definition backupResourceQueues :: "print_env \<Rightarrow> catalog \<Rightarrow> extraction \<Rightarrow> extraction res" where
  "backupResourceQueues env c = backup_kind (GetResourceQueues c) ''Resource Queues'' (GetCommentsForObjectType c ''RESOURCE QUEUE'')
     (PrintCreateResourceQueueStatements env)"

definition backupResourceGroups :: "print_env \<Rightarrow> catalog \<Rightarrow> extraction \<Rightarrow> extraction res" where
  "backupResourceGroups env c = only_from env ''5'' (\<lambda>s.
     rbind (src_old env ''7'') (\<lambda>old.
       if old then
         backup_kind (GetResourceGroupsBefore7 c) ''Resource Groups'' (GetCommentsForObjectType c ''RESOURCE GROUP'')
           (\<lambda>gs m st. rbind (PrintResetResourceGroupStatements env st) (PrintCreateResourceGroupStatementsBefore7 env gs m)) s
       else
         backup_kind (GetResourceGroupsAtLeast7 c) ''Resource Groups'' (GetCommentsForObjectType c ''RESOURCE GROUP'')
           (\<lambda>gs m st. rbind (PrintResetResourceGroupStatements env st) (PrintCreateResourceGroupStatementsAtLeast7 env gs m)) s))"

definition backupRoles :: "print_env \<Rightarrow> catalog \<Rightarrow> extraction \<Rightarrow> extraction res" where
  "backupRoles env c = backup_kind (GetRoles c) ''Roles'' (GetMetadataForObjectType c ''ROLE'') (PrintCreateRoleStatements env)"

definition backupRoleGUCs :: "print_env \<Rightarrow> orders \<Rightarrow> catalog \<Rightarrow> extraction \<Rightarrow> extraction res" where
  "backupRoleGUCs env ord c s =
     rbind (GetRoleGUCs c) (\<lambda>gucs. write_with (PrintRoleGUCStatements env (role_order ord gucs) gucs) s)"

definition backupRoleGrants :: "catalog \<Rightarrow> extraction \<Rightarrow> extraction res" where
  "backupRoleGrants c s = rbind (GetRoleMembers c) (\<lambda>rs. write_with (PrintRoleMembershipStatements rs) s)"

definition backupSchemas :: "print_env \<Rightarrow> catalog \<Rightarrow> (string, bool) gomap \<Rightarrow> extraction \<Rightarrow> extraction res" where
  "backupSchemas env c altered = backup_kind (GetAllUserSchemas c altered) ''Schemas'' (GetMetadataForObjectType c ''SCHEMA'')
     (PrintCreateSchemaStatements env)"

definition print_lang_funcs :: "print_env \<Rightarrow> MetadataMap \<Rightarrow> Function list \<Rightarrow> metafile \<Rightarrow> metafile res" where
  "print_lang_funcs env m = for_each (\<lambda>f. PrintCreateFunctionStatement env f (metadata_for m (Function_GetUniqueID f)))"

definition backupProceduralLanguages :: "print_env \<Rightarrow> catalog \<Rightarrow> Function list \<Rightarrow> func_infos \<Rightarrow> MetadataMap \<Rightarrow> extraction \<Rightarrow> extraction res" where
  "backupProceduralLanguages env c functions infos functionMetadata s =
     rbind (GetProceduralLanguages c) (\<lambda>langs.
     rbind (write_with (print_lang_funcs env functionMetadata (fst (ExtractLanguageFunctions functions langs)))
       (set_count ''Procedural Languages'' (length langs) s)) (\<lambda>s.
     rbind (GetMetadataForObjectType c ''LANGUAGE'') (\<lambda>m.
       write_with (PrintCreateLanguageStatements env langs infos m) s)))"

definition backupShellTypes :: "ShellType list \<Rightarrow> BaseType list \<Rightarrow> RangeType list \<Rightarrow> extraction \<Rightarrow> extraction res" where
  "backupShellTypes shells bases ranges = write_with (PrintCreateShellTypeStatements shells bases ranges)"

definition backupEnumTypes :: "print_env \<Rightarrow> catalog \<Rightarrow> MetadataMap \<Rightarrow> extraction \<Rightarrow> extraction res" where
  "backupEnumTypes env c m s =
     rbind (GetEnumTypes c) (\<lambda>enums. write_with (PrintCreateEnumTypeStatements env enums m) (add_count ''Types'' (length enums) s))"

definition retrieveAndBackupTypes :: "print_env \<Rightarrow> catalog \<Rightarrow> extraction \<Rightarrow> extraction res" where
  "retrieveAndBackupTypes env c s =
     rbind (GetShellTypes c) (\<lambda>shells. rbind (GetBaseTypes c) (\<lambda>bases.
     rbind (GetCompositeTypes c) (\<lambda>composites. rbind (GetDomainTypes c) (\<lambda>domains.
     rbind (src_at_least env ''6'') (\<lambda>at6. rbind (if at6 then GetRangeTypes c else Inr []) (\<lambda>ranges.
     rbind (GetMetadataForObjectType c ''TYPE'') (\<lambda>m.
     rbind (backupShellTypes shells bases ranges s) (\<lambda>s.
     rbind (only_from env ''5'' (backupEnumTypes env c m) s) (\<lambda>s.
       let s = foldl (\<lambda>s n. add_count ''Types'' n s) s [length shells, length bases, length composites, length domains, length ranges]
       in Inr (add_metadata m (add_objects
            (convertToSortableSlice BaseTypeV bases @ convertToSortableSlice CompositeTypeV composites @
             convertToSortableSlice DomainV domains @ convertToSortableSlice RangeTypeV ranges) s)))))))))))"

definition retrieveAndBackupSequences :: "print_env \<Rightarrow> catalog \<Rightarrow> MetadataMap \<Rightarrow> extraction \<Rightarrow> (Sequence list \<times> extraction) res" where
  "retrieveAndBackupSequences env c relationMetadata s =
     rbind (GetAllSequences c) (\<lambda>seqs.
     rbind (write_with (PrintCreateSequenceStatements env seqs relationMetadata) (set_count ''Sequences'' (length seqs) s)) (\<lambda>s.
       Inr (seqs, s)))"

definition backupAccessMethods :: "print_env \<Rightarrow> catalog \<Rightarrow> extraction \<Rightarrow> extraction res" where
  "backupAccessMethods env c s =
     rbind (src_old env ''7'') (\<lambda>old.
       if old then Inr s
       else backup_kind (GetAccessMethods c) ''Access Methods'' (GetMetadataForObjectType c ''ACCESS METHOD'')
         (PrintAccessMethodStatements env) s)"

definition backupConversions :: "print_env \<Rightarrow> catalog \<Rightarrow> extraction \<Rightarrow> extraction res" where
  "backupConversions env c = backup_kind (GetConversions c) ''Conversions'' (GetMetadataForObjectType c ''CONVERSION'')
     (PrintCreateConversionStatements env)"

definition backupOperatorFamilies :: "print_env \<Rightarrow> catalog \<Rightarrow> extraction \<Rightarrow> extraction res" where
  "backupOperatorFamilies env c = only_from env ''5''
     (backup_kind (GetOperatorFamilies c) ''Operator Families'' (GetMetadataForObjectType c ''OPERATOR FAMILY'')
       (PrintCreateOperatorFamilyStatements env))"

definition backupCollations :: "print_env \<Rightarrow> catalog \<Rightarrow> extraction \<Rightarrow> extraction res" where
  "backupCollations env c = only_from env ''6''
     (backup_kind (GetCollations c) ''Collations'' (GetMetadataForObjectType c ''COLLATION'') (PrintCreateCollationStatements env))"

definition backupExtensions :: "print_env \<Rightarrow> catalog \<Rightarrow> extraction \<Rightarrow> extraction res" where
  "backupExtensions env c = only_from env ''5''
     (backup_kind (GetExtensions c) ''Extensions'' (GetCommentsForObjectType c ''EXTENSION'') (PrintCreateExtensionStatements env))"

definition backupIndexes :: "print_env \<Rightarrow> catalog \<Rightarrow> extraction \<Rightarrow> extraction res" where
  "backupIndexes env c s =
     rbind (GetIndexes c) (\<lambda>xs.
     rbind (if xs \<noteq> [] then src_is env ''6'' else Inr False) (\<lambda>at6.
     rbind (if at6 then RenameExchangedPartitionIndexes c xs else Inr xs) (\<lambda>ys.
     rbind (if xs \<noteq> [] then src_old env ''7'' else Inr False) (\<lambda>old7.
     rbind (if old7 then dest_at_least env ''7'' else Inr False) (\<lambda>to7.
     rbind (if to7 then EnsurePartitionKeysInUniqueIndexDefs c ys else Inr ys) (\<lambda>zs.
     rbind (GetCommentsForObjectType c ''INDEX'') (\<lambda>m.
       write_with (PrintCreateIndexStatements env zs m) (set_count ''Indexes'' (length xs) s))))))))"

definition backupRules :: "print_env \<Rightarrow> catalog \<Rightarrow> extraction \<Rightarrow> extraction res" where
  "backupRules env c = backup_kind (GetRules c) ''Rules'' (GetCommentsForObjectType c ''RULE'') (PrintCreateRuleStatements env)"

definition backupTriggers :: "print_env \<Rightarrow> catalog \<Rightarrow> extraction \<Rightarrow> extraction res" where
  "backupTriggers env c = backup_kind (GetTriggers c) ''Triggers'' (GetCommentsForObjectType c ''TRIGGER'') (PrintCreateTriggerStatements env)"

definition backupEventTriggers :: "print_env \<Rightarrow> catalog \<Rightarrow> extraction \<Rightarrow> extraction res" where
  "backupEventTriggers env c = backup_kind (GetEventTriggers c) ''Event Triggers'' (GetMetadataForObjectType c ''EVENT TRIGGER'')
     (PrintCreateEventTriggerStatements env)"

definition backupDefaultPrivileges :: "print_env \<Rightarrow> catalog \<Rightarrow> extraction \<Rightarrow> extraction res" where
  "backupDefaultPrivileges env c = backup_kind (GetDefaultPrivileges c) ''DEFAULT PRIVILEGES'' (Inr [])
     (\<lambda>ps m. PrintDefaultPrivilegesStatements (role_map env) ps)"

definition backupRowLevelSecurityPolicies :: "print_env \<Rightarrow> catalog \<Rightarrow> extraction \<Rightarrow> extraction res" where
  "backupRowLevelSecurityPolicies env c = backup_kind (GetPolicies c) ''Policies'' (GetCommentsForObjectType c ''RULE'')
     (PrintCreatePolicyStatements env)"

definition backupExtendedStatistic :: "print_env \<Rightarrow> catalog \<Rightarrow> extraction \<Rightarrow> extraction res" where
  "backupExtendedStatistic env c = backup_kind (GetExtendedStatistics c) ''STATISTICS EXT'' (GetMetadataForObjectType c ''STATISTIC_EXT'')
     (PrintCreateExtendedStatistics env)"

section \<open>Dependent objects\<close>

definition dep_table_of :: "PrintRelations.Table \<Rightarrow> dep_table" where
  "dep_table_of t = \<lparr>dt_Oid = r_Oid t, dt_Location = ed_Location (tb_ExtTableDef t)\<rparr>"

definition ext_protocol_of :: "ExternalProtocol \<Rightarrow> ext_protocol" where
  "ext_protocol_of p = \<lparr>ep_Oid = xp_Oid p, ep_Name = xp_Name p\<rparr>"

text \<open>The dependencies between the collected objects; with GPDB 4 also those on external protocols.\<close>

definition relevant_dependencies :: "print_env \<Rightarrow> orders \<Rightarrow> catalog \<Rightarrow> PrintRelations.Table list \<Rightarrow> ExternalProtocol list \<Rightarrow> bool \<Rightarrow>
    SortableObject list \<Rightarrow> DependencyMap res" where
  "relevant_dependencies env ord c tables protocols tableOnly objs =
     rbind (src_at_least env ''7'') (\<lambda>at7.
     rbind (GetDependencies (dep_order ord) (dep_entries ord) at7 tables (pg_depend_rows c) (synthetic_rows c) (createBackupSet objs)) (\<lambda>deps.
     rbind (src_is env ''4'') (\<lambda>at4.
       if at4 \<and> \<not> tableOnly
       then AddProtocolDependenciesForGPDB4 deps (map dep_table_of tables) (map ext_protocol_of protocols)
       else Inr deps)))"

definition backupDependentObjects :: "print_env \<Rightarrow> orders \<Rightarrow> catalog \<Rightarrow> PrintRelations.Table list \<Rightarrow> ExternalProtocol list \<Rightarrow>
    Constraint list \<Rightarrow> Sequence list \<Rightarrow> func_infos \<Rightarrow> bool \<Rightarrow> extraction \<Rightarrow> extraction res" where
  "backupDependentObjects env ord c tables protocols domainConstraints sequences infos tableOnly s =
     rbind (relevant_dependencies env ord c tables protocols tableOnly (x_objects s)) (\<lambda>deps.
     rbind (TopologicalSort (dep_order ord deps) (x_objects s) deps) (\<lambda>sorted.
     rbind (write_with (PrintDependentObjectStatements env (metadata_order ord) sorted (x_metadata s) domainConstraints infos) s) (\<lambda>s.
     rbind (write_with (PrintIdentityColumns env sequences) s) (\<lambda>s.
     rbind (write_with (PrintAlterSequenceStatements sequences) s) (\<lambda>s.
     rbind (GetExternalPartitionInfo c) (\<lambda>(extParts, infoMap).
     rbind (src_old env ''7'') (\<lambda>old7.
       if old7 \<and> extParts \<noteq> [] then write_with (PrintExchangeExternalPartitionStatements extParts infoMap tables) s
       else Inr s)))))))"

section \<open>The whole file\<close>

definition backupGlobals :: "print_env \<Rightarrow> orders \<Rightarrow> catalog \<Rightarrow> string \<Rightarrow> extraction \<Rightarrow> extraction res" where
  "backupGlobals env ord c dbname = in_turn
     ([backupResourceQueues env c, backupResourceGroups env c, backupRoles env c, backupRoleGrants c] @
      (if ShouldReplaceTablespace (dest_tablespaces env) then [] else [backupTablespaces env c]) @
      [backupDatabaseGUCs c dbname, backupRoleGUCs env ord c])"

text \<open>The objects that exist only when whole schemas are copied.\<close>

definition backup_database_objects :: "print_env \<Rightarrow> catalog \<Rightarrow> string list \<Rightarrow> PrintRelations.Table list \<Rightarrow> Function list \<Rightarrow> func_infos \<Rightarrow>
    extraction \<Rightarrow> extraction res" where
  "backup_database_objects env c inSchemas tables functions infos = in_turn
     ([backupSchemas env c (createAlteredPartitionSchemaSet tables), backupExtensions env c, backupCollations env c, retrieveAndBackupTypes env c] @
      (if inSchemas = [] then
         [\<lambda>s. backupProceduralLanguages env c functions infos (x_metadata s) s, retrieveTransforms env c, retrieveFDWObjects env c] else []) @
      [retrieveTSObjects env c, backupOperatorFamilies env c, retrieveOperatorObjects c, retrieveAggregates c, retrieveCasts c,
       backupAccessMethods env c])"

definition collect_predata :: "print_env \<Rightarrow> catalog \<Rightarrow> string list \<Rightarrow> PrintRelations.Table list \<Rightarrow> bool \<Rightarrow> extraction \<Rightarrow>
    (ExternalProtocol list \<times> Constraint list \<times> Sequence list \<times> func_infos \<times> extraction) res" where
  "collect_predata env c inSchemas tables tableOnly s =
     rbind (if tableOnly then Inr ([], [], s) else retrieveFunctions c s) (\<lambda>(functions, infos, s).
     let s = add_objects (convertToSortableSlice TableV tables) s in
     rbind (GetMetadataForObjectType c ''RELATION'') (\<lambda>relationMetadata.
     let s = add_metadata relationMetadata s in
     rbind (if tableOnly then Inr ([], s) else
              rbind (retrieveProtocols c s) (\<lambda>(ps, s). rbind (backup_database_objects env c inSchemas tables functions infos s) (\<lambda>s. Inr (ps, s)))) (\<lambda>(protocols, s).
     rbind (retrieveViews c s) (\<lambda>s.
     rbind (retrieveAndBackupSequences env c relationMetadata s) (\<lambda>(sequences, s).
     rbind (retrieveConstraints env c s) (\<lambda>(domainConstraints, s).
       Inr (protocols, domainConstraints, sequences, infos, s)))))))"

definition backupPredata :: "print_env \<Rightarrow> orders \<Rightarrow> catalog \<Rightarrow> string list \<Rightarrow> PrintRelations.Table list \<Rightarrow> bool \<Rightarrow> extraction \<Rightarrow> extraction res" where
  "backupPredata env ord c inSchemas tables tableOnly s =
     rbind (collect_predata env c inSchemas tables tableOnly (s\<lparr>x_objects := [], x_metadata := []\<rparr>))
       (\<lambda>(protocols, domainConstraints, sequences, infos, s).
     rbind (backupDependentObjects env ord c tables protocols domainConstraints sequences infos tableOnly s) (backupConversions env c))"

definition backupPostdata :: "print_env \<Rightarrow> catalog \<Rightarrow> string list \<Rightarrow> bool \<Rightarrow> extraction \<Rightarrow> extraction res" where
  "backupPostdata env c inSchemas tableOnly s =
     rbind (dest_hdw3 env) (\<lambda>hdw3.
     rbind (if hdw3 then Inr s else backupIndexes env c s) (\<lambda>s.
     rbind (backupRules env c s) (\<lambda>s.
     rbind (backupTriggers env c s) (\<lambda>s.
       if tableOnly then Inr s
       else rbind (only_from env ''6'' (in_turn (backupDefaultPrivileges env c # (if inSchemas = [] then [backupEventTriggers env c] else []))) s)
         (only_from env ''7'' (in_turn [backupRowLevelSecurityPolicies env c, backupExtendedStatistic env c]))))))"

definition extractDDL :: "print_env \<Rightarrow> orders \<Rightarrow> catalog \<Rightarrow> skip_env \<Rightarrow> string \<Rightarrow> bool \<Rightarrow> string list \<Rightarrow> string list \<Rightarrow> bool \<Rightarrow>
    extraction \<Rightarrow> extraction res" where
  "extractDDL env ord c senv dbname withGlobal inSchemas inTables tableOnly s =
     rbind (RetrieveAndProcessTables env c senv inTables s) (\<lambda>(metadataTables, dataTables, skipped, s).
     rbind (backupSessionGUC c s) (\<lambda>s.
     rbind (if inTables = [] \<or> withGlobal then backupGlobals env ord c dbname s else Inr s) (\<lambda>s.
     rbind (backupPredata env ord c inSchemas metadataTables (inTables \<noteq> []) s)
       (backupPostdata env c inSchemas tableOnly))))"

section \<open>What the extraction writes\<close>

definition writes :: "(extraction \<Rightarrow> extraction res) \<Rightarrow> (printed list \<Rightarrow> bool) \<Rightarrow> bool" where
  "writes f P \<longleftrightarrow> (\<forall>s s'. f s = Inr s' \<longrightarrow> (\<exists>xs. P xs \<and> print_all xs (x_out s) = Inr (x_out s')))"

lemma writesD: "writes f P \<Longrightarrow> f s = Inr s' \<Longrightarrow> \<exists>xs. P xs \<and> print_all xs (x_out s) = Inr (x_out s')"
  by (simp add: writes_def)

named_theorems writing \<open>what the steps of the extraction write\<close>

lemma writes_none: "(\<And>s s'. f s = Inr s' \<Longrightarrow> x_out s' = x_out s) \<Longrightarrow> P [] \<Longrightarrow> writes f P"
  unfolding writes_def by (metis print_all.simps(1))

lemma print_all_trans: "print_all xs a = Inr b \<Longrightarrow> print_all ys b = Inr d \<Longrightarrow> print_all (xs @ ys) a = Inr d"
  by (simp add: print_all_append)

lemma writes_skip [simp]: "writes Inr (list_all Q)"
  by (rule writes_none) simp_all

lemma writes_with: "prints p P \<Longrightarrow> (\<And>s. x_out (g s) = x_out s) \<Longrightarrow> writes (\<lambda>s. write_with p (g s)) P"
  unfolding writes_def prints_def write_with_def rbind_Inr_iff by (metis extraction.select_convs(1) extraction.surjective extraction.update_convs(1) sum.inject(2))

lemma writes_compute: "(\<And>a. m = Inr a \<Longrightarrow> writes (f a) P) \<Longrightarrow> writes (\<lambda>s. rbind m (\<lambda>a. f a s)) P"
  by (cases m) (auto simp: writes_def)

lemma writes_then:
  assumes "writes f (list_all Q)" and "writes g (list_all Q)"
  shows "writes (\<lambda>s. rbind (f s) g) (list_all Q)"
  unfolding writes_def
proof (intro allI impI)
  fix s s' assume "rbind (f s) g = Inr s'"
  then obtain s1 where "f s = Inr s1" "g s1 = Inr s'" by (auto simp: rbind_Inr_iff)
  with assms obtain xs ys where "list_all Q xs" "print_all xs (x_out s) = Inr (x_out s1)"
    "list_all Q ys" "print_all ys (x_out s1) = Inr (x_out s')" unfolding writes_def by meson
  then show "\<exists>zs. list_all Q zs \<and> print_all zs (x_out s) = Inr (x_out s')"
    by (auto simp: print_all_append intro!: exI[of _ "xs @ ys"])
qed

lemma count_out [simp]: "x_out (set_count k n s) = x_out s" "x_out (add_count k n s) = x_out s"
    "x_objects (set_count k n s) = x_objects s" "x_objects (add_count k n s) = x_objects s"
  by (simp_all add: set_count_def add_count_def)

lemma add_out [simp]: "x_out (add_objects xs s) = x_out s" "x_out (add_metadata m s) = x_out s"
    "x_objects (add_objects xs s) = x_objects s @ xs" "x_objects (add_metadata m s) = x_objects s"
  by (simp_all add: add_objects_def add_metadata_def)

lemma foldl_count_out [simp]: "x_out (foldl (\<lambda>s n. add_count k n s) s ns) = x_out s"
  by (induction ns arbitrary: s) simp_all

lemma writes_in_turn: "(\<And>f. f \<in> set fs \<Longrightarrow> writes f (list_all Q)) \<Longrightarrow> writes (in_turn fs) (list_all Q)"
proof (induction fs)
  case (Cons f fs)
  then have "writes f (list_all Q)" "writes (in_turn fs) (list_all Q)" by simp_all
  moreover have "in_turn (f # fs) = (\<lambda>s. rbind (f s) (in_turn fs))" by (rule ext) simp
  ultimately show ?case by (simp add: writes_then)
qed (rule writes_none, simp_all)

lemma writes_only_from: "writes f (list_all Q) \<Longrightarrow> writes (only_from env target f) (list_all Q)"
  unfolding only_from_def[abs_def]
proof (rule writes_compute)
  fix b assume "writes f (list_all Q)"
  then show "writes (\<lambda>s. if b then f s else Inr s) (list_all Q)" by (cases b) simp_all
qed

lemma writes_backup_kind: "(\<And>xs m. prints (p xs m) P) \<Longrightarrow> writes (backup_kind rows name md p) P"
  unfolding backup_kind_def[abs_def] by (intro writes_compute writes_with) auto

lemma writes_retrieve_kind: "P [] \<Longrightarrow> writes (retrieve_kind f rows name md) P"
  unfolding retrieve_kind_def[abs_def] by (intro writes_compute writes_none) auto

section \<open>Sections\<close>

text \<open>The object a sorted value is recorded as.\<close>

fun value_object :: "print_env \<Rightarrow> object_value \<Rightarrow> toc_object" where
  "value_object env (BaseTypeV x) = BaseType_object x"
| "value_object env (CompositeTypeV x) = CompositeType_object x"
| "value_object env (DomainV x) = Domain_object x"
| "value_object env (RangeTypeV x) = RangeType_object x"
| "value_object env (FunctionV x) = Function_object x"
| "value_object env (TableV x) = projr (Table_object env x)"
| "value_object env (ExternalProtocolV x) = ExternalProtocol_object x"
| "value_object env (ViewV x) = View_object x"
| "value_object env (TextSearchParserV x) = TextSearchParser_object x"
| "value_object env (TextSearchConfigurationV x) = TextSearchConfiguration_object x"
| "value_object env (TextSearchTemplateV x) = TextSearchTemplate_object x"
| "value_object env (TextSearchDictionaryV x) = TextSearchDictionary_object x"
| "value_object env (OperatorV x) = Operator_object x"
| "value_object env (OperatorClassV x) = OperatorClass_object x"
| "value_object env (AggregateV x) = Aggregate_object x"
| "value_object env (CastV x) = Cast_object x"
| "value_object env (ForeignDataWrapperV x) = ForeignDataWrapper_object x"
| "value_object env (ForeignServerV x) = ForeignServer_object x"
| "value_object env (UserMappingV x) = UserMapping_object x"
| "value_object env (ConstraintV x) = Constraint_object x"
| "value_object env (TransformV x) = Transform_object x"

lemmas owns = prints_weaken[OF _ creates_own]

text \<open>
  The block an object is printed as: statements about the object, the first of which is its
  definition. A constraint that is not valid yet is postdata, a protocol without functions of its own
  is not printed, and a transform is printed through a format string and may come out empty.
\<close>

fun in_predata :: "object_value \<Rightarrow> bool" where
  "in_predata (TransformV t) = False"
| "in_predata (ExternalProtocolV p) = False"
| "in_predata (ConstraintV c) = (fst (Constraint_GetMetadataEntry c) = ''predata'')"
| "in_predata _ = True"

definition value_block :: "print_env \<Rightarrow> object_value \<Rightarrow> printed list \<Rightarrow> bool" where
  "value_block env v b \<longleftrightarrow> (let obj = value_object env v in
     list_all (own obj) b \<and> (in_predata v \<longrightarrow> obj_section obj = ''predata'' \<and> creates obj b))"

lemmas value_sections = BaseType_object_def CompositeType_object_def Domain_object_def RangeType_object_def Function_object_def
  ExternalProtocol_object_def View_object_def TextSearchParser_object_def TextSearchConfiguration_object_def TextSearchTemplate_object_def
  TextSearchDictionary_object_def Operator_object_def OperatorClass_object_def Aggregate_object_def Cast_object_def
  ForeignDataWrapper_object_def ForeignServer_object_def UserMapping_object_def Constraint_object_def Transform_object_def
  BaseType_GetMetadataEntry_def CompositeType_GetMetadataEntry_def Domain_GetMetadataEntry_def RangeType_GetMetadataEntry_def
  Function_GetMetadataEntry_def ExternalProtocol_GetMetadataEntry_def View_GetMetadataEntry_def TextSearchParser_GetMetadataEntry_def
  TextSearchConfiguration_GetMetadataEntry_def TextSearchTemplate_GetMetadataEntry_def TextSearchDictionary_GetMetadataEntry_def
  Operator_GetMetadataEntry_def OperatorClass_GetMetadataEntry_def Aggregate_GetMetadataEntry_def Cast_GetMetadataEntry_def
  ForeignDataWrapper_GetMetadataEntry_def ForeignServer_GetMetadataEntry_def UserMapping_GetMetadataEntry_def
  Constraint_GetMetadataEntry_def Transform_GetMetadataEntry_def GetTypeMetadataEntry_def

lemma value_section: "in_predata v \<Longrightarrow> (\<forall>t. v \<noteq> TableV t) \<Longrightarrow> obj_section (value_object env v) = ''predata''"
  by (cases v) (simp_all add: value_sections)

lemma value_blockI:
  "prints p (creates (value_object env v)) \<Longrightarrow> (in_predata v \<Longrightarrow> obj_section (value_object env v) = ''predata'') \<Longrightarrow> prints p (value_block env v)"
  by (erule prints_weaken) (simp add: value_block_def creates_own)

lemma prints_value: "prints (print_value env infos cons v md) (value_block env v)"
proof (cases "(\<exists>t. v = TransformV t) \<or> (\<exists>p. v = ExternalProtocolV p) \<or> (\<exists>r. v = TableV r)")
  case False
  then have "prints (print_value env infos cons v md) (creates (value_object env v))"
    by (cases v) (auto intro: printing)
  then show ?thesis by (rule value_blockI) (use False in \<open>auto intro: value_section\<close>)
next
  case True
  then consider (trf) t where "v = TransformV t" | (ptc) p where "v = ExternalProtocolV p" | (tab) t where "v = TableV t" by blast
  then show ?thesis
  proof cases
    case trf
    then show ?thesis using prints_weaken[OF prints_transform[of env infos t md], of "value_block env v"]
      by (simp add: value_block_def)
  next
    case ptc
    then show ?thesis using prints_weaken[OF prints_protocol[of env infos p md], of "value_block env v"]
      by (simp add: value_block_def)
  next
    case tab
    show ?thesis
    proof (cases "Table_object env t")
      case (Inl e)
      then show ?thesis by (simp add: tab prints_def PrintCreateTableStatement_def)
    next
      case (Inr obj)
      then have "obj_section obj = ''predata''" by (auto simp: Table_object_def Table_GetMetadataEntry_def rbind_Inr_iff)
      with Inr prints_table[OF Inr] show ?thesis unfolding tab by (intro value_blockI) simp_all
    qed
  qed
qed

abbreviation sectioned :: "string \<Rightarrow> printed list \<Rightarrow> bool" where
  "sectioned s \<equiv> list_all (in_section s)"

lemmas objects_predata = Function_object_def Function_GetMetadataEntry_def Extension_object_def Extension_GetMetadataEntry_def
  ProceduralLanguage_object_def ProceduralLanguage_GetMetadataEntry_def Conversion_object_def Conversion_GetMetadataEntry_def
  EnumType_object_def EnumType_GetMetadataEntry_def GetTypeMetadataEntry_def Collation_object_def Collation_GetMetadataEntry_def Schema_object_def
  Schema_GetMetadataEntry_def AccessMethod_object_def AccessMethod_GetMetadataEntry_def OperatorFamily_object_def
  OperatorFamily_GetMetadataEntry_def Sequence_object_def Sequence_GetMetadataEntry_def owner_object_def
  exchange_object_def PartitionInfo_GetMetadataEntry_def

lemma writes_schemas [writing]: "writes (backupSchemas env c altered) (sectioned ''predata'')"
  unfolding backupSchemas_def PrintCreateSchemaStatements_def
  by (intro writes_backup_kind schema_printer.loop_section) (simp add: objects_predata)

lemma writes_extensions [writing]: "writes (backupExtensions env c) (sectioned ''predata'')"
  unfolding backupExtensions_def PrintCreateExtensionStatements_def
  by (intro writes_only_from writes_backup_kind extension_printer.loop_section) (simp add: objects_predata)

lemma writes_collations [writing]: "writes (backupCollations env c) (sectioned ''predata'')"
  unfolding backupCollations_def PrintCreateCollationStatements_def
  by (intro writes_only_from writes_backup_kind collation_printer.loop_section) (simp add: objects_predata)

lemma writes_families [writing]: "writes (backupOperatorFamilies env c) (sectioned ''predata'')"
  unfolding backupOperatorFamilies_def PrintCreateOperatorFamilyStatements_def
  by (intro writes_only_from writes_backup_kind family_printer.loop_section) (simp add: objects_predata)

lemma writes_conversions [writing]: "writes (backupConversions env c) (sectioned ''predata'')"
  unfolding backupConversions_def PrintCreateConversionStatements_def
  by (intro writes_backup_kind conversion_printer.loop_section) (simp add: objects_predata)

lemma writes_unless: "writes f (list_all Q) \<Longrightarrow> writes (\<lambda>s. if b then Inr s else f s) (list_all Q)"
  by (cases b) simp_all

lemma writes_access_methods [writing]: "writes (backupAccessMethods env c) (sectioned ''predata'')"
  unfolding backupAccessMethods_def[abs_def] PrintAccessMethodStatements_def
  by (intro writes_compute writes_unless writes_backup_kind access_method_printer.loop_section) (simp add: objects_predata)

lemma writes_enums [writing]: "writes (backupEnumTypes env c m) (sectioned ''predata'')"
  unfolding backupEnumTypes_def[abs_def] PrintCreateEnumTypeStatements_def
  by (intro writes_compute writes_with enum_printer.loop_section) (simp_all add: objects_predata)

lemma shell_sections: "obj \<in> set (map ShellType_object shells @ map BaseType_object bases @ map RangeType_object ranges) \<Longrightarrow>
    obj_section obj = ''predata''"
  by (auto simp: ShellType_object_def ShellType_GetMetadataEntry_def BaseType_object_def BaseType_GetMetadataEntry_def
      RangeType_object_def RangeType_GetMetadataEntry_def GetTypeMetadataEntry_def)

lemma prints_loop_sections:
  assumes "\<And>a. a \<in> set as \<Longrightarrow> prints (p a) (list_all (own (obj a)))" and "\<And>a. a \<in> set as \<Longrightarrow> obj_section (obj a) = sec"
  shows "prints (for_each p as) (sectioned sec)"
  by (rule prints_each) (rule prints_weaken[OF assms(1)], assumption, erule own_section, rule assms(2))

lemma writes_shells [writing]: "writes (backupShellTypes shells bases ranges) (sectioned ''predata'')"
proof -
  have loop: "prints (for_each print_shell (map ShellType_object shells @ map BaseType_object bases @ map RangeType_object ranges)) (sectioned ''predata'')"
    by (rule prints_loop_sections[where obj = id], rule shell_printer.prints_own) (simp only: id_apply shell_sections)
  have "prints (PrintCreateShellTypeStatements shells bases ranges) (sectioned ''predata'')"
    unfolding PrintCreateShellTypeStatements_def[abs_def]
    by (rule prints_then[OF prints_loose[where P = "sectioned ''predata''"] loop]) simp_all
  from writes_with[OF this, of id] show ?thesis by (simp add: backupShellTypes_def)
qed


lemma writes_types [writing]: "writes (retrieveAndBackupTypes env c) (sectioned ''predata'')"
proof -
  have last: "writes (\<lambda>s. Inr (add_metadata m (add_objects os (foldl (\<lambda>s n. add_count k n s) s ns)))) (list_all Q)" for m os k ns and Q :: "printed \<Rightarrow> bool"
    by (rule writes_none) auto
  show ?thesis
    unfolding retrieveAndBackupTypes_def[abs_def] Let_def
    by (intro writes_compute writes_then writes_only_from writing last)
qed

lemma writes_languages [writing]: "writes (backupProceduralLanguages env c fs infos m) (sectioned ''predata'')"
  unfolding backupProceduralLanguages_def[abs_def] print_lang_funcs_def PrintCreateLanguageStatements_def
  by (intro writes_compute writes_then writes_with function_printer.loop_section language_printer.loop_section writes_with[where g = "\<lambda>s. s"])
    (simp_all add: objects_predata)

lemma writes_retrievals [writing]:
  "writes (retrieveTransforms env c) (list_all Q)" "writes (retrieveViews c) (list_all Q)" "writes (retrieveTSObjects env c) (list_all Q)"
  "writes (retrieveOperatorObjects c) (list_all Q)" "writes (retrieveAggregates c) (list_all Q)" "writes (retrieveCasts c) (list_all Q)"
  "writes (retrieveFDWObjects env c) (list_all Q)"
proof -
  have kind: "writes (retrieve_kind f rows name md) (list_all Q)" for f :: "'x \<Rightarrow> object_value" and rows name md
    by (rule writes_retrieve_kind) simp
  show "writes (retrieveTransforms env c) (list_all Q)"
    unfolding retrieveTransforms_def[abs_def] by (intro writes_compute writes_unless kind)
  show "writes (retrieveViews c) (list_all Q)" "writes (retrieveAggregates c) (list_all Q)" "writes (retrieveCasts c) (list_all Q)"
    unfolding retrieveViews_def retrieveAggregates_def retrieveCasts_def by (rule kind)+
  show "writes (retrieveTSObjects env c) (list_all Q)"
    unfolding retrieveTSObjects_def retrieveTSParsers_def retrieveTSConfigurations_def retrieveTSTemplates_def retrieveTSDictionaries_def
    by (intro writes_only_from writes_in_turn) (auto intro: kind)
  show "writes (retrieveOperatorObjects c) (list_all Q)"
    unfolding retrieveOperatorObjects_def retrieveOperators_def retrieveOperatorClasses_def
    by (intro writes_in_turn) (auto intro: kind)
  show "writes (retrieveFDWObjects env c) (list_all Q)"
    unfolding retrieveFDWObjects_def retrieveForeignDataWrappers_def retrieveForeignServers_def retrieveUserMappings_def
    by (intro writes_only_from writes_in_turn) (auto intro: kind)
qed

lemma writes_database_objects: "writes (backup_database_objects env c inSchemas tables fs infos) (sectioned ''predata'')"
proof -
  have lang: "writes (\<lambda>s. backupProceduralLanguages env c fs infos (x_metadata s) s) (sectioned ''predata'')"
    using writes_languages unfolding writes_def by blast
  show ?thesis
    unfolding backup_database_objects_def by (intro writes_in_turn) (auto intro: writing lang split: if_splits)
qed

lemma collect_writes:
  assumes "collect_predata env c inSchemas tables tableOnly s = Inr (protocols, cons, seqs, infos, s')"
  shows "\<exists>xs. sectioned ''predata'' xs \<and> print_all xs (x_out s) = Inr (x_out s')"
proof -
  let ?ok = "\<lambda>s s'. \<exists>xs. sectioned ''predata'' xs \<and> print_all xs (x_out s) = Inr (x_out s')"
  have step: "f s1 = Inr s2 \<Longrightarrow> ?ok s1 s2" if "writes f (sectioned ''predata'')" for f s1 s2
    using that by (auto simp: writes_def)
  have trans: "?ok s1 s2 \<Longrightarrow> ?ok s2 s3 \<Longrightarrow> ?ok s1 s3" for s1 s2 s3
    by (metis list_all_append print_all_append rbind_simps(2))
  have same: "x_out s1 = x_out s2 \<Longrightarrow> ?ok s1 s2" for s1 s2 by (intro exI[of _ "[]"]) simp
  obtain fs s1 md ps s2 s3 s4 where
    f: "(if tableOnly then Inr ([], [], s) else retrieveFunctions c s) = Inr (fs, infos, s1)"
    and p: "(if tableOnly then Inr ([], add_metadata md (add_objects (convertToSortableSlice TableV tables) s1)) else
        rbind (retrieveProtocols c (add_metadata md (add_objects (convertToSortableSlice TableV tables) s1))) (\<lambda>(ps, s).
          rbind (backup_database_objects env c inSchemas tables fs infos s) (\<lambda>s. Inr (ps, s)))) = Inr (protocols, s2)"
    and v: "retrieveViews c s2 = Inr s3" and q: "retrieveAndBackupSequences env c md s3 = Inr (seqs, s4)"
    and k: "retrieveConstraints env c s4 = Inr (cons, s')"
    using assms unfolding collect_predata_def Let_def by (auto simp: rbind_Inr_iff split: prod.splits)
  have 1: "x_out s1 = x_out s"
    using f by (auto simp: retrieveFunctions_def rbind_Inr_iff split: if_splits)
  have 2: "?ok s1 s2"
  proof (cases tableOnly)
    case True
    with p show ?thesis by (auto intro: same)
  next
    case False
    with p obtain s5 where r: "retrieveProtocols c (add_metadata md (add_objects (convertToSortableSlice TableV tables) s1)) = Inr (protocols, s5)"
      and b: "backup_database_objects env c inSchemas tables fs infos s5 = Inr s2" by (auto simp: rbind_Inr_iff)
    from r have "x_out s1 = x_out s5" by (auto simp: retrieveProtocols_def retrieve_kind_def rbind_Inr_iff)
    from trans[OF same[OF this] step[OF writes_database_objects b]] show ?thesis .
  qed
  have 3: "?ok s2 s3" by (rule step[OF writes_retrievals(2) v])
  have 4: "?ok s3 s4"
  proof -
    have "prints (PrintCreateSequenceStatements env seqs md) (sectioned ''predata'')"
      unfolding PrintCreateSequenceStatements_def by (rule sequence_printer.loop_section) (simp add: objects_predata)
    from writes_with[OF this, of "set_count ''Sequences'' (length seqs)"] q show ?thesis
      by (auto simp: retrieveAndBackupSequences_def rbind_Inr_iff writes_def)
  qed
  have 5: "x_out s' = x_out s4"
    using k by (auto simp: retrieveConstraints_def retrieve_kind_def rbind_Inr_iff)
  from trans[OF same[OF 1[symmetric]] trans[OF 2 trans[OF 3 trans[OF 4 same[OF 5[symmetric]]]]]] show ?thesis .
qed


section \<open>The dependent objects in the file\<close>

definition value_blocks :: "print_env \<Rightarrow> SortableObject list \<Rightarrow> printed list list \<Rightarrow> bool" where
  "value_blocks env = list_all2 (\<lambda>x. value_block env (dynamic x))"

lemma prints_dependents:
  "prints (print_dependents env infos cons xs m) (\<lambda>ps. \<exists>bs. ps = concat bs \<and> value_blocks env xs bs)"
proof (induction xs arbitrary: m)
  case Nil
  have "print_dependents env infos cons [] m = Inr" by (rule ext) simp
  then show ?case by (auto simp: value_blocks_def intro!: prints_none)
next
  case (Cons x xs)
  have "print_dependents env infos cons (x # xs) m = (\<lambda>st. rbind (print_value env infos cons (dynamic x) (metadata_for m (GetUniqueID x)) st)
      (print_dependents env infos cons xs (go_delete (GetUniqueID x) m)))" by (rule ext) simp
  moreover have "\<exists>bs. ps @ qs = concat bs \<and> value_blocks env (x # xs) bs"
    if "value_block env (dynamic x) ps" "\<exists>bs. qs = concat bs \<and> value_blocks env xs bs" for ps qs
    using that unfolding value_blocks_def by (metis concat.simps(2) list_all2_Cons)
  ultimately show ?case using prints_then[OF prints_value Cons.IH] by (simp only:)
qed

lemma prints_extension_acls:
  assumes "\<And>o1 m. (o1, m) \<in> set os \<Longrightarrow> obj_section o1 = sec"
  shows "prints (extension_acls owners os ss) (sectioned sec)"
  using assms
proof (induction os arbitrary: ss)
  case Nil
  have "extension_acls owners [] ss = Inr" by (rule ext) simp
  then show ?case by (simp add: prints_none)
next
  case (Cons p os)
  obtain obj m where p: "p = (obj, m)" by force
  let ?priv = "GetPrivilegesStatements owners m (obj_FQN obj) ''FUNCTION'' []"
  have IH: "prints (extension_acls owners os ss') (sectioned sec)" for ss' using Cons by auto
  have "obj_section obj = sec" using Cons.prems p by auto
  then have "prints (PrintStatements (obj_section obj) (obj_entry obj) ts) (sectioned sec)" for ts
    using prints_weaken[OF prints_statements] own_section by blast
  from prints_then[OF this IH, where R = "sectioned sec"]
  have "prints (\<lambda>st. rbind (PrintStatements (obj_section obj) (obj_entry obj) ts st) (extension_acls owners os ss')) (sectioned sec)" for ts ss'
    by simp
  moreover have "extension_acls owners (p # os) ss = (if ?priv \<noteq> [] then
      (\<lambda>st. rbind (PrintStatements (obj_section obj) (obj_entry obj) (ss @ [TrimSpace ?priv]) st) (extension_acls owners os (ss @ [TrimSpace ?priv])))
      else extension_acls owners os ss)" by (rule ext) (simp add: p Let_def)
  ultimately show ?case using IH by simp
qed

lemma prints_function_acls:
  "prints (printExtensionFunctionACLs owners order md (map (\<lambda>(oid, i). (oid, FunctionInfo_object i)) infos)) (sectioned ''predata'')"
  unfolding printExtensionFunctionACLs_def[abs_def] Let_def
proof (rule prints_extension_acls)
  fix o1 m
  let ?infos = "map (\<lambda>(oid, i). (oid, FunctionInfo_object i)) infos"
  assume "(o1, m) \<in> set (sort_key (\<lambda>(o1, m). obj_FQN o1) (List.map_filter
      (\<lambda>k. map_option (\<lambda>info. (info, the (go_get md k))) (go_get ?infos (Oid k))) order))"
  then obtain k where "go_get ?infos k = Some o1" by (auto simp: map_filter_def)
  from map_of_SomeD[OF this] obtain i where "o1 = FunctionInfo_object i" by auto
  then show "obj_section o1 = ''predata''" by (simp add: FunctionInfo_object_def FunctionInfo_GetMetadataEntry_def)
qed

lemma prints_dependent_statements:
  "prints (PrintDependentObjectStatements env order xs m cons infos)
     (\<lambda>ps. \<exists>bs rest. ps = concat bs @ rest \<and> value_blocks env xs bs \<and> sectioned ''predata'' rest)"
  unfolding PrintDependentObjectStatements_def[abs_def]
  by (rule prints_then[OF prints_dependents prints_function_acls]) auto

lemma writes_after_dependents:
  "writes (write_with (PrintIdentityColumns env seqs)) (sectioned ''predata'')"
  "writes (write_with (PrintAlterSequenceStatements seqs)) (sectioned ''predata'')"
  "writes (write_with (PrintExchangeExternalPartitionStatements ps infos tables)) (sectioned ''predata'')"
proof -
  note with_id = writes_with[where g = "\<lambda>s. s", OF _ refl]
  show "writes (write_with (PrintIdentityColumns env seqs)) (sectioned ''predata'')"
    unfolding PrintIdentityColumns_def by (rule with_id, rule identity_printer.loop_section) (simp add: objects_predata)
  show "writes (write_with (PrintAlterSequenceStatements seqs)) (sectioned ''predata'')"
    unfolding PrintAlterSequenceStatements_def by (rule with_id, rule alter_sequence_printer.loop_section) (simp add: objects_predata)
  show "writes (write_with (PrintExchangeExternalPartitionStatements ps infos tables)) (sectioned ''predata'')"
    unfolding PrintExchangeExternalPartitionStatements_def Let_def
    by (rule with_id, rule exchange_printer.loop_section) (simp add: objects_predata)
qed

lemma backup_dependents_writes:
  assumes "backupDependentObjects env ord c tables ps cons seqs infos tableOnly s = Inr s'"
  obtains deps sorted bs rest where
    "relevant_dependencies env ord c tables ps tableOnly (x_objects s) = Inr deps"
    "TopologicalSort (dep_order ord deps) (x_objects s) deps = Inr sorted"
    "value_blocks env sorted bs" "sectioned ''predata'' rest"
    "print_all (concat bs @ rest) (x_out s) = Inr (x_out s')" "x_objects s' = x_objects s"
proof -
  from assms obtain deps sorted s1 s2 s3 extParts infoMap where
    d: "relevant_dependencies env ord c tables ps tableOnly (x_objects s) = Inr deps"
       "TopologicalSort (dep_order ord deps) (x_objects s) deps = Inr sorted"
    and p: "write_with (PrintDependentObjectStatements env (metadata_order ord) sorted (x_metadata s) cons infos) s = Inr s1"
    and i: "write_with (PrintIdentityColumns env seqs) s1 = Inr s2"
    and a: "write_with (PrintAlterSequenceStatements seqs) s2 = Inr s3"
    and e: "s' = s3 \<or> write_with (PrintExchangeExternalPartitionStatements extParts infoMap tables) s3 = Inr s'"
    unfolding backupDependentObjects_def by (auto simp: rbind_Inr_iff split: if_splits) blast+
  from p obtain f where f: "PrintDependentObjectStatements env (metadata_order ord) sorted (x_metadata s) cons infos (x_out s) = Inr f"
    "s1 = s\<lparr>x_out := f\<rparr>" by (auto simp: write_with_def rbind_Inr_iff)
  from f(1) prints_dependent_statements obtain bs r0 where b: "value_blocks env sorted bs" "sectioned ''predata'' r0"
    "print_all (concat bs @ r0) (x_out s) = Inr (x_out s1)" unfolding prints_def f(2) by fastforce
  obtain r1 where r1: "sectioned ''predata'' r1" "print_all r1 (x_out s1) = Inr (x_out s2)"
    using writesD[OF writes_after_dependents(1) i] by blast
  obtain r2 where r2: "sectioned ''predata'' r2" "print_all r2 (x_out s2) = Inr (x_out s3)"
    using writesD[OF writes_after_dependents(2) a] by blast
  obtain r3 where r3: "sectioned ''predata'' r3" "print_all r3 (x_out s3) = Inr (x_out s')"
    using e
  proof
    assume "s' = s3"
    then show thesis by (intro that[of "[]"]) simp_all
  qed (use writesD[OF writes_after_dependents(3)] that in blast)
  have "x_objects s' = x_objects s"
    using f(2) i a e by (auto simp: write_with_def rbind_Inr_iff)
  moreover have "print_all (concat bs @ (r0 @ r1 @ r2 @ r3)) (x_out s) = Inr (x_out s')"
    using print_all_trans[OF b(3) print_all_trans[OF r1(2) print_all_trans[OF r2(2) r3(2)]]] by simp
  ultimately show thesis using d b(1,2) r1(1) r2(1) r3(1)
    by (intro that[of deps sorted bs "r0 @ r1 @ r2 @ r3"]) auto
qed


text \<open>All rows \<open>GetDependencies\<close> reads.\<close>

definition dependency_rows :: "print_env \<Rightarrow> catalog \<Rightarrow> PrintRelations.Table list \<Rightarrow> SortableDependency list res" where
  "dependency_rows env c tables =
     rbind (src_at_least env ''7'') (\<lambda>at7.
     rbind (pg_depend_rows c) (\<lambda>rows.
       if at7 \<and> tables \<noteq> [] then rbind (synthetic_rows c tables) (\<lambda>extra. Inr (rows @ extra)) else Inr rows))"

text \<open>\<open>x\<close> needs \<open>r\<close>: a row says so, and it is not the edge of a function to a type that needs the function.\<close>

definition needs :: "SortableDependency list \<Rightarrow> SortableObject list \<Rightarrow> UniqueID \<Rightarrow> UniqueID \<Rightarrow> bool" where
  "needs rows objs x r \<longleftrightarrow> (let B = createBackupSet objs in row_edge rows B x r \<and>
     \<not> (ClassID r = PG_TYPE_OID \<and> ClassID x = PG_PROC_OID \<and> row_edge rows B r x))"

lemma relevant_edges:
  assumes "relevant_dependencies env ord c tables ps tableOnly objs = Inr D" and "dependency_rows env c tables = Inr rows"
    and "range_orders (dep_order ord) (dep_entries ord)"
  shows "visit_order (dep_order ord D) D" and "needs rows objs x r \<Longrightarrow> r \<in> dep_keys D x"
proof -
  let ?B = "createBackupSet objs"
  from assms(1) obtain at7 D0 where at7: "src_at_least env ''7'' = Inr at7"
    and D0: "GetDependencies (dep_order ord) (dep_entries ord) at7 tables (pg_depend_rows c) (synthetic_rows c) ?B = Inr D0"
    and D: "D = D0 \<or> AddProtocolDependenciesForGPDB4 D0 (map dep_table_of tables) (map ext_protocol_of ps) = Inr D"
    unfolding relevant_dependencies_def by (auto simp: rbind_Inr_iff split: if_splits)
  let ?m = "build_dependency_map ?B rows []"
  have "D0 = breakCircularDependencies (dep_order ord ?m) (dep_entries ord ?m) ?m"
    using D0 assms(2) at7 by (auto simp: GetDependencies_def dependency_rows_def rbind_Inr_iff Let_def split: if_splits)
  note edges = dependency_edges[OF assms(3) refl this]
  have all: "go_wf D \<and> inner_wf D \<and> dep_keys D0 y \<subseteq> dep_keys D y" for y
    using D
  proof
    assume "AddProtocolDependenciesForGPDB4 D0 (map dep_table_of tables) (map ext_protocol_of ps) = Inr D"
    from add_protocol_deps_facts[OF this[unfolded AddProtocolDependenciesForGPDB4_def] edges(1,2)] show ?thesis .
  qed (use edges(1,2) in simp)
  with assms(3) show "visit_order (dep_order ord D) D" by (auto simp: range_orders_def)
  show "r \<in> dep_keys D x" if "needs rows objs x r"
    using that all edges(3)[of x] by (auto simp: needs_def Let_def)
qed

lemma createBackupSet_has: "go_has (createBackupSet objs) k \<longleftrightarrow> k \<in> GetUniqueID ` set objs"
proof -
  have "go_has (foldl (\<lambda>m x. go_set (GetUniqueID x) True m) m objs) k \<longleftrightarrow> go_has m k \<or> k \<in> GetUniqueID ` set objs" for m
    by (induction objs arbitrary: m) auto
  then show ?thesis by (simp add: createBackupSet_def)
qed

text \<open>With no filter every entry of a section is read.\<close>

lemma no_filters: "constructFilterSets [] [] [] [] [] [] = (os, ss, rs) \<Longrightarrow> shouldIncludeStatement e os ss rs"
  by (auto simp: constructFilterSets_def shouldIncludeStatement_def Let_def NewExcludeSet_def MatchesFilter_def NewSet_def go_has_def)

definition statement_for :: "toc_object \<Rightarrow> StatementWithType \<Rightarrow> bool" where
  "statement_for obj st \<longleftrightarrow> (\<exists>e. same_name e (obj_entry obj) \<and> st = statement_of e (Statement st))"

definition read_as :: "(string \<times> MetadataEntry \<times> string) list \<Rightarrow> StatementWithType list" where
  "read_as xs = map (\<lambda>(_, e, t). statement_of e t) (filter (\<lambda>(s, e, t). s = ''predata'') xs)"

lemma read_section:
  assumes "toc_records c toc xs" and "length c < 2 ^ 63"
  shows "GetSQLStatementForObjectTypes toc ''predata'' c [] [] [] [] [] [] = Inr (read_as xs)"
proof -
  obtain os ss rs where fs: "constructFilterSets [] [] [] [] [] [] = (os, ss, rs)" by (metis prod_cases3)
  show ?thesis using read_back[OF assms _ fs, of "''predata''"] no_filters[OF fs] by (simp add: read_as_def is_section_def)
qed

text \<open>What the block of an object is read back as: its definition, then statements about it.\<close>

definition defined_by :: "print_env \<Rightarrow> object_value \<Rightarrow> StatementWithType list \<Rightarrow> bool" where
  "defined_by env v c \<longleftrightarrow> (let obj = value_object env v in
     list_all (statement_for obj) c \<and> (in_predata v \<longrightarrow> (\<exists>t rest. c = statement_of (obj_entry obj) t # rest)))"

lemma own_read_as:
  assumes "list_all (own obj) b"
  shows "list_all (statement_for obj) (read_as (stmts b))"
  using assms by (induction b rule: stmts.induct) (auto simp: read_as_def own_def statement_for_def statement_of_def)

lemma read_as_append [simp]: "read_as (xs @ ys) = read_as xs @ read_as ys"
  by (simp add: read_as_def)

lemma value_block_read: "value_block env v b \<Longrightarrow> defined_by env v (read_as (stmts b))"
proof -
  assume vb: "value_block env v b"
  then have "list_all (statement_for (value_object env v)) (read_as (stmts b))" by (simp add: value_block_def Let_def own_read_as)
  with vb show ?thesis by (auto simp: value_block_def defined_by_def Let_def creates_def created_def read_as_def)
qed

lemma read_as_blocks:
  assumes "value_blocks env objs bs"
  shows "\<exists>cs. read_as (stmts (concat bs)) = concat cs \<and> list_all2 (\<lambda>x. defined_by env (dynamic x)) objs cs"
  using assms unfolding value_blocks_def
proof (induction rule: list_all2_induct)
  case (Cons x xs b bs)
  then obtain cs where cs: "read_as (stmts (concat bs)) = concat cs"
    "list_all2 (\<lambda>x. defined_by env (dynamic x)) xs cs" by blast
  with value_block_read[OF Cons.hyps(1)] show ?case by (intro exI[of _ "read_as (stmts b) # cs"]) simp
qed (simp add: read_as_def)


lemma backupPredata_blocks:
  assumes "backupPredata env ord c inSchemas tables tableOnly s = Inr s'"
    and "range_orders (dep_order ord) (dep_entries ord)" and "dependency_rows env c tables = Inr rows"
    and "distinct (map GetUniqueID (x_objects s'))"
    and "toc_records (contents (fst (x_out s))) (snd (x_out s)) before" and "counted (fst (x_out s))"
    and "length (contents (fst (x_out s'))) < 2 ^ 63"
  shows "\<exists>objs pre cs post.
    GetSQLStatementForObjectTypes (snd (x_out s')) ''predata'' (contents (fst (x_out s'))) [] [] [] [] [] [] =
      Inr (read_as before @ pre @ concat cs @ post) \<and>
    mset objs = mset (x_objects s') \<and>
    list_all2 (\<lambda>x. defined_by env (dynamic x)) objs cs \<and>
    (\<forall>i<length objs. \<forall>r. needs rows (x_objects s') (GetUniqueID (objs ! i)) r \<longrightarrow> r \<in> GetUniqueID ` set (take i objs))"
proof -
  from assms(1) obtain ps cons seqs infos s1 s2 where
    col: "collect_predata env c inSchemas tables tableOnly (s\<lparr>x_objects := [], x_metadata := []\<rparr>) = Inr (ps, cons, seqs, infos, s1)"
    and dep: "backupDependentObjects env ord c tables ps cons seqs infos tableOnly s1 = Inr s2"
    and conv: "backupConversions env c s2 = Inr s'"
    unfolding backupPredata_def by (auto simp: rbind_Inr_iff)
  from collect_writes[OF col] obtain pre where pre: "print_all pre (x_out s) = Inr (x_out s1)" by auto
  from backup_dependents_writes[OF dep] obtain D sorted bs rest where
    D: "relevant_dependencies env ord c tables ps tableOnly (x_objects s1) = Inr D"
       "TopologicalSort (dep_order ord D) (x_objects s1) D = Inr sorted"
    and bs: "value_blocks env sorted bs" "print_all (concat bs @ rest) (x_out s1) = Inr (x_out s2)" "x_objects s2 = x_objects s1"
    by metis
  from writesD[OF writes_conversions conv] obtain post where post: "print_all post (x_out s2) = Inr (x_out s')" by blast
  have objs: "x_objects s' = x_objects s1"
    using conv bs(3) by (auto simp: backupConversions_def backup_kind_def write_with_def set_count_def rbind_Inr_iff)
  note edges = relevant_edges[OF D(1) assms(3,2)]
  from TopologicalSort_outcome[OF edges(1) assms(4)[unfolded objs]] D(2)
  have sorted: "mset sorted = mset (x_objects s1)" "deps_before D sorted" by (auto elim: TopologicalSort_outcome)
  let ?all = "pre @ concat bs @ rest @ post"
  have "print_all ?all (x_out s) = Inr (x_out s')"
    using print_all_trans[OF pre print_all_trans[OF bs(2) post]] by simp
  from print_all_records[OF assms(5,6) this]
  have rec: "toc_records (contents (fst (x_out s'))) (snd (x_out s')) (before @ stmts ?all)" by blast
  note read = read_section[OF rec assms(7)]
  obtain cs where cs: "read_as (stmts (concat bs)) = concat cs"
    "list_all2 (\<lambda>x. defined_by env (dynamic x)) sorted cs" using read_as_blocks[OF bs(1)] by blast
  with read have "GetSQLStatementForObjectTypes (snd (x_out s')) ''predata'' (contents (fst (x_out s'))) [] [] [] [] [] [] =
      Inr (read_as before @ read_as (stmts pre) @ concat cs @ read_as (stmts (rest @ post)))" by simp
  moreover have "r \<in> GetUniqueID ` set (take i sorted)"
    if "i < length sorted" "needs rows (x_objects s') (GetUniqueID (sorted ! i)) r" for i r
    using sorted(2) that(1) edges(2)[OF that(2)[unfolded objs]] unfolding deps_before_def by blast
  ultimately show ?thesis using cs(2) sorted(1) objs by (intro exI conjI) auto
qed

section \<open>Properties\<close>

text \<open>
  Claim C2. What \<open>backupPredata\<close> has written is read back from the metadata file as the statements
  that were there before, others of the predata, and in between one block of statements for each
  collected object, each block only about its object and beginning with its definition (but for
  transforms, protocols without functions of their own, and constraints that are not valid yet, which
  are postdata). The blocks stand in an order in which every
  object comes after all objects it needs according to the rows of the catalog (but for a function
  and a type that need each other), whatever the order in which Go visits its maps. Objects have
  distinct identifiers.
\<close>

theorem backupPredata_ordered:
  assumes "backupPredata env ord c inSchemas tables tableOnly s = Inr s'"
    and "range_orders (dep_order ord) (dep_entries ord)" and "dependency_rows env c tables = Inr rows"
    and "distinct (map GetUniqueID (x_objects s'))"
    and "toc_records (contents (fst (x_out s))) (snd (x_out s)) before" and "counted (fst (x_out s))"
    and "length (contents (fst (x_out s'))) < 2 ^ 63"
  shows "\<exists>objs pre cs post.
    GetSQLStatementForObjectTypes (snd (x_out s')) ''predata'' (contents (fst (x_out s'))) [] [] [] [] [] [] =
      Inr (read_as before @ pre @ concat cs @ post) \<and>
    mset objs = mset (x_objects s') \<and>
    list_all2 (\<lambda>x. defined_by env (dynamic x)) objs cs \<and>
    (\<forall>i<length objs. \<forall>r. needs rows (x_objects s') (GetUniqueID (objs ! i)) r \<longrightarrow> r \<in> GetUniqueID ` set (take i objs))"
  by (rule backupPredata_blocks[OF assms])

subsection \<open>An example\<close>

definition empty_catalog :: catalog where
  "empty_catalog = \<lparr>QuoteIdents = (\<lambda>_. Inr []), GetIncludedUserTableRelations = (\<lambda>_. Inr []), GetForeignTableRelations = Inr [],
     ConstructDefinitionsForTables = (\<lambda>_. Inr []), GetMetadataForObjectType = (\<lambda>_. Inr []), GetCommentsForObjectType = (\<lambda>_. Inr []),
     GetFunctionsAllVersions = Inr [], GetFunctionOidToInfoMap = Inr [], GetTransforms = Inr [], GetShellTypes = Inr [], GetBaseTypes = Inr [],
     GetCompositeTypes = Inr [], GetDomainTypes = Inr [], GetRangeTypes = Inr [], GetEnumTypes = Inr [], GetConstraints = Inr [],
     RenameExchangedPartitionConstraints = Inr, GetAllSequences = Inr [], GetExternalProtocols = Inr [], GetAllViews = Inr [],
     GetTextSearchParsers = Inr [], GetTextSearchConfigurations = Inr [], GetTextSearchTemplates = Inr [], GetTextSearchDictionaries = Inr [],
     GetOperators = Inr [], GetOperatorClasses = Inr [], GetOperatorFamilies = Inr [], GetAggregates = Inr [], GetCasts = Inr [],
     GetForeignDataWrappers = Inr [], GetForeignServers = Inr [], GetUserMappings = Inr [], GetSessionGUCs = Inr \<lparr>sg_ClientEncoding = ''UTF8''\<rparr>,
     GetTablespaces = Inr [], GetDefaultDatabaseEncodingInfo = Inl (Fatal []), GetDatabaseInfo = Inl (Fatal []), GetDatabaseGUCs = Inr [],
     GetResourceQueues = Inr [], GetResourceGroupsBefore7 = Inr [], GetResourceGroupsAtLeast7 = Inr [], GetRoles = Inr [], GetRoleGUCs = Inr [],
     GetRoleMembers = Inr [], GetAllUserSchemas = (\<lambda>_. Inr []), GetProceduralLanguages = Inr [], GetAccessMethods = Inr [], GetCollations = Inr [],
     GetExtensions = Inr [], GetConversions = Inr [], GetExternalPartitionInfo = Inr ([], []), GetIndexes = Inr [],
     RenameExchangedPartitionIndexes = Inr, EnsurePartitionKeysInUniqueIndexDefs = Inr, GetRules = Inr [], GetTriggers = Inr [],
     GetEventTriggers = Inr [], GetDefaultPrivileges = Inr [], GetPolicies = Inr [], GetExtendedStatistics = Inr [],
     pg_depend_rows = Inr [], synthetic_rows = (\<lambda>_. Inr [])\<rparr>"

definition demo_version :: GPDBVersion where
  "demo_version = \<lparr>VersionString = [], SemVer = \<lparr>Major = 1, Minor = 0, Patch = 0\<rparr>, Type = CBDB\<rparr>"

definition demo_print_env :: print_env where
  "demo_print_env = \<lparr>acl_ranges = demo_ranges, acl_version = demo_version, role_map = [], dest_version = demo_version,
     dest_tablespaces = ([], []), quoted_roles = [], float_text = (\<lambda>_. []), fixed_text = (\<lambda>_. []), ParseFloat = (\<lambda>_. Inr 0)\<rparr>"

definition demo_orders :: orders where
  "demo_orders = \<lparr>dep_order = (\<lambda>m k. go_keys (go_get0 [] m k)), dep_entries = go_keys, metadata_order = go_keys, role_order = go_keys\<rparr>"

definition no_external :: ExternalTableDefinition where
  "no_external = \<lparr>ed_Oid = 0, ed_Type = 0, ed_Protocol = 0, ed_Location = None, ed_ExecLocation = [], ed_FormatType = [], ed_FormatOpts = [],
     ed_Command = [], ed_RejectLimit = 0, ed_RejectLimitType = [], ed_ErrTableName = [], ed_ErrTableSchema = [], ed_LogErrors = False,
     ed_LogErrPersist = False, ed_Encoding = [], ed_Writable = False, ed_URIs = []\<rparr>"

definition demo_table :: "32 word \<Rightarrow> string \<Rightarrow> string list \<Rightarrow> PrintRelations.Table" where
  "demo_table oid name parents = \<lparr>r_SchemaOid = 7, r_Oid = oid, r_Schema = ''s'', r_Name = name, tb_DistPolicy = ''DISTRIBUTED RANDOMLY'',
     tb_PartDef = [], tb_PartTemplateDef = [], tb_StorageOpts = [], tb_TablespaceName = [], tb_ColumnDefs = [], tb_IsExternal = False,
     tb_ExtTableDef = no_external, tb_PartitionLevelInfo = \<lparr>pli_Oid = 0, pli_Level = [], pli_RootName = []\<rparr>, tb_TableType = [],
     tb_IsUnlogged = False, tb_ForeignDef = no_foreign, tb_Inherits = parents, tb_ReplicaIdentity = [], tb_PartitionAlteredSchemas = [],
     tb_AccessMethodName = [], tb_PartitionKeyDef = [], tb_AttachPartitionInfo = no_attach, tb_ForceRowSecurity = False\<rparr>"

text \<open>A table that inherits from another one listed after it.\<close>

definition demo_tables :: "PrintRelations.Table list" where
  "demo_tables = [demo_table 11 ''child'' [''s.parent''], demo_table 12 ''parent'' []]"

definition demo_rows1 :: "SortableDependency list" where
  "demo_rows1 = [\<lparr>sd_ClassID = PG_CLASS_OID, sd_ObjID = 11, sd_RefClassID = PG_CLASS_OID, sd_RefObjID = 12\<rparr>]"

definition demo_catalog :: catalog where
  "demo_catalog = empty_catalog\<lparr>pg_depend_rows := Inr demo_rows1\<rparr>"

definition demo_start :: extraction where
  "demo_start = \<lparr>x_out = (empty_file, empty_TOC), x_objects = [], x_metadata = [], objectCounts = []\<rparr>"

definition demo_predata :: "extraction res" where
  "demo_predata = backupPredata demo_print_env demo_orders demo_catalog [] demo_tables True demo_start"

lemma demo_predata_run:
  "case demo_predata of Inl _ \<Rightarrow> False
   | Inr s \<Rightarrow> map GetUniqueID (x_objects s) = [mk_id PG_CLASS_OID 11, mk_id PG_CLASS_OID 12] \<and> length (contents (fst (x_out s))) < 200"
  by code_simp

lemma demo_predata_ok: "\<not> isl demo_predata" "distinct (map GetUniqueID (x_objects (projr demo_predata)))"
    "map GetUniqueID (x_objects (projr demo_predata)) = [mk_id PG_CLASS_OID 11, mk_id PG_CLASS_OID 12]"
    "length (contents (fst (x_out (projr demo_predata)))) < 200"
proof -
  from demo_predata_run obtain s where s: "demo_predata = Inr s" "map GetUniqueID (x_objects s) = [mk_id PG_CLASS_OID 11, mk_id PG_CLASS_OID 12]"
    "length (contents (fst (x_out s))) < 200" by (auto split: sum.splits)
  show "\<not> isl demo_predata" "map GetUniqueID (x_objects (projr demo_predata)) = [mk_id PG_CLASS_OID 11, mk_id PG_CLASS_OID 12]"
    "length (contents (fst (x_out (projr demo_predata)))) < 200" by (simp_all add: s)
  show "distinct (map GetUniqueID (x_objects (projr demo_predata)))" unfolding s(1) sum.sel s(2) by (simp add: mk_id_def)
qed

theorem backupPredata_ordered_witness:
  "\<exists>(objs :: SortableObject list) pre cs post.
    GetSQLStatementForObjectTypes (snd (x_out (projr demo_predata))) ''predata'' (contents (fst (x_out (projr demo_predata)))) [] [] [] [] [] [] =
      Inr (pre @ concat cs @ post) \<and>
    list_all2 (\<lambda>x. defined_by demo_print_env (dynamic x)) objs cs \<and>
    map GetUniqueID objs = [mk_id PG_CLASS_OID 12, mk_id PG_CLASS_OID 11]"
proof -
  let ?s' = "projr demo_predata"
  have run: "backupPredata demo_print_env demo_orders demo_catalog [] demo_tables True demo_start = Inr ?s'"
    using demo_predata_ok(1) unfolding demo_predata_def by (metis sum.collapse(2))
  have orders: "range_orders (dep_order demo_orders) (dep_entries demo_orders)"
    using range_orders_keys by (simp add: demo_orders_def)
  have rows: "dependency_rows demo_print_env demo_catalog demo_tables = Inr demo_rows1" by code_simp
  have empty: "toc_records (contents (fst (x_out demo_start))) (snd (x_out demo_start)) []" "counted (fst (x_out demo_start))"
    by (simp_all add: demo_start_def empty_records)
  have len: "length (contents (fst (x_out ?s'))) < 2 ^ 63" using demo_predata_ok(4) by simp
  from backupPredata_ordered[OF run orders rows demo_predata_ok(2) empty len] obtain objs pre cs post where
    all: "GetSQLStatementForObjectTypes (snd (x_out ?s')) ''predata'' (contents (fst (x_out ?s'))) [] [] [] [] [] [] = Inr (read_as [] @ pre @ concat cs @ post)"
    "mset objs = mset (x_objects ?s')" "list_all2 (\<lambda>x. defined_by demo_print_env (dynamic x)) objs cs"
    "\<forall>i<length objs. \<forall>r. needs demo_rows1 (x_objects ?s') (GetUniqueID (objs ! i)) r \<longrightarrow> r \<in> GetUniqueID ` set (take i objs)"
    by blast
  have "mset (map GetUniqueID objs) = {#mk_id PG_CLASS_OID 11, mk_id PG_CLASS_OID 12#}"
    using all(2) demo_predata_ok(3) by (metis mset.simps mset_map)
  then have "map GetUniqueID objs = [mk_id PG_CLASS_OID 11, mk_id PG_CLASS_OID 12] \<or> map GetUniqueID objs = [mk_id PG_CLASS_OID 12, mk_id PG_CLASS_OID 11]"
    by (cases objs; cases "tl objs") (auto simp: add_eq_conv_ex)
  moreover have "needs demo_rows1 (x_objects ?s') (mk_id PG_CLASS_OID 11) (mk_id PG_CLASS_OID 12)"
    using demo_predata_ok(3) by (simp add: needs_def row_edge_def createBackupSet_has demo_rows1_def mk_id_def PG_CLASS_OID_def PG_TYPE_OID_def flip: set_map)
  then have "GetUniqueID (objs ! 0) \<noteq> mk_id PG_CLASS_OID 11 \<or> objs = []" using all(4) by fastforce
  ultimately have "map GetUniqueID objs = [mk_id PG_CLASS_OID 12, mk_id PG_CLASS_OID 11]" by (cases objs) auto
  moreover have "read_as [] = []" by (simp add: read_as_def)
  ultimately have X: "GetSQLStatementForObjectTypes (snd (x_out ?s')) ''predata'' (contents (fst (x_out ?s'))) [] [] [] [] [] [] = Inr (pre @ concat cs @ post) \<and>
      list_all2 (\<lambda>x. defined_by demo_print_env (dynamic x)) objs cs \<and>
      map GetUniqueID objs = [mk_id PG_CLASS_OID 12, mk_id PG_CLASS_OID 11]" using all(1,3) by simp
  show ?thesis by (rule exI[of _ objs], rule exI[of _ pre], rule exI[of _ cs], rule exI[of _ post], rule X)
qed

end
