(* ===== verification/Queries.thy ===== *)
theory Queries
  imports PrintTypes PrintRelations Options
begin

text \<open>
  The catalog queries that all kinds of objects share: the filter clauses, schemas, constraints and
  access methods (\<open>src/meta/builtin/queries_shared.go\<close>), and owners, privileges and comments
  (\<open>queries_acl.go\<close>). A query is the text the code sends; \<open>select\<close> is the server, which answers a text
  with rows or an error. The lists of included and excluded schemas and relations are the package
  variables of \<open>variables.go\<close>, here the record \<open>filters\<close>.
\<close>

section \<open>Calling the server\<close>

text \<open>A query that ends the program when it fails.\<close>

definition must_select :: "(string \<Rightarrow> 'a res) \<Rightarrow> string \<Rightarrow> 'a res" where
  "must_select select query = FatalOnError (select query)"

lemma FatalOnError_result [simp]: "FatalOnError r = Inr x \<longleftrightarrow> r = Inr x"
  by (auto simp: FatalOnError_def split: sum.splits goerr.splits)

text \<open>Rows collected in a map: the last row of a key, and all rows of a key in their order.\<close>

definition index_by :: "('a \<Rightarrow> 'k) \<Rightarrow> ('a \<Rightarrow> 'v) \<Rightarrow> 'a list \<Rightarrow> ('k, 'v) gomap" where
  "index_by key val rows = foldl (\<lambda>m r. go_set (key r) (val r) m) [] rows"

definition group_by :: "('a \<Rightarrow> 'k) \<Rightarrow> ('a \<Rightarrow> 'v) \<Rightarrow> 'a list \<Rightarrow> ('k, 'v list) gomap" where
  "group_by key val rows = foldl (\<lambda>m r. go_set (key r) (go_get0 [] m (key r) @ [val r]) m) [] rows"

lemma group_by_get: "go_get0 [] (group_by key val rows) k = map val (filter (\<lambda>r. key r = k) rows)"
proof -
  have "go_get0 [] (foldl (\<lambda>m r. go_set (key r) (go_get0 [] m (key r) @ [val r]) m) m rows) k =
      go_get0 [] m k @ map val (filter (\<lambda>r. key r = k) rows)" for m
    by (induction rows arbitrary: m) (simp_all add: go_get0_set)
  from this[of "[]"] show ?thesis by (simp add: group_by_def go_get0_def)
qed

definition FIRST_NORMAL_OBJECT_ID :: string where "FIRST_NORMAL_OBJECT_ID = ''16384''"

section \<open>Filters\<close>

record filters =
  filterRelationClause :: string
  includeRelations :: "string list"
  excludeRelations :: "string list"
  includeSchemas :: "string list"
  excludeSchemas :: "string list"

definition schema_filter :: "filters \<Rightarrow> string \<Rightarrow> string" where
  "schema_filter flt namespace =
     (if excludeSchemas flt \<noteq> [] then NL @ ''AND '' @ namespace @ ''.nspname NOT IN ('' @ SliceToQuotedString (excludeSchemas flt) @ '')''
      else if includeSchemas flt \<noteq> [] then NL @ ''AND '' @ namespace @ ''.nspname IN ('' @ SliceToQuotedString (includeSchemas flt) @ '')''
      else [])"

definition SchemaFilterClause :: "filters \<Rightarrow> string \<Rightarrow> string" where
  "SchemaFilterClause flt namespace =
     concat [namespace, ''.nspname NOT LIKE 'pg_temp_%' AND '', namespace, ''.nspname NOT LIKE 'pg_toast%' AND '', namespace, ''.nspname NOT IN ('gp_toolkit', 'information_schema', 'pg_aoseg', 'pg_bitmapindex', 'pg_catalog', 'pg_ext_aux') '', schema_filter flt namespace]"

definition SchemaFilterClauseNotFilterPgCatalog :: "filters \<Rightarrow> string \<Rightarrow> string" where
  "SchemaFilterClauseNotFilterPgCatalog flt namespace =
     concat [namespace, ''.nspname NOT LIKE 'pg_temp_%' AND '', namespace, ''.nspname NOT LIKE 'pg_toast%' AND '', namespace, ''.nspname NOT IN ('gp_toolkit', 'information_schema', 'pg_aoseg', 'pg_bitmapindex', 'pg_ext_aux') '', schema_filter flt namespace]"

text \<open>\<open>keys\<close> is the order in which Go visits the set of schemas.\<close>

definition altered_include :: "filters \<Rightarrow> (string, bool) gomap \<Rightarrow> (string, bool) gomap" where
  "altered_include flt altered = foldl (\<lambda>m s. go_set s True m) altered (includeSchemas flt)"

definition SchemaFilterClauseWithAlteredPartitionSchemas ::
    "((string, bool) gomap \<Rightarrow> string list) \<Rightarrow> filters \<Rightarrow> string \<Rightarrow> (string, bool) gomap \<Rightarrow> string" where
  "SchemaFilterClauseWithAlteredPartitionSchemas keys flt namespace altered =
     (let altered = (if includeSchemas flt \<noteq> [] then altered_include flt altered else altered);
          included = (if includeSchemas flt \<noteq> [] then keys altered else []);
          excluded = filter (\<lambda>s. \<not> go_get0 False altered s) (excludeSchemas flt);
          clause = (if excluded \<noteq> [] then NL @ ''AND '' @ namespace @ ''.nspname NOT IN ('' @ SliceToQuotedString excluded @ '')''
            else if included \<noteq> [] then NL @ ''AND '' @ namespace @ ''.nspname IN ('' @ SliceToQuotedString included @ '')''
            else [])
      in concat [namespace, ''.nspname NOT LIKE 'pg_temp_%' AND '', namespace, ''.nspname NOT LIKE 'pg_toast%' AND '', namespace, ''.nspname NOT IN ('gp_toolkit', 'information_schema', 'pg_aoseg', 'pg_bitmapindex', 'pg_catalog', 'pg_ext_aux') '', clause])"

definition ExtensionFilterClause :: "string \<Rightarrow> string" where
  "ExtensionFilterClause namespace =
     (if namespace \<noteq> [] then namespace @ ''.oid'' else ''oid'') @ '' NOT IN (select objid from pg_depend where deptype = 'e')''"

definition getOidsFromRelationList :: "(string \<Rightarrow> string list res) \<Rightarrow> string list \<Rightarrow> string list res" where
  "getOidsFromRelationList select quoted = must_select select (concat [''
	SELECT c.oid AS string
	FROM pg_class c
		JOIN pg_namespace n ON c.relnamespace = n.oid
	WHERE quote_ident(n.nspname) || '.' || quote_ident(c.relname) IN ('', SliceToQuotedString quoted, '')''])"

text \<open>The clause is computed once and kept in \<open>filterRelationClause\<close>.\<close>

definition relationAndSchemaFilterClause :: "(string \<Rightarrow> (string \<times> string) list res) \<Rightarrow> (string \<Rightarrow> string list res) \<Rightarrow> filters \<Rightarrow>
    (string \<times> filters) res" where
  "relationAndSchemaFilterClause quote select flt =
     (if filterRelationClause flt \<noteq> [] then Inr (filterRelationClause flt, flt)
      else rbind (if excludeRelations flt = [] then Inr [] else
          rbind (FatalOnError (QuoteTableNames quote (excludeRelations flt))) (\<lambda>quoted.
          rbind (getOidsFromRelationList select quoted) (\<lambda>oids.
            Inr (text_if (oids \<noteq> []) (NL @ ''AND c.oid NOT IN ('' @ Join oids '', '' @ '')''))))) (\<lambda>excl.
        rbind (if includeRelations flt = [] then Inr [] else
          rbind (FatalOnError (QuoteTableNames quote (includeRelations flt))) (\<lambda>quoted.
          rbind (getOidsFromRelationList select quoted) (\<lambda>oids.
            Inr (NL @ ''AND c.oid IN ('' @ Join oids '', '' @ '')'')))) (\<lambda>incl.
        let clause = SchemaFilterClause flt ''n'' @ excl @ incl
        in Inr (clause, flt\<lparr>filterRelationClause := clause\<rparr>))))"

text \<open>
  Asking again gives the same clause and needs no query, so the other queries can take the clause
  as an argument.
\<close>

lemma relation_clause_cached:
  assumes "relationAndSchemaFilterClause quote select flt = Inr (clause, flt')"
  shows "relationAndSchemaFilterClause quote' select' flt' = Inr (clause, flt')"
proof (cases "filterRelationClause flt = []")
  case True
  have "SchemaFilterClause flt ''n'' @ x \<noteq> []" for x by (simp add: SchemaFilterClause_def)
  with assms True show ?thesis by (auto simp: relationAndSchemaFilterClause_def rbind_Inr_iff Let_def)
qed (use assms in \<open>auto simp: relationAndSchemaFilterClause_def\<close>)

section \<open>Schemas, constraints and access methods\<close>

definition GetAllUserSchemas :: "((string, bool) gomap \<Rightarrow> string list) \<Rightarrow> filters \<Rightarrow> (string \<Rightarrow> Schema list res) \<Rightarrow> (string, bool) gomap \<Rightarrow> Schema list res" where
  "GetAllUserSchemas keys flt select altered =
     must_select select (concat [''
	SELECT oid, quote_ident(nspname) AS name FROM pg_namespace n
		WHERE '', SchemaFilterClauseWithAlteredPartitionSchemas keys flt ''n'' altered, '' AND '', ExtensionFilterClause [], '' ORDER BY name''])"

definition con_is_local :: "'a acl_env_scheme \<Rightarrow> string res" where
  "con_is_local env = rbind (src_at_least env ''6'') (\<lambda>at6. Inr (text_if at6 ''con.conislocal,''))"

text \<open>The table query has a place for the filter; \<open>clause\<close> is the one of \<open>relationAndSchemaFilterClause\<close>.\<close>

definition constraint_table_query :: "'a acl_env_scheme \<Rightarrow> string \<Rightarrow> string res" where
  "constraint_table_query env filterClause =
     rbind (con_is_local env) (\<lambda>conIsLocal.
     rbind (src_old env ''7'') (\<lambda>old7.
       Inr (if old7
         then concat [''
		SELECT con.oid,
			quote_ident(n.nspname) AS schema,
			quote_ident(conname) AS name,
			contype,
			'', conIsLocal, ''
			pg_get_constraintdef(con.oid, TRUE) AS def,
			quote_ident(n.nspname) || '.' || quote_ident(c.relname) AS owningobject,
			'f' AS isdomainconstraint,
			CASE
				WHEN pt.parrelid IS NULL THEN 'f'
				ELSE 't'
			END AS ispartitionparent
		FROM pg_constraint con
			LEFT JOIN pg_class c ON con.conrelid = c.oid
			LEFT JOIN pg_partition pt ON con.conrelid = pt.parrelid
			JOIN pg_namespace n ON n.oid = con.connamespace
		WHERE '', filterClause, ''
			AND '', ExtensionFilterClause ''c'', ''
			AND c.relname IS NOT NULL
			AND contype != 't'
			AND conrelid NOT IN (SELECT parchildrelid FROM pg_partition_rule)
			AND (conrelid, conname) NOT IN (SELECT i.inhrelid, con.conname FROM pg_inherits i JOIN pg_constraint con ON i.inhrelid = con.conrelid JOIN pg_constraint p ON i.inhparent = p.conrelid WHERE con.conname = p.conname)
		GROUP BY con.oid, conname, contype, c.relname, n.nspname, '', conIsLocal, '' pt.parrelid'']
         else concat [''
		SELECT con.oid,
			quote_ident(n.nspname) AS schema,
			quote_ident(conname) AS name,
			contype,
			con.conislocal,
			pg_get_constraintdef(con.oid, TRUE) AS def,
			quote_ident(n.nspname) || '.' || quote_ident(c.relname) AS owningobject,
			'f' AS isdomainconstraint,
			CASE
				WHEN pt.partrelid IS NULL THEN 'f'
				ELSE 't'
			END AS ispartitionparent
		FROM pg_constraint con
			LEFT JOIN pg_class c ON con.conrelid = c.oid
			LEFT JOIN pg_partitioned_table pt ON con.conrelid = pt.partrelid
			JOIN pg_namespace n ON n.oid = con.connamespace
		WHERE '', filterClause, ''
			AND '', ExtensionFilterClause ''c'', ''
			AND c.relname IS NOT NULL
			AND contype != 't'
			AND (c.relispartition IS FALSE OR conislocal IS TRUE)
			AND (conrelid, conname) NOT IN (SELECT i.inhrelid, con.conname FROM pg_inherits i JOIN pg_constraint con ON i.inhrelid = con.conrelid JOIN pg_constraint p ON i.inhparent = p.conrelid WHERE con.conname = p.conname)
		GROUP BY con.oid, conname, contype, c.relname, n.nspname, con.conislocal, pt.partrelid''])))"

definition constraint_type_query :: "'a acl_env_scheme \<Rightarrow> filters \<Rightarrow> string res" where
  "constraint_type_query env flt =
     rbind (con_is_local env) (\<lambda>conIsLocal.
       Inr (concat [''
	SELECT con.oid,
		quote_ident(n.nspname) AS schema,
		quote_ident(conname) AS name,
		contype,
		'', conIsLocal, ''
		pg_get_constraintdef(con.oid, TRUE) AS def,
		quote_ident(n.nspname) || '.' || quote_ident(t.typname) AS owningobject,
		't' AS isdomainconstraint,
		'f' AS ispartitionparent
	FROM pg_constraint con
		LEFT JOIN pg_type t ON con.contypid = t.oid
		JOIN pg_namespace n ON n.oid = con.connamespace
	WHERE '', SchemaFilterClause flt ''n'', ''
		AND '', ExtensionFilterClause ''con'', ''
		AND t.typname IS NOT NULL
	GROUP BY con.oid, conname, contype, n.nspname, '', conIsLocal, '' t.typname
	ORDER BY name'']))"

definition GetConstraints :: "'a acl_env_scheme \<Rightarrow> filters \<Rightarrow> string \<Rightarrow> (string \<Rightarrow> Constraint list res) \<Rightarrow> Relation list \<Rightarrow> Constraint list res" where
  "GetConstraints env flt clause select includeTables =
     rbind (if includeTables \<noteq> []
            then constraint_table_query env (SchemaFilterClause flt ''n'' @ NL @ ''AND c.oid IN ('' @
              Join (map (\<lambda>t. oid_text (r_Oid t)) includeTables) '','' @ '')'')
            else rbind (constraint_table_query env clause) (\<lambda>t. rbind (constraint_type_query env flt) (\<lambda>n. Inr (t @ NL @ ''UNION'' @ NL @ n)))) (\<lambda>query.
     rbind (must_select select query) (\<lambda>rows.
     rbind (src_old env ''6'') (\<lambda>old6.
       Inr (if old6 then filter (\<lambda>c. con_Def c \<noteq> None) rows else rows))))"

definition GetAccessMethods :: "(string \<Rightarrow> AccessMethod list res) \<Rightarrow> AccessMethod list res" where
  "GetAccessMethods select = must_select select (concat [''
	SELECT oid,
       quote_ident(amname) AS name,
       amhandler::pg_catalog.regproc AS handler,
       amtype AS type
	FROM pg_am
	WHERE oid > '', FIRST_NORMAL_OBJECT_ID, ''
	ORDER BY oid;''])"

section \<open>Owners, privileges and comments\<close>

record MetadataQueryParams =
  NameField :: string
  SchemaField :: string
  mq_ObjectType :: string
  OidField :: string
  ACLField :: string
  OwnerField :: string
  OidTable :: string
  CommentTable :: string
  CatalogTable :: string
  FilterClause :: string
  Shared :: bool

definition no_params :: MetadataQueryParams where
  "no_params = \<lparr>NameField = [], SchemaField = [], mq_ObjectType = [], OidField = [], ACLField = [], OwnerField = [], OidTable = [],
     CommentTable = [], CatalogTable = [], FilterClause = [], Shared = False\<rparr>"

text \<open>\<open>InitializeMetadataParams\<close>: the parameters of a type, found by its object type.\<close>

definition InitializeMetadataParams :: "'a acl_env_scheme \<Rightarrow> MetadataQueryParams list res" where
  "InitializeMetadataParams env =
     rbind (src_at_least env ''7'') (\<lambda>at7. rbind (src_at_least env ''6'') (\<lambda>at6. rbind (src_old env ''5'') (\<lambda>old5. Inr
     [no_params\<lparr>mq_ObjectType := ''ACCESS METHOD'', NameField := ''amname'', OidField := ''oid'', CatalogTable := ''pg_am''\<rparr>,
      no_params\<lparr>mq_ObjectType := ''AGGREGATE'', NameField := ''proname'', SchemaField := ''pronamespace'', ACLField := ''proacl'', OwnerField := ''proowner'',
        CatalogTable := ''pg_proc'', FilterClause := (if at7 then ''prokind = '' @ in_quotes ''a'' else ''proisagg = '' @ in_quotes ''t'')\<rparr>,
      no_params\<lparr>mq_ObjectType := ''CAST'', NameField := ''typname'', OidField := ''oid'', OidTable := ''pg_type'', CatalogTable := ''pg_cast''\<rparr>,
      no_params\<lparr>mq_ObjectType := ''COLLATION'', NameField := ''collname'', OidField := ''oid'', SchemaField := ''collnamespace'', OwnerField := ''collowner'', CatalogTable := ''pg_collation''\<rparr>,
      no_params\<lparr>mq_ObjectType := ''CONSTRAINT'', NameField := ''conname'', SchemaField := ''connamespace'', OidField := ''oid'', CatalogTable := ''pg_constraint''\<rparr>,
      no_params\<lparr>mq_ObjectType := ''CONVERSION'', NameField := ''conname'', OidField := ''oid'', SchemaField := ''connamespace'', OwnerField := ''conowner'', CatalogTable := ''pg_conversion''\<rparr>,
      no_params\<lparr>mq_ObjectType := ''DATABASE'', NameField := ''datname'', ACLField := ''datacl'', OwnerField := ''datdba'', CatalogTable := ''pg_database'', Shared := True\<rparr>,
      no_params\<lparr>mq_ObjectType := ''EVENT TRIGGER'', NameField := ''evtname'', OidField := ''oid'', OwnerField := ''evtowner'', CatalogTable := ''pg_event_trigger''\<rparr>,
      no_params\<lparr>mq_ObjectType := ''EXTENSION'', NameField := ''extname'', OidField := ''oid'', CatalogTable := ''pg_extension''\<rparr>,
      no_params\<lparr>mq_ObjectType := ''FOREIGN DATA WRAPPER'', NameField := ''fdwname'', ACLField := ''fdwacl'', OwnerField := ''fdwowner'', CatalogTable := ''pg_foreign_data_wrapper''\<rparr>,
      no_params\<lparr>mq_ObjectType := ''SERVER'', NameField := ''srvname'', ACLField := ''srvacl'', OwnerField := ''srvowner'', CatalogTable := ''pg_foreign_server''\<rparr>,
      no_params\<lparr>mq_ObjectType := ''FUNCTION'', NameField := ''proname'', SchemaField := ''pronamespace'', ACLField := ''proacl'', OwnerField := ''proowner'',
        CatalogTable := ''pg_proc'', FilterClause := (if at7 then ''prokind <> '' @ in_quotes ''a'' else ''proisagg = '' @ in_quotes ''f'')\<rparr>,
      no_params\<lparr>mq_ObjectType := ''INDEX'', NameField := ''relname'', OidField := ''indexrelid'', OidTable := ''pg_class'', CommentTable := ''pg_class'', CatalogTable := ''pg_index''\<rparr>,
      no_params\<lparr>mq_ObjectType := ''LANGUAGE'', NameField := ''lanname'', ACLField := ''lanacl'', CatalogTable := ''pg_language'',
        OwnerField := (if old5 then ''10'' else ''lanowner'')\<rparr>,
      no_params\<lparr>mq_ObjectType := ''OPERATOR'', NameField := ''oprname'', SchemaField := ''oprnamespace'', OidField := ''oid'', OwnerField := ''oprowner'', CatalogTable := ''pg_operator''\<rparr>,
      no_params\<lparr>mq_ObjectType := ''OPERATOR CLASS'', NameField := ''opcname'', SchemaField := ''opcnamespace'', OidField := ''oid'', OwnerField := ''opcowner'', CatalogTable := ''pg_opclass''\<rparr>,
      no_params\<lparr>mq_ObjectType := ''OPERATOR FAMILY'', NameField := ''opfname'', SchemaField := ''opfnamespace'', OidField := ''oid'', OwnerField := ''opfowner'', CatalogTable := ''pg_opfamily''\<rparr>,
      no_params\<lparr>mq_ObjectType := ''PROTOCOL'', NameField := ''ptcname'', ACLField := ''ptcacl'', OwnerField := ''ptcowner'', CatalogTable := ''pg_extprotocol''\<rparr>,
      no_params\<lparr>mq_ObjectType := ''RELATION'', NameField := ''relname'', SchemaField := ''relnamespace'', ACLField := ''relacl'', OwnerField := ''relowner'', CatalogTable := ''pg_class''\<rparr>,
      no_params\<lparr>mq_ObjectType := ''RESOURCE GROUP'', NameField := ''rsgname'', OidField := ''oid'', CatalogTable := ''pg_resgroup'', Shared := True\<rparr>,
      no_params\<lparr>mq_ObjectType := ''RESOURCE QUEUE'', NameField := ''rsqname'', OidField := ''oid'', CatalogTable := ''pg_resqueue'', Shared := True\<rparr>,
      no_params\<lparr>mq_ObjectType := ''ROLE'', NameField := ''rolname'', OidField := ''oid'', CatalogTable := ''pg_authid'', Shared := True\<rparr>,
      no_params\<lparr>mq_ObjectType := ''RULE'', NameField := ''rulename'', OidField := ''oid'', CatalogTable := ''pg_rewrite''\<rparr>,
      no_params\<lparr>mq_ObjectType := ''SCHEMA'', NameField := ''nspname'', ACLField := ''nspacl'', OwnerField := ''nspowner'', CatalogTable := ''pg_namespace''\<rparr>,
      no_params\<lparr>mq_ObjectType := ''STATISTIC_EXT'', NameField := ''stxname'', OwnerField := ''stxowner'', CatalogTable := ''pg_statistic_ext''\<rparr>,
      no_params\<lparr>mq_ObjectType := ''TABLESPACE'', NameField := ''spcname'', ACLField := ''spcacl'', OwnerField := ''spcowner'', CatalogTable := ''pg_tablespace'', Shared := True\<rparr>,
      no_params\<lparr>mq_ObjectType := ''TRANSFORM'', CatalogTable := ''pg_transform''\<rparr>,
      no_params\<lparr>mq_ObjectType := ''TEXT SEARCH CONFIGURATION'', NameField := ''cfgname'', OidField := ''oid'', SchemaField := ''cfgnamespace'', OwnerField := ''cfgowner'', CatalogTable := ''pg_ts_config''\<rparr>,
      no_params\<lparr>mq_ObjectType := ''TEXT SEARCH DICTIONARY'', NameField := ''dictname'', OidField := ''oid'', SchemaField := ''dictnamespace'', OwnerField := ''dictowner'', CatalogTable := ''pg_ts_dict''\<rparr>,
      no_params\<lparr>mq_ObjectType := ''TEXT SEARCH PARSER'', NameField := ''prsname'', OidField := ''oid'', SchemaField := ''prsnamespace'', CatalogTable := ''pg_ts_parser''\<rparr>,
      no_params\<lparr>mq_ObjectType := ''TEXT SEARCH TEMPLATE'', NameField := ''tmplname'', OidField := ''oid'', SchemaField := ''tmplnamespace'', CatalogTable := ''pg_ts_template''\<rparr>,
      no_params\<lparr>mq_ObjectType := ''TRIGGER'', NameField := ''tgname'', OidField := ''oid'', CatalogTable := ''pg_trigger''\<rparr>,
      no_params\<lparr>mq_ObjectType := ''TYPE'', NameField := ''typname'', SchemaField := ''typnamespace'', OwnerField := ''typowner'', CatalogTable := ''pg_type'',
        ACLField := text_if at6 ''typacl''\<rparr>])))"

definition params_of :: "'a acl_env_scheme \<Rightarrow> string \<Rightarrow> MetadataQueryParams res" where
  "params_of env objectType =
     rbind (InitializeMetadataParams env) (\<lambda>ps. Inr (case find (\<lambda>p. mq_ObjectType p = objectType) ps of None \<Rightarrow> no_params | Some p \<Rightarrow> p))"

abbreviation QQ :: string where "QQ \<equiv> [SQ, SQ]"

definition metadata_query :: "'a acl_env_scheme \<Rightarrow> filters \<Rightarrow> MetadataQueryParams \<Rightarrow> string res" where
  "metadata_query env flt params =
     rbind (if ACLField params \<noteq> [] then src_at_least env ''7'' else Inr False) (\<lambda>at7.
     rbind (src_at_least env ''6'') (\<lambda>at6.
       let tableName = CatalogTable params; acl = ACLField params;
           nameCol = (if NameField params \<noteq> [] then NameField params else QQ);
           aclLateralJoin = (if acl \<noteq> [] \<and> at7 then concat [''LEFT JOIN LATERAL unnest(o.'', acl, '') ljl_unnest ON o.'', acl, '' IS NOT NULL AND array_length(o.'', acl, '', 1) != 0''] else []);
           aclCols = (if acl = [] then QQ else if at7 then ''ljl_unnest''
             else concat [''CASE
			WHEN '', acl, '' IS NULL THEN NULL
			WHEN array_upper('', acl, '', 1) = 0 THEN '', acl, ''[0]
			ELSE unnest('', acl, '') END'']);
           kindCol = (if acl = [] then QQ
             else concat [''CASE
		WHEN '', acl, '' IS NULL THEN '', [SQ, SQ], ''
		WHEN array_upper('', acl, '', 1) = 0 THEN 'Empty'
		ELSE '', [SQ, SQ], '' END'']);
           schemaCol = (if SchemaField params \<noteq> [] then ''n.nspname'' else QQ);
           schemaJoin = text_if (SchemaField params \<noteq> []) (''JOIN pg_namespace n ON o.'' @ SchemaField params @ '' = n.oid'');
           schemaFilter = (if SchemaField params \<noteq> [] then SchemaFilterClause flt ''n'' else ''1 = 1'');
           descTable = (if Shared params then ''pg_shdescription'' else ''pg_description'');
           subidFilter = text_if (\<not> Shared params) '' AND d.objsubid = 0'';
           ownerCol = (if OwnerField params \<noteq> [] then ''quote_ident(pg_get_userbyid('' @ OwnerField params @ ''))'' else QQ);
           secCols = (if at6 then concat [''coalesce(sec.label,'', [SQ, SQ], '') AS securitylabel,
		coalesce(sec.provider, '', [SQ, SQ], '') AS securitylabelprovider,''] else []);
           secTable = (if Shared params then ''pg_shseclabel'' else ''pg_seclabel'');
           secSubidFilter = text_if (\<not> Shared params) '' AND sec.objsubid = 0'';
           secJoin = (if at6 then concat ['' LEFT JOIN '', secTable, '' sec ON (sec.objoid = o.oid AND sec.classoid = '', [SQ], tableName, [SQ], ''::regclass'', secSubidFilter, '')''] else []);
           filterClause = schemaFilter @ text_if (FilterClause params \<noteq> []) ('' AND '' @ FilterClause params)
       in Inr (concat [''
		SELECT
		'', [SQ], mq_ObjectType params, [SQ], '' AS objecttype,
		'', [SQ], tableName, [SQ], ''::regclass::oid AS classid,
		o.oid,
		coalesce(quote_ident('', nameCol, ''),'', [SQ, SQ], '') AS name,
		'', kindCol, '' AS kind,
		coalesce(quote_ident('', schemaCol, ''),'', [SQ, SQ], '') AS schema,
		'', ownerCol, '' AS owner,
		'', aclCols, '' AS privileges,
		'', secCols, ''
		coalesce(description,'', [SQ, SQ], '') AS comment
	FROM '', tableName, '' o LEFT JOIN '', descTable, '' d ON (d.objoid = o.oid AND d.classoid = '', [SQ], tableName, [SQ], ''::regclass'', subidFilter, '')
		'', schemaJoin @ secJoin, ''
		'', aclLateralJoin, ''
	WHERE '', filterClause, ''
	ORDER BY o.oid''])))"

definition GetMetadataForObjectType :: "'a acl_env_scheme \<Rightarrow> filters \<Rightarrow> (string, string) gomap \<Rightarrow> (string \<Rightarrow> MetadataQueryStruct list res) \<Rightarrow> string \<Rightarrow> MetadataMap res" where
  "GetMetadataForObjectType env flt quotedRoles select objectType =
     rbind (params_of env objectType) (\<lambda>params.
     rbind (metadata_query env flt params) (\<lambda>query.
     rbind (must_select select query) (\<lambda>rows. Inr (ConstructMetadataMap quotedRoles rows))))"

definition comments_query :: "filters \<Rightarrow> MetadataQueryParams \<Rightarrow> string" where
  "comments_query flt params =
     (let joinStr = text_if (SchemaField params \<noteq> []) (''JOIN pg_namespace n ON o.'' @ SchemaField params @ '' = n.oid'');
          descTable = (if Shared params then ''pg_shdescription'' else ''pg_description'');
          subidStr = text_if (\<not> Shared params) '' AND d.objsubid = 0'';
          commentTable = (if CommentTable params \<noteq> [] then CommentTable params else CatalogTable params);
          selectClause = concat [''
	SELECT '', [SQ], CatalogTable params, [SQ], ''::regclass::oid AS classid,
		o.'', OidField params, '' AS oid,
		coalesce(description,'', [SQ, SQ], '') AS comment
		''];
          fromClause = concat [''
	FROM '', CatalogTable params, '' o
		JOIN '', descTable, '' d ON (d.objoid = '', OidField params, '' AND d.classoid = '', [SQ], commentTable, [SQ], ''::regclass'', subidStr, '')
		'', joinStr];
          whereClause = NL @ ''WHERE o.'' @ OidField params @ '' >= '' @ FIRST_NORMAL_OBJECT_ID @
            text_if (SchemaField params \<noteq> []) ('' AND '' @ SchemaFilterClause flt ''n'')
      in selectClause @ fromClause @ whereClause)"

record comment_row =
  cr_UniqueID :: UniqueID
  cr_Comment :: string

definition GetCommentsForObjectType :: "'a acl_env_scheme \<Rightarrow> filters \<Rightarrow> (string \<Rightarrow> comment_row list res) \<Rightarrow> string \<Rightarrow> MetadataMap res" where
  "GetCommentsForObjectType env flt select objectType =
     rbind (params_of env objectType) (\<lambda>params.
     rbind (must_select select (comments_query flt params)) (\<lambda>rows.
       Inr (index_by cr_UniqueID (\<lambda>r. no_metadata\<lparr>om_ObjectType := mq_ObjectType params, Comment := cr_Comment r\<rparr>) rows)))"

definition GetDefaultPrivileges :: "'a acl_env_scheme \<Rightarrow> (string, string) gomap \<Rightarrow> (string \<Rightarrow> DefaultPrivilegesQueryStruct list res) \<Rightarrow> DefaultPrivileges list res" where
  "GetDefaultPrivileges env quotedRoles select =
     rbind (src_at_least env ''7'') (\<lambda>at7.
       let aclLateralJoin = (if at7 then ''LEFT JOIN LATERAL unnest(a.defaclacl) ljl_unnest ON a.defaclacl IS NOT NULL AND array_length(a.defaclacl, 1) != 0'' else []);
           aclCols = (if at7 then ''ljl_unnest'' else ''CASE
			WHEN a.defaclacl IS NULL THEN NULL
			WHEN array_upper(a.defaclacl, 1) = 0 THEN a.defaclacl[0]
			ELSE unnest(a.defaclacl) END'')
       in rbind (must_select select (concat [''
	SELECT a.oid,
		quote_ident(r.rolname) AS owner,
		coalesce(quote_ident(n.nspname),'', [SQ, SQ], '') AS schema,
		'', aclCols, '' AS privileges,
		CASE
			WHEN a.defaclacl IS NULL THEN '', [SQ, SQ], ''
			WHEN array_upper(a.defaclacl, 1) = 0 THEN 'Empty'
			ELSE '', [SQ, SQ], ''
		END AS kind,
		a.defaclobjtype AS objecttype
	FROM pg_default_acl a
		JOIN pg_roles r ON r.oid = a.defaclrole
		LEFT JOIN pg_namespace n ON n.oid = a.defaclnamespace
		'', aclLateralJoin, ''
	ORDER BY n.nspname, a.defaclobjtype, r.rolname''])) (\<lambda>rows.
            Inr (ConstructDefaultPrivileges quotedRoles rows)))"

record role_name_row =
  rn_RoleName :: string
  rn_QuotedRoleName :: string

definition getQuotedRoleNames :: "(string \<Rightarrow> role_name_row list res) \<Rightarrow> (string, string) gomap res" where
  "getQuotedRoleNames select =
     rbind (must_select select (''
		SELECT rolname AS rolename, quote_ident(rolname) AS quotedrolename FROM pg_authid'')) (\<lambda>rows.
       Inr (index_by rn_RoleName rn_QuotedRoleName rows))"

end
