(* ===== verification/Migration.thy ===== *)
theory Migration
  imports Extract Restore Queries
begin

text \<open>
  \<open>src/meta/builtin/builtin.go\<close>: one database is migrated by extracting the definitions into the
  metadata file and restoring them from it. \<open>BuiltinMeta\<close> holds what belongs to one database; the
  package variables that \<open>Open\<close> resets are the record \<open>meta_vars\<close>. The restore of the dependent objects
  runs in parallel (\<open>restore_step\<close> of \<open>Restore\<close>), so the restore of the predata is a relation.

  The results connect the two halves: which step of the restore executes which statement, that the
  dependent objects keep the order of the extraction, and that types do not.
\<close>

section \<open>One database\<close>

record BuiltinMeta =
  Timestamp :: string
  WithGlobal :: bool
  MetaOnly :: bool
  PartNameMap :: "(string, string list) gomap"
  TableMap :: "(string, string) gomap"
  OwnerMap :: "(string, string) gomap"
  TablespaceMap :: "(string, string) gomap"
  MetaFile :: string
  TocFile :: string

definition NewBuiltinMeta :: "bool \<Rightarrow> bool \<Rightarrow> string \<Rightarrow> (string, string list) gomap \<Rightarrow> (string, string) gomap \<Rightarrow> (string, string) gomap \<Rightarrow>
    (string, string) gomap \<Rightarrow> BuiltinMeta" where
  "NewBuiltinMeta withGlobal metaOnly stamp parts tabs owners spaces =
     \<lparr>Timestamp = stamp, WithGlobal = withGlobal, MetaOnly = metaOnly, PartNameMap = parts, TableMap = tabs,
      OwnerMap = owners, TablespaceMap = spaces, MetaFile = [], TocFile = []\<rparr>"

record meta_vars =
  metadataParams :: "MetadataQueryParams list"
  destDBVersion :: GPDBVersion
  srcDbName :: string
  destDbName :: string
  globalTOC :: TOC
  quotedRoleNames :: "(string, string) gomap"
  metaFilters :: filters
  metaCounts :: "(string, int) gomap"
  errorTables :: "(string, unit) gomap"
  redirectSchema :: "(string, string) gomap"
  inclDestSchema :: string
  ownerMap :: "(string, string) gomap"
  destTablespaces :: "string \<times> (string, string) gomap"

definition Open :: "'a acl_env_scheme \<Rightarrow> (string \<Rightarrow> role_name_row list res) \<Rightarrow> string \<Rightarrow> string \<Rightarrow> GPDBVersion \<Rightarrow> BuiltinMeta \<Rightarrow> meta_vars res" where
  "Open src select_roles srcName destName destVersion b =
     rbind (InitializeMetadataParams src) (\<lambda>params.
     rbind (getQuotedRoleNames select_roles) (\<lambda>roles.
       Inr \<lparr>metadataParams = params, destDBVersion = destVersion, srcDbName = srcName, destDbName = destName, globalTOC = empty_TOC,
         quotedRoleNames = roles,
         metaFilters = \<lparr>filterRelationClause = [], includeRelations = [], excludeRelations = [], includeSchemas = [], excludeSchemas = []\<rparr>,
         metaCounts = [], errorTables = [], redirectSchema = [], inclDestSchema = [], ownerMap = OwnerMap b,
         destTablespaces = TransformTablespace (TablespaceMap b)\<rparr>))"

text \<open>The schemas to copy, with their new names if there are any.\<close>

fun redirect_schemas :: "DbSchema list \<Rightarrow> DbSchema list \<Rightarrow> nat \<Rightarrow> meta_vars \<Rightarrow> meta_vars res" where
  "redirect_schemas [] dschemas i v = Inr v"
| "redirect_schemas (s # ss) dschemas i v =
     rbind (if dschemas \<noteq> [] then rbind (go_index dschemas i) (\<lambda>d.
              Inr (v\<lparr>redirectSchema := go_set (ds_Schema s) (ds_Schema d) (redirectSchema v)\<rparr>)) else Inr v) (\<lambda>v.
     redirect_schemas ss dschemas (Suc i) (v\<lparr>metaFilters := (metaFilters v)\<lparr>includeSchemas := includeSchemas (metaFilters v) @ [ds_Schema s]\<rparr>\<rparr>))"

definition include_tables :: "DbSchema list \<Rightarrow> string list \<Rightarrow> string list \<Rightarrow> meta_vars \<Rightarrow> meta_vars" where
  "include_tables dschemas sschemas tables v =
     (let f = metaFilters v;
          v = v\<lparr>metaFilters := f\<lparr>includeSchemas := includeSchemas f @ sschemas, includeRelations := includeRelations f @ tables\<rparr>\<rparr>
      in if dschemas \<noteq> [] then v\<lparr>inclDestSchema := ds_Schema (hd dschemas)\<rparr> else v)"

definition metaFileName :: "string \<Rightarrow> string \<Rightarrow> string" where
  "metaFileName home stamp = home @ ''/gpAdminLogs/cbcopy_meta_'' @ stamp"

definition tocFileName :: "string \<Rightarrow> string \<Rightarrow> string" where
  "tocFileName home stamp = home @ ''/gpAdminLogs/cbcopy_toc_'' @ stamp"

definition backup_names :: "meta_vars \<Rightarrow> BuiltinMeta \<Rightarrow> (string \<times> string) list" where
  "backup_names v b =
     (let suffix = ''.'' @ srcDbName v @ ''.'' @ destDbName v @ ''.bk''
      in if MetaFile b \<noteq> [] \<and> TocFile b \<noteq> [] then [(MetaFile b, MetaFile b @ suffix), (TocFile b, TocFile b @ suffix)] else [])"

text \<open>Both connections are closed; the files are kept under other names.\<close>

definition Close_meta :: "'db driver \<Rightarrow> 'dc driver \<Rightarrow> meta_vars \<Rightarrow> BuiltinMeta \<Rightarrow> 'db DBConn \<Rightarrow> 'dc DBConn \<Rightarrow>
    (string \<times> string) list \<times> 'db DBConn \<times> 'dc DBConn" where
  "Close_meta sdrv ddrv v b src dest = (backup_names v b, Close sdrv src, Close ddrv dest)"

section \<open>Restoring\<close>

definition global_types :: "string list" where
  "global_types = [''SESSION GUCS'', ''DATABASE GUC'', ''DATABASE METADATA'', ''RESOURCE QUEUE'', ''RESOURCE GROUP'', ''ROLE'',
     ''ROLE GUCS'', ''ROLE GRANT'', ''TABLESPACE'']"

definition restoreGlobal :: "'db driver \<Rightarrow> TOC \<Rightarrow> string \<Rightarrow> string \<Rightarrow> 'db DBConn \<times> exec_state \<Rightarrow> ('db DBConn \<times> exec_state) res" where
  "restoreGlobal drv toc file user s =
     rbind (GetRestoreMetadataStatements toc ''global'' file global_types []) (\<lambda>sts.
       ExecuteRestoreMetadataStatements drv (RemoveActiveRole user sts) s)"

text \<open>The bars of the statements and of the tables, by their totals; a missing bar is \<open>nil\<close>.\<close>

definition initlizeProgressBar :: "nat \<Rightarrow> nat \<Rightarrow> bool \<Rightarrow> nat option \<times> nat option" where
  "initlizeProgressBar numStmts numTables metaonly =
     (let pgsm = (if numStmts > 0 then Some numStmts else None)
      in if \<not> metaonly \<and> numTables > 0 then (pgsm, Some numTables) else (pgsm, pgsm))"

text \<open>\<open>executeDDL\<close> up to the start of \<open>restorePredata\<close>: the schema statements, the bars and the connection.\<close>

definition executeDDL :: "'db driver \<Rightarrow> TOC \<Rightarrow> string \<Rightarrow> string \<Rightarrow> BuiltinMeta \<Rightarrow> 'db DBConn \<times> exec_state \<Rightarrow>
    (StatementWithType list \<times> (nat option \<times> nat option) \<times> 'db DBConn \<times> exec_state) res" where
  "executeDDL drv toc file user b s =
     rbind (if WithGlobal b then restoreGlobal drv toc file user s else Inr s) (\<lambda>s.
     let flt = NewFilters [] [] [] [] in
     rbind (GetRestoreMetadataStatementsFiltered toc ''predata'' file [''SCHEMA''] [] flt) (\<lambda>schemaStatements.
     rbind (GetRestoreMetadataStatementsFiltered toc ''predata'' file [] [''SCHEMA''] flt) (\<lambda>sts.
       Inr (schemaStatements, initlizeProgressBar (length schemaStatements + length sts) (length (TableMap b)) (MetaOnly b), s))))"

text \<open>
  The three ways to copy metadata: extract with the filters of the mode, then restore the globals and
  start the restore. \<open>extract\<close> is \<open>extracted_file\<close> with its parameters: it yields the table of contents
  and the text of the metadata file.
\<close>

type_synonym extractor = "string list \<Rightarrow> string list \<Rightarrow> bool \<Rightarrow> meta_vars \<Rightarrow> (TOC \<times> string) res"

type_synonym 'db started = "StatementWithType list \<times> (nat option \<times> nat option) \<times> 'db DBConn \<times> exec_state"

definition extracted_file :: "print_env \<Rightarrow> orders \<Rightarrow> catalog \<Rightarrow> skip_env \<Rightarrow> BuiltinMeta \<Rightarrow> extractor" where
  "extracted_file env ord c senv b inSchemas inTables tableOnly v =
     rbind (extractDDL env ord c senv (srcDbName v) (WithGlobal b) inSchemas inTables tableOnly
       \<lparr>x_out = (empty_file, globalTOC v), x_objects = [], x_metadata = [], objectCounts = metaCounts v\<rparr>) (\<lambda>s.
       Inr (snd (x_out s), contents (fst (x_out s))))"

definition extract_and_execute :: "'db driver \<Rightarrow> string \<Rightarrow> BuiltinMeta \<Rightarrow> extractor \<Rightarrow> string list \<Rightarrow> string list \<Rightarrow> bool \<Rightarrow> meta_vars \<Rightarrow>
    'db DBConn \<times> exec_state \<Rightarrow> ('db started \<times> meta_vars) res" where
  "extract_and_execute drv user b extract inSchemas inTables tableOnly v s =
     rbind (extract inSchemas inTables tableOnly v) (\<lambda>(toc, mfile).
     rbind (executeDDL drv toc mfile user b s) (\<lambda>started. Inr (started, v)))"

definition CopyDatabaseMetaData :: "'db driver \<Rightarrow> string \<Rightarrow> BuiltinMeta \<Rightarrow> extractor \<Rightarrow> meta_vars \<Rightarrow> 'db DBConn \<times> exec_state \<Rightarrow>
    ('db started \<times> meta_vars) res" where
  "CopyDatabaseMetaData drv user b extract v s = extract_and_execute drv user b extract [] [] False v s"

definition CopySchemaMetaData :: "'db driver \<Rightarrow> string \<Rightarrow> BuiltinMeta \<Rightarrow> extractor \<Rightarrow> DbSchema list \<Rightarrow> DbSchema list \<Rightarrow> meta_vars \<Rightarrow>
    'db DBConn \<times> exec_state \<Rightarrow> ('db started \<times> meta_vars) res" where
  "CopySchemaMetaData drv user b extract sschemas dschemas v s =
     rbind (redirect_schemas sschemas dschemas 0 v) (\<lambda>v.
       extract_and_execute drv user b extract (includeSchemas (metaFilters v)) [] False v s)"

definition CopyTableMetaData :: "'db driver \<Rightarrow> string \<Rightarrow> BuiltinMeta \<Rightarrow> extractor \<Rightarrow> DbSchema list \<Rightarrow> string list \<Rightarrow> string list \<Rightarrow> meta_vars \<Rightarrow>
    'db DBConn \<times> exec_state \<Rightarrow> ('db started \<times> meta_vars) res" where
  "CopyTableMetaData drv user b extract dschemas sschemas tables v s =
     (let v = include_tables dschemas sschemas tables v
      in extract_and_execute drv user b extract (includeSchemas (metaFilters v)) (includeRelations (metaFilters v)) True v s)"

fun restore_types :: "'db driver \<Rightarrow> TOC \<Rightarrow> string \<Rightarrow> (string, string) gomap \<Rightarrow> string \<Rightarrow> string list \<Rightarrow>
    'db DBConn \<times> exec_state \<Rightarrow> ('db DBConn \<times> exec_state) res" where
  "restore_types drv toc file redirect incl [] s = Inr s"
| "restore_types drv toc file redirect incl (t # ts) s =
     rbind (restore_type drv toc file redirect incl t s) (restore_types drv toc file redirect incl ts)"

definition early_types :: "string list" where
  "early_types = [''EXTENSION'', ''COLLATION'', ''TYPE'', ''OPERATOR FAMILY'', ''SEQUENCE'']"

definition late_types :: "string list" where
  "late_types = [''LANGUAGE'', ''EXCHANGE PARTITION'', ''SEQUENCE OWNER'', ''CONVERSION'', ''CONSTRAINT'']"

text \<open>
  A run of the scheduler on the server: a worker executes a statement on its connection. A panic
  ends the program, so it is not a step.
\<close>

definition survives :: "'a res \<Rightarrow> bool" where
  "survives r \<longleftrightarrow> (case r of Inl (Error e) \<Rightarrow> True | Inl _ \<Rightarrow> False | Inr _ \<Rightarrow> True)"

inductive dependent_run :: "'db driver \<Rightarrow> bool \<Rightarrow> (string, string list) gomap \<Rightarrow> DependencyMap \<Rightarrow> nat \<Rightarrow> StatementWithType list \<Rightarrow>
    (string, string) gomap \<Rightarrow> 'db DBConn \<Rightarrow> restore_state \<Rightarrow> 'db DBConn \<Rightarrow> bool" for drv gp7 pm deps n rs tm d where
  run_start: "dependent_run drv gp7 pm deps n rs tm d (ExecuteDependentStatements tm) d"
| run_schedule: "dependent_run drv gp7 pm deps n rs tm d s d' \<Longrightarrow> restore_step gp7 pm deps n rs s t \<Longrightarrow> finished t = finished s \<Longrightarrow>
    dependent_run drv gp7 pm deps n rs tm d t d'"
| run_execute: "dependent_run drv gp7 pm deps n rs tm d s d' \<Longrightarrow> i \<in> set (executing s) \<Longrightarrow> w < n \<Longrightarrow>
    Exec drv (Statement (rs ! i)) [int w] d' = (r, d'') \<Longrightarrow> survives r \<Longrightarrow>
    after_statement gp7 pm (rs ! i) (tabMap s) = Inr (tps, tm') \<Longrightarrow>
    dependent_run drv gp7 pm deps n rs tm d
      (s\<lparr>executing := remove1 i (executing s), counts := note_result (rs ! i) r (counts s), tabMap := tm',
         tablec := tablec s @ tps, runningTasks := go_delete i (runningTasks s), finished := finished s @ [i]\<rparr>) d''"

definition join_counts :: "exec_state \<Rightarrow> exec_state \<Rightarrow> exec_state" where
  "join_counts a b = \<lparr>numErrors = numErrors a + numErrors b,
     errorTablesMetadata = foldl (\<lambda>m (k, u). go_set k u m) (errorTablesMetadata a) (errorTablesMetadata b), restored = restored a + restored b\<rparr>"

text \<open>\<open>restorePredata\<close>, run to its end: the connection, the errors and the tables sent before the channel is closed.\<close>

inductive restorePredata :: "'db driver \<Rightarrow> bool \<Rightarrow> DependencyMap \<Rightarrow> TOC \<Rightarrow> string \<Rightarrow> (string, string) gomap \<Rightarrow> string \<Rightarrow>
    (string, string list) gomap \<Rightarrow> (string, string) gomap \<Rightarrow> StatementWithType list \<Rightarrow> 'db DBConn \<times> exec_state \<Rightarrow>
    'db DBConn \<times> exec_state \<Rightarrow> TablePair list \<Rightarrow> bool" for drv gp7 deps toc mfile redirect incl pm tm schemas where
  "RestoreSchemas drv redirect incl schemas d = Inr (d1, errs) \<Longrightarrow>
   restore_types drv toc mfile redirect incl early_types (d1, es) = Inr (d2, es2) \<Longrightarrow>
   GetRestoreMetadataStatements toc ''predata'' mfile [] dependent_excludes = Inr rs \<Longrightarrow>
   dependent_run drv gp7 pm deps (NumConns d2) (editStatementsRedirectSchema redirect incl False rs) tm d2 s d3 \<Longrightarrow>
   length (finished s) = length rs \<Longrightarrow>
   restore_types drv toc mfile redirect incl late_types (d3, join_counts es2 (counts s)) = Inr (d4, es4) \<Longrightarrow>
   mset entries = mset (tabMap s) \<Longrightarrow> RestoreCleanup entries = Inr rest \<Longrightarrow>
   restorePredata drv gp7 deps toc mfile redirect incl pm tm schemas (d, es) (d4, es4) (tablec s @ rest)"

text \<open>
  \<open>ExecuteStatements\<close> in parallel: every worker receives a statement from the channel and executes it
  on its own connection.
\<close>

record 'db pool =
  waiting :: "StatementWithType list"
  busy :: "(nat \<times> StatementWithType) list"
  pool_conn :: "'db DBConn"
  pool_counts :: exec_state

inductive pool_step :: "'db driver \<Rightarrow> nat \<Rightarrow> 'db pool \<Rightarrow> 'db pool \<Rightarrow> bool" for drv n where
  pool_receive: "waiting p = st # sts \<Longrightarrow> w < n \<Longrightarrow> w \<notin> fst ` set (busy p) \<Longrightarrow>
    pool_step drv n p (p\<lparr>waiting := sts, busy := (w, st) # busy p\<rparr>)"
| pool_execute: "(w, st) \<in> set (busy p) \<Longrightarrow> Exec drv (Statement st) [int w] (pool_conn p) = (r, d') \<Longrightarrow> survives r \<Longrightarrow>
    pool_step drv n p (p\<lparr>busy := remove1 (w, st) (busy p), pool_conn := d', pool_counts := note_result st r (pool_counts p)\<rparr>)"

inductive ExecuteStatements :: "'db driver \<Rightarrow> bool \<Rightarrow> StatementWithType list \<Rightarrow> 'db DBConn \<times> exec_state \<Rightarrow> 'db DBConn \<times> exec_state \<Rightarrow> bool"
  for drv where
  execute_serial: "executeStatementsForConn drv [] sts s = Inr t \<Longrightarrow> ExecuteStatements drv False sts s t"
| execute_parallel: "(pool_step drv (NumConns d))\<^sup>*\<^sup>* \<lparr>waiting = sts, busy = [], pool_conn = d, pool_counts = es\<rparr>
     \<lparr>waiting = [], busy = [], pool_conn = d', pool_counts = es'\<rparr> \<Longrightarrow>
   ExecuteStatements drv True sts (d, es) (d', es')"

definition run_batch :: "'db driver \<Rightarrow> StatementWithType list \<Rightarrow> 'db DBConn \<times> exec_state \<Rightarrow> 'db DBConn \<times> exec_state \<Rightarrow> bool" where
  "run_batch drv sts s t \<longleftrightarrow> (if length sts = 0 then t = s else ExecuteStatements drv (NumConns (fst s) > 1) sts s t)"

inductive restorePostdata :: "'db driver \<Rightarrow> TOC \<Rightarrow> string \<Rightarrow> (string, string) gomap \<Rightarrow> string \<Rightarrow> 'db DBConn \<times> exec_state \<Rightarrow>
    'db DBConn \<times> exec_state \<Rightarrow> bool" for drv toc mfile redirect incl where
  "GetRestoreMetadataStatementsFiltered toc ''postdata'' mfile [] [] (NewFilters [] [] [] []) = Inr sts \<Longrightarrow>
   BatchPostdataStatements (editStatementsRedirectSchema redirect incl False sts) = (first, second, third) \<Longrightarrow>
   run_batch drv first s0 s1 \<Longrightarrow> run_batch drv second s1 s2 \<Longrightarrow> run_batch drv third s2 s3 \<Longrightarrow>
   restorePostdata drv toc mfile redirect incl s0 s3"

definition CopyPostData :: "'db driver \<Rightarrow> TOC \<Rightarrow> string \<Rightarrow> meta_vars \<Rightarrow> 'db DBConn \<times> exec_state \<Rightarrow> 'db DBConn \<times> exec_state \<Rightarrow> bool" where
  "CopyPostData drv toc mfile v = restorePostdata drv toc mfile (redirectSchema v) (inclDestSchema v)"

definition GetErrorTableMetaData :: "exec_state \<Rightarrow> (string, unit) gomap" where
  "GetErrorTableMetaData s = errorTablesMetadata s"

text \<open>The session settings are read once and executed on one connection after the other.\<close>

definition setGUCsForConnection :: "'db driver \<Rightarrow> TOC \<Rightarrow> string \<Rightarrow> StatementWithType list option \<Rightarrow> int \<Rightarrow> 'db DBConn \<times> exec_state \<Rightarrow>
    (StatementWithType list \<times> 'db DBConn \<times> exec_state) res" where
  "setGUCsForConnection drv toc mfile gucs whichConn s =
     rbind (case gucs of None \<Rightarrow> GetRestoreMetadataStatements toc ''global'' mfile [''SESSION GUCS''] [] | Some sts \<Rightarrow> Inr sts) (\<lambda>sts.
     rbind (executeStatementsForConn drv [whichConn] sts s) (\<lambda>s. Inr (sts, s)))"

section \<open>What the server executes\<close>

definition executed :: "event list \<Rightarrow> string list" where
  "executed l = concat (map (\<lambda>e. case e of Ev_exec w q \<Rightarrow> [q] | _ \<Rightarrow> []) l)"

text \<open>Between the two states the texts \<open>qs\<close> were executed, in this order, and nothing else changed.\<close>

definition ran :: "('db \<times> event list) DBConn \<Rightarrow> string list \<Rightarrow> ('db \<times> event list) DBConn \<Rightarrow> bool" where
  "ran d qs d' \<longleftrightarrow> Tx d' = Tx d \<and> NumConns d' = NumConns d \<and> executed (log_of d') = executed (log_of d) @ qs"

abbreviation texts :: "StatementWithType list \<Rightarrow> string list" where
  "texts \<equiv> map Statement"

definition pool_ok :: "'db DBConn \<Rightarrow> bool" where
  "pool_ok d \<longleftrightarrow> 0 < NumConns d \<and> NumConns d \<le> length (Tx d)"

lemma pool_ok_conn: "pool_ok d \<Longrightarrow> w < NumConns d \<Longrightarrow> conn_ok w d"
  by (simp add: pool_ok_def conn_ok_def)

lemma ran_refl [simp]: "ran d [] d"
  by (simp add: ran_def)

lemma ran_trans: "ran a xs b \<Longrightarrow> ran b ys c \<Longrightarrow> ran a (xs @ ys) c"
  by (simp add: ran_def)

lemma ran_ok: "ran d qs d' \<Longrightarrow> pool_ok d' = pool_ok d" "ran d qs d' \<Longrightarrow> NumConns d' = NumConns d"
  by (simp_all add: ran_def pool_ok_def)

lemma Exec_ran:
  assumes "pool_ok d" and "w < NumConns d" and "Exec (traced drv) q [int w] d = (r, d')"
  shows "ran d [q] d'"
  using Exec_traced[OF pool_ok_conn[OF assms(1,2)], of drv q] assms(3) by (simp add: ran_def executed_def)

lemma Exec_default: "Exec drv q [] d = Exec drv q [int 0] d" if "pool_ok d"
  using that by (simp add: Exec_def obind_def tx_of_def ValidateConnNum_def pool_ok_def)

lemma Exec_ran0:
  assumes "pool_ok d" and "Exec (traced drv) q [] d = (r, d') \<or> Exec (traced drv) q [0] d = (r, d')"
  shows "ran d [q] d'"
  using Exec_ran[OF assms(1), of 0 drv q r d'] assms Exec_default[OF assms(1)] by (auto simp: pool_ok_def)

lemma schema_loop_ran: "schema_loop (traced drv) sts (d, n) = Inr (d', n') \<Longrightarrow> pool_ok d \<Longrightarrow> ran d (texts sts) d'"
proof (induction sts arbitrary: d n)
  case (Cons st sts)
  obtain r d1 where e: "Exec (traced drv) (Statement st) [0] d = (r, d1)" by fastforce
  then have one: "ran d [Statement st] d1" using Exec_ran0[OF Cons.prems(2)] by blast
  obtain m where "schema_loop (traced drv) sts (d1, m) = Inr (d', n')"
    using Cons.prems(1) e by (auto split: sum.splits goerr.splits)
  with Cons.IH ran_ok(1)[OF one] Cons.prems(2) have "ran d1 (texts sts) d'" by blast
  with ran_trans[OF one] show ?case by simp
qed simp

lemma executeStatements_ran:
  "executeStatementsForConn (traced drv) [] sts (d, es) = Inr (d', es') \<Longrightarrow> pool_ok d \<Longrightarrow> ran d (texts sts) d'"
proof (induction sts arbitrary: d es)
  case (Cons st sts)
  obtain r d1 where e: "Exec (traced drv) (Statement st) [] d = (r, d1)" by fastforce
  then have one: "ran d [Statement st] d1" using Exec_ran0[OF Cons.prems(2)] by blast
  have "executeStatementsForConn (traced drv) [] sts (d1, note_result st r es) = Inr (d', es')"
    using Cons.prems(1) e by (auto split: sum.splits goerr.splits)
  with Cons.IH ran_ok(1)[OF one] Cons.prems(2) have "ran d1 (texts sts) d'" by blast
  with ran_trans[OF one] show ?case by simp
qed simp

lemma restore_types_ran:
  "restore_types (traced drv) toc mfile redirect incl ts (d, es) = Inr (d', es') \<Longrightarrow> pool_ok d \<Longrightarrow>
   \<exists>steps. rmap (\<lambda>t. GetRestoreMetadataStatements toc ''predata'' mfile [t] []) ts = Inr steps \<and>
     ran d (texts (concat (map (editStatementsRedirectSchema redirect incl False) steps))) d'"
proof (induction ts arbitrary: d es)
  case (Cons t ts)
  let ?edit = "editStatementsRedirectSchema redirect incl False"
  from Cons.prems(1) obtain sts d1 es1 where
    sts: "GetRestoreMetadataStatements toc ''predata'' mfile [t] [] = Inr sts"
    and one: "ExecuteRestoreMetadataStatements (traced drv) (?edit sts) (d, es) = Inr (d1, es1)"
    and rest: "restore_types (traced drv) toc mfile redirect incl ts (d1, es1) = Inr (d', es')"
    by (auto simp: rbind_Inr_iff restore_type_def)
  have ran1: "ran d (texts (?edit sts)) d1"
    using one executeStatements_ran[OF _ Cons.prems(2)]
    by (auto simp: ExecuteRestoreMetadataStatements_def split: if_splits)
  from Cons.IH[OF rest] ran_ok(1)[OF ran1] Cons.prems(2) obtain steps where
    "rmap (\<lambda>t. GetRestoreMetadataStatements toc ''predata'' mfile [t] []) ts = Inr steps"
    "ran d1 (texts (concat (map ?edit steps))) d'" by blast
  with sts ran_trans[OF ran1] show ?case by simp
qed simp

lemma dependent_run_reachable:
  "dependent_run drv gp7 pm deps n rs tm d s d' \<Longrightarrow> restoring.reachable tm gp7 pm deps n rs s"
proof (induction rule: dependent_run.induct)
  case run_start
  then show ?case by (rule restoring.reach_init) simp
next
  case (run_schedule s d' t)
  then show ?case by (blast intro: restoring.reach_step)
next
  case (run_execute s d' i w r d'' tps tm')
  then show ?case by (blast intro: restoring.reach_step executeStatementsForDependentObject)
qed

lemma dependent_run_ran:
  assumes "dependent_run (traced drv) gp7 pm deps (NumConns d) rs tm d s d'" and "pool_ok d"
  shows "ran d (map (\<lambda>i. Statement (rs ! i)) (finished s)) d'"
  using assms
proof (induction rule: dependent_run.induct)
  case run_start
  then show ?case by (simp add: ExecuteDependentStatements_def)
next
  case (run_schedule s d' t)
  then show ?case by simp
next
  case (run_execute s d' i w r d'' tps tm')
  then have IH: "ran d (map (\<lambda>i. Statement (rs ! i)) (finished s)) d'" by blast
  then have "pool_ok d'" "w < NumConns d'" using ran_ok[OF IH] run_execute.hyps(3) assms(2) by simp_all
  from ran_trans[OF IH Exec_ran[OF this run_execute.hyps(4)]] show ?case by simp
qed

section \<open>Filters of a schema copy\<close>

text \<open>
  With as many destination as source schemas every source schema is included and redirected, and
  nothing else; with none nothing is redirected; with fewer the program panics.
\<close>

lemma redirect_schemas_all:
  "i + length ss \<le> length ds \<Longrightarrow> ds \<noteq> [] \<Longrightarrow>
   redirect_schemas ss ds i v = Inr (v\<lparr>redirectSchema := foldl (\<lambda>m (a, b). go_set (ds_Schema a) (ds_Schema b) m) (redirectSchema v) (zip ss (drop i ds)),
     metaFilters := (metaFilters v)\<lparr>includeSchemas := includeSchemas (metaFilters v) @ map ds_Schema ss\<rparr>\<rparr>)"
proof (induction ss arbitrary: i v)
  case (Cons a ss)
  then have "drop i ds = ds ! i # drop (Suc i) ds" by (simp add: Cons_nth_drop_Suc)
  with Cons show ?case by (simp add: go_index_def)
qed simp

lemma redirect_schemas_none:
  "redirect_schemas ss [] i v = Inr (v\<lparr>metaFilters := (metaFilters v)\<lparr>includeSchemas := includeSchemas (metaFilters v) @ map ds_Schema ss\<rparr>\<rparr>)"
  by (induction ss arbitrary: i v) simp_all

section \<open>The order of the restore\<close>

lemma edited_no_oid: "list_all no_oid sts \<Longrightarrow> list_all no_oid (editStatementsRedirectSchema redirect incl b sts)"
  by (auto simp: editStatementsRedirectSchema_def edit_statement_def no_oid_def list_all_iff split: option.splits)

lemma edited_length [simp]: "length (editStatementsRedirectSchema redirect incl b sts) = length sts"
  by (simp add: editStatementsRedirectSchema_def)

lemma restore_statements_no_oid: "GetRestoreMetadataStatements toc sec mfile inT exT = Inr sts \<Longrightarrow> list_all no_oid sts"
  using statements_have_no_oids by (fastforce simp: GetRestoreMetadataStatements_def GetRestoreMetadataStatementsFiltered_def
      filtersEmpty_def NewFilters_def no_oid_def[abs_def])

lemma dependents_in_order:
  assumes "dependent_run drv gp7 pm deps n rs tm d s d'" and "list_all no_oid rs" and "length (finished s) = length rs"
  shows "map (\<lambda>i. Statement (rs ! i)) (finished s) = texts rs"
proof -
  have "serial.conc.reachable tm rs gp7 pm deps n s" using dependent_run_reachable[OF assms(1)] assms(2) by simp
  then have "finished s = [0..<length (finished s)]" using serial.reachable_inv unfolding serial_inv_def by blast
  then have fin: "finished s = [0..<length rs]" unfolding assms(3) .
  have "texts (map (nth rs) [0..<length rs]) = texts rs" by (simp only: map_nth)
  then show ?thesis unfolding fin by (simp only: map_map comp_def)
qed

lemma rmap_append: "rmap f xs = Inr as \<Longrightarrow> rmap f ys = Inr bs \<Longrightarrow> rmap f (xs @ ys) = Inr (as @ bs)"
  by (induction xs arbitrary: as) (auto simp: rbind_Inr_iff)

lemma rmap_map [simp]: "rmap f (map g xs) = rmap (\<lambda>x. f (g x)) xs"
  by (induction xs) simp_all

lemma predata_steps_split:
  "predata_steps = (schema_statements # map (\<lambda>t. ([t], [])) early_types) @ ([], dependent_excludes) # map (\<lambda>t. ([t], [])) late_types"
  by (simp add: predata_steps_def early_types_def late_types_def)

lemma restorePredata_order:
  assumes "restorePredata (traced drv) gp7 deps toc mfile redirect incl pm tm schemas (d, es) (d', es') pairs"
    and "GetRestoreMetadataStatements toc ''predata'' mfile [''SCHEMA''] [] = Inr schemas" and "pool_ok d"
  shows "\<exists>steps. restorePredata_statements toc mfile = Inr (schemas # steps) \<and>
    executed (log_of d') = executed (log_of d) @ texts (editStatementsRedirectSchema redirect incl True schemas) @
      texts (concat (map (editStatementsRedirectSchema redirect incl False) steps))"
  using assms(1)
proof (cases rule: restorePredata.cases)
  case (1 d1 errs d2 es2 rs s d3 entries rest)
  let ?edit = "editStatementsRedirectSchema redirect incl False" and ?get = "GetRestoreMetadataStatements toc ''predata'' mfile"
  have r1: "ran d (texts (editStatementsRedirectSchema redirect incl True schemas)) d1"
    using schema_loop_ran[OF 1(2)[unfolded RestoreSchemas_def] assms(3)] .
  from restore_types_ran[OF 1(3)] ran_ok(1)[OF r1] assms(3) obtain es1 where
    e: "rmap (\<lambda>t. ?get [t] []) early_types = Inr es1" "ran d1 (texts (concat (map ?edit es1))) d2" by blast
  have ok2: "pool_ok d2" using ran_ok(1)[OF r1] ran_ok(1)[OF e(2)] assms(3) by simp
  have "map (\<lambda>i. Statement (?edit rs ! i)) (finished s) = texts (?edit rs)"
    using dependents_in_order[OF 1(5)] edited_no_oid[OF restore_statements_no_oid[OF 1(4)]] 1(6) by simp
  with dependent_run_ran[OF 1(5) ok2] have r3: "ran d2 (texts (?edit rs)) d3" by simp
  from restore_types_ran[OF 1(7)] ran_ok(1)[OF r3] ok2 obtain ls where
    l: "rmap (\<lambda>t. ?get [t] []) late_types = Inr ls" "ran d3 (texts (concat (map ?edit ls))) d'" by blast
  have "restorePredata_statements toc mfile = Inr ((schemas # es1) @ rs # ls)"
    unfolding restorePredata_statements_def predata_steps_split
    by (rule rmap_append) (simp_all add: schema_statements_def assms(2) e(1) 1(4) l(1))
  moreover have "ran d (texts (editStatementsRedirectSchema redirect incl True schemas) @ texts (concat (map ?edit (es1 @ rs # ls)))) d'"
    using ran_trans[OF r1 ran_trans[OF e(2) ran_trans[OF r3 l(2)]]] by simp
  ultimately show ?thesis by (auto simp: ran_def intro!: exI[of _ "es1 @ rs # ls"])
qed

section \<open>The restore returns\<close>

text \<open>The server answers every statement, with a result or with an error.\<close>

definition server_answers :: "'db driver \<Rightarrow> bool" where
  "server_answers drv \<longleftrightarrow> (\<forall>t c q s. survives (fst (drv_exec drv t c q s)))"

definition same_pool :: "'db DBConn \<Rightarrow> 'db DBConn \<Rightarrow> bool" where
  "same_pool d d' \<longleftrightarrow> NumConns d' = NumConns d \<and> pool_ok d'"

lemma same_pool_trans: "same_pool a b \<Longrightarrow> same_pool b c \<Longrightarrow> same_pool a c"
  by (simp add: same_pool_def)

lemma Exec_answers:
  assumes "server_answers drv" and "pool_ok d" and "w < NumConns d"
  obtains r d' where "Exec drv q [int w] d = (r, d')" "survives r" "same_pool d d'"
proof -
  note e = Exec_ok[OF pool_ok_conn[OF assms(2,3)], of drv q]
  show ?thesis by (rule that[OF e]) (use assms in \<open>simp_all add: server_answers_def same_pool_def pool_ok_def\<close>)
qed

lemma schema_loop_returns:
  "server_answers drv \<Longrightarrow> pool_ok d \<Longrightarrow> \<exists>d' k. schema_loop drv sts (d, n) = Inr (d', k) \<and> same_pool d d'"
proof (induction sts arbitrary: d n)
  case Nil
  then show ?case by (simp add: same_pool_def)
next
  case (Cons st sts)
  have "0 < NumConns d" using Cons.prems by (simp add: pool_ok_def)
  then obtain r d1 where e: "Exec drv (Statement st) [int 0] d = (r, d1)" "survives r" "same_pool d d1"
    using Exec_answers[OF Cons.prems] by blast
  then have "\<exists>k. schema_loop drv (st # sts) (d, n) = schema_loop drv sts (d1, k)"
    by (auto simp: survives_def split: sum.splits goerr.splits)
  with Cons.IH[OF Cons.prems(1), of d1] e(3) show ?case using same_pool_trans[OF e(3)] by (metis same_pool_def)
qed

lemma executeStatements_returns:
  "server_answers drv \<Longrightarrow> pool_ok d \<Longrightarrow> \<exists>d' es'. executeStatementsForConn drv [] sts (d, es) = Inr (d', es') \<and> same_pool d d'"
proof (induction sts arbitrary: d es)
  case Nil
  then show ?case by (simp add: same_pool_def)
next
  case (Cons st sts)
  have "0 < NumConns d" using Cons.prems by (simp add: pool_ok_def)
  then obtain r d1 where e: "Exec drv (Statement st) [int 0] d = (r, d1)" "survives r" "same_pool d d1"
    using Exec_answers[OF Cons.prems] by blast
  have "executeStatementsForConn drv [] (st # sts) (d, es) = executeStatementsForConn drv [] sts (d1, note_result st r es)"
    using e(2) Exec_default[OF Cons.prems(2), of drv "Statement st"] unfolding e(1)
    by (auto simp: survives_def split: sum.splits goerr.splits)
  with Cons.IH[OF Cons.prems(1), of d1] e(3) show ?case using same_pool_trans[OF e(3)] by (metis same_pool_def)
qed

lemma restore_types_returns:
  assumes "server_answers drv" and "\<And>t. t \<in> set ts \<Longrightarrow> \<exists>sts. GetRestoreMetadataStatements toc ''predata'' mfile [t] [] = Inr sts"
  shows "pool_ok d \<Longrightarrow> \<exists>d' es'. restore_types drv toc mfile redirect incl ts (d, es) = Inr (d', es') \<and> same_pool d d'"
  using assms(2)
proof (induction ts arbitrary: d es)
  case Nil
  then show ?case by (simp add: same_pool_def)
next
  case (Cons t ts)
  then obtain sts where sts: "GetRestoreMetadataStatements toc ''predata'' mfile [t] [] = Inr sts" by (meson list.set_intros(1))
  obtain d1 es1 where one: "ExecuteRestoreMetadataStatements drv (editStatementsRedirectSchema redirect incl False sts) (d, es) = Inr (d1, es1)"
    "same_pool d d1"
    using executeStatements_returns[OF assms(1) Cons.prems(1), of "editStatementsRedirectSchema redirect incl False sts" es] Cons.prems(1)
    by (cases "sts = []") (auto simp: ExecuteRestoreMetadataStatements_def same_pool_def)
  then obtain d2 es2 where "restore_types drv toc mfile redirect incl ts (d1, es1) = Inr (d2, es2)" "same_pool d1 d2"
    using Cons.IH[of d1 es1] Cons.prems(2) by (auto simp: same_pool_def)
  with sts one same_pool_trans[OF one(2)] show ?case by (simp add: restore_type_def)
qed

text \<open>The scheduler on the server can always go on until all statements have been executed.\<close>

lemma dependent_run_step:
  assumes "dependent_run drv gp7 pm deps n rs tm d s d'" and "restore_step gp7 pm deps n rs s t"
    and "server_answers drv" and "pool_ok d'" and "n = NumConns d'"
  shows "\<exists>t d''. dependent_run drv gp7 pm deps n rs tm d t d'' \<and> restore_step gp7 pm deps n rs s t \<and> same_pool d' d''"
  using assms(2)
proof (cases rule: restore_step.cases)
  case (executeStatementsForDependentObject i tps tm' r)
  have w: "0 < n" using assms(4,5) by (simp add: pool_ok_def)
  then obtain r' d'' where e: "Exec drv (Statement (rs ! i)) [int 0] d' = (r', d'')" "survives r'" "same_pool d' d''"
    using Exec_answers[OF assms(3,4)] assms(5) by blast
  from run_execute[OF assms(1) executeStatementsForDependentObject(2) w e(1,2) executeStatementsForDependentObject(3)]
    restore_step.executeStatementsForDependentObject[OF executeStatementsForDependentObject(2,3), where r = r'] e(3)
  show ?thesis by blast
qed (use run_schedule[OF assms(1,2)] assms(2,4) in \<open>auto simp: same_pool_def\<close>)

lemma dependent_run_finishes:
  assumes "dependent_run drv gp7 pm deps n rs tm d s d'" and "server_answers drv" and "pool_ok d'" and "n = NumConns d'"
    and "sched_inv deps n rs s" and "decodable (tabMap s)" and "qualified_leaves pm"
  shows "\<exists>t d''. dependent_run drv gp7 pm deps n rs tm d t d'' \<and> length (finished t) = length rs \<and> decodable (tabMap t) \<and> same_pool d' d''"
  using assms(1,3-6)
proof (induction "work_left rs s" arbitrary: s d')
  case 0
  then have "mset (finished s) = mset [0..<length rs]"
    unfolding sched_inv_def work_left_def by (auto simp del: mset_upt)
  from mset_eq_length[OF this] 0 show ?case by (auto simp: same_pool_def)
next
  case (Suc k)
  have "0 < n" using Suc.prems by (simp add: pool_ok_def)
  with not_stuck[OF Suc.prems(4,5) _ _ assms(7), of gp7] Suc.hyps(2) obtain t' where "restore_step gp7 pm deps n rs s t'" by auto
  from dependent_run_step[OF Suc.prems(1) this assms(2) Suc.prems(2,3)] obtain t d'' where
    t: "dependent_run drv gp7 pm deps n rs tm d t d''" "restore_step gp7 pm deps n rs s t" "same_pool d' d''" by blast
  have "k = work_left rs t" using work_left_step[OF t(2)] Suc.hyps(2) by simp
  from Suc.hyps(1)[OF this t(1)] t(3) Suc.prems(3) sched_inv_step[OF t(2) Suc.prems(4)]
    decodable_step[OF t(2) assms(7) Suc.prems(5)] same_pool_trans[OF t(3)]
  show ?case by (metis same_pool_def)
qed

lemma dependents_finish:
  assumes "FormUserTableMap srcs dests = Inr tm" and "qualified_leaves pm" and "server_answers drv" and "pool_ok d"
  shows "\<exists>s d' rest. dependent_run drv gp7 pm deps (NumConns d) rs tm d s d' \<and> length (finished s) = length rs \<and> same_pool d d' \<and>
    RestoreCleanup (tabMap s) = Inr rest"
proof -
  have "decodable (tabMap (ExecuteDependentStatements tm))"
    using FormUserTableMap_decodable[OF assms(1)] by (simp add: ExecuteDependentStatements_def)
  from dependent_run_finishes[OF run_start assms(3,4) refl sched_inv_init this assms(2)] obtain s d' where
    s: "dependent_run drv gp7 pm deps (NumConns d) rs tm d s d'" "length (finished s) = length rs" "decodable (tabMap s)" "same_pool d d'"
    by blast
  with RestoreCleanup_returns[OF s(3)] show ?thesis by blast
qed

text \<open>The statements a step reads are those of its types, in the order of the file.\<close>

definition of_types :: "string list \<Rightarrow> string list \<Rightarrow> StatementWithType \<Rightarrow> bool" where
  "of_types inT exT st \<longleftrightarrow> (if inT \<noteq> [] then st_ObjectType st \<in> set inT else st_ObjectType st \<notin> set exT)"

lemma read_statements_types:
  "read_statements mfile es = Inr all \<Longrightarrow> read_statements mfile (filter (selects inT exT) es) = Inr (filter (of_types inT exT) all)"
proof (induction es arbitrary: all)
  case (Cons e es)
  then obtain c sts where c: "ReadAt mfile (StartByte e) (EndByte e - StartByte e) = Inr c" "read_statements mfile es = Inr sts"
    "all = statement_of e c # sts" by (auto simp: rbind_Inr_iff)
  have "of_types inT exT (statement_of e c) = selects inT exT e" by (simp add: of_types_def selects_def statement_of_def)
  with Cons.IH[OF c(2)] c show ?case by simp
qed simp

lemma restore_statements_types:
  assumes "GetSQLStatementForObjectTypes toc sec mfile [] [] [] [] [] [] = Inr all"
  shows "GetRestoreMetadataStatements toc sec mfile inT exT = Inr (filter (of_types inT exT) all)"
proof -
  obtain es where "section_entries toc sec = Inr es" "read_statements mfile es = Inr all"
    using assms unfolding no_filter_selects by (auto simp: rbind_Inr_iff selects_def[abs_def])
  with read_statements_types[of mfile es all inT exT] show ?thesis
    by (simp add: GetRestoreMetadataStatements_def GetRestoreMetadataStatementsFiltered_def filtersEmpty_def NewFilters_def no_filter_selects)
qed

lemma restorePredata_completes:
  assumes "GetSQLStatementForObjectTypes toc ''predata'' mfile [] [] [] [] [] [] = Inr all"
    and "FormUserTableMap srcs dests = Inr tm" and "qualified_leaves pm"
    and "server_answers drv" and "pool_ok d"
  shows "\<exists>s pairs. restorePredata drv gp7 deps toc mfile redirect incl pm tm schemas (d, es) s pairs"
proof -
  note get = restore_statements_types[OF assms(1)]
  obtain d1 errs where 1: "RestoreSchemas drv redirect incl schemas d = Inr (d1, errs)" "pool_ok d1"
    using schema_loop_returns[OF assms(4,5)] unfolding RestoreSchemas_def by (metis same_pool_def)
  obtain d2 es2 where 2: "restore_types drv toc mfile redirect incl early_types (d1, es) = Inr (d2, es2)" "pool_ok d2"
    using restore_types_returns[OF assms(4) _ 1(2), of early_types toc mfile] get by (metis same_pool_def)
  let ?rs = "filter (of_types [] dependent_excludes) all"
  obtain s d3 rest where 3: "dependent_run drv gp7 pm deps (NumConns d2) (editStatementsRedirectSchema redirect incl False ?rs) tm d2 s d3"
    "length (finished s) = length ?rs" "pool_ok d3" "RestoreCleanup (tabMap s) = Inr rest"
    using dependents_finish[OF assms(2-4) 2(2)] by (metis edited_length same_pool_def)
  obtain s4 where 4: "restore_types drv toc mfile redirect incl late_types (d3, join_counts es2 (counts s)) = Inr s4"
    using restore_types_returns[OF assms(4) _ 3(3), of late_types toc mfile] get by metis
  obtain d4 es4 where s4: "s4 = (d4, es4)" by fastforce
  from restorePredata.intros[OF 1(1) 2(1) get 3(1,2) 4[unfolded s4] refl 3(4)] show ?thesis by blast
qed

lemma answers_traced: "server_answers drv \<Longrightarrow> server_answers (traced drv)"
  unfolding server_answers_def by (auto simp: traced_def split: prod.splits) (metis fst_conv)

text \<open>
  Claim C3. The restore of the predata returns, whatever errors its statements meet and whatever the
  names of tables and statements are, when the metadata file can be read, the server answers, the
  table map is the one \<open>FormUserTableMap\<close> builds, and the leaf partitions are recorded with their
  schema; and by then it has executed exactly the predata
  statements of the file, each once and one after the other: the schemas, then the other steps,
  each step in the order of the file, although the dependent objects are given to several workers
  whose steps interleave in any way. Schemas are redirected on the way.
\<close>

theorem restorePredata_in_file_order:
  assumes "GetSQLStatementForObjectTypes toc ''predata'' mfile [] [] [] [] [] [] = Inr all"
    and "GetRestoreMetadataStatements toc ''predata'' mfile [''SCHEMA''] [] = Inr schemas"
    and "FormUserTableMap srcs dests = Inr tm" and "qualified_leaves pm"
    and "server_answers drv" and "pool_ok d"
  shows "(\<exists>s pairs. restorePredata (traced drv) gp7 deps toc mfile redirect incl pm tm schemas (d, es) s pairs) \<and>
    (\<exists>steps. restorePredata_statements toc mfile = Inr (schemas # steps) \<and> mset (schemas @ concat steps) = mset all \<and>
      (\<forall>d' es' pairs. restorePredata (traced drv) gp7 deps toc mfile redirect incl pm tm schemas (d, es) (d', es') pairs \<longrightarrow>
        executed (log_of d') = executed (log_of d) @ texts (editStatementsRedirectSchema redirect incl True schemas) @
          texts (concat (map (editStatementsRedirectSchema redirect incl False) steps))))"
proof -
  note run = restorePredata_completes[OF assms(1,3,4) answers_traced[OF assms(5)] assms(6),
      where ?gp7.0 = gp7 and deps = deps and redirect = redirect and incl = incl and schemas = schemas and es = es]
  then obtain d' es' pairs where "restorePredata (traced drv) gp7 deps toc mfile redirect incl pm tm schemas (d, es) (d', es') pairs" by fastforce
  from restorePredata_order[OF this assms(2,6)] obtain steps where steps: "restorePredata_statements toc mfile = Inr (schemas # steps)" by blast
  with predata_steps_cover[OF assms(1)] have "mset (schemas @ concat steps) = mset all" by auto
  moreover have "executed (log_of d') = executed (log_of d) @ texts (editStatementsRedirectSchema redirect incl True schemas) @
      texts (concat (map (editStatementsRedirectSchema redirect incl False) steps))"
    if "restorePredata (traced drv) gp7 deps toc mfile redirect incl pm tm schemas (d, es) (d', es') pairs" for d' es' pairs
    using restorePredata_order[OF that assms(2,6)] steps by auto
  ultimately show ?thesis using run steps by blast
qed

section \<open>The postdata\<close>

text \<open>Every statement of a pool is waiting, with a worker, or executed.\<close>

definition workers_inv :: "StatementWithType list \<Rightarrow> ('db \<times> event list) DBConn \<Rightarrow> ('db \<times> event list) pool \<Rightarrow> bool" where
  "workers_inv sts d p \<longleftrightarrow> (\<forall>(w, st) \<in> set (busy p). w < NumConns d) \<and>
     (\<exists>qs. ran d qs (pool_conn p) \<and> mset qs + mset (texts (map snd (busy p))) + mset (texts (waiting p)) = mset (texts sts))"

lemma workers_inv_step:
  assumes "pool_step (traced drv) (NumConns d) p p'" and "workers_inv sts d p" and "pool_ok d"
  shows "workers_inv sts d p'"
  using assms(1)
proof (cases rule: pool_step.cases)
  case (pool_receive st rest w)
  with assms(2) show ?thesis by (auto simp: workers_inv_def)
next
  case (pool_execute w st r d')
  obtain qs where qs: "ran d qs (pool_conn p)"
    "mset qs + mset (texts (map snd (busy p))) + mset (texts (waiting p)) = mset (texts sts)"
    using assms(2) by (auto simp: workers_inv_def)
  have w: "w < NumConns (pool_conn p)" using assms(2) pool_execute(2) ran_ok(2)[OF qs(1)] by (auto simp: workers_inv_def)
  have ran': "ran d (qs @ [Statement st]) d'"
    using ran_trans[OF qs(1) Exec_ran[OF _ w pool_execute(3)]] ran_ok(1)[OF qs(1)] assms(3) by simp
  obtain M where "mset (busy p) = add_mset (w, st) M" "mset (remove1 (w, st) (busy p)) = M"
    using pool_execute(2) by (metis insert_DiffM mset_remove1 set_mset_mset)
  then have "mset (qs @ [Statement st]) + mset (texts (map snd (remove1 (w, st) (busy p)))) + mset (texts (waiting p)) = mset (texts sts)"
    using qs(2) by (simp del: mset_remove1)
  moreover have "\<forall>(w, st) \<in> set (remove1 (w, st) (busy p)). w < NumConns d"
    using assms(2) notin_set_remove1 unfolding workers_inv_def by fast
  ultimately show ?thesis using ran' unfolding workers_inv_def pool_execute(1) by auto
qed

lemma ExecuteStatements_ran:
  assumes "ExecuteStatements (traced drv) par sts (d, es) (d', es')" and "pool_ok d"
  shows "\<exists>qs. ran d qs d' \<and> mset qs = mset (texts sts)"
  using assms(1)
proof (cases rule: ExecuteStatements.cases)
  case execute_serial
  with executeStatements_ran[OF _ assms(2)] show ?thesis by blast
next
  case execute_parallel
  have "workers_inv sts d p" if "(pool_step (traced drv) (NumConns d))\<^sup>*\<^sup>* \<lparr>waiting = sts, busy = [], pool_conn = d, pool_counts = es\<rparr> p" for p
    using that
  proof (induction rule: rtranclp_induct)
    case base
    have "ran d [] d" by simp
    then show ?case by (auto simp: workers_inv_def)
  next
    case (step p p')
    then show ?case using workers_inv_step assms(2) by blast
  qed
  from this[OF execute_parallel(2)] show ?thesis by (auto simp: workers_inv_def)
qed

lemma run_batch_ran:
  assumes "run_batch (traced drv) sts (d, es) (d', es')" and "pool_ok d"
  shows "\<exists>qs. ran d qs d' \<and> mset qs = mset (texts sts)"
proof (cases "sts = []")
  case True
  have "ran d [] d" by simp
  with True assms(1) show ?thesis by (auto simp: run_batch_def)
qed (use assms ExecuteStatements_ran in \<open>auto simp: run_batch_def\<close>)

lemma restorePostdata_order:
  assumes "restorePostdata (traced drv) toc mfile redirect incl (d, es) (d', es')" and "pool_ok d"
    and "GetSQLStatementForObjectTypes toc ''postdata'' mfile [] [] [] [] [] [] = Inr sts"
    and "BatchPostdataStatements (editStatementsRedirectSchema redirect incl False sts) = (first, second, third)"
  shows "\<exists>q1 q2 q3. executed (log_of d') = executed (log_of d) @ q1 @ q2 @ q3 \<and>
    mset q1 = mset (texts first) \<and> mset q2 = mset (texts second) \<and> mset q3 = mset (texts third)"
  using assms(1)
proof (cases rule: restorePostdata.cases)
  case (1 sts' first' second' third' s1 s2)
  have "sts' = sts" using 1(1) assms(3) by (simp add: GetRestoreMetadataStatementsFiltered_def filtersEmpty_def NewFilters_def)
  with 1(2) assms(4) have eq: "first' = first" "second' = second" "third' = third" by simp_all
  obtain d1 es1 where s1: "s1 = (d1, es1)" by fastforce
  obtain d2 es2 where s2: "s2 = (d2, es2)" by fastforce
  from run_batch_ran[OF 1(3)[unfolded s1 eq] assms(2)] obtain q1 where q1: "ran d q1 d1" "mset q1 = mset (texts first)" by blast
  from run_batch_ran[OF 1(4)[unfolded s1 s2 eq]] ran_ok(1)[OF q1(1)] assms(2) obtain q2 where
    q2: "ran d1 q2 d2" "mset q2 = mset (texts second)" by blast
  from run_batch_ran[OF 1(5)[unfolded s2 eq]] ran_ok(1)[OF q2(1)] ran_ok(1)[OF q1(1)] assms(2) obtain q3 where
    q3: "ran d2 q3 d'" "mset q3 = mset (texts third)" by blast
  from ran_trans[OF q1(1) ran_trans[OF q2(1) q3(1)]] q1(2) q2(2) q3(2) show ?thesis by (auto simp: ran_def)
qed

text \<open>It returns as well: the workers can empty the channel.\<close>

lemma pool_completes:
  assumes "server_answers drv" and "pool_ok d" and "n = NumConns d"
  shows "\<exists>d' es'. (pool_step drv n)\<^sup>*\<^sup>* \<lparr>waiting = sts, busy = [], pool_conn = d, pool_counts = es\<rparr>
      \<lparr>waiting = [], busy = [], pool_conn = d', pool_counts = es'\<rparr> \<and> same_pool d d'"
  using assms(2,3)
proof (induction sts arbitrary: d es)
  case Nil
  then show ?case by (auto simp: same_pool_def)
next
  case (Cons st sts)
  have w: "0 < n" using Cons.prems by (simp add: pool_ok_def)
  then obtain r d1 where e: "Exec drv (Statement st) [int 0] d = (r, d1)" "survives r" "same_pool d d1"
    using Exec_answers[OF assms(1) Cons.prems(1)] Cons.prems(2) by blast
  let ?p0 = "\<lparr>waiting = st # sts, busy = [], pool_conn = d, pool_counts = es\<rparr>"
  let ?p1 = "\<lparr>waiting = sts, busy = [(0, st)], pool_conn = d, pool_counts = es\<rparr>"
  let ?p2 = "\<lparr>waiting = sts, busy = [], pool_conn = d1, pool_counts = note_result st r es\<rparr>"
  have "pool_step drv n ?p0 ?p1" using pool_receive[of ?p0 st sts 0 n drv] w by simp
  moreover have "pool_step drv n ?p1 ?p2" using pool_execute[of 0 st ?p1 drv r d1 n] e(1,2) by simp
  ultimately have run: "(pool_step drv n)\<^sup>*\<^sup>* ?p0 ?p2" by auto
  from Cons.IH[of d1 "note_result st r es"] e(3) Cons.prems(2) obtain d' es' where
    rest: "(pool_step drv n)\<^sup>*\<^sup>* ?p2 \<lparr>waiting = [], busy = [], pool_conn = d', pool_counts = es'\<rparr>" "same_pool d1 d'"
    by (auto simp: same_pool_def)
  from rtranclp_trans[OF run rest(1)] same_pool_trans[OF e(3) rest(2)] show ?case by blast
qed

lemma run_batch_returns:
  assumes "server_answers drv" and "pool_ok d"
  shows "\<exists>d' es'. run_batch drv sts (d, es) (d', es') \<and> same_pool d d'"
proof -
  consider "sts = []" | "sts \<noteq> []" "NumConns d > 1" | "sts \<noteq> []" "\<not> NumConns d > 1" by blast
  then show ?thesis
  proof cases
    case 1
    with assms(2) show ?thesis by (auto simp: run_batch_def same_pool_def)
  next
    case 2
    with pool_completes[OF assms refl, of sts es] show ?thesis by (auto simp: run_batch_def intro: execute_parallel)
  next
    case 3
    with executeStatements_returns[OF assms, of sts es] show ?thesis by (auto simp: run_batch_def intro: execute_serial)
  qed
qed

lemma restorePostdata_returns:
  assumes "GetSQLStatementForObjectTypes toc ''postdata'' mfile [] [] [] [] [] [] = Inr sts" and "server_answers drv" and "pool_ok d"
  shows "\<exists>s. restorePostdata drv toc mfile redirect incl (d, es) s"
proof -
  have get: "GetRestoreMetadataStatementsFiltered toc ''postdata'' mfile [] [] (NewFilters [] [] [] []) = Inr sts"
    using assms(1) by (simp add: GetRestoreMetadataStatementsFiltered_def filtersEmpty_def NewFilters_def)
  obtain a b c where batches: "BatchPostdataStatements (editStatementsRedirectSchema redirect incl False sts) = (a, b, c)"
    by (metis prod.collapse)
  obtain d1 es1 where 1: "run_batch drv a (d, es) (d1, es1)" "pool_ok d1"
    using run_batch_returns[OF assms(2,3)] by (metis same_pool_def)
  obtain d2 es2 where 2: "run_batch drv b (d1, es1) (d2, es2)" "pool_ok d2"
    using run_batch_returns[OF assms(2) 1(2)] by (metis same_pool_def)
  obtain s where "run_batch drv c (d2, es2) s" using run_batch_returns[OF assms(2) 2(2)] by blast
  from restorePostdata.intros[OF get batches 1(1) 2(1) this] show ?thesis by blast
qed

text \<open>
  Claim C25. The postdata restore returns when the metadata file can be read and the server answers, and
  on any number of connections and for every interleaving of the workers it executes every
  statement once and keeps the three batches apart: the first index of every table, then all other
  statements but comments and the like, then those. No worker starts on a batch before the one
  before it is done.
\<close>

theorem restorePostdata_batches:
  assumes "GetSQLStatementForObjectTypes toc ''postdata'' mfile [] [] [] [] [] [] = Inr sts" and "server_answers drv" and "pool_ok d"
    and "BatchPostdataStatements (editStatementsRedirectSchema redirect incl False sts) = (first, second, third)"
  shows "(\<exists>s. restorePostdata (traced drv) toc mfile redirect incl (d, es) s) \<and>
    (\<forall>d' es'. restorePostdata (traced drv) toc mfile redirect incl (d, es) (d', es') \<longrightarrow>
      (\<exists>q1 q2 q3. executed (log_of d') = executed (log_of d) @ q1 @ q2 @ q3 \<and>
        mset q1 = mset (texts first) \<and> mset q2 = mset (texts second) \<and> mset q3 = mset (texts third)))"
  using restorePostdata_returns[OF assms(1) answers_traced[OF assms(2)] assms(3)] restorePostdata_order[OF _ assms(3,1,4)] by blast

section \<open>From the extraction to the restore\<close>

lemma restorePredata_statements_types:
  assumes "GetSQLStatementForObjectTypes toc ''predata'' mfile [] [] [] [] [] [] = Inr all"
  shows "restorePredata_statements toc mfile = Inr (map (\<lambda>(inT, exT). filter (of_types inT exT) all) predata_steps)"
  unfolding restorePredata_statements_def by (rule rmap_all) (auto simp: restore_statements_types[OF assms])

lemma concat_two:
  assumes "j < i" and "i < length cs"
  shows "concat cs = concat (take j cs) @ cs ! j @ concat (drop (Suc j) (take i cs)) @ cs ! i @ concat (drop (Suc i) cs)"
proof -
  have "cs = take i cs @ cs ! i # drop (Suc i) cs" using assms(2) by (rule id_take_nth_drop)
  moreover have "take i cs = take j cs @ cs ! j # drop (Suc j) (take i cs)"
    using id_take_nth_drop[of j "take i cs"] assms by (simp add: min_absorb1)
  ultimately have "concat cs = concat (take j cs @ cs ! j # drop (Suc j) (take i cs)) @ cs ! i @ concat (drop (Suc i) cs)"
    by (metis concat.simps(2) concat_append)
  then show ?thesis by simp
qed

text \<open>The definition of an object among the statements of the file.\<close>

abbreviation definition_of :: "print_env \<Rightarrow> SortableObject \<Rightarrow> string \<Rightarrow> StatementWithType" where
  "definition_of env x t \<equiv> statement_of (obj_entry (value_object env (dynamic x))) t"

abbreviation recorded_type :: "print_env \<Rightarrow> SortableObject \<Rightarrow> string" where
  "recorded_type env x \<equiv> ObjectType (obj_entry (value_object env (dynamic x)))"

definition extracted :: "print_env \<Rightarrow> orders \<Rightarrow> catalog \<Rightarrow> string list \<Rightarrow> PrintRelations.Table list \<Rightarrow> bool \<Rightarrow> extraction \<Rightarrow> extraction \<Rightarrow>
    SortableDependency list \<Rightarrow> (string \<times> MetadataEntry \<times> string) list \<Rightarrow> bool" where
  "extracted env ord c inSchemas tables tableOnly s s' rows before \<longleftrightarrow>
     backupPredata env ord c inSchemas tables tableOnly s = Inr s' \<and>
     range_orders (dep_order ord) (dep_entries ord) \<and> dependency_rows env c tables = Inr rows \<and>
     distinct (map GetUniqueID (x_objects s')) \<and> toc_records (contents (fst (x_out s))) (snd (x_out s)) before \<and>
     counted (fst (x_out s)) \<and> length (contents (fst (x_out s'))) < 2 ^ 63"

lemma needed_written_first:
  assumes "extracted env ord c inSchemas tables tableOnly s s' rows before"
    and "x \<in> set (x_objects s')" "in_predata (dynamic x)" and "y \<in> set (x_objects s')" "in_predata (dynamic y)"
    and "needs rows (x_objects s') (GetUniqueID x) (GetUniqueID y)"
  shows "\<exists>A B C tx ty. GetSQLStatementForObjectTypes (snd (x_out s')) ''predata'' (contents (fst (x_out s'))) [] [] [] [] [] [] =
      Inr (A @ definition_of env y ty # B @ definition_of env x tx # C)"
proof -
  note ex = assms(1)[unfolded extracted_def]
  from ex backupPredata_blocks[of env ord c inSchemas tables tableOnly s s' rows before] obtain objs pre cs post where
    all: "GetSQLStatementForObjectTypes (snd (x_out s')) ''predata'' (contents (fst (x_out s'))) [] [] [] [] [] [] =
      Inr (read_as before @ pre @ concat cs @ post)"
    and objs: "mset objs = mset (x_objects s')" and cs: "list_all2 (\<lambda>x. defined_by env (dynamic x)) objs cs"
    and order: "\<forall>i<length objs. \<forall>r. needs rows (x_objects s') (GetUniqueID (objs ! i)) r \<longrightarrow> r \<in> GetUniqueID ` set (take i objs)"
    by blast
  have inj: "inj_on GetUniqueID (set objs)" and mem: "set objs = set (x_objects s')"
    using ex mset_eq_setD[OF objs] by (simp_all add: distinct_map)
  obtain i where i: "i < length objs" "objs ! i = x" using assms(2) mem by (metis in_set_conv_nth)
  with order assms(6) obtain y' where y': "y' \<in> set (take i objs)" "GetUniqueID y' = GetUniqueID y" by (metis imageE)
  then have "y' = y" using inj assms(4) mem by (metis in_set_takeD inj_onD)
  with y'(1) i(1) obtain j where j: "j < i" "objs ! j = y" by (auto simp: in_set_conv_nth)
  have len: "length cs = length objs" using cs by (simp add: list_all2_lengthD)
  have "defined_by env (dynamic x) (cs ! i)" "defined_by env (dynamic y) (cs ! j)"
    using list_all2_nthD[OF cs, of i] list_all2_nthD[OF cs, of j] i j by auto
  then obtain tx rx ty ry where "cs ! i = definition_of env x tx # rx" "cs ! j = definition_of env y ty # ry"
    using assms(3,5) by (auto simp: defined_by_def Let_def)
  with concat_two[of j i cs] j(1) i(1) len
  have "concat cs = concat (take j cs) @ definition_of env y ty # (ry @ concat (drop (Suc j) (take i cs))) @ definition_of env x tx # rx @ concat (drop (Suc i) cs)"
    by simp
  with all have "GetSQLStatementForObjectTypes (snd (x_out s')) ''predata'' (contents (fst (x_out s'))) [] [] [] [] [] [] =
      Inr ((read_as before @ pre @ concat (take j cs)) @ definition_of env y ty # (ry @ concat (drop (Suc j) (take i cs))) @
        definition_of env x tx # rx @ concat (drop (Suc i) cs) @ post)" by simp
  then show ?thesis by blast
qed

text \<open>
  Claim C4. When an object needs another one and both are restored as dependent objects, the restore
  defines the needed one first: from the rows of the catalog through the sorted extraction, the
  metadata file and the selection of the restore step, nothing disturbs their order.
\<close>

theorem dependents_restored_in_order:
  assumes "extracted env ord c inSchemas tables tableOnly s s' rows before"
    and "x \<in> set (x_objects s')" "in_predata (dynamic x)" and "y \<in> set (x_objects s')" "in_predata (dynamic y)"
    and "needs rows (x_objects s') (GetUniqueID x) (GetUniqueID y)"
    and "recorded_type env x \<notin> set dependent_excludes" and "recorded_type env y \<notin> set dependent_excludes"
  shows "\<exists>steps A B C tx ty. restorePredata_statements (snd (x_out s')) (contents (fst (x_out s'))) = Inr steps \<and>
    steps ! 6 = A @ definition_of env y ty # B @ definition_of env x tx # C"
proof -
  obtain A B C tx ty where all: "GetSQLStatementForObjectTypes (snd (x_out s')) ''predata'' (contents (fst (x_out s'))) [] [] [] [] [] [] =
      Inr (A @ definition_of env y ty # B @ definition_of env x tx # C)" (is "_ = Inr ?all") using needed_written_first[OF assms(1-6)] by blast
  let ?dep = "of_types [] dependent_excludes"
  have "map (\<lambda>(inT, exT). filter (of_types inT exT) ?all) predata_steps ! 6 = filter ?dep ?all" by (simp add: predata_steps_def)
  also have "\<dots> = filter ?dep A @ definition_of env y ty # filter ?dep B @ definition_of env x tx # filter ?dep C"
    using assms(7,8) by (simp add: of_types_def statement_of_def)
  finally show ?thesis using restorePredata_statements_types[OF all] by blast
qed

text \<open>
  Claim C36. Types are the exception: a type that needs a function, a domain or a table stands behind it
  in the metadata file, but the restore has a step for types before the step of the dependent
  objects, so the definition of the type is executed when nothing of the other kind exists yet.
\<close>

theorem types_restored_too_early:
  assumes "extracted env ord c inSchemas tables tableOnly s s' rows before"
    and "x \<in> set (x_objects s')" "in_predata (dynamic x)" and "y \<in> set (x_objects s')" "in_predata (dynamic y)"
    and "needs rows (x_objects s') (GetUniqueID x) (GetUniqueID y)"
    and "recorded_type env x = ''TYPE''" and "recorded_type env y \<notin> set dependent_excludes"
  shows "\<exists>A B C tx ty steps. GetSQLStatementForObjectTypes (snd (x_out s')) ''predata'' (contents (fst (x_out s'))) [] [] [] [] [] [] =
      Inr (A @ definition_of env y ty # B @ definition_of env x tx # C) \<and>
    restorePredata_statements (snd (x_out s')) (contents (fst (x_out s'))) = Inr steps \<and>
    definition_of env x tx \<in> set (steps ! 3) \<and> definition_of env y ty \<in> set (steps ! 6) \<and>
    recorded_type env y \<notin> st_ObjectType ` set (concat (take 6 steps))"
proof -
  obtain A B C tx ty where all: "GetSQLStatementForObjectTypes (snd (x_out s')) ''predata'' (contents (fst (x_out s'))) [] [] [] [] [] [] =
      Inr (A @ definition_of env y ty # B @ definition_of env x tx # C)" (is "_ = Inr ?all") using needed_written_first[OF assms(1-6)] by blast
  let ?steps = "map (\<lambda>(inT, exT). filter (of_types inT exT) ?all) predata_steps"
  have "?steps ! 3 = filter (of_types [''TYPE''] []) ?all" "?steps ! 6 = filter (of_types [] dependent_excludes) ?all"
    by (simp_all add: predata_steps_def)
  then have "definition_of env x tx \<in> set (?steps ! 3)" "definition_of env y ty \<in> set (?steps ! 6)"
    using assms(7,8) by (simp_all add: of_types_def statement_of_def)
  moreover have "recorded_type env y \<notin> st_ObjectType ` set (concat (take 6 ?steps))"
    using assms(8) by (auto simp: predata_steps_def schema_statements_def of_types_def dependent_excludes_def)
  ultimately show ?thesis using all restorePredata_statements_types[OF all] by blast
qed

section \<open>Examples\<close>

definition demo_counts :: exec_state where
  "demo_counts = \<lparr>numErrors = 0, errorTablesMetadata = [], restored = 0\<rparr>"

lemma demo_answers: "server_answers demo_driver" "pool_ok (demo_traced_conn tx l)"
  by (simp_all add: server_answers_def demo_driver_def survives_def pool_ok_def demo_traced_conn_def)

lemma edited_none [simp]: "editStatementsRedirectSchema [] [] b = (\<lambda>sts. sts)"
  by (rule ext) (simp add: editStatementsRedirectSchema_def)

text \<open>A metadata file with a function whose name has dots in it.\<close>

definition demo_dotted_toc :: TOC where
  "demo_dotted_toc = empty_TOC\<lparr>PredataEntries := [(demo_entry ''f(s.t)'' ''FUNCTION'')\<lparr>EndByte := 2\<rparr>]\<rparr>"

lemma demo_dotted_read:
  "GetSQLStatementForObjectTypes demo_dotted_toc ''predata'' ''ab'' [] [] [] [] [] [] = Inr [statement_of (demo_entry ''f(s.t)'' ''FUNCTION'') ''ab'']"
  unfolding no_filter_selects
  by (simp add: demo_dotted_toc_def section_entries_def selects_def demo_entry_def ReadAt_def statement_of_def)

theorem restorePredata_in_file_order_witness:
  "\<exists>tm d' es' pairs. FormUserTableMap [demo_tab ''x.y''] [demo_tab ''x.y''] = Inr tm \<and>
     restorePredata (traced demo_driver) True [] demo_dotted_toc ''ab'' [] [] [(''s.r'', [''s.x.y''])] tm [] (demo_traced_conn False [], demo_counts) (d', es') pairs \<and>
     executed (log_of d') = [''ab'']"
proof -
  let ?all = "[statement_of (demo_entry ''f(s.t)'' ''FUNCTION'') ''ab'']"
  obtain tm where tm: "FormUserTableMap [demo_tab ''x.y''] [demo_tab ''x.y''] = Inr tm" by (simp add: FormUserTableMap_def)
  let ?run = "restorePredata (traced demo_driver) True [] demo_dotted_toc ''ab'' [] [] [(''s.r'', [''s.x.y''])] tm [] (demo_traced_conn False [], demo_counts)"
  have "GetRestoreMetadataStatements demo_dotted_toc ''predata'' ''ab'' [''SCHEMA''] [] = Inr []"
    using restore_statements_types[OF demo_dotted_read] by (simp add: of_types_def statement_of_def demo_entry_def)
  moreover have "qualified_leaves [(''s.r'', [''s.x.y''])]" by (simp add: qualified_leaves_def)
  ultimately have all: "(\<exists>s pairs. ?run s pairs) \<and> (\<exists>steps. restorePredata_statements demo_dotted_toc ''ab'' = Inr ([] # steps) \<and> mset ([] @ concat steps) = mset ?all \<and>
      (\<forall>d' es' pairs. ?run (d', es') pairs \<longrightarrow> executed (log_of d') = executed (log_of (demo_traced_conn False [])) @
        texts (editStatementsRedirectSchema [] [] True []) @ texts (concat (map (editStatementsRedirectSchema [] [] False) steps))))"
    using restorePredata_in_file_order[OF demo_dotted_read _ tm _ demo_answers] by blast
  then obtain d' es' pairs steps where r: "?run (d', es') pairs" and "mset (concat steps) = mset ?all"
    "executed (log_of d') = executed (log_of (demo_traced_conn False [])) @ texts (concat steps)" by fastforce
  moreover from this(2) have "concat steps = ?all" by simp
  ultimately have "executed (log_of d') = [''ab'']" by (simp add: executed_def demo_traced_conn_def statement_of_def)
  with r tm show ?thesis by blast
qed

definition demo_index_toc :: TOC where
  "demo_index_toc = empty_TOC\<lparr>PostdataEntries := [(demo_entry ''i'' ''INDEX'')\<lparr>ReferenceObject := ''s.t'', EndByte := 1\<rparr>,
     (demo_entry ''j'' ''INDEX'')\<lparr>ReferenceObject := ''s.t'', StartByte := 1, EndByte := 2\<rparr>]\<rparr>"

definition demo_index_stmt :: "string \<Rightarrow> string \<Rightarrow> StatementWithType" where
  "demo_index_stmt n t = statement_of ((demo_entry n ''INDEX'')\<lparr>ReferenceObject := ''s.t''\<rparr>) t"

lemma demo_index_toc_read: "GetSQLStatementForObjectTypes demo_index_toc ''postdata'' ''ab'' [] [] [] [] [] [] = Inr [demo_index_stmt ''i'' ''a'', demo_index_stmt ''j'' ''b'']"
  unfolding no_filter_selects
  by (simp add: demo_index_toc_def demo_index_stmt_def section_entries_def selects_def demo_entry_def ReadAt_def statement_of_def)

theorem restorePostdata_batches_witness:
  "\<exists>d' es'. restorePostdata (traced demo_driver) demo_index_toc ''ab'' [] [] (demo_traced_conn False [], demo_counts) (d', es') \<and>
     executed (log_of d') = [''a'', ''b'']"
proof -
  have batches: "BatchPostdataStatements (editStatementsRedirectSchema [] [] False [demo_index_stmt ''i'' ''a'', demo_index_stmt ''j'' ''b'']) =
      ([demo_index_stmt ''i'' ''a''], [demo_index_stmt ''j'' ''b''], [])"
    by code_simp
  note all = restorePostdata_batches[OF demo_index_toc_read demo_answers(1) demo_answers(2)[of False "[]"] batches, where es = demo_counts]
  then obtain d' es' where
    r: "restorePostdata (traced demo_driver) demo_index_toc ''ab'' [] [] (demo_traced_conn False [], demo_counts) (d', es')" by fastforce
  with all obtain q1 q2 q3 where
    "executed (log_of d') = executed (log_of (demo_traced_conn False [])) @ q1 @ q2 @ q3"
    "mset q1 = mset (texts [demo_index_stmt ''i'' ''a''])" "mset q2 = mset (texts [demo_index_stmt ''j'' ''b''])" "mset q3 = mset (texts [])"
    by blast
  then have "executed (log_of d') = [''a'', ''b'']" by (simp add: demo_traced_conn_def executed_def demo_index_stmt_def statement_of_def)
  with r show ?thesis by blast
qed

subsection \<open>A table and its parent\<close>

lemma demo_predata_objects: "x_objects (projr demo_predata) = convertToSortableSlice TableV demo_tables"
  by code_simp

lemma demo_start_empty: "toc_records (contents (fst (x_out demo_start))) (snd (x_out demo_start)) []" "counted (fst (x_out demo_start))"
  by (simp_all add: demo_start_def empty_records)

lemma demo_predata_extracted: "extracted demo_print_env demo_orders demo_catalog [] demo_tables True demo_start (projr demo_predata) demo_rows1 []"
proof -
  have "backupPredata demo_print_env demo_orders demo_catalog [] demo_tables True demo_start = Inr (projr demo_predata)"
    using demo_predata_ok(1) unfolding demo_predata_def by (metis sum.collapse(2))
  moreover have "dependency_rows demo_print_env demo_catalog demo_tables = Inr demo_rows1" by code_simp
  ultimately show ?thesis
    using demo_predata_ok(2,4) range_orders_keys demo_start_empty by (simp add: extracted_def demo_orders_def)
qed

theorem dependents_restored_in_order_witness:
  "\<exists>steps A B C tx ty. restorePredata_statements (snd (x_out (projr demo_predata))) (contents (fst (x_out (projr demo_predata)))) = Inr steps \<and>
     steps ! 6 = A @ definition_of demo_print_env (as_sortable (TableV (demo_table 12 ''parent'' []))) ty #
       B @ definition_of demo_print_env (as_sortable (TableV (demo_table 11 ''child'' [''s.parent'']))) tx # C"
proof (rule dependents_restored_in_order[OF demo_predata_extracted])
  let ?x = "as_sortable (TableV (demo_table 11 ''child'' [''s.parent'']))" and ?y = "as_sortable (TableV (demo_table 12 ''parent'' []))"
  show "?x \<in> set (x_objects (projr demo_predata))" "?y \<in> set (x_objects (projr demo_predata))"
    unfolding demo_predata_objects by (simp_all add: convertToSortableSlice_def demo_tables_def)
  show "in_predata (dynamic ?x)" "in_predata (dynamic ?y)" by (simp_all add: as_sortable_def)
  have ids: "GetUniqueID ?x = mk_id PG_CLASS_OID 11" "GetUniqueID ?y = mk_id PG_CLASS_OID 12" by code_simp+
  then show "needs demo_rows1 (x_objects (projr demo_predata)) (GetUniqueID ?x) (GetUniqueID ?y)"
    unfolding ids using demo_predata_ok(3)
    by (simp add: needs_def row_edge_def createBackupSet_has demo_rows1_def mk_id_def PG_CLASS_OID_def PG_TYPE_OID_def flip: set_map)
  show "recorded_type demo_print_env ?x \<notin> set dependent_excludes" "recorded_type demo_print_env ?y \<notin> set dependent_excludes"
    by code_simp+
qed

subsection \<open>A composite type with a column of a domain\<close>

definition demo_composite :: CompositeType where
  "demo_composite = \<lparr>ct_Oid = 21, ct_Schema = ''s'', ct_Name = ''t'', ct_Attributes = [\<lparr>at_CompositeTypeOid = 21, at_Name = ''a'', at_Type = ''s.d'',
     at_Comment = [], at_Collation = []\<rparr>]\<rparr>"

definition demo_domain :: Domain where
  "demo_domain = \<lparr>dom_Oid = 22, dom_Schema = ''s'', dom_Name = ''d'', dom_DefaultVal = [], dom_Collation = [], dom_BaseType = ''int4'', dom_NotNull = False\<rparr>"

definition demo_type_rows :: "SortableDependency list" where
  "demo_type_rows = [\<lparr>sd_ClassID = PG_TYPE_OID, sd_ObjID = 21, sd_RefClassID = PG_TYPE_OID, sd_RefObjID = 22\<rparr>]"

definition demo_type_catalog :: catalog where
  "demo_type_catalog = empty_catalog\<lparr>GetCompositeTypes := Inr [demo_composite], GetDomainTypes := Inr [demo_domain], pg_depend_rows := Inr demo_type_rows\<rparr>"

definition demo_type_objects :: "SortableObject list" where
  "demo_type_objects = [as_sortable (CompositeTypeV demo_composite), as_sortable (DomainV demo_domain)]"

lemma write_nothing: "p (x_out s) = Inr (x_out s) \<Longrightarrow> write_with p s = Inr s"
  by (simp add: write_with_def)

lemma demo_versions: "src_at_least demo_print_env ''5'' = Inr True" "src_at_least demo_print_env ''6'' = Inr True"
    "src_at_least demo_print_env ''7'' = Inr True" "src_old demo_print_env ''7'' = Inr False" "src_is demo_print_env ''4'' = Inr False"
  by code_simp+

definition after_break :: "metafile \<Rightarrow> metafile" where
  "after_break f = projr (loose BR f)"

lemma write_empty: "write_with (for_each f []) s = Inr s"
    "write_with (PrintCreateShellTypeStatements [] [] []) s = Inr (s\<lparr>x_out := after_break (x_out s)\<rparr>)"
proof -
  show "write_with (for_each f []) s = Inr s" by (rule write_nothing) simp
  have "loose BR (x_out s) = Inr (after_break (x_out s))" by (simp add: after_break_def loose_def split: prod.splits)
  then show "write_with (PrintCreateShellTypeStatements [] [] []) s = Inr (s\<lparr>x_out := after_break (x_out s)\<rparr>)"
    by (simp add: write_with_def PrintCreateShellTypeStatements_def)
qed

lemma no_metadata: "add_metadata [] s = s" "x_metadata (set_count k n s) = x_metadata s" "x_metadata (add_count k n s) = x_metadata s"
    "x_metadata (add_objects xs s) = x_metadata s"
  by (simp_all add: add_metadata_def addToMetadataMap_def set_count_def add_count_def add_objects_def)

lemma demo_types_collected:
  "\<exists>s. collect_predata demo_print_env demo_type_catalog [''s''] [] False (demo_start\<lparr>x_objects := [], x_metadata := []\<rparr>) = Inr ([], [], [], [], s) \<and>
     x_objects s = demo_type_objects \<and> x_metadata s = [] \<and> x_out s = after_break (empty_file, empty_TOC)"
  unfolding collect_predata_def retrieveFunctions_def retrieveProtocols_def backup_database_objects_def backupSchemas_def backupExtensions_def
    backupCollations_def retrieveAndBackupTypes_def retrieveTSObjects_def retrieveTSParsers_def retrieveTSConfigurations_def retrieveTSTemplates_def
    retrieveTSDictionaries_def backupOperatorFamilies_def retrieveOperatorObjects_def retrieveOperators_def retrieveOperatorClasses_def
    retrieveAggregates_def retrieveCasts_def backupAccessMethods_def retrieveViews_def retrieveAndBackupSequences_def retrieveConstraints_def
    backupShellTypes_def backupEnumTypes_def[abs_def] only_from_def[abs_def] backup_kind_def[abs_def] retrieve_kind_def[abs_def]
  by (simp add: demo_versions demo_type_catalog_def empty_catalog_def write_empty no_metadata convertToSortableSlice_def
     PrintCreateSchemaStatements_def PrintCreateExtensionStatements_def PrintCreateCollationStatements_def
     PrintCreateEnumTypeStatements_def PrintCreateOperatorFamilyStatements_def PrintAccessMethodStatements_def PrintCreateSequenceStatements_def
     demo_type_objects_def demo_start_def)

definition demo_types_printed :: "metafile res" where
  "demo_types_printed =
     rbind (relevant_dependencies demo_print_env demo_orders demo_type_catalog [] [] False demo_type_objects) (\<lambda>deps.
     rbind (TopologicalSort (dep_order demo_orders deps) demo_type_objects deps) (\<lambda>sorted.
       PrintDependentObjectStatements demo_print_env (metadata_order demo_orders) sorted [] [] [] (after_break (empty_file, empty_TOC))))"

lemma demo_types_printed_run: "case demo_types_printed of Inl _ \<Rightarrow> False | Inr f \<Rightarrow> length (contents (fst f)) < 200"
  by code_simp

lemma demo_types_extracted:
  "\<exists>s'. extracted demo_print_env demo_orders demo_type_catalog [''s''] [] False demo_start s' demo_type_rows [] \<and> x_objects s' = demo_type_objects"
proof -
  obtain s where col: "collect_predata demo_print_env demo_type_catalog [''s''] [] False (demo_start\<lparr>x_objects := [], x_metadata := []\<rparr>) = Inr ([], [], [], [], s)"
    and s: "x_objects s = demo_type_objects" "x_metadata s = []" "x_out s = after_break (empty_file, empty_TOC)" using demo_types_collected by blast
  obtain f where f: "demo_types_printed = Inr f" "length (contents (fst f)) < 200"
    using demo_types_printed_run by (auto split: sum.splits)
  have dep: "backupDependentObjects demo_print_env demo_orders demo_type_catalog [] [] [] [] [] False s = Inr (s\<lparr>x_out := f\<rparr>)"
    using f(1) unfolding demo_types_printed_def backupDependentObjects_def s
    by (cases f) (auto simp: rbind_Inr_iff write_with_def s PrintIdentityColumns_def PrintAlterSequenceStatements_def demo_versions
        demo_type_catalog_def empty_catalog_def)
  have conv: "backupConversions demo_print_env demo_type_catalog t = Inr (set_count ''Conversions'' 0 t)" for t
    by (simp add: backupConversions_def backup_kind_def PrintCreateConversionStatements_def write_empty demo_type_catalog_def empty_catalog_def)
  have "backupPredata demo_print_env demo_orders demo_type_catalog [''s''] [] False demo_start =
      Inr (set_count ''Conversions'' 0 (s\<lparr>x_out := f\<rparr>))"
    unfolding backupPredata_def col by (simp add: dep conv)
  moreover have "dependency_rows demo_print_env demo_type_catalog [] = Inr demo_type_rows" by code_simp
  moreover have "distinct (map GetUniqueID demo_type_objects)" by code_simp
  ultimately have "extracted demo_print_env demo_orders demo_type_catalog [''s''] [] False demo_start (set_count ''Conversions'' 0 (s\<lparr>x_out := f\<rparr>)) demo_type_rows []"
    using f(2) s(1) range_orders_keys demo_start_empty by (simp add: extracted_def demo_orders_def)
  then show ?thesis using s(1) by fastforce
qed

theorem types_restored_too_early_witness:
  "\<exists>(s' :: extraction) steps tx ty. restorePredata_statements (snd (x_out s')) (contents (fst (x_out s'))) = Inr steps \<and>
     definition_of demo_print_env (as_sortable (CompositeTypeV demo_composite)) tx \<in> set (steps ! 3) \<and>
     definition_of demo_print_env (as_sortable (DomainV demo_domain)) ty \<in> set (steps ! 6) \<and>
     ''DOMAIN'' \<notin> st_ObjectType ` set (concat (take 6 steps))"
proof -
  let ?x = "as_sortable (CompositeTypeV demo_composite)" and ?y = "as_sortable (DomainV demo_domain)"
  obtain s' where ex: "extracted demo_print_env demo_orders demo_type_catalog [''s''] [] False demo_start s' demo_type_rows []"
    and objs: "x_objects s' = demo_type_objects" using demo_types_extracted by blast
  have mem: "?x \<in> set (x_objects s')" "?y \<in> set (x_objects s')" unfolding objs by (simp_all add: demo_type_objects_def)
  have pre: "in_predata (dynamic ?x)" "in_predata (dynamic ?y)" by (simp_all add: as_sortable_def)
  have ids: "GetUniqueID ?x = mk_id PG_TYPE_OID 21" "GetUniqueID ?y = mk_id PG_TYPE_OID 22" by code_simp+
  have "GetUniqueID ` set demo_type_objects = {mk_id PG_TYPE_OID 21, mk_id PG_TYPE_OID 22}"
    unfolding demo_type_objects_def using ids by simp
  then have needs: "needs demo_type_rows (x_objects s') (GetUniqueID ?x) (GetUniqueID ?y)"
    unfolding ids objs
    by (simp add: needs_def row_edge_def createBackupSet_has demo_type_rows_def mk_id_def PG_PROC_OID_def PG_TYPE_OID_def)
  have ty: "recorded_type demo_print_env ?x = ''TYPE''" "recorded_type demo_print_env ?y = ''DOMAIN''" by code_simp+
  then have "recorded_type demo_print_env ?y \<notin> set dependent_excludes" by (simp add: dependent_excludes_def)
  then obtain steps tx u where "restorePredata_statements (snd (x_out s')) (contents (fst (x_out s'))) = Inr steps"
    "definition_of demo_print_env ?x tx \<in> set (steps ! 3)" "definition_of demo_print_env ?y u \<in> set (steps ! 6)"
    "recorded_type demo_print_env ?y \<notin> st_ObjectType ` set (concat (take 6 steps))"
    using types_restored_too_early[OF ex mem(1) pre(1) mem(2) pre(2) needs ty(1)] by blast
  then show ?thesis unfolding ty(2) by blast
qed

end
