(* ===== verification/Readers.thy ===== *)
theory Readers
  imports Gostrings
begin

text \<open>
  The record readers of \<open>src/internal/reader\<close>: the buffered \<open>ReaderBase\<close> with its virtual
  method \<open>parseRecords\<close>, and the three implementations \<open>CsvReader\<close>, \<open>TextReader\<close> and
  \<open>CustomReader\<close>. The helper program uses the CSV reader to forward whole records when
  several peers write to one output.

  The \<open>io.Reader\<close> underneath is a parameter \<open>rd\<close>: given its state and the room in the buffer
  it returns bytes, an optional error and its next state. \<open>reader_contract\<close> states what the
  documentation of \<open>io.Reader\<close> promises, relative to the bytes still to come.

  Shown here: a returned record is exactly the next bytes of the stream, so no byte is lost,
  duplicated or reordered, for every implementation of \<open>parseRecords\<close> (locale \<open>record_parser\<close>);
  a CSV record ends at a line end outside quotes as long as no line fills the buffer; and a
  line longer than the buffer can be cut inside a quoted field.
\<close>

section \<open>The buffered reader\<close>

datatype ioerr = EOF | ErrNoProgress | ErrBufferFull | OtherErr string

type_synonym 'r io_reader = "'r \<Rightarrow> nat \<Rightarrow> char list \<times> ioerr option \<times> 'r"

record 'r reader_base =
  rb_buf :: "char list"
  rb_rd :: 'r
  rb_r :: nat
  rb_w :: nat
  rb_err :: "ioerr option"
  rb_line :: nat
  rb_raw :: "char list"

definition minReadBufferSize :: nat where "minReadBufferSize = 16"
definition maxConsecutiveEmptyReads :: nat where "maxConsecutiveEmptyReads = 100"

text \<open>The built-in \<open>copy\<close>: the length of the destination does not change.\<close>

definition go_copy :: "'a list \<Rightarrow> 'a list \<Rightarrow> 'a list" where
  "go_copy dst src = take (length dst) src @ drop (length src) dst"

definition overwrite :: "'a list \<Rightarrow> nat \<Rightarrow> 'a list \<Rightarrow> 'a list" where
  "overwrite b w bs = take w b @ bs @ drop (w + length bs) b"

text \<open>\<open>b.buf[b.r:b.w]\<close>, the bytes read from the source and not yet returned.\<close>

definition pending :: "'r reader_base \<Rightarrow> char list" where
  "pending b = take (rb_w b - rb_r b) (drop (rb_r b) (rb_buf b))"

definition slide :: "'r reader_base \<Rightarrow> 'r reader_base" where
  "slide b = (if rb_r b > 0
     then b\<lparr>rb_buf := go_copy (rb_buf b) (pending b), rb_w := rb_w b - rb_r b, rb_r := 0\<rparr> else b)"

text \<open>
  The bounded retry loop of \<open>fill\<close>. A source that returns more bytes than the slice it was
  given would push \<open>b.w\<close> past the buffer, and slicing there panics.
\<close>

fun read_loop :: "'r io_reader \<Rightarrow> nat \<Rightarrow> 'r reader_base \<Rightarrow> 'r reader_base res" where
  "read_loop rd 0 b = Inr (b\<lparr>rb_err := Some ErrNoProgress\<rparr>)"
| "read_loop rd (Suc i) b =
     (case rd (rb_rd b) (length (rb_buf b) - rb_w b) of (bs, e, s') \<Rightarrow>
        if length bs > length (rb_buf b) - rb_w b then Inl (Panic ''slice bounds out of range'')
        else let b' = b\<lparr>rb_buf := overwrite (rb_buf b) (rb_w b) bs,
                        rb_w := rb_w b + length bs, rb_rd := s'\<rparr>
             in case e of Some x \<Rightarrow> Inr (b'\<lparr>rb_err := Some x\<rparr>)
                | None \<Rightarrow> if bs \<noteq> [] then Inr b' else read_loop rd i b')"

definition fill :: "'r io_reader \<Rightarrow> 'r reader_base \<Rightarrow> 'r reader_base res" where
  "fill rd b =
     (let b = slide b
      in if rb_w b \<ge> length (rb_buf b) then Inl (Panic ''bufio: tried to fill full buffer'')
         else read_loop rd maxConsecutiveEmptyReads b)"

definition buffered :: "'r reader_base \<Rightarrow> nat" where
  "buffered b = rb_w b - rb_r b"

lemma length_go_copy [simp]: "length (go_copy dst src) = length dst"
  by (simp add: go_copy_def)

lemma length_overwrite: "w + length bs \<le> length b \<Longrightarrow> length (overwrite b w bs) = length b"
  by (simp add: overwrite_def)

lemma slide_facts: "length (rb_buf (slide b)) = length (rb_buf b)" "rb_r (slide b) = 0"
  "rb_w (slide b) = buffered b" "rb_err (slide b) = rb_err b" "rb_rd (slide b) = rb_rd b"
  "rb_line (slide b) = rb_line b"
  by (simp_all add: slide_def buffered_def)

lemma read_loop_progress:
  assumes "read_loop rd i b = Inr b'" and "rb_w b < length (rb_buf b)"
  shows "length (rb_buf b') = length (rb_buf b) \<and> rb_r b' = rb_r b \<and> rb_w b' \<le> length (rb_buf b) \<and>
    rb_w b \<le> rb_w b' \<and> (rb_err b' \<noteq> None \<or> rb_w b < rb_w b')"
  using assms
proof (induction i arbitrary: b)
  case 0
  then show ?case by auto
next
  case (Suc i)
  obtain bs e s' where rd: "rd (rb_rd b) (length (rb_buf b) - rb_w b) = (bs, e, s')"
    by (metis prod_cases3)
  show ?case
  proof (cases "e = None \<and> bs = []")
    case True
    with rd Suc.prems have "read_loop rd i
        (b\<lparr>rb_buf := overwrite (rb_buf b) (rb_w b) bs, rb_w := rb_w b + length bs, rb_rd := s'\<rparr>) = Inr b'"
      by simp
    from Suc.IH[OF this] True Suc.prems(2) show ?thesis
      by (simp add: length_overwrite)
  next
    case False
    with rd Suc.prems show ?thesis
      by (auto simp: Let_def length_overwrite split: if_splits option.splits)
  qed
qed

lemma fill_progress:
  assumes "fill rd b = Inr b'"
  shows "length (rb_buf b') = length (rb_buf b) \<and> rb_r b' = 0 \<and> rb_w b' \<le> length (rb_buf b) \<and>
    (rb_err b' \<noteq> None \<or> buffered b < buffered b')"
proof -
  from assms have w: "rb_w (slide b) < length (rb_buf (slide b))"
    and loop: "read_loop rd maxConsecutiveEmptyReads (slide b) = Inr b'"
    by (auto simp: fill_def Let_def split: if_splits)
  from read_loop_progress[OF loop w] show ?thesis
    by (auto simp: slide_facts buffered_def)
qed

text \<open>
  \<open>readRecord\<close>: search the buffered bytes, then report a pending error, then a full buffer,
  else read more. The search start \<open>s\<close> of the source is 0 in every round. Every round that
  reads either stores an error or adds a byte, so the loop ends.
\<close>

type_synonym parser = "char list \<Rightarrow> int \<times> nat"

function (sequential) readRecord ::
    "'r io_reader \<Rightarrow> parser \<Rightarrow> 'r reader_base \<Rightarrow> (char list \<times> ioerr option \<times> 'r reader_base) res" where
  "readRecord rd parse b =
     (let (i, n) = parse (pending b); b = b\<lparr>rb_line := rb_line b + n\<rparr>
      in if i \<ge> 0 then
           Inr (take (Suc (nat i)) (drop (rb_r b) (rb_buf b)), None, b\<lparr>rb_r := rb_r b + nat i + 1\<rparr>)
         else case rb_err b of
           Some e \<Rightarrow> Inr (pending b, Some e, b\<lparr>rb_r := rb_w b, rb_err := None\<rparr>)
         | None \<Rightarrow>
             if buffered b \<ge> length (rb_buf b)
             then Inr (rb_buf b, Some ErrBufferFull, b\<lparr>rb_r := rb_w b\<rparr>)
             else case fill rd b of Inl e \<Rightarrow> Inl e | Inr b' \<Rightarrow> readRecord rd parse b')"
  by pat_completeness auto
termination
proof (relation "measure (\<lambda>(rd, parse, b).
    if rb_err b = None then Suc (length (rb_buf b) - buffered b) else 0)", goal_cases)
  case 1
  show ?case by simp
next
  case (2 rd parse b p i n b1 b2)
  from fill_progress[OF 2(7)] 2 show ?case
    by (auto simp: buffered_def split: if_splits)
qed

declare readRecord.simps [simp del]

text \<open>
  \<open>Read\<close>: a record that fills the buffer is assembled from several reads. With an endless
  line on an endless stream the loop does not end, so it takes fuel; \<open>None\<close> is no result yet.
\<close>

fun read_full :: "nat \<Rightarrow> 'r io_reader \<Rightarrow> parser \<Rightarrow> 'r reader_base \<Rightarrow>
    (char list \<times> ioerr option \<times> 'r reader_base) res option" where
  "read_full 0 rd parse b = None"
| "read_full (Suc fuel) rd parse b =
     (case readRecord rd parse b of
        Inl e \<Rightarrow> Some (Inl e)
      | Inr (record, err, b) \<Rightarrow>
          let b = b\<lparr>rb_raw := rb_raw b @ record\<rparr>
          in if err = Some ErrBufferFull then read_full fuel rd parse b
             else Some (Inr (rb_raw b, err, b)))"

definition Read :: "nat \<Rightarrow> 'r io_reader \<Rightarrow> parser \<Rightarrow> 'r reader_base \<Rightarrow>
    (char list \<times> ioerr option \<times> 'r reader_base) res option" where
  "Read fuel rd parse b =
     (case readRecord rd parse b of
        Inl e \<Rightarrow> Some (Inl e)
      | Inr (record, err, b) \<Rightarrow>
          if err = Some ErrBufferFull then read_full fuel rd parse (b\<lparr>rb_raw := record\<rparr>)
          else Some (Inr (record, err, b)))"

definition Count :: "'r reader_base \<Rightarrow> nat" where
  "Count b = rb_line b"

section \<open>The implementations of parseRecords\<close>

datatype eol = EolNl | EolCr | EolCrNl | EolCustom

record csv_reader =
  EolType :: eol
  Escape :: char
  Quote :: char

fun csv_nl_loop :: "csv_reader \<Rightarrow> char \<Rightarrow> bool \<Rightarrow> bool \<Rightarrow> int \<Rightarrow> int \<Rightarrow> nat \<Rightarrow> char list \<Rightarrow> int \<times> nat" where
  "csv_nl_loop b delim inQuote lastWasEsc i lastRecord line [] = (lastRecord, line)"
| "csv_nl_loop b delim inQuote lastWasEsc i lastRecord line (c # cs) =
     (if inQuote then
        if lastWasEsc then csv_nl_loop b delim inQuote False (i + 1) lastRecord line cs
        else if c = Quote b then csv_nl_loop b delim False lastWasEsc (i + 1) lastRecord line cs
        else if c = Escape b then csv_nl_loop b delim inQuote True (i + 1) lastRecord line cs
        else csv_nl_loop b delim inQuote lastWasEsc (i + 1) lastRecord line cs
      else if c = Quote b then csv_nl_loop b delim True lastWasEsc (i + 1) lastRecord line cs
      else if c = delim then csv_nl_loop b delim inQuote lastWasEsc (i + 1) i (Suc line) cs
      else csv_nl_loop b delim inQuote lastWasEsc (i + 1) lastRecord line cs)"

definition csv_parseNlOrCr :: "csv_reader \<Rightarrow> char list \<Rightarrow> char \<Rightarrow> int \<times> nat" where
  "csv_parseNlOrCr b s delim = csv_nl_loop b delim False False 0 (-1) 0 s"

fun csv_crnl_loop :: "csv_reader \<Rightarrow> bool \<Rightarrow> bool \<Rightarrow> char \<Rightarrow> int \<Rightarrow> int \<Rightarrow> nat \<Rightarrow> char list \<Rightarrow> int \<times> nat" where
  "csv_crnl_loop b inQuote lastWasEsc lastch i lastRecord line [] = (lastRecord, line)"
| "csv_crnl_loop b inQuote lastWasEsc lastch i lastRecord line (c # cs) =
     (if inQuote then
        if lastWasEsc then csv_crnl_loop b inQuote False c (i + 1) lastRecord line cs
        else if c = Quote b then csv_crnl_loop b False lastWasEsc c (i + 1) lastRecord line cs
        else if c = Escape b then csv_crnl_loop b inQuote True c (i + 1) lastRecord line cs
        else csv_crnl_loop b inQuote lastWasEsc c (i + 1) lastRecord line cs
      else if c = Quote b then csv_crnl_loop b True lastWasEsc c (i + 1) lastRecord line cs
      else if c = CHR 0x0A \<and> lastch = CHR 0x0D
      then csv_crnl_loop b inQuote lastWasEsc c (i + 1) i (Suc line) cs
      else csv_crnl_loop b inQuote lastWasEsc c (i + 1) lastRecord line cs)"

definition csv_parseCrNl :: "csv_reader \<Rightarrow> char list \<Rightarrow> int \<times> nat" where
  "csv_parseCrNl b s = csv_crnl_loop b False False CHR 0x00 0 (-1) 0 s"

definition csv_parseRecords :: "csv_reader \<Rightarrow> parser" where
  "csv_parseRecords b s =
     (case EolType b of
        EolNl \<Rightarrow> csv_parseNlOrCr b s CHR 0x0A
      | EolCr \<Rightarrow> csv_parseNlOrCr b s CHR 0x0D
      | _ \<Rightarrow> csv_parseCrNl b s)"

definition NewReaderBase :: "'r \<Rightarrow> nat \<Rightarrow> 'r reader_base" where
  "NewReaderBase rd sz =
     \<lparr>rb_buf = replicate (max sz minReadBufferSize) CHR 0x00, rb_rd = rd, rb_r = 0, rb_w = 0,
      rb_err = None, rb_line = 0, rb_raw = []\<rparr>"

text \<open>The text reader searches from the back; it never counts lines.\<close>

fun text_nl_loop :: "char list \<Rightarrow> char \<Rightarrow> nat \<Rightarrow> int" where
  "text_nl_loop s delim 0 = -1"
| "text_nl_loop s delim (Suc i) = (if s ! i = delim then int i else text_nl_loop s delim i)"

fun text_crnl_loop :: "char list \<Rightarrow> nat \<Rightarrow> int" where
  "text_crnl_loop s 0 = -1"
| "text_crnl_loop s (Suc i) =
     (if i > 0 \<and> s ! i = CHR 0x0A \<and> s ! (i - 1) = CHR 0x0D then int i else text_crnl_loop s i)"

definition text_parseRecords :: "eol \<Rightarrow> parser" where
  "text_parseRecords eolType s =
     (case eolType of
        EolNl \<Rightarrow> (text_nl_loop s CHR 0x0A (length s), 0)
      | EolCr \<Rightarrow> (text_nl_loop s CHR 0x0D (length s), 0)
      | _ \<Rightarrow> (text_crnl_loop s (length s), 0))"

text \<open>The custom reader: the delimiter is given as written in a COPY option.\<close>

definition custom_delim :: "string \<Rightarrow> string" where
  "custom_delim lineDelimiter =
     (if lineDelimiter = ''E'' @ [SQ] @ [CHR 0x5C] @ ''n'' @ [SQ] then [CHR 0x0A]
      else if lineDelimiter = ''E'' @ [SQ] @ [CHR 0x5C] @ ''r'' @ [SQ] then [CHR 0x0D]
      else if lineDelimiter = ''E'' @ [SQ] @ [CHR 0x5C] @ ''r'' @ [CHR 0x5C] @ ''n'' @ [SQ]
      then [CHR 0x0D, CHR 0x0A]
      else lineDelimiter)"

fun custom_loop :: "char list \<Rightarrow> char list \<Rightarrow> nat \<Rightarrow> int" where
  "custom_loop s d i =
     (if take (length d) (drop i s) = d then int i + int (length d) - 1
      else case i of 0 \<Rightarrow> -1 | Suc j \<Rightarrow> custom_loop s d j)"

declare custom_loop.simps [simp del]

definition custom_parseRecords :: "char list \<Rightarrow> parser" where
  "custom_parseRecords d s =
     (let slen = length s; dlen = length d
      in if slen < dlen then (-1, 0)
         else if slen - dlen = 0 then (if s = d then int slen - 1 else -1, 0)
         else (custom_loop s d (slen - dlen), 0))"

section \<open>What every reader keeps of its input\<close>

definition reader_ok :: "'r reader_base \<Rightarrow> bool" where
  "reader_ok b \<longleftrightarrow> rb_r b \<le> rb_w b \<and> rb_w b \<le> length (rb_buf b) \<and> rb_buf b \<noteq> [] \<and>
     rb_err b \<noteq> Some ErrBufferFull"

definition reader_contract :: "'r io_reader \<Rightarrow> ('r \<Rightarrow> char list) \<Rightarrow> bool" where
  "reader_contract rd rest \<longleftrightarrow>
     (\<forall>s n bs e s'. rd s n = (bs, e, s') \<longrightarrow>
        length bs \<le> n \<and> rest s = bs @ rest s' \<and> e \<noteq> Some ErrBufferFull)"

text \<open>The bytes the caller has not seen: those buffered and those the source still holds.\<close>

definition unread :: "('r \<Rightarrow> char list) \<Rightarrow> 'r reader_base \<Rightarrow> char list" where
  "unread rest b = pending b @ rest (rb_rd b)"

lemma reader_ok_New [simp]: "reader_ok (NewReaderBase s sz)"
  by (simp add: reader_ok_def NewReaderBase_def minReadBufferSize_def)

lemma unread_New [simp]: "unread rest (NewReaderBase s sz) = rest s"
  by (simp add: unread_def NewReaderBase_def pending_def)

lemma pending_length: "reader_ok b \<Longrightarrow> length (pending b) = buffered b"
  by (auto simp: pending_def reader_ok_def buffered_def)

lemma slide_unread:
  "reader_ok b \<Longrightarrow> reader_ok (slide b) \<and> pending (slide b) = pending b"
  by (auto simp: slide_def reader_ok_def pending_def go_copy_def min_def)

lemma pending_overwrite:
  assumes "reader_ok b" and "rb_w b + length bs \<le> length (rb_buf b)"
  shows "pending (b\<lparr>rb_buf := overwrite (rb_buf b) (rb_w b) bs, rb_w := rb_w b + length bs, rb_rd := s\<rparr>)
    = pending b @ bs"
proof -
  have "drop (rb_r b) (overwrite (rb_buf b) (rb_w b) bs) =
      pending b @ bs @ drop (rb_w b + length bs) (rb_buf b)"
    using assms by (simp add: overwrite_def reader_ok_def pending_def drop_take)
  moreover have "length (pending b) = rb_w b - rb_r b"
    using pending_length[OF assms(1)] by (simp add: buffered_def)
  ultimately show ?thesis using assms(1) by (simp add: pending_def reader_ok_def)
qed

lemma read_loop_unread:
  assumes c: "reader_contract rd rest" and "reader_ok b"
  shows "\<exists>b'. read_loop rd i b = Inr b' \<and> reader_ok b' \<and> unread rest b' = unread rest b \<and>
    rb_line b' = rb_line b"
  using assms(2)
proof (induction i arbitrary: b)
  case 0
  then show ?case by (auto simp: reader_ok_def unread_def pending_def)
next
  case (Suc i)
  obtain bs e s' where rd: "rd (rb_rd b) (length (rb_buf b) - rb_w b) = (bs, e, s')"
    by (metis prod_cases3)
  with c have le: "length bs \<le> length (rb_buf b) - rb_w b" and rest: "rest (rb_rd b) = bs @ rest s'"
    by (auto simp: reader_contract_def)
  let ?b = "b\<lparr>rb_buf := overwrite (rb_buf b) (rb_w b) bs, rb_w := rb_w b + length bs, rb_rd := s'\<rparr>"
  have le': "rb_w b + length bs \<le> length (rb_buf b)" using le Suc.prems by (auto simp: reader_ok_def)
  have ok: "reader_ok ?b" using Suc.prems le' length_overwrite[OF le']
    by (auto simp: reader_ok_def)
  have un: "unread rest ?b = unread rest b"
    using pending_overwrite[OF Suc.prems le'] rest by (simp add: unread_def)
  from c rd have e: "e \<noteq> Some ErrBufferFull" by (auto simp: reader_contract_def)
  have err: "x \<noteq> Some ErrBufferFull \<Longrightarrow> reader_ok (?b\<lparr>rb_err := x\<rparr>) \<and> unread rest (?b\<lparr>rb_err := x\<rparr>) = unread rest b" for x
    using ok un by (simp add: reader_ok_def unread_def pending_def)
  show ?case
  proof (cases "e = None \<and> bs = []")
    case True
    with rd Suc.IH[OF ok] un show ?thesis by simp
  next
    case False
    with rd le ok un e err show ?thesis by (auto simp: Let_def split: option.split)
  qed
qed

lemma fill_unread:
  assumes "reader_contract rd rest" and "reader_ok b" and "buffered b < length (rb_buf b)"
  shows "\<exists>b'. fill rd b = Inr b' \<and> reader_ok b' \<and> unread rest b' = unread rest b \<and>
    rb_line b' = rb_line b"
proof -
  have "unread rest (slide b) = unread rest b"
    using slide_unread[OF assms(2)] by (simp add: unread_def slide_facts)
  with read_loop_unread[OF assms(1) conjunct1[OF slide_unread[OF assms(2)]], of maxConsecutiveEmptyReads]
  show ?thesis using assms(3) by (simp add: fill_def Let_def slide_facts)
qed

lemma pending_split:
  assumes "k \<le> buffered b"
  shows "pending b = take k (drop (rb_r b) (rb_buf b)) @ pending (b\<lparr>rb_r := rb_r b + k\<rparr>)"
proof -
  have "rb_w b - rb_r b = k + (rb_w b - (rb_r b + k))" using assms by (simp add: buffered_def)
  then show ?thesis by (simp add: pending_def take_add add.commute)
qed

text \<open>Only \<open>Read\<close> itself touches \<open>rawBuffer\<close>.\<close>

lemma read_loop_raw: "read_loop rd i b = Inr b' \<Longrightarrow> rb_raw b' = rb_raw b"
  by (induction rd i b rule: read_loop.induct) (auto simp: Let_def split: prod.splits if_splits option.splits)

lemma fill_raw: "fill rd b = Inr b' \<Longrightarrow> rb_raw b' = rb_raw b"
  by (auto simp: fill_def slide_def Let_def dest!: read_loop_raw split: if_splits)

lemma readRecord_raw: "readRecord rd parse b = Inr (record, e, b') \<Longrightarrow> rb_raw b' = rb_raw b"
proof (induction rd parse b rule: readRecord.induct)
  case (1 rd parse b)
  then show ?case
    by (subst (asm) (2) readRecord.simps)
      (auto simp: Let_def dest: fill_raw split: prod.splits if_splits option.splits sum.splits)
qed

text \<open>
  The interface \<open>VirtualMethod\<close>: an implementation returns -1 or a position inside the slice
  it searched. That is all \<open>ReaderBase\<close> needs to return every byte exactly once.
\<close>

locale record_parser =
  fixes parse :: parser
  assumes parse_range: "parse s = (i, n) \<Longrightarrow> -1 \<le> i \<and> i < int (length s)"
begin

lemma readRecord_lossless:
  assumes c: "reader_contract rd rest" and "reader_ok b"
  shows "\<exists>record e b'. readRecord rd parse b = Inr (record, e, b') \<and> reader_ok b' \<and>
    unread rest b = record @ unread rest b' \<and> length (rb_buf b') = length (rb_buf b) \<and>
    (e = None \<longrightarrow> (\<exists>s. 0 \<le> fst (parse s) \<and> record = take (Suc (nat (fst (parse s)))) s)) \<and>
    (e = Some ErrBufferFull \<longrightarrow> fst (parse record) < 0 \<and> length record = length (rb_buf b))"
  using assms(2)
proof (induction "if rb_err b = None then Suc (length (rb_buf b) - buffered b) else 0"
    arbitrary: b rule: less_induct)
  case less
  obtain i n where p: "parse (pending b) = (i, n)" by fastforce
  let ?b = "b\<lparr>rb_line := rb_line b + n\<rparr>"
  note range = parse_range[OF p]
  have ok: "reader_ok ?b" and un: "unread rest ?b = unread rest b" and pe: "pending ?b = pending b"
    using less.prems by (simp_all add: reader_ok_def unread_def pending_def)
  note unfold = readRecord.simps[of rd parse b] p
  consider (found) "i \<ge> 0" | (err) e where "i < 0" "rb_err b = Some e"
    | (full) "i < 0" "rb_err b = None" "buffered b \<ge> length (rb_buf b)"
    | (more) "i < 0" "rb_err b = None" "buffered b < length (rb_buf b)"
    by (metis not_le option.exhaust)
  then show ?case
  proof cases
    case found
    with range have "Suc (nat i) \<le> buffered b" using pending_length[OF less.prems] by linarith
    then have "pending b = take (Suc (nat i)) (drop (rb_r b) (rb_buf b)) @
        pending (?b\<lparr>rb_r := rb_r b + nat i + 1\<rparr>)"
      using pending_split[of "Suc (nat i)" b] by (simp add: pending_def)
    moreover have "take (Suc (nat i)) (drop (rb_r b) (rb_buf b)) = take (Suc (nat i)) (pending b)"
      using \<open>Suc (nat i) \<le> buffered b\<close> by (simp add: pending_def buffered_def)
    ultimately show ?thesis
      using found unfold \<open>Suc (nat i) \<le> buffered b\<close> less.prems
      by (auto simp: unread_def reader_ok_def buffered_def intro!: exI[of _ "pending b"])
  next
    case err
    with unfold less.prems show ?thesis
      by (auto simp: unread_def reader_ok_def pending_def)
  next
    case full
    with less.prems have "rb_r b = 0" "rb_w b = length (rb_buf b)"
      by (auto simp: reader_ok_def buffered_def)
    with full unfold less.prems show ?thesis
      by (auto simp: unread_def reader_ok_def pending_def buffered_def)
  next
    case more
    then have "buffered ?b < length (rb_buf ?b)" by (simp add: buffered_def)
    from fill_unread[OF c ok this] obtain b' where
      b': "fill rd ?b = Inr b'" "reader_ok b'" "unread rest b' = unread rest b" using un by auto
    from fill_progress[OF b'(1)] more have
      "(if rb_err b' = None then Suc (length (rb_buf b') - buffered b') else 0)
       < (if rb_err b = None then Suc (length (rb_buf b) - buffered b) else 0)"
      by (auto simp: buffered_def)
    from less.hyps[OF this b'(2)] b' fill_progress[OF b'(1)] unfold more show ?thesis
      by (auto simp: buffered_def)
  qed
qed

lemma read_full_lossless:
  assumes c: "reader_contract rd rest" and "reader_ok b" and "length (unread rest b) < fuel"
  shows "\<exists>record e b'. read_full fuel rd parse b = Some (Inr (rb_raw b @ record, e, b')) \<and>
    reader_ok b' \<and> unread rest b = record @ unread rest b' \<and> length (rb_buf b') = length (rb_buf b) \<and>
    e \<noteq> Some ErrBufferFull"
  using assms(2,3)
proof (induction fuel arbitrary: b)
  case 0
  then show ?case by simp
next
  case (Suc fuel)
  from readRecord_lossless[OF c Suc.prems(1)] obtain rc e b1 where
    r: "readRecord rd parse b = Inr (rc, e, b1)" "reader_ok b1"
      "unread rest b = rc @ unread rest b1" "length (rb_buf b1) = length (rb_buf b)"
      "e = Some ErrBufferFull \<longrightarrow> length rc = length (rb_buf b)" by blast
  let ?b = "b1\<lparr>rb_raw := rb_raw b1 @ rc\<rparr>"
  have raw: "rb_raw b1 = rb_raw b" using readRecord_raw[OF r(1)] .
  have b: "reader_ok ?b" "unread rest ?b = unread rest b1" "length (rb_buf ?b) = length (rb_buf b)"
    using r(2,4) by (simp_all add: reader_ok_def unread_def pending_def)
  show ?case
  proof (cases "e = Some ErrBufferFull")
    case True
    then have "0 < length rc" using r(5) Suc.prems(1) by (auto simp: reader_ok_def)
    moreover have "length (unread rest b) = length rc + length (unread rest ?b)" using r(3) b(2) by simp
    ultimately have "length (unread rest ?b) < fuel" using Suc.prems(2) by linarith
    from Suc.IH[OF b(1) this] r(1,3) True b raw show ?thesis by (auto simp: Let_def)
  next
    case False
    with r b raw show ?thesis by (auto simp: Let_def)
  qed
qed

lemma Read_lossless:
  assumes c: "reader_contract rd rest" and ok: "reader_ok b" and fuel: "length (unread rest b) < fuel"
  shows "\<exists>record e b'. Read fuel rd parse b = Some (Inr (record, e, b')) \<and> reader_ok b' \<and>
    unread rest b = record @ unread rest b' \<and> length (rb_buf b') = length (rb_buf b) \<and>
    e \<noteq> Some ErrBufferFull"
proof -
  from readRecord_lossless[OF c ok] obtain rc e b1 where
    r: "readRecord rd parse b = Inr (rc, e, b1)" "reader_ok b1"
      "unread rest b = rc @ unread rest b1" "length (rb_buf b1) = length (rb_buf b)" by blast
  let ?b = "b1\<lparr>rb_raw := rc\<rparr>"
  have b: "reader_ok ?b" "unread rest ?b = unread rest b1" "length (rb_buf ?b) = length (rb_buf b)"
    using r(2,4) by (simp_all add: reader_ok_def unread_def pending_def)
  show ?thesis
  proof (cases "e = Some ErrBufferFull")
    case True
    have "length (unread rest ?b) < fuel" using r(3) b(2) fuel by simp
    from read_full_lossless[OF c b(1) this] True r b show ?thesis
      by (auto simp: Read_def)
  next
    case False
    with r show ?thesis by (auto simp: Read_def)
  qed
qed

end

section \<open>The three implementations satisfy the interface\<close>

text \<open>
  The scanner state (inside quotes, after an escape) and the positions where a line ends.
\<close>

fun csv_step :: "csv_reader \<Rightarrow> bool \<times> bool \<Rightarrow> char \<Rightarrow> bool \<times> bool" where
  "csv_step b (inQ, esc) c =
     (if inQ then if esc then (True, False) else if c = Quote b then (False, False)
        else (True, c = Escape b)
      else (c = Quote b, esc))"

definition line_end :: "csv_reader \<Rightarrow> char \<Rightarrow> bool \<times> bool \<Rightarrow> char list \<Rightarrow> nat \<Rightarrow> bool" where
  "line_end b delim st s j \<longleftrightarrow>
     j < length s \<and> \<not> fst (foldl (csv_step b) st (take j s)) \<and> s ! j = delim \<and> delim \<noteq> Quote b"

lemma line_end_Nil [simp]: "\<not> line_end b d st [] j"
  by (simp add: line_end_def)

lemma line_end_Cons_0: "line_end b d st (c # cs) 0 \<longleftrightarrow> \<not> fst st \<and> c = d \<and> d \<noteq> Quote b"
  by (auto simp: line_end_def)

lemma line_end_Cons_Suc [simp]:
  "line_end b d st (c # cs) (Suc j) \<longleftrightarrow> line_end b d (csv_step b st c) cs j"
  by (simp add: line_end_def)

lemma csv_nl_loop_Cons:
  "csv_nl_loop b d inQ esc i l n (c # cs) =
     csv_nl_loop b d (fst (csv_step b (inQ, esc) c)) (snd (csv_step b (inQ, esc) c)) (i + 1)
       (if line_end b d (inQ, esc) (c # cs) 0 then i else l)
       (if line_end b d (inQ, esc) (c # cs) 0 then Suc n else n) cs"
  by (cases inQ; cases esc) (simp_all add: line_end_Cons_0 del: not_None_eq)

declare csv_nl_loop.simps(2) [simp del]

lemma csv_nl_loop_spec:
  "fst (csv_nl_loop b d inQ esc i l n s) = l \<and> (\<forall>j. \<not> line_end b d (inQ, esc) s j) \<or>
   (\<exists>j. fst (csv_nl_loop b d inQ esc i l n s) = i + int j \<and> line_end b d (inQ, esc) s j \<and>
      (\<forall>k. line_end b d (inQ, esc) s k \<longrightarrow> k \<le> j))"
proof (induction s arbitrary: inQ esc i l n)
  case Nil
  then show ?case by simp
next
  case (Cons c cs)
  let ?st = "csv_step b (inQ, esc) c"
  let ?hit = "line_end b d (inQ, esc) (c # cs) 0"
  let ?r = "fst (csv_nl_loop b d inQ esc i l n (c # cs))"
  have all: "(\<forall>k. line_end b d (inQ, esc) (c # cs) k \<longrightarrow> P k) \<longleftrightarrow>
      (?hit \<longrightarrow> P 0) \<and> (\<forall>k. line_end b d ?st cs k \<longrightarrow> P (Suc k))" for P
    by (metis line_end_Cons_Suc not0_implies_Suc)
  from Cons.IH[of "fst ?st" "snd ?st" "i + 1" "if ?hit then i else l" "if ?hit then Suc n else n"]
  consider (none) "?r = (if ?hit then i else l)" "\<forall>j. \<not> line_end b d ?st cs j"
    | (some) j where "?r = i + 1 + int j" "line_end b d ?st cs j" "\<forall>k. line_end b d ?st cs k \<longrightarrow> k \<le> j"
    unfolding csv_nl_loop_Cons[of b d inQ esc i l n c cs] by auto
  then show ?case
  proof cases
    case none
    then show ?thesis
    proof (cases ?hit)
      case True
      with none have "?r = i + int 0 \<and> ?hit \<and> (\<forall>k. line_end b d (inQ, esc) (c # cs) k \<longrightarrow> k \<le> 0)"
        by (simp add: all)
      then show ?thesis by blast
    next
      case False
      with none have "\<forall>k. \<not> line_end b d (inQ, esc) (c # cs) k" using all[of "\<lambda>_. False"] by simp
      with False none show ?thesis by simp
    qed
  next
    case some
    then have "?r = i + int (Suc j) \<and> line_end b d (inQ, esc) (c # cs) (Suc j) \<and>
        (\<forall>k. line_end b d (inQ, esc) (c # cs) k \<longrightarrow> k \<le> Suc j)"
      by (simp add: all)
    then show ?thesis by blast
  qed
qed

lemma csv_parseNlOrCr_cases:
  obtains (none) "fst (csv_parseNlOrCr b s d) = -1" "\<And>j. \<not> line_end b d (False, False) s j"
  | (some) j where "fst (csv_parseNlOrCr b s d) = int j" "line_end b d (False, False) s j"
      "\<And>k. line_end b d (False, False) s k \<Longrightarrow> k \<le> j"
  using csv_nl_loop_spec[of b d False False 0 "-1" 0 s] unfolding csv_parseNlOrCr_def by auto

lemma csv_crnl_loop_range:
  "-1 \<le> l \<Longrightarrow> l < i \<Longrightarrow>
   -1 \<le> fst (csv_crnl_loop b inQ esc ch i l n s) \<and>
   fst (csv_crnl_loop b inQ esc ch i l n s) < i + int (length s)"
proof (induction s arbitrary: inQ esc ch i l n)
  case Nil
  then show ?case by simp
next
  case (Cons c cs)
  have step: "\<exists>q e l' n'. csv_crnl_loop b inQ esc ch i l n (c # cs) = csv_crnl_loop b q e c (i + 1) l' n' cs \<and>
      (l' = l \<or> l' = i)"
    by (simp; blast)
  then obtain q e l' n' where s: "csv_crnl_loop b inQ esc ch i l n (c # cs) =
      csv_crnl_loop b q e c (i + 1) l' n' cs" "l' = l \<or> l' = i" by blast
  with Cons.prems have "-1 \<le> l'" "l' < i + 1" by auto
  from Cons.IH[OF this, of q e c n'] show ?case unfolding s(1) by simp
qed

lemma text_nl_loop_range: "-1 \<le> text_nl_loop s d n \<and> text_nl_loop s d n < int n"
  by (induction n) auto

lemma text_crnl_loop_range: "-1 \<le> text_crnl_loop s n \<and> text_crnl_loop s n < int n"
  by (induction n) auto

lemma custom_loop_range:
  "-1 \<le> custom_loop s d i \<and> custom_loop s d i < max 0 (int i + int (length d))"
proof (induction i)
  case 0
  show ?case by (subst (1 2) custom_loop.simps) auto
next
  case (Suc i)
  then show ?case by (subst (1 2) custom_loop.simps) auto
qed

interpretation csv_rd: record_parser "csv_parseRecords b" for b
proof
  fix s :: "char list" and i n
  assume r: "csv_parseRecords b s = (i, n)"
  have "-1 \<le> fst (csv_parseNlOrCr b s d) \<and> fst (csv_parseNlOrCr b s d) < int (length s)" for d
    by (rule csv_parseNlOrCr_cases[of b s d]) (auto simp: line_end_def)
  moreover have "-1 \<le> fst (csv_parseCrNl b s) \<and> fst (csv_parseCrNl b s) < int (length s)"
    using csv_crnl_loop_range[of "-1" 0 b False False "CHR 0x00" 0 s] by (simp add: csv_parseCrNl_def)
  ultimately show "-1 \<le> i \<and> i < int (length s)"
    using r by (auto simp: csv_parseRecords_def split: eol.splits) (metis fst_conv)+
qed

interpretation text_rd: record_parser "text_parseRecords e" for e
proof
  fix s :: "char list" and i n
  assume "text_parseRecords e s = (i, n)"
  then show "-1 \<le> i \<and> i < int (length s)"
    using text_nl_loop_range[of s "CHR 0x0A" "length s"] text_nl_loop_range[of s "CHR 0x0D" "length s"]
      text_crnl_loop_range[of s "length s"]
    by (auto simp: text_parseRecords_def split: eol.splits)
qed

interpretation custom_rd: record_parser "custom_parseRecords d" for d
proof
  fix s :: "char list" and i n
  assume "custom_parseRecords d s = (i, n)"
  then show "-1 \<le> i \<and> i < int (length s)"
    using custom_loop_range[of s d "length s - length d"]
    by (auto simp: custom_parseRecords_def Let_def of_nat_diff split: if_splits)
qed

section \<open>Whole lines\<close>

text \<open>
  A piece of the stream is whole when, scanned from outside quotes, it ends with a line end.
  Whole pieces can be written one after the other without splitting a record.
\<close>

definition whole :: "csv_reader \<Rightarrow> char \<Rightarrow> char list \<Rightarrow> bool" where
  "whole b d s \<longleftrightarrow> s \<noteq> [] \<and> line_end b d (False, False) s (length s - 1)"

text \<open>Every line of the stream, from a line start to its end, is shorter than \<open>n\<close> bytes.\<close>

definition short_lines :: "csv_reader \<Rightarrow> char \<Rightarrow> nat \<Rightarrow> char list \<Rightarrow> bool" where
  "short_lines b d n stream \<longleftrightarrow>
     (\<forall>a s c. stream = a @ s @ c \<and> (a = [] \<or> whole b d a) \<and> (\<forall>j. \<not> line_end b d (False, False) s j)
        \<longrightarrow> length s < n)"

lemma csv_state_clean:
  "\<not> fst (foldl (csv_step b) (False, False) s) \<Longrightarrow> foldl (csv_step b) (False, False) s = (False, False)"
proof -
  have "snd (foldl (csv_step b) (False, False) s) \<longrightarrow> fst (foldl (csv_step b) (False, False) s)"
  proof (induction s rule: rev_induct)
    case Nil
    then show ?case by simp
  next
    case (snoc c s)
    obtain q e where "foldl (csv_step b) (False, False) s = (q, e)" by fastforce
    with snoc show ?case by auto
  qed
  then show "\<not> fst (foldl (csv_step b) (False, False) s) \<Longrightarrow>
      foldl (csv_step b) (False, False) s = (False, False)"
    by (simp add: prod_eq_iff)
qed

lemma whole_state: "whole b d s \<Longrightarrow> foldl (csv_step b) (False, False) s = (False, False)"
proof -
  assume w: "whole b d s"
  then have "s \<noteq> []" "s ! (length s - 1) = d" and q: "d \<noteq> Quote b"
    by (auto simp: whole_def line_end_def)
  then have s: "s = butlast s @ [d]" by (metis append_butlast_last_id last_conv_nth)
  from w have "foldl (csv_step b) (False, False) (butlast s) = (False, False)"
    by (intro csv_state_clean) (simp add: whole_def line_end_def butlast_conv_take)
  with q show ?thesis by (subst s) simp
qed

lemma whole_append: "whole b d r \<Longrightarrow> whole b d s \<Longrightarrow> whole b d (r @ s)"
  using whole_state[of b d r] by (auto simp: whole_def line_end_def nth_append)

lemma whole_snoc:
  "whole b d (u @ [x]) \<longleftrightarrow> \<not> fst (foldl (csv_step b) (False, False) u) \<and> x = d \<and> d \<noteq> Quote b"
  by (auto simp: whole_def line_end_def)

lemma whole_suffix:
  assumes "whole b d (r @ s)" and "whole b d r"
  shows "s = [] \<or> whole b d s"
proof (cases s rule: rev_cases)
  case (snoc u x)
  with assms(1) whole_state[OF assms(2)] show ?thesis
    using whole_snoc[of b d "r @ u" x] whole_snoc[of b d u x] by simp
qed simp

lemma short_lines_drop: "short_lines b d n (r @ s) \<Longrightarrow> whole b d r \<Longrightarrow> short_lines b d n s"
  unfolding short_lines_def by (metis append.assoc append_Nil2 whole_append)

lemma csv_found_whole:
  assumes "0 \<le> fst (csv_parseNlOrCr b s d)"
  shows "whole b d (take (Suc (nat (fst (csv_parseNlOrCr b s d)))) s)"
proof (rule csv_parseNlOrCr_cases[of b s d])
  fix j
  assume j: "fst (csv_parseNlOrCr b s d) = int j" "line_end b d (False, False) s j"
  then have "length (take (Suc j) s) = Suc j" by (simp add: line_end_def)
  with j show ?thesis by (auto simp: whole_def line_end_def)
qed (use assms in simp)

text \<open>A stream shorter than the buffer has short lines.\<close>

lemma short_lines_length: "length stream < n \<Longrightarrow> short_lines b d n stream"
  unfolding short_lines_def by auto

text \<open>The reader the helper builds: \<open>NewCsvReader(conn, size, '"', '"', EolNl)\<close>.\<close>

definition helper_csv :: csv_reader where
  "helper_csv = \<lparr>EolType = EolNl, Escape = DQ, Quote = DQ\<rparr>"

lemma helper_csv_parse [simp]:
  "csv_parseRecords helper_csv s = csv_parseNlOrCr helper_csv s CHR 0x0A"
  by (simp add: csv_parseRecords_def helper_csv_def)

lemma Read_whole_line:
  assumes c: "reader_contract rd rest" and ok: "reader_ok b"
    and short: "short_lines helper_csv CHR 0x0A (length (rb_buf b)) (unread rest b)"
    and read: "Read fuel rd (csv_parseRecords helper_csv) b = Some (Inr (rc, None, b'))"
  shows "whole helper_csv CHR 0x0A rc \<and>
    short_lines helper_csv CHR 0x0A (length (rb_buf b')) (unread rest b')"
proof -
  from csv_rd.readRecord_lossless[OF c ok, of helper_csv] obtain r e b1 where
    r: "readRecord rd (csv_parseRecords helper_csv) b = Inr (r, e, b1)"
      "unread rest b = r @ unread rest b1" "length (rb_buf b1) = length (rb_buf b)"
    and none: "e = None \<longrightarrow> (\<exists>s. 0 \<le> fst (csv_parseNlOrCr helper_csv s CHR 0x0A) \<and>
        r = take (Suc (nat (fst (csv_parseNlOrCr helper_csv s CHR 0x0A)))) s)"
    and full: "e = Some ErrBufferFull \<longrightarrow> fst (csv_parseNlOrCr helper_csv r CHR 0x0A) < 0 \<and>
        length r = length (rb_buf b)"
    by auto
  have "e \<noteq> Some ErrBufferFull"
  proof
    assume "e = Some ErrBufferFull"
    with full have f: "fst (csv_parseNlOrCr helper_csv r CHR 0x0A) < 0" "length r = length (rb_buf b)"
      by simp_all
    then have "\<forall>j. \<not> line_end helper_csv CHR 0x0A (False, False) r j"
      by (cases rule: csv_parseNlOrCr_cases[of helper_csv r "CHR 0x0A"]) auto
    with short r(2) have "length r < length (rb_buf b)"
      unfolding short_lines_def by (metis append_Nil)
    with f show False by simp
  qed
  with read r(1) have "rc = r" "e = None" "b' = b1" by (auto simp: Read_def)
  with none csv_found_whole have "whole helper_csv CHR 0x0A rc" by auto
  with short_lines_drop[of helper_csv "CHR 0x0A" "length (rb_buf b)" rc] short r(2,3)
    \<open>rc = r\<close> \<open>b' = b1\<close> show ?thesis by auto
qed

section \<open>End of file\<close>

text \<open>A source that reports end of file has delivered everything.\<close>

definition eof_contract :: "'r io_reader \<Rightarrow> ('r \<Rightarrow> char list) \<Rightarrow> bool" where
  "eof_contract rd rest \<longleftrightarrow> (\<forall>s n bs s'. rd s n = (bs, Some EOF, s') \<longrightarrow> rest s' = [])"

definition eof_ok :: "('r \<Rightarrow> char list) \<Rightarrow> 'r reader_base \<Rightarrow> bool" where
  "eof_ok rest b \<longleftrightarrow> (rb_err b = Some EOF \<longrightarrow> rest (rb_rd b) = [])"

lemma eof_ok_New [simp]: "eof_ok rest (NewReaderBase s sz)"
  by (simp add: eof_ok_def NewReaderBase_def)

lemma read_loop_eof:
  "eof_contract rd rest \<Longrightarrow> rb_err b = None \<Longrightarrow> read_loop rd i b = Inr b' \<Longrightarrow> eof_ok rest b'"
proof (induction i arbitrary: b)
  case 0
  then show ?case by (auto simp: eof_ok_def)
next
  case (Suc i)
  obtain bs e s' where rd: "rd (rb_rd b) (length (rb_buf b) - rb_w b) = (bs, e, s')" by (metis prod_cases3)
  let ?b = "b\<lparr>rb_buf := overwrite (rb_buf b) (rb_w b) bs, rb_w := rb_w b + length bs, rb_rd := s'\<rparr>"
  show ?case
  proof (cases "e = None \<and> bs = []")
    case True
    with rd Suc.prems(3) have "read_loop rd i ?b = Inr b'" by (auto split: if_splits)
    then show ?thesis using Suc.IH[of ?b] Suc.prems by simp
  next
    case False
    with rd Suc.prems show ?thesis
      by (auto simp: eof_ok_def eof_contract_def Let_def split: if_splits option.splits)
  qed
qed

lemma fill_eof:
  "eof_contract rd rest \<Longrightarrow> rb_err b = None \<Longrightarrow> fill rd b = Inr b' \<Longrightarrow> eof_ok rest b'"
  using read_loop_eof[of rd rest "slide b"] by (auto simp: fill_def Let_def slide_facts split: if_splits)

lemma readRecord_eof:
  "eof_contract rd rest \<Longrightarrow> eof_ok rest b \<Longrightarrow> readRecord rd parse b = Inr (rc, e, b') \<Longrightarrow>
   eof_ok rest b' \<and> (e = Some EOF \<longrightarrow> unread rest b' = [])"
proof (induction rd parse b rule: readRecord.induct)
  case (1 rd parse b)
  obtain i n where p: "parse (pending b) = (i, n)" by fastforce
  let ?b = "b\<lparr>rb_line := rb_line b + n\<rparr>"
  note unfold = readRecord.simps[of rd parse b] p
  consider (found) "i \<ge> 0" | (err) x where "i < 0" "rb_err b = Some x"
    | (full) "i < 0" "rb_err b = None" "buffered b \<ge> length (rb_buf b)"
    | (more) "i < 0" "rb_err b = None" "buffered b < length (rb_buf b)"
    by (metis not_le option.exhaust)
  then show ?case
  proof cases
    case more
    then have "buffered ?b < length (rb_buf ?b)" by (simp add: buffered_def)
    with more unfold "1.prems"(3) obtain b1 where
      b1: "fill rd ?b = Inr b1" "readRecord rd parse b1 = Inr (rc, e, b')"
      by (auto simp: buffered_def split: sum.splits)
    have "eof_ok rest b1" by (rule fill_eof[OF "1.prems"(1) _ b1(1)]) (use more in simp)
    from "1.IH"[OF p[symmetric] refl refl _ _ _ b1(1) "1.prems"(1) this b1(2)] more
    show ?thesis by (simp add: buffered_def)
  next
    case found
    with unfold 1(2-) show ?thesis by (auto simp: eof_ok_def)
  next
    case err
    with unfold 1(2-) show ?thesis by (auto simp: eof_ok_def unread_def pending_def)
  next
    case full
    with unfold 1(2-) show ?thesis by (auto simp: eof_ok_def buffered_def)
  qed
qed

lemma read_full_eof:
  "eof_contract rd rest \<Longrightarrow> eof_ok rest b \<Longrightarrow> read_full fuel rd parse b = Some (Inr (rc, e, b')) \<Longrightarrow>
   eof_ok rest b' \<and> (e = Some EOF \<longrightarrow> unread rest b' = [])"
proof (induction fuel arbitrary: b)
  case (Suc fuel)
  then obtain r e1 b1 where r: "readRecord rd parse b = Inr (r, e1, b1)" by (auto split: sum.splits prod.splits)
  note eof = readRecord_eof[OF Suc.prems(1,2) r]
  have raw: "eof_ok rest (b1\<lparr>rb_raw := x\<rparr>) = eof_ok rest b1" "unread rest (b1\<lparr>rb_raw := x\<rparr>) = unread rest b1" for x
    by (simp_all add: eof_ok_def unread_def pending_def)
  show ?case
  proof (cases "e1 = Some ErrBufferFull")
    case True
    with Suc r eof raw show ?thesis by (auto simp: Let_def)
  next
    case False
    with Suc.prems(3) r eof raw show ?thesis by (auto simp: Let_def)
  qed
qed simp

lemma Read_eof:
  assumes "eof_contract rd rest" and "eof_ok rest b" and "Read fuel rd parse b = Some (Inr (rc, e, b'))"
  shows "eof_ok rest b' \<and> (e = Some EOF \<longrightarrow> unread rest b' = [])"
proof -
  from assms(3) obtain r e1 b1 where r: "readRecord rd parse b = Inr (r, e1, b1)"
    by (auto simp: Read_def split: sum.splits prod.splits)
  note eof = readRecord_eof[OF assms(1,2) r]
  have "eof_ok rest (b1\<lparr>rb_raw := x\<rparr>) = eof_ok rest b1" for x by (simp add: eof_ok_def)
  with assms(3) r eof read_full_eof[OF assms(1), of "b1\<lparr>rb_raw := r\<rparr>" fuel parse rc e b'] show ?thesis
    by (auto simp: Read_def split: if_splits)
qed

text \<open>More fuel does not change a result, so the result of \<open>Read\<close> is one value.\<close>

lemma read_full_fuel:
  "read_full fuel rd parse b = Some r \<Longrightarrow> fuel \<le> fuel' \<Longrightarrow> read_full fuel' rd parse b = Some r"
proof (induction fuel arbitrary: b fuel')
  case (Suc fuel)
  then obtain k where "fuel' = Suc k" "fuel \<le> k" by (cases fuel') auto
  with Suc show ?case by (auto simp: Let_def split: sum.splits prod.splits)
qed simp

lemma Read_fuel:
  "Read fuel rd parse b = Some r \<Longrightarrow> fuel \<le> fuel' \<Longrightarrow> Read fuel' rd parse b = Some r"
  by (auto simp: Read_def dest: read_full_fuel split: sum.splits prod.splits if_splits)

lemma Read_csv_lossless:
  assumes "reader_contract rd rest" and "reader_ok b" and "Read fuel rd (csv_parseRecords c) b = Some r"
  shows "\<exists>rc e b'. r = Inr (rc, e, b') \<and> reader_ok b' \<and> unread rest b = rc @ unread rest b' \<and>
    length (rb_buf b') = length (rb_buf b) \<and> e \<noteq> Some ErrBufferFull"
proof -
  let ?n = "max fuel (Suc (length (unread rest b)))"
  have "Read ?n rd (csv_parseRecords c) b = Some r" using Read_fuel[OF assms(3), of ?n] by simp
  then show ?thesis using csv_rd.Read_lossless[OF assms(1,2), of ?n c] by force
qed

section \<open>A byte source\<close>

text \<open>
  An \<open>io.Reader\<close> that delivers its input in given portions and then end of file: what a
  network connection does. It satisfies the contract, and the theorems are instantiated on it.
\<close>

fun chunk_read :: "char list list io_reader" where
  "chunk_read [] n = ([], Some EOF, [])"
| "chunk_read (c # cs) n =
     (if length c \<le> n then (c, None, cs) else (take n c, None, drop n c # cs))"

lemma chunk_read_contract: "reader_contract chunk_read concat"
  unfolding reader_contract_def
proof (intro allI impI)
  fix s n bs e s'
  assume "chunk_read s n = (bs, e, s')"
  then show "length bs \<le> n \<and> concat s = bs @ concat s' \<and> e \<noteq> Some ErrBufferFull"
    by (cases s) (auto split: if_splits)
qed

lemma chunk_read_eof: "eof_contract chunk_read concat"
  unfolding eof_contract_def
proof (intro allI impI)
  fix s n bs s'
  assume "chunk_read s n = (bs, Some EOF, s')"
  then show "concat s' = []" by (cases s) (auto split: if_splits)
qed

section \<open>Properties\<close>

text \<open>
  Claim C37. Reading a record, with any of the three record parsers, always returns (no panic,
  no endless loop) on a finite stream, and what it returns together with what is still unread
  is exactly what was unread before: no byte is lost, duplicated or reordered, also when a
  record is longer than the buffer.
\<close>

theorem Read_returns_next_bytes:
  assumes "reader_contract rd rest" and "reader_ok b" and "length (unread rest b) < fuel"
    and "parse \<in> {csv_parseRecords c, text_parseRecords e, custom_parseRecords d}"
  shows "\<exists>rc err b'. Read fuel rd parse b = Some (Inr (rc, err, b')) \<and> reader_ok b' \<and>
    unread rest b = rc @ unread rest b' \<and> err \<noteq> Some ErrBufferFull"
  using assms(4) csv_rd.Read_lossless[OF assms(1-3), of c] text_rd.Read_lossless[OF assms(1-3), of e]
    custom_rd.Read_lossless[OF assms(1-3), of d] by blast

theorem Read_returns_next_bytes_witness:
  "\<exists>rc err b'. Read 20 chunk_read (csv_parseRecords helper_csv) (NewReaderBase [''a,b'' @ NL, ''c''] 16)
     = Some (Inr (rc, err, b')) \<and> reader_ok b' \<and>
     unread concat (NewReaderBase [''a,b'' @ NL, ''c''] 16) = rc @ unread concat b' \<and>
     err \<noteq> Some ErrBufferFull"
  by (rule Read_returns_next_bytes[OF chunk_read_contract, where c = helper_csv and e = EolNl and d = "[]"])
    simp_all

text \<open>
  When every line of the stream is shorter than the reader's buffer, a record that
  the CSV reader returns without an error ends exactly at a line end outside quotes, so it is
  a sequence of whole CSV lines and can be interleaved with records of other connections.
\<close>

theorem Read_returns_whole_lines:
  assumes "reader_contract rd rest" and "reader_ok b"
    and "short_lines helper_csv CHR 0x0A (length (rb_buf b)) (unread rest b)"
    and "Read fuel rd (csv_parseRecords helper_csv) b = Some (Inr (rc, None, b'))"
  shows "whole helper_csv CHR 0x0A rc \<and>
    short_lines helper_csv CHR 0x0A (length (rb_buf b')) (unread rest b')"
  using Read_whole_line[OF assms] .

theorem Read_returns_whole_lines_witness:
  "\<exists>rc b'. Read 0 chunk_read (csv_parseRecords helper_csv)
       (NewReaderBase [[DQ] @ ''a'' @ NL, ''b'' @ [DQ] @ NL @ ''c''] 16) = Some (Inr (rc, None, b')) \<and>
     rc = [DQ] @ ''a'' @ NL @ ''b'' @ [DQ] @ NL \<and> whole helper_csv CHR 0x0A rc \<and>
     short_lines helper_csv CHR 0x0A (length (rb_buf b')) (unread concat b')"
proof -
  let ?b = "NewReaderBase [[DQ] @ ''a'' @ NL, ''b'' @ [DQ] @ NL @ ''c''] 16"
  have "(case Read 0 chunk_read (csv_parseRecords helper_csv) ?b of
      Some (Inr (rc, err, b')) \<Rightarrow> rc = [DQ] @ ''a'' @ NL @ ''b'' @ [DQ] @ NL \<and> err = None | _ \<Rightarrow> False)"
    by code_simp
  then obtain b' where r: "Read 0 chunk_read (csv_parseRecords helper_csv) ?b =
      Some (Inr ([DQ] @ ''a'' @ NL @ ''b'' @ [DQ] @ NL, None, b'))"
    by (auto split: option.splits sum.splits prod.splits)
  have "short_lines helper_csv CHR 0x0A (length (rb_buf ?b)) (unread concat ?b)"
    by (rule short_lines_length) (simp add: NewReaderBase_def minReadBufferSize_def unread_def pending_def)
  from Read_returns_whole_lines[OF chunk_read_contract reader_ok_New this r] r show ?thesis by blast
qed

definition long_line :: "char list" where
  "long_line = [DQ] @ replicate 15 CHR ''x'' @ NL @ [DQ] @ NL"

text \<open>
  A line that does not fit the buffer can be cut inside a quoted field: \<open>readRecord\<close>
  starts every buffer outside quotes, so after \<open>ErrBufferFull\<close> the rest of a quoted field is
  scanned as if it were unquoted. Here the stream is one whole line of 19 bytes, the buffer has
  16, and \<open>Read\<close> returns the first 17 bytes as a complete record.
\<close>

theorem Read_cuts_long_line:
  "whole helper_csv CHR 0x0A long_line \<and>
   (\<exists>rc b'. Read 2 chunk_read (csv_parseRecords helper_csv) (NewReaderBase [long_line] minReadBufferSize) =
        Some (Inr (rc, None, b')) \<and>
      rc = take 17 long_line \<and> \<not> whole helper_csv CHR 0x0A rc)"
proof -
  have "whole helper_csv CHR 0x0A long_line \<and> \<not> whole helper_csv CHR 0x0A (take 17 long_line)"
    by code_simp
  moreover have "(case Read 2 chunk_read (csv_parseRecords helper_csv)
      (NewReaderBase [long_line] minReadBufferSize) of
      Some (Inr (rc, err, b')) \<Rightarrow> rc = take 17 long_line \<and> err = None | _ \<Rightarrow> False)"
    by code_simp
  ultimately show ?thesis by (auto split: option.splits sum.splits prod.splits)
qed

end
