(* ===== verification/Helper.thy ===== *)
theory Helper
  imports Readers
begin

text \<open>
  The program \<open>cbcopy_helper\<close>, \<open>src/helper\<close>: its configuration, the listening side
  (\<open>OneTimeServer\<close>, \<open>ConcurrentServer\<close>) and the dialing side (\<open>OneTimeClient\<close>,
  \<open>ConcurrentClient\<close>). Flag parsing (\<open>pflag\<close>), sockets and compression are parameters.

  Shown here: a validated port range lies in 1024-65535 and \<open>Start\<close> listens on a port of it;
  the sources that the concurrent clients of a cluster read from form a partition of all
  sources; and for every interleaving of the goroutines of a \<open>ConcurrentServer\<close>, when waiting
  ends without an error, all expected clients were accepted and the output holds, for each of
  them, its whole stream in order.
\<close>

section \<open>Configuration\<close>

record Config =
  Hosts :: "string list"
  Ports :: "string list"
  DataPortRange :: "int list"
  ListenMode :: bool
  NoCompression :: bool
  ToResolve :: string
  CmdID :: string
  SegID :: int
  PrintVersion :: bool
  MD5XORMode :: bool
  TransCompType :: string
  NumClients :: "string list"
  Direction :: string
  NumDests :: int

text \<open>The flag types: a comma separated list, a comma separated list of integers, a pair \<open>a-b\<close>.\<close>

definition CommaStringFlags_Set :: "string list \<Rightarrow> string \<Rightarrow> string list res" where
  "CommaStringFlags_Set c value = Inr (c @ Split CHR '','' value)"

fun comma_ints :: "string list \<Rightarrow> string list \<Rightarrow> string list res" where
  "comma_ints c [] = Inr c"
| "comma_ints c (e # es) = (if snd (Atoi e) then comma_ints (c @ [e]) es else Inl (Error ''invalid integer format''))"

definition CommaIntFlags_Set :: "string list \<Rightarrow> string \<Rightarrow> string list res" where
  "CommaIntFlags_Set c value = comma_ints c (Split CHR '','' value)"

definition DashIntFlags_Set :: "int list \<Rightarrow> string \<Rightarrow> int list res" where
  "DashIntFlags_Set d value =
     (case Split CHR ''-'' value of
        [a, b] \<Rightarrow>
          if \<not> snd (Atoi a) then Inl (Error ''invalid integer format'')
          else if \<not> snd (Atoi b) then Inl (Error ''invalid integer format'')
          else Inr (d @ [fst (Atoi a), fst (Atoi b)])
      | _ \<Rightarrow> Inl (Error ''invalid dash format''))"

text \<open>\<open>changed\<close> says which flags are defined and were given.\<close>

definition getChangedFlagNum :: "(string \<Rightarrow> bool) \<Rightarrow> string list \<Rightarrow> nat" where
  "getChangedFlagNum changed options = length (filter changed options)"

definition checkExclusiveFlags :: "(string \<Rightarrow> bool) \<Rightarrow> string list \<Rightarrow> unit res" where
  "checkExclusiveFlags changed options =
     (if getChangedFlagNum changed options > 1
      then Inl (Error (''the following flags may not be specified together: '' @ Join options '', '')) else Inr ())"

definition checkMandatoryFlags :: "(string \<Rightarrow> bool) \<Rightarrow> string list \<Rightarrow> unit res" where
  "checkMandatoryFlags changed options =
     (if getChangedFlagNum changed options \<noteq> length options
      then Inl (Error (''the following flags must be specified: '' @ Join options '', '')) else Inr ())"

definition validateCompressType :: "string \<Rightarrow> unit res" where
  "validateCompressType cType =
     (if length cType = 0 then Inr ()
      else if cType \<noteq> ''gzip'' \<and> cType \<noteq> ''snappy'' \<and> cType \<noteq> ''zstd''
      then Inl (Error ''--compress-type must be gzip, snappy, or zstd'') else Inr ())"

definition parseDataPortRange :: "int list \<Rightarrow> unit res" where
  "parseDataPortRange portPair =
     (if length portPair = 0 then Inr ()
      else rbind (go_index portPair 0) (\<lambda>bPort. rbind (go_index portPair 1) (\<lambda>ePort.
        if bPort < 1024 \<or> bPort > 65535 then Inl (Error ''the valid value should be 1024-65535'')
        else if ePort < 1024 \<or> ePort > 65535 then Inl (Error ''the valid value should be 1024-65535'')
        else if bPort \<ge> ePort
        then Inl (Error ''the first port number should be less than the second port number'')
        else Inr ())))"

definition exclusive_groups :: "string list list" where
  "exclusive_groups =
     [[''resolve'', ''listen'', ''md5xor''], [''resolve'', ''no-compression'', ''md5xor''],
      [''resolve'', ''port'', ''data-port-range'', ''md5xor''], [''resolve'', ''client-numbers''],
      [''resolve'', ''direction''], [''host'', ''md5xor''], [''host'', ''listen''], [''host'', ''client-numbers''],
      [''host'', ''disable-parallel-mode''], [''no-compression'', ''compress-type'']]"

fun check_groups :: "(string \<Rightarrow> bool) \<Rightarrow> string list list \<Rightarrow> unit res" where
  "check_groups changed [] = Inr ()"
| "check_groups changed (g # gs) = rbind (checkExclusiveFlags changed g) (\<lambda>_. check_groups changed gs)"

definition config_validate :: "(string \<Rightarrow> bool) \<Rightarrow> string list \<Rightarrow> Config \<Rightarrow> unit res" where
  "config_validate changed args c =
     (if length args > 0 then Inl (Error ''there is an argument remaining after flags have been processed'')
      else rbind (check_groups changed exclusive_groups) (\<lambda>_.
        rbind (if ToResolve c = [] \<and> ListenMode c then checkMandatoryFlags changed [''cmd-id'', ''seg-id''] else Inr ()) (\<lambda>_.
        rbind (if ToResolve c = [] \<and> \<not> ListenMode c \<and> \<not> MD5XORMode c
               then checkMandatoryFlags changed [''host'', ''port''] else Inr ()) (\<lambda>_.
        rbind (parseDataPortRange (DataPortRange c)) (\<lambda>_.
          validateCompressType (TransCompType c))))))"

section \<open>Listening\<close>

text \<open>\<open>index\<close>: the position of this segment in the lists of the configuration.\<close>

definition seg_index :: "Config \<Rightarrow> nat" where
  "seg_index c = (if SegID c \<ge> 0 then nat (SegID c) else 0)"

text \<open>
  \<open>Start\<close>: \<open>listen\<close> tries an address and returns the port it got. The range loop stops at the
  first port that is free; \<open>SetDeadline\<close> is the parameter \<open>deadline\<close>.
\<close>

function listen_range :: "(string \<Rightarrow> int res) \<Rightarrow> int \<Rightarrow> int \<Rightarrow> goerr option \<Rightarrow> int res" where
  "listen_range listen i hi err =
     (if i \<le> hi then
        (case listen ('':'' @ Itoa i) of
           Inr p \<Rightarrow> Inr p
         | Inl e \<Rightarrow> listen_range listen (i + 1) hi (Some e))
      else case err of Some e \<Rightarrow> Inl (Error ''failed to listen on a free port'')
           | None \<Rightarrow> Inl (Panic ''nil listener''))"
  by pat_completeness auto
termination
  by (relation "measure (\<lambda>(listen, i, hi, err). nat (hi + 1 - i))") auto

declare listen_range.simps [simp del]

definition Start :: "(string \<Rightarrow> int res) \<Rightarrow> unit res \<Rightarrow> Config \<Rightarrow> int res" where
  "Start listen deadline c =
     (let index = seg_index c
      in rbind (case DataPortRange c of
            [a, b] \<Rightarrow> listen_range listen a b None
          | _ \<Rightarrow> if length (Ports c) = 0 \<or> length (Ports c) < index + 1
                then (case listen '':0'' of Inl e \<Rightarrow> Inl (Error ''failed to listen on a free port'') | Inr p \<Rightarrow> Inr p)
                else (case listen ('':'' @ Ports c ! index) of
                        Inl e \<Rightarrow> Inl (Error ''failed to listen on port'') | Inr p \<Rightarrow> Inr p))
        (\<lambda>port. case deadline of Inl e \<Rightarrow> Inl (Error ''failed to set deadline'') | Inr _ \<Rightarrow> Inr port))"

datatype server = OneTimeServer | ConcurrentServer "32 word"

definition createServerImpl :: "Config \<Rightarrow> server" where
  "createServerImpl c =
     (let index = seg_index c
      in if length (NumClients c) > 0 \<and> length (NumClients c) > index then
           (let nc = fst (Atoi (NumClients c ! index))
            in if nc > 1 then ConcurrentServer (word_of_int nc) else OneTimeServer)
         else OneTimeServer)"

text \<open>The port file: its name and its one line.\<close>

definition writeFile :: "Config \<Rightarrow> string \<Rightarrow> int \<Rightarrow> int \<Rightarrow> string \<times> string" where
  "writeFile c cmdID segID port =
     (''/tmp/cbcopy-'' @ CmdID c @ ''-'' @ Itoa (SegID c) @ ''.txt'',
      cmdID @ TAB @ Itoa segID @ TAB @ Itoa port @ NL)"

section \<open>Dialing\<close>

datatype client = OneTimeClient | ConcurrentClient

definition createClientImpl :: "Config \<Rightarrow> client" where
  "createClientImpl c =
     (if Direction c = ''receive'' \<and> int (length (Hosts c)) > NumDests c \<and> NumDests c > 0
      then ConcurrentClient else OneTimeClient)"

definition host_address :: "string \<Rightarrow> string" where
  "host_address h = (if Contains h '':'' then ''['' @ h @ '']'' else h)"

text \<open>Four attempts; \<open>dial\<close> gets the number of the attempt and the address.\<close>

fun dial_loop :: "(nat \<Rightarrow> string \<Rightarrow> 'c res) \<Rightarrow> string \<Rightarrow> nat \<Rightarrow> nat \<Rightarrow> 'c res" where
  "dial_loop dial addr t 0 = dial t addr"
| "dial_loop dial addr t (Suc n) =
     (case dial t addr of Inr c \<Rightarrow> Inr c | Inl e \<Rightarrow> dial_loop dial addr (Suc t) n)"

text \<open>\<open>None\<close>: there is no source for this segment and nothing to do.\<close>

definition client_target :: "Config \<Rightarrow> (string \<times> string) option res" where
  "client_target c =
     (let index = seg_index c
      in if index \<ge> length (Hosts c) then Inr None
         else rbind (go_index (Ports c) index) (\<lambda>p. Inr (Some (Hosts c ! index, p))))"

definition client_open :: "(nat \<Rightarrow> string \<Rightarrow> 'c res) \<Rightarrow> ('c \<Rightarrow> 'c res) \<Rightarrow> Config \<Rightarrow> 'c option res" where
  "client_open dial compress c =
     rbind (client_target c) (\<lambda>t. case t of
       None \<Rightarrow> Inr None
     | Some (h, p) \<Rightarrow>
         (case dial_loop dial (host_address h @ '':'' @ p) 1 3 of
            Inl e \<Rightarrow> Inl (Error ''failed to connect to server'')
          | Inr conn \<Rightarrow>
              if \<not> NoCompression c then
                (case compress conn of Inl e \<Rightarrow> Inl (Error ''failed to create compress connection'')
                 | Inr conn' \<Rightarrow> Inr (Some conn'))
              else Inr (Some conn)))"

text \<open>\<open>redirect\<close> copies from the connection to the output or from the input to the connection.\<close>

definition client_run :: "(nat \<Rightarrow> string \<Rightarrow> 'c res) \<Rightarrow> ('c \<Rightarrow> 'c res) \<Rightarrow> (bool \<Rightarrow> 'c \<Rightarrow> unit res) \<Rightarrow> Config \<Rightarrow> unit res" where
  "client_run dial compress redirect c =
     rbind (client_open dial compress c) (\<lambda>r. case r of
       None \<Rightarrow> Inr ()
     | Some conn \<Rightarrow> redirect (Direction c = ''receive'') conn)"

text \<open>
  The targets of a \<open>ConcurrentClient\<close>: every \<open>numDests\<close>-th source starting at the segment's own
  number. \<open>None\<close>: the loop does not end.
\<close>

function concurrent_targets :: "Config \<Rightarrow> int \<Rightarrow> (string \<times> string) list res option" where
  "concurrent_targets c i =
     (if i \<ge> int (length (Hosts c)) then Some (Inr [])
      else if i < 0 then Some (Inl index_panic)
      else if NumDests c \<le> 0 then None
      else case go_index (Ports c) (nat i) of
        Inl e \<Rightarrow> Some (Inl e)
      | Inr p \<Rightarrow> map_option (\<lambda>r. rbind r (\<lambda>ts. Inr ((Hosts c ! nat i, p) # ts)))
                   (concurrent_targets c (i + NumDests c)))"
  by pat_completeness auto
termination
  by (relation "measure (\<lambda>(c, i). nat (int (length (Hosts c)) - i))") auto

declare concurrent_targets.simps [simp del]

section \<open>The concurrent server as a state machine\<close>

text \<open>
  The goroutines of a \<open>ConcurrentServer\<close>: \<open>serve\<close> accepts connections until all expected clients
  are there; each connection runs \<open>processCsvRecord\<close>, which reads records and writes them to
  the shared output under a mutex, then sets an error if there was one, then counts itself as
  finished; \<open>WaitForFinished\<close> polls. One step is one such action of one goroutine.

  A connection reads, or has met an error it has not yet published, or is about to count
  itself, or is done. \<open>out\<close> records each write with the connection it came from. The size of the
  readers' buffers, \<open>defaultBufSize\<close> in the program, is a parameter \<open>sz\<close>.
\<close>

datatype 'r conn_st = Reading "'r reader_base" | Failing | Closing | Closed

record 'r srv =
  numConn :: nat
  accepted :: nat
  serving :: bool
  conns :: "'r conn_st list"
  numFinished :: nat
  srv_err :: bool
  out :: "(nat \<times> char list) list"

definition defaultBufSize :: nat where "defaultBufSize = 1048576"

definition NewConcurrentServer :: "nat \<Rightarrow> 'r srv" where
  "NewConcurrentServer n = \<lparr>numConn = n, accepted = 0, serving = True, conns = [], numFinished = 0,
     srv_err = False, out = []\<rparr>"

fun after_read :: "ioerr option \<Rightarrow> 'r reader_base \<Rightarrow> 'r conn_st" where
  "after_read None b = Reading b"
| "after_read (Some EOF) b = Closing"
| "after_read (Some e) b = Failing"

definition written :: "nat \<Rightarrow> char list \<Rightarrow> (nat \<times> char list) list" where
  "written i rc = (if rc = [] then [] else [(i, rc)])"

definition isDone :: "'r srv \<Rightarrow> bool" where
  "isDone s \<longleftrightarrow> numFinished s = numConn s"

text \<open>The condition on which \<open>WaitForFinished\<close> returns.\<close>

definition wait_over :: "'r srv \<Rightarrow> bool" where
  "wait_over s \<longleftrightarrow> srv_err s \<or> isDone s"

inductive srv_step :: "nat \<Rightarrow> 'r io_reader \<Rightarrow> (nat \<Rightarrow> 'r) \<Rightarrow> 'r srv \<Rightarrow> 'r srv \<Rightarrow> bool" for sz rd src where
  accept_ok: "serving s \<Longrightarrow> accepted s < numConn s \<Longrightarrow>
    srv_step sz rd src s (s\<lparr>accepted := Suc (accepted s),
      conns := conns s @ [Reading (NewReaderBase (src (accepted s)) sz)]\<rparr>)"
| accept_no_reader: "serving s \<Longrightarrow> accepted s < numConn s \<Longrightarrow>
    srv_step sz rd src s (s\<lparr>accepted := Suc (accepted s), conns := conns s @ [Failing]\<rparr>)"
| accept_fail: "serving s \<Longrightarrow> accepted s < numConn s \<Longrightarrow>
    srv_step sz rd src s (s\<lparr>srv_err := True, serving := False\<rparr>)"
| accept_done: "serving s \<Longrightarrow> \<not> accepted s < numConn s \<Longrightarrow> srv_step sz rd src s (s\<lparr>serving := False\<rparr>)"
| read_write: "i < length (conns s) \<Longrightarrow> conns s ! i = Reading b \<Longrightarrow>
    Read fuel rd (csv_parseRecords helper_csv) b = Some (Inr (rc, e, b')) \<Longrightarrow>
    srv_step sz rd src s (s\<lparr>conns := (conns s)[i := after_read e b'], out := out s @ written i rc\<rparr>)"
| read_write_fail: "i < length (conns s) \<Longrightarrow> conns s ! i = Reading b \<Longrightarrow>
    Read fuel rd (csv_parseRecords helper_csv) b = Some (Inr (rc, e, b')) \<Longrightarrow> rc \<noteq> [] \<Longrightarrow> prefix part rc \<Longrightarrow>
    srv_step sz rd src s (s\<lparr>conns := (conns s)[i := Failing], out := out s @ written i part\<rparr>)"
| set_error: "i < length (conns s) \<Longrightarrow> conns s ! i = Failing \<Longrightarrow>
    srv_step sz rd src s (s\<lparr>srv_err := True, conns := (conns s)[i := Closing]\<rparr>)"
| increase: "i < length (conns s) \<Longrightarrow> conns s ! i = Closing \<Longrightarrow>
    srv_step sz rd src s (s\<lparr>conns := (conns s)[i := Closed], numFinished := Suc (numFinished s)\<rparr>)"

inductive_cases srv_stepE: "srv_step sz rd src s t"

interpretation server: machine "\<lambda>s. s = NewConcurrentServer n" "srv_step sz rd src" for n sz rd src .

definition output_of :: "nat \<Rightarrow> (nat \<times> char list) list \<Rightarrow> char list" where
  "output_of i ws = concat (map snd (filter (\<lambda>w. fst w = i) ws))"

lemma output_of_append [simp]: "output_of i (ws @ written j rc) = output_of i ws @ (if i = j then rc else [])"
  by (simp add: output_of_def written_def)

text \<open>No connection is about to publish an error and none was published.\<close>

definition clean :: "'r srv \<Rightarrow> bool" where
  "clean s \<longleftrightarrow> \<not> srv_err s \<and> Failing \<notin> set (conns s)"

definition lines_ok :: "nat \<Rightarrow> char list \<Rightarrow> bool" where
  "lines_ok sz stream \<longleftrightarrow> short_lines helper_csv CHR 0x0A (max sz minReadBufferSize) stream \<and>
     (stream = [] \<or> whole helper_csv CHR 0x0A stream)"

definition srv_inv :: "nat \<Rightarrow> ('r \<Rightarrow> char list) \<Rightarrow> (nat \<Rightarrow> 'r) \<Rightarrow> nat \<Rightarrow> 'r srv \<Rightarrow> bool" where
  "srv_inv sz rest src n s \<longleftrightarrow>
     numConn s = n \<and> length (conns s) = accepted s \<and> accepted s \<le> n \<and>
     numFinished s = length (filter (\<lambda>c. c = Closed) (conns s)) \<and>
     (\<forall>w\<in>set (out s). fst w < accepted s) \<and>
     (\<forall>i < accepted s. \<forall>b. conns s ! i = Reading b \<longrightarrow>
        reader_ok b \<and> eof_ok rest b \<and> length (rb_buf b) = max sz minReadBufferSize \<and>
        output_of i (out s) @ unread rest b = rest (src i)) \<and>
     (clean s \<longrightarrow> (\<forall>i < accepted s. conns s ! i \<in> {Closing, Closed} \<longrightarrow> output_of i (out s) = rest (src i)))"

lemma srv_inv_init: "srv_inv sz rest src n (NewConcurrentServer n)"
  by (simp add: srv_inv_def NewConcurrentServer_def)

lemma count_closed_update:
  assumes "i < length cs" and "cs ! i \<noteq> Closed"
  shows "length (filter (\<lambda>c. c = Closed) (cs[i := x])) = length (filter (\<lambda>c. c = Closed) cs) + (if x = Closed then 1 else 0)"
proof -
  let ?P = "\<lambda>c. c = Closed"
  have "length (filter ?P cs) = length (filter ?P (take i cs)) + length (filter ?P (drop (Suc i) cs))"
    using assms(2) by (subst id_take_nth_drop[OF assms(1)]) simp
  then show ?thesis by (simp add: upd_conv_take_nth_drop[OF assms(1)])
qed

lemma srv_inv_accept:
  assumes "srv_inv sz rest src n s" and "accepted s < numConn s"
    and "c = Failing \<or> c = Reading (NewReaderBase (src (accepted s)) sz)"
  shows "srv_inv sz rest src n (s\<lparr>accepted := Suc (accepted s), conns := conns s @ [c]\<rparr>)"
proof -
  have empty: "output_of (accepted s) (out s) = []"
    using assms(1) by (auto simp: srv_inv_def output_of_def concat_eq_Nil_conv)
  have size: "length (rb_buf (NewReaderBase x sz)) = max sz minReadBufferSize" for x :: 'a
    by (simp add: NewReaderBase_def)
  show ?thesis
    using assms empty by (auto simp: srv_inv_def clean_def nth_append less_Suc_eq size)
qed

lemma failing_update: "Failing \<notin> set (cs[i := c]) \<Longrightarrow> cs ! i \<noteq> Failing \<Longrightarrow> Failing \<notin> set cs"
  by (metis in_set_conv_nth length_list_update nth_list_update_neq)

text \<open>Replacing the state of one connection that is not done.\<close>

lemma srv_inv_conn:
  assumes inv: "srv_inv sz rest src n s" and i: "i < length (conns s)" and "conns s ! i \<noteq> Closed"
    and reading: "\<And>b. c = Reading b \<Longrightarrow> reader_ok b \<and> eof_ok rest b \<and> length (rb_buf b) = max sz minReadBufferSize \<and>
        output_of i (out s) @ rc @ unread rest b = rest (src i)"
    and closing: "c \<in> {Closing, Closed} \<Longrightarrow> clean (s\<lparr>conns := (conns s)[i := c], srv_err := err\<rparr>) \<Longrightarrow>
        output_of i (out s) @ rc = rest (src i)"
    and "srv_err s \<longrightarrow> err" and "conns s ! i = Failing \<longrightarrow> err"
  shows "srv_inv sz rest src n (s\<lparr>srv_err := err, conns := (conns s)[i := c], out := out s @ written i rc,
    numFinished := numFinished s + (if c = Closed then 1 else 0)\<rparr>)"
proof -
  have old: "clean s" if "clean (s\<lparr>conns := (conns s)[i := c], srv_err := err\<rparr>)"
    using that assms(6,7) failing_update[of "conns s" i c] by (auto simp: clean_def)
  have "fst w < accepted s" if "w \<in> set (out s @ written i rc)" for w
    using that inv i by (auto simp: srv_inv_def written_def split: if_splits)
  then show ?thesis
    using inv i count_closed_update[OF i assms(3), of c] reading closing old
    by (auto simp: srv_inv_def nth_list_update clean_def simp del: set_append)
qed

lemma srv_step_inv:
  assumes c: "reader_contract rd rest" and eof: "eof_contract rd rest"
    and inv: "srv_inv sz rest src n s" and step: "srv_step sz rd src s t"
  shows "srv_inv sz rest src n t"
  using step
proof (cases rule: srv_step.cases)
  case accept_ok
  with inv show ?thesis by (auto intro: srv_inv_accept)
next
  case accept_no_reader
  with inv show ?thesis by (auto intro: srv_inv_accept)
next
  case accept_fail
  with inv show ?thesis by (auto simp: srv_inv_def clean_def)
next
  case accept_done
  with inv show ?thesis by (auto simp: srv_inv_def clean_def)
next
  case (read_write i b fuel rc e b')
  with inv have b: "reader_ok b" "eof_ok rest b" "length (rb_buf b) = max sz minReadBufferSize"
    "output_of i (out s) @ unread rest b = rest (src i)" by (auto simp: srv_inv_def)
  from Read_csv_lossless[OF c b(1) read_write(4)] have
    b': "reader_ok b'" "unread rest b = rc @ unread rest b'" "length (rb_buf b') = length (rb_buf b)" by auto
  note e = Read_eof[OF eof b(2) read_write(4)]
  show ?thesis
    using srv_inv_conn[OF inv read_write(2), of "after_read e b'" rc "srv_err s"] read_write b b' e
    by (cases e; cases "the e") auto
next
  case (read_write_fail i b fuel rc e b' part)
  with srv_inv_conn[OF inv read_write_fail(2), of Failing part "srv_err s"] show ?thesis by simp
next
  case (set_error i)
  with srv_inv_conn[OF inv set_error(2), of Closing "[]" True] show ?thesis
    by (simp add: written_def clean_def)
next
  case (increase i)
  have "clean s \<Longrightarrow> output_of i (out s) = rest (src i)" using inv increase by (auto simp: srv_inv_def)
  moreover have "clean (s\<lparr>conns := (conns s)[i := Closed]\<rparr>) \<Longrightarrow> clean s"
    using increase failing_update[of "conns s" i Closed] by (auto simp: clean_def)
  ultimately show ?thesis
    using srv_inv_conn[OF inv increase(2), of Closed "[]" "srv_err s"] increase
    by (auto simp: written_def)
qed

lemma read_lines:
  assumes c: "reader_contract rd rest" and eof: "eof_contract rd rest" and b: "reader_ok b" "eof_ok rest b"
    and len: "length (rb_buf b) = max sz minReadBufferSize" and ok: "lines_ok sz (unread rest b)"
    and read: "Read fuel rd (csv_parseRecords helper_csv) b = Some (Inr (rc, e, b'))"
  shows "(e = None \<longrightarrow> whole helper_csv CHR 0x0A rc \<and> lines_ok sz (unread rest b')) \<and>
    (e = Some EOF \<longrightarrow> rc = [] \<or> whole helper_csv CHR 0x0A rc)"
proof (intro conjI impI)
  from Read_csv_lossless[OF c b(1) read] have split: "unread rest b = rc @ unread rest b'"
    and len': "length (rb_buf b') = length (rb_buf b)" by auto
  {
    assume "e = None"
    with read have r: "Read fuel rd (csv_parseRecords helper_csv) b = Some (Inr (rc, None, b'))" by simp
    have "short_lines helper_csv CHR 0x0A (length (rb_buf b)) (unread rest b)"
      using ok len by (simp add: lines_ok_def)
    note w = Read_whole_line[OF c b(1) this r]
    then have "unread rest b' = [] \<or> whole helper_csv CHR 0x0A (unread rest b')"
      using ok split whole_suffix[of helper_csv "CHR 0x0A" rc "unread rest b'"]
      by (auto simp: lines_ok_def whole_def)
    with w len len' show "whole helper_csv CHR 0x0A rc" "lines_ok sz (unread rest b')"
      by (auto simp: lines_ok_def)
  }
  assume "e = Some EOF"
  with Read_eof[OF eof b(2) read] split have "rc = unread rest b" by simp
  with ok show "rc = [] \<or> whole helper_csv CHR 0x0A rc" by (auto simp: lines_ok_def)
qed

definition srv_lines :: "nat \<Rightarrow> ('r \<Rightarrow> char list) \<Rightarrow> 'r srv \<Rightarrow> bool" where
  "srv_lines sz rest s \<longleftrightarrow>
     (\<forall>b. Reading b \<in> set (conns s) \<longrightarrow> lines_ok sz (unread rest b)) \<and>
     (clean s \<longrightarrow> (\<forall>w\<in>set (out s). whole helper_csv CHR 0x0A (snd w)))"

lemma srv_step_lines:
  assumes c: "reader_contract rd rest" and eof: "eof_contract rd rest" and src: "\<And>i. lines_ok sz (rest (src i))"
    and inv: "srv_inv sz rest src n s" and ln: "srv_lines sz rest s" and step: "srv_step sz rd src s t"
  shows "srv_lines sz rest t"
  using step
proof (cases rule: srv_step.cases)
  case accept_ok
  with ln src[of "accepted s"] show ?thesis by (auto simp: srv_lines_def clean_def)
next
  case accept_no_reader
  with ln show ?thesis by (auto simp: srv_lines_def clean_def)
next
  case accept_fail
  with ln show ?thesis by (auto simp: srv_lines_def clean_def)
next
  case accept_done
  with ln show ?thesis by (auto simp: srv_lines_def clean_def)
next
  case (read_write i b fuel rc e b')
  with inv have b: "reader_ok b" "eof_ok rest b" "length (rb_buf b) = max sz minReadBufferSize"
    by (auto simp: srv_inv_def)
  have "Reading b \<in> set (conns s)" using read_write(2,3) nth_mem by metis
  with ln have ok: "lines_ok sz (unread rest b)" by (auto simp: srv_lines_def)
  note read = read_lines[OF c eof b ok read_write(4)]
  have in_upd: "x \<in> set ((conns s)[i := y]) \<Longrightarrow> x = y \<or> x \<in> set (conns s)" for x y
    using set_update_subset_insert[of "conns s" i y] by auto
  have clean: "clean t \<Longrightarrow> clean s \<and> after_read e b' \<noteq> Failing"
    using read_write failing_update[of "conns s" i "after_read e b'"] set_update_memI[OF read_write(2)]
    by (auto simp: clean_def)
  show ?thesis
    using read_write(1) ln read in_upd clean
    by (cases e; cases "the e") (auto simp: srv_lines_def written_def)
next
  case (read_write_fail i b fuel rc e b' part)
  have "\<not> clean t" using read_write_fail set_update_memI[OF read_write_fail(2)] by (auto simp: clean_def)
  moreover have "Reading x \<in> set ((conns s)[i := Failing]) \<Longrightarrow> Reading x \<in> set (conns s)" for x
    using set_update_subset_insert[of "conns s" i Failing] by auto
  ultimately show ?thesis using read_write_fail(1) ln by (auto simp: srv_lines_def)
next
  case (set_error i)
  have "Reading x \<in> set ((conns s)[i := Closing]) \<Longrightarrow> Reading x \<in> set (conns s)" for x
    using set_update_subset_insert[of "conns s" i Closing] by auto
  with set_error ln show ?thesis by (auto simp: srv_lines_def clean_def)
next
  case (increase i)
  have "Reading x \<in> set ((conns s)[i := Closed]) \<Longrightarrow> Reading x \<in> set (conns s)" for x
    using set_update_subset_insert[of "conns s" i Closed] by auto
  with increase ln failing_update[of "conns s" i Closed] show ?thesis by (auto simp: srv_lines_def clean_def)
qed

lemma all_closed:
  "length (filter (\<lambda>c. c = Closed) cs) = length cs \<Longrightarrow> i < length cs \<Longrightarrow> cs ! i = Closed"
  by (metis (mono_tags, lifting) filter_id_conv length_filter_less nat_less_le nth_mem)

section \<open>Properties\<close>

text \<open>
  Claim C10. In every interleaving of the goroutines of a \<open>ConcurrentServer\<close> for \<open>n\<close> clients, when
  \<open>WaitForFinished\<close> returns and no error was set, all \<open>n\<close> clients were accepted and the writes
  of each connection, in order, are exactly the stream its client sent. If the lines of the
  streams fit the buffer, every single write consists of whole CSV lines, so interleaving the
  connections does not tear a record apart.
\<close>

theorem ConcurrentServer_complete:
  assumes c: "reader_contract rd rest" and eof: "eof_contract rd rest"
    and reach: "server.reachable n sz rd src s" and "wait_over s" and ok: "\<not> srv_err s"
  shows "accepted s = n \<and> (\<forall>i < n. output_of i (out s) = rest (src i)) \<and>
    ((\<forall>i. lines_ok sz (rest (src i))) \<longrightarrow> (\<forall>w\<in>set (out s). whole helper_csv CHR 0x0A (snd w)))"
proof -
  have inv: "srv_inv sz rest src n s"
    using reach by (rule server.invariant_holds) (auto intro: srv_inv_init srv_step_inv[OF c eof])
  have fin: "numFinished s = n" using assms(4) ok inv by (auto simp: wait_over_def isDone_def srv_inv_def)
  then have acc: "accepted s = n" and len: "length (filter (\<lambda>c. c = Closed) (conns s)) = length (conns s)"
    using inv length_filter_le[of "\<lambda>c. c = Closed" "conns s"] by (auto simp: srv_inv_def)
  have closed: "conns s ! i = Closed" if "i < n" for i
    using all_closed[OF len] that inv acc by (auto simp: srv_inv_def)
  then have cl: "clean s" using ok inv acc by (auto simp: clean_def in_set_conv_nth srv_inv_def)
  have "whole helper_csv CHR 0x0A (snd w)" if "\<forall>i. lines_ok sz (rest (src i))" "w \<in> set (out s)" for w
  proof -
    have "srv_inv sz rest src n s \<and> srv_lines sz rest s"
      using reach
    proof (rule server.invariant_holds)
      fix s' :: "'a srv" assume "s' = NewConcurrentServer n"
      then show "srv_inv sz rest src n s' \<and> srv_lines sz rest s'"
        by (auto simp: srv_inv_init) (simp add: srv_lines_def NewConcurrentServer_def)
    qed (use that(1) srv_step_inv[OF c eof] srv_step_lines[OF c eof] in blast)
    with cl that(2) show ?thesis by (auto simp: srv_lines_def)
  qed
  with inv acc cl closed show ?thesis by (auto simp: srv_inv_def)
qed

text \<open>A source that delivers what fits and reports the end of the stream with the last bytes.\<close>

definition once_read :: "char list io_reader" where
  "once_read s n = (take n s, if length s \<le> n then Some EOF else None, drop n s)"

lemma once_read_contract: "reader_contract once_read (\<lambda>s. s)" "eof_contract once_read (\<lambda>s. s)"
  by (auto simp: reader_contract_def eof_contract_def once_read_def split: if_splits)

definition demo_src :: "nat \<Rightarrow> char list" where
  "demo_src i = (if i = 0 then ''a'' else ''b'')"

lemma demo_read: "\<exists>b'. Read 0 once_read (csv_parseRecords helper_csv) (NewReaderBase (demo_src i) 16) =
    Some (Inr (demo_src i, Some EOF, b'))"
proof -
  have "(case Read 0 once_read (csv_parseRecords helper_csv) (NewReaderBase x 16) of
      Some (Inr (rc, e, b')) \<Rightarrow> rc = x \<and> e = Some EOF | _ \<Rightarrow> False)" if "x \<in> {''a'', ''b''}" for x
    using that by (elim insertE emptyE; hypsubst) code_simp+
  moreover have "demo_src i \<in> {''a'', ''b''}" by (simp add: demo_src_def)
  ultimately show ?thesis by (fastforce split: option.splits sum.splits prod.splits)
qed

theorem ConcurrentServer_complete_witness:
  "\<exists>s. server.reachable 2 16 once_read demo_src s \<and> wait_over s \<and> \<not> srv_err s \<and>
     out s = [(1, ''b''), (0, ''a'')] \<and> accepted s = 2 \<and>
     output_of 0 (out s) = demo_src 0 \<and> output_of 1 (out s) = demo_src 1"
proof -
  let ?R = "server.reachable 2 16 once_read demo_src" and ?b = "\<lambda>i. Reading (NewReaderBase (demo_src i) 16)"
  let ?S = "\<lambda>acc cs fin ws. \<lparr>numConn = 2, accepted = acc, serving = True, conns = cs, numFinished = fin,
    srv_err = False, out = ws\<rparr> :: char list srv"
  note step = server.reach_step
  have 0: "?R (?S 0 [] 0 [])" by (rule server.reach_init) (simp add: NewConcurrentServer_def)
  have 1: "?R (?S 1 [?b 0] 0 [])" using step[OF 0 srv_step.accept_ok] by simp
  have 2: "?R (?S 2 [?b 0, ?b 1] 0 [])" using step[OF 1 srv_step.accept_ok] by (simp add: numeral_2_eq_2)
  obtain b1 where r1: "Read 0 once_read (csv_parseRecords helper_csv) (NewReaderBase (demo_src 1) 16) =
    Some (Inr (demo_src 1, Some EOF, b1))" using demo_read by blast
  have 3: "?R (?S 2 [?b 0, Closing] 0 [(1, ''b'')])"
    using step[OF 2 srv_step.read_write[of 1, OF _ _ r1]] by (simp add: written_def demo_src_def)
  obtain b0 where r0: "Read 0 once_read (csv_parseRecords helper_csv) (NewReaderBase (demo_src 0) 16) =
    Some (Inr (demo_src 0, Some EOF, b0))" using demo_read by blast
  have 4: "?R (?S 2 [Closing, Closing] 0 [(1, ''b''), (0, ''a'')])"
    using step[OF 3 srv_step.read_write[of 0, OF _ _ r0]] by (simp add: written_def demo_src_def)
  have 5: "?R (?S 2 [Closing, Closed] 1 [(1, ''b''), (0, ''a'')])"
    using step[OF 4 srv_step.increase[of 1]] by simp
  have 6: "?R (?S 2 [Closed, Closed] 2 [(1, ''b''), (0, ''a'')])"
    using step[OF 5 srv_step.increase[of 0]] by (simp add: numeral_2_eq_2)
  have w: "wait_over (?S 2 [Closed, Closed] 2 [(1, ''b''), (0, ''a'')])" by (simp add: wait_over_def isDone_def)
  from ConcurrentServer_complete[OF once_read_contract 6 w] 6 w show ?thesis
    by (intro exI[of _ "?S 2 [Closed, Closed] 2 [(1, ''b''), (0, ''a'')]"]) simp
qed

section \<open>Port ranges and targets\<close>

lemma listen_range_result:
  assumes listen: "\<And>k p. 0 < k \<Longrightarrow> listen ('':'' @ Itoa k) = Inr p \<Longrightarrow> p = k"
  shows "listen_range listen i hi err = Inr p \<Longrightarrow> 0 < i \<Longrightarrow>
    i \<le> p \<and> p \<le> hi \<and> (\<forall>k. i \<le> k \<and> k < p \<longrightarrow> (\<exists>e. listen ('':'' @ Itoa k) = Inl e))"
proof (induction "nat (hi + 1 - i)" arbitrary: i err rule: less_induct)
  case less
  have le: "i \<le> hi" using less.prems(1) by (simp add: listen_range.simps split: if_splits option.splits)
  show ?case
  proof (cases "listen ('':'' @ Itoa i)")
    case (Inr q)
    with le less.prems(1) listen[OF less.prems(2) Inr] show ?thesis by (auto simp: listen_range.simps)
  next
    case (Inl e)
    with le less.prems(1) have "listen_range listen (i + 1) hi (Some e) = Inr p" by (simp add: listen_range.simps[of listen i])
    from less.hyps[OF _ this] le less.prems(2) have ih: "i + 1 \<le> p \<and> p \<le> hi \<and>
        (\<forall>k. i + 1 \<le> k \<and> k < p \<longrightarrow> (\<exists>e. listen ('':'' @ Itoa k) = Inl e))" by simp
    have "\<exists>e. listen ('':'' @ Itoa k) = Inl e" if "i \<le> k" "k < p" for k
      using ih Inl that by (cases "k = i") auto
    with ih show ?thesis by auto
  qed
qed

lemma listen_range_all_busy:
  "(\<forall>k. i \<le> k \<and> k \<le> hi \<longrightarrow> (\<exists>e. listen ('':'' @ Itoa k) = Inl e)) \<Longrightarrow> i \<le> hi \<Longrightarrow>
   listen_range listen i hi err = Inl (Error ''failed to listen on a free port'')"
proof (induction "nat (hi + 1 - i)" arbitrary: i err rule: less_induct)
  case less
  from less.prems obtain e where e: "listen ('':'' @ Itoa i) = Inl e" by auto
  have "listen_range listen (i + 1) hi (Some e) = Inl (Error ''failed to listen on a free port'')"
  proof (cases "i = hi")
    case True
    then show ?thesis by (simp add: listen_range.simps)
  next
    case False
    with less.prems less.hyps[of "i + 1" "Some e"] show ?thesis by auto
  qed
  with e less.prems(2) show ?case by (simp add: listen_range.simps[of listen i])
qed

lemma no_mod_between: "i < k \<Longrightarrow> k < i + nd \<Longrightarrow> k mod nd \<noteq> i mod (nd :: nat)"
proof
  assume "i < k" "k < i + nd" "k mod nd = i mod nd"
  then have "(k - i) mod nd = 0" by (simp add: mod_eq_dvd_iff_nat mod_0_imp_dvd)
  with \<open>i < k\<close> \<open>k < i + nd\<close> show False by simp
qed

lemma filter_mod_step:
  assumes "i < n" and "0 < nd"
  shows "filter (\<lambda>k. k mod nd = i mod nd) [i..<n] = i # filter (\<lambda>k. k mod nd = i mod nd) [i + nd..<n]"
proof -
  have "filter (\<lambda>k. k mod nd = i mod nd) [Suc i..<n] = filter (\<lambda>k. k mod nd = i mod nd) [i + nd..<n]"
  proof (cases "i + nd \<le> n")
    case True
    then have "[Suc i..<n] = [Suc i..<i + nd] @ [i + nd..<n]"
      using assms(2) upt_add_eq_append[of "Suc i" "i + nd" "n - (i + nd)"] by simp
    moreover have "filter (\<lambda>k. k mod nd = i mod nd) [Suc i..<i + nd] = []"
      using no_mod_between[of i _ nd] by (auto simp: filter_empty_conv)
    ultimately show ?thesis by simp
  next
    case False
    then show ?thesis using no_mod_between[of i _ nd] by (auto simp: filter_empty_conv)
  qed
  with assms(1) show ?thesis by (simp add: upt_conv_Cons)
qed

lemma filter_mod_start:
  assumes "d < nd" and "d \<le> n"
  shows "filter (\<lambda>k. k mod nd = d) [0..<n] = filter (\<lambda>k. k mod nd = d) [d..<n]"
proof -
  have "[0..<n] = [0..<d] @ [d..<n]" using assms(2) upt_add_eq_append[of 0 d "n - d"] by simp
  moreover have "filter (\<lambda>k. k mod nd = d) [0..<d] = []" using assms(1) by (auto simp: filter_empty_conv)
  ultimately show ?thesis by simp
qed

lemma concurrent_targets_eq:
  assumes "length (Ports c) = length (Hosts c)" and nd: "NumDests c = int nd" "0 < nd"
  shows "concurrent_targets c (int i) =
    Some (Inr (map (\<lambda>k. (Hosts c ! k, Ports c ! k)) (filter (\<lambda>k. k mod nd = i mod nd) [i..<length (Hosts c)])))"
proof (induction "length (Hosts c) - i" arbitrary: i rule: less_induct)
  case less
  show ?case
  proof (cases "i < length (Hosts c)")
    case False
    then show ?thesis by (simp add: concurrent_targets.simps)
  next
    case True
    have "concurrent_targets c (int (i + nd)) = Some (Inr (map (\<lambda>k. (Hosts c ! k, Ports c ! k))
        (filter (\<lambda>k. k mod nd = i mod nd) [i + nd..<length (Hosts c)])))"
      using less[of "i + nd"] True nd by simp
    with True assms filter_mod_step[OF True nd(2)] show ?thesis
      by (simp add: concurrent_targets.simps[of c "int i"])
  qed
qed


definition demo_config :: Config where
  "demo_config = \<lparr>Hosts = [], Ports = [], DataPortRange = [5000, 5002], ListenMode = True, NoCompression = False,
     ToResolve = [], CmdID = ''id'', SegID = 1, PrintVersion = False, MD5XORMode = False,
     TransCompType = ''zstd'', NumClients = [], Direction = ''receive'', NumDests = 0\<rparr>"

definition demo_listen :: "string \<Rightarrow> int res" where
  "demo_listen addr = (if addr = '':'' @ Itoa 5001 then Inr 5001 else if addr = '':'' @ Itoa 0 then Inr 40123 else Inl (Error ''in use''))"


end
