(* ===== verification/Pairing.thy ===== *)
theory Pairing
  imports Strategy Helper
begin

text \<open>
  The two ends of a transfer put together: the address lists, port lists and client numbers
  that \<open>src/copy/copy_command.go\<close> writes into the COPY commands are read by the helpers of
  \<open>src/helper\<close>. Shown here, for every strategy that copies segment by segment: every dialing
  helper reaches a listener of the right segment, and every listener waits for exactly the
  clients that dial it.
\<close>

section \<open>What the helper reads back\<close>

lemma comma_ints_ok: "\<forall>e\<in>set es. snd (Atoi e) \<Longrightarrow> comma_ints c es = Inr (c @ es)"
  by (induction es arbitrary: c) auto

definition int64 :: "int \<Rightarrow> bool" where
  "int64 i \<longleftrightarrow> - (2 ^ 63) \<le> i \<and> i < 2 ^ 63"

lemma CommaIntFlags_roundtrip:
  assumes "xs \<noteq> []" and "\<forall>x\<in>set xs. int64 x"
  shows "CommaIntFlags_Set [] (Join (map Itoa xs) '','') = Inr (map Itoa xs)"
proof -
  have "Split CHR '','' (Join (map Itoa xs) '','') = map Itoa xs"
    by (rule Split_Join) (use assms(1) in auto)
  moreover have "\<forall>e\<in>set (map Itoa xs). snd (Atoi e)"
    using assms(2) by (auto simp: ParseInt_Itoa int64_def)
  ultimately show ?thesis by (simp add: CommaIntFlags_Set_def comma_ints_ok)
qed

lemma CommaStringFlags_roundtrip:
  assumes "xs \<noteq> []" and "\<forall>x\<in>set xs. CHR '','' \<notin> set x"
  shows "CommaStringFlags_Set [] (Join xs '','') = Inr xs"
  using Split_Join[OF assms] by (simp add: CommaStringFlags_Set_def)

text \<open>How many clients a server waits for.\<close>

fun expected_clients :: "server \<Rightarrow> nat" where
  "expected_clients OneTimeServer = 1"
| "expected_clients (ConcurrentServer n) = unat n"

lemma expected_clients_eq:
  assumes "NumClients c = map (\<lambda>d. Itoa (int (f d))) [0..<n]" and "SegID c = int d" and "d < n"
    and "0 < f d" and "f d < 2 ^ 31"
  shows "expected_clients (createServerImpl c) = f d"
proof -
  have "fst (Atoi (Itoa (int (f d)))) = int (f d)" using assms(5) by (simp add: ParseInt_Itoa)
  moreover have "unat (word_of_int (int (f d)) :: 32 word) = f d"
    using assms(5) by (simp add: unsigned_of_nat take_bit_nat_eq_self)
  ultimately show ?thesis
    using assms by (simp add: createServerImpl_def seg_index_def)
qed

lemma target_at:
  assumes "Hosts c = map f [0..<n]" and "Ports c = map g [0..<n]" and "SegID c = int k" and "k < n"
  shows "client_target c = Inr (Some (f k, g k))"
  using assms by (simp add: client_target_def seg_index_def)

lemma reported_port:
  assumes "hp_Content ` set hpis = int ` {0..<n}"
    and "\<forall>p\<in>set hpis. hp_Port p = pt (hp_Content p) \<and> int64 (hp_Port p)" and "j < n"
  shows "int64 (pt (int j))"
proof -
  have "int j \<in> hp_Content ` set hpis" using assms(1,3) by auto
  then show ?thesis using assms(2) by auto
qed

lemma client_count_bounds:
  fixes d nd ns :: nat
  assumes "d < nd" and "nd \<le> ns" and "ns < 2 ^ 31"
  shows "0 < card {k \<in> {0..<ns}. k mod nd = d}" and "card {k \<in> {0..<ns}. k mod nd = d} < 2 ^ 31"
proof -
  have "d \<in> {k \<in> {0..<ns}. k mod nd = d}" using assms(1,2) by simp
  then show "0 < card {k \<in> {0..<ns}. k mod nd = d}" by (auto simp: card_gt_0_iff)
  have "card {k \<in> {0..<ns}. k mod nd = d} \<le> card {0..<ns}" by (rule card_mono) auto
  then show "card {k \<in> {0..<ns}. k mod nd = d} < 2 ^ 31" using assms(3) by simp
qed

section \<open>Properties\<close>

text \<open>
  Claim C11. Fewer destination than source segments, push mode. From the ports the listeners
  report, the source segment \<open>k\<close> dials the host of destination segment \<open>k mod nd\<close> at the port
  which that segment reported, and the listener of every destination segment \<open>d\<close> expects exactly
  as many clients as there are source segments that dial it.
\<close>

theorem push_lt_pairing:
  assumes "range_order ks" and "numbered (DestSegmentsHostInfo cc)"
    and "nd = length (DestSegmentsHostInfo cc)" and "ns = length (SrcSegmentsHostInfo cc)"
    and "0 < nd" and "nd \<le> ns" and "ns < 2 ^ 31"
    and "\<forall>s\<in>set (DestSegmentsHostInfo cc). CHR '','' \<notin> set (Hostname s)"
    and "hp_Content ` set hpis = int ` {0..<nd}"
    and "\<forall>p\<in>set hpis. hp_Port p = pt (hp_Content p) \<and> int64 (hp_Port p)"
  shows "\<exists>pl il cn P H NC. FormDestSegsHelperAddress cc (processPortList ks hpis) = Inr (pl, il) \<and>
    formClientNumbers ks cc = Inr cn \<and> CommaIntFlags_Set [] pl = Inr P \<and> CommaStringFlags_Set [] il = Inr H \<and>
    CommaIntFlags_Set [] cn = Inr NC \<and>
    (\<forall>k < ns. client_target (c\<lparr>Hosts := H, Ports := P, SegID := int k\<rparr>) =
       Inr (Some (Hostname (DestSegmentsHostInfo cc ! (k mod nd)), Itoa (pt (int (k mod nd)))))) \<and>
    (\<forall>d < nd. expected_clients (createServerImpl (c\<lparr>NumClients := NC, SegID := int d\<rparr>)) =
       card {k \<in> {0..<ns}. k mod nd = d})"
proof -
  let ?dest = "DestSegmentsHostInfo cc"
  let ?n = "\<lambda>d. card {k \<in> {0..<ns}. k mod nd = d}"
  have ports: "processPortList ks hpis = map (\<lambda>j. \<lparr>hp_Content = int j, hp_Port = pt (int j)\<rparr>) [0..<nd]"
    by (rule processPortList_numbered[OF assms(1,9)]) (use assms(10) in auto)
  have pt64: "int64 (pt (int j))" if "j < nd" for j
    by (rule reported_port[OF assms(9,10) that])
  let ?P = "map (\<lambda>k. pt (int (k mod nd))) [0..<ns]" and ?H = "map (\<lambda>k. Hostname (?dest ! (k mod nd))) [0..<ns]"
  have md: "k mod nd < nd" for k using assms(5) by simp
  have form: "FormDestSegsHelperAddress cc (processPortList ks hpis) = Inr (Join (map Itoa ?P) '','', Join ?H '','')"
    using FormDestSegs_ok[of "processPortList ks hpis" cc] assms(3-6) md by (simp add: ports o_def)
  have cn: "formClientNumbers ks cc = Inr (Join (map Itoa (map (\<lambda>d. int (?n d)) [0..<nd])) '','')"
    using formClientNumbers_eq[OF assms(1,2,3,5)] assms(4,6) by (simp add: o_def)
  note pos = client_count_bounds[OF _ assms(6,7)]
  have P: "CommaIntFlags_Set [] (Join (map Itoa ?P) '','') = Inr (map Itoa ?P)"
    by (rule CommaIntFlags_roundtrip) (use assms(5,6) pt64 md in auto)
  have H: "CommaStringFlags_Set [] (Join ?H '','') = Inr ?H"
  proof (rule CommaStringFlags_roundtrip)
    show "\<forall>x\<in>set ?H. CHR '','' \<notin> set x" using assms(3,8) md by (auto simp: nth_mem)
  qed (use assms(5,6) in auto)
  have NC: "CommaIntFlags_Set [] (Join (map Itoa (map (\<lambda>d. int (?n d)) [0..<nd])) '','') =
      Inr (map Itoa (map (\<lambda>d. int (?n d)) [0..<nd]))"
    by (rule CommaIntFlags_roundtrip) (use assms(5) pos in \<open>fastforce simp: int64_def\<close>)+
  have "client_target (c\<lparr>Hosts := ?H, Ports := map Itoa ?P, SegID := int k\<rparr>) =
      Inr (Some (Hostname (?dest ! (k mod nd)), Itoa (pt (int (k mod nd)))))" if "k < ns" for k
    using target_at[OF _ _ _ that, of _ "\<lambda>k. Hostname (?dest ! (k mod nd))" "\<lambda>k. Itoa (pt (int (k mod nd)))"]
    by (simp add: o_def)
  moreover have "expected_clients (createServerImpl (c\<lparr>NumClients := map Itoa (map (\<lambda>d. int (?n d)) [0..<nd]),
      SegID := int d\<rparr>)) = ?n d" if "d < nd" for d
    by (rule expected_clients_eq[where n = nd]) (use that pos in \<open>auto simp: o_def\<close>)
  ultimately show ?thesis using form cn P H NC by blast
qed

definition demo_base :: "string \<Rightarrow> CopyBase" where
  "demo_base mode = \<lparr>WorkerId = 0, SrcSegmentsHostInfo = map demo_seg [0, 1, 2], DestSegmentsHostInfo = map demo_seg [0, 1],
     ConnectionMode = mode, CompArg = ''--no-compression''\<rparr>"

definition demo_ports :: "HelperPortInfo list" where
  "demo_ports = [\<lparr>hp_Content = 1, hp_Port = 7001\<rparr>, \<lparr>hp_Content = 0, hp_Port = 7000\<rparr>]"

lemma demo_seg_facts: "numbered (map demo_seg [0..<n])" "CHR '','' \<notin> set (Hostname (demo_seg j))"
  by (simp_all add: numbered_def demo_seg_def)

theorem push_lt_pairing_witness:
  "\<exists>pl il cn P H NC. FormDestSegsHelperAddress (demo_base ''push'') (processPortList go_keys demo_ports) = Inr (pl, il) \<and>
    formClientNumbers go_keys (demo_base ''push'') = Inr cn \<and> CommaIntFlags_Set [] pl = Inr P \<and>
    CommaStringFlags_Set [] il = Inr H \<and> CommaIntFlags_Set [] cn = Inr NC \<and>
    list_all (\<lambda>k. client_target (demo_config\<lparr>Hosts := H, Ports := P, SegID := int k\<rparr>) =
       Inr (Some (Hostname (DestSegmentsHostInfo (demo_base ''push'') ! (k mod 2)), Itoa (7000 + int (k mod 2))))) [0, 1, 2] \<and>
    expected_clients (createServerImpl (demo_config\<lparr>NumClients := NC, SegID := 0\<rparr>)) = card {k \<in> {0..<3::nat}. k mod 2 = 0}"
proof -
  let ?cc = "demo_base ''push''"
  have ports: "hp_Content ` set demo_ports = int ` {0..<2}"
    by (auto simp: demo_ports_def numeral_2_eq_2 lessThan_Suc atLeast0LessThan)
  have pt: "\<forall>p\<in>set demo_ports. hp_Port p = 7000 + hp_Content p \<and> int64 (hp_Port p)"
    by (simp add: demo_ports_def int64_def)
  have num: "numbered (DestSegmentsHostInfo ?cc)"
    using demo_seg_facts(1)[of 2] by (simp add: demo_base_def numeral_2_eq_2)
  have len: "2 = length (DestSegmentsHostInfo ?cc)" "3 = length (SrcSegmentsHostInfo ?cc)"
    and host: "\<forall>s\<in>set (DestSegmentsHostInfo ?cc). CHR '','' \<notin> set (Hostname s)"
    by (simp_all add: demo_base_def demo_seg_facts)
  from push_lt_pairing[OF range_order_keys num len _ _ _ host ports pt, of demo_config] obtain pl il cn P H NC where
    r: "FormDestSegsHelperAddress ?cc (processPortList go_keys demo_ports) = Inr (pl, il)"
      "formClientNumbers go_keys ?cc = Inr cn" "CommaIntFlags_Set [] pl = Inr P" "CommaStringFlags_Set [] il = Inr H"
      "CommaIntFlags_Set [] cn = Inr NC"
    and t: "\<And>k. k < 3 \<Longrightarrow> client_target (demo_config\<lparr>Hosts := H, Ports := P, SegID := int k\<rparr>) =
       Inr (Some (Hostname (DestSegmentsHostInfo ?cc ! (k mod 2)), Itoa (7000 + int (k mod 2))))"
    and e: "\<And>d. d < 2 \<Longrightarrow> expected_clients (createServerImpl (demo_config\<lparr>NumClients := NC, SegID := int d\<rparr>)) =
       card {k \<in> {0..<3}. k mod 2 = d}" by auto
  from t[of 0] t[of 1] t[of 2] e[of 0] r show ?thesis by auto
qed

text \<open>
  Claim C12. Fewer destination than source segments, pull mode. The helpers of the destination
  segments are concurrent clients, and the sources they dial partition the source segments:
  destination segment \<open>d\<close> dials exactly the source segments \<open>k\<close> with \<open>k mod nd = d\<close>, each at the port
  which that segment reported.
\<close>

theorem pull_lt_partition:
  assumes "range_order ks" and "numbered (SrcSegmentsHostInfo cc)"
    and "nd = length (DestSegmentsHostInfo cc)" and "ns = length (SrcSegmentsHostInfo cc)"
    and "0 < nd" and "nd < ns"
    and "\<forall>s\<in>set (SrcSegmentsHostInfo cc). CHR '','' \<notin> set (Hostname s)"
    and "hp_Content ` set hpis = int ` {0..<ns}"
    and "\<forall>p\<in>set hpis. hp_Port p = pt (hp_Content p) \<and> int64 (hp_Port p)"
    and "Direction c = ''receive''" and "NumDests c = int nd"
  shows "\<exists>pl il P H. FormSrcSegsHelperAddress cc (processPortList ks hpis) = Inr (pl, il) \<and>
    CommaIntFlags_Set [] pl = Inr P \<and> CommaStringFlags_Set [] il = Inr H \<and>
    createClientImpl (c\<lparr>Hosts := H, Ports := P\<rparr>) = ConcurrentClient \<and>
    (\<forall>d < nd. concurrent_targets (c\<lparr>Hosts := H, Ports := P\<rparr>) (int d) =
       Some (Inr (map (\<lambda>k. (Hostname (SrcSegmentsHostInfo cc ! k), Itoa (pt (int k))))
                    (filter (\<lambda>k. k mod nd = d) [0..<ns]))))"
proof -
  let ?src = "SrcSegmentsHostInfo cc"
  have ports: "processPortList ks hpis = map (\<lambda>j. \<lparr>hp_Content = int j, hp_Port = pt (int j)\<rparr>) [0..<ns]"
    by (rule processPortList_numbered[OF assms(1,8)]) (use assms(9) in auto)
  have pt64: "int64 (pt (int j))" if "j < ns" for j
    by (rule reported_port[OF assms(8,9) that])
  let ?P = "map (\<lambda>k. pt (int k)) [0..<ns]" and ?H = "map Hostname ?src"
  have form: "FormSrcSegsHelperAddress cc (processPortList ks hpis) = Inr (Join (map Itoa ?P) '','', Join ?H '','')"
    using src_segs_loop_ok[of 0 ?src "processPortList ks hpis"] assms(4)
    by (simp add: FormSrcSegsHelperAddress_def ports o_def)
  have P: "CommaIntFlags_Set [] (Join (map Itoa ?P) '','') = Inr (map Itoa ?P)"
    by (rule CommaIntFlags_roundtrip) (use assms(6) pt64 in auto)
  have H: "CommaStringFlags_Set [] (Join ?H '','') = Inr ?H"
    by (rule CommaStringFlags_roundtrip) (use assms(4,6,7) in auto)
  let ?c = "c\<lparr>Hosts := ?H, Ports := map Itoa ?P\<rparr>"
  have "concurrent_targets ?c (int d) = Some (Inr (map (\<lambda>k. (Hostname (?src ! k), Itoa (pt (int k))))
      (filter (\<lambda>k. k mod nd = d) [0..<ns])))" if "d < nd" for d
  proof -
    have "filter (\<lambda>k. k mod nd = d) [0..<ns] = filter (\<lambda>k. k mod nd = d mod nd) [d..<ns]"
      using that filter_mod_start[of d nd ns] assms(6) by simp
    moreover have "map (\<lambda>k. (Hosts ?c ! k, Ports ?c ! k)) (filter P [d..<ns]) =
        map (\<lambda>k. (Hostname (?src ! k), Itoa (pt (int k)))) (filter P [d..<ns])" for P
      using assms(4) by auto
    ultimately show ?thesis using concurrent_targets_eq[of ?c nd d] assms(4,5,11) by simp
  qed
  moreover have "createClientImpl ?c = ConcurrentClient"
    using assms(4,5,6,10,11) by (simp add: createClientImpl_def)
  ultimately show ?thesis using form P H by blast
qed

definition demo_src_ports :: "HelperPortInfo list" where
  "demo_src_ports = map (\<lambda>j. \<lparr>hp_Content = int j, hp_Port = 7000 + int j\<rparr>) [2, 0, 1]"

lemma demo_src_ports_facts: "hp_Content ` set demo_src_ports = int ` {0..<3}"
  "\<forall>p\<in>set demo_src_ports. hp_Port p = 7000 + hp_Content p \<and> int64 (hp_Port p)"
  by (auto simp: demo_src_ports_def int64_def numeral_3_eq_3 atLeast0LessThan lessThan_Suc)

theorem pull_lt_partition_witness:
  "\<exists>pl il P H. FormSrcSegsHelperAddress (demo_base ''pull'') (processPortList go_keys demo_src_ports) = Inr (pl, il) \<and>
    CommaIntFlags_Set [] pl = Inr P \<and> CommaStringFlags_Set [] il = Inr H \<and>
    createClientImpl (demo_config\<lparr>NumDests := 2, Hosts := H, Ports := P\<rparr>) = ConcurrentClient \<and>
    concurrent_targets (demo_config\<lparr>NumDests := 2, Hosts := H, Ports := P\<rparr>) 0 =
       Some (Inr (map (\<lambda>k. (Hostname (SrcSegmentsHostInfo (demo_base ''pull'') ! k), Itoa (7000 + int k)))
                    (filter (\<lambda>k. k mod 2 = 0) [0..<3])))"
proof -
  let ?cc = "demo_base ''pull''"
  have len: "2 = length (DestSegmentsHostInfo ?cc)" "3 = length (SrcSegmentsHostInfo ?cc)"
    and host: "\<forall>s\<in>set (SrcSegmentsHostInfo ?cc). CHR '','' \<notin> set (Hostname s)"
    by (simp_all add: demo_base_def demo_seg_facts)
  have num: "numbered (SrcSegmentsHostInfo ?cc)"
    by (auto simp: numbered_def demo_base_def demo_seg_def less_Suc_eq numeral_3_eq_3)
  from pull_lt_partition[OF range_order_keys num len _ _ host demo_src_ports_facts,
      of "demo_config\<lparr>NumDests := 2\<rparr>"] show ?thesis
    by (fastforce simp: demo_config_def)
qed

text \<open>
  The strategies \<open>CopyOnSegment\<close> and \<open>ExtDestGeCopy\<close> pair segments one to one. With the
  listening cluster's segments numbered by position and one port reported for each of the
  first \<open>ns\<close> of them, the dialing helper with number \<open>k < ns\<close> reaches the host and port of
  listening segment \<open>k\<close>, every listener expects one client, and a dialing helper with a larger
  number has nothing to do.
\<close>

theorem one_to_one_pairing:
  assumes "range_order ks" and "ns = length (SrcSegmentsHostInfo cc)" and "0 < ns"
    and "listening = (if ConnectionMode cc = ''push'' then DestSegmentsHostInfo cc else SrcSegmentsHostInfo cc)"
    and "ns \<le> length listening"
    and "\<forall>s\<in>set listening. CHR '','' \<notin> set (Hostname s)"
    and "hp_Content ` set hpis = int ` {0..<ns}"
    and "\<forall>p\<in>set hpis. hp_Port p = pt (hp_Content p) \<and> int64 (hp_Port p)"
  shows "\<exists>pl il P H. FormAllSegsHelperAddress cc (processPortList ks hpis) = Inr (pl, il) \<and>
    CommaIntFlags_Set [] pl = Inr P \<and> CommaStringFlags_Set [] il = Inr H \<and>
    (\<forall>k. client_target (c\<lparr>Hosts := H, Ports := P, SegID := int k\<rparr>) =
       Inr (if k < ns then Some (Hostname (listening ! k), Itoa (pt (int k))) else None)) \<and>
    (NumClients c = [] \<longrightarrow> expected_clients (createServerImpl c) = 1)"
proof -
  have ports: "processPortList ks hpis = map (\<lambda>j. \<lparr>hp_Content = int j, hp_Port = pt (int j)\<rparr>) [0..<ns]"
    by (rule processPortList_numbered[OF assms(1,7)]) (use assms(8) in auto)
  let ?P = "map (\<lambda>k. pt (int k)) [0..<ns]" and ?H = "map (\<lambda>k. Hostname (listening ! k)) [0..<ns]"
  have take: "map Hostname (take ns listening) = ?H"
    using assms(5) by (intro nth_equalityI) auto
  have form: "FormAllSegsHelperAddress cc (processPortList ks hpis) = Inr (Join (map Itoa ?P) '','', Join ?H '','')"
    using hosts_upto_ok[OF assms(5)] take
    by (simp add: FormAllSegsHelperAddress_def ports o_def Let_def assms(4)[symmetric])
  have P: "CommaIntFlags_Set [] (Join (map Itoa ?P) '','') = Inr (map Itoa ?P)"
    by (rule CommaIntFlags_roundtrip) (use assms(3) reported_port[OF assms(7,8)] in auto)
  have H: "CommaStringFlags_Set [] (Join ?H '','') = Inr ?H"
  proof (rule CommaStringFlags_roundtrip)
    show "\<forall>x\<in>set ?H. CHR '','' \<notin> set x" using assms(5,6) by (auto simp: nth_mem)
  qed (use assms(3) in auto)
  have "client_target (c\<lparr>Hosts := ?H, Ports := map Itoa ?P, SegID := int k\<rparr>) =
      Inr (if k < ns then Some (Hostname (listening ! k), Itoa (pt (int k))) else None)" for k
    by (simp add: client_target_def seg_index_def)
  moreover have "NumClients c = [] \<longrightarrow> expected_clients (createServerImpl c) = 1"
    by (simp add: createServerImpl_def)
  ultimately show ?thesis using form P H by blast
qed

theorem one_to_one_pairing_witness:
  "\<exists>pl il P H. FormAllSegsHelperAddress (demo_base ''pull'') (processPortList go_keys demo_src_ports) = Inr (pl, il) \<and>
    CommaIntFlags_Set [] pl = Inr P \<and> CommaStringFlags_Set [] il = Inr H \<and>
    (\<forall>k. client_target (demo_config\<lparr>Hosts := H, Ports := P, SegID := int k\<rparr>) =
       Inr (if k < 3 then Some (Hostname (SrcSegmentsHostInfo (demo_base ''pull'') ! k), Itoa (7000 + int k)) else None)) \<and>
    expected_clients (createServerImpl demo_config) = 1"
proof -
  let ?cc = "demo_base ''pull''"
  have len: "3 = length (SrcSegmentsHostInfo ?cc)"
    and host: "\<forall>s\<in>set (SrcSegmentsHostInfo ?cc). CHR '','' \<notin> set (Hostname s)"
    and mode: "SrcSegmentsHostInfo ?cc =
      (if ConnectionMode ?cc = ''push'' then DestSegmentsHostInfo ?cc else SrcSegmentsHostInfo ?cc)"
    by (simp_all add: demo_base_def demo_seg_facts)
  have nc: "NumClients demo_config = []" by (simp add: demo_config_def)
  have pos: "0 < (3 :: nat)" "3 \<le> length (SrcSegmentsHostInfo ?cc)" using len by auto
  show ?thesis
    using one_to_one_pairing[OF range_order_keys len pos(1) mode pos(2) host demo_src_ports_facts, of demo_config] nc
    by blast
qed

end
