(* ===== verification/QueryWrapper.thy ===== *)
theory QueryWrapper
  imports SkipExisting Restore
begin

text \<open>
  Which tables are copied: \<open>src/copy/copy_query_wrapper.go\<close> and the parts of \<open>src/copy/copy_query.go\<close>
  it calls. A database is what its catalog queries answer (a parameter, a list of rows or an
  error for each query); the wrapper's state is its cache of partition leaves together with the
  program's option, which it updates. \<open>rng\<close> orders the keys of a map the way Go visits them.

  Shown here: the tables of a table mode copy with destination tables are exactly the pairs asked
  for, without the excluded ones and those the source does not have; the names in the partition
  map are the names the tables are redirected to; and a cache that is not reset answers for the
  wrong database.
\<close>

section \<open>Queries\<close>

record PartLeafTable =
  RootName :: string
  LeafName :: string
  leaf_RelTuples :: int

record database =
  dbname :: string
  sel_user_tables :: "Table list res"
  sel_part_leaves :: "PartLeafTable list res"
  sel_non_physical :: "Table list res"
  sel_schema_count :: "string \<Rightarrow> int res"
  sel_databases :: "string list res"

definition GetAllDatabases :: "database \<Rightarrow> string list res" where
  "GetAllDatabases db = wrap_error ''query failed: SELECT d.datname FROM pg_database d, error: '' (sel_databases db)"

definition qm_GetUserTables :: "database \<Rightarrow> (string, TableStatistics) gomap res" where
  "qm_GetUserTables db =
     rbind (sel_user_tables db) (\<lambda>tables.
       Inr (foldl (\<lambda>m t. go_set (fqn (Schema t) (Name t))
              \<lparr>ts_Partition = Partition t, ts_RelTuples = RelTuples t, ts_IsReplicated = IsReplicated t\<rparr> m) [] tables))"

definition SchemaExists :: "database \<Rightarrow> string \<Rightarrow> bool res" where
  "SchemaExists db schema = rbind (sel_schema_count db schema) (\<lambda>count. Inr (count = 1))"

definition qm_GetPartitionLeafTables :: "database \<Rightarrow> PartLeafTable list res" where
  "qm_GetPartitionLeafTables db = wrap_error ''failed to get partition leaf tables: '' (sel_part_leaves db)"

definition qm_GetNonPhysicalRelations :: "database \<Rightarrow> (string, bool) gomap res" where
  "qm_GetNonPhysicalRelations db =
     rbind (sel_non_physical db) (\<lambda>relations.
       Inr (foldl (\<lambda>m v. go_set (fqn (Schema v) (Name v)) True m) [] relations))"

definition CreateDatabaseIfNotExists :: "(string \<Rightarrow> unit res) \<Rightarrow> database \<Rightarrow> string \<Rightarrow> unit res" where
  "CreateDatabaseIfNotExists exec db name =
     rbind (GetAllDatabases db) (\<lambda>dbnames.
       if name \<in> set dbnames then Inr ()
       else wrap_error (''failed to create database '' @ name @ '': '') (exec (''CREATE DATABASE '' @ [DQ] @ name @ [DQ])))"

definition CreateTestTable :: "(string \<Rightarrow> unit res) \<Rightarrow> string \<Rightarrow> unit res" where
  "CreateTestTable exec tableName =
     (case exec (''CREATE TABLE '' @ tableName @ '' (a int)'') of
        Inl (Error e) \<Rightarrow> if \<not> Contains e ''already exists'' then Inl (Error (''failed to create test table: '' @ e)) else Inr ()
      | r \<Rightarrow> r)"

section \<open>The wrapper\<close>

record QueryWrapper =
  srcPartLeafTable :: "PartLeafTable list option"
  destPartLeafTable :: "PartLeafTable list option"
  config :: Option

definition NewQueryWrapper :: "Option \<Rightarrow> QueryWrapper" where
  "NewQueryWrapper opt = \<lparr>srcPartLeafTable = None, destPartLeafTable = None, config = opt\<rparr>"

definition excludedDb :: "string list" where
  "excludedDb = [''template0'', ''template1'']"

definition GetUserDatabases :: "database \<Rightarrow> string list res" where
  "GetUserDatabases db = rbind (GetAllDatabases db) (\<lambda>dbnames. Inr (filter (\<lambda>d. d \<notin> set excludedDb) dbnames))"

definition ResetCache :: "QueryWrapper \<Rightarrow> QueryWrapper" where
  "ResetCache qw = qw\<lparr>srcPartLeafTable := None, destPartLeafTable := None\<rparr>"

definition GetPartitionLeafTables :: "database \<Rightarrow> bool \<Rightarrow> QueryWrapper \<Rightarrow> (PartLeafTable list \<times> QueryWrapper) res" where
  "GetPartitionLeafTables db isDest qw =
     (case (if isDest then destPartLeafTable qw else srcPartLeafTable qw) of
        Some tables \<Rightarrow> Inr (tables, qw)
      | None \<Rightarrow> rbind (qm_GetPartitionLeafTables db) (\<lambda>tables.
          Inr (tables, if isDest then qw\<lparr>destPartLeafTable := Some tables\<rparr> else qw\<lparr>srcPartLeafTable := Some tables\<rparr>)))"

definition GetRootPartTables :: "database \<Rightarrow> bool \<Rightarrow> QueryWrapper \<Rightarrow> ((string, bool) gomap \<times> QueryWrapper) res" where
  "GetRootPartTables db isDest qw =
     rbind (GetPartitionLeafTables db isDest qw) (\<lambda>(tables, qw).
       Inr (foldl (\<lambda>m t. go_set (RootName t) True m) [] tables, qw))"

definition split_name :: "string \<Rightarrow> (string \<times> string) res" where
  "split_name k =
     (let sl = Split CHR ''.'' k
      in rbind (go_index sl 0) (\<lambda>s. rbind (go_index sl 1) (\<lambda>n. Inr (s, n))))"

definition table_with :: "string \<Rightarrow> TableStatistics \<Rightarrow> Table res" where
  "table_with k v =
     rbind (split_name k) (\<lambda>(s, n).
       Inr \<lparr>Schema = s, Name = n, Partition = ts_Partition v, RelTuples = ts_RelTuples v, IsReplicated = ts_IsReplicated v\<rparr>)"

definition excludeTables :: "(string list \<Rightarrow> string list) \<Rightarrow> (string, TableStatistics) gomap \<Rightarrow>
    (string, TableStatistics) gomap \<Rightarrow> Table list res" where
  "excludeTables rng includeTables excludeds =
     rmap (\<lambda>k. table_with k (the (go_get includeTables k)))
       (filter (\<lambda>k. \<not> go_has excludeds k) (rng (go_keys includeTables)))"

definition redirectSchemaTables :: "Option \<Rightarrow> Table list \<Rightarrow> Table list res" where
  "redirectSchemaTables opt tables =
     (if length (destSchemas opt) = 0 then Inr tables
      else rbind (GetSchemaMap opt) (\<lambda>schemaMap.
        Inr (map (\<lambda>v. \<lparr>Schema = (case go_get schemaMap (Schema v) of Some ds \<Rightarrow> ds | None \<Rightarrow> Schema v), Name = Name v,
                       Partition = Partition v, RelTuples = RelTuples v, IsReplicated = False\<rparr>) tables)))"

definition redirectIncludeTables :: "Option \<Rightarrow> Table list \<Rightarrow> Table list" where
  "redirectIncludeTables opt tables =
     (if length (destSchemas opt) = 0 then tables
      else let ds = ds_Schema (hd (destSchemas opt))
        in map (\<lambda>v. v\<lparr>Schema := ds\<rparr>) tables)"

fun existing_schemas :: "database \<Rightarrow> DbSchema list \<Rightarrow> (string, bool) gomap \<Rightarrow> (string, bool) gomap res" where
  "existing_schemas db [] m = Inr m"
| "existing_schemas db (s # ss) m =
     (case SchemaExists db (ds_Schema s) of
        Inl (Error e) \<Rightarrow> Inl (Fatal (''failed to check schema existence: '' @ e))
      | Inl e \<Rightarrow> Inl e
      | Inr found \<Rightarrow> if \<not> found then Inl (Fatal ''Schema does not exists on source database'')
                   else existing_schemas db ss (go_set (ds_Schema s) True m))"

definition filterTablesBySchema :: "database \<Rightarrow> Option \<Rightarrow> (string, TableStatistics) gomap \<Rightarrow> (string, TableStatistics) gomap res" where
  "filterTablesBySchema db opt tables =
     (if copyMode opt \<noteq> ''schema'' then Inr tables
      else rbind (existing_schemas db (sourceSchemas opt) []) (\<lambda>schemaMap.
        Inr (filter (\<lambda>(k, v). go_has schemaMap (hd (Split CHR ''.'' k))) tables)))"

section \<open>The databases\<close>

definition db_names :: "(string list \<Rightarrow> string list) \<Rightarrow> database \<Rightarrow> Option \<Rightarrow> (string list \<times> string list) res" where
  "db_names rng db opt =
     (if copyMode opt = ''full'' then
        rbind (FatalOnError (GetUserDatabases db)) (\<lambda>names. Inr (names, names))
      else if copyMode opt = ''db'' then
        Inr (sourceDbnames opt, if length (destDbnames opt) > 0 then destDbnames opt else sourceDbnames opt)
      else if copyMode opt = ''schema'' then
        rbind (go_index (sourceSchemas opt) 0) (\<lambda>ss.
          Inr ([ds_Database ss], if length (destSchemas opt) > 0 then [ds_Database (hd (destSchemas opt))] else [ds_Database ss]))
      else
        rbind (GetTblSourceDbnames opt) (\<lambda>sources.
          let dest1 = (if length (destSchemas opt) > 0 then [ds_Database (hd (destSchemas opt))] else sources);
              dest2 = (if length (destDbnames opt) > 0 then destDbnames opt else dest1);
              tbl = GetTblDestDbnames (\<lambda>m. rng (go_keys m)) opt
          in Inr (sources, if length tbl > 0 then tbl else dest2)))"

definition GetDbNameMap :: "(string list \<Rightarrow> string list) \<Rightarrow> database \<Rightarrow> Option \<Rightarrow> (string, string) gomap res" where
  "GetDbNameMap rng db opt =
     rbind (db_names rng db opt) (\<lambda>(sources, dests).
       if length sources \<noteq> length dests
       then Inl (Fatal ''The number of source database should be equal to dest database'')
       else Inr (foldl (\<lambda>m (s, d). go_set s d m) [] (zip sources dests)))"

section \<open>Partitions\<close>

definition redirectPartitionTable :: "(string, string) gomap option \<Rightarrow> string \<Rightarrow> string \<Rightarrow> bool \<Rightarrow> string res" where
  "redirectPartitionTable schemaMap schema tableName keepOriginal =
     (if keepOriginal then Inr tableName
      else if schema \<noteq> [] then rbind (split_name tableName) (\<lambda>(s, n). Inr (fqn schema n))
      else case schemaMap of
        Some m \<Rightarrow> rbind (split_name tableName) (\<lambda>(s, n).
          Inr (fqn (case go_get m s of Some d \<Rightarrow> d | None \<Rightarrow> s) n))
      | None \<Rightarrow> Inr tableName)"

fun partition_map :: "(string \<Rightarrow> string res) \<Rightarrow> PartLeafTable list \<Rightarrow> (string, string list) gomap \<Rightarrow> (string, string list) gomap res" where
  "partition_map redirect [] partMap = Inr partMap"
| "partition_map redirect (t # ts) partMap =
     rbind (redirect (RootName t)) (\<lambda>rootName.
     rbind (redirect (LeafName t)) (\<lambda>leafName.
       let children = (case go_get partMap rootName of Some cs \<Rightarrow> cs | None \<Rightarrow> [])
       in partition_map redirect ts (go_set rootName (children @ [leafName]) partMap)))"

definition schema_map_of :: "Option \<Rightarrow> (string, string) gomap option res" where
  "schema_map_of opt =
     (if copyMode opt = ''schema'' \<and> length (destSchemas opt) > 0
      then rbind (GetSchemaMap opt) (\<lambda>m. Inr (Some m)) else Inr None)"

definition dest_schema_of :: "Option \<Rightarrow> string" where
  "dest_schema_of opt =
     (if copyMode opt = ''table'' \<and> length (destSchemas opt) > 0 then ds_Schema (hd (destSchemas opt)) else [])"

definition buildPartitionTableMapping :: "database \<Rightarrow> bool \<Rightarrow> bool \<Rightarrow> QueryWrapper \<Rightarrow>
    ((string, string list) gomap \<times> QueryWrapper) res" where
  "buildPartitionTableMapping db isDest keepOriginal qw =
     rbind (schema_map_of (config qw)) (\<lambda>schemaMap.
     rbind (FatalOnError (GetPartitionLeafTables db isDest qw)) (\<lambda>(leafTables, qw).
     rbind (partition_map (\<lambda>t. redirectPartitionTable schemaMap (dest_schema_of (config qw)) t keepOriginal) leafTables [])
       (\<lambda>partMap. Inr (partMap, qw))))"

definition getPartitionTableMapping :: "database \<Rightarrow> database \<Rightarrow> bool \<Rightarrow> QueryWrapper \<Rightarrow>
    ((string, string list) gomap \<times> QueryWrapper) res" where
  "getPartitionTableMapping src dest keepOriginal qw =
     (if copyMode (config qw) = ''table'' \<and> length (destTables (config qw)) > 0
      then buildPartitionTableMapping dest True keepOriginal qw
      else buildPartitionTableMapping src False keepOriginal qw)"

fun leaf_tables :: "PartLeafTable list \<Rightarrow> (string, Table list) gomap \<Rightarrow> (string, Table list) gomap res" where
  "leaf_tables [] leafMap = Inr leafMap"
| "leaf_tables (t # ts) leafMap =
     rbind (split_name (LeafName t)) (\<lambda>(s, n).
       let children = (case go_get leafMap (RootName t) of Some cs \<Rightarrow> cs | None \<Rightarrow> [])
       in leaf_tables ts (go_set (RootName t) (children @ [(mkTable s n)\<lparr>RelTuples := leaf_RelTuples t\<rparr>]) leafMap))"

definition stat0 :: "int \<Rightarrow> TableStatistics" where
  "stat0 tuples = \<lparr>ts_Partition = 0, ts_RelTuples = tuples, ts_IsReplicated = False\<rparr>"

type_synonym stats = "(string, TableStatistics) gomap"

definition expand_table :: "(string, Table list) gomap \<Rightarrow> stats \<Rightarrow> stats \<times> stats \<Rightarrow> Table \<Rightarrow> stats \<times> stats" where
  "expand_table leafMap userTables = (\<lambda>(expandMap, pending) t.
     let k = fqn (Schema t) (Name t)
     in if Partition t = 1 then
          (case go_get leafMap k of
             Some children \<Rightarrow> (foldl (\<lambda>m c. go_set (fqn (Schema c) (Name c)) (stat0 (RelTuples c)) m) expandMap children, pending)
           | None \<Rightarrow> (expandMap, go_set k (stat0 (RelTuples t)) pending))
        else (case go_get userTables k of
             Some stat \<Rightarrow> (go_set k (stat\<lparr>ts_Partition := 0\<rparr>) expandMap, pending)
           | None \<Rightarrow> (expandMap, go_set k (stat0 (RelTuples t)) pending)))"

definition expandPartTables :: "database \<Rightarrow> stats \<Rightarrow> Table list \<Rightarrow> QueryWrapper \<Rightarrow> (stats \<times> stats \<times> QueryWrapper) res" where
  "expandPartTables db userTables tables qw =
     rbind (GetPartitionLeafTables db False qw) (\<lambda>(leafTables, qw).
     rbind (leaf_tables leafTables []) (\<lambda>leafMap.
       let expanded = foldl (expand_table leafMap userTables) ([], []) tables
       in Inr (fst expanded, snd expanded, qw)))"

section \<open>Pairs and inventories\<close>

definition pair_map :: "Table list \<Rightarrow> Table list \<Rightarrow> (string, string) gomap" where
  "pair_map srcs dests = foldl (\<lambda>m (t, d). go_set (fqn (Schema t) (Name t)) (fqn (Schema d) (Name d)) m) [] (zip srcs dests)"

definition without_excluded :: "Table list \<Rightarrow> (string, string) gomap \<Rightarrow> (string, string) gomap" where
  "without_excluded excls m = foldl (\<lambda>m e. go_delete (fqn (Schema e) (Name e)) m) m excls"

fun pair_loop :: "stats \<Rightarrow> (string, string) gomap \<Rightarrow> string list \<Rightarrow> (Table list \<times> Table list) res" where
  "pair_loop userTables m [] = Inr ([], [])"
| "pair_loop userTables m (k # ks) =
     (case go_get userTables k of
        None \<Rightarrow> pair_loop userTables m ks
      | Some u \<Rightarrow> rbind (table_with k u) (\<lambda>s. rbind (table_with (the (go_get m k)) u) (\<lambda>d.
          rbind (pair_loop userTables m ks) (\<lambda>(ss, ds). Inr (s # ss, d # ds)))))"

definition excludeTablePair :: "(string list \<Rightarrow> string list) \<Rightarrow> Table list \<Rightarrow> Table list \<Rightarrow> Table list \<Rightarrow> stats \<Rightarrow>
    (Table list \<times> Table list) res" where
  "excludeTablePair rng srcs dests excls userTables =
     (if length srcs \<noteq> length dests then Inl (Fatal ''The number of include table should be equal to dest table'')
      else let m = without_excluded excls (pair_map srcs dests)
        in pair_loop userTables m (rng (go_keys m)))"

definition GetNonPhysicalRelations :: "database \<Rightarrow> Table list \<Rightarrow> Table list res" where
  "GetNonPhysicalRelations db pending =
     rbind (FatalOnError (qm_GetNonPhysicalRelations db)) (\<lambda>rels.
       Inr (filter (\<lambda>t. go_has rels (fqn (Schema t) (Name t))) pending))"

definition loadDestInventory :: "database \<Rightarrow> QueryWrapper \<Rightarrow> (stats \<times> QueryWrapper) res" where
  "loadDestInventory dest qw =
     rbind (FatalOnError (qm_GetUserTables dest)) (\<lambda>tables.
     rbind (FatalOnError (GetRootPartTables dest True qw)) (\<lambda>(parts, qw).
       Inr (tables, qw\<lparr>config := MarkDestTables (config qw) (dbname dest) tables parts\<rparr>)))"

type_synonym user_tables = "Table list \<times> Table list \<times> Table list \<times> (string, string list) gomap \<times> QueryWrapper"

definition processDestinationTables :: "(string list \<Rightarrow> string list) \<Rightarrow> database \<Rightarrow> database \<Rightarrow> stats \<Rightarrow> QueryWrapper \<Rightarrow> user_tables res" where
  "processDestinationTables rng src dest srcTables qw =
     rbind (loadDestInventory dest qw) (\<lambda>(tables, qw).
     rbind (ValidateIncludeTables (config qw) srcTables) (\<lambda>_.
     rbind (ValidateExcludeTables (config qw) srcTables) (\<lambda>_.
     rbind (ValidateDestTables (config qw) tables) (\<lambda>_.
     rbind (excludeTablePair rng (GetIncludeTablesByDb (config qw) (dbname src)) (GetDestTablesByDb (config qw) (dbname dest))
              (GetExclTablesByDb (config qw) (dbname src)) srcTables) (\<lambda>(ss, ds).
     rbind (getPartitionTableMapping src dest False qw) (\<lambda>(pm, qw). Inr (ss, ds, [], pm, qw)))))))"

definition inventory_if_skipping :: "flagset \<Rightarrow> database \<Rightarrow> QueryWrapper \<Rightarrow> QueryWrapper res" where
  "inventory_if_skipping fl dest qw =
     rbind (MustGetFlagBool fl ''skip-existing'') (\<lambda>on.
       if on then rbind (loadDestInventory dest qw) (\<lambda>(_, qw). Inr qw) else Inr qw)"

definition copy_all_but :: "(string list \<Rightarrow> string list) \<Rightarrow> flagset \<Rightarrow> database \<Rightarrow> database \<Rightarrow> stats \<Rightarrow> stats \<Rightarrow> QueryWrapper \<Rightarrow> user_tables res" where
  "copy_all_but rng fl src dest srcTables exlTabs qw =
     rbind (filterTablesBySchema src (config qw) srcTables) (\<lambda>srcTables.
     rbind (excludeTables rng srcTables exlTabs) (\<lambda>results.
     rbind (inventory_if_skipping fl dest qw) (\<lambda>qw.
     rbind (redirectSchemaTables (config qw) results) (\<lambda>redirected.
     rbind (getPartitionTableMapping src dest False qw) (\<lambda>(pm, qw). Inr (results, redirected, [], pm, qw))))))"

definition copy_included :: "(string list \<Rightarrow> string list) \<Rightarrow> flagset \<Rightarrow> database \<Rightarrow> database \<Rightarrow> stats \<Rightarrow> stats \<Rightarrow> QueryWrapper \<Rightarrow> user_tables res" where
  "copy_included rng fl src dest srcTables exlTabs qw =
     rbind (FatalOnError (expandPartTables src srcTables (GetIncludeTablesByDb (config qw) (dbname src)) qw)) (\<lambda>(expanded, pending, qw).
     rbind (excludeTables rng expanded exlTabs) (\<lambda>results.
     rbind (excludeTables rng pending exlTabs) (\<lambda>rels.
     rbind (GetNonPhysicalRelations src rels) (\<lambda>nonPhysical.
     rbind (inventory_if_skipping fl dest qw) (\<lambda>qw.
     rbind (getPartitionTableMapping src dest False qw) (\<lambda>(pm, qw).
       Inr (results, redirectIncludeTables (config qw) results, nonPhysical, pm, qw)))))))"

definition CbcopyTestTable :: Table where
  "CbcopyTestTable = mkTable ''public'' ''cbcopy_test''"

definition GetUserTables :: "(string list \<Rightarrow> string list) \<Rightarrow> flagset \<Rightarrow> database \<Rightarrow> database \<Rightarrow> QueryWrapper \<Rightarrow> user_tables res" where
  "GetUserTables rng fl src dest qw =
     rbind (MustGetFlagBool fl ''global-metadata-only'') (\<lambda>globalOnly.
     if globalOnly then Inr ([CbcopyTestTable], [CbcopyTestTable], [], [], qw)
     else
       rbind (FatalOnError (qm_GetUserTables src)) (\<lambda>srcTables.
       rbind (FatalOnError (GetRootPartTables src False qw)) (\<lambda>(parts, qw).
       let qw = qw\<lparr>config := MarkExcludeTables (config qw) (dbname src) srcTables parts\<rparr>
       in rbind (FatalOnError (expandPartTables src srcTables (GetExclTablesByDb (config qw) (dbname src)) qw)) (\<lambda>(exlTabs, _, qw).
          if copyMode (config qw) \<noteq> ''table'' then copy_all_but rng fl src dest srcTables exlTabs qw
          else
            let qw = qw\<lparr>config := MarkIncludeTables (config qw) (dbname src) srcTables parts\<rparr>
            in if length (GetDestTablesByDb (config qw) (dbname dest)) = 0
               then copy_included rng fl src dest srcTables exlTabs qw
               else processDestinationTables rng src dest srcTables qw))))"

section \<open>Destination tables\<close>

definition t_fqn :: "Table \<Rightarrow> string" where
  "t_fqn t = fqn (Schema t) (Name t)"

definition plain_names :: "Table \<Rightarrow> bool" where
  "plain_names t \<longleftrightarrow> no_dot (Schema t) \<and> no_dot (Name t)"

text \<open>A table with the statistics before for its source.\<close>

definition with_stats :: "stats \<Rightarrow> Table \<Rightarrow> Table \<Rightarrow> Table" where
  "with_stats userTables s t =
     (let u = the (go_get userTables (t_fqn s))
      in t\<lparr>Partition := ts_Partition u, RelTuples := ts_RelTuples u, IsReplicated := ts_IsReplicated u\<rparr>)"

definition wanted :: "Table list \<Rightarrow> stats \<Rightarrow> (Table \<times> Table) list \<Rightarrow> (Table \<times> Table) list" where
  "wanted excls userTables ps = filter (\<lambda>(s, d). t_fqn s \<notin> t_fqn ` set excls \<and> go_has userTables (t_fqn s)) ps"

lemma table_with_plain:
  "plain_names t \<Longrightarrow> table_with (t_fqn t) u =
     Inr (t\<lparr>Partition := ts_Partition u, RelTuples := ts_RelTuples u, IsReplicated := ts_IsReplicated u\<rparr>)"
  by (simp add: table_with_def split_name_def t_fqn_def Split_fqn plain_names_def no_dot_def)

lemma pair_map_entries:
  assumes "distinct (map t_fqn srcs)"
  shows "pair_map srcs dests = map (\<lambda>(s, d). (t_fqn s, t_fqn d)) (zip srcs dests)"
proof -
  have "foldl (\<lambda>m (t, d). go_set (t_fqn t) (t_fqn d) m) m (zip srcs dests) = m @ map (\<lambda>(s, d). (t_fqn s, t_fqn d)) (zip srcs dests)"
    if "distinct (go_keys m @ map t_fqn srcs)" for m
    using that
  proof (induction srcs arbitrary: m dests)
    case Nil
    then show ?case by simp
  next
    case (Cons s srcs)
    show ?case
    proof (cases dests)
      case Nil
      then show ?thesis by simp
    next
      case d: (Cons d ds)
      have new: "t_fqn s \<notin> set (go_keys m)" using Cons.prems by auto
      have "distinct (go_keys (m @ [(t_fqn s, t_fqn d)]) @ map t_fqn srcs)" using Cons.prems by auto
      from Cons.IH[OF this, of ds] d show ?thesis by (simp add: go_set_new[OF new])
    qed
  qed
  from this[of "[]"] assms show ?thesis by (simp add: pair_map_def t_fqn_def)
qed

lemma without_excluded_entries:
  "without_excluded excls m = filter (\<lambda>(k, v). k \<notin> t_fqn ` set excls) m"
proof (induction excls arbitrary: m)
  case Nil
  then show ?case by (simp add: without_excluded_def)
next
  case (Cons e excls)
  have "without_excluded (e # excls) m = without_excluded excls (go_delete (t_fqn e) m)"
    by (simp add: without_excluded_def t_fqn_def)
  then show ?case unfolding Cons AList.delete_eq filter_filter by (auto intro: filter_cong)
qed

lemma pair_loop_entries:
  assumes "go_wf m" and "list_all (\<lambda>(s, d). plain_names s \<and> plain_names d) ps" and "m = map (\<lambda>(s, d). (t_fqn s, t_fqn d)) ps"
    and "set qs \<subseteq> set ps"
  shows "pair_loop userTables m (map (t_fqn \<circ> fst) qs) =
    Inr (let rs = filter (\<lambda>(s, d). go_has userTables (t_fqn s)) qs
         in (map (\<lambda>(s, d). with_stats userTables s s) rs, map (\<lambda>(s, d). with_stats userTables s d) rs))"
  using assms(4)
proof (induction qs)
  case Nil
  then show ?case by simp
next
  case (Cons q qs)
  obtain s d where q: "q = (s, d)" by (cases q)
  have "(t_fqn s, t_fqn d) \<in> set m" using Cons.prems assms(3) q by force
  then have get: "go_get m (t_fqn s) = Some (t_fqn d)" using assms(1) by simp
  have pl: "plain_names s" "plain_names d" using Cons.prems assms(2) q by (auto simp: list_all_iff)
  from Cons get pl show ?case
    by (cases "go_get userTables (t_fqn s)") (simp_all add: q go_has_def table_with_plain with_stats_def Let_def)
qed

lemma map_permuted: "mset ks = mset (map f xs) \<Longrightarrow> \<exists>ys. ks = map f ys \<and> mset ys = mset xs"
proof (induction ks arbitrary: xs)
  case Nil
  then show ?case by simp
next
  case (Cons k ks)
  then have "k \<in> set (map f xs)" by (metis list.set_intros(1) set_mset_mset)
  then obtain x where "x \<in> set xs" and k: "k = f x" by auto
  then obtain a b where xs: "xs = a @ x # b" by (metis split_list)
  with Cons.prems k have "mset ks = mset (map f (a @ b))" by simp
  from Cons.IH[OF this] obtain ys where "ks = map f ys" "mset ys = mset (a @ b)" by blast
  with k xs show ?case by (intro exI[of _ "x # ys"]) simp
qed

text \<open>
  Claim C24. With \<open>--dest-table\<close>, the tables that are copied are exactly the pairs asked for: each
  included table that is not excluded and exists on the source, together with the destination
  table given at the same position, and with the statistics of the source table; the two result
  lists stay aligned. The names asked for are distinct and hold no dot, and there are as many
  destination as source tables; otherwise the program stops.
\<close>

theorem excludeTablePair_correct:
  assumes "\<And>ks. mset (rng ks) = mset ks" and "distinct (map t_fqn srcs)"
    and "list_all plain_names srcs" "list_all plain_names dests"
  shows "if length srcs = length dests
    then \<exists>ss ds. excludeTablePair rng srcs dests excls userTables = Inr (ss, ds) \<and> length ss = length ds \<and>
      mset (zip ss ds) = mset (map (\<lambda>(s, d). (with_stats userTables s s, with_stats userTables s d)) (wanted excls userTables (zip srcs dests)))
    else excludeTablePair rng srcs dests excls userTables =
      Inl (Fatal ''The number of include table should be equal to dest table'')"
proof (cases "length srcs = length dests")
  case True
  let ?ps = "filter (\<lambda>(s, d). t_fqn s \<notin> t_fqn ` set excls) (zip srcs dests)"
  let ?m = "map (\<lambda>(s, d). (t_fqn s, t_fqn d)) ?ps"
  have m: "without_excluded excls (pair_map srcs dests) = ?m"
    by (simp add: pair_map_entries[OF assms(2)] without_excluded_entries filter_map o_def split_def)
  have keys: "go_keys ?m = map (t_fqn \<circ> fst) ?ps" by (simp add: split_def)
  have "map (t_fqn \<circ> fst) (zip srcs dests) = map t_fqn srcs" using True by (simp flip: map_map)
  with assms(2) have "distinct (map (t_fqn \<circ> fst) (zip srcs dests))" by simp
  then have "distinct (map (t_fqn \<circ> fst) ?ps)" by (rule distinct_map_filter)
  then have wf: "go_wf ?m" unfolding keys .
  obtain qs where qs: "rng (go_keys ?m) = map (t_fqn \<circ> fst) qs" "mset qs = mset ?ps"
    using map_permuted[of "rng (go_keys ?m)" "t_fqn \<circ> fst" ?ps] assms(1) unfolding keys by blast
  have pl: "list_all (\<lambda>(s, d). plain_names s \<and> plain_names d) ?ps"
    using assms(3,4) by (auto simp: list_all_iff dest: set_zip_leftD set_zip_rightD)
  have sub: "set qs \<subseteq> set ?ps" using qs(2) by (metis set_mset_mset subset_refl)
  let ?rs = "filter (\<lambda>(s, d). go_has userTables (t_fqn s)) qs"
  have res: "excludeTablePair rng srcs dests excls userTables =
      Inr (map (\<lambda>(s, d). with_stats userTables s s) ?rs, map (\<lambda>(s, d). with_stats userTables s d) ?rs)"
    using True pair_loop_entries[OF wf pl refl sub, of userTables]
    unfolding excludeTablePair_def m Let_def qs(1) by simp
  have "mset ?rs = mset (filter (\<lambda>(s, d). go_has userTables (t_fqn s)) ?ps)"
    unfolding mset_filter qs(2) by (rule refl)
  also have "filter (\<lambda>(s, d). go_has userTables (t_fqn s)) ?ps = wanted excls userTables (zip srcs dests)"
    by (simp add: wanted_def conj_commute split_def)
  finally have "mset ?rs = mset (wanted excls userTables (zip srcs dests))" .
  then have "mset (zip (map (\<lambda>(s, d). with_stats userTables s s) ?rs) (map (\<lambda>(s, d). with_stats userTables s d) ?rs)) =
      mset (map (\<lambda>(s, d). (with_stats userTables s s, with_stats userTables s d)) (wanted excls userTables (zip srcs dests)))"
    by (simp add: zip_map_map zip_same_conv_map split_def o_def)
  with True res show ?thesis by auto
next
  case False
  then show ?thesis by (simp add: excludeTablePair_def)
qed

theorem excludeTablePair_correct_witness:
  "\<exists>ss ds. excludeTablePair rev [mkTable ''a'' ''t'', mkTable ''a'' ''u'', mkTable ''a'' ''v''] [mkTable ''b'' ''t1'', mkTable ''b'' ''u1'', mkTable ''b'' ''v1'']
      [mkTable ''a'' ''v''] [(''a.t'', stat0 5), (''a.v'', stat0 7)] = Inr (ss, ds) \<and> length ss = length ds \<and>
    mset (zip ss ds) = {#((mkTable ''a'' ''t'')\<lparr>RelTuples := 5\<rparr>, (mkTable ''b'' ''t1'')\<lparr>RelTuples := 5\<rparr>)#}"
  using excludeTablePair_correct[of rev "[mkTable ''a'' ''t'', mkTable ''a'' ''u'', mkTable ''a'' ''v'']"
      "[mkTable ''b'' ''t1'', mkTable ''b'' ''u1'', mkTable ''b'' ''v1'']" "[mkTable ''a'' ''v'']" "[(''a.t'', stat0 5), (''a.v'', stat0 7)]"]
  by (simp add: mkTable_def t_fqn_def fqn_def plain_names_def no_dot_def with_stats_def stat0_def go_has_def wanted_def)

section \<open>The name of the destination table\<close>

lemma schema_map_some:
  assumes "length (sourceSchemas opt) \<le> length (destSchemas opt)"
  shows "\<exists>m. GetSchemaMap opt = Inr m"
  using assms by (auto simp: GetSchemaMap_def schema_map_ok)

lemma schema_map_values:
  assumes "schema_map vs dests i m0 = Inr m" and "go_get m s = Some d"
  shows "go_get m0 s = Some d \<or> d \<in> ds_Schema ` set dests"
  using assms
proof (induction vs arbitrary: i m0)
  case Nil
  then show ?case by simp
next
  case (Cons v vs)
  then obtain e where e: "go_index dests i = Inr e" "schema_map vs dests (Suc i) (go_set (ds_Schema v) (ds_Schema e) m0) = Inr m"
    by (auto simp: rbind_Inr_iff)
  then have "e \<in> set dests" by (auto simp: go_index_def split: if_splits)
  with Cons.IH[OF e(2) Cons.prems(2)] show ?case by (auto simp: go_map split: if_splits)
qed

text \<open>
  Claim C35. In schema mode with a destination schema for every source schema, the three parts of the
  program that compute the name of a destination table agree: the redirected table that is
  copied to, the name the definition filter of \<open>--skip-existing\<close> looks up, and the name the
  partition map lists. Table and schema names hold no dot and no destination schema is empty.
\<close>

theorem destination_names_agree:
  assumes "copyMode opt = ''schema''" and "destSchemas opt \<noteq> []" and "length (sourceSchemas opt) \<le> length (destSchemas opt)"
    and "list_all (\<lambda>d. ds_Schema d \<noteq> []) (destSchemas opt)" and "plain_names t"
  shows "\<exists>d m. redirectSchemaTables opt [t] = Inr [d] \<and> schema_map_of opt = Inr (Some m) \<and>
    TranslateToDestFQN opt (Schema t) (Name t) = Inr (Schema d, Name d) \<and>
    redirectPartitionTable (Some m) (dest_schema_of opt) (t_fqn t) False = Inr (t_fqn d)"
proof -
  obtain m where m: "GetSchemaMap opt = Inr m" using schema_map_some[OF assms(3)] by blast
  have ne: "go_get m s = Some d \<Longrightarrow> d \<noteq> []" for s d
    using schema_map_values[of "sourceSchemas opt" "destSchemas opt" 0 "[]" m s d] m assms(4)
    by (auto simp: GetSchemaMap_def list_all_iff)
  have "split_name (t_fqn t) = Inr (Schema t, Name t)"
    using assms(5) by (simp add: split_name_def t_fqn_def Split_fqn plain_names_def no_dot_def)
  then show ?thesis using assms(1,2) m ne[of "Schema t"]
    by (auto simp: redirectSchemaTables_def schema_map_of_def TranslateToDestFQN_def redirectPartitionTable_def
        dest_schema_of_def t_fqn_def split: option.splits)
qed

theorem destination_names_agree_witness:
  "\<exists>d m. redirectSchemaTables demo_opt [mkTable ''s2'' ''t''] = Inr [d] \<and> schema_map_of demo_opt = Inr (Some m) \<and>
    TranslateToDestFQN demo_opt ''s2'' ''t'' = Inr (Schema d, Name d) \<and>
    redirectPartitionTable (Some m) (dest_schema_of demo_opt) (t_fqn (mkTable ''s2'' ''t'')) False = Inr (t_fqn d)"
  using destination_names_agree[of demo_opt "mkTable ''s2'' ''t''"]
  by (simp add: demo_opt_def mkTable_def plain_names_def no_dot_def)

lemma root_skips_panics:
  assumes "GetSchemaMap opt = Inl e" and "\<exists>t \<in> set ts. is_root_level t"
  shows "root_skips env opt ts m = Inl e"
  using assms(2)
proof (induction ts arbitrary: m)
  case Nil
  then show ?case by simp
next
  case (Cons t ts)
  with assms(1) show ?case by (auto simp: on_dest_def TranslateToDestFQN_def)
qed

text \<open>
  With \<open>--schema\<close> and no \<open>--dest-schema\<close>, \<open>--skip-existing\<close> ends in a panic as soon as there is
  a table that is no partition: the definition filter asks for the destination name without
  looking whether there are destination schemas, and the table of schemas is read out of range.
\<close>

theorem skip_existing_without_dest_schema_panics:
  assumes "MustGetFlagBool (se_flags env) ''skip-existing'' = Inr True" and "runtimeOption env = Some opt"
    and "sourceSchemas opt \<noteq> []" and "destSchemas opt = []" and "filter is_root_level tables \<noteq> []"
  shows "FilterTablesByDestExisting env tables = Inl index_panic"
proof -
  have panic: "GetSchemaMap opt = Inl index_panic" using assms(3,4) by (simp add: GetSchemaMap_def schema_map_ok)
  have root: "\<exists>t \<in> set tables. is_root_level t" using assms(5) by (auto simp: filter_empty_conv)
  from root_skips_panics[OF panic root] assms(1,2) show ?thesis by (simp add: FilterTablesByDestExisting_def)
qed

theorem skip_existing_without_dest_schema_panics_witness:
  "FilterTablesByDestExisting (demo_skip_env\<lparr>runtimeOption := Some (demo_skip_opt\<lparr>destSchemas := []\<rparr>)\<rparr>) demo_rels = Inl index_panic"
  by (rule skip_existing_without_dest_schema_panics[where opt = "demo_skip_opt\<lparr>destSchemas := []\<rparr>"])
    (simp_all add: demo_skip MustGet_defs is_root_level_def)

text \<open>
  Claim C39. With \<open>--include-table\<close> and \<open>--dest-schema\<close> the two filters of \<open>--skip-existing\<close> look at
  different names: the pair filter at the table in the destination schema, the definition filter
  at the table in the source schema, since no source schema is mapped. So a table whose name
  exists on the destination in the source schema, but not in the destination schema, loses its
  definition while its data is still copied.
\<close>

theorem skip_existing_include_table_mismatch:
  assumes "MustGetFlagBool (se_flags env) ''skip-existing'' = Inr True" and "runtimeOption env = Some opt"
    and "sourceSchemas opt = []" and "destSchemas opt = e # es"
    and "t_Schema t = Schema s" "t_Name t = Name s" "is_root_level t"
    and "IsDestTableExisting opt (destDbName env) (Schema s) (Name s)"
    and "\<not> IsDestTableExisting opt (destDbName env) (ds_Schema e) (Name s)"
  shows "\<exists>skipped. FilterTablesByDestExisting env [t] = Inr ([], skipped) \<and>
    filterTablePairsByDestExisting opt [] db (destDbName env) [s] (redirectIncludeTables opt [s]) [] before =
      Inr ([s], [s\<lparr>Schema := ds_Schema e\<rparr>], before)"
proof -
  have tr: "TranslateToDestFQN opt a b = Inr (a, b)" for a b
    using assms(3) by (simp add: TranslateToDestFQN_def GetSchemaMap_def)
  have "FilterTablesByDestExisting env [t] = Inr ([], [skip_record env t (Schema s) (Name s) SkipReasonExists])"
    using assms by (simp add: FilterTablesByDestExisting_def on_dest_def tr filter_table_def)
  moreover have "redirectIncludeTables opt [s] = [s\<lparr>Schema := ds_Schema e\<rparr>]"
    using assms(4) by (simp add: redirectIncludeTables_def)
  ultimately show ?thesis using assms(9)
    by (simp add: filterTablePairsByDestExisting_def skip_pair_def leaf_to_root_def)
qed

theorem skip_existing_include_table_mismatch_witness:
  "\<exists>skipped. FilterTablesByDestExisting (demo_skip_env\<lparr>runtimeOption := Some (demo_skip_opt\<lparr>sourceSchemas := [], destDbInventory := [(''db'', [(''s1.old'', ())])]\<rparr>)\<rparr>)
      [demo_rel ''old'' [] []] = Inr ([], skipped) \<and>
    filterTablePairsByDestExisting (demo_skip_opt\<lparr>sourceSchemas := [], destDbInventory := [(''db'', [(''s1.old'', ())])]\<rparr>) [] ''db'' ''db''
      [mkTable ''s1'' ''old''] [mkTable ''d1'' ''old''] [] [] = Inr ([mkTable ''s1'' ''old''], [mkTable ''d1'' ''old''], [])"
  using skip_existing_include_table_mismatch[of
      "demo_skip_env\<lparr>runtimeOption := Some (demo_skip_opt\<lparr>sourceSchemas := [], destDbInventory := [(''db'', [(''s1.old'', ())])]\<rparr>)\<rparr>"
      "demo_skip_opt\<lparr>sourceSchemas := [], destDbInventory := [(''db'', [(''s1.old'', ())])]\<rparr>"
      "\<lparr>ds_Database = ''b'', ds_Schema = ''d1''\<rparr>" "[\<lparr>ds_Database = ''b'', ds_Schema = ''d2''\<rparr>]"
      "demo_rel ''old'' [] []" "mkTable ''s1'' ''old''" "''db''" "[]"]
  by (simp add: demo_skip MustGet_defs is_root_level_def mkTable_def IsDestTableExisting_def in_inventory_def go_has_def
      fqn_def redirectIncludeTables_def)

end
