(* ===== verification/Validator.thy ===== *)
theory Validator
  imports QueryWrapper
begin

text \<open>
  The checks of the command line, \<open>src/copy/copy_validator.go\<close>. A \<open>ValidationError\<close> is the error with
  its message; the flag set and the content of the table files are parameters. Shown here: what
  flags that pass the checks guarantee: the option made from them never gives destination tables
  without a matching list of included tables, and its schema map is read out of range exactly
  when there are source schemas without destination schemas.
\<close>

section \<open>The validators\<close>

fun duplicated :: "string list \<Rightarrow> (string, bool) gomap \<Rightarrow> bool" where
  "duplicated [] elemsMap = False"
| "duplicated (v # vs) elemsMap = (if \<not> go_has elemsMap v then duplicated vs (go_set v True elemsMap) else True)"

definition ArrayIsDuplicated :: "string list \<Rightarrow> bool" where
  "ArrayIsDuplicated elems = duplicated elems []"

definition quoted :: "string \<Rightarrow> string" where
  "quoted s = [DQ] @ s @ [DQ]"

definition first_excluded :: "string list \<Rightarrow> string option" where
  "first_excluded dbs = List.find (\<lambda>d. d \<in> set excludedDb) dbs"

definition given_tables :: "flagset \<Rightarrow> bool res" where
  "given_tables fl =
     rbind (MustGetFlagStringSlice fl ''include-table'') (\<lambda>tables.
       if length tables = 0 then rbind (MustGetFlagString fl ''include-table-file'') (\<lambda>file. Inr (length file \<noteq> 0))
       else Inr True)"

text \<open>\<open>dest\<close> needs a source option or included tables; \<open>flag\<close> and \<open>others\<close> make the message.\<close>

definition needs_source :: "flagset \<Rightarrow> nat \<Rightarrow> nat \<Rightarrow> string \<Rightarrow> unit res" where
  "needs_source fl destNum srcNum message =
     (if destNum > 0 \<and> srcNum = 0
      then rbind (given_tables fl) (\<lambda>given. if given then Inr () else Inl (Error message))
      else Inr ())"

definition only_one_with_file :: "flagset \<Rightarrow> nat \<Rightarrow> string \<Rightarrow> unit res" where
  "only_one_with_file fl destNum message =
     rbind (MustGetFlagString fl ''include-table-file'') (\<lambda>file.
       if length file > 0 \<and> destNum > 1 then Inl (Error message) else Inr ())"

definition validateDatabase :: "flagset \<Rightarrow> unit res" where
  "validateDatabase fl =
     rbind (MustGetFlagStringSlice fl ''dbname'') (\<lambda>srcDbs.
     rbind (MustGetFlagStringSlice fl ''dest-dbname'') (\<lambda>destDbs.
     let srcNum = length srcDbs; destNum = length destDbs in
     rbind (needs_source fl destNum srcNum
       (''Option[s] '' @ quoted ''dest-dbname'' @ '' only supports with option '' @ quoted ''dbname'' @ '' or '' @
        quoted ''include-table'' @ '' or '' @ quoted ''include-table-file'')) (\<lambda>_.
     if destNum > 0 \<and> srcNum > 0 \<and> destNum \<noteq> srcNum then
       Inl (Error (''The number of databases specified by '' @ quoted ''dbname'' @ '' should be equal to that specified by '' @ quoted ''dest-dbname''))
     else if ArrayIsDuplicated srcDbs then Inl (Error (''Option '' @ quoted ''dbname'' @ '' has duplicated items''))
     else if ArrayIsDuplicated destDbs then Inl (Error (''Option '' @ quoted ''dest-dbname'' @ '' has duplicated items''))
     else rbind (only_one_with_file fl destNum
       (''Only support one database in '' @ quoted ''dest-dbname'' @ '' option when include-table-file is enable'')) (\<lambda>_.
     case first_excluded srcDbs of
       Some db \<Rightarrow> Inl (Error (''Cannot copy from '' @ quoted db @ '' database''))
     | None \<Rightarrow> (case first_excluded destDbs of
         Some db \<Rightarrow> Inl (Error (''Cannot copy to '' @ quoted db @ '' database''))
       | None \<Rightarrow> Inr ())))))"

definition validateSchema :: "flagset \<Rightarrow> unit res" where
  "validateSchema fl =
     rbind (MustGetFlagStringSlice fl ''schema'') (\<lambda>schemas.
     rbind (MustGetFlagStringSlice fl ''dest-schema'') (\<lambda>dests.
     let srcNum = length schemas; destNum = length dests in
     rbind (needs_source fl destNum srcNum
       (''Option[s] '' @ quoted ''dest-schema'' @ '' only supports with option '' @ quoted ''schema'' @ '' or '' @
        quoted ''include-table'' @ '' or '' @ quoted ''include-table-file'')) (\<lambda>_.
     if destNum > 0 \<and> srcNum > 0 \<and> destNum \<noteq> srcNum then
       Inl (Error (''The number of schemas specified by '' @ quoted ''schema'' @ '' should be equal to that specified by '' @ quoted ''dest-schema''))
     else if ArrayIsDuplicated schemas then Inl (Error (''Option '' @ quoted ''schema'' @ '' has duplicated items''))
     else if ArrayIsDuplicated dests then Inl (Error (''Option '' @ quoted ''dest-schema'' @ '' has duplicated items''))
     else only_one_with_file fl destNum
       (''Only support one schema in '' @ quoted ''dest-schema'' @ '' option when include-table-file is enable''))))"

definition validateTableCombination :: "string \<Rightarrow> string \<Rightarrow> string list \<Rightarrow> string list \<Rightarrow> unit res" where
  "validateTableCombination optSrcName optDestName srcTables dests =
     (let srcNum = length srcTables; destNum = length dests
      in if destNum > 0 \<and> srcNum = 0 then
           Inl (Error (''Option[s] '' @ quoted (''--'' @ optDestName) @ '' option only supports with option '' @ quoted (''--'' @ optSrcName)))
         else if destNum > 0 \<and> srcNum > 0 \<and> destNum \<noteq> srcNum then
           Inl (Error (''The number of table specified by '' @ quoted (''--'' @ optSrcName) @ '' should be equal to that specified by '' @ quoted (''--'' @ optDestName)))
         else if ArrayIsDuplicated dests then Inl (Error (''Option '' @ quoted optDestName @ '' has duplicated items''))
         else if ArrayIsDuplicated srcTables then Inl (Error (''Option '' @ quoted optSrcName @ '' has duplicated items''))
         else Inr ())"

definition read_file :: "(string \<Rightarrow> string res) \<Rightarrow> string \<Rightarrow> string list res" where
  "read_file open_file name = wrap_error (''failed to read file '' @ quoted name @ '': '') (ReadTableFile open_file name)"

definition validateTable :: "(string \<Rightarrow> string res) \<Rightarrow> flagset \<Rightarrow> unit res" where
  "validateTable open_file fl =
     rbind (MustGetFlagStringSlice fl ''include-table'') (\<lambda>include.
     rbind (MustGetFlagStringSlice fl ''dest-table'') (\<lambda>dests.
     rbind (validateTableCombination ''include-table'' ''dest-table'' include dests) (\<lambda>_.
     rbind (MustGetFlagString fl ''dest-table-file'') (\<lambda>destFile.
       if length destFile > 0 then
         rbind (MustGetFlagString fl ''include-table-file'') (\<lambda>includeFile.
           if length includeFile = 0 then
             Inl (Error (''Option[s] '' @ quoted ''--dest-table-file'' @ '' only supports with option '' @ quoted ''--include-table-file''))
           else
             rbind (read_file open_file includeFile) (\<lambda>srcTables.
             rbind (read_file open_file destFile) (\<lambda>destTabs.
               validateTableCombination ''include-table-file'' ''dest-table-file'' srcTables destTabs)))
       else Inr ()))))"

text \<open>\<open>&&\<close> over conditions that read flags: the first false one ends it.\<close>

fun all_of :: "bool res list \<Rightarrow> bool res" where
  "all_of [] = Inr True"
| "all_of (c # cs) = rbind c (\<lambda>b. if b then all_of cs else Inr False)"

definition is_off :: "flagset \<Rightarrow> string \<Rightarrow> bool res" where
  "is_off fl n = rbind (MustGetFlagBool fl n) (\<lambda>b. Inr (\<not> b))"

definition is_empty_slice :: "flagset \<Rightarrow> string \<Rightarrow> bool res" where
  "is_empty_slice fl n = rbind (MustGetFlagStringSlice fl n) (\<lambda>l. Inr (length l = 0))"

definition is_empty_string :: "flagset \<Rightarrow> string \<Rightarrow> bool res" where
  "is_empty_string fl n = rbind (MustGetFlagString fl n) (\<lambda>s. Inr (length s = 0))"

definition validateCopyMode :: "flagset \<Rightarrow> unit res" where
  "validateCopyMode fl =
     rbind (all_of [is_off fl ''full'', is_off fl ''global-metadata-only'', is_empty_slice fl ''schema'', is_empty_slice fl ''dbname'',
         is_empty_slice fl ''include-table'', is_empty_string fl ''include-table-file'', is_empty_string fl ''schema-mapping-file'']) (\<lambda>none.
       if none then Inl (Error (''One and only one of the following flags must be specified: full, dbname, schema, include-table, '' @
         ''include-table-file, global-metadata-only, schema-mapping-file''))
       else Inr ())"

definition validateTableMode :: "flagset \<Rightarrow> unit res" where
  "validateTableMode fl =
     rbind (all_of [is_off fl ''metadata-only'', is_off fl ''global-metadata-only'']) (\<lambda>with_data.
       if \<not> with_data then Inr ()
       else rbind (MustGetFlagBool fl ''truncate'') (\<lambda>t. rbind (MustGetFlagBool fl ''append'') (\<lambda>a.
            rbind (MustGetFlagBool fl ''skip-existing'') (\<lambda>s.
              if length (filter id [t, a, s]) \<noteq> 1
              then Inl (Error ''One and only one of the following flags must be specified: --truncate, --append, --skip-existing'')
              else Inr ()))))"

definition mode_Validate :: "flagset \<Rightarrow> unit res" where
  "mode_Validate fl = rbind (validateCopyMode fl) (\<lambda>_. validateTableMode fl)"

definition validateOwnerMappingFile :: "flagset \<Rightarrow> unit res" where
  "validateOwnerMappingFile fl =
     rbind (MustGetFlagString fl ''owner-mapping-file'') (\<lambda>file.
       if length file > 0 then
         rbind (MustGetFlagStringSlice fl ''dbname'') (\<lambda>dbs. rbind (MustGetFlagStringSlice fl ''schema'') (\<lambda>schemas.
         rbind (MustGetFlagString fl ''include-table-file'') (\<lambda>tabFile. rbind (MustGetFlagString fl ''schema-mapping-file'') (\<lambda>mapFile.
           if length dbs = 0 \<and> length schemas = 0 \<and> length tabFile = 0 \<and> length mapFile = 0 then
             Inl (Error (''Option[s] '' @ [DQ] @ ''--owner-mapping-file'' @ [DQ] @ '' only supports with option '' @ [DQ] @
               ''--dbname or --schema or --include-table-file or --schema-mapping-file'' @ [DQ]))
           else Inr ()))))
       else Inr ())"

definition validateDataPortRange :: "flagset \<Rightarrow> unit res" where
  "validateDataPortRange fl =
     rbind (MustGetFlagString fl ''data-port-range'') (\<lambda>dataPortRange.
       case Split CHR ''-'' dataPortRange of
         [a, b] \<Rightarrow>
           (case Atoi a of (first, ok1) \<Rightarrow>
              if \<not> ok1 then Inl (Error (''invalid integer format, '' @ Itoa first))
              else (case Atoi b of (second, ok2) \<Rightarrow>
                if \<not> ok2 then Inl (Error (''invalid integer format, '' @ Itoa second)) else Inr ()))
       | _ \<Rightarrow> Inl (Error ''invalid dash format''))"

definition exclusiveGroups :: "string list list" where
  "exclusiveGroups =
    [[''debug'', ''quiet''],
     [''full'', ''dbname'', ''schema'', ''include-table'', ''include-table-file'', ''global-metadata-only'', ''schema-mapping-file''],
     [''metadata-only'', ''global-metadata-only'', ''truncate'', ''append''],
     [''copy-jobs'', ''metadata-only'', ''global-metadata-only''],
     [''metadata-only'', ''global-metadata-only'', ''dest-table'', ''dest-table-file''],
     [''exclude-table'', ''exclude-table-file''],
     [''dest-table'', ''dest-table-file''],
     [''include-table'', ''include-table-file''],
     [''full'', ''with-global-metadata''],
     [''metadata-only'', ''global-metadata-only'', ''data-only''],
     [''data-only'', ''with-global-metadata'', ''global-metadata-only''],
     [''data-only'', ''metadata-jobs'', ''global-metadata-only''],
     [''dest-table'', ''dest-table-file'', ''metadata-jobs'', ''global-metadata-only''],
     [''dest-table'', ''dest-table-file'', ''with-global-metadata'', ''global-metadata-only''],
     [''metadata-only'', ''global-metadata-only''],
     [''include-table-file'', ''dest-table''],
     [''dest-dbname'', ''dest-schema''],
     [''metadata-only'', ''global-metadata-only'', ''data-only''],
     [''truncate'', ''append''],
     [''metadata-only'', ''global-metadata-only''],
     [''global-metadata-only'', ''exclude-table-file''],
     [''global-metadata-only'', ''on-segment-threshold'', ''metadata-only''],
     [''dest-table-file'', ''dest-dbname'', ''dest-schema'', ''schema-mapping-file''],
     [''owner-mapping-file'', ''data-only''],
     [''dest-tablespace'', ''data-only'', ''global-metadata-only''],
     [''dest-tablespace'', ''dest-table'', ''dest-table-file''],
     [''tablespace-mapping-file'', ''dest-tablespace''],
     [''tablespace-mapping-file'', ''data-only'', ''global-metadata-only''],
     [''tablespace-mapping-file'', ''dest-table'', ''dest-table-file'']]"

definition validateExclusiveFlags :: "flagset \<Rightarrow> string list \<Rightarrow> unit res" where
  "validateExclusiveFlags fl flagNames =
     (let setFlags = filter (Changed fl) flagNames
      in if length setFlags > 1
         then Inl (Error (''The following flags may not be specified together: '' @ Join setFlags '', '')) else Inr ())"

fun check_all :: "('a \<Rightarrow> unit res) \<Rightarrow> 'a list \<Rightarrow> unit res" where
  "check_all f [] = Inr ()"
| "check_all f (x # xs) = rbind (f x) (\<lambda>_. check_all f xs)"

definition combination_Validate :: "flagset \<Rightarrow> unit res" where
  "combination_Validate fl = check_all (validateExclusiveFlags fl) exclusiveGroups"

definition validateConnectionMode :: "flagset \<Rightarrow> unit res" where
  "validateConnectionMode fl =
     rbind (MustGetFlagString fl ''connection-mode'') (\<lambda>mode.
       if mode \<noteq> ''push'' \<and> mode \<noteq> ''pull'' then
         Inl (Error (''Invalid connection mode '' @ [SQ] @ mode @ [SQ] @ ''. Must be either '' @ [SQ] @ ''push'' @ [SQ] @ '' or '' @ [SQ] @ ''pull'' @ [SQ]))
       else Inr ())"

definition validateCompressType :: "flagset \<Rightarrow> unit res" where
  "validateCompressType fl =
     rbind (MustGetFlagString fl ''compress-type'') (\<lambda>t.
       if t \<noteq> ''gzip'' \<and> t \<noteq> ''snappy'' \<and> t \<noteq> ''zstd'' then
         Inl (Error (''Invalid compression type '' @ [SQ] @ t @ [SQ] @ ''. Must be one of: '' @ [SQ] @ ''gzip'' @ [SQ] @ '', '' @ [SQ] @ ''snappy'' @
           [SQ] @ '', or '' @ [SQ] @ ''zstd'' @ [SQ]))
       else Inr ())"

definition ValidateAll :: "(string \<Rightarrow> string res) \<Rightarrow> flagset \<Rightarrow> unit res" where
  "ValidateAll open_file fl =
     check_all id [validateDatabase fl, validateSchema fl, validateTable open_file fl, mode_Validate fl, validateDataPortRange fl,
       combination_Validate fl, validateOwnerMappingFile fl, validateConnectionMode fl, validateCompressType fl]"

section \<open>What accepted flags guarantee\<close>

lemma check_all_ok: "check_all f xs = Inr () \<longleftrightarrow> list_all (\<lambda>x. f x = Inr ()) xs"
  by (induction xs) (auto simp: rbind_Inr_iff)

lemma duplicated_iff: "duplicated vs m \<longleftrightarrow> \<not> distinct vs \<or> (\<exists>v \<in> set vs. go_has m v)"
  by (induction vs arbitrary: m) auto

lemma ArrayIsDuplicated_iff [simp]: "ArrayIsDuplicated vs \<longleftrightarrow> \<not> distinct vs"
  by (simp add: ArrayIsDuplicated_def duplicated_iff)

lemma ValidateAll_ok:
  "ValidateAll open_file fl = Inr () \<longleftrightarrow>
     validateDatabase fl = Inr () \<and> validateSchema fl = Inr () \<and> validateTable open_file fl = Inr () \<and> mode_Validate fl = Inr () \<and>
     validateDataPortRange fl = Inr () \<and> combination_Validate fl = Inr () \<and> validateOwnerMappingFile fl = Inr () \<and>
     validateConnectionMode fl = Inr () \<and> validateCompressType fl = Inr ()"
  unfolding ValidateAll_def check_all_ok by simp

lemma exclusive_groups_ok:
  "combination_Validate fl = Inr () \<Longrightarrow> g \<in> set exclusiveGroups \<Longrightarrow> length (filter (Changed fl) g) \<le> 1"
  unfolding combination_Validate_def check_all_ok
  by (auto simp: list_all_iff validateExclusiveFlags_def Let_def split: if_splits)

lemma combination_ok:
  "validateTableCombination a b srcs dests = Inr () \<Longrightarrow> dests \<noteq> [] \<Longrightarrow> length srcs = length dests"
  by (auto simp: validateTableCombination_def Let_def split: if_splits)

lemma FatalOnError_Inr_iff [simp]: "FatalOnError r = Inr x \<longleftrightarrow> r = Inr x"
  by (cases r) (auto simp: FatalOnError_def split: goerr.splits)

lemma wrap_error_Inr_iff [simp]: "wrap_error p r = Inr x \<longleftrightarrow> r = Inr x"
  by (cases r) (auto simp: wrap_error_def split: goerr.splits)

text \<open>
  What \<open>pflag\<close> documents of a flag that was not given: it has its default value, which is empty for
  the flags of the tables and false for \<open>--metadata-only\<close> (\<open>copy.go\<close>, \<open>SetFlagDefaults\<close>).
\<close>

definition unset_is_empty :: "flagset \<Rightarrow> bool" where
  "unset_is_empty fl \<longleftrightarrow>
     (\<not> Changed fl ''include-table'' \<longrightarrow> GetStringSlice fl ''include-table'' = Inr []) \<and>
     (\<not> Changed fl ''include-table-file'' \<longrightarrow> GetString fl ''include-table-file'' = Inr []) \<and>
     (\<not> Changed fl ''dest-table'' \<longrightarrow> GetStringSlice fl ''dest-table'' = Inr []) \<and>
     (\<not> Changed fl ''dest-table-file'' \<longrightarrow> GetString fl ''dest-table-file'' = Inr []) \<and>
     (\<not> Changed fl ''metadata-only'' \<longrightarrow> GetBool fl ''metadata-only'' = Inr False)"

lemma getTables_dest:
  assumes "getTables open_file fl t f = Inr r" and "r \<noteq> []"
  shows "\<exists>ts. GetStringSlice fl t = Inr ts \<and> (ts \<noteq> [] \<and> length r = length ts \<or>
    ts = [] \<and> (\<exists>file ls. GetString fl f = Inr file \<and> file \<noteq> [] \<and> ReadTableFile open_file file = Inr ls \<and> length r = length ls))"
  using assms
  by (auto simp: getTables_def rbind_Inr_iff validateTables_def ReadTableFileByFlag_def go_lines_def
      dest!: parse_tables_facts split: if_splits)


lemma ReadTableFile_given:
  assumes "getTables open_file fl ''include-table'' ''include-table-file'' = Inr r" and "GetStringSlice fl ''include-table'' = Inr []"
    and "GetString fl ''include-table-file'' = Inr file" "file \<noteq> []" "ReadTableFile open_file file = Inr ls"
  shows "length r = length ls"
  using assms
  by (auto simp: getTables_def rbind_Inr_iff validateTables_def ReadTableFileByFlag_def go_lines_def
      dest!: parse_tables_facts split: if_splits)

lemma dest_tables_paired:
  assumes ok: "validateTable open_file fl = Inr ()" "combination_Validate fl = Inr ()" and fl: "unset_is_empty fl"
    and dest: "getTables open_file fl ''dest-table'' ''dest-table-file'' = Inr dests" "dests \<noteq> []"
    and incl: "getTables open_file fl ''include-table'' ''include-table-file'' = Inr include"
  shows "length include = length dests"
proof -
  obtain ts where ts: "GetStringSlice fl ''dest-table'' = Inr ts" and c: "ts \<noteq> [] \<and> length dests = length ts \<or>
      ts = [] \<and> (\<exists>file ls. GetString fl ''dest-table-file'' = Inr file \<and> file \<noteq> [] \<and> ReadTableFile open_file file = Inr ls \<and> length dests = length ls)"
    using getTables_dest[OF dest] by blast
  obtain inc where inc: "GetStringSlice fl ''include-table'' = Inr inc"
      "validateTableCombination ''include-table'' ''dest-table'' inc ts = Inr ()"
    using ok(1) ts by (auto simp: validateTable_def rbind_Inr_iff MustGet_defs)
  from c show ?thesis
  proof (elim disjE conjE exE)
    assume "ts \<noteq> []" "length dests = length ts"
    moreover from this have "length inc = length ts" using combination_ok inc(2) by blast
    ultimately show ?thesis using incl inc(1)
      by (auto simp: getTables_def validateTables_def rbind_Inr_iff dest!: parse_tables_facts split: if_splits)
  next
    fix dfile ls
    assume df: "GetString fl ''dest-table-file'' = Inr dfile" "dfile \<noteq> []" "ReadTableFile open_file dfile = Inr ls" "length dests = length ls"
    with ok(1) obtain ifile srcs where i: "GetString fl ''include-table-file'' = Inr ifile" "ifile \<noteq> []" "ReadTableFile open_file ifile = Inr srcs"
        "validateTableCombination ''include-table-file'' ''dest-table-file'' srcs ls = Inr ()"
      by (auto simp: validateTable_def rbind_Inr_iff MustGet_defs read_file_def split: if_splits)
    have "ls \<noteq> []" using df(4) dest(2) by auto
    with i(4) have "length srcs = length ls" by (rule combination_ok)
    moreover have "Changed fl ''include-table-file''" using fl i(1,2) by (auto simp: unset_is_empty_def)
    with exclusive_groups_ok[OF ok(2), of "[''include-table'', ''include-table-file'']"] have "\<not> Changed fl ''include-table''"
      by (auto simp: exclusiveGroups_def split: if_splits)
    with fl have "GetStringSlice fl ''include-table'' = Inr []" by (simp add: unset_is_empty_def)
    from ReadTableFile_given[OF incl this i(1-3)] have "length include = length srcs" .
    ultimately show ?thesis using df(4) by simp
  qed
qed

lemma parse_schemas_length: "parse_schemas ss = Inr r \<Longrightarrow> length r = length ss"
  by (induction ss arbitrary: r) (auto simp: rbind_Inr_iff split: list.splits)

lemma validateSchemas_length: "validateSchemas ss = Inr r \<Longrightarrow> length r = length ss"
  by (auto simp: validateSchemas_def rbind_Inr_iff dest: parse_schemas_length split: if_splits)

lemma ParseSchemaMappingLines_length: "ParseSchemaMappingLines ls = Inr (ss, ds) \<Longrightarrow> length ss = length ds"
  by (induction ls arbitrary: ss ds) (auto simp: rbind_Inr_iff split: list.splits if_splits)

lemma schemas_paired:
  assumes "validateSchema fl = Inr ()" and "getSchemas open_file fl mode = Inr (source, dest, mode')" and "dest \<noteq> []"
  shows "length source \<le> length dest"
proof -
  obtain ss ds where f: "GetStringSlice fl ''schema'' = Inr ss" "GetStringSlice fl ''dest-schema'' = Inr ds"
      "ds = [] \<or> ss = [] \<or> length ds = length ss"
    using assms(1) by (auto simp: validateSchema_def rbind_Inr_iff MustGet_defs Let_def split: if_splits)
  from assms(2,3) f show ?thesis
    by (auto simp: getSchemas_def rbind_Inr_iff Let_def ParseSchemaMappingFile_def
        dest!: validateSchemas_length ParseSchemaMappingLines_length split: if_splits)
qed


lemma NewOption_parts:
  assumes "NewOption open_file fl = Inr opt"
  shows "\<exists>mode. getSchemas open_file fl (if GetStringSlice fl ''dbname'' = Inr [] then ''full'' else ''db'') =
      Inr (sourceSchemas opt, destSchemas opt, mode) \<and>
    copyMode opt = (if includedTables opt \<noteq> [] then ''table'' else mode) \<and>
    getTables open_file fl ''include-table'' ''include-table-file'' = Inr (includedTables opt) \<and>
    getTables open_file fl ''dest-table'' ''dest-table-file'' = Inr (destTables opt)"
  using assms by (auto simp: NewOption_def rbind_Inr_iff Let_def split: if_splits)

lemma getSchemas_mode:
  "getSchemas open_file fl mode = Inr (s, d, mode') \<Longrightarrow> mode' = mode \<or> mode' = ''schema''"
  by (auto simp: getSchemas_def rbind_Inr_iff Let_def split: if_splits)

lemma NewOption_mode:
  "NewOption open_file fl = Inr opt \<Longrightarrow> copyMode opt \<in> {''full'', ''db'', ''schema'', ''table''}"
  by (auto dest!: NewOption_parts getSchemas_mode split: if_splits)

lemma validated_dest_tables:
  assumes "ValidateAll open_file fl = Inr ()" and "unset_is_empty fl" and "NewOption open_file fl = Inr opt" and "destTables opt \<noteq> []"
  shows "copyMode opt = ''table'' \<and> length (includedTables opt) = length (destTables opt)"
proof -
  have "length (includedTables opt) = length (destTables opt)"
    using dest_tables_paired[of open_file fl "destTables opt" "includedTables opt"] NewOption_parts[OF assms(3)] assms(1,2,4)
    by (auto simp: ValidateAll_ok)
  with NewOption_parts[OF assms(3)] assms(4) show ?thesis by auto
qed

text \<open>Destination tables and \<open>--metadata-only\<close> are exclusive.\<close>

lemma validated_metadata_only:
  assumes "ValidateAll open_file fl = Inr ()" and "unset_is_empty fl" and "NewOption open_file fl = Inr opt" and "destTables opt \<noteq> []"
  shows "MustGetFlagBool fl ''metadata-only'' = Inr False"
proof -
  have "getTables open_file fl ''dest-table'' ''dest-table-file'' = Inr (destTables opt)" using NewOption_parts[OF assms(3)] by blast
  from getTables_dest[OF this assms(4)] assms(2) have "Changed fl ''dest-table'' \<or> Changed fl ''dest-table-file''"
    by (auto simp: unset_is_empty_def)
  moreover have "length (filter (Changed fl) [''metadata-only'', ''global-metadata-only'', ''dest-table'', ''dest-table-file'']) \<le> 1"
    by (rule exclusive_groups_ok) (use assms(1) in \<open>simp_all add: ValidateAll_ok exclusiveGroups_def\<close>)
  ultimately have "\<not> Changed fl ''metadata-only''" by (auto split: if_splits)
  with assms(2) show ?thesis by (simp add: unset_is_empty_def MustGet_defs)
qed

lemma validated_schema_map:
  assumes "validateSchema fl = Inr ()" and "NewOption open_file fl = Inr opt"
  shows "(\<exists>m. GetSchemaMap opt = Inr m) \<longleftrightarrow> destSchemas opt \<noteq> [] \<or> sourceSchemas opt = []"
proof (cases "destSchemas opt = []")
  case True
  then show ?thesis by (cases "sourceSchemas opt") (simp_all add: GetSchemaMap_def)
next
  case False
  then show ?thesis using schemas_paired[OF assms(1)] NewOption_parts[OF assms(2)] schema_map_some by blast
qed

text \<open>
  Claim C28. Flags that pass all validators give a consistent option: it has one of the four copy
  modes, destination tables come only in table mode and pair up with the included tables, and the
  schema map is built without a panic exactly when there are destination schemas or no source
  schemas at all. The validators do accept source schemas without destination schemas, and for
  these \<open>GetSchemaMap\<close> indexes an empty list.
\<close>

theorem validated_option_consistent:
  assumes "ValidateAll open_file fl = Inr ()" and "unset_is_empty fl" and "NewOption open_file fl = Inr opt"
  shows "(destTables opt = [] \<or> copyMode opt = ''table'' \<and> length (includedTables opt) = length (destTables opt)) \<and>
    ((\<exists>m. GetSchemaMap opt = Inr m) \<longleftrightarrow> destSchemas opt \<noteq> [] \<or> sourceSchemas opt = []) \<and>
    copyMode opt \<in> {''full'', ''db'', ''schema'', ''table''}"
proof -
  have "validateSchema fl = Inr ()" using assms(1) by (simp add: ValidateAll_ok)
  from validated_schema_map[OF this assms(3)] validated_dest_tables[OF assms] NewOption_mode[OF assms(3)]
  show ?thesis by auto
qed

definition demo_valid_flags :: flagset where
  "demo_valid_flags =
     \<lparr>GetString = (\<lambda>n. Inr (if n = ''connection-mode'' then ''push'' else if n = ''compress-type'' then ''zstd''
          else if n = ''data-port-range'' then ''5-9'' else [])),
      GetInt = (\<lambda>_. Inr 4), GetBool = (\<lambda>n. Inr (n = ''truncate'')),
      GetStringSlice = (\<lambda>n. Inr (if n = ''include-table'' then [''db.s.t'', ''db.s.u''] else if n = ''dest-table'' then [''db.d.t'', ''db.d.u''] else [])),
      Changed = (\<lambda>n. n \<in> {''include-table'', ''dest-table'', ''truncate''})\<rparr>"

lemma demo_valid: "ValidateAll (\<lambda>_. Inr []) demo_valid_flags = Inr ()"
  by code_simp

lemma demo_valid_option:
  "\<exists>opt. NewOption (\<lambda>_. Inr []) demo_valid_flags = Inr opt \<and> length (destTables opt) = 2"
proof -
  have "\<not> isl (NewOption (\<lambda>_. Inr []) demo_valid_flags)" "length (destTables (projr (NewOption (\<lambda>_. Inr []) demo_valid_flags))) = 2"
    by code_simp+
  then show ?thesis by (cases "NewOption (\<lambda>_. Inr []) demo_valid_flags") auto
qed

theorem validated_option_consistent_witness:
  "\<exists>opt. NewOption (\<lambda>_. Inr []) demo_valid_flags = Inr opt \<and> copyMode opt = ''table'' \<and> length (includedTables opt) = 2 \<and>
     ((\<exists>m. GetSchemaMap opt = Inr m) \<longleftrightarrow> destSchemas opt \<noteq> [] \<or> sourceSchemas opt = [])"
proof -
  obtain opt where opt: "NewOption (\<lambda>_. Inr []) demo_valid_flags = Inr opt" "length (destTables opt) = 2"
    using demo_valid_option by blast
  have "unset_is_empty demo_valid_flags" by (simp add: unset_is_empty_def demo_valid_flags_def)
  from validated_option_consistent[OF demo_valid this opt(1)] opt show ?thesis by auto
qed

end
