(* ===== verification/Application.thy ===== *)
theory Application
  imports Validator
begin

text \<open>
  The program as a whole: the metadata manager of \<open>src/copy/copy_metadata.go\<close> and the loop over the
  databases in \<open>doCopy\<close> of \<open>src/copy/copy.go\<close>. What the metadata manager asks of the builtin
  restorer, and what each database's turn consists of, is a value; the restorer itself and the
  copy of the data are the subjects of the theories on restoring and on the copy manager.

  Shown here: the channel of table pairs is closed by exactly one party; in full mode the global
  metadata is restored with the first database that has anything to copy, when metadata is copied
  at all; and a database with nothing to copy leaves its partitions in the wrapper's cache, where
  the next database finds them.
\<close>

section \<open>The metadata manager\<close>

datatype migration =
    Fill_pairs "TablePair list"
  | CopyDatabaseMetaData
  | CopySchemaMetaData "DbSchema list" "DbSchema list"
  | CopyTableMetaData "DbSchema list" "string list" "string list"
  | No_migration

definition contains_metadata :: "flagset \<Rightarrow> bool res" where
  "contains_metadata fl =
     rbind (MustGetFlagBool fl ''metadata-only'') (\<lambda>m. rbind (MustGetFlagBool fl ''data-only'') (\<lambda>d.
       Inr (ContainsMetadata m d)))"

fun fill_pairs :: "Table list \<Rightarrow> Table list \<Rightarrow> nat \<Rightarrow> TablePair list res" where
  "fill_pairs [] dests i = Inr []"
| "fill_pairs (t # srcs) dests i =
     rbind (go_index dests i) (\<lambda>d. rbind (fill_pairs srcs dests (Suc i)) (\<lambda>ps.
       Inr (\<lparr>SrcTable = t\<lparr>Partition := 0\<rparr>, DestTable = mkTable (Schema d) (Name d)\<rparr> # ps)))"

definition fillTablePairChan :: "Table list \<Rightarrow> Table list \<Rightarrow> TablePair list res" where
  "fillTablePairChan srcs dests = (if length dests = 0 then Inr [] else fill_pairs srcs dests 0)"

text \<open>\<open>rng\<close> orders the keys of the three maps the function ranges over.\<close>

definition collectTablesAndSchemas :: "(string list \<Rightarrow> string list) \<Rightarrow> Table list \<Rightarrow> Table list \<Rightarrow> (string, string list) gomap \<Rightarrow>
    string list \<times> string list" where
  "collectTablesAndSchemas rng tables nonPhysicalRels partNameMap =
     (let leafTableMap = leaf_to_root partNameMap (rng (go_keys partNameMap));
          parent = (\<lambda>t. case go_get leafTableMap (t_fqn t) of Some p \<Rightarrow> p | None \<Rightarrow> t_fqn t);
          tableMap = foldl (\<lambda>m t. go_set (parent t) True m) [] tables;
          schemaMap = foldl (\<lambda>m t. go_set (Schema t) True m) [] (tables @ nonPhysicalRels)
      in (rng (go_keys schemaMap), rng (go_keys tableMap) @ map t_fqn nonPhysicalRels))"

definition MigrateMetadata :: "(string list \<Rightarrow> string list) \<Rightarrow> flagset \<Rightarrow> database \<Rightarrow> database \<Rightarrow> Table list \<Rightarrow> Table list \<Rightarrow> Table list \<Rightarrow>
    QueryWrapper \<Rightarrow> (migration \<times> QueryWrapper) res" where
  "MigrateMetadata rng fl src dest srcs dests nonPhysicalRels qw =
     rbind (contains_metadata fl) (\<lambda>meta.
     let opt = config qw; fill = rbind (fillTablePairChan srcs dests) (\<lambda>ps. Inr (Fill_pairs ps, qw))
     in if \<not> meta then fill
        else if copyMode opt = ''full'' \<or> copyMode opt = ''db'' then Inr (CopyDatabaseMetaData, qw)
        else if copyMode opt = ''schema'' then Inr (CopySchemaMetaData (sourceSchemas opt) (destSchemas opt), qw)
        else if copyMode opt = ''table'' then
          (if length (destTables opt) = 0 then
             rbind (getPartitionTableMapping src dest True qw) (\<lambda>(pm, qw).
               let collected = collectTablesAndSchemas rng srcs nonPhysicalRels pm
               in Inr (CopyTableMetaData (destSchemas opt) (fst collected) (snd collected), qw))
           else fill)
        else Inr (No_migration, qw))"

definition RestorePostMetadata :: "flagset \<Rightarrow> Option \<Rightarrow> bool res" where
  "RestorePostMetadata fl opt =
     rbind (contains_metadata fl) (\<lambda>meta. Inr (meta \<and> length (destTables opt) = 0))"

text \<open>
  Who closes the channel of table pairs: the restorer at the end of its predata (\<open>restorePredata\<close>,
  started by each of the three metadata copies), and the copy manager under its own condition;
  with \<open>--metadata-only\<close> \<open>doCopy\<close> does not call the copy manager.
\<close>

fun restorer_closes :: "migration \<Rightarrow> bool" where
  "restorer_closes (Fill_pairs ps) = False"
| "restorer_closes No_migration = False"
| "restorer_closes _ = True"

definition manager_called :: "flagset \<Rightarrow> bool res" where
  "manager_called fl = rbind (MustGetFlagBool fl ''metadata-only'') (\<lambda>metaOnly. Inr (\<not> metaOnly))"

definition manager_closes :: "flagset \<Rightarrow> Option \<Rightarrow> bool res" where
  "manager_closes fl opt =
     rbind (manager_called fl) (\<lambda>called.
       if \<not> called then Inr False
       else rbind (contains_metadata fl) (\<lambda>meta. Inr (\<not> meta \<or> length (destTables opt) > 0)))"

section \<open>The loop over the databases\<close>

definition needGlobalMetaData :: "flagset \<Rightarrow> Option \<Rightarrow> bool \<Rightarrow> bool res" where
  "needGlobalMetaData fl opt isFirstDB =
     rbind (MustGetFlagBool fl ''with-global-metadata'') (\<lambda>on.
       Inr (if on then True else if copyMode opt = ''full'' \<and> isFirstDB then True else False))"

text \<open>One database's turn: the arguments of its metadata manager and what was done.\<close>

record db_run =
  run_src :: string
  run_dest :: string
  with_global :: bool
  partitions :: "(string, string list) gomap"
  table_map :: "(string, string) gomap"
  migrated :: migration
  data_copied :: bool
  post_restored :: bool

record app_state =
  wrapper :: QueryWrapper
  skips :: "SkippedTable list"
  first_count :: nat
  runs :: "db_run list"

definition filter_pairs :: "(string list \<Rightarrow> string list) \<Rightarrow> flagset \<Rightarrow> Option \<Rightarrow> string \<Rightarrow> string \<Rightarrow> Table list \<Rightarrow> Table list \<Rightarrow>
    (string, string list) gomap \<Rightarrow> SkippedTable list \<Rightarrow> (Table list \<times> Table list \<times> SkippedTable list) res" where
  "filter_pairs rng fl opt src dest srcs dests pm before =
     rbind (MustGetFlagBool fl ''skip-existing'') (\<lambda>on.
       if on then filterTablePairsByDestExisting opt (rng (go_keys pm)) src dest srcs dests pm before
       else Inr (srcs, dests, before))"

definition copy_database :: "(string list \<Rightarrow> string list) \<Rightarrow> flagset \<Rightarrow> database \<Rightarrow> database \<Rightarrow> app_state \<Rightarrow> app_state res" where
  "copy_database rng fl src dest s =
     rbind (GetUserTables rng fl src dest (wrapper s)) (\<lambda>(srcs, dests, nonPhysicalRels, pm, qw).
     if length srcs = 0 \<and> length nonPhysicalRels = 0 then Inr (s\<lparr>wrapper := qw\<rparr>)
     else
       rbind (filter_pairs rng fl (config qw) (dbname src) (dbname dest) srcs dests pm (skips s)) (\<lambda>(srcs, dests, recs).
       rbind (needGlobalMetaData fl (config qw) (first_count s = 0)) (\<lambda>withGlobal.
       rbind (MustGetFlagBool fl ''metadata-only'') (\<lambda>metaOnly.
       rbind (FormUserTableMap srcs dests) (\<lambda>tableMap.
       rbind (GetTablespaceMap fl (config qw)) (\<lambda>(_, opt).
       rbind (MigrateMetadata rng fl src dest srcs dests nonPhysicalRels (qw\<lparr>config := opt\<rparr>)) (\<lambda>(mig, qw).
       rbind (RestorePostMetadata fl (config qw)) (\<lambda>post.
         Inr \<lparr>wrapper = ResetCache qw, skips = recs, first_count = Suc (first_count s),
           runs = runs s @ [\<lparr>run_src = dbname src, run_dest = dbname dest, with_global = withGlobal, partitions = pm,
             table_map = tableMap, migrated = mig, data_copied = \<not> metaOnly, post_restored = post\<rparr>]\<rparr>))))))))"

fun copy_databases :: "(string list \<Rightarrow> string list) \<Rightarrow> flagset \<Rightarrow> (string \<Rightarrow> database) \<Rightarrow> (string \<Rightarrow> database) \<Rightarrow> (string, string) gomap \<Rightarrow>
    string list \<Rightarrow> app_state \<Rightarrow> app_state res" where
  "copy_databases rng fl src dest dbMap [] s = Inr s"
| "copy_databases rng fl src dest dbMap (k # ks) s =
     rbind (copy_database rng fl (src k) (dest (the (go_get dbMap k))) s) (copy_databases rng fl src dest dbMap ks)"

definition initial_state :: "Option \<Rightarrow> app_state" where
  "initial_state opt = \<lparr>wrapper = NewQueryWrapper opt, skips = [], first_count = 0, runs = []\<rparr>"

text \<open>
  \<open>doCopy\<close> after its connections are set up: \<open>manage\<close> is the source's management database, \<open>src\<close> and
  \<open>dest\<close> the databases of the two clusters by name. The result is the state at the end, whose
  skip records the summary and the list file are made of.
\<close>

definition doCopy :: "(string list \<Rightarrow> string list) \<Rightarrow> flagset \<Rightarrow> database \<Rightarrow> (string \<Rightarrow> database) \<Rightarrow> (string \<Rightarrow> database) \<Rightarrow> Option \<Rightarrow> app_state res" where
  "doCopy rng fl manage src dest opt =
     rbind (GetDbNameMap rng manage opt) (\<lambda>dbMap.
       copy_databases rng fl src dest dbMap (rng (go_keys dbMap)) (initial_state opt))"

section \<open>The channel of table pairs\<close>

lemma GetPartitionLeafTables_config:
  "GetPartitionLeafTables db isDest qw = Inr (ls, qw') \<Longrightarrow> config qw' = config qw"
  by (auto simp: GetPartitionLeafTables_def rbind_Inr_iff split: option.splits if_splits)

lemma getPartitionTableMapping_config:
  "getPartitionTableMapping src dest keep qw = Inr (pm, qw') \<Longrightarrow> config qw' = config qw"
  by (auto simp: getPartitionTableMapping_def buildPartitionTableMapping_def rbind_Inr_iff FatalOnError_def
      dest!: GetPartitionLeafTables_config split: if_splits sum.splits goerr.splits)

lemma MigrateMetadata_config:
  "MigrateMetadata rng fl src dest srcs dests rels qw = Inr (mig, qw') \<Longrightarrow> config qw' = config qw"
  by (auto simp: MigrateMetadata_def rbind_Inr_iff Let_def dest: getPartitionTableMapping_config split: if_splits)

lemma channel_closed_by_one:
  assumes "MigrateMetadata rng fl src dest srcs dests rels qw = Inr (mig, qw')"
    and "copyMode (config qw) \<in> {''full'', ''db'', ''schema'', ''table''}"
    and "copyMode (config qw) = ''table'' \<or> destTables (config qw) = []"
    and "destTables (config qw) = [] \<or> MustGetFlagBool fl ''metadata-only'' = Inr False"
  shows "manager_closes fl (config qw) = Inr (\<not> restorer_closes mig)"
proof -
  obtain m d where m: "MustGetFlagBool fl ''metadata-only'' = Inr m" "MustGetFlagBool fl ''data-only'' = Inr d"
    using assms(1) by (auto simp: MigrateMetadata_def contains_metadata_def rbind_Inr_iff)
  then have meta: "contains_metadata fl = Inr (m \<or> \<not> d)" by (auto simp: contains_metadata_def ContainsMetadata_def)
  from assms show ?thesis
    by (cases m) (auto simp: MigrateMetadata_def manager_closes_def manager_called_def meta m(1) rbind_Inr_iff Let_def split: if_splits)
qed

section \<open>The option during the run\<close>

text \<open>The copy mode and the number of destination tables do not change while the option is updated.\<close>

definition same_shape :: "Option \<Rightarrow> Option \<Rightarrow> bool" where
  "same_shape c c' \<longleftrightarrow> copyMode c' = copyMode c \<and> length (destTables c') = length (destTables c)"

lemma same_shape_refl [simp]: "same_shape c c"
  by (simp add: same_shape_def)

lemma same_shape_trans: "same_shape a b \<Longrightarrow> same_shape b c \<Longrightarrow> same_shape a c"
  by (simp add: same_shape_def)

lemma Mark_shape [simp]:
  "same_shape c (MarkDestTables c d u p)" "same_shape c (MarkExcludeTables c d u p)" "same_shape c (MarkIncludeTables c d u p)"
  by (simp_all add: same_shape_def MarkDestTables_def MarkExcludeTables_def MarkIncludeTables_def markTables_def)

lemma loadDestInventory_shape:
  "loadDestInventory dest qw = Inr (ts, qw') \<Longrightarrow> same_shape (config qw) (config qw')"
  by (auto simp: loadDestInventory_def GetRootPartTables_def rbind_Inr_iff FatalOnError_def
      dest!: GetPartitionLeafTables_config split: sum.splits goerr.splits)

lemma inventory_if_skipping_shape:
  "inventory_if_skipping fl dest qw = Inr qw' \<Longrightarrow> same_shape (config qw) (config qw')"
  by (auto simp: inventory_if_skipping_def rbind_Inr_iff dest!: loadDestInventory_shape split: if_splits)

lemma expandPartTables_config:
  "expandPartTables src u ts qw = Inr (e, p, qw') \<Longrightarrow> config qw' = config qw"
  by (auto simp: expandPartTables_def rbind_Inr_iff FatalOnError_def Let_def dest!: GetPartitionLeafTables_config
      split: sum.split_asm goerr.split_asm)

lemma copy_all_but_shape:
  "copy_all_but rng fl src dest u e qw = Inr (a, b, c, pm, qw') \<Longrightarrow> same_shape (config qw) (config qw')"
  by (auto simp: copy_all_but_def rbind_Inr_iff dest!: inventory_if_skipping_shape getPartitionTableMapping_config)

lemma copy_included_shape:
  "copy_included rng fl src dest u e qw = Inr (a, b, c, pm, qw') \<Longrightarrow> same_shape (config qw) (config qw')"
  by (auto simp: copy_included_def rbind_Inr_iff
      dest!: inventory_if_skipping_shape getPartitionTableMapping_config expandPartTables_config)

lemma processDestinationTables_shape:
  "processDestinationTables rng src dest u qw = Inr (a, b, c, pm, qw') \<Longrightarrow> same_shape (config qw) (config qw')"
  by (auto simp: processDestinationTables_def rbind_Inr_iff dest!: loadDestInventory_shape getPartitionTableMapping_config)

lemma GetUserTables_shape:
  assumes "GetUserTables rng fl src dest qw = Inr (a, b, c, pm, qw')"
  shows "same_shape (config qw) (config qw')"
proof -
  have root: "GetRootPartTables src False qw = Inr (ps, q) \<Longrightarrow> config q = config qw" for ps q
    by (auto simp: GetRootPartTables_def rbind_Inr_iff FatalOnError_def dest!: GetPartitionLeafTables_config
        split: sum.splits goerr.splits)
  from assms show ?thesis
    by (auto simp: same_shape_def GetUserTables_def rbind_Inr_iff Let_def MarkExcludeTables_def MarkIncludeTables_def markTables_def
        dest!: root expandPartTables_config copy_all_but_shape copy_included_shape processDestinationTables_shape split: if_splits)
qed


lemma GetTablespaceMap_shape:
  "GetTablespaceMap fl opt = Inr (m, opt') \<Longrightarrow> same_shape opt opt'"
  by (auto simp: same_shape_def GetTablespaceMap_def rbind_Inr_iff Let_def split: if_splits)

section \<open>Global metadata\<close>

text \<open>
  The global metadata is restored by \<open>executeDDL\<close>, which each of the three metadata copies calls,
  when its manager was made with \<open>withGlobal\<close>.
\<close>

definition restores_globals :: "db_run \<Rightarrow> bool" where
  "restores_globals r \<longleftrightarrow> with_global r \<and>
     (case migrated r of Fill_pairs _ \<Rightarrow> False | No_migration \<Rightarrow> False | _ \<Rightarrow> True)"

definition global_first :: "bool \<Rightarrow> app_state \<Rightarrow> bool" where
  "global_first meta s \<longleftrightarrow> first_count s = length (runs s) \<and> copyMode (config (wrapper s)) = ''full'' \<and>
     (\<forall>i < length (runs s). with_global (runs s ! i) = (i = 0) \<and>
       (if meta then migrated (runs s ! i) = CopyDatabaseMetaData else \<exists>ps. migrated (runs s ! i) = Fill_pairs ps))"

lemma MigrateMetadata_full:
  assumes "MigrateMetadata rng fl src dest srcs dests rels qw = Inr (mig, qw')" and "contains_metadata fl = Inr meta"
    and "copyMode (config qw) = ''full''"
  shows "if meta then mig = CopyDatabaseMetaData else \<exists>ps. mig = Fill_pairs ps"
  using assms by (auto simp: MigrateMetadata_def rbind_Inr_iff)

lemma copy_database_global:
  assumes "copy_database rng fl src dest s = Inr s'" and "MustGetFlagBool fl ''with-global-metadata'' = Inr False"
    and "contains_metadata fl = Inr meta" and "global_first meta s"
  shows "global_first meta s'"
proof -
  obtain srcs dests rels pm qw where g: "GetUserTables rng fl src dest (wrapper s) = Inr (srcs, dests, rels, pm, qw)"
    using assms(1) by (auto simp: copy_database_def rbind_Inr_iff)
  have mode: "copyMode (config qw) = ''full''" using GetUserTables_shape[OF g] assms(4) by (simp add: global_first_def same_shape_def)
  show ?thesis
  proof (cases "length srcs = 0 \<and> length rels = 0")
    case True
    with assms(1,4) g mode show ?thesis by (auto simp: copy_database_def global_first_def)
  next
    case False
    with assms(1,2) g mode obtain ss ds m opt mig qw2 where
        ts: "GetTablespaceMap fl (config qw) = Inr (m, opt)"
        and mig: "MigrateMetadata rng fl src dest ss ds rels (qw\<lparr>config := opt\<rparr>) = Inr (mig, qw2)"
        and s': "wrapper s' = ResetCache qw2" "first_count s' = Suc (first_count s)"
          "\<exists>r. runs s' = runs s @ [r] \<and> migrated r = mig \<and> with_global r = (first_count s = 0)"
      by (auto simp: copy_database_def rbind_Inr_iff needGlobalMetaData_def)
    have full: "copyMode opt = ''full''" using GetTablespaceMap_shape[OF ts] mode by (simp add: same_shape_def)
    with MigrateMetadata_config[OF mig] s'(1) have "copyMode (config (wrapper s')) = ''full''" by (simp add: ResetCache_def)
    with MigrateMetadata_full[OF mig assms(3)] full s'(2,3) assms(4) show ?thesis
      by (auto simp: global_first_def nth_append less_Suc_eq)
  qed
qed

lemma copy_databases_global:
  assumes "copy_databases rng fl src dest m ks s = Inr s'" and "MustGetFlagBool fl ''with-global-metadata'' = Inr False"
    and "contains_metadata fl = Inr meta" and "global_first meta s"
  shows "global_first meta s'"
  using assms by (induction ks arbitrary: s) (auto simp: rbind_Inr_iff dest: copy_database_global)

text \<open>
  Claim C27. In full mode without \<open>--with-global-metadata\<close>, the metadata manager of the first database
  that has anything to copy is the only one that is made with \<open>withGlobal\<close>, however many databases
  there are and in whatever order they are visited. Unless \<open>--data-only\<close> is given each of these
  databases has its metadata copied, so the global metadata (roles, resource queues, tablespaces)
  is restored exactly once, with the first; with \<open>--data-only\<close> no database restores it.
\<close>

theorem global_metadata_once:
  assumes "doCopy rng fl manage src dest opt = Inr s" and "MustGetFlagBool fl ''with-global-metadata'' = Inr False"
    and "contains_metadata fl = Inr meta" and "copyMode opt = ''full''" and "i < length (runs s)"
  shows "(with_global (runs s ! i) \<longleftrightarrow> i = 0) \<and>
    (if meta then migrated (runs s ! i) = CopyDatabaseMetaData else \<exists>ps. migrated (runs s ! i) = Fill_pairs ps) \<and>
    (restores_globals (runs s ! i) \<longleftrightarrow> meta \<and> i = 0)"
proof -
  have "global_first meta (initial_state opt)"
    using assms(4) by (simp add: global_first_def NewQueryWrapper_def initial_state_def)
  with assms(1-3) have "global_first meta s"
    by (auto simp: doCopy_def rbind_Inr_iff dest: copy_databases_global)
  with assms(5) show ?thesis by (auto simp: global_first_def restores_globals_def split: if_splits)
qed

section \<open>A database with nothing to copy\<close>

lemma FormUserTableMap_loop_ok:
  "i + length ts \<le> length dests \<Longrightarrow> \<exists>m'. FormUserTableMap_loop ts dests i m = Inr m'"
  by (induction ts arbitrary: i m) auto

lemma split_name_dot: "CHR ''.'' \<in> set k \<Longrightarrow> \<exists>s n. split_name k = Inr (s, n)"
proof -
  assume "CHR ''.'' \<in> set k"
  then obtain a b where "k = a @ CHR ''.'' # b" "CHR ''.'' \<notin> set a" by (metis split_list_first)
  then have "Split CHR ''.'' k = a # Split CHR ''.'' b" by (simp add: Split_append)
  then have "length (Split CHR ''.'' k) \<ge> 2" by (simp add: Suc_le_eq)
  then show ?thesis by (simp add: split_name_def Let_def)
qed

lemma leaf_tables_ok:
  "list_all (\<lambda>l. CHR ''.'' \<in> set (LeafName l)) ls \<Longrightarrow> \<exists>m'. leaf_tables ls m = Inr m'"
  by (induction ls arbitrary: m) (auto simp: Let_def dest!: split_name_dot)

lemma fst_go_set: "fst ` set (go_set k v m) = insert k (fst ` set m)"
  using go_keys_set[of k v m] by simp

lemma partition_map_keys:
  "partition_map Inr ls m = Inr m' \<Longrightarrow> set (go_keys m') = set (go_keys m) \<union> RootName ` set ls"
  by (induction ls arbitrary: m) (auto simp: Let_def fst_go_set)

lemma partition_map_ok: "\<exists>m'. partition_map Inr ls m = Inr m'"
  by (induction ls arbitrary: m) (auto simp: Let_def)

lemma rmap_ok: "list_all (\<lambda>x. \<exists>y. f x = Inr y) xs \<Longrightarrow> \<exists>ys. rmap f xs = Inr ys \<and> length ys = length xs"
  by (induction xs) auto

lemma user_table_keys:
  "set (go_keys (foldl (\<lambda>m t. go_set (fqn (Schema t) (Name t)) (f t) m) m ts)) = set (go_keys m) \<union> t_fqn ` set ts"
  by (induction ts arbitrary: m) (auto simp: fst_go_set t_fqn_def)

lemma excludeTables_ok:
  assumes "\<And>ks. mset (rng ks) = mset ks" and "list_all (\<lambda>k. CHR ''.'' \<in> set k) (go_keys m)"
  shows "\<exists>ts. excludeTables rng m [] = Inr ts \<and> length ts = length m"
proof -
  have len: "length (rng (go_keys m)) = length m" by (metis assms(1) length_map size_mset)
  have "list_all (\<lambda>k. \<exists>t. table_with k (the (go_get m k)) = Inr t) (rng (go_keys m))"
    unfolding list_all_iff
  proof
    fix k assume "k \<in> set (rng (go_keys m))"
    then have "k \<in> set (go_keys m)" by (metis assms(1) set_mset_mset)
    then have "CHR ''.'' \<in> set k" using assms(2) by (auto simp: list_all_iff)
    from split_name_dot[OF this] show "\<exists>t. table_with k (the (go_get m k)) = Inr t"
      by (auto simp: table_with_def)
  qed
  from rmap_ok[OF this] len show ?thesis by (simp add: excludeTables_def)
qed

text \<open>What the claim below assumes of the flags, the option and the catalog.\<close>

definition copies_everything :: "flagset \<Rightarrow> bool" where
  "copies_everything fl \<longleftrightarrow> GetString fl ''dest-tablespace'' = Inr [] \<and>
     list_all (\<lambda>n. MustGetFlagBool fl n = Inr False)
       [''global-metadata-only'', ''metadata-only'', ''data-only'', ''with-global-metadata'', ''skip-existing'']"

definition plain_db_copy :: "Option \<Rightarrow> bool" where
  "plain_db_copy opt \<longleftrightarrow> copyMode opt = ''db'' \<and> excludedTables opt = [] \<and> destSchemas opt = []"

definition catalog_of :: "database \<Rightarrow> Table list \<Rightarrow> PartLeafTable list \<Rightarrow> bool" where
  "catalog_of db ts ls \<longleftrightarrow> sel_user_tables db = Inr ts \<and> sel_part_leaves db = Inr ls \<and>
     list_all (\<lambda>l. CHR ''.'' \<in> set (LeafName l)) ls"

lemma GetUserTables_db_mode:
  assumes rng: "\<And>ks. mset (rng ks) = mset ks" and fl: "copies_everything fl" and opt: "plain_db_copy (config qw)"
    and db: "sel_user_tables src = Inr ts"
    and leaves: "GetPartitionLeafTables src False qw = Inr (ls, qw')" "list_all (\<lambda>l. CHR ''.'' \<in> set (LeafName l)) ls"
  shows "\<exists>srcs pm qw''. GetUserTables rng fl src dest qw = Inr (srcs, srcs, [], pm, qw'') \<and>
    (srcs = [] \<longleftrightarrow> ts = []) \<and> set (go_keys pm) = RootName ` set ls \<and> srcPartLeafTable qw'' = Some ls \<and> config qw'' = config qw"
proof -
  let ?us = "foldl (\<lambda>m t. go_set (fqn (Schema t) (Name t))
              \<lparr>ts_Partition = Partition t, ts_RelTuples = RelTuples t, ts_IsReplicated = IsReplicated t\<rparr> m) [] ts"
  have us: "qm_GetUserTables src = Inr ?us" using db by (simp add: qm_GetUserTables_def)
  have keys: "set (go_keys ?us) = t_fqn ` set ts" using user_table_keys[where m = "[]"] by simp
  then have "list_all (\<lambda>k. CHR ''.'' \<in> set k) (go_keys ?us)"
    unfolding list_all_iff by (auto simp: t_fqn_def fqn_def)
  from excludeTables_ok[OF rng this] obtain srcs where srcs: "excludeTables rng ?us [] = Inr srcs" "length srcs = length ?us"
    by blast
  have cached: "srcPartLeafTable qw' = Some ls" "config qw' = config qw"
    using leaves(1) by (auto simp: GetPartitionLeafTables_def rbind_Inr_iff split: option.splits)
  have again: "GetPartitionLeafTables src False qw' = Inr (ls, qw')"
    using cached by (simp add: GetPartitionLeafTables_def)
  have conf: "MarkExcludeTables (config qw') d u p = config qw'" "GetExclTablesByDb (config qw') d = []"
      "copyMode (config qw') = ''db''" for d u p
    using opt cached by (simp_all add: MarkExcludeTables_def markTables_def plain_db_copy_def GetExclTablesByDb_def)
  obtain m where m: "leaf_tables ls [] = Inr m" using leaf_tables_ok[OF leaves(2)] by blast
  obtain pm where pm: "partition_map Inr ls [] = Inr pm" using partition_map_ok by blast
  have same: "qw'\<lparr>config := config qw'\<rparr> = qw'" by simp
  have mode: "copyMode (config qw) = ''db''" "destSchemas (config qw) = []" "excludedTables (config qw) = []"
    using opt by (auto simp: plain_db_copy_def)
  have exp: "expandPartTables src ?us [] qw' = Inr ([], [], qw')"
    using again m by (simp add: expandPartTables_def)
  have build: "getPartitionTableMapping src dest False qw' = Inr (pm, qw')"
    using again pm mode cached
    by (simp add: getPartitionTableMapping_def buildPartitionTableMapping_def schema_map_of_def dest_schema_of_def
        redirectPartitionTable_def)
  have rest: "copy_all_but rng fl src dest ?us [] qw' = Inr (srcs, srcs, [], pm, qw')"
    using fl srcs(1) mode cached build
    by (simp add: copy_all_but_def filterTablesBySchema_def inventory_if_skipping_def redirectSchemaTables_def copies_everything_def MustGet_defs)
  have root: "\<exists>ps. GetRootPartTables src False qw = Inr (ps, qw')"
    using leaves(1) by (auto simp: GetRootPartTables_def)
  then obtain ps where ps: "GetRootPartTables src False qw = Inr (ps, qw')" by blast
  have "MustGetFlagBool fl ''global-metadata-only'' = Inr False" using fl by (simp add: copies_everything_def MustGet_defs)
  then have "GetUserTables rng fl src dest qw = Inr (srcs, srcs, [], pm, qw')"
    by (simp add: GetUserTables_def us ps conf same exp rest)
  moreover have "srcs = [] \<longleftrightarrow> ts = []"
  proof -
    have "srcs = [] \<longleftrightarrow> set (go_keys ?us) = {}" using srcs(2) by (simp flip: length_0_conv)
    then show ?thesis unfolding keys by simp
  qed
  ultimately show ?thesis using partition_map_keys[OF pm] cached by auto
qed


lemma copy_database_db_mode:
  assumes rng: "\<And>ks. mset (rng ks) = mset ks" and fl: "copies_everything fl" and opt: "plain_db_copy (config (wrapper s))"
    and db: "sel_user_tables src = Inr ts"
    and leaves: "GetPartitionLeafTables src False (wrapper s) = Inr (ls, qw')" "list_all (\<lambda>l. CHR ''.'' \<in> set (LeafName l)) ls"
  shows "\<exists>s'. copy_database rng fl src dest s = Inr s' \<and> config (wrapper s') = config (wrapper s) \<and>
    (if ts = [] then srcPartLeafTable (wrapper s') = Some ls \<and> runs s' = runs s
     else srcPartLeafTable (wrapper s') = None \<and>
       (\<exists>r. runs s' = runs s @ [r] \<and> set (go_keys (partitions r)) = RootName ` set ls))"
proof -
  obtain srcs pm qw where g: "GetUserTables rng fl src dest (wrapper s) = Inr (srcs, srcs, [], pm, qw)"
    "srcs = [] \<longleftrightarrow> ts = []" "set (go_keys pm) = RootName ` set ls" "srcPartLeafTable qw = Some ls" "config qw = config (wrapper s)"
    using GetUserTables_db_mode[OF rng fl opt db leaves, of dest] by (elim exE conjE) (rule that)
  obtain m where m: "FormUserTableMap srcs srcs = Inr m"
    using FormUserTableMap_loop_ok[of 0 srcs srcs] by (auto simp: FormUserTableMap_def)
  have mode: "copyMode (config qw) = ''db''" using opt g(5) by (simp add: plain_db_copy_def)
  have f: "MustGetFlagBool fl ''metadata-only'' = Inr False" "MustGetFlagBool fl ''data-only'' = Inr False"
      "MustGetFlagBool fl ''with-global-metadata'' = Inr False" "MustGetFlagBool fl ''skip-existing'' = Inr False"
      "GetTablespaceMap fl opt = Inr (tablespaceMap opt, opt)" for opt
    using fl by (simp_all add: copies_everything_def MustGet_defs GetTablespaceMap_def)
  have mig: "MigrateMetadata rng fl src dest srcs srcs [] qw = Inr (CopyDatabaseMetaData, qw)"
    using mode by (simp add: MigrateMetadata_def contains_metadata_def ContainsMetadata_def f)
  show ?thesis
  proof (cases "ts = []")
    case True
    with g show ?thesis by (simp add: copy_database_def)
  next
    case False
    with g(2-5) show ?thesis
      by (simp add: copy_database_def g(1) filter_pairs_def needGlobalMetaData_def RestorePostMetadata_def contains_metadata_def
          f mode m mig ResetCache_def)
  qed
qed

text \<open>
  Claim C38. In a copy of databases with data and metadata (\<open>--dbname\<close> with \<open>--truncate\<close> or \<open>--append\<close>,
  nothing excluded, no \<open>--with-global-metadata\<close>, no \<open>--dest-tablespace\<close>, no destination schemas, leaf
  partitions named with their schema), a database with nothing to copy spoils the partitions of the next one: \<open>doCopy\<close> goes on to
  the next database without resetting the wrapper's cache, so that database is taken to have the
  partitions of the empty one, which are none. When the database is visited before the empty
  one, it is copied with its partitions under their roots. The order is the order in which Go
  visits a map, which differs from run to run.
\<close>

theorem empty_database_hides_partitions:
  assumes "\<And>ks. mset (rng ks) = mset ks" and "copies_everything fl" and "plain_db_copy opt"
    and "catalog_of (src a) [] []" and "catalog_of (src b) ts ls" and "ts \<noteq> []"
  shows "(\<exists>s. copy_databases rng fl src dest dbMap [a, b] (initial_state opt) = Inr s \<and> map partitions (runs s) = [[]]) \<and>
    (\<exists>s r. copy_databases rng fl src dest dbMap [b, a] (initial_state opt) = Inr s \<and> runs s = [r] \<and>
      set (go_keys (partitions r)) = RootName ` set ls)"
proof -
  let ?s0 = "initial_state opt"
  note step = copy_database_db_mode[OF assms(1,2)]
  have s0: "plain_db_copy (config (wrapper ?s0))" "srcPartLeafTable (wrapper ?s0) = None" "runs ?s0 = []"
    using assms(3) by (simp_all add: initial_state_def NewQueryWrapper_def)
  have fresh: "\<exists>qw'. GetPartitionLeafTables (src k) False (wrapper s) = Inr (l, qw')"
    if "catalog_of (src k) t l" "srcPartLeafTable (wrapper s) = None" for k t l s
    using that by (simp add: GetPartitionLeafTables_def qm_GetPartitionLeafTables_def wrap_error_def catalog_of_def)
  have cached: "GetPartitionLeafTables (src k) False (wrapper s) = Inr (l, wrapper s)"
    if "srcPartLeafTable (wrapper s) = Some l" for k l s
    using that by (simp add: GetPartitionLeafTables_def)
  note cat = assms(4,5)[unfolded catalog_of_def]
  obtain s1 where s1: "copy_database rng fl (src a) (dest (the (go_get dbMap a))) ?s0 = Inr s1"
      "plain_db_copy (config (wrapper s1))" "srcPartLeafTable (wrapper s1) = Some []" "runs s1 = []"
    using fresh[OF assms(4) s0(2)] step[OF s0(1), of "src a" "[]" "[]"] cat s0 by fastforce
  obtain s2 r where s2: "copy_database rng fl (src b) (dest (the (go_get dbMap b))) s1 = Inr s2"
      "runs s2 = [r]" "partitions r = []"
    using step[OF s1(2), of "src b" ts "[]"] cached[OF s1(3)] cat s1(4) assms(6) by fastforce
  from s1(1) s2 have first: "\<exists>s. copy_databases rng fl src dest dbMap [a, b] ?s0 = Inr s \<and> map partitions (runs s) = [[]]"
    by simp
  obtain s3 r' where s3: "copy_database rng fl (src b) (dest (the (go_get dbMap b))) ?s0 = Inr s3"
      "plain_db_copy (config (wrapper s3))" "srcPartLeafTable (wrapper s3) = None" "runs s3 = [r']"
      "set (go_keys (partitions r')) = RootName ` set ls"
    using fresh[OF assms(5) s0(2)] step[OF s0(1), of "src b" ts ls] cat s0 assms(6) by fastforce
  obtain s4 where s4: "copy_database rng fl (src a) (dest (the (go_get dbMap a))) s3 = Inr s4" "runs s4 = [r']"
    using fresh[OF assms(4) s3(3)] step[OF s3(2), of "src a" "[]" "[]"] cat s3 by fastforce
  from s3(1,5) s4 have "\<exists>s r. copy_databases rng fl src dest dbMap [b, a] ?s0 = Inr s \<and> runs s = [r] \<and>
      set (go_keys (partitions r)) = RootName ` set ls"
    by simp
  with first show ?thesis by blast
qed

definition demo_db :: "string \<Rightarrow> database" where
  "demo_db n = \<lparr>dbname = n,
     sel_user_tables = Inr (if n = ''empty'' then [] else [mkTable ''s'' ''p_1'']),
     sel_part_leaves = Inr (if n = ''empty'' then [] else [\<lparr>RootName = ''s.p'', LeafName = ''s.p_1'', leaf_RelTuples = 3\<rparr>]),
     sel_non_physical = Inr [], sel_schema_count = (\<lambda>_. Inr 1), sel_databases = Inr [''d1'', ''template0'', ''d2'']\<rparr>"

text \<open>The command lines \<open>--full --truncate\<close> (for no names) and \<open>--dbname ... --truncate\<close>, and the option made from them.\<close>

definition demo_run_flags :: "string list \<Rightarrow> flagset" where
  "demo_run_flags dbs = \<lparr>GetString = GetString demo_valid_flags, GetInt = (\<lambda>_. Inr 4),
     GetBool = (\<lambda>n. Inr (n = ''truncate'' \<or> n = ''full'' \<and> dbs = [])),
     GetStringSlice = (\<lambda>n. Inr (if n = ''dbname'' then dbs else [])),
     Changed = (\<lambda>n. n = ''truncate'' \<or> n = (if dbs = [] then ''full'' else ''dbname''))\<rparr>"

definition demo_option :: "string list \<Rightarrow> Option" where
  "demo_option dbs = projr (NewOption (\<lambda>_. Inr []) (demo_run_flags dbs))"

lemma demo_run_valid:
  "ValidateAll (\<lambda>_. Inr []) (demo_run_flags []) = Inr ()" "ValidateAll (\<lambda>_. Inr []) (demo_run_flags [''empty'', ''d1'']) = Inr ()"
  by code_simp+

lemma demo_run_flags_facts:
  "copies_everything (demo_run_flags [''empty'', ''d1''])" "plain_db_copy (demo_option [''empty'', ''d1''])"
  "MustGetFlagBool (demo_run_flags []) ''with-global-metadata'' = Inr False" "contains_metadata (demo_run_flags []) = Inr True"
  "copyMode (demo_option []) = ''full''"
  by code_simp+

theorem empty_database_hides_partitions_witness:
  "ValidateAll (\<lambda>_. Inr []) (demo_run_flags [''empty'', ''d1'']) = Inr () \<and>
   (\<exists>s. copy_databases id (demo_run_flags [''empty'', ''d1'']) demo_db demo_db [(''empty'', ''empty''), (''d1'', ''d1'')] [''empty'', ''d1'']
      (initial_state (demo_option [''empty'', ''d1''])) = Inr s \<and> map partitions (runs s) = [[]]) \<and>
   (\<exists>s r. copy_databases id (demo_run_flags [''empty'', ''d1'']) demo_db demo_db [(''empty'', ''empty''), (''d1'', ''d1'')] [''d1'', ''empty'']
      (initial_state (demo_option [''empty'', ''d1''])) = Inr s \<and> runs s = [r] \<and> set (go_keys (partitions r)) = {''s.p''})"
proof -
  have "catalog_of (demo_db ''empty'') [] []"
    "catalog_of (demo_db ''d1'') [mkTable ''s'' ''p_1''] [\<lparr>RootName = ''s.p'', LeafName = ''s.p_1'', leaf_RelTuples = 3\<rparr>]"
    by (simp_all add: catalog_of_def demo_db_def)
  from empty_database_hides_partitions[OF _ demo_run_flags_facts(1,2) this, of id demo_db "[(''empty'', ''empty''), (''d1'', ''d1'')]"]
    demo_run_valid show ?thesis by auto
qed

lemma demo_doCopy:
  "\<not> isl (doCopy id (demo_run_flags []) (demo_db ''d1'') demo_db demo_db (demo_option []))"
  "length (runs (projr (doCopy id (demo_run_flags []) (demo_db ''d1'') demo_db demo_db (demo_option [])))) = 2"
  by code_simp+

theorem global_metadata_once_witness:
  "ValidateAll (\<lambda>_. Inr []) (demo_run_flags []) = Inr () \<and>
   (\<exists>s. doCopy id (demo_run_flags []) (demo_db ''d1'') demo_db demo_db (demo_option []) = Inr s \<and>
      restores_globals (runs s ! 0) \<and> \<not> restores_globals (runs s ! 1))"
proof -
  obtain s where s: "doCopy id (demo_run_flags []) (demo_db ''d1'') demo_db demo_db (demo_option []) = Inr s" "length (runs s) = 2"
    using demo_doCopy by (cases "doCopy id (demo_run_flags []) (demo_db ''d1'') demo_db demo_db (demo_option [])") auto
  note once = global_metadata_once[OF s(1) demo_run_flags_facts(3-5)]
  from once[of 0] once[of 1] s demo_run_valid(1) show ?thesis by simp
qed


section \<open>The channel during the run\<close>

definition mode_fits :: "flagset \<Rightarrow> Option \<Rightarrow> bool" where
  "mode_fits fl c \<longleftrightarrow> copyMode c \<in> {''full'', ''db'', ''schema'', ''table''} \<and> (copyMode c = ''table'' \<or> destTables c = []) \<and>
     (destTables c = [] \<or> MustGetFlagBool fl ''metadata-only'' = Inr False)"

definition closed_once :: "flagset \<Rightarrow> Option \<Rightarrow> app_state \<Rightarrow> bool" where
  "closed_once fl c s \<longleftrightarrow> same_shape c (config (wrapper s)) \<and>
     list_all (\<lambda>r. manager_closes fl c = Inr (\<not> restorer_closes (migrated r))) (runs s)"

lemma mode_fits_shape: "same_shape c c' \<Longrightarrow> mode_fits fl c \<Longrightarrow> mode_fits fl c'"
  by (auto simp: same_shape_def mode_fits_def simp flip: length_0_conv)

lemma manager_closes_shape: "same_shape c c' \<Longrightarrow> manager_closes fl c' = manager_closes fl c"
  by (simp only: same_shape_def manager_closes_def)

lemma copy_database_channel:
  assumes "copy_database rng fl src dest s = Inr s'" and c: "mode_fits fl c" and "closed_once fl c s"
  shows "closed_once fl c s'"
proof -
  obtain srcs dests rels pm qw where g: "GetUserTables rng fl src dest (wrapper s) = Inr (srcs, dests, rels, pm, qw)"
    using assms(1) by (auto simp: copy_database_def rbind_Inr_iff)
  have shape: "same_shape c (config qw)"
    using same_shape_trans[OF _ GetUserTables_shape[OF g]] assms(3) by (simp add: closed_once_def)
  show ?thesis
  proof (cases "length srcs = 0 \<and> length rels = 0")
    case True
    with assms(1,3) g shape show ?thesis by (auto simp: copy_database_def closed_once_def)
  next
    case False
    with assms(1) g obtain ss ds m opt mig qw2 where
        ts: "GetTablespaceMap fl (config qw) = Inr (m, opt)"
        and mig: "MigrateMetadata rng fl src dest ss ds rels (qw\<lparr>config := opt\<rparr>) = Inr (mig, qw2)"
        and s': "wrapper s' = ResetCache qw2" "\<exists>r. runs s' = runs s @ [r] \<and> migrated r = mig"
      by (auto simp: copy_database_def rbind_Inr_iff)
    have shape2: "same_shape c opt" by (rule same_shape_trans[OF shape GetTablespaceMap_shape[OF ts]])
    have "config (wrapper s') = opt" using s'(1) MigrateMetadata_config[OF mig] by (simp add: ResetCache_def)
    moreover have "manager_closes fl c = Inr (\<not> restorer_closes mig)"
      using channel_closed_by_one[OF mig] mode_fits_shape[OF shape2 c] manager_closes_shape[OF shape2, of fl]
      by (simp add: mode_fits_def)
    ultimately show ?thesis using s'(2) shape2 assms(3) by (auto simp: closed_once_def)
  qed
qed

lemma doCopy_channel:
  assumes "doCopy rng fl manage src dest opt = Inr s" and "mode_fits fl opt"
  shows "closed_once fl opt s"
proof -
  have "copy_databases rng fl src dest m ks t = Inr t' \<Longrightarrow> closed_once fl opt t \<Longrightarrow> closed_once fl opt t'" for m ks t t'
    using assms(2) by (induction ks arbitrary: t) (auto simp: rbind_Inr_iff dest: copy_database_channel)
  moreover have "closed_once fl opt (initial_state opt)"
    by (simp add: closed_once_def initial_state_def NewQueryWrapper_def)
  ultimately show ?thesis using assms(1) by (auto simp: doCopy_def rbind_Inr_iff)
qed

end
