(* ===== verification/QueryFunctions.thy ===== *)
theory QueryFunctions
  imports Queries PrintFunctions PrintPostdata
begin

text \<open>
  \<open>src/meta/builtin/queries_functions.go\<close>: the queries for functions, aggregates, casts, extensions,
  languages, transforms, conversions, foreign objects and extended statistics, and what the code does
  with their rows. The settings of a function arrive as one text and are taken apart and quoted
  again; the results are about that.
\<close>

section \<open>Settings of functions\<close>

text \<open>
  \<open>^SET (.*) TO (.*)$\<close>: the first group is the longest possible, so the text is cut at its last
  \<open>TO\<close>. A dot matches everything but a newline.
\<close>

fun cut_at_last_to :: "string \<Rightarrow> (string \<times> string) option" where
  "cut_at_last_to [] = None"
| "cut_at_last_to (c # s) =
     (case cut_at_last_to s of
        Some (a, b) \<Rightarrow> Some (c # a, b)
      | None \<Rightarrow> if prefix '' TO '' (c # s) then Some ([], drop 4 (c # s)) else None)"

definition match_setting :: "string \<Rightarrow> (string \<times> string) option" where
  "match_setting s =
     (if prefix ''SET '' s \<and> CHR 0x0A \<notin> set s then cut_at_last_to (drop 4 s) else None)"

definition Trim_blanks :: "string \<Rightarrow> string" where
  "Trim_blanks s = rev (dropWhile (\<lambda>c. c = CHR '' '') (rev (dropWhile (\<lambda>c. c = CHR '' '') s)))"

definition UnescapeDoubleQuote :: "string \<Rightarrow> string" where
  "UnescapeDoubleQuote value =
     (if length value > 1 \<and> hd value = DQ \<and> last value = DQ
      then Replace (butlast (tl value)) [DQ, DQ] [DQ] (-1) else value)"

definition list_settings :: "string list" where
  "list_settings = [''temp_tablespaces'', ''session_preload_libraries'', ''shared_preload_libraries'', ''local_preload_libraries'', ''search_path'']"

definition QuoteGUCValue :: "string \<Rightarrow> string \<Rightarrow> string" where
  "QuoteGUCValue name value =
     (if name \<in> set list_settings
      then Join (map (\<lambda>item. in_quotes (UnescapeDoubleQuote (Trim_blanks item))) (Split CHR '','' value)) '', ''
      else in_quotes value)"

text \<open>The error also prints the function.\<close>

fun PostProcessFunctionConfigs :: "Function list \<Rightarrow> Function list res" where
  "PostProcessFunctionConfigs [] = Inr []"
| "PostProcessFunctionConfigs (f # fs) =
     rbind (if fn_Config f = [] then Inr f
            else (case match_setting (fn_Config f) of
                None \<Rightarrow> Inl (Error ''Function config does not match syntax expectations. Function was: '')
              | Some (name, value) \<Rightarrow> Inr (f\<lparr>fn_Config := ''SET '' @ ToLower name @ '' TO '' @ QuoteGUCValue (ToLower name) value\<rparr>))) (\<lambda>f.
     rbind (PostProcessFunctionConfigs fs) (\<lambda>fs. Inr (f # fs)))"

section \<open>Functions\<close>

definition functions_query :: "'a acl_env_scheme \<Rightarrow> filters \<Rightarrow> string res" where
  "functions_query env flt =
     rbind (src_at_least env ''6'') (\<lambda>at6.
     rbind (src_old env ''6'') (\<lambda>old6.
     rbind (if old6 then Inr False else src_is env ''6'') (\<lambda>is6.
     rbind (src_old env ''7'') (\<lambda>old7.
       let excludeImplicit = (if at6 then ''
	AND NOT EXISTS (
		SELECT 1 FROM pg_depend
		WHERE classid = 'pg_proc'::regclass::oid
			AND objid = p.oid AND deptype = 'i')'' else []);
           locationAtts = (if old6 then [SQ] @ ''a'' @ [SQ] @ '' AS proexeclocation,''
             else if is6 then ''proiswindow,proexeclocation,proleakproof,''
             else ''proexeclocation,proleakproof,proparallel,'')
       in Inr (if old7
         then concat [''
		SELECT p.oid,
			quote_ident(nspname) AS schema,
			quote_ident(proname) AS name,
			proretset,
			coalesce(prosrc, '', [SQ, SQ], '') AS functionbody,
			coalesce(probin, '', [SQ, SQ], '') AS binarypath,
			pg_catalog.pg_get_function_arguments(p.oid) AS arguments,
			pg_catalog.pg_get_function_identity_arguments(p.oid) AS identargs,
			pg_catalog.pg_get_function_result(p.oid) AS resulttype,
			provolatile,
			proisstrict,
			prosecdef,
			'', locationAtts, ''
			coalesce(array_to_string(ARRAY(SELECT 'SET ' || option_name || ' TO ' || option_value
				FROM pg_options_to_table(proconfig)), ' '), '', [SQ, SQ], '') AS proconfig,
			procost,
			prorows,
			prodataaccess,
			l.lanname AS language
		FROM pg_proc p
			JOIN pg_catalog.pg_language l ON p.prolang = l.oid
			LEFT JOIN pg_namespace n ON p.pronamespace = n.oid
		WHERE '', SchemaFilterClause flt ''n'', ''
			AND proisagg = 'f'
			AND '', ExtensionFilterClause ''p'', excludeImplicit, ''
		ORDER BY nspname, proname, identargs'']
         else concat [''
		SELECT p.oid,
			quote_ident(nspname) AS schema,
			quote_ident(p.proname) AS name,
			proretset,
			coalesce(prosrc, '', [SQ, SQ], '') AS functionbody,
			coalesce(probin, '', [SQ, SQ], '') AS binarypath,
			pg_catalog.pg_get_function_arguments(p.oid) AS arguments,
			pg_catalog.pg_get_function_identity_arguments(p.oid) AS identargs,
			pg_catalog.pg_get_function_result(p.oid) AS resulttype,
			provolatile,
			proisstrict,
			prosecdef,
			'', locationAtts, ''
			coalesce(array_to_string(ARRAY(SELECT 'SET ' || option_name || ' TO ' || option_value
				FROM pg_options_to_table(proconfig)), ' '), '', [SQ, SQ], '') AS proconfig,
			procost,
			prorows,
			prokind,
			prosupport,
			l.lanname AS language,
            coalesce(array_to_string(ARRAY(SELECT 'FOR TYPE ' || nm.nspname || '.' || typ.typname
                from
                    unnest(p.protrftypes) as trf_unnest
                    left join pg_type typ
                         on trf_unnest = typ.oid
					left join pg_namespace nm
						on typ.typnamespace = nm.oid
                ), ', '), '', [SQ, SQ], '') AS transformtypes
		FROM pg_proc p
			JOIN pg_catalog.pg_language l ON p.prolang = l.oid
			LEFT JOIN pg_namespace n ON p.pronamespace = n.oid
		WHERE '', SchemaFilterClause flt ''n'', ''
			AND prokind <> 'a'
			AND '', ExtensionFilterClause ''p'', excludeImplicit, ''
		ORDER BY nspname, proname, identargs''])))))"

definition function_complete :: "bool \<Rightarrow> Function \<Rightarrow> bool" where
  "function_complete at7 f \<longleftrightarrow>
     (fn_Arguments f \<noteq> None \<and> fn_IdentArgs f \<noteq> None \<and> fn_ResultType f \<noteq> None) \<or>
     (at7 \<and> fn_Kind f = ''p'' \<and> fn_ResultType f = None)"

definition GetFunctions :: "'a acl_env_scheme \<Rightarrow> filters \<Rightarrow> (string \<Rightarrow> Function list res) \<Rightarrow> Function list res" where
  "GetFunctions env flt select =
     rbind (functions_query env flt) (\<lambda>query.
     rbind (must_select select query) (\<lambda>rows.
     rbind (FatalOnError (PostProcessFunctionConfigs rows)) (\<lambda>fs.
     rbind (if fs = [] then Inr False else src_at_least env ''7'') (\<lambda>at7.
       Inr (filter (function_complete at7) (map (\<lambda>f. if at7 \<and> fn_Kind f = ''w'' then f\<lparr>fn_IsWindow := True\<rparr> else f) fs))))))"

definition GetFunctions4 :: "filters \<Rightarrow> (string \<Rightarrow> Function list res) \<Rightarrow> Function list res" where
  "GetFunctions4 flt select = must_select select (concat [''
	SELECT p.oid,
		quote_ident(nspname) AS schema,
		quote_ident(proname) AS name,
		proretset,
		coalesce(prosrc, '', [SQ, SQ], '') AS functionbody,
		CASE WHEN probin = '-' THEN '', [SQ, SQ], '' ELSE coalesce(probin, '', [SQ, SQ], '') END AS binarypath,
		provolatile,
		proisstrict,
		prosecdef,
		'a' AS proexeclocation,
		(SELECT lanname FROM pg_catalog.pg_language WHERE oid = prolang) AS language
	FROM pg_proc p
		LEFT JOIN pg_namespace n ON p.pronamespace = n.oid
	WHERE '', SchemaFilterClause flt ''n'', ''
		AND proisagg = 'f'
	ORDER BY nspname, proname''])"

record func_arg =
  fa_Oid :: "32 word"
  fa_Type :: string
  fa_Name :: string
  fa_Mode :: string

definition arg_text :: "func_arg \<Rightarrow> string" where
  "arg_text a =
     (let name = (if fa_Name a = [DQ, DQ] then [] else fa_Name a);
          mode = (if fa_Mode a = ''b'' then ''INOUT '' else if fa_Mode a = ''o'' then ''OUT '' else if fa_Mode a = ''v'' then ''VARIADIC '' else [])
      in mode @ (if name \<noteq> [] then name @ '' '' else []) @ fa_Type a)"

text \<open>The loop keeps the arguments of one function until the next one begins.\<close>

fun args_loop :: "func_arg list \<Rightarrow> 32 word \<Rightarrow> string list \<Rightarrow> string list \<Rightarrow>
    (32 word, string) gomap \<Rightarrow> (32 word, string) gomap \<Rightarrow> (32 word, string) gomap \<times> (32 word, string) gomap" where
  "args_loop [] lastOid args targs m tm =
     (go_set lastOid (Join args '', '') m, go_set lastOid (Join targs '', '') tm)"
| "args_loop (a # as) lastOid args targs m tm =
     (let new = (fa_Oid a \<noteq> lastOid \<and> lastOid \<noteq> 0);
          m = (if new then go_set lastOid (Join args '', '') m else m);
          tm = (if new then go_set lastOid (Join targs '', '') tm else tm);
          args = (if new then [] else args);
          targs = (if new then [] else targs)
      in args_loop as (fa_Oid a)
           (if fa_Mode a = ''t'' then args else args @ [arg_text a])
           (if fa_Mode a = ''t'' then targs @ [arg_text a] else targs) m tm)"

definition args_query :: string where
  "args_query = concat [''
	SELECT p.oid,
		CASE WHEN proallargtypes IS NOT NULL THEN format_type(unnest(proallargtypes), NULL)
			ELSE format_type(unnest(proargtypes), NULL) END AS type,
		CASE WHEN proargnames IS NOT NULL THEN quote_ident(unnest(proargnames)) ELSE '', [SQ, SQ], '' END AS name,
		CASE WHEN proargmodes IS NOT NULL THEN unnest(proargmodes) ELSE '', [SQ, SQ], '' END AS mode
	FROM pg_proc p
		JOIN pg_namespace n ON p.pronamespace = n.oid'']"

definition GetFunctionArgsAndIdentArgs :: "(string \<Rightarrow> func_arg list res) \<Rightarrow> ((32 word, string) gomap \<times> (32 word, string) gomap) res" where
  "GetFunctionArgsAndIdentArgs select =
     rbind (must_select select args_query) (\<lambda>rows. Inr (args_loop rows 0 [] [] [] []))"

definition GetFunctionReturnTypes :: "filters \<Rightarrow> (string \<Rightarrow> Function list res) \<Rightarrow> (32 word, Function) gomap res" where
  "GetFunctionReturnTypes flt select =
     rbind (must_select select (concat [''
	SELECT p.oid,
		proretset,
		CASE WHEN proretset = 't' THEN 'SETOF ' || format_type(prorettype, NULL)
			ELSE format_type(prorettype, NULL) END AS resulttype
	FROM pg_proc p
		JOIN pg_namespace n ON p.pronamespace = n.oid
	WHERE '', SchemaFilterClause flt ''n''])) (\<lambda>rows. Inr (index_by fn_Oid id rows))"

definition complete4 :: "(32 word, string) gomap \<Rightarrow> (32 word, string) gomap \<Rightarrow> (32 word, Function) gomap \<Rightarrow> Function \<Rightarrow> Function" where
  "complete4 arguments tableArguments rets f =
     (let oid = fn_Oid f; args = go_get0 [] arguments oid; targs = go_get0 [] tableArguments oid
      in f\<lparr>fn_Arguments := Some args, fn_IdentArgs := Some args,
           fn_ReturnsSet := (case go_get rets oid of None \<Rightarrow> False | Some r \<Rightarrow> fn_ReturnsSet r),
           fn_ResultType := (if targs \<noteq> [] then Some (''TABLE('' @ targs @ '')'')
             else case go_get rets oid of None \<Rightarrow> None | Some r \<Rightarrow> fn_ResultType r)\<rparr>)"

definition GetFunctionsAllVersions :: "'a acl_env_scheme \<Rightarrow> filters \<Rightarrow> (string \<Rightarrow> Function list res) \<Rightarrow> (string \<Rightarrow> func_arg list res) \<Rightarrow> Function list res" where
  "GetFunctionsAllVersions env flt select select_args =
     rbind (src_old env ''5'') (\<lambda>old5.
       if old5 then
         rbind (GetFunctions4 flt select) (\<lambda>fs.
         rbind (GetFunctionArgsAndIdentArgs select_args) (\<lambda>(arguments, tableArguments).
         rbind (GetFunctionReturnTypes flt select) (\<lambda>rets.
           Inr (map (complete4 arguments tableArguments rets) fs))))
       else GetFunctions env flt select)"

section \<open>Aggregates, function names and casts\<close>

definition aggregates_query :: "'a acl_env_scheme \<Rightarrow> filters \<Rightarrow> string res" where
  "aggregates_query env flt =
     rbind (src_is env ''4'') (\<lambda>is4. rbind (src_is env ''5'') (\<lambda>is5. rbind (src_is env ''6'') (\<lambda>is6.
       Inr (if is4
         then concat [''
	SELECT p.oid,
		quote_ident(n.nspname) AS schema,
		p.proname AS name,
		'', [SQ, SQ], '' AS arguments,
		'', [SQ, SQ], '' AS identargs,
		a.aggtransfn::regproc::oid,
		a.aggprelimfn::regproc::oid,
		a.aggfinalfn::regproc::oid,
		coalesce(o.oprname, '', [SQ, SQ], '') AS sortoperator,
		coalesce(quote_ident(opn.nspname), '', [SQ, SQ], '') AS sortoperatorschema,
		format_type(a.aggtranstype, NULL) as transitiondatatype,
		coalesce(a.agginitval, '', [SQ, SQ], '') AS initialvalue,
		(a.agginitval IS NULL) AS initvalisnull,
		true AS minitvalisnull,
		a.aggordered
	FROM pg_aggregate a
		LEFT JOIN pg_proc p ON a.aggfnoid = p.oid
		LEFT JOIN pg_namespace n ON p.pronamespace = n.oid
		LEFT JOIN pg_operator o ON a.aggsortop = o.oid
		LEFT JOIN pg_namespace opn ON o.oprnamespace = opn.oid
	WHERE '', SchemaFilterClause flt ''n'']
         else if is5
         then concat [''
	SELECT p.oid,
		quote_ident(n.nspname) AS schema,
		p.proname AS name,
		pg_catalog.pg_get_function_arguments(p.oid) AS arguments,
		pg_catalog.pg_get_function_identity_arguments(p.oid) AS identargs,
		a.aggtransfn::regproc::oid,
		a.aggprelimfn::regproc::oid,
		a.aggfinalfn::regproc::oid,
		coalesce(o.oprname, '', [SQ, SQ], '') AS sortoperator,
		coalesce(quote_ident(opn.nspname), '', [SQ, SQ], '') AS sortoperatorschema, 
		format_type(a.aggtranstype, NULL) as transitiondatatype,
		coalesce(a.agginitval, '', [SQ, SQ], '') AS initialvalue,
		(a.agginitval IS NULL) AS initvalisnull,
		true AS minitvalisnull,
		a.aggordered
	FROM pg_aggregate a
		LEFT JOIN pg_proc p ON a.aggfnoid = p.oid
		LEFT JOIN pg_namespace n ON p.pronamespace = n.oid
		LEFT JOIN pg_operator o ON a.aggsortop = o.oid
		LEFT JOIN pg_namespace opn ON o.oprnamespace = opn.oid
	WHERE '', SchemaFilterClause flt ''n'', ''
		AND '', ExtensionFilterClause ''p'']
         else if is6
         then concat [''
	SELECT p.oid,
		quote_ident(n.nspname) AS schema,
		p.proname AS name,
		pg_catalog.pg_get_function_arguments(p.oid) AS arguments,
		pg_catalog.pg_get_function_identity_arguments(p.oid) AS identargs,
		a.aggtransfn::regproc::oid,
		a.aggcombinefn::regproc::oid,
		a.aggserialfn::regproc::oid,
		a.aggdeserialfn::regproc::oid,
		a.aggfinalfn::regproc::oid,
		a.aggfinalextra AS finalfuncextra,
		coalesce(o.oprname, '', [SQ, SQ], '') AS sortoperator,
		coalesce(quote_ident(opn.nspname), '', [SQ, SQ], '') AS sortoperatorschema, 
		(a.aggkind = 'h') AS hypothetical,
		format_type(a.aggtranstype, NULL) as transitiondatatype,
		aggtransspace,
		coalesce(a.agginitval, '', [SQ, SQ], '') AS initialvalue,
		(a.agginitval IS NULL) AS initvalisnull,
		a.aggmtransfn::regproc::oid,
		a.aggminvtransfn::regproc::oid,
		a.aggmfinalfn::regproc::oid,
		a.aggmfinalextra AS mfinalfuncextra,
		format_type(a.aggmtranstype, NULL) as mtransitiondatatype,
		aggmtransspace,
		(a.aggminitval IS NULL) AS minitvalisnull,
		coalesce(a.aggminitval, '', [SQ, SQ], '') AS minitialvalue
	FROM pg_aggregate a
		LEFT JOIN pg_proc p ON a.aggfnoid = p.oid
		LEFT JOIN pg_namespace n ON p.pronamespace = n.oid
		LEFT JOIN pg_operator o ON a.aggsortop = o.oid
		LEFT JOIN pg_namespace opn ON o.oprnamespace = opn.oid
	WHERE '', SchemaFilterClause flt ''n'', ''
		AND '', ExtensionFilterClause ''p'']
         else concat [''
	SELECT p.oid,
		quote_ident(n.nspname) AS schema,
		p.proname AS name,
		p.proparallel as parallel,
		pg_catalog.pg_get_function_arguments(p.oid) AS arguments,
		pg_catalog.pg_get_function_identity_arguments(p.oid) AS identargs,
		a.aggtransfn::regproc::oid,
		a.aggcombinefn::regproc::oid,
		a.aggserialfn::regproc::oid,
		a.aggdeserialfn::regproc::oid,
		a.aggfinalfn::regproc::oid,
		a.aggfinalextra AS finalfuncextra,
		coalesce(o.oprname, '', [SQ, SQ], '') AS sortoperator,
		coalesce(quote_ident(opn.nspname), '', [SQ, SQ], '') AS sortoperatorschema, 
		aggkind AS kind,
		format_type(a.aggtranstype, NULL) as transitiondatatype,
		aggtransspace,
		coalesce(a.agginitval, '', [SQ, SQ], '') AS initialvalue,
		(a.agginitval IS NULL) AS initvalisnull,
		a.aggmtransfn::regproc::oid,
		a.aggminvtransfn::regproc::oid,
		a.aggmfinalfn::regproc::oid,
		a.aggmfinalextra AS mfinalfuncextra,
		format_type(a.aggmtranstype, NULL) as mtransitiondatatype,
		aggmtransspace,
		(a.aggminitval IS NULL) AS minitvalisnull,
		coalesce(a.aggminitval, '', [SQ, SQ], '') AS minitialvalue,
		a.aggfinalmodify AS finalmodify,
		a.aggmfinalmodify AS mfinalmodify
	FROM pg_aggregate a
		LEFT JOIN pg_proc p ON a.aggfnoid = p.oid
		LEFT JOIN pg_namespace n ON p.pronamespace = n.oid
		LEFT JOIN pg_operator o ON a.aggsortop = o.oid
		LEFT JOIN pg_namespace opn ON o.oprnamespace = opn.oid
	WHERE '', SchemaFilterClause flt ''n'', ''
		AND '', ExtensionFilterClause ''p'']))))"

definition GetAggregates :: "'a acl_env_scheme \<Rightarrow> filters \<Rightarrow> (string \<Rightarrow> Aggregate list res) \<Rightarrow> (string \<Rightarrow> func_arg list res) \<Rightarrow> Aggregate list res" where
  "GetAggregates env flt select select_args =
     rbind (aggregates_query env flt) (\<lambda>query.
     rbind (must_select select query) (\<lambda>rows.
     let rows = map (\<lambda>a. if agg_MTransitionDataType a = ''-'' then a\<lparr>agg_MTransitionDataType := []\<rparr> else a) rows in
     rbind (src_old env ''5'') (\<lambda>old5.
       if old5 then
         rbind (GetFunctionArgsAndIdentArgs select_args) (\<lambda>(arguments, _).
           Inr (map (\<lambda>a. a\<lparr>agg_Arguments := Some (go_get0 [] arguments (agg_Oid a)), agg_IdentArgs := Some (go_get0 [] arguments (agg_Oid a))\<rparr>) rows))
       else Inr (filter (\<lambda>a. agg_Arguments a \<noteq> None \<and> agg_IdentArgs a \<noteq> None) rows))))"

definition info_of_row :: "FunctionInfo \<Rightarrow> FunctionInfo" where
  "info_of_row i = i\<lparr>fi_IsInternal := fi_IsInternal i \<or> fi_Schema i = ''pg_catalog'', fi_QualifiedName := fqn (fi_Schema i) (fi_Name i)\<rparr>"

definition GetFunctionOidToInfoMap :: "'a acl_env_scheme \<Rightarrow> (string \<Rightarrow> FunctionInfo list res) \<Rightarrow> (string \<Rightarrow> func_arg list res) \<Rightarrow> func_infos res" where
  "GetFunctionOidToInfoMap env select select_args =
     rbind (src_old env ''5'') (\<lambda>old5.
     rbind (if old5 then
              rbind (GetFunctionArgsAndIdentArgs select_args) (\<lambda>(arguments, _).
              rbind (must_select select (''
	SELECT p.oid,
		quote_ident(n.nspname) AS schema,
		quote_ident(p.proname) AS name
	FROM pg_proc p
		LEFT JOIN pg_namespace n ON p.pronamespace = n.oid'')) (\<lambda>rows.
                Inr (map (\<lambda>i. i\<lparr>fi_Arguments := Some (go_get0 [] arguments (fi_Oid i)), fi_IdentArgs := Some (go_get0 [] arguments (fi_Oid i))\<rparr>) rows)))
            else must_select select (''
	SELECT p.oid,
		quote_ident(n.nspname) AS schema,
		quote_ident(p.proname) AS name,
		pg_catalog.pg_get_function_arguments(p.oid) AS arguments,
		pg_catalog.pg_get_function_identity_arguments(p.oid) AS identargs
	FROM pg_proc p
		LEFT JOIN pg_namespace n ON p.pronamespace = n.oid'')) (\<lambda>rows.
       Inr (index_by fi_Oid id (map info_of_row (filter (\<lambda>i. fi_Arguments i \<noteq> None \<and> fi_IdentArgs i \<noteq> None) rows)))))"

definition casts_query :: "'a acl_env_scheme \<Rightarrow> filters \<Rightarrow> string res" where
  "casts_query env flt =
     rbind (src_old env ''5'') (\<lambda>old5. rbind (src_at_least env ''6'') (\<lambda>at6.
       let argStr = (if old5 then concat [[SQ, SQ], '' AS functionargs, coalesce(p.oid, 0::oid) AS functionoid,''] else concat [''coalesce(pg_get_function_arguments(p.oid), '', [SQ, SQ], '') AS functionargs,'']);
           methodStr = (if at6 then ''castmethod,'' else ''CASE WHEN c.castfunc = 0 THEN 'b' ELSE 'f' END AS castmethod,'')
       in Inr ((concat [''
	SELECT
		c.oid,
		quote_ident(sn.nspname) || '.' || quote_ident(st.typname) AS sourcetypefqn,
		quote_ident(tn.nspname) || '.' || quote_ident(tt.typname) AS targettypefqn,
		coalesce(quote_ident(n.nspname), '', [SQ, SQ], '') AS functionschema,
		coalesce(quote_ident(p.proname), '', [SQ, SQ], '') AS functionname,
		'', argStr, ''
		'', methodStr, ''
		c.castcontext
	FROM pg_cast c
		JOIN pg_type st ON c.castsource = st.oid
		JOIN pg_type tt ON c.casttarget = tt.oid
		JOIN pg_namespace sn ON st.typnamespace = sn.oid
		JOIN pg_namespace tn ON tt.typnamespace = tn.oid
		LEFT JOIN pg_proc p ON c.castfunc = p.oid
		LEFT JOIN pg_description d ON c.oid = d.objoid
		LEFT JOIN pg_namespace n ON p.pronamespace = n.oid
	WHERE (('', SchemaFilterClause flt ''sn'', '') OR ('', SchemaFilterClause flt ''tn'', '') OR ('', SchemaFilterClause flt ''n'', ''))
		AND '', ExtensionFilterClause ''c'', ''
	'']) @
         NL @ '' UNION '' @ NL @
         (concat [''
	SELECT
		c.oid,
		quote_ident(sn.nspname) || '.' || quote_ident(st.typname) AS sourcetypefqn,
		quote_ident(tn.nspname) || '.' || quote_ident(tt.typname) AS targettypefqn,
		coalesce(quote_ident(n.nspname), '', [SQ, SQ], '') AS functionschema,
		coalesce(quote_ident(p.proname), '', [SQ, SQ], '') AS functionname,
		'', argStr, ''
		'', methodStr, ''
		c.castcontext
	FROM pg_cast c
		JOIN pg_type st ON c.castsource = st.oid
		JOIN pg_type tt ON c.casttarget = tt.oid
		JOIN pg_namespace sn ON st.typnamespace = sn.oid
		JOIN pg_namespace tn ON tt.typnamespace = tn.oid
		LEFT JOIN pg_proc p ON c.castfunc = p.oid
		LEFT JOIN pg_description d ON c.oid = d.objoid
		LEFT JOIN pg_namespace n ON p.pronamespace = n.oid
	WHERE (('', SchemaFilterClauseNotFilterPgCatalog flt ''sn'', '') OR ('', SchemaFilterClauseNotFilterPgCatalog flt ''tn'', '') OR ('', SchemaFilterClauseNotFilterPgCatalog flt ''n'', ''))
		AND '', ExtensionFilterClause ''c'', ''
		AND c.oid > '', FIRST_NORMAL_OBJECT_ID, ''
	ORDER BY 1, 2'']))))"

definition GetCasts :: "'a acl_env_scheme \<Rightarrow> filters \<Rightarrow> (string \<Rightarrow> Cast list res) \<Rightarrow> (string \<Rightarrow> func_arg list res) \<Rightarrow> Cast list res" where
  "GetCasts env flt select select_args =
     rbind (casts_query env flt) (\<lambda>query.
     rbind (must_select select query) (\<lambda>rows.
     rbind (src_old env ''5'') (\<lambda>old5.
       if old5 then
         rbind (GetFunctionArgsAndIdentArgs select_args) (\<lambda>(arguments, _).
           Inr (map (\<lambda>c. c\<lparr>cast_FunctionArgs := go_get0 [] arguments (cast_FunctionOid c)\<rparr>) rows))
       else Inr rows)))"

section \<open>Objects taken as they are\<close>

definition GetExtensions :: "(string \<Rightarrow> Extension list res) \<Rightarrow> Extension list res" where
  "GetExtensions select = must_select select (concat [''
	SELECT e.oid,
		quote_ident(extname) AS name,
		quote_ident(n.nspname) AS schema
	FROM pg_extension e
		JOIN pg_namespace n ON e.extnamespace = n.oid
	WHERE e.oid >= '', FIRST_NORMAL_OBJECT_ID])"

definition GetProceduralLanguages :: "'a acl_env_scheme \<Rightarrow> (string \<Rightarrow> ProceduralLanguage list res) \<Rightarrow> ProceduralLanguage list res" where
  "GetProceduralLanguages env select =
     rbind (src_old env ''5'') (\<lambda>old5.
       must_select select (if old5 then concat [''
	SELECT oid,
		quote_ident(l.lanname) AS name,
		pg_get_userbyid(10) AS owner, 
		l.lanispl,
		l.lanpltrusted,
		l.lanplcallfoid::regprocedure::oid,
		0 AS laninline,
		l.lanvalidator::regprocedure::oid
	FROM pg_language l
	WHERE l.lanispl='t'
		AND l.lanname != 'plpgsql'', [SQ]] else concat [''
	SELECT oid,
		quote_ident(l.lanname) AS name,
		pg_get_userbyid(l.lanowner) AS owner,
		l.lanispl,
		l.lanpltrusted,
		l.lanplcallfoid::regprocedure::oid,
		l.laninline::regprocedure::oid,
		l.lanvalidator::regprocedure::oid
	FROM pg_language l
	WHERE l.lanispl='t'
		AND l.lanname != 'plpgsql'
		AND '', ExtensionFilterClause ''l'']))"

definition GetTransforms :: "(string \<Rightarrow> Transform list res) \<Rightarrow> Transform list res" where
  "GetTransforms select = must_select select (''
	SELECT trf.oid,
		quote_ident(ns.nspname) AS typnamespace,
		quote_ident(tp.typname) AS typname,
		l.lanname,
		trf.trffromsql::oid,
		trf.trftosql::oid
	FROM pg_transform trf
		JOIN pg_type tp ON trf.trftype=tp.oid
		JOIN pg_namespace ns ON tp.typnamespace = ns.oid
		JOIN pg_language l ON trf.trflang=l.oid;'')"

definition GetConversions :: "filters \<Rightarrow> (string \<Rightarrow> Conversion list res) \<Rightarrow> Conversion list res" where
  "GetConversions flt select = must_select select (concat [''
	SELECT c.oid,
		quote_ident(n.nspname) AS schema,
		quote_ident(c.conname) AS name,
		pg_encoding_to_char(c.conforencoding) AS forencoding,
		pg_encoding_to_char(c.contoencoding) AS toencoding,
		quote_ident(fn.nspname) || '.' || quote_ident(p.proname) AS conversionfunction,
		c.condefault
	FROM pg_conversion c
		JOIN pg_namespace n ON c.connamespace = n.oid
		JOIN pg_proc p ON c.conproc = p.oid
		JOIN pg_namespace fn ON p.pronamespace = fn.oid
	WHERE '', SchemaFilterClause flt ''n'', ''
		AND '', ExtensionFilterClause ''c'', ''
	ORDER BY n.nspname, c.conname''])"

definition GetForeignDataWrappers :: "(string \<Rightarrow> ForeignDataWrapper list res) \<Rightarrow> ForeignDataWrapper list res" where
  "GetForeignDataWrappers select = must_select select (concat [''
	SELECT oid,
		quote_ident(fdwname) AS name,
		fdwvalidator AS validator,
		fdwhandler AS handler,
		array_to_string(ARRAY(
			SELECT pg_catalog.quote_ident(option_name) || ' ' || pg_catalog.quote_literal(option_value)
			FROM pg_options_to_table(fdwoptions) ORDER BY option_name), ', ') AS options
	FROM pg_foreign_data_wrapper
	WHERE oid >= '', FIRST_NORMAL_OBJECT_ID, '' AND '', ExtensionFilterClause []])"

definition GetForeignServers :: "(string \<Rightarrow> ForeignServer list res) \<Rightarrow> ForeignServer list res" where
  "GetForeignServers select = must_select select (concat [''
	SELECT fs.oid,
		quote_ident(fs.srvname) AS name,
		coalesce(fs.srvtype, '', [SQ, SQ], '') AS type,
		coalesce(fs.srvversion, '', [SQ, SQ], '') AS version,
		quote_ident(fdw.fdwname) AS foreigndatawrapper,
		array_to_string(ARRAY(
			SELECT pg_catalog.quote_ident(option_name) || ' ' || pg_catalog.quote_literal(option_value)
			FROM pg_options_to_table(fs.srvoptions) ORDER BY option_name), ', ') AS options
	FROM pg_foreign_server fs
		LEFT JOIN pg_foreign_data_wrapper fdw ON fdw.oid = srvfdw
	WHERE fs.oid >= '', FIRST_NORMAL_OBJECT_ID, '' AND '', ExtensionFilterClause ''fs''])"

definition GetUserMappings :: "(string \<Rightarrow> UserMapping list res) \<Rightarrow> UserMapping list res" where
  "GetUserMappings select = must_select select (''
	SELECT um.umid AS oid,
		quote_ident(um.usename) AS user,
		quote_ident(um.srvname) AS server,
		array_to_string(ARRAY(
			SELECT pg_catalog.quote_ident(option_name) || ' ' || pg_catalog.quote_literal(option_value)
			FROM pg_options_to_table(um.umoptions) ORDER BY option_name), ', ') AS options
	FROM pg_user_mappings um
	WHERE um.umid NOT IN (select objid from pg_depend where deptype = 'e')
	ORDER by um.usename'')"

definition GetExtendedStatistics :: "(string \<Rightarrow> StatisticExt list res) \<Rightarrow> StatisticExt list res" where
  "GetExtendedStatistics select = must_select select (concat [''
	SELECT 	se.oid,
			stxname AS name,
			regexp_replace(pg_catalog.pg_get_statisticsobjdef(se.oid), '(.* FROM ).*', '', [SQ], [CHR 0x5C], ''1' || quote_ident(c.relnamespace::regnamespace::text) || '.' || quote_ident(c.relname)) AS definition,
			quote_ident(se.stxnamespace::regnamespace::text) AS namespace,
			se.stxowner::regrole AS owner,
			quote_ident(c.relnamespace::regnamespace::text) AS tableschema,
			quote_ident(c.relname) AS tablename
	FROM pg_catalog.pg_statistic_ext se
	JOIN pg_catalog.pg_class c ON se.stxrelid = c.oid;''])"

section \<open>Arguments of functions\<close>

text \<open>The arguments of a function: those of its own list and those of its result table.\<close>

definition own_args :: "bool \<Rightarrow> func_arg list \<Rightarrow> 32 word \<Rightarrow> string list" where
  "own_args of_table rows oid = map arg_text (filter (\<lambda>a. fa_Oid a = oid \<and> (fa_Mode a = ''t'') = of_table) rows)"

text \<open>
  The loop, with the rows of \<open>lastOid\<close> seen so far: nothing of it is in the maps yet. The rows of one
  function follow each other when each number begins only one run.
\<close>

definition runs_once :: "func_arg list \<Rightarrow> bool" where
  "runs_once rows \<longleftrightarrow> distinct (remdups_adj (map fa_Oid rows))"

lemma own_args_none: "oid \<notin> fa_Oid ` set rows \<Longrightarrow> own_args tab rows oid = []"
  by (auto simp: own_args_def filter_empty_conv)

lemma own_args_Cons:
  "own_args tab (a # rows) oid = (if fa_Oid a = oid \<and> (fa_Mode a = ''t'') = tab then [arg_text a] else []) @ own_args tab rows oid"
  by (simp add: own_args_def)

lemma args_loop_after:
  assumes "lastOid \<noteq> 0" and "0 \<notin> fa_Oid ` set rows"
    and "distinct (remdups_adj (lastOid # map fa_Oid rows))"
  shows "go_get0 [] (fst (args_loop rows lastOid args targs m tm)) oid =
      (if oid = lastOid then Join (args @ own_args False rows oid) '', ''
       else if oid \<in> fa_Oid ` set rows then Join (own_args False rows oid) '', '' else go_get0 [] m oid) \<and>
    go_get0 [] (snd (args_loop rows lastOid args targs m tm)) oid =
      (if oid = lastOid then Join (targs @ own_args True rows oid) '', ''
       else if oid \<in> fa_Oid ` set rows then Join (own_args True rows oid) '', '' else go_get0 [] tm oid)"
  using assms
proof (induction rows arbitrary: lastOid args targs m tm)
  case Nil
  then show ?case by (simp add: go_get0_set own_args_def)
next
  case (Cons a rows)
  have once: "distinct (remdups_adj (fa_Oid a # map fa_Oid rows))" and nz: "fa_Oid a \<noteq> 0" "0 \<notin> fa_Oid ` set rows"
    using Cons.prems by (auto split: if_splits)
  note IH = Cons.IH[OF nz once]
  show ?case
  proof (cases "fa_Oid a = lastOid")
    case True
    with IH show ?thesis by (simp add: own_args_Cons Let_def)
  next
    case False
    with Cons.prems have "lastOid \<notin> fa_Oid ` set rows" by (auto split: if_splits)
    with False IH Cons.prems(1) show ?thesis
      by (auto simp: own_args_Cons own_args_none Let_def go_get0_set)
  qed
qed

text \<open>
  On a Greenplum 4 source the argument lists are put together from rows of single
  arguments. If the rows of each function follow each other and no function has number zero, the
  maps have for every function exactly its arguments, in the order of the rows: those of the
  result table in the second map, all others in the first.
\<close>

theorem function_args_complete:
  assumes "select args_query = Inr rows"
    and "runs_once rows" and "0 \<notin> fa_Oid ` set rows" and "oid \<noteq> 0"
  shows "\<exists>args targs. GetFunctionArgsAndIdentArgs select = Inr (args, targs) \<and>
    go_get0 [] args oid = Join (own_args False rows oid) '', '' \<and> go_get0 [] targs oid = Join (own_args True rows oid) '', ''"
proof -
  have "go_get0 [] (fst (args_loop rows 0 [] [] [] [])) oid = Join (own_args False rows oid) '', '' \<and>
      go_get0 [] (snd (args_loop rows 0 [] [] [] [])) oid = Join (own_args True rows oid) '', ''"
  proof (cases rows)
    case Nil
    with assms(4) show ?thesis by (simp add: go_get0_def own_args_def)
  next
    case (Cons a as)
    with assms have "fa_Oid a \<noteq> 0" "0 \<notin> fa_Oid ` set as" "distinct (remdups_adj (fa_Oid a # map fa_Oid as))"
      by (auto simp: runs_once_def)
    note after = args_loop_after[OF this]
    from after[of "if fa_Mode a = ''t'' then [] else [arg_text a]" "if fa_Mode a = ''t'' then [arg_text a] else []" "[]" "[]" oid] Cons assms(4)
    show ?thesis by (auto simp: own_args_Cons own_args_none Let_def)
  qed
  moreover have "GetFunctionArgsAndIdentArgs select = Inr (args_loop rows 0 [] [] [] [])"
    using assms(1) by (simp add: GetFunctionArgsAndIdentArgs_def must_select_def FatalOnError_def)
  ultimately show ?thesis by (metis prod.collapse)
qed

definition demo_arg :: "32 word \<Rightarrow> string \<Rightarrow> string \<Rightarrow> func_arg" where
  "demo_arg oid n mode = \<lparr>fa_Oid = oid, fa_Type = ''int'', fa_Name = n, fa_Mode = mode\<rparr>"

theorem function_args_complete_witness:
  "\<exists>args targs. GetFunctionArgsAndIdentArgs (\<lambda>_. Inr [demo_arg 7 ''a'' [], demo_arg 7 ''b'' ''o'', demo_arg 9 [DQ, DQ] [], demo_arg 9 ''r'' ''t'']) = Inr (args, targs) \<and>
    go_get0 [] args 7 = ''a int, OUT b int'' \<and> go_get0 [] targs 7 = []"
  using function_args_complete[of "\<lambda>_. Inr [demo_arg 7 ''a'' [], demo_arg 7 ''b'' ''o'', demo_arg 9 [DQ, DQ] [], demo_arg 9 ''r'' ''t'']"
      "[demo_arg 7 ''a'' [], demo_arg 7 ''b'' ''o'', demo_arg 9 [DQ, DQ] [], demo_arg 9 ''r'' ''t'']" 7]
  by (simp add: demo_arg_def runs_once_def own_args_def arg_text_def)

text \<open>The query has no ORDER BY; rows of one function that do not follow each other lose arguments.\<close>

lemma scattered_args_lost:
  "go_get0 [] (fst (args_loop [demo_arg 7 ''a'' [], demo_arg 9 ''c'' [], demo_arg 7 ''b'' []] 0 [] [] [] [])) 7 = ''b int''"
  by (simp add: demo_arg_def arg_text_def go_get0_def Let_def)

section \<open>Quoting settings again\<close>

text \<open>
  How the server writes an entry of a setting that is a list: in double quotes, with those inside
  doubled, or as it is.
\<close>

definition doubled :: "string \<Rightarrow> string" where
  "doubled s = concat (map (\<lambda>c. if c = DQ then [DQ, DQ] else [c]) s)"

definition list_entry :: "string \<Rightarrow> string \<Rightarrow> bool" where
  "list_entry written item \<longleftrightarrow> written = DQ # doubled item @ [DQ] \<or>
     (written = item \<and> item \<noteq> [] \<and> hd item \<noteq> DQ \<and> hd item \<noteq> CHR '' '' \<and> last item \<noteq> CHR '' '')"

lemma replace_doubled: "n < 0 \<Longrightarrow> replace_at [DQ, DQ] [DQ] n (doubled s) = s"
  by (induction s arbitrary: n) (auto simp: doubled_def)

lemma trim_written:
  assumes "list_entry written item"
  shows "Trim_blanks written = written" "Trim_blanks (CHR '' '' # written) = written"
proof -
  have "written \<noteq> []" "hd written \<noteq> CHR '' ''" "last written \<noteq> CHR '' ''" using assms by (auto simp: list_entry_def)
  then obtain ws w where "written = ws @ [w]" "w \<noteq> CHR '' ''" by (metis append_butlast_last_id)
  moreover from this \<open>hd written \<noteq> CHR '' ''\<close> have "dropWhile (\<lambda>c. c = CHR '' '') written = written" by (cases ws) auto
  ultimately show "Trim_blanks written = written" "Trim_blanks (CHR '' '' # written) = written"
    by (simp_all add: Trim_blanks_def)
qed

lemma unescape_written: "list_entry written item \<Longrightarrow> UnescapeDoubleQuote written = item"
  by (auto simp: list_entry_def UnescapeDoubleQuote_def Replace_def replace_doubled butlast_append)

lemma Join_blank: "Join (x # xs) '', '' = Join (x # map (\<lambda>y. CHR '' '' # y) xs) '',''"
proof (induction xs arbitrary: x)
  case (Cons a xs)
  have "CHR '' '' # Join (a # ys) '','' = Join ((CHR '' '' # a) # ys) '',''" for ys by (cases ys) simp_all
  with Cons show ?case by simp
qed simp

lemma comma_written: "list_entry written item \<Longrightarrow> CHR '','' \<notin> set item \<Longrightarrow> CHR '','' \<notin> set written"
  by (auto simp: list_entry_def doubled_def split: if_splits)

text \<open>
  A setting that is a list, such as the search path of a function, is written by the
  server with double quotes and needs single quotes in \<open>SET\<close>. For entries without a comma the result
  is the list of the entries themselves, each in single quotes, whatever double quotes they have.
\<close>

theorem list_setting_requoted:
  assumes "name \<in> set list_settings" and "list_all2 list_entry texts items" and "texts \<noteq> []"
    and "\<forall>x\<in>set items. CHR '','' \<notin> set x"
  shows "QuoteGUCValue name (Join texts '', '') = Join (map in_quotes items) '', ''"
proof -
  obtain t ts where texts: "texts = t # ts" using assms(3) by (cases texts) auto
  obtain i js where items: "items = i # js" "list_entry t i" "list_all2 list_entry ts js"
    using assms(2) texts by (auto simp: list_all2_Cons1)
  have fresh: "\<forall>x\<in>set texts. CHR '','' \<notin> set x"
    using assms(2,4) comma_written by (fastforce simp: list_all2_conv_all_nth in_set_conv_nth)
  then have "\<forall>x\<in>set (t # map (\<lambda>y. CHR '' '' # y) ts). CHR '','' \<notin> set x" using texts by auto
  from Split_Join[OF _ this] have split: "Split CHR '','' (Join texts '', '') = t # map (\<lambda>y. CHR '' '' # y) ts"
    by (simp add: texts Join_blank)
  have "map (\<lambda>y. UnescapeDoubleQuote (Trim_blanks (CHR '' '' # y))) ts = js"
    using items(3) by (induction rule: list_all2_induct) (simp_all add: trim_written unescape_written)
  then have "map (\<lambda>y. in_quotes (UnescapeDoubleQuote (Trim_blanks (CHR '' '' # y)))) ts = map in_quotes js"
    by (auto simp: map_eq_conv)
  with assms(1) split items(1,2) show ?thesis
    by (simp add: QuoteGUCValue_def trim_written unescape_written o_def)
qed

theorem list_setting_requoted_witness:
  "QuoteGUCValue ''search_path'' (Join [''public'', DQ # ''My'' @ [DQ, DQ] @ ''S'' @ [DQ]] '', '') = Join (map in_quotes [''public'', ''My'' @ [DQ] @ ''S'']) '', ''"
  by (rule list_setting_requoted) (simp_all add: list_settings_def list_entry_def doubled_def)

text \<open>An entry with a comma is cut in two.\<close>

lemma comma_entry_cut:
  "QuoteGUCValue ''search_path'' (DQ # ''a,b'' @ [DQ]) = Join (map in_quotes [DQ # ''a'', ''b'' @ [DQ]]) '', ''"
  by (simp add: QuoteGUCValue_def list_settings_def Trim_blanks_def UnescapeDoubleQuote_def)

lemma cut_none: "CHR '' '' \<notin> set w \<Longrightarrow> cut_at_last_to w = None"
  by (induction w) auto

lemma cut_last: "CHR '' '' \<notin> set w \<Longrightarrow> cut_at_last_to (p @ '' TO '' @ w) = Some (p, w)"
proof (induction p)
  case Nil
  then have "\<not> prefix '' TO '' (CHR '' '' # w)" by (auto simp: prefix_def)
  with Nil show ?case by (simp add: cut_none)
qed simp

text \<open>
  A function with two settings has them in one text, and the pattern takes everything up
  to the last \<open>TO\<close> for the name of one setting. So the first value is not quoted but becomes part of
  a name that is changed to lower case, and what is printed does not set the first variable to
  its value.
\<close>

theorem first_setting_spoilt:
  assumes "fn_Config f = ''SET '' @ a @ '' TO '' @ v @ '' SET '' @ b @ '' TO '' @ w"
    and "CHR 0x0A \<notin> set (fn_Config f)" and "CHR '' '' \<notin> set w"
  shows "PostProcessFunctionConfigs [f] =
    Inr [f\<lparr>fn_Config := ''SET '' @ ToLower a @ '' to '' @ ToLower v @ '' set '' @ ToLower b @ '' TO '' @ in_quotes w\<rparr>]"
proof -
  let ?p = "a @ '' TO '' @ v @ '' SET '' @ b"
  have "match_setting (fn_Config f) = Some (?p, w)"
    using assms cut_last[of w ?p] by (simp add: match_setting_def)
  moreover have low: "ToLower ?p = ToLower a @ '' to '' @ ToLower v @ '' set '' @ ToLower b"
  proof -
    have "ToLower '' TO '' = '' to ''" "ToLower '' SET '' = '' set ''" by code_simp+
    then show ?thesis by (simp only: ToLower_append)
  qed
  moreover have "QuoteGUCValue (ToLower ?p) w = in_quotes w"
  proof -
    have "CHR '' '' \<in> set (ToLower ?p)" by (simp only: low) simp
    moreover have "\<forall>x\<in>set list_settings. CHR '' '' \<notin> set x" by (simp add: list_settings_def)
    ultimately have "ToLower ?p \<notin> set list_settings" by blast
    then show ?thesis by (simp add: QuoteGUCValue_def)
  qed
  ultimately show ?thesis using assms(1) by simp
qed

theorem first_setting_spoilt_witness:
  "\<forall>f. PostProcessFunctionConfigs [f\<lparr>fn_Config := ''SET app TO MyApp SET work_mem TO 64MB''\<rparr>] =
     Inr [f\<lparr>fn_Config := ''SET app to myapp set work_mem TO '' @ in_quotes ''64MB''\<rparr>]"
proof
  fix f
  have "ToLower ''app'' = ''app''" "ToLower ''MyApp'' = ''myapp''" "ToLower ''work_mem'' = ''work_mem''" by code_simp+
  then show "PostProcessFunctionConfigs [f\<lparr>fn_Config := ''SET app TO MyApp SET work_mem TO 64MB''\<rparr>] =
      Inr [f\<lparr>fn_Config := ''SET app to myapp set work_mem TO '' @ in_quotes ''64MB''\<rparr>]"
    using first_setting_spoilt[of "f\<lparr>fn_Config := ''SET app TO MyApp SET work_mem TO 64MB''\<rparr>" "''app''" "''MyApp''" "''work_mem''" "''64MB''"] by simp
qed

end
