(* ===== verification/QueryTypes.thy ===== *)
theory QueryTypes
  imports Queries PrintOperators
begin

text \<open>
  The queries for types and collations (\<open>src/meta/builtin/queries_types.go\<close>), operators, families and
  classes (\<open>queries_operators.go\<close>) and text search objects (\<open>queries_textsearch.go\<close>), with what the code
  does with the rows. Attributes, members of a class and token mappings come from queries of their
  own and are put together by object number; the token types of a parser are asked for once and
  kept. The results say that putting them together loses nothing and that keeping them makes no
  difference.
\<close>

section \<open>Types\<close>

definition base_types_query :: "'a acl_env_scheme \<Rightarrow> filters \<Rightarrow> string res" where
  "base_types_query env flt =
     rbind (src_is env ''4'') (\<lambda>is4.
     rbind (if is4 then Inr False else src_is env ''5'') (\<lambda>is5.
       Inr (if is4
         then concat [''
	SELECT t.oid,
		quote_ident(n.nspname) AS schema,
		quote_ident(t.typname) AS name,
		t.typinput AS input,
		t.typoutput AS output,
		t.typreceive AS receive,
		t.typsend AS send,
		t.typlen AS internallength,
		t.typbyval AS ispassedbyvalue,
		CASE WHEN t.typalign = '-' THEN '', [SQ, SQ], '' ELSE t.typalign END AS alignment,
		t.typstorage AS storage,
		coalesce(t.typdefault, '', [SQ, SQ], '') AS defaultval,
		CASE WHEN t.typelem != 0::regproc THEN pg_catalog.format_type(t.typelem, NULL) ELSE '', [SQ, SQ], '' END AS element,
		'U' AS category,
		t.typdelim AS delimiter,
		coalesce(array_to_string(e.typoptions, ', '), '', [SQ, SQ], '') AS storageoptions
	FROM pg_type t
		JOIN pg_namespace n ON t.typnamespace = n.oid
		LEFT JOIN pg_type_encoding e ON t.oid = e.typid
		/*
		 * Identify if this is an automatically generated array type and exclude it if so.
		 * In GPDB 4, all automatically-generated array types are guaranteed to be
		 * the name of the corresponding base type prepended with an underscore.
		 */
		LEFT JOIN pg_type ut ON ( --ut for underlying type
			t.typelem = ut.oid
			AND length(t.typname) > 1
			AND t.typname[0] = '_'
			AND substring(t.typname FROM 2) = ut.typname)
	WHERE '', SchemaFilterClause flt ''n'', ''
		AND t.typtype = 'b'
		AND ut.oid IS NULL
		AND '', ExtensionFilterClause ''t'']
         else if is5
         then concat [''
	SELECT t.oid,
		quote_ident(n.nspname) AS schema,
		quote_ident(t.typname) AS name,
		t.typinput AS input,
		t.typoutput AS output,
		CASE WHEN t.typreceive = '-'::regproc THEN '', [SQ, SQ], '' ELSE t.typreceive::regproc::text END AS receive,
		CASE WHEN t.typsend = '-'::regproc THEN '', [SQ, SQ], '' ELSE t.typsend::regproc::text END AS send,
		CASE WHEN t.typmodin = '-'::regproc THEN '', [SQ, SQ], '' ELSE t.typmodin::regproc::text END AS modin,
		CASE WHEN t.typmodout = '-'::regproc THEN '', [SQ, SQ], '' ELSE t.typmodout::regproc::text END AS modout,
		t.typlen AS internallength,
		t.typbyval AS ispassedbyvalue,
		CASE WHEN t.typalign = '-' THEN '', [SQ, SQ], '' ELSE t.typalign END AS alignment,
		t.typstorage AS storage,
		coalesce(t.typdefault, '', [SQ, SQ], '') AS defaultval,
		CASE WHEN t.typelem != 0::regproc THEN pg_catalog.format_type(t.typelem, NULL) ELSE '', [SQ, SQ], '' END AS element,
		'U' AS category,
		t.typdelim AS delimiter,
		coalesce(array_to_string(e.typoptions, ', '), '', [SQ, SQ], '') AS storageoptions
	FROM pg_type t
		JOIN pg_namespace n ON t.typnamespace = n.oid
		LEFT JOIN pg_type_encoding e ON t.oid = e.typid
		/*
		 * Identify if this is an automatically generated array type and exclude it if so.
		 * In GPDB 5 and 6 we use the typearray field to identify these array types.
		 */
		LEFT JOIN pg_type ut ON t.oid = ut.typarray
	WHERE '', SchemaFilterClause flt ''n'', ''
		AND t.typtype = 'b'
		AND ut.oid IS NULL
		AND '', ExtensionFilterClause ''t'']
         else concat [''
	SELECT t.oid,
		quote_ident(n.nspname) AS schema,
		quote_ident(t.typname) AS name,
		t.typinput AS input,
		t.typoutput AS output,
		CASE WHEN t.typreceive = '-'::regproc THEN '', [SQ, SQ], '' ELSE t.typreceive::regproc::text END AS receive,
		CASE WHEN t.typsend = '-'::regproc THEN '', [SQ, SQ], '' ELSE t.typsend::regproc::text END AS send,
		CASE WHEN t.typmodin = '-'::regproc THEN '', [SQ, SQ], '' ELSE t.typmodin::regproc::text END AS modin,
		CASE WHEN t.typmodout = '-'::regproc THEN '', [SQ, SQ], '' ELSE t.typmodout::regproc::text END AS modout,
		t.typlen AS internallength,
		t.typbyval AS ispassedbyvalue,
		CASE WHEN t.typalign = '-' THEN '', [SQ, SQ], '' ELSE t.typalign END AS alignment,
		t.typstorage AS storage,
		coalesce(t.typdefault, '', [SQ, SQ], '') AS defaultval,
		CASE WHEN t.typelem != 0::regproc THEN pg_catalog.format_type(t.typelem, NULL) ELSE '', [SQ, SQ], '' END AS element,
		t.typcategory AS category,
		t.typispreferred AS preferred,
		t.typdelim AS delimiter,
		(t.typcollation <> 0) AS collatable,
		coalesce(array_to_string(typoptions, ', '), '', [SQ, SQ], '') AS storageoptions
	FROM pg_type t
		JOIN pg_namespace n ON t.typnamespace = n.oid
		LEFT JOIN pg_type_encoding e ON t.oid = e.typid
		/*
		 * Identify if this is an automatically generated array type and exclude it if so.
		 * In GPDB 5 and 6 we use the typearray field to identify these array types.
		 */
		LEFT JOIN pg_type ut ON t.oid = ut.typarray
	WHERE '', SchemaFilterClause flt ''n'', ''
		AND t.typtype = 'b'
		AND ut.oid IS NULL
		AND '', ExtensionFilterClause ''t''])))"

definition without_dash :: "string \<Rightarrow> string" where
  "without_dash s = (if s = ''-'' then [] else s)"

definition GetBaseTypes :: "'a acl_env_scheme \<Rightarrow> filters \<Rightarrow> (string \<Rightarrow> BaseType list res) \<Rightarrow> BaseType list res" where
  "GetBaseTypes env flt select =
     rbind (base_types_query env flt) (\<lambda>query.
     rbind (must_select select query) (\<lambda>rows.
     rbind (src_old env ''5'') (\<lambda>old5.
       Inr (if old5 then map (\<lambda>t. t\<lparr>bt_Send := without_dash (bt_Send t), bt_Receive := without_dash (bt_Receive t)\<rparr>) rows else rows))))"

definition getCompositeTypeAttributes :: "'a acl_env_scheme \<Rightarrow> (string \<Rightarrow> Attribute list res) \<Rightarrow> (32 word, Attribute list) gomap res" where
  "getCompositeTypeAttributes env select =
     rbind (src_old env ''6'') (\<lambda>old6.
     rbind (must_select select (if old6
         then concat [''
	SELECT t.oid AS compositetypeoid,
		quote_ident(a.attname) AS name,
		pg_catalog.format_type(a.atttypid, a.atttypmod) AS type,
		coalesce(quote_literal(d.description),'', [SQ, SQ], '') AS comment
	FROM pg_type t
		JOIN pg_class c ON t.typrelid = c.oid
		JOIN pg_attribute a ON t.typrelid = a.attrelid
		LEFT JOIN pg_description d ON (d.objoid = a.attrelid AND d.classoid = 'pg_class'::regclass AND d.objsubid = a.attnum)
	WHERE t.typtype = 'c'
		AND c.relkind = 'c'
	ORDER BY t.oid, a.attnum'']
         else concat [''
	SELECT t.oid AS compositetypeoid,
		quote_ident(a.attname) AS name,
		pg_catalog.format_type(a.atttypid, a.atttypmod) AS type,
		coalesce(quote_literal(d.description),'', [SQ, SQ], '') AS comment,
		CASE
			WHEN at.typcollation <> a.attcollation
			THEN quote_ident(cn.nspname) || '.' || quote_ident(coll.collname) ELSE '', [SQ, SQ], ''
		END AS collation
	FROM pg_type t
		JOIN pg_class c ON t.typrelid = c.oid
		JOIN pg_attribute a ON t.typrelid = a.attrelid
		LEFT JOIN pg_description d ON (d.objoid = a.attrelid AND d.classoid = 'pg_class'::regclass AND d.objsubid = a.attnum)
		LEFT JOIN pg_type at ON at.oid = a.atttypid
		LEFT JOIN pg_collation coll ON a.attcollation = coll.oid
		LEFT JOIN pg_namespace cn ON coll.collnamespace = cn.oid
	WHERE t.typtype = 'c'
		AND c.relkind = 'c'
		AND a.attisdropped = false
	ORDER BY t.oid, a.attnum''])) (\<lambda>rows.
       Inr (group_by at_CompositeTypeOid id rows)))"

definition GetCompositeTypes :: "'a acl_env_scheme \<Rightarrow> filters \<Rightarrow> (string \<Rightarrow> CompositeType list res) \<Rightarrow> (string \<Rightarrow> Attribute list res) \<Rightarrow>
    CompositeType list res" where
  "GetCompositeTypes env flt select select_atts =
     rbind (must_select select (concat [''
	SELECT t.oid,
		quote_ident(n.nspname) AS schema,
		quote_ident(t.typname) AS name
	FROM pg_type t
		JOIN pg_namespace n ON t.typnamespace = n.oid
		/*
		 * We join with pg_class to check if a type is truly a composite type
		 * (relkind='c') or implicitly generated from a relation
		 */
		JOIN pg_class c ON t.typrelid = c.oid
	WHERE '', SchemaFilterClause flt ''n'', ''
		AND t.typtype = 'c'
		AND c.relkind = 'c'
		AND '', ExtensionFilterClause ''t''])) (\<lambda>rows.
     rbind (getCompositeTypeAttributes env select_atts) (\<lambda>atts.
       Inr (map (\<lambda>t. t\<lparr>ct_Attributes := go_get0 [] atts (ct_Oid t)\<rparr>) rows)))"

definition GetDomainTypes :: "'a acl_env_scheme \<Rightarrow> filters \<Rightarrow> (string \<Rightarrow> Domain list res) \<Rightarrow> Domain list res" where
  "GetDomainTypes env flt select =
     rbind (src_old env ''6'') (\<lambda>old6.
       must_select select (if old6
         then concat [''
	SELECT t.oid,
		quote_ident(n.nspname) AS schema,
		quote_ident(t.typname) AS name,
		coalesce(t.typdefault, '', [SQ, SQ], '') AS defaultval,
		format_type(t.typbasetype, t.typtypmod) AS basetype,
		t.typnotnull AS notnull
	FROM pg_type t
		JOIN pg_namespace n ON t.typnamespace = n.oid
	WHERE '', SchemaFilterClause flt ''n'', ''
		AND t.typtype = 'd'
		AND '', ExtensionFilterClause ''t'', ''
	ORDER BY n.nspname, t.typname'']
         else concat [''
	SELECT t.oid,
		quote_ident(n.nspname) AS schema,
		quote_ident(t.typname) AS name,
		coalesce(t.typdefault, '', [SQ, SQ], '') AS defaultval,
		CASE
			WHEN t.typcollation <> u.typcollation
			THEN quote_ident(cn.nspname) || '.' || quote_ident(c.collname)
			ELSE '', [SQ, SQ], ''
		END AS collation,
		format_type(t.typbasetype, t.typtypmod) AS basetype,
		t.typnotnull AS notnull
	FROM pg_type t
		JOIN pg_namespace n ON t.typnamespace = n.oid
		LEFT JOIN pg_type u ON t.typbasetype = u.oid
		LEFT JOIN pg_collation c ON t.typcollation = c.oid
		LEFT JOIN pg_namespace cn ON c.collnamespace = cn.oid
	WHERE '', SchemaFilterClause flt ''n'', ''
		AND t.typtype = 'd'
		AND '', ExtensionFilterClause ''t'', ''
	ORDER BY n.nspname, t.typname'']))"

definition GetEnumTypes :: "'a acl_env_scheme \<Rightarrow> filters \<Rightarrow> (string \<Rightarrow> EnumType list res) \<Rightarrow> EnumType list res" where
  "GetEnumTypes env flt select =
     rbind (src_is env ''5'') (\<lambda>is5.
       let enumSortClause = (if is5 then ''ORDER BY e.oid'' else ''ORDER BY e.enumsortorder'')
       in must_select select (concat [''
	SELECT t.oid,
		quote_ident(n.nspname) AS schema,
		quote_ident(t.typname) AS name,
		enumlabels
	FROM pg_type t
		LEFT JOIN pg_namespace n ON t.typnamespace = n.oid
		LEFT JOIN (SELECT e.enumtypid,string_agg(quote_literal(e.enumlabel), E','', [CHR 0x5C], ''n'', [CHR 0x5C], ''t' '', enumSortClause, '') AS enumlabels
			FROM pg_enum e GROUP BY enumtypid) e ON t.oid = e.enumtypid
	WHERE '', SchemaFilterClause flt ''n'', ''
		AND t.typtype = 'e'
		AND '', ExtensionFilterClause ''t'', ''
	ORDER BY n.nspname, t.typname'']))"

definition GetRangeTypes :: "filters \<Rightarrow> (string \<Rightarrow> RangeType list res) \<Rightarrow> RangeType list res" where
  "GetRangeTypes flt select = must_select select (concat [''
	SELECT t.oid,
		quote_ident(n.nspname) AS schema,
		quote_ident(t.typname) AS name,
		format_type(st.oid, st.typtypmod) AS subtype,
		CASE
			WHEN c.collname IS NULL THEN '', [SQ, SQ], ''
			ELSE quote_ident(nc.nspname) || '.' || quote_ident(c.collname)
		END AS collation,
		CASE
			WHEN opc.opcname IS NULL THEN '', [SQ, SQ], ''
			ELSE quote_ident(nopc.nspname) || '.' || quote_ident(opc.opcname)
		END AS subtypeopclass,
		CASE
			WHEN r.rngcanonical = '-'::regproc THEN '', [SQ, SQ], ''
			ELSE r.rngcanonical::regproc::text
		END AS canonical,
		CASE
			WHEN r.rngsubdiff = '-'::regproc THEN '', [SQ, SQ], ''
			ELSE r.rngsubdiff::regproc::text
		END AS subtypediff
	FROM pg_range r
		JOIN pg_type t ON t.oid = r.rngtypid
		JOIN pg_namespace n ON t.typnamespace = n.oid
		JOIN pg_type st ON st.oid = r.rngsubtype
		LEFT JOIN pg_collation c ON c.oid = r.rngcollation
		LEFT JOIN pg_namespace nc ON nc.oid = c.collnamespace
		LEFT JOIN pg_opclass opc ON opc.oid = r.rngsubopc
		LEFT JOIN pg_namespace nopc ON nopc.oid = opc.opcnamespace
	WHERE '', SchemaFilterClause flt ''n'', ''
		AND t.typtype = 'r'
		AND '', ExtensionFilterClause ''t''])"

definition GetShellTypes :: "filters \<Rightarrow> (string \<Rightarrow> ShellType list res) \<Rightarrow> ShellType list res" where
  "GetShellTypes flt select = must_select select (concat [''
	SELECT t.oid,
		quote_ident(n.nspname) AS schema,
		quote_ident(t.typname) AS name
	FROM pg_type t
		JOIN pg_namespace n ON t.typnamespace = n.oid
	WHERE '', SchemaFilterClause flt ''n'', ''
		AND t.typtype = 'p'
		AND '', ExtensionFilterClause ''t'', ''
	ORDER BY n.nspname, t.typname''])"

definition GetCollations :: "'a acl_env_scheme \<Rightarrow> filters \<Rightarrow> (string \<Rightarrow> Collation list res) \<Rightarrow> Collation list res" where
  "GetCollations env flt select =
     rbind (src_old env ''7'') (\<lambda>old7.
       must_select select (if old7
         then concat [''
        SELECT c.oid,
        	quote_ident(n.nspname) AS schema,
        	quote_ident(c.collname) AS name,
        	c.collcollate AS collate,
        	c.collctype AS ctype
        FROM pg_collation c
        	JOIN pg_namespace n ON c.collnamespace = n.oid
        WHERE '', SchemaFilterClause flt ''n'']
         else concat [''
        SELECT c.oid,
        	quote_ident(n.nspname) AS schema,
        	quote_ident(c.collname) AS name,
        	c.collcollate AS collate,
        	c.collctype AS ctype,
        	c.collprovider as provider,
        	c.collisdeterministic as IsDeterministic
        FROM pg_collation c
        	JOIN pg_namespace n ON c.collnamespace = n.oid
        WHERE '', SchemaFilterClause flt ''n'']))"

section \<open>Operators\<close>

definition GetOperators :: "'a acl_env_scheme \<Rightarrow> filters \<Rightarrow> (string \<Rightarrow> Operator list res) \<Rightarrow> Operator list res" where
  "GetOperators env flt select =
     rbind (src_old env ''5'') (\<lambda>old5.
       must_select select (if old5
         then concat [''
	SELECT o.oid AS oid,
		quote_ident(n.nspname) AS schema,
		oprname AS name,
		oprcode::regproc AS procedure,
		oprleft::regtype AS leftargtype,
		oprright::regtype AS rightargtype,
		oprcom::regoper AS commutatorop,
		oprnegate::regoper AS negatorop,
		oprrest AS restrictfunction,
		oprjoin AS joinfunction,
		oprcanhash AS canhash
	FROM pg_operator o
		JOIN pg_namespace n on n.oid = o.oprnamespace
	WHERE '', SchemaFilterClause flt ''n'', '' AND oprcode != 0'']
         else concat [''
	SELECT o.oid AS oid,
		quote_ident(n.nspname) AS schema,
		oprname AS name,
		oprcode::regproc AS procedure,
		oprleft::regtype AS leftargtype,
		oprright::regtype AS rightargtype,
		oprcom::regoper AS commutatorop,
		oprnegate::regoper AS negatorop,
		oprrest AS restrictfunction,
		oprjoin AS joinfunction,
		oprcanmerge AS canmerge,
		oprcanhash AS canhash
	FROM pg_operator o
		JOIN pg_namespace n on n.oid = o.oprnamespace
	WHERE '', SchemaFilterClause flt ''n'', '' AND oprcode != 0
		AND '', ExtensionFilterClause ''o'']))"

definition GetOperatorFamilies :: "filters \<Rightarrow> (string \<Rightarrow> OperatorFamily list res) \<Rightarrow> OperatorFamily list res" where
  "GetOperatorFamilies flt select = must_select select (concat [''
	SELECT o.oid AS oid,
		quote_ident(n.nspname) AS schema,
		quote_ident(opfname) AS name,
		(SELECT quote_ident(amname) FROM pg_am WHERE oid = opfmethod) AS indexMethod
	FROM pg_opfamily o
		JOIN pg_namespace n on n.oid = o.opfnamespace
	WHERE '', SchemaFilterClause flt ''n'', ''
		AND '', ExtensionFilterClause ''o''])"

definition GetOperatorClassOperators :: "'a acl_env_scheme \<Rightarrow> (string \<Rightarrow> OperatorClassOperator list res) \<Rightarrow>
    (32 word, OperatorClassOperator list) gomap res" where
  "GetOperatorClassOperators env select =
     rbind (src_old env ''5'') (\<lambda>old5.
     rbind (if old5 then Inr False else src_is env ''5'') (\<lambda>is5.
     rbind (must_select select (if old5
         then ''
	SELECT amopclaid AS classoid,
		amopstrategy AS strategynumber,
		amopopr::pg_catalog.regoperator AS operator,
		amopreqcheck AS recheck
	FROM pg_catalog.pg_amop
	ORDER BY amopstrategy''
         else if is5
         then ''
	SELECT refobjid AS classoid,
		amopstrategy AS strategynumber,
		amopopr::pg_catalog.regoperator AS operator,
		amopreqcheck AS recheck
	FROM pg_catalog.pg_amop ao
		JOIN pg_catalog.pg_depend d ON d.objid = ao.oid
	WHERE refclassid = 'pg_catalog.pg_opclass'::pg_catalog.regclass
		AND classid = 'pg_catalog.pg_amop'::pg_catalog.regclass
	ORDER BY amopstrategy''
         else if IsCBDBFamily (acl_version env)
         then concat [''
	SELECT refobjid AS classoid,
		amopstrategy AS strategynumber,
		amopopr::pg_catalog.regoperator AS operator,
		coalesce(quote_ident(ns.nspname) || '.' || quote_ident(opf.opfname), '', [SQ, SQ], '') AS orderbyfamily
	FROM pg_catalog.pg_amop ao
		JOIN pg_catalog.pg_depend d ON d.objid = ao.oid
		LEFT JOIN pg_opfamily opf ON opf.oid = ao.amopsortfamily
		LEFT JOIN pg_namespace ns ON ns.oid = opf.opfnamespace
	WHERE refclassid = 'pg_catalog.pg_opclass'::pg_catalog.regclass
		AND classid = 'pg_catalog.pg_amop'::pg_catalog.regclass
	UNION
	SELECT opc.oid AS classoid,
		amopstrategy AS strategynumber,
		amopopr::pg_catalog.regoperator AS operator,
		coalesce(quote_ident(ns.nspname) || '.' || quote_ident(opf.opfname), '', [SQ, SQ], '') AS orderbyfamily
	FROM pg_catalog.pg_amop ao
		JOIN pg_catalog.pg_depend d ON d.objid = ao.oid
		LEFT JOIN pg_opfamily opf ON opf.oid = ao.amopsortfamily
		LEFT JOIN pg_namespace ns ON ns.oid = opf.opfnamespace
    JOIN pg_opclass opc on opc.opcfamily = d.refobjid
	WHERE refclassid = 'pg_catalog.pg_opfamily'::pg_catalog.regclass
		AND classid = 'pg_catalog.pg_amop'::pg_catalog.regclass
	ORDER BY classoid, strategynumber'']
         else concat [''
	SELECT refobjid AS classoid,
		amopstrategy AS strategynumber,
		amopopr::pg_catalog.regoperator AS operator,
		coalesce(quote_ident(ns.nspname) || '.' || quote_ident(opf.opfname), '', [SQ, SQ], '') AS orderbyfamily
	FROM pg_catalog.pg_amop ao
		JOIN pg_catalog.pg_depend d ON d.objid = ao.oid
		LEFT JOIN pg_opfamily opf ON opf.oid = ao.amopsortfamily
		LEFT JOIN pg_namespace ns ON ns.oid = opf.opfnamespace
	WHERE refclassid = 'pg_catalog.pg_opclass'::pg_catalog.regclass
		AND classid = 'pg_catalog.pg_amop'::pg_catalog.regclass
	ORDER BY amopstrategy''])) (\<lambda>rows.
       Inr (group_by oco_ClassOid id rows))))"

definition GetOperatorClassFunctions :: "'a acl_env_scheme \<Rightarrow> (string \<Rightarrow> OperatorClassFunction list res) \<Rightarrow>
    (32 word, OperatorClassFunction list) gomap res" where
  "GetOperatorClassFunctions env select =
     rbind (src_old env ''5'') (\<lambda>old5.
     rbind (must_select select (if old5
         then ''
	SELECT amopclaid AS classoid,
		amprocnum AS supportnumber,
		amproc::regprocedure AS functionname
	FROM pg_catalog.pg_amproc
	ORDER BY amprocnum''
         else ''
	SELECT refobjid AS classoid,
		amprocnum AS supportnumber,
		amproclefttype::regtype,
		amprocrighttype::regtype,
		amproc::regprocedure::text AS functionname
	FROM pg_catalog.pg_amproc ap
		JOIN pg_catalog.pg_depend d ON d.objid = ap.oid
	WHERE refclassid = 'pg_catalog.pg_opclass'::pg_catalog.regclass
		AND classid = 'pg_catalog.pg_amproc'::pg_catalog.regclass
	ORDER BY amprocnum'')) (\<lambda>rows.
       Inr (group_by ocf_ClassOid id rows)))"

definition GetOperatorClasses :: "'a acl_env_scheme \<Rightarrow> filters \<Rightarrow> (string \<Rightarrow> OperatorClass list res) \<Rightarrow>
    (string \<Rightarrow> OperatorClassOperator list res) \<Rightarrow> (string \<Rightarrow> OperatorClassFunction list res) \<Rightarrow> OperatorClass list res" where
  "GetOperatorClasses env flt select select_ops select_funcs =
     rbind (src_old env ''5'') (\<lambda>old5.
     rbind (must_select select (if old5
         then concat [''
	SELECT c.oid AS oid,
		quote_ident(cls_ns.nspname) AS schema,
		quote_ident(opcname) AS name,
		'', [SQ, SQ], '' AS familyschema,
		'', [SQ, SQ], '' AS familyname,
		(SELECT amname FROM pg_catalog.pg_am WHERE oid = opcamid) AS indexmethod,
		opcintype::pg_catalog.regtype AS type,
		opcdefault AS default,
		opckeytype::pg_catalog.regtype AS storagetype
	FROM pg_catalog.pg_opclass c
		JOIN pg_catalog.pg_namespace cls_ns ON cls_ns.oid = opcnamespace
	WHERE '', SchemaFilterClause flt ''cls_ns'']
         else concat [''
	SELECT c.oid AS oid,
		quote_ident(cls_ns.nspname) AS schema,
		quote_ident(opcname) AS name,
		quote_ident(fam_ns.nspname) AS familyschema,
		quote_ident(opfname) AS familyname,
		(SELECT amname FROM pg_catalog.pg_am WHERE oid = opcmethod) AS indexmethod,
		opcintype::pg_catalog.regtype AS type,
		opcdefault AS default,
		opckeytype::pg_catalog.regtype AS storagetype
	FROM pg_catalog.pg_opclass c
		LEFT JOIN pg_catalog.pg_opfamily f ON f.oid = opcfamily
		JOIN pg_catalog.pg_namespace cls_ns ON cls_ns.oid = opcnamespace
		JOIN pg_catalog.pg_namespace fam_ns ON fam_ns.oid = opfnamespace
	WHERE '', SchemaFilterClause flt ''cls_ns'', ''
		AND '', ExtensionFilterClause ''c''])) (\<lambda>rows.
     rbind (GetOperatorClassOperators env select_ops) (\<lambda>operators.
     rbind (GetOperatorClassFunctions env select_funcs) (\<lambda>functions.
       Inr (map (\<lambda>c. c\<lparr>opc_Operators := go_get0 [] operators (opc_Oid c), opc_Functions := go_get0 [] functions (opc_Oid c)\<rparr>) rows)))))"

section \<open>Text search\<close>

definition GetTextSearchParsers :: "filters \<Rightarrow> (string \<Rightarrow> TextSearchParser list res) \<Rightarrow> TextSearchParser list res" where
  "GetTextSearchParsers flt select = must_select select (concat [''
	SELECT p.oid,
		quote_ident(nspname) AS schema,
		quote_ident(prsname) AS name,
		prsstart::regproc::text AS startfunc,
		prstoken::regproc::text AS tokenfunc,
		prsend::regproc::text AS endfunc,
		prslextype::regproc::text AS lextypesfunc,
		CASE
			WHEN prsheadline::regproc::text = '-'
			THEN '', [SQ, SQ], '' ELSE prsheadline::regproc::text
		END AS headlinefunc 
	FROM pg_ts_parser p
		JOIN pg_namespace n ON n.oid = p.prsnamespace
	WHERE '', SchemaFilterClause flt ''n'', ''
		AND '', ExtensionFilterClause ''p'', ''
	ORDER BY prsname''])"

definition GetTextSearchTemplates :: "filters \<Rightarrow> (string \<Rightarrow> TextSearchTemplate list res) \<Rightarrow> TextSearchTemplate list res" where
  "GetTextSearchTemplates flt select = must_select select (concat [''
	SELECT p.oid,
		quote_ident(nspname) as schema,
		quote_ident(tmplname) AS name,
		CASE
			WHEN tmplinit::regproc::text = '-'
			THEN '', [SQ, SQ], '' ELSE tmplinit::regproc::text
		END AS initfunc,
		tmpllexize::regproc::text AS lexizefunc
	FROM pg_ts_template p
		JOIN pg_namespace n ON n.oid = p.tmplnamespace
	WHERE '', SchemaFilterClause flt ''n'', ''
		AND '', ExtensionFilterClause ''p'', ''
	ORDER BY tmplname''])"

definition GetTextSearchDictionaries :: "filters \<Rightarrow> (string \<Rightarrow> TextSearchDictionary list res) \<Rightarrow> TextSearchDictionary list res" where
  "GetTextSearchDictionaries flt select = must_select select (concat [''
	SELECT d.oid,
		quote_ident(dict_ns.nspname) as schema,
		quote_ident(dictname) AS name,
		quote_ident(tmpl_ns.nspname) || '.' || quote_ident(t.tmplname) AS template,
		COALESCE(dictinitoption, '', [SQ, SQ], '') AS initoption
	FROM pg_ts_dict d
		JOIN pg_ts_template t ON t.oid = d.dicttemplate
		JOIN pg_namespace tmpl_ns ON tmpl_ns.oid = t.tmplnamespace
		JOIN pg_namespace dict_ns ON dict_ns.oid = d.dictnamespace
	WHERE '', SchemaFilterClause flt ''dict_ns'', ''
		AND '', ExtensionFilterClause ''d'', ''
	ORDER BY dictname''])"

record ParserTokenType =
  TokenID :: "32 word"
  Alias :: string

record TypeMapping =
  tm_ConfigOid :: "32 word"
  tm_TokenType :: "32 word"
  tm_Dictionary :: string

record config_row =
  cr_Schema :: string
  cr_Name :: string
  cr_ConfigOid :: "32 word"
  cr_ParserOid :: "32 word"
  cr_ParserFQN :: string

type_synonym ParserTokenTypes = "(32 word, ParserTokenType list) gomap"

definition NewParserTokenTypes :: ParserTokenTypes where "NewParserTokenTypes = []"

definition token_query :: "32 word \<Rightarrow> string" where
  "token_query parserOid = ''SELECT tokid AS tokenid, alias FROM pg_catalog.ts_token_type('' @ [SQ] @ oid_text parserOid @ [SQ] @ ''::pg_catalog.oid)''"

definition alias_of :: "ParserTokenType list \<Rightarrow> 32 word \<Rightarrow> string" where
  "alias_of types tokenTypeID = (case find (\<lambda>t. TokenID t = tokenTypeID) types of None \<Rightarrow> [] | Some t \<Rightarrow> Alias t)"

definition TokenName :: "(string \<Rightarrow> ParserTokenType list res) \<Rightarrow> 32 word \<Rightarrow> 32 word \<Rightarrow> ParserTokenTypes \<Rightarrow> (string \<times> ParserTokenTypes) res" where
  "TokenName select parserOid tokenTypeID known =
     (case go_get known parserOid of
        Some types \<Rightarrow> Inr (alias_of types tokenTypeID, known)
      | None \<Rightarrow> rbind (must_select select (token_query parserOid)) (\<lambda>types.
          Inr (alias_of types tokenTypeID, go_set parserOid types known)))"

definition getTypeMappings :: "(string \<Rightarrow> TypeMapping list res) \<Rightarrow> (32 word, TypeMapping list) gomap res" where
  "getTypeMappings select = rbind (must_select select (''
	SELECT mapcfg,
		maptokentype,
		mapdict::pg_catalog.regdictionary AS mapdictname
	FROM pg_ts_config_map m'')) (\<lambda>rows. Inr (group_by tm_ConfigOid id rows))"

fun token_dicts :: "(string \<Rightarrow> ParserTokenType list res) \<Rightarrow> 32 word \<Rightarrow> TypeMapping list \<Rightarrow> (string, string list) gomap \<Rightarrow> ParserTokenTypes \<Rightarrow>
    ((string, string list) gomap \<times> ParserTokenTypes) res" where
  "token_dicts select parserOid [] dicts known = Inr (dicts, known)"
| "token_dicts select parserOid (m # ms) dicts known =
     rbind (TokenName select parserOid (tm_TokenType m) known) (\<lambda>(name, known).
       token_dicts select parserOid ms (go_set name (go_get0 [] dicts name @ [tm_Dictionary m]) dicts) known)"

fun configurations :: "(string \<Rightarrow> ParserTokenType list res) \<Rightarrow> (32 word, TypeMapping list) gomap \<Rightarrow> config_row list \<Rightarrow> ParserTokenTypes \<Rightarrow>
    TextSearchConfiguration list res" where
  "configurations select mappings [] known = Inr []"
| "configurations select mappings (r # rs) known =
     rbind (token_dicts select (cr_ParserOid r) (go_get0 [] mappings (cr_ConfigOid r)) [] known) (\<lambda>(dicts, known).
     rbind (configurations select mappings rs known) (\<lambda>cs.
       Inr (\<lparr>tsc_Oid = cr_ConfigOid r, tsc_Schema = cr_Schema r, tsc_Name = cr_Name r, tsc_Parser = cr_ParserFQN r, tsc_TokenToDicts = dicts\<rparr> # cs)))"

definition GetTextSearchConfigurations :: "filters \<Rightarrow> (string \<Rightarrow> config_row list res) \<Rightarrow> (string \<Rightarrow> ParserTokenType list res) \<Rightarrow> (string \<Rightarrow> TypeMapping list res) \<Rightarrow>
    TextSearchConfiguration list res" where
  "GetTextSearchConfigurations flt select select_tokens select_maps =
     rbind (must_select select (concat [''
	SELECT c.oid AS configoid,
		quote_ident(cfg_ns.nspname) AS schema,
		quote_ident(cfgname) AS name,
		cfgparser AS parseroid,
		quote_ident(prs_ns.nspname) || '.' || quote_ident(prsname) AS parserfqn
	FROM pg_ts_config c
		JOIN pg_ts_parser p ON p.oid = c.cfgparser
		JOIN pg_namespace cfg_ns ON cfg_ns.oid = c.cfgnamespace
		JOIN pg_namespace prs_ns ON prs_ns.oid = prsnamespace
	WHERE '', SchemaFilterClause flt ''cfg_ns'', ''
		AND '', ExtensionFilterClause ''c'', ''
	ORDER BY cfgname''])) (\<lambda>rows.
     rbind (getTypeMappings select_maps) (\<lambda>mappings.
       configurations select_tokens mappings rows NewParserTokenTypes))"

section \<open>Putting the parts together\<close>

text \<open>
  The reference asks for the token types of every configuration that has mappings, and groups the
  dictionaries by the alias of their token type.
\<close>

definition plain_dicts :: "ParserTokenType list \<Rightarrow> TypeMapping list \<Rightarrow> (string, string list) gomap" where
  "plain_dicts types ms = group_by (\<lambda>m. alias_of types (tm_TokenType m)) tm_Dictionary ms"

definition plain_configuration :: "(string \<Rightarrow> ParserTokenType list res) \<Rightarrow> (32 word, TypeMapping list) gomap \<Rightarrow> config_row \<Rightarrow> TextSearchConfiguration res" where
  "plain_configuration select mappings r =
     (let ms = go_get0 [] mappings (cr_ConfigOid r)
      in rbind (if ms = [] then Inr [] else must_select select (token_query (cr_ParserOid r))) (\<lambda>types.
           Inr \<lparr>tsc_Oid = cr_ConfigOid r, tsc_Schema = cr_Schema r, tsc_Name = cr_Name r, tsc_Parser = cr_ParserFQN r,
             tsc_TokenToDicts = plain_dicts types ms\<rparr>))"

fun in_order :: "('a \<Rightarrow> 'b res) \<Rightarrow> 'a list \<Rightarrow> 'b list res" where
  "in_order f [] = Inr []"
| "in_order f (x # xs) = rbind (f x) (\<lambda>y. rbind (in_order f xs) (\<lambda>ys. Inr (y # ys)))"

text \<open>What is known agrees with what the server would answer.\<close>

definition answers :: "(string \<Rightarrow> ParserTokenType list res) \<Rightarrow> ParserTokenTypes \<Rightarrow> bool" where
  "answers select known \<longleftrightarrow> (\<forall>p types. go_get known p = Some types \<longrightarrow> must_select select (token_query p) = Inr types)"

lemma answers_set: "answers select known \<Longrightarrow> must_select select (token_query p) = Inr types \<Longrightarrow> answers select (go_set p types known)"
  by (simp add: answers_def go_get_set)

lemma TokenName_known:
  assumes "answers select known"
  shows "TokenName select p t known = rbind (must_select select (token_query p)) (\<lambda>types.
    Inr (alias_of types t, if go_get known p = None then go_set p types known else known))"
  using assms by (auto simp: TokenName_def answers_def split: option.splits)

definition add_dict :: "ParserTokenType list \<Rightarrow> (string, string list) gomap \<Rightarrow> TypeMapping \<Rightarrow> (string, string list) gomap" where
  "add_dict types dicts m = (let name = alias_of types (tm_TokenType m) in go_set name (go_get0 [] dicts name @ [tm_Dictionary m]) dicts)"

lemma plain_dicts_fold: "plain_dicts types ms = foldl (add_dict types) [] ms"
  by (simp add: plain_dicts_def group_by_def add_dict_def[abs_def] Let_def)

lemma token_dicts_known:
  assumes "go_get known p = Some types"
  shows "token_dicts select p ms dicts known = Inr (foldl (add_dict types) dicts ms, known)"
  using assms by (induction ms arbitrary: dicts) (simp_all add: TokenName_def add_dict_def Let_def)

lemma token_dicts_first:
  assumes "answers select known" and "ms \<noteq> []"
  shows "token_dicts select p ms dicts known = rbind (must_select select (token_query p)) (\<lambda>types.
    Inr (foldl (add_dict types) dicts ms, if go_get known p = None then go_set p types known else known))"
proof (cases "must_select select (token_query p)")
  case (Inl e)
  with assms show ?thesis by (cases ms) (simp_all add: TokenName_known)
next
  case (Inr types)
  let ?known = "if go_get known p = None then go_set p types known else known"
  have "go_get ?known p = Some types" using assms(1) Inr by (auto simp: answers_def go_get_set)
  with assms Inr show ?thesis
    by (cases ms) (simp_all add: TokenName_known token_dicts_known add_dict_def Let_def)
qed

lemma configurations_known:
  "answers select known \<Longrightarrow> configurations select mappings rows known = in_order (plain_configuration select mappings) rows"
proof (induction rows arbitrary: known)
  case (Cons r rs)
  let ?ms = "go_get0 [] mappings (cr_ConfigOid r)"
  show ?case
  proof (cases "?ms = []")
    case True
    with Cons show ?thesis by (simp add: plain_configuration_def plain_dicts_fold)
  next
    case False
    have step: "token_dicts select (cr_ParserOid r) ?ms [] known = rbind (must_select select (token_query (cr_ParserOid r))) (\<lambda>types.
        Inr (plain_dicts types ?ms, if go_get known (cr_ParserOid r) = None then go_set (cr_ParserOid r) types known else known))"
      using token_dicts_first[OF Cons.prems False] by (simp add: plain_dicts_fold)
    show ?thesis
    proof (cases "must_select select (token_query (cr_ParserOid r))")
      case (Inr types)
      have "answers select (if go_get known (cr_ParserOid r) = None then go_set (cr_ParserOid r) types known else known)"
        using answers_set[OF Cons.prems Inr] Cons.prems by simp
      with Cons.IH False step Inr show ?thesis by (simp add: plain_configuration_def)
    qed (use False step in \<open>simp add: plain_configuration_def\<close>)
  qed
qed simp

text \<open>
  Keeping the token types of a parser between configurations makes no difference: the
  result, also when the server reports an error, is that of asking for them anew for every
  configuration and grouping its dictionaries by token alias, in the order of the mappings.
\<close>

theorem configurations_cache:
  "configurations select mappings rows NewParserTokenTypes = in_order (plain_configuration select mappings) rows"
  by (rule configurations_known) (simp add: answers_def NewParserTokenTypes_def)

text \<open>So a token is mapped to the dictionaries of all mappings whose token type has its name.\<close>

lemma plain_dicts_get:
  "go_get0 [] (plain_dicts types ms) name = map tm_Dictionary (filter (\<lambda>m. alias_of types (tm_TokenType m) = name) ms)"
  by (simp add: plain_dicts_def group_by_get)

end
