(* ===== verification/QueryTables.thy ===== *)
theory QueryTables
  imports Queries PrintRelations
begin

text \<open>
  \<open>src/meta/builtin/queries_table_defs.go\<close> and the external tables of \<open>queries_externals.go\<close>: what
  belongs to a table comes from seventeen queries, each turned into a map by object number, and
  \<open>ConstructDefinitionsForTables\<close> puts the parts together. \<open>clause\<close> is the filter of
  \<open>relationAndSchemaFilterClause\<close>.
\<close>

section \<open>Maps from object numbers\<close>

record oid_value =
  ov_Oid :: "32 word"
  ov_Value :: string

definition selectAsOidToStringMap :: "(string \<Rightarrow> oid_value list res) \<Rightarrow> string \<Rightarrow> (32 word, string) gomap res" where
  "selectAsOidToStringMap select query = rbind (must_select select query) (\<lambda>rows. Inr (index_by ov_Oid ov_Value rows))"

definition GetPartitionTableMap :: "'a acl_env_scheme \<Rightarrow> (string \<Rightarrow> PartitionLevelInfo list res) \<Rightarrow> (32 word, PartitionLevelInfo) gomap res" where
  "GetPartitionTableMap env select =
     rbind (src_old env ''7'') (\<lambda>old7.
     rbind (must_select select (if old7
         then concat [''
		SELECT pc.oid AS oid,
			'p' AS level,
			'', [SQ, SQ], '' AS rootname
		FROM pg_partition p
			JOIN pg_class pc ON p.parrelid = pc.oid
		UNION ALL
		SELECT r.parchildrelid AS oid,
			CASE WHEN p.parlevel = levels.pl THEN 'l' ELSE 'i' END AS level,
			quote_ident(cparent.relname) AS rootname
		FROM pg_partition p
			JOIN pg_partition_rule r ON p.oid = r.paroid
			JOIN pg_class cparent ON cparent.oid = p.parrelid
			JOIN (SELECT parrelid AS relid, max(parlevel) AS pl
				FROM pg_partition GROUP BY parrelid) AS levels ON p.parrelid = levels.relid
		WHERE r.parchildrelid != 0'']
         else concat [''
		SELECT c.oid,
			CASE WHEN p.partrelid IS NOT NULL AND c.relispartition = false THEN '', [SQ, SQ], ''
				ELSE rc.relname
			END AS rootname,
			CASE WHEN p.partrelid IS NOT NULL AND c.relispartition = false THEN 'p'
				WHEN p.partrelid IS NOT NULL AND c.relispartition = true THEN 'i'
				ELSE 'l'
			END AS level
		FROM pg_class c
			LEFT JOIN pg_partitioned_table p ON c.oid = p.partrelid
			LEFT JOIN pg_class rc ON pg_partition_root(c.oid) = rc.oid
		WHERE c.relispartition = true OR c.relkind = 'p'', [SQ]])) (\<lambda>rows.
       Inr (index_by pli_Oid id rows)))"

definition GetDistributionPolicies :: "'a acl_env_scheme \<Rightarrow> (string \<Rightarrow> oid_value list res) \<Rightarrow> (32 word, string) gomap res" where
  "GetDistributionPolicies env select =
     rbind (src_old env ''6'') (\<lambda>old6.
       selectAsOidToStringMap select (if old6
         then ''
		SELECT p.localoid AS oid,
			'DISTRIBUTED BY (' || string_agg(quote_ident(a.attname) , ', ' ORDER BY index) || ')' AS value	
		FROM (SELECT localoid, unnest(attrnums) AS attnum,
				generate_series(1, array_upper(attrnums, 1)) AS index
				FROM gp_distribution_policy WHERE attrnums IS NOT NULL) p
			JOIN pg_attribute a ON (p.localoid, p.attnum) = (a.attrelid, a.attnum)
		GROUP BY localoid
		UNION ALL
		SELECT p.localoid AS oid, 'DISTRIBUTED RANDOMLY' AS value
		FROM gp_distribution_policy p WHERE attrnums IS NULL''
         else ''
		SELECT localoid AS oid, pg_catalog.pg_get_table_distributedby(localoid) AS value
		FROM gp_distribution_policy''))"

definition GetTableType :: "'a acl_env_scheme \<Rightarrow> (string \<Rightarrow> oid_value list res) \<Rightarrow> (32 word, string) gomap res" where
  "GetTableType env select =
     rbind (src_old env ''6'') (\<lambda>old6. if old6 then Inr [] else selectAsOidToStringMap select (''
		SELECT oid, reloftype::pg_catalog.regtype AS value FROM pg_class WHERE reloftype != 0''))"

definition GetTableAccessMethod :: "'a acl_env_scheme \<Rightarrow> (string \<Rightarrow> oid_value list res) \<Rightarrow> (32 word, string) gomap res" where
  "GetTableAccessMethod env select =
     rbind (src_old env ''7'') (\<lambda>old7. if old7 then Inr [] else selectAsOidToStringMap select (''
	SELECT c.oid, a.amname AS value
	FROM pg_class c
        JOIN pg_am a ON c.relam = a.oid
	WHERE a.amtype = 't'
        AND a.amname != 'heap';''))"

definition GetTableReplicaIdentity :: "'a acl_env_scheme \<Rightarrow> (string \<Rightarrow> oid_value list res) \<Rightarrow> (32 word, string) gomap res" where
  "GetTableReplicaIdentity env select =
     rbind (src_old env ''6'') (\<lambda>old6. if old6 then Inr [] else
     rbind (src_at_least env ''7'') (\<lambda>at7.
       let relkindFilter = in_quotes ''r'' @ '', '' @ in_quotes ''m'' @ text_if at7 ('', '' @ in_quotes ''p'')
       in selectAsOidToStringMap select (concat [''
	SELECT oid,
		relreplident AS value
	FROM pg_class
	WHERE relkind IN ('', relkindFilter, '')
		AND oid >= '', FIRST_NORMAL_OBJECT_ID])))"

record part_detail =
  pd_Oid :: "32 word"
  pd_Definition :: string
  pd_Template :: "string option"

text \<open>Rows whose value is NULL leave no entry.\<close>

definition index_some :: "('a \<Rightarrow> 'k) \<Rightarrow> ('a \<Rightarrow> 'v option) \<Rightarrow> 'a list \<Rightarrow> ('k, 'v) gomap" where
  "index_some key val rows = index_by key (\<lambda>r. the (val r)) (filter (\<lambda>r. val r \<noteq> None) rows)"

definition GetPartitionDetails :: "'a acl_env_scheme \<Rightarrow> string \<Rightarrow> (string \<Rightarrow> part_detail list res) \<Rightarrow>
    ((32 word, string) gomap \<times> (32 word, string) gomap) res" where
  "GetPartitionDetails env clause select =
     rbind (src_at_least env ''7'') (\<lambda>at7. if at7 then Inr ([], []) else
     rbind (must_select select (concat [''
	SELECT p.parrelid AS oid,
		pg_get_partition_def(p.parrelid, true, true) AS definition,
		pg_get_partition_template_def(p.parrelid, true, true) AS template
	FROM pg_partition p
		JOIN pg_class c ON p.parrelid = c.oid
		JOIN pg_namespace n ON c.relnamespace = n.oid
	WHERE '', clause])) (\<lambda>rows.
       Inr (index_by pd_Oid pd_Definition rows, index_some pd_Oid pd_Template rows)))"

record altered_row = AlteredPartitionRelation +
  ar_Oid :: "32 word"

definition GetPartitionAlteredSchema :: "'a acl_env_scheme \<Rightarrow> (string \<Rightarrow> altered_row list res) \<Rightarrow> (32 word, AlteredPartitionRelation list) gomap res" where
  "GetPartitionAlteredSchema env select =
     rbind (src_at_least env ''7'') (\<lambda>at7. if at7 then Inr [] else
     rbind (must_select select (''
	SELECT pgp.parrelid AS oid,
		quote_ident(pgn2.nspname) AS oldschema,
		quote_ident(pgn.nspname) AS newschema,
		quote_ident(pgc.relname) AS name
	FROM pg_catalog.pg_partition_rule pgpr
		JOIN pg_catalog.pg_partition pgp ON pgp.oid = pgpr.paroid
		JOIN pg_catalog.pg_class pgc ON pgpr.parchildrelid = pgc.oid
		JOIN pg_catalog.pg_class pgc2 ON pgp.parrelid = pgc2.oid
		JOIN pg_catalog.pg_namespace pgn ON pgc.relnamespace = pgn.oid
		JOIN pg_catalog.pg_namespace pgn2 ON pgc2.relnamespace = pgn2.oid
	WHERE pgc.relnamespace != pgc2.relnamespace'')) (\<lambda>rows.
       Inr (group_by ar_Oid (\<lambda>r. \<lparr>ap_OldSchema = ap_OldSchema r, ap_NewSchema = ap_NewSchema r, ap_Name = ap_Name r\<rparr>) rows)))"

record storage_row =
  st_Oid :: "32 word"
  st_Tablespace :: "string option"
  st_RelOptions :: "string option"

definition GetTableStorage :: "string \<Rightarrow> (string \<Rightarrow> storage_row list res) \<Rightarrow> ((32 word, string) gomap \<times> (32 word, string) gomap) res" where
  "GetTableStorage clause select =
     rbind (must_select select (concat [''
	SELECT c.oid,
		quote_ident(t.spcname) AS tablespace,
		array_to_string(reloptions, ', ') AS reloptions
	FROM pg_class c
		JOIN pg_namespace n ON c.relnamespace = n.oid
		LEFT JOIN pg_tablespace t ON t.oid = c.reltablespace
	WHERE '', clause, ''
		AND (t.spcname IS NOT NULL OR reloptions IS NOT NULL)''])) (\<lambda>rows.
       Inr (index_some st_Oid st_Tablespace rows, index_some st_Oid st_RelOptions rows))"

definition GetUnloggedTables :: "'a acl_env_scheme \<Rightarrow> (string \<Rightarrow> 32 word list res) \<Rightarrow> (32 word, bool) gomap res" where
  "GetUnloggedTables env select =
     rbind (src_old env ''6'') (\<lambda>old6. if old6 then Inr [] else
     rbind (must_select select (concat [''
		SELECT oid FROM pg_class WHERE relpersistence = 'u'', [SQ]])) (\<lambda>rows. Inr (index_by id (\<lambda>_. True) rows)))"

definition GetForeignTableDefinitions :: "'a acl_env_scheme \<Rightarrow> (string \<Rightarrow> ForeignTableDefinition list res) \<Rightarrow> (32 word, ForeignTableDefinition) gomap res" where
  "GetForeignTableDefinitions env select =
     rbind (src_old env ''6'') (\<lambda>old6. if old6 then Inr [] else
     rbind (must_select select (concat [''
	SELECT ftrelid, quote_ident(fs.srvname) AS ftserver,
		array_to_string(array(
			SELECT quote_ident(option_name) || ' ' || quote_literal(option_value)
			FROM pg_options_to_table(ftoptions) ORDER BY option_name
		), e',    ') AS ftoptions
	FROM pg_foreign_table ft
		JOIN pg_foreign_server fs ON ft.ftserver = fs.oid
	WHERE ft.ftrelid >= '', FIRST_NORMAL_OBJECT_ID, '' AND fs.oid >= '', FIRST_NORMAL_OBJECT_ID])) (\<lambda>rows. Inr (index_by ft_Oid id rows)))"

record Dependency =
  dp_Oid :: "32 word"
  dp_ReferencedObject :: string

definition GetTableInheritance :: "filters \<Rightarrow> (string \<Rightarrow> Dependency list res) \<Rightarrow> Relation list \<Rightarrow> (32 word, string list) gomap res" where
  "GetTableInheritance flt select tables =
     (let tableFilterStr = text_if (includeRelations flt \<noteq> [] \<and> tables \<noteq> [])
            (NL @ ''AND i.inhrelid IN ('' @ Join (map (\<lambda>t. oid_text (r_Oid t)) tables) '','' @ '')'')
      in rbind (must_select select (concat [''
	SELECT i.inhrelid AS oid,
		quote_ident(n.nspname) || '.' || quote_ident(p.relname) AS referencedobject
	FROM pg_inherits i
		JOIN pg_class p ON i.inhparent = p.oid
		JOIN pg_namespace n ON p.relnamespace = n.oid
	WHERE '', ExtensionFilterClause ''p'', tableFilterStr, ''
	ORDER BY i.inhrelid, i.inhseqno''])) (\<lambda>rows.
           Inr (group_by dp_Oid dp_ReferencedObject rows)))"

definition GetPartitionKeyDefs :: "'a acl_env_scheme \<Rightarrow> (string \<Rightarrow> oid_value list res) \<Rightarrow> (32 word, string) gomap res" where
  "GetPartitionKeyDefs env select =
     rbind (src_old env ''7'') (\<lambda>old7. if old7 then Inr [] else
     rbind (must_select select (''
	SELECT
		partrelid AS oid,
		pg_get_partkeydef(partrelid) AS keydef
	FROM
		pg_partitioned_table;'')) (\<lambda>rows. Inr (index_by ov_Oid ov_Value rows)))"

definition GetAttachPartitionInfo :: "'a acl_env_scheme \<Rightarrow> (string \<Rightarrow> AttachPartitionInfo list res) \<Rightarrow> (32 word, AttachPartitionInfo) gomap res" where
  "GetAttachPartitionInfo env select =
     rbind (src_old env ''7'') (\<lambda>old7. if old7 then Inr [] else
     rbind (must_select select (concat [''
	SELECT
		c.oid,
		quote_ident(n.nspname) || '.' || quote_ident(c.relname) AS relname,
		quote_ident(rn.nspname) || '.' || quote_ident(rc.relname) AS parent,
		coalesce(pg_get_expr(c.relpartbound, c.oid), '', [SQ, SQ], '') AS expr
	FROM pg_class c
		JOIN pg_namespace n ON c.relnamespace = n.oid
		JOIN pg_class rc ON pg_partition_root(c.oid) = rc.oid
		JOIN pg_namespace rn ON rc.relnamespace = rn.oid
	WHERE c.relispartition = 't'', [SQ]])) (\<lambda>rows. Inr (index_by ai_Oid id rows)))"

definition GetForceRowSecurity :: "'a acl_env_scheme \<Rightarrow> (string \<Rightarrow> 32 word list res) \<Rightarrow> (32 word, bool) gomap res" where
  "GetForceRowSecurity env select =
     rbind (src_old env ''7'') (\<lambda>old7. if old7 then Inr [] else
     rbind (must_select select (concat [''
	SELECT oid
	FROM pg_class
	WHERE relforcerowsecurity = 't'
		AND oid >= '', FIRST_NORMAL_OBJECT_ID])) (\<lambda>rows. Inr (index_by id (\<lambda>_. True) rows)))"

section \<open>Columns\<close>

definition storageTypeCodes :: "(string, string) gomap" where
  "storageTypeCodes = [(''e'', ''EXTERNAL''), (''m'', ''MAIN''), (''p'', ''PLAIN''), (''x'', ''EXTENDED'')]"

definition attGeneratedCodes :: "(string, string) gomap" where
  "attGeneratedCodes = [(''s'', ''STORED'')]"

definition columns_query :: "'a acl_env_scheme \<Rightarrow> string \<Rightarrow> string res" where
  "columns_query env clause =
     rbind (src_old env ''6'') (\<lambda>old6.
     rbind (if old6 then Inr False else src_is env ''6'') (\<lambda>is6.
       Inr (if old6
         then concat [''
	SELECT a.attrelid,
		a.attnum,
		quote_ident(a.attname) AS name,
		a.attnotnull,
		a.atthasdef,
		pg_catalog.format_type(t.oid,a.atttypmod) AS type,
		coalesce(pg_catalog.array_to_string(e.attoptions, ','), '', [SQ, SQ], '') AS encoding,
		a.attstattarget,
		CASE WHEN a.attstorage != t.typstorage THEN a.attstorage ELSE '', [SQ, SQ], '' END AS storagetype,
		coalesce('('||pg_catalog.pg_get_expr(ad.adbin, ad.adrelid)||')', '', [SQ, SQ], '') AS defaultval,
		coalesce(d.description, '', [SQ, SQ], '') AS comment
	FROM pg_catalog.pg_attribute a
		JOIN pg_class c ON a.attrelid = c.oid
		JOIN pg_namespace n ON c.relnamespace = n.oid
		LEFT JOIN pg_catalog.pg_attrdef ad ON a.attrelid = ad.adrelid AND a.attnum = ad.adnum
		LEFT JOIN pg_catalog.pg_type t ON a.atttypid = t.oid
		LEFT JOIN pg_catalog.pg_attribute_encoding e ON e.attrelid = a.attrelid AND e.attnum = a.attnum
		LEFT JOIN pg_description d ON d.objoid = a.attrelid AND d.classoid = 'pg_class'::regclass AND d.objsubid = a.attnum
	WHERE '', clause, ''
		AND NOT EXISTS (
			SELECT 1 FROM 
				(SELECT parchildrelid FROM pg_partition_rule EXCEPT SELECT reloid FROM pg_exttable) par 
			WHERE par.parchildrelid = c.oid)
		AND c.reltype <> 0
		AND a.attnum > 0::pg_catalog.int2
		AND a.attisdropped = 'f'
	ORDER BY a.attrelid, a.attnum'']
         else if is6
         then concat [''
	SELECT a.attrelid,
		a.attnum,
		quote_ident(a.attname) AS name,
		a.attnotnull,
		a.atthasdef,
		pg_catalog.format_type(t.oid,a.atttypmod) AS type,
		coalesce(pg_catalog.array_to_string(e.attoptions, ','), '', [SQ, SQ], '') AS encoding,
		a.attstattarget,
		CASE WHEN a.attstorage != t.typstorage THEN a.attstorage ELSE '', [SQ, SQ], '' END AS storagetype,
		coalesce('('||pg_catalog.pg_get_expr(ad.adbin, ad.adrelid)||')', '', [SQ, SQ], '') AS defaultval,
		coalesce(d.description, '', [SQ, SQ], '') AS comment,
		CASE
			WHEN a.attacl IS NULL THEN NULL
			WHEN array_upper(a.attacl, 1) = 0 THEN a.attacl[0]
			ELSE unnest(a.attacl) END AS privileges,
		CASE
			WHEN a.attacl IS NULL THEN '', [SQ, SQ], ''
			WHEN array_upper(a.attacl, 1) = 0 THEN 'Empty'
			ELSE '', [SQ, SQ], ''
		END AS kind,
		coalesce(pg_catalog.array_to_string(a.attoptions, ','), '', [SQ, SQ], '') AS options,
		coalesce(array_to_string(ARRAY(SELECT option_name || ' ' || quote_literal(option_value) FROM pg_options_to_table(attfdwoptions) ORDER BY option_name), ', '), '', [SQ, SQ], '') AS fdwoptions,
		CASE WHEN a.attcollation <> t.typcollation THEN quote_ident(cn.nspname) || '.' || quote_ident(coll.collname) ELSE '', [SQ, SQ], '' END AS collation,
		coalesce(sec.provider,'', [SQ, SQ], '') AS securitylabelprovider,
		coalesce(sec.label,'', [SQ, SQ], '') AS securitylabel
	FROM pg_catalog.pg_attribute a
		JOIN pg_class c ON a.attrelid = c.oid
		JOIN pg_namespace n ON c.relnamespace = n.oid
		LEFT JOIN pg_catalog.pg_attrdef ad ON a.attrelid = ad.adrelid AND a.attnum = ad.adnum
		LEFT JOIN pg_catalog.pg_type t ON a.atttypid = t.oid
		LEFT JOIN pg_catalog.pg_attribute_encoding e ON e.attrelid = a.attrelid AND e.attnum = a.attnum
		LEFT JOIN pg_description d ON d.objoid = a.attrelid AND d.classoid = 'pg_class'::regclass AND d.objsubid = a.attnum
		LEFT JOIN pg_collation coll ON a.attcollation = coll.oid
		LEFT JOIN pg_namespace cn ON coll.collnamespace = cn.oid
		LEFT JOIN pg_seclabel sec ON sec.objoid = a.attrelid AND sec.classoid = 'pg_class'::regclass AND sec.objsubid = a.attnum
	WHERE '', clause, ''
		AND NOT EXISTS (
			SELECT 1 FROM 
				(SELECT parchildrelid FROM pg_partition_rule EXCEPT SELECT reloid FROM pg_exttable) par 
			WHERE par.parchildrelid = c.oid)
		AND c.reltype <> 0
		AND a.attnum > 0::pg_catalog.int2
		AND a.attisdropped = 'f'
	ORDER BY a.attrelid, a.attnum'']
         else concat [''
	SELECT a.attrelid,
		a.attnum,
		quote_ident(a.attname) AS name,
		a.attnotnull,
		a.atthasdef,
		pg_catalog.format_type(t.oid,a.atttypmod) AS type,
		coalesce(pg_catalog.array_to_string(e.attoptions, ','), '', [SQ, SQ], '') AS encoding,
		a.attstattarget,
		CASE WHEN a.attstorage != t.typstorage THEN a.attstorage ELSE '', [SQ, SQ], '' END AS storagetype,
		coalesce('('||pg_catalog.pg_get_expr(ad.adbin, ad.adrelid)||')', '', [SQ, SQ], '') AS defaultval,
		coalesce(d.description, '', [SQ, SQ], '') AS comment,
		a.attgenerated,
		ljl_unnest AS privileges,
		CASE
			WHEN a.attacl IS NULL THEN '', [SQ, SQ], ''
			WHEN array_upper(a.attacl, 1) = 0 THEN 'Empty'
			ELSE '', [SQ, SQ], ''
		END AS kind,
		coalesce(pg_catalog.array_to_string(a.attoptions, ','), '', [SQ, SQ], '') AS options,
		coalesce(array_to_string(ARRAY(SELECT option_name || ' ' || quote_literal(option_value) FROM pg_options_to_table(attfdwoptions) ORDER BY option_name), ', '), '', [SQ, SQ], '') AS fdwoptions,
		CASE WHEN a.attcollation <> t.typcollation THEN quote_ident(cn.nspname) || '.' || quote_ident(coll.collname) ELSE '', [SQ, SQ], '' END AS collation,
		coalesce(sec.provider,'', [SQ, SQ], '') AS securitylabelprovider,
		coalesce(sec.label,'', [SQ, SQ], '') AS securitylabel
	FROM pg_catalog.pg_attribute a
		JOIN pg_class c ON a.attrelid = c.oid
		JOIN pg_namespace n ON c.relnamespace = n.oid
		LEFT JOIN pg_catalog.pg_attrdef ad ON a.attrelid = ad.adrelid AND a.attnum = ad.adnum
		LEFT JOIN pg_catalog.pg_type t ON a.atttypid = t.oid
		LEFT JOIN pg_catalog.pg_attribute_encoding e ON e.attrelid = a.attrelid AND e.attnum = a.attnum
		LEFT JOIN pg_description d ON d.objoid = a.attrelid AND d.classoid = 'pg_class'::regclass AND d.objsubid = a.attnum
		LEFT JOIN pg_collation coll ON a.attcollation = coll.oid
		LEFT JOIN pg_namespace cn ON coll.collnamespace = cn.oid
		LEFT JOIN pg_seclabel sec ON sec.objoid = a.attrelid AND sec.classoid = 'pg_class'::regclass AND sec.objsubid = a.attnum
		LEFT JOIN LATERAL unnest(a.attacl) ljl_unnest ON a.attacl IS NOT NULL AND array_length(a.attacl, 1) != 0
	WHERE '', clause, ''
		AND c.reltype <> 0
		AND a.attnum > 0::pg_catalog.int2
		AND a.attisdropped = 'f'
	ORDER BY a.attrelid, a.attnum''])))"

definition column_of_row :: "bool \<Rightarrow> ColumnDefinition \<Rightarrow> ColumnDefinition" where
  "column_of_row at7 c =
     (let c = c\<lparr>cd_StorageType := go_get0 [] storageTypeCodes (cd_StorageType c)\<rparr>
      in if at7 then c\<lparr>cd_AttGenerated := go_get0 [] attGeneratedCodes (cd_AttGenerated c)\<rparr> else c)"

definition GetColumnDefinitions :: "'a acl_env_scheme \<Rightarrow> string \<Rightarrow> (string \<Rightarrow> ColumnDefinition list res) \<Rightarrow> (32 word, ColumnDefinition list) gomap res" where
  "GetColumnDefinitions env clause select =
     rbind (columns_query env clause) (\<lambda>query.
     rbind (must_select select query) (\<lambda>rows.
     rbind (if rows = [] then Inr False else src_at_least env ''7'') (\<lambda>at7.
       Inr (group_by cd_Oid id (map (column_of_row at7) rows)))))"

section \<open>External tables\<close>

definition no_external_def :: ExternalTableDefinition where
  "no_external_def = \<lparr>ed_Oid = 0, ed_Type = 0, ed_Protocol = 0, ed_Location = None, ed_ExecLocation = [], ed_FormatType = [], ed_FormatOpts = [],
     ed_Command = [], ed_RejectLimit = 0, ed_RejectLimitType = [], ed_ErrTableName = [], ed_ErrTableSchema = [], ed_LogErrors = False,
     ed_LogErrPersist = False, ed_Encoding = [], ed_Writable = False, ed_URIs = []\<rparr>"

definition external_query :: "'a acl_env_scheme \<Rightarrow> string res" where
  "external_query env =
     rbind (src_is env ''4'') (\<lambda>is4.
     rbind (if is4 then Inr False else src_is env ''5'') (\<lambda>is5.
     rbind (if is4 \<or> is5 then Inr False else src_is env ''6'') (\<lambda>is6.
     rbind (if is4 \<or> is5 \<or> is6 then Inr False else src_at_least env ''7'') (\<lambda>at7.
       Inr (if is4
         then concat [''
	SELECT reloid AS oid,
		CASE WHEN split_part(e.location[1], ':', 1) NOT IN ('ALL_SEGMENTS', 'HOST', 'MASTER_ONLY', 'PER_HOST', 'SEGMENT_ID', 'TOTAL_SEGS') THEN unnest(e.location) ELSE '', [SQ, SQ], '' END AS location,
		CASE WHEN split_part(e.location[1], ':', 1) IN ('ALL_SEGMENTS', 'HOST', 'MASTER_ONLY', 'PER_HOST', 'SEGMENT_ID', 'TOTAL_SEGS') THEN unnest(e.location) ELSE 'ALL_SEGMENTS' END AS execlocation,
		e.fmttype AS formattype,
		e.fmtopts AS formatopts,
		coalesce(e.command, '', [SQ, SQ], '') AS command,
		coalesce(e.rejectlimit, 0) AS rejectlimit,
		coalesce(e.rejectlimittype, '', [SQ, SQ], '') AS rejectlimittype,
		coalesce(quote_ident(c.relname), '', [SQ, SQ], '') AS errtablename,
				coalesce(quote_ident(n.nspname), '', [SQ, SQ], '') AS errtableschema,
		e.fmterrtbl IS NOT NULL AND e.reloid = e.fmterrtbl AS logerrors,
		pg_encoding_to_char(e.encoding) AS encoding,
		e.writable
	FROM pg_exttable e
		LEFT JOIN pg_class c ON e.fmterrtbl = c.oid AND e.fmterrtbl != e.reloid
				LEFT JOIN pg_namespace n ON n.oid = c.relnamespace'']
         else if is5
         then concat [''
	SELECT e.reloid AS oid,
		CASE WHEN e.urilocation IS NOT NULL THEN unnest(e.urilocation) ELSE '', [SQ, SQ], '' END AS location,
		array_to_string(e.execlocation, ',') AS execlocation,
		e.fmttype AS formattype,
		e.fmtopts AS formatopts,
		coalesce(e.command, '', [SQ, SQ], '') AS command,
		coalesce(e.rejectlimit, 0) AS rejectlimit,
		coalesce(e.rejectlimittype, '', [SQ, SQ], '') AS rejectlimittype,
		e.fmterrtbl IS NOT NULL AND e.reloid = e.fmterrtbl AS logerrors,
		'error_log_persistent=true' = any(e.options) AS logerrpersist,
		pg_encoding_to_char(e.encoding) AS encoding,
		e.writable
	FROM pg_exttable e'']
         else if is6
         then concat [''
	SELECT e.reloid AS oid,
		CASE WHEN e.urilocation IS NOT NULL THEN unnest(urilocation) ELSE '', [SQ, SQ], '' END AS location,
		array_to_string(e.execlocation, ',') AS execlocation,
		e.fmttype AS formattype,
		e.fmtopts AS formatopts,
		coalesce(e.command, '', [SQ, SQ], '') AS command,
		coalesce(e.rejectlimit, 0) AS rejectlimit,
		coalesce(e.rejectlimittype, '', [SQ, SQ], '') AS rejectlimittype,
		e.logerrors,
		'error_log_persistent=true' = any(e.options) AS logerrpersist,
		pg_encoding_to_char(e.encoding) AS encoding,
		e.writable
	FROM pg_exttable e'']
         else if at7
         then concat [''
	SELECT e.reloid AS oid,
		ljl_unnest AS location,
		array_to_string(e.execlocation, ',') AS execlocation,
		e.fmttype AS formattype,
		e.fmtopts AS formatopts,
		coalesce(e.command, '', [SQ, SQ], '') AS command,
		coalesce(e.rejectlimit, 0) AS rejectlimit,
		coalesce(e.rejectlimittype, '', [SQ, SQ], '') AS rejectlimittype,
		e.logerrors,
		coalesce('log_errors=p' = any(ft.ftoptions), false) AS logerrpersist,
		pg_encoding_to_char(e.encoding) AS encoding,
		e.writable
	FROM pg_exttable e
		LEFT JOIN pg_foreign_table ft ON e.reloid = ft.ftrelid
		LEFT JOIN LATERAL unnest(urilocation) ljl_unnest ON urilocation IS NOT NULL'']
         else [])))))"

text \<open>A table has a row for each of its locations; the first row of a table gives everything else.\<close>

definition with_location :: "ExternalTableDefinition \<Rightarrow> ExternalTableDefinition \<Rightarrow> ExternalTableDefinition" where
  "with_location known r =
     (let d = (if ed_Oid known \<noteq> 0 then known else r)
      in case ed_Location r of Some l \<Rightarrow> if l \<noteq> [] then d\<lparr>ed_URIs := ed_URIs d @ [l]\<rparr> else d | None \<Rightarrow> d)"

definition add_location :: "(32 word, ExternalTableDefinition) gomap \<Rightarrow> ExternalTableDefinition \<Rightarrow> (32 word, ExternalTableDefinition) gomap" where
  "add_location m r = go_set (ed_Oid r) (with_location (go_get0 no_external_def m (ed_Oid r)) r) m"

definition GetExternalTableDefinitions :: "'a acl_env_scheme \<Rightarrow> (string \<Rightarrow> ExternalTableDefinition list res) \<Rightarrow> (32 word, ExternalTableDefinition) gomap res" where
  "GetExternalTableDefinitions env select =
     rbind (external_query env) (\<lambda>query.
     rbind (must_select select query) (\<lambda>rows. Inr (foldl add_location [] rows)))"

definition GetExternalProtocols :: "(string \<Rightarrow> ExternalProtocol list res) \<Rightarrow> ExternalProtocol list res" where
  "GetExternalProtocols select = must_select select (''
	SELECT p.oid,
		quote_ident(p.ptcname) AS name,
		pg_get_userbyid(p.ptcowner) AS owner,
		p.ptctrusted,
		p.ptcreadfn,
		p.ptcwritefn,
		p.ptcvalidatorfn
	FROM pg_extprotocol p'')"

definition GetExternalPartitionInfo :: "'a acl_env_scheme \<Rightarrow> (string \<Rightarrow> PartitionInfo list res) \<Rightarrow> (PartitionInfo list \<times> (32 word, PartitionInfo) gomap) res" where
  "GetExternalPartitionInfo env select =
     rbind (src_at_least env ''7'') (\<lambda>at7. if at7 then Inr ([], []) else
     rbind (must_select select (concat [''
	SELECT pr1.oid AS partitionruleoid,
		pr1.parparentrule AS partitionparentruleoid,
		cl.oid AS parentrelationoid,
		quote_ident(n.nspname) AS parentschema,
		quote_ident(cl.relname) AS parentrelationname,
		pr1.parchildrelid AS relationoid,
		CASE WHEN pr1.parname = '', [SQ, SQ], '' THEN '', [SQ, SQ], '' ELSE quote_ident(pr1.parname) END AS partitionname,
		CASE WHEN pp.parkind <> 'r'::'', [CHR 0x22], ''char'', [CHR 0x22], '' OR pr1.parisdefault THEN 0
			ELSE pg_catalog.rank() OVER (PARTITION BY pp.oid, cl.relname, pp.parlevel, cl3.relname
				ORDER BY pr1.parisdefault, pr1.parruleord) END AS partitionrank,
		CASE WHEN e.reloid IS NOT NULL then 't' ELSE 'f' END AS isexternal
	FROM pg_namespace n, pg_namespace n2, pg_class cl
		LEFT JOIN pg_tablespace sp ON cl.reltablespace = sp.oid, pg_class cl2
		LEFT JOIN pg_tablespace sp3 ON cl2.reltablespace = sp3.oid, pg_partition pp, pg_partition_rule pr1
		LEFT JOIN pg_partition_rule pr2 ON pr1.parparentrule = pr2.oid
		LEFT JOIN pg_class cl3 ON pr2.parchildrelid = cl3.oid
		LEFT JOIN pg_exttable e ON e.reloid = pr1.parchildrelid
	WHERE pp.paristemplate = false
		AND pp.parrelid = cl.oid
		AND pr1.paroid = pp.oid
		AND cl2.oid = pr1.parchildrelid
		AND cl.relnamespace = n.oid
		AND cl2.relnamespace = n2.oid''])) (\<lambda>rows.
       Inr (filter pi_IsExternal rows, index_by pi_PartitionRuleOid id rows)))"

section \<open>Tables\<close>

text \<open>The server, for each kind of row.\<close>

record table_server =
  sv_columns :: "string \<Rightarrow> ColumnDefinition list res"
  sv_values :: "string \<Rightarrow> oid_value list res"
  sv_details :: "string \<Rightarrow> part_detail list res"
  sv_storage :: "string \<Rightarrow> storage_row list res"
  sv_external :: "string \<Rightarrow> ExternalTableDefinition list res"
  sv_levels :: "string \<Rightarrow> PartitionLevelInfo list res"
  sv_oids :: "string \<Rightarrow> 32 word list res"
  sv_foreign :: "string \<Rightarrow> ForeignTableDefinition list res"
  sv_parents :: "string \<Rightarrow> Dependency list res"
  sv_altered :: "string \<Rightarrow> altered_row list res"
  sv_attach :: "string \<Rightarrow> AttachPartitionInfo list res"

record table_parts =
  columnDefs :: "(32 word, ColumnDefinition list) gomap"
  distributionPolicies :: "(32 word, string) gomap"
  partitionDefs :: "(32 word, string) gomap"
  partTemplateDefs :: "(32 word, string) gomap"
  tablespaceNames :: "(32 word, string) gomap"
  storageOptions :: "(32 word, string) gomap"
  extTableDefs :: "(32 word, ExternalTableDefinition) gomap"
  partTableMap :: "(32 word, PartitionLevelInfo) gomap"
  tableTypeMap :: "(32 word, string) gomap"
  accessMethodMap :: "(32 word, string) gomap"
  unloggedTableMap :: "(32 word, bool) gomap"
  foreignTableDefs :: "(32 word, ForeignTableDefinition) gomap"
  inheritanceMap :: "(32 word, string list) gomap"
  replicaIdentityMap :: "(32 word, string) gomap"
  partitionAlteredSchemaMap :: "(32 word, AlteredPartitionRelation list) gomap"
  partitionKeyDefs :: "(32 word, string) gomap"
  attachPartitionInfo :: "(32 word, AttachPartitionInfo) gomap"
  forceRowSecurity :: "(32 word, bool) gomap"

definition no_level :: PartitionLevelInfo where
  "no_level = \<lparr>pli_Oid = 0, pli_Level = [], pli_RootName = []\<rparr>"

definition query_parts :: "'a acl_env_scheme \<Rightarrow> filters \<Rightarrow> string \<Rightarrow> table_server \<Rightarrow> Relation list \<Rightarrow> table_parts res" where
  "query_parts env flt clause sv rels =
     rbind (GetColumnDefinitions env clause (sv_columns sv)) (\<lambda>cols.
     rbind (GetDistributionPolicies env (sv_values sv)) (\<lambda>dist.
     rbind (GetPartitionDetails env clause (sv_details sv)) (\<lambda>(pdefs, ptemps).
     rbind (GetTableStorage clause (sv_storage sv)) (\<lambda>(spaces, opts).
     rbind (GetExternalTableDefinitions env (sv_external sv)) (\<lambda>ext.
     rbind (GetPartitionTableMap env (sv_levels sv)) (\<lambda>lvls.
     rbind (GetTableType env (sv_values sv)) (\<lambda>tys.
     rbind (GetTableAccessMethod env (sv_values sv)) (\<lambda>ams.
     rbind (GetUnloggedTables env (sv_oids sv)) (\<lambda>unl.
     rbind (GetForeignTableDefinitions env (sv_foreign sv)) (\<lambda>frn.
     rbind (GetTableInheritance flt (sv_parents sv) rels) (\<lambda>inh.
     rbind (GetTableReplicaIdentity env (sv_values sv)) (\<lambda>rep.
     rbind (GetPartitionAlteredSchema env (sv_altered sv)) (\<lambda>alt.
     rbind (GetPartitionKeyDefs env (sv_values sv)) (\<lambda>keys.
     rbind (GetAttachPartitionInfo env (sv_attach sv)) (\<lambda>att.
     rbind (GetForceRowSecurity env (sv_oids sv)) (\<lambda>force.
       Inr \<lparr>columnDefs = cols, distributionPolicies = dist, partitionDefs = pdefs, partTemplateDefs = ptemps, tablespaceNames = spaces,
         storageOptions = opts, extTableDefs = ext, partTableMap = lvls, tableTypeMap = tys, accessMethodMap = ams, unloggedTableMap = unl,
         foreignTableDefs = frn, inheritanceMap = inh, replicaIdentityMap = rep, partitionAlteredSchemaMap = alt, partitionKeyDefs = keys,
         attachPartitionInfo = att, forceRowSecurity = force\<rparr>))))))))))))))))"

definition table_of_parts :: "table_parts \<Rightarrow> Relation \<Rightarrow> Table" where
  "table_of_parts p r =
     (let oid = r_Oid r; ext = go_get0 no_external_def (extTableDefs p) oid
      in Relation.extend r (Table.fields (go_get0 [] (distributionPolicies p) oid) (go_get0 [] (partitionDefs p) oid) (go_get0 [] (partTemplateDefs p) oid)
           (go_get0 [] (storageOptions p) oid) (go_get0 [] (tablespaceNames p) oid) (go_get0 [] (columnDefs p) oid) (ed_Oid ext \<noteq> 0) ext
           (go_get0 no_level (partTableMap p) oid) (go_get0 [] (tableTypeMap p) oid) (go_get0 False (unloggedTableMap p) oid)
           (go_get0 no_foreign (foreignTableDefs p) oid) (go_get0 [] (inheritanceMap p) oid) (go_get0 [] (replicaIdentityMap p) oid)
           (go_get0 [] (partitionAlteredSchemaMap p) oid) (go_get0 [] (accessMethodMap p) oid) (go_get0 [] (partitionKeyDefs p) oid)
           (go_get0 no_attach (attachPartitionInfo p) oid) (go_get0 False (forceRowSecurity p) oid)))"

definition ConstructDefinitionsForTables :: "'a acl_env_scheme \<Rightarrow> filters \<Rightarrow> string \<Rightarrow> table_server \<Rightarrow> Relation list \<Rightarrow> Table list res" where
  "ConstructDefinitionsForTables env flt clause sv tableRelations =
     rbind (query_parts env flt clause sv tableRelations) (\<lambda>p. Inr (map (table_of_parts p) tableRelations))"

section \<open>Every table gets what belongs to it\<close>

lemma index_by_get: "go_get (index_by key val rows) k = map_option val (find (\<lambda>r. key r = k) (rev rows))"
proof -
  have "go_get (foldl (\<lambda>m r. go_set (key r) (val r) m) m rows) k =
      (case find (\<lambda>r. key r = k) (rev rows) of Some r \<Rightarrow> Some (val r) | None \<Rightarrow> go_get m k)" for m
    by (induction rows rule: rev_induct) (simp_all add: go_get_set)
  from this[of "[]"] show ?thesis by (simp add: index_by_def split: option.split)
qed

definition locations :: "ExternalTableDefinition list \<Rightarrow> string list" where
  "locations rows = filter (\<lambda>l. l \<noteq> []) (List.map_filter ed_Location rows)"

text \<open>What the rows of one table come to.\<close>

definition merged :: "ExternalTableDefinition list \<Rightarrow> ExternalTableDefinition" where
  "merged rows = (case rows of [] \<Rightarrow> no_external_def | r # _ \<Rightarrow> r\<lparr>ed_URIs := ed_URIs r @ locations rows\<rparr>)"

lemma locations_snoc: "locations (rows @ [r]) = locations rows @ (case ed_Location r of Some l \<Rightarrow> if l \<noteq> [] then [l] else [] | None \<Rightarrow> [])"
  by (simp add: locations_def List.map_filter_def split: option.splits)

lemma locations_Nil [simp]: "locations [] = []"
  by (simp add: locations_def List.map_filter_def)

lemma merged_Oid: "(\<forall>r\<in>set rows. ed_Oid r = oid) \<Longrightarrow> rows \<noteq> [] \<Longrightarrow> ed_Oid (merged rows) = oid"
  by (cases rows) (simp_all add: merged_def)

lemma merged_snoc:
  assumes "\<forall>x\<in>set rows. ed_Oid x = ed_Oid r" and "ed_Oid r \<noteq> 0"
  shows "merged (rows @ [r]) = with_location (merged rows) r"
proof (cases rows)
  case Nil
  then show ?thesis using locations_snoc[of "[]" r]
    by (simp add: merged_def with_location_def no_external_def_def split: option.split)
next
  case (Cons a as)
  with assms have "ed_Oid (merged rows) \<noteq> 0" using merged_Oid[OF assms(1)] by simp
  moreover have "merged (rows @ [r]) = a\<lparr>ed_URIs := ed_URIs a @ locations (rows @ [r])\<rparr>" "merged rows = a\<lparr>ed_URIs := ed_URIs a @ locations rows\<rparr>"
    using Cons by (simp_all add: merged_def)
  ultimately show ?thesis by (simp add: with_location_def locations_snoc Let_def split: option.split)
qed

lemma external_map:
  assumes "oid \<noteq> 0"
  shows "go_get0 no_external_def (foldl add_location [] rows) oid = merged (filter (\<lambda>r. ed_Oid r = oid) rows)"
proof (induction rows rule: rev_induct)
  case (snoc r rows)
  have "merged (filter (\<lambda>x. ed_Oid x = oid) rows @ [r]) = with_location (merged (filter (\<lambda>x. ed_Oid x = oid) rows)) r" if "ed_Oid r = oid"
    by (rule merged_snoc) (use that assms in auto)
  with snoc show ?case by (simp add: add_location_def go_get0_set)
qed (simp add: merged_def)

text \<open>The columns and locations a table should have.\<close>

definition has_parts :: "ColumnDefinition list \<Rightarrow> ExternalTableDefinition list \<Rightarrow> Relation \<Rightarrow> PrintRelations.Table \<Rightarrow> bool" where
  "has_parts cols exts r t \<longleftrightarrow>
     Relation.truncate t = r \<and>
     tb_ColumnDefs t = filter (\<lambda>c. cd_Oid c = r_Oid r) cols \<and>
     tb_IsExternal t = (\<exists>e\<in>set exts. ed_Oid e = r_Oid r) \<and>
     ed_URIs (tb_ExtTableDef t) = locations (filter (\<lambda>e. ed_Oid e = r_Oid r) exts)"

lemma table_of_parts_has:
  assumes "columnDefs p = group_by cd_Oid id cols" and "extTableDefs p = foldl add_location [] exts"
    and "r_Oid r \<noteq> 0" and "\<forall>e\<in>set exts. ed_URIs e = []"
  shows "has_parts cols exts r (table_of_parts p r)"
proof -
  let ?own = "filter (\<lambda>e. ed_Oid e = r_Oid r) exts"
  have ext: "go_get0 no_external_def (extTableDefs p) (r_Oid r) = merged ?own"
    using external_map[OF assms(3)] assms(2) by simp
  have "ed_Oid (merged ?own) \<noteq> 0 \<longleftrightarrow> (\<exists>e\<in>set exts. ed_Oid e = r_Oid r)"
  proof (cases "?own = []")
    case True
    then show ?thesis by (auto simp: merged_def no_external_def_def filter_empty_conv)
  next
    case False
    with merged_Oid[of ?own "r_Oid r"] assms(3) show ?thesis by (auto simp: filter_empty_conv)
  qed
  moreover have "ed_URIs (merged ?own) = locations ?own"
  proof (cases ?own)
    case (Cons a as)
    then have "a \<in> set ?own" by simp
    then have "a \<in> set exts" by simp
    with Cons assms(4) show ?thesis by (simp add: merged_def)
  qed (simp add: merged_def no_external_def_def)
  ultimately show ?thesis using assms ext
    by (simp add: has_parts_def table_of_parts_def Let_def group_by_get Relation.defs Table.defs)
qed

text \<open>
  Claim C31. \<open>ConstructDefinitionsForTables\<close> returns one table per relation, in the same order and with
  its name and number. A table has exactly the column rows with its number, in the order of the
  query and with the codes replaced; it is external when the query of external tables has a row
  for it, and then its locations are the non-empty locations of all its rows, none lost or mixed
  up. Object numbers are not zero and the query fills no \<open>URIs\<close>.
\<close>

theorem tables_complete:
  assumes "ConstructDefinitionsForTables env flt clause sv rels = Inr ts"
    and "columns_query env clause = Inr cq" and "sv_columns sv cq = Inr cols"
    and "external_query env = Inr eq" and "sv_external sv eq = Inr exts"
    and "\<forall>r\<in>set rels. r_Oid r \<noteq> 0" and "\<forall>e\<in>set exts. ed_URIs e = []"
  shows "\<exists>at7. list_all2 (has_parts (map (column_of_row at7) cols) exts) rels ts"
proof -
  obtain p where p: "query_parts env flt clause sv rels = Inr p" and ts: "ts = map (table_of_parts p) rels"
    using assms(1) by (auto simp: ConstructDefinitionsForTables_def rbind_Inr_iff)
  obtain at7 where "columnDefs p = group_by cd_Oid id (map (column_of_row at7) cols)"
    using p assms(2,3) by (auto simp: query_parts_def rbind_Inr_iff GetColumnDefinitions_def must_select_def)
  moreover have "extTableDefs p = foldl add_location [] exts"
    using p assms(4,5) by (auto simp: query_parts_def rbind_Inr_iff GetExternalTableDefinitions_def must_select_def)
  ultimately have "list_all2 (has_parts (map (column_of_row at7) cols) exts) rels ts"
    using assms(6,7) by (auto simp: ts list_all2_conv_all_nth intro!: table_of_parts_has)
  then show ?thesis ..
qed

text \<open>A Cloudberry server with one table that has two columns and two locations.\<close>

definition demo_query_env :: acl_env where
  "demo_query_env = \<lparr>acl_ranges = (\<lambda>s. Inr (\<lambda>v. True)), acl_version = \<lparr>VersionString = [], SemVer = \<lparr>Major = 1, Minor = 0, Patch = 0\<rparr>, Type = CBDB\<rparr>, role_map = []\<rparr>"

definition demo_column :: "32 word \<Rightarrow> string \<Rightarrow> ColumnDefinition" where
  "demo_column oid n = \<lparr>cd_Oid = oid, cd_Num = 1, cd_Name = n, cd_NotNull = False, cd_HasDefault = False, cd_Type = ''int'', cd_Encoding = [], cd_StatTarget = 0,
     cd_StorageType = ''p'', cd_DefaultVal = [], cd_Comment = [], cd_Privileges = None, cd_Kind = [], cd_Options = [], cd_FdwOptions = [], cd_Collation = [],
     cd_SecurityLabelProvider = [], cd_SecurityLabel = [], cd_AttGenerated = []\<rparr>"

definition demo_columns :: "ColumnDefinition list" where
  "demo_columns = [demo_column 20 ''a'', demo_column 21 ''x'', demo_column 20 ''b'']"

definition demo_externals :: "ExternalTableDefinition list" where
  "demo_externals = [no_external_def\<lparr>ed_Oid := 20, ed_Location := Some ''gpfdist://h1''\<rparr>, no_external_def\<lparr>ed_Oid := 20, ed_Location := Some ''gpfdist://h2''\<rparr>]"

definition demo_table_server :: table_server where
  "demo_table_server = \<lparr>sv_columns = (\<lambda>_. Inr demo_columns), sv_values = (\<lambda>_. Inr []), sv_details = (\<lambda>_. Inr []), sv_storage = (\<lambda>_. Inr []),
     sv_external = (\<lambda>_. Inr demo_externals), sv_levels = (\<lambda>_. Inr []), sv_oids = (\<lambda>_. Inr []), sv_foreign = (\<lambda>_. Inr []),
     sv_parents = (\<lambda>_. Inr []), sv_altered = (\<lambda>_. Inr []), sv_attach = (\<lambda>_. Inr [])\<rparr>"

definition demo_relation :: Relation where
  "demo_relation = \<lparr>r_SchemaOid = 1, r_Oid = 20, r_Schema = ''s'', r_Name = ''t''\<rparr>"

definition no_filters :: filters where
  "no_filters = \<lparr>filterRelationClause = [], includeRelations = [], excludeRelations = [], includeSchemas = [], excludeSchemas = []\<rparr>"

abbreviation demo_table_run :: "PrintRelations.Table list res" where
  "demo_table_run \<equiv> ConstructDefinitionsForTables demo_query_env no_filters ''true'' demo_table_server [demo_relation]"

lemma demo_version_tests:
  "src_old demo_query_env v = Inr False" "src_is demo_query_env v = Inr False" "src_at_least demo_query_env v = Inr True"
  by (simp_all add: src_old_def src_is_def src_at_least_def is_old_gpdb_def version_gate_def demo_query_env_def type_tests)

lemma demo_table_run_ok: "\<not> isl demo_table_run"
  by (simp add: ConstructDefinitionsForTables_def query_parts_def GetColumnDefinitions_def columns_query_def GetDistributionPolicies_def
    selectAsOidToStringMap_def GetPartitionDetails_def GetTableStorage_def GetExternalTableDefinitions_def external_query_def
    GetPartitionTableMap_def GetTableType_def GetTableAccessMethod_def GetUnloggedTables_def GetForeignTableDefinitions_def GetTableInheritance_def
    GetTableReplicaIdentity_def GetPartitionAlteredSchema_def GetPartitionKeyDefs_def GetAttachPartitionInfo_def GetForceRowSecurity_def
    demo_version_tests must_select_def FatalOnError_def demo_table_server_def Let_def)

theorem tables_complete_witness:
  "map cd_Name (tb_ColumnDefs (hd (projr demo_table_run))) = [''a'', ''b''] \<and> tb_IsExternal (hd (projr demo_table_run)) \<and>
   ed_URIs (tb_ExtTableDef (hd (projr demo_table_run))) = [''gpfdist://h1'', ''gpfdist://h2'']"
proof -
  have run: "demo_table_run = Inr (projr demo_table_run)" using demo_table_run_ok by (simp add: sum.collapse)
  obtain at7 where "list_all2 (has_parts (map (column_of_row at7) demo_columns) demo_externals) [demo_relation] (projr demo_table_run)"
    using tables_complete[OF run, of _ demo_columns _ demo_externals]
    by (auto simp: columns_query_def external_query_def demo_version_tests demo_table_server_def demo_relation_def demo_externals_def no_external_def_def)
  then have "has_parts (map (column_of_row at7) demo_columns) demo_externals demo_relation (hd (projr demo_table_run))"
    by (cases "projr demo_table_run") auto
  moreover have "map cd_Name (filter (\<lambda>c. cd_Oid c = 20) (map (column_of_row at7) demo_columns)) = [''a'', ''b'']"
    by (cases at7) (simp_all add: demo_columns_def demo_column_def column_of_row_def Let_def)
  moreover have "locations (filter (\<lambda>e. ed_Oid e = 20) demo_externals) = [''gpfdist://h1'', ''gpfdist://h2'']"
    by (simp add: demo_externals_def locations_def List.map_filter_def no_external_def_def)
  ultimately show ?thesis by (simp add: has_parts_def demo_relation_def demo_externals_def no_external_def_def)
qed

end
