(* ===== verification/QueryRelations.thy ===== *)
theory QueryRelations
  imports QueryTables
begin

text \<open>
  \<open>src/meta/builtin/queries_relations.go\<close>: tables, foreign tables, sequences and views, and the
  batches of table names; \<open>queries_incremental.go\<close>: modification counts of append-only tables.
  \<open>clause\<close> is the filter of \<open>relationAndSchemaFilterClause\<close>.
\<close>

section \<open>Tables\<close>

definition relkind_filter :: "'a acl_env_scheme \<Rightarrow> string res" where
  "relkind_filter env = rbind (src_at_least env ''7'') (\<lambda>at7. Inr (in_quotes ''r'' @ text_if at7 ('', '' @ in_quotes ''p'')))"

definition getUserTableRelations :: "'a acl_env_scheme \<Rightarrow> string \<Rightarrow> (string \<Rightarrow> Relation list res) \<Rightarrow> Relation list res" where
  "getUserTableRelations env clause select =
     rbind (relkind_filter env) (\<lambda>relkindFilter.
       must_select select (concat [''
	SELECT n.oid AS schemaoid,
		c.oid AS oid,
		quote_ident(n.nspname) AS schema,
		quote_ident(c.relname) AS name
	FROM pg_class c
		JOIN pg_namespace n ON c.relnamespace = n.oid
	WHERE '', clause, ''
		'', [], ''
		AND relkind IN ('', relkindFilter, '')
		AND '', ExtensionFilterClause ''c'', ''
		ORDER BY c.oid'']))"

definition getUserTableRelationsWithIncludeFiltering :: "'a acl_env_scheme \<Rightarrow> (string \<Rightarrow> Relation list res) \<Rightarrow> (string \<Rightarrow> string list res) \<Rightarrow> string list \<Rightarrow> Relation list res" where
  "getUserTableRelationsWithIncludeFiltering env select select_oids includedRelationsQuoted =
     rbind (relkind_filter env) (\<lambda>relkindFilter.
     rbind (getOidsFromRelationList select_oids includedRelationsQuoted) (\<lambda>includeOids.
       let oidStr = Join includeOids '', ''
       in must_select select (concat [''
	SELECT n.oid AS schemaoid,
		c.oid AS oid,
		quote_ident(n.nspname) AS schema,
		quote_ident(c.relname) AS name
	FROM pg_class c
		JOIN pg_namespace n ON c.relnamespace = n.oid
	WHERE c.oid IN ('', oidStr, '')
		AND relkind IN ('', relkindFilter, '')
	ORDER BY c.oid''])))"

definition GetIncludedUserTableRelations :: "'a acl_env_scheme \<Rightarrow> filters \<Rightarrow> string \<Rightarrow> (string \<Rightarrow> Relation list res) \<Rightarrow> (string \<Rightarrow> string list res) \<Rightarrow> string list \<Rightarrow>
    Relation list res" where
  "GetIncludedUserTableRelations env flt clause select select_oids includedRelationsQuoted =
     (if includeRelations flt \<noteq> [] then getUserTableRelationsWithIncludeFiltering env select select_oids includedRelationsQuoted
      else getUserTableRelations env clause select)"

definition GetForeignTableRelations :: "string \<Rightarrow> (string \<Rightarrow> Relation list res) \<Rightarrow> Relation list res" where
  "GetForeignTableRelations clause select = must_select select (concat [''
	SELECT n.oid AS schemaoid,
		c.oid AS oid,
		quote_ident(n.nspname) AS schema,
		quote_ident(c.relname) AS name
	FROM pg_class c
		JOIN pg_namespace n ON c.relnamespace = n.oid
	WHERE '', clause, ''
		AND relkind = 'f'
		AND '', ExtensionFilterClause ''c'', ''
	ORDER BY c.oid''])"

section \<open>Sequences\<close>

definition GetSequenceDefinition :: "'a acl_env_scheme \<Rightarrow> (string \<Rightarrow> SequenceDefinition res) \<Rightarrow> string \<Rightarrow> SequenceDefinition res" where
  "GetSequenceDefinition env get seqName =
     rbind (src_at_least env ''6'') (\<lambda>at6.
     rbind (src_old env ''7'') (\<lambda>old7.
       let startValQuery = text_if at6 ''start_value AS startval,''
       in FatalOnError (get (if old7
         then concat [''
		SELECT last_value AS lastval,
			'', startValQuery, ''
			increment_by AS increment,
			max_value AS maxval,
			min_value AS minval,
			cache_value AS cacheval,
			is_cycled AS iscycled,
			is_called AS iscalled
		FROM '', seqName]
         else concat [''
		SELECT s.seqstart AS startval,
			r.last_value AS lastval,
			pg_catalog.format_type(s.seqtypid, NULL) AS type,
			s.seqincrement AS increment,
			s.seqmax AS maxval,
			s.seqmin AS minval,
			s.seqcache AS cacheval,
			s.seqcycle AS iscycled,
			r.is_called AS iscalled
		FROM '', seqName, '' r
		JOIN pg_sequence s ON s.seqrelid = '', [SQ], seqName, [SQ], ''::regclass::oid;'']))))"

definition owned_names :: "string list \<Rightarrow> Sequence \<Rightarrow> Sequence" where
  "owned_names excludeOids s =
     (let tab = (if sq_OwningTable s \<noteq> [] then sq_OwningTableSchema s @ ''.'' @ sq_OwningTable s else sq_OwningTable s);
          col = (if sq_OwningColumn s \<noteq> [] then tab @ ''.'' @ sq_OwningColumn s else sq_OwningColumn s);
          excluded = sq_OwningTableOid s \<in> set excludeOids
      in s\<lparr>sq_OwningTable := (if excluded then [] else tab), sq_OwningColumn := (if excluded then [] else col)\<rparr>)"

fun with_definitions :: "(string \<Rightarrow> SequenceDefinition res) \<Rightarrow> Sequence list \<Rightarrow> Sequence list res" where
  "with_definitions definition_of [] = Inr []"
| "with_definitions definition_of (s # ss) =
     rbind (definition_of (Relation_FQN s)) (\<lambda>d. rbind (with_definitions definition_of ss) (\<lambda>ss. Inr (s\<lparr>sq_Definition := d\<rparr> # ss)))"

definition GetAllSequences :: "'a acl_env_scheme \<Rightarrow> flagset \<Rightarrow> string \<Rightarrow> (string \<Rightarrow> Sequence list res) \<Rightarrow> (string \<Rightarrow> string list res) \<Rightarrow> (string \<Rightarrow> SequenceDefinition res) \<Rightarrow>
    Sequence list res" where
  "GetAllSequences env fl clause select select_oids get =
     rbind (src_old env ''7'') (\<lambda>old7.
     rbind (must_select select (if old7
         then concat [''
		SELECT n.oid AS schemaoid,
			c.oid AS oid,
			quote_ident(n.nspname) AS schema,
			quote_ident(c.relname) AS name,
			coalesce(d.refobjid::text, '', [SQ, SQ], '') AS owningtableoid,
			coalesce(quote_ident(m.nspname), '', [SQ, SQ], '') AS owningtableschema,
			coalesce(quote_ident(t.relname), '', [SQ, SQ], '') AS owningtable,
			coalesce(quote_ident(a.attname), '', [SQ, SQ], '') AS owningcolumn
		FROM pg_class c
			JOIN pg_namespace n ON n.oid = c.relnamespace
			LEFT JOIN pg_depend d ON c.oid = d.objid AND d.deptype = 'a'
			LEFT JOIN pg_class t ON t.oid = d.refobjid
			LEFT JOIN pg_namespace m ON m.oid = t.relnamespace
			LEFT JOIN pg_attribute a ON a.attrelid = d.refobjid AND a.attnum = d.refobjsubid
		WHERE c.relkind = 'S'
			AND '', clause, ''
			AND '', ExtensionFilterClause ''c'', ''
		ORDER BY n.nspname, c.relname'']
         else concat [''
		SELECT n.oid AS schemaoid,
			c.oid AS oid,
			quote_ident(n.nspname) AS schema,
			quote_ident(c.relname) AS name,
			coalesce(d.refobjid::text, '', [SQ, SQ], '') AS owningtableoid,
			coalesce(quote_ident(m.nspname), '', [SQ, SQ], '') AS owningtableschema,
			coalesce(quote_ident(t.relname), '', [SQ, SQ], '') AS owningtable,
			coalesce(quote_ident(a.attname), '', [SQ, SQ], '') AS owningcolumn,
			coalesce(a.attidentity, '', [SQ, SQ], '') AS owningcolumnattidentity,
			coalesce(quote_ident(a.attname), '', [SQ, SQ], '') AS unqualifiedowningcolumn,
			CASE
				WHEN d.deptype IS NULL THEN false
				ELSE d.deptype = 'i'
			END AS isidentity
		FROM pg_class c
			JOIN pg_namespace n ON n.oid = c.relnamespace
			LEFT JOIN pg_depend d ON c.oid = d.objid AND d.deptype in ('a', 'i')
			LEFT JOIN pg_class t ON t.oid = d.refobjid
			LEFT JOIN pg_namespace m ON m.oid = t.relnamespace
			LEFT JOIN pg_attribute a ON a.attrelid = d.refobjid AND a.attnum = d.refobjsubid
		WHERE c.relkind = 'S'
			AND '', clause, ''
			AND '', ExtensionFilterClause ''c'', ''
		ORDER BY n.nspname, c.relname''])) (\<lambda>rows.
     rbind (MustGetFlagStringSlice fl ''exclude-table'') (\<lambda>excludeTables.
     rbind (if excludeTables \<noteq> [] then getOidsFromRelationList select_oids excludeTables else Inr []) (\<lambda>excludeOids.
       with_definitions (GetSequenceDefinition env get) (map (owned_names excludeOids) rows)))))"

definition GetAllSequenceRelations :: "string \<Rightarrow> (string \<Rightarrow> Relation list res) \<Rightarrow> Relation list res" where
  "GetAllSequenceRelations clause select = must_select select (concat [''
	SELECT n.oid AS schemaoid,
		c.oid AS oid,
		quote_ident(n.nspname) AS schema,
		quote_ident(c.relname) AS name
	FROM pg_class c
		LEFT JOIN pg_namespace n
		ON c.relnamespace = n.oid
	WHERE relkind = 'S'
		AND '', clause, ''
		AND '', ExtensionFilterClause ''c'', ''
	ORDER BY n.nspname, c.relname''])"

record seq_owner =
  so_Schema :: string
  so_Name :: string
  so_TableName :: string
  so_ColumnName :: string

definition seq_fqn :: "seq_owner \<Rightarrow> string" where "seq_fqn r = fqn (so_Schema r) (so_Name r)"

definition GetSequenceColumnOwnerMap :: "string \<Rightarrow> (string \<Rightarrow> seq_owner list res) \<Rightarrow> ((string, string) gomap \<times> (string, string) gomap) res" where
  "GetSequenceColumnOwnerMap clause select =
     rbind (must_select select (concat [''
	SELECT quote_ident(n.nspname) AS schema,
		quote_ident(s.relname) AS name,
		quote_ident(c.relname) AS tablename,
		quote_ident(a.attname) AS columnname
	FROM pg_depend d
		JOIN pg_attribute a ON a.attrelid = d.refobjid AND a.attnum = d.refobjsubid
		JOIN pg_class s ON s.oid = d.objid
		JOIN pg_class c ON c.oid = d.refobjid
		JOIN pg_namespace n ON n.oid = s.relnamespace
	WHERE s.relkind = 'S'
		AND '', clause])) (\<lambda>rows.
       Inr (index_by seq_fqn (\<lambda>r. so_Schema r @ ''.'' @ so_TableName r) rows,
            index_by seq_fqn (\<lambda>r. so_Schema r @ ''.'' @ so_TableName r @ ''.'' @ so_ColumnName r) rows))"

section \<open>Views\<close>

definition views_query :: "'a acl_env_scheme \<Rightarrow> string \<Rightarrow> string res" where
  "views_query env clause =
     rbind (src_old env ''6'') (\<lambda>old6.
     rbind (if old6 then Inr False else src_is env ''6'') (\<lambda>is6.
       Inr (if old6
         then concat [''
	SELECT
		c.oid AS oid,
		quote_ident(n.nspname) AS schema,
		quote_ident(c.relname) AS name,
		pg_get_viewdef(c.oid) AS definition
	FROM pg_class c
		LEFT JOIN pg_namespace n ON n.oid = c.relnamespace
		LEFT JOIN pg_tablespace t ON t.oid = c.reltablespace
	WHERE c.relkind IN ('m', 'v')
		AND '', clause, ''
		AND '', ExtensionFilterClause ''c'']
         else if is6
         then concat [''
	SELECT
		c.oid AS oid,
		quote_ident(n.nspname) AS schema,
		quote_ident(c.relname) AS name,
		pg_get_viewdef(c.oid) AS definition,
		coalesce(' WITH (' || array_to_string(c.reloptions, ', ') || ')', '', [SQ, SQ], '') AS options,
		coalesce(quote_ident(t.spcname), '', [SQ, SQ], '') AS tablespace,
		c.relkind='m' AS ismaterialized
	FROM pg_class c
		LEFT JOIN pg_namespace n ON n.oid = c.relnamespace
		LEFT JOIN pg_tablespace t ON t.oid = c.reltablespace
	WHERE c.relkind IN ('m', 'v')
		AND '', clause, ''
		AND '', ExtensionFilterClause ''c'']
         else concat [''
	SELECT
		c.oid AS oid,
		quote_ident(n.nspname) AS schema,
		quote_ident(c.relname) AS name,
		pg_get_viewdef(c.oid) AS definition,
		coalesce(' WITH (' || array_to_string(c.reloptions, ', ') || ')', '', [SQ, SQ], '') AS options,
		coalesce(quote_ident(t.spcname), '', [SQ, SQ], '') AS tablespace,
		c.relkind='m' AS ismaterialized,
		coalesce(quote_ident(am.amname), '', [SQ, SQ], '') AS accessmethodname
	FROM pg_class c
		LEFT JOIN pg_namespace n ON n.oid = c.relnamespace
		LEFT JOIN pg_tablespace t ON t.oid = c.reltablespace
		LEFT JOIN pg_am am ON am.oid = c.relam
	WHERE c.relkind IN ('m', 'v')
		AND '', clause, ''
		AND '', ExtensionFilterClause ''c''])))"

fun verified_views :: "(32 word, string) gomap \<Rightarrow> View list \<Rightarrow> View list res" where
  "verified_views distPolicies [] = Inr []"
| "verified_views distPolicies (v # vs) =
     (case vw_Definition v of
        None \<Rightarrow> verified_views distPolicies vs
      | Some d \<Rightarrow>
          if Contains d ''::anyarray'' then Inl (Fatal (''Detected anyarray type cast in view definition for View '' @ in_quotes (View_FQN v)))
          else rbind (verified_views distPolicies vs) (\<lambda>vs.
            Inr ((if vw_IsMaterialized v then v\<lparr>vw_DistPolicy := go_get0 [] distPolicies (vw_Oid v)\<rparr> else v) # vs)))"

text \<open>
  Inside a transaction the queries run between a savepoint and a rollback to it; the rollback is
  deferred and happens whatever the outcome. \<open>exec\<close> runs a statement.
\<close>

definition GetAllViews :: "'a acl_env_scheme \<Rightarrow> bool \<Rightarrow> (string \<Rightarrow> unit res) \<Rightarrow> string \<Rightarrow> (string \<Rightarrow> View list res) \<Rightarrow> (string \<Rightarrow> oid_value list res) \<Rightarrow> View list res" where
  "GetAllViews env in_tx exec clause select select_values =
     rbind (if in_tx then FatalOnError (exec ''SAVEPOINT gpbackup_get_views'') else Inr ()) (\<lambda>_.
     case rbind (views_query env clause) (\<lambda>query.
          rbind (must_select select query) (\<lambda>rows.
          rbind (GetDistributionPolicies env select_values) (\<lambda>distPolicies. verified_views distPolicies rows))) of
        Inl e \<Rightarrow> Inl e
      | Inr vs \<Rightarrow> rbind (if in_tx then FatalOnError (exec ''ROLLBACK TO SAVEPOINT gpbackup_get_views'') else Inr ()) (\<lambda>_. Inr vs))"

section \<open>Batches of table names\<close>

text \<open>
  The loop goes from \<open>i\<close> to \<open>i + batchSize\<close>. With a batch size of zero it never ends; with a negative
  one the slice expression panics.
\<close>

partial_function (option) batches_from :: "string list \<Rightarrow> int \<Rightarrow> int \<Rightarrow> string list res option" where
  "batches_from tableNames batchSize i =
     (if \<not> i < int (length tableNames) then Some (Inr [])
      else let end_ix = (if i + batchSize < int (length tableNames) then i + batchSize else int (length tableNames))
      in if end_ix < i \<or> end_ix < 0 then Some (Inl (Panic ''slice bounds out of range''))
      else Option.bind (batches_from tableNames batchSize end_ix) (\<lambda>r.
        Some (rbind r (\<lambda>bs. Inr (Join (take (nat (end_ix - i)) (drop (nat i) tableNames)) '', '' # bs)))))"

definition GenerateTableBatches :: "Relation list \<Rightarrow> int \<Rightarrow> string list res option" where
  "GenerateTableBatches tables batchSize = batches_from (map Relation_FQN tables) batchSize 0"

section \<open>Append-only tables\<close>

record ao_row =
  ao_TableFQN :: string
  ao_Value :: string

record AOEntry =
  Modcount :: int
  LastDDLTimestamp :: string

definition getAOSegTableFQNs :: "'a acl_env_scheme \<Rightarrow> string \<Rightarrow> (string \<Rightarrow> ao_row list res) \<Rightarrow> (string, string) gomap res" where
  "getAOSegTableFQNs env clause select =
     rbind (src_old env ''7'') (\<lambda>old7.
     rbind (must_select select (if old7
         then concat [''
		SELECT seg.aotablefqn,
			'pg_aoseg.' || quote_ident(aoseg_c.relname) AS aosegtablefqn
		FROM pg_class aoseg_c
			JOIN (SELECT pg_ao.relid AS aooid,
					pg_ao.segrelid,
					aotables.aotablefqn
				FROM pg_appendonly pg_ao
					JOIN (SELECT c.oid,
							quote_ident(n.nspname)|| '.' || quote_ident(c.relname) AS aotablefqn
						FROM pg_class c
							JOIN pg_namespace n ON c.relnamespace = n.oid
						WHERE relstorage IN ( 'ao', 'co' )
							AND '', clause, ''
					) aotables ON pg_ao.relid = aotables.oid
			) seg ON aoseg_c.oid = seg.segrelid'']
         else concat [''
		SELECT seg.aotablefqn,
			'pg_aoseg.' || quote_ident(aoseg_c.relname) AS aosegtablefqn
		FROM pg_class aoseg_c
			JOIN (SELECT pg_ao.relid AS aooid,
					pg_ao.segrelid,
					aotables.aotablefqn
				FROM pg_appendonly pg_ao
					JOIN (SELECT c.oid,
							quote_ident(n.nspname) || '.' || quote_ident(c.relname) AS aotablefqn
						FROM pg_class c
							JOIN pg_namespace n ON c.relnamespace = n.oid
							JOIN pg_am a ON c.relam = a.oid
						WHERE a.amname in ('ao_row', 'ao_column')
							AND '', clause, ''
					) aotables ON pg_ao.relid = aotables.oid
			) seg ON aoseg_c.oid = seg.segrelid''])) (\<lambda>rows.
       Inr (index_by ao_TableFQN ao_Value rows)))"

definition getModCount :: "'a acl_env_scheme \<Rightarrow> (string \<Rightarrow> int list res) \<Rightarrow> string \<Rightarrow> int res" where
  "getModCount env select aosegtablefqn =
     rbind (src_old env ''7'') (\<lambda>old7.
     rbind (must_select select (if old7
         then concat [''SELECT COALESCE(pg_catalog.sum(modcount), 0) AS modcount FROM '', aosegtablefqn]
         else concat [''SELECT COALESCE(pg_catalog.sum(modcount), 0) AS modcount FROM gp_dist_random('', [SQ], aosegtablefqn, [SQ], '')''])) (\<lambda>rows.
       go_index rows 0))"

text \<open>\<open>names\<close> is the order in which Go visits the map.\<close>

fun mod_counts :: "(string \<Rightarrow> int res) \<Rightarrow> (string, string) gomap \<Rightarrow> string list \<Rightarrow> (string, int) gomap res" where
  "mod_counts count_of segs [] = Inr []"
| "mod_counts count_of segs (n # ns) =
     rbind (count_of (go_get0 [] segs n)) (\<lambda>c. rbind (mod_counts count_of segs ns) (\<lambda>m. Inr (go_set n c m)))"

definition getAllModCounts :: "((string, string) gomap \<Rightarrow> string list) \<Rightarrow> 'a acl_env_scheme \<Rightarrow> string \<Rightarrow> (string \<Rightarrow> ao_row list res) \<Rightarrow> (string \<Rightarrow> int list res) \<Rightarrow>
    (string, int) gomap res" where
  "getAllModCounts keys env clause select select_counts =
     rbind (getAOSegTableFQNs env clause select) (\<lambda>segs. mod_counts (getModCount env select_counts) segs (keys segs))"

definition getLastDDLTimestamps :: "'a acl_env_scheme \<Rightarrow> string \<Rightarrow> (string \<Rightarrow> ao_row list res) \<Rightarrow> (string, string) gomap res" where
  "getLastDDLTimestamps env clause select =
     rbind (src_old env ''7'') (\<lambda>old7.
     rbind (must_select select (if old7
         then concat [''
		SELECT quote_ident(aoschema) || '.' || quote_ident(aorelname) as aotablefqn,
			lastddltimestamp
		FROM ( SELECT c.oid AS aooid,
					n.nspname AS aoschema,
					c.relname AS aorelname
				FROM pg_class c
				JOIN pg_namespace n ON c.relnamespace = n.oid
				WHERE c.relstorage IN ('ao', 'co')
				AND '', clause, ''
			) aotables
		JOIN ( SELECT lo.objid,
					MAX(lo.statime) AS lastddltimestamp
				FROM pg_stat_last_operation lo
				WHERE lo.staactionname IN ('CREATE', 'ALTER', 'TRUNCATE')
				GROUP BY lo.objid
			) lastop
		ON aotables.aooid = lastop.objid'']
         else concat [''
		SELECT quote_ident(aoschema) || '.' || quote_ident(aorelname) as aotablefqn,
			lastddltimestamp
		FROM ( SELECT c.oid AS aooid,
					n.nspname AS aoschema,
					c.relname AS aorelname
				FROM pg_class c
					JOIN pg_namespace n ON c.relnamespace = n.oid
					JOIN pg_am a ON c.relam = a.oid
				WHERE a.amname in ('ao_row', 'ao_column')
					AND '', clause, ''
			) aotables
		JOIN ( SELECT lo.objid,
					MAX(lo.statime) AS lastddltimestamp
				FROM pg_stat_last_operation lo
				WHERE lo.staactionname IN ('CREATE', 'ALTER', 'TRUNCATE')
				GROUP BY lo.objid
			) lastop
		ON aotables.aooid = lastop.objid''])) (\<lambda>rows.
       Inr (index_by ao_TableFQN ao_Value rows)))"

definition GetAOIncrementalMetadata :: "((string, string) gomap \<Rightarrow> string list) \<Rightarrow> 'a acl_env_scheme \<Rightarrow> string \<Rightarrow> (string \<Rightarrow> ao_row list res) \<Rightarrow> (string \<Rightarrow> int list res) \<Rightarrow>
    (string, AOEntry) gomap res" where
  "GetAOIncrementalMetadata keys env clause select select_counts =
     rbind (getAllModCounts keys env clause select select_counts) (\<lambda>counts.
     rbind (getLastDDLTimestamps env clause select) (\<lambda>stamps.
       Inr (map (\<lambda>(t, c). (t, \<lparr>Modcount = c, LastDDLTimestamp = go_get0 [] stamps t\<rparr>)) counts)))"

section \<open>Batches cover the tables\<close>

fun chunks :: "nat \<Rightarrow> 'a list \<Rightarrow> 'a list list" where
  "chunks n xs = (if xs = [] \<or> n = 0 then [] else take n xs # chunks n (drop n xs))"

declare chunks.simps [simp del]

lemma concat_chunks: "0 < n \<Longrightarrow> concat (chunks n xs) = xs"
  by (induction n xs rule: chunks.induct) (subst chunks.simps, simp)

lemma chunks_length: "c \<in> set (chunks n xs) \<Longrightarrow> length c \<le> n \<and> c \<noteq> []"
  by (induction n xs rule: chunks.induct) (subst (asm) (2) chunks.simps, auto split: if_splits)

lemma batches_from_chunks:
  assumes "0 < n" and "k \<le> length names"
  shows "batches_from names (int n) (int k) = Some (Inr (map (\<lambda>b. Join b '', '') (chunks n (drop k names))))"
  using assms(2)
proof (induction "length names - k" arbitrary: k rule: less_induct)
  case less
  show ?case
  proof (cases "k < length names")
    case False
    with less.prems show ?thesis by (simp add: batches_from.simps chunks.simps)
  next
    case True
    define e where "e = min (k + n) (length names)"
    have e: "k < e" "e \<le> length names" using True assms(1) by (auto simp: e_def)
    then have IH: "batches_from names (int n) (int e) = Some (Inr (map (\<lambda>b. Join b '', '') (chunks n (drop e names))))"
      using less.hyps True by simp
    have end_ix: "(if int k + int n < int (length names) then int k + int n else int (length names)) = int e"
      by (simp add: e_def min_def)
    have "take (e - k) (drop k names) = take n (drop k names)" "drop e names = drop n (drop k names)"
      using True by (auto simp: e_def min_def add.commute)
    with True assms(1) have "chunks n (drop k names) = take (e - k) (drop k names) # chunks n (drop e names)"
      by (subst chunks.simps) simp
    moreover have "nat (int e - int k) = e - k" using e by simp
    ultimately show ?thesis using True e IH
      by (subst batches_from.simps) (simp only: end_ix Let_def, simp)
  qed
qed

text \<open>
  With a positive batch size the loop ends; the batches, in order, name every table once and each
  names at least one and at most \<open>batchSize\<close> tables.
\<close>

lemma GenerateTableBatches_chunks:
  assumes "0 < batchSize"
  shows "GenerateTableBatches tables batchSize = Some (Inr (map (\<lambda>b. Join b '', '') (chunks (nat batchSize) (map Relation_FQN tables))))"
  using batches_from_chunks[of "nat batchSize" 0 "map Relation_FQN tables"] assms by (simp add: GenerateTableBatches_def)

text \<open>With batch size zero it does not end.\<close>

lemma batches_from_zero:
  assumes "batches_from names n i = Some r"
  shows "\<not> (n = 0 \<and> 0 \<le> i \<and> i < int (length names))"
proof (rule batches_from.raw_induct[OF _ assms, of "\<lambda>names n i r. \<not> (n = 0 \<and> 0 \<le> i \<and> i < int (length names))"])
  fix f :: "string list \<Rightarrow> int \<Rightarrow> int \<Rightarrow> string list res option" and names n i r
  assume "\<And>names n i r. f names n i = Some r \<Longrightarrow> \<not> (n = 0 \<and> 0 \<le> i \<and> i < int (length names))"
    and "(if \<not> i < int (length names) then Some (Inr [])
      else let end_ix = (if i + n < int (length names) then i + n else int (length names))
      in if end_ix < i \<or> end_ix < 0 then Some (Inl (Panic ''slice bounds out of range''))
      else Option.bind (f names n end_ix) (\<lambda>r.
        Some (rbind r (\<lambda>bs. Inr (Join (take (nat (end_ix - i)) (drop (nat i) names)) '', '' # bs))))) = Some r"
  then show "\<not> (n = 0 \<and> 0 \<le> i \<and> i < int (length names))"
    by (auto simp: bind_eq_Some_conv split: if_splits)
qed

lemma GenerateTableBatches_zero: "tables \<noteq> [] \<Longrightarrow> GenerateTableBatches tables 0 = None"
  using batches_from_zero[of "map Relation_FQN tables" 0 0] by (cases "GenerateTableBatches tables 0") (auto simp: GenerateTableBatches_def)

end
