(* ===== verification/Indexes.thy ===== *)
theory Indexes
  imports PrintPostdata Dependencies
begin

text \<open>
  What \<open>src/meta/builtin/queries_postdata.go\<close> does with the rows of the index query: indexes without
  a definition are dropped, those of partitions are sorted so that parents come first, and the
  indexes of exchanged partitions are renamed.
\<close>

section \<open>Sorting of indexes\<close>

definition zero_index :: IndexDefinition where
  "zero_index = \<lparr>ix_Oid = 0, ix_Name = [], ix_OwningSchema = [], ix_OwningTable = [], ix_Tablespace = [], ix_Def = None,
     ix_IsClustered = False, ix_SupportsConstraint = False, ix_IsReplicaIdentity = False, ix_StatisticsColumns = [],
     ix_StatisticsValues = [], ix_ParentIndex = 0, ix_ParentIndexFQN = []\<rparr>"

type_synonym index_map = "(32 word, IndexDefinition) gomap"

definition index_map :: "IndexDefinition list \<Rightarrow> index_map" where
  "index_map xs = foldl (\<lambda>m x. go_set (ix_Oid x) x m) [] xs"

text \<open>The way up from an index to an index without a parent or to one that was visited before.\<close>

function climb :: "index_map \<Rightarrow> IndexDefinition \<Rightarrow> 32 word list \<Rightarrow> 32 word list \<Rightarrow> 32 word list \<times> 32 word list" where
  "climb m x visited stack =
     (if ix_Oid x \<in> set visited then (visited, stack)
      else if ix_ParentIndex x = 0 then (ix_Oid x # visited, stack @ [ix_Oid x])
      else (case go_get m (ix_ParentIndex x) of
          None \<Rightarrow> (ix_Oid x # visited, stack @ [ix_Oid x])
        | Some p \<Rightarrow> climb m p (ix_Oid x # visited) (stack @ [ix_Oid x])))"
  by pat_completeness auto
termination
proof (relation "measure (\<lambda>(m, x, visited, stack). card (insert (ix_Oid x) (ix_Oid ` ran (map_of m)) - set visited))")
  fix m :: index_map and x p :: IndexDefinition and visited stack
  assume a: "ix_Oid x \<notin> set visited" "go_get m (ix_ParentIndex x) = Some p"
  have "insert (ix_Oid p) (ix_Oid ` ran (map_of m)) - set (ix_Oid x # visited)
      \<subset> insert (ix_Oid x) (ix_Oid ` ran (map_of m)) - set visited"
    using a ranI[where m = "map_of m", OF a(2)] by auto
  then have "card (insert (ix_Oid p) (ix_Oid ` ran (map_of m)) - set (ix_Oid x # visited))
      < card (insert (ix_Oid x) (ix_Oid ` ran (map_of m)) - set visited)"
    by (intro psubset_card_mono) (simp_all add: finite_ran)
  then show "((m, p, ix_Oid x # visited, stack @ [ix_Oid x]), m, x, visited, stack)
      \<in> measure (\<lambda>(m, x, visited, stack). card (insert (ix_Oid x) (ix_Oid ` ran (map_of m)) - set visited))"
    by simp
qed simp

declare climb.simps [simp del]

definition pop_index :: "index_map \<Rightarrow> 32 word \<Rightarrow> IndexDefinition" where
  "pop_index m oid =
     (let x = go_get0 zero_index m oid
      in if ix_ParentIndex x \<noteq> 0
         then x\<lparr>ix_ParentIndexFQN := IndexDefinition_FQN (go_get0 zero_index m (ix_ParentIndex x))\<rparr>
         else x)"

fun sort_indexes :: "index_map \<Rightarrow> IndexDefinition list \<Rightarrow> 32 word list \<Rightarrow> IndexDefinition list" where
  "sort_indexes m [] visited = []"
| "sort_indexes m (x # xs) visited =
     (case climb m x visited [] of (visited, stack) \<Rightarrow>
        map (pop_index m) (rev stack) @ sort_indexes m xs visited)"

text \<open>The part of \<open>GetIndexes\<close> after the query.\<close>

definition process_indexes :: "'a acl_env_scheme \<Rightarrow> IndexDefinition list \<Rightarrow> IndexDefinition list res" where
  "process_indexes env rows =
     (let verified = filter (\<lambda>x. ix_Def x \<noteq> None) rows
      in rbind (if verified = [] then Inr False else src_at_least env ''7'') (\<lambda>at7.
         rbind (src_old env ''7'') (\<lambda>old7.
           Inr (if old7 then verified else sort_indexes (if at7 then index_map verified else []) verified []))))"

section \<open>Parents come first\<close>

definition parent_of :: "index_map \<Rightarrow> (32 word \<times> 32 word) set" where
  "parent_of m = {(p, ix_Oid x) | p x. x \<in> ran (map_of m) \<and> ix_ParentIndex x = p \<and> p \<noteq> 0 \<and> go_has m p}"

definition keyed :: "index_map \<Rightarrow> bool" where
  "keyed m \<longleftrightarrow> (\<forall>k x. go_get m k = Some x \<longrightarrow> ix_Oid x = k)"

lemma parent_ofI: "go_get m k = Some x \<Longrightarrow> ix_ParentIndex x = p \<Longrightarrow> p \<noteq> 0 \<Longrightarrow> go_get m p = Some y \<Longrightarrow> (p, ix_Oid x) \<in> parent_of m"
  unfolding parent_of_def go_has_def by (rule CollectI, rule exI[of _ p], rule exI[of _ x]) (simp add: ran_def exI[of _ k])

lemma foldl_go_set_get:
  "distinct (map f xs) \<Longrightarrow> go_get (foldl (\<lambda>m x. go_set (f x) x m) m xs) k =
     (case find (\<lambda>x. f x = k) xs of Some x \<Rightarrow> Some x | None \<Rightarrow> go_get m k)"
proof (induction xs arbitrary: m)
  case (Cons x xs)
  then have "find (\<lambda>y. f y = f x) xs = None" by (auto simp: find_None_iff image_iff)
  with Cons show ?case by (cases "f x = k") (simp_all add: go_map split: option.split)
qed simp

lemma find_key: "distinct (map f xs) \<Longrightarrow> find (\<lambda>x. f x = k) xs = Some x \<longleftrightarrow> x \<in> set xs \<and> f x = k"
  by (induction xs) (auto simp: image_iff)

lemma index_map_get:
  assumes "distinct (map ix_Oid xs)"
  shows "go_get (index_map xs) k = Some x \<longleftrightarrow> x \<in> set xs \<and> ix_Oid x = k"
  unfolding find_key[OF assms, symmetric] index_map_def foldl_go_set_get[OF assms] by (simp split: option.split)

lemma index_map_has:
  assumes "distinct (map ix_Oid xs)"
  shows "go_has (index_map xs) k \<longleftrightarrow> k \<in> ix_Oid ` set xs"
proof -
  have "go_has (index_map xs) k \<longleftrightarrow> (\<exists>x. go_get (index_map xs) k = Some x)" by (simp add: go_has_def)
  also have "\<dots> \<longleftrightarrow> k \<in> ix_Oid ` set xs" unfolding index_map_get[OF assms] by blast
  finally show ?thesis .
qed

lemma keyed_index_map: "distinct (map ix_Oid xs) \<Longrightarrow> keyed (index_map xs)"
  by (simp add: keyed_def index_map_get)

text \<open>
  What one climb adds: a chain of new indexes, each below the next one. Without cycles the parent
  of every index of the chain is further up in it or was visited before.
\<close>

definition parents_in :: "index_map \<Rightarrow> 32 word set \<Rightarrow> 32 word list \<Rightarrow> bool" where
  "parents_in m V ch \<longleftrightarrow> (\<forall>a o1 b. ch = a @ o1 # b \<longrightarrow> (\<forall>p. (p, o1) \<in> parent_of m \<longrightarrow> p \<in> V \<union> set b))"

lemma climb_chain:
  assumes "climb m x visited stack = (visited', stack')" and "keyed m" and "acyclic (parent_of m)" and "go_get m (ix_Oid x) = Some x"
  shows "\<exists>ch. stack' = stack @ ch \<and> visited' = rev ch @ visited \<and> distinct ch \<and> set ch \<inter> set visited = {} \<and>
    (ix_Oid x \<notin> set visited \<longrightarrow> (\<exists>r. ch = ix_Oid x # r)) \<and> set ch \<subseteq> set (go_keys m) \<and>
    (\<forall>z\<in>set ch. (z, ix_Oid x) \<in> (parent_of m)\<^sup>*) \<and> parents_in m (set visited) ch"
  using assms
proof (induction m x visited stack arbitrary: visited' stack' rule: climb.induct)
  case (1 m x visited stack)
  have par: "p = ix_ParentIndex x" if "(p, ix_Oid x) \<in> parent_of m" for p
  proof -
    from that obtain y k where y: "ix_Oid y = ix_Oid x" "ix_ParentIndex y = p" "go_get m k = Some y" by (auto simp: parent_of_def ran_def)
    from y(3) "1.prems"(2) have "k = ix_Oid x" using y(1) unfolding keyed_def by metis
    with y(2,3) "1.prems"(4) show ?thesis by simp
  qed
  have key: "ix_Oid x \<in> set (go_keys m)" using "1.prems"(4) by (metis go_has_def go_has_iff option.distinct(1))
  show ?case
  proof (cases "ix_Oid x \<in> set visited")
    case True
    with "1.prems"(1) show ?thesis by (intro exI[of _ "[]"]) (simp add: climb.simps parents_in_def)
  next
    case False
    show ?thesis
    proof (cases "ix_ParentIndex x = 0 \<or> go_get m (ix_ParentIndex x) = None")
      case True
      have "(p, ix_Oid x) \<notin> parent_of m" for p
      proof
        assume e: "(p, ix_Oid x) \<in> parent_of m"
        from par[OF e] e have "ix_ParentIndex x \<noteq> 0" "go_has m (ix_ParentIndex x)" by (auto simp: parent_of_def)
        with True show False by (simp add: go_has_def)
      qed
      moreover have "stack' = stack @ [ix_Oid x]" "visited' = ix_Oid x # visited"
        using "1.prems"(1) False True by (auto simp: climb.simps split: if_splits)
      ultimately show ?thesis using False key
        by (intro exI[of _ "[ix_Oid x]"]) (auto simp: parents_in_def Cons_eq_append_conv)
    next
      case up: False
      then obtain p where p: "ix_ParentIndex x \<noteq> 0" "go_get m (ix_ParentIndex x) = Some p" by auto
      from p(2) "1.prems"(2) have oid: "ix_Oid p = ix_ParentIndex x" by (simp add: keyed_def)
      have edge: "(ix_Oid p, ix_Oid x) \<in> parent_of m"
        using parent_ofI[OF "1.prems"(4) oid[symmetric]] p oid by simp
      have "climb m p (ix_Oid x # visited) (stack @ [ix_Oid x]) = (visited', stack')"
        using "1.prems"(1) False p by (simp add: climb.simps[of m x])
      from "1.IH"[OF False p(1,2) this "1.prems"(2,3)] p(2) oid obtain ch where ch:
        "stack' = (stack @ [ix_Oid x]) @ ch" "visited' = rev ch @ ix_Oid x # visited" "distinct ch"
        "set ch \<inter> set (ix_Oid x # visited) = {}" "ix_Oid p \<notin> set (ix_Oid x # visited) \<longrightarrow> (\<exists>r. ch = ix_Oid p # r)"
        "set ch \<subseteq> set (go_keys m)" "\<forall>z\<in>set ch. (z, ix_Oid p) \<in> (parent_of m)\<^sup>*" "parents_in m (set (ix_Oid x # visited)) ch"
        by auto
      have up_x: "(z, ix_Oid x) \<in> (parent_of m)\<^sup>+" if "z \<in> set ch" for z
        using ch(7) that edge by (meson rtrancl_into_trancl1)
      have no: "(ix_Oid x, z) \<notin> parent_of m" if "z \<in> set ch" for z
        using up_x[OF that] "1.prems"(3) by (metis acyclic_def trancl_into_trancl2)
      have "ix_Oid p \<noteq> ix_Oid x" using edge "1.prems"(3) by (metis acyclic_def r_into_trancl')
      then have first: "ix_Oid p \<in> set visited \<union> set ch" using ch(5) by auto
      have "q \<in> set visited \<union> set b" if "ix_Oid x # ch = a @ z # b" "(q, z) \<in> parent_of m" for a z b q
      proof (cases a)
        case Nil
        with that first par oid show ?thesis by auto
      next
        case (Cons y a')
        with that have s: "ch = a' @ z # b" by simp
        with ch(8) that(2) have "q \<in> set (ix_Oid x # visited) \<union> set b" unfolding parents_in_def by blast
        moreover have "q \<noteq> ix_Oid x" using no[of z] s that(2) by auto
        ultimately show ?thesis by auto
      qed
      then have "parents_in m (set visited) (ix_Oid x # ch)" unfolding parents_in_def by blast
      with ch(1-4,6) False key up_x show ?thesis
        by (intro exI[of _ "ix_Oid x # ch"]) (auto intro: trancl_into_rtrancl)
    qed
  qed
qed


definition parents_first :: "index_map \<Rightarrow> 32 word list \<Rightarrow> bool" where
  "parents_first m os \<longleftrightarrow> (\<forall>a o1 b. os = a @ o1 # b \<longrightarrow> (\<forall>p. (p, o1) \<in> parent_of m \<longrightarrow> p \<in> set a))"

lemma parents_first_append:
  assumes "parents_first m os" and "parents_in m (set os) ch"
  shows "parents_first m (os @ rev ch)"
  unfolding parents_first_def
proof (intro allI impI)
  fix a o1 b p
  assume split: "os @ rev ch = a @ o1 # b" and p: "(p, o1) \<in> parent_of m"
  consider c where "os = a @ o1 # c" | c where "a = os @ c" "rev ch = c @ o1 # b"
    using split by (auto simp: append_eq_append_conv2 append_eq_Cons_conv Cons_eq_append_conv)
  then show "p \<in> set a"
  proof cases
    case 1
    with assms(1) p show ?thesis unfolding parents_first_def by blast
  next
    case 2
    then have "ch = rev b @ o1 # rev c" by (metis append.assoc append_Cons append_Nil rev.simps(2) rev_append rev_rev_ident)
    with assms(2) p have "p \<in> set os \<union> set (rev c)" unfolding parents_in_def by blast
    with 2(1) show ?thesis by auto
  qed
qed

text \<open>The oids in the order of the sorted indexes; the indexes visited are the ones already written.\<close>

fun sorted_oids :: "index_map \<Rightarrow> IndexDefinition list \<Rightarrow> 32 word list \<Rightarrow> 32 word list" where
  "sorted_oids m [] visited = []"
| "sorted_oids m (x # xs) visited = (case climb m x visited [] of (v, st) \<Rightarrow> rev st @ sorted_oids m xs v)"

lemma sort_indexes_oids: "sort_indexes m xs visited = map (pop_index m) (sorted_oids m xs visited)"
  by (induction xs arbitrary: visited) (auto split: prod.splits)

lemma sorted_oids_correct:
  assumes "keyed m" and "acyclic (parent_of m)" and "\<forall>x\<in>set xs. go_get m (ix_Oid x) = Some x"
    and "distinct os" and "parents_first m os" and "set visited = set os"
  shows "distinct (os @ sorted_oids m xs visited) \<and> parents_first m (os @ sorted_oids m xs visited) \<and>
    ix_Oid ` set xs \<subseteq> set (os @ sorted_oids m xs visited) \<and> set (sorted_oids m xs visited) \<subseteq> set (go_keys m)"
  using assms(3-6)
proof (induction xs arbitrary: os visited)
  case (Cons x xs)
  obtain v st where c: "climb m x visited [] = (v, st)" by fastforce
  from climb_chain[OF c assms(1,2)] Cons.prems(1,4) obtain ch where ch: "st = ch" "v = rev ch @ visited" "distinct ch"
    "set ch \<inter> set os = {}" "ix_Oid x \<notin> set os \<longrightarrow> (\<exists>r. ch = ix_Oid x # r)" "set ch \<subseteq> set (go_keys m)" "parents_in m (set os) ch"
    by auto
  have d: "distinct (os @ rev ch)" using Cons.prems(2) ch(3,4) by auto
  have f: "parents_first m (os @ rev ch)" by (rule parents_first_append[OF Cons.prems(3) ch(7)])
  have "set v = set (os @ rev ch)" using ch(2) Cons.prems(4) by auto
  from Cons.IH[OF _ d f this] Cons.prems(1) ch(5,6) c ch(1) show ?case by auto
qed simp

lemma pop_index_same:
  "go_get m k = Some x \<Longrightarrow> ix_Oid (pop_index m k) = ix_Oid x \<and> (pop_index m k)\<lparr>ix_ParentIndexFQN := ix_ParentIndexFQN x\<rparr> = x"
  by (simp add: pop_index_def go_get0_def Let_def)


section \<open>Exchanged partitions\<close>

record ExchangedPartitionName =
  xp_OrigName :: string
  xp_NewName :: string

definition exchanged_names :: "ExchangedPartitionName list \<Rightarrow> (string, string) gomap" where
  "exchanged_names rows = foldl (\<lambda>m r. go_set (xp_OrigName r) (xp_NewName r) m) [] rows"

definition RenameExchangedPartitionIndexes :: "ExchangedPartitionName list \<Rightarrow> IndexDefinition list \<Rightarrow> IndexDefinition list" where
  "RenameExchangedPartitionIndexes rows xs =
     map (\<lambda>x. case go_get (exchanged_names rows) (ix_Name x) of None \<Rightarrow> x
        | Some new \<Rightarrow> x\<lparr>ix_Def := map_option (\<lambda>d. Replace d (ix_Name x) new 1) (ix_Def x), ix_Name := new\<rparr>) xs"

section \<open>Properties of the sorting\<close>

text \<open>
  Claim C32. For a server with partition indexes, \<open>GetIndexes\<close> returns every index of the query that
  has a definition exactly once and otherwise unchanged but for the name of its parent. Every index
  comes after its parent, and the name of the parent, which the printed ATTACH PARTITION uses, is
  the one the parent is created with. Oids are distinct and no index is its own ancestor.
\<close>

theorem indexes_parents_first:
  assumes "process_indexes env rows = Inr out" and "src_at_least env ''7'' = Inr True" and "src_old env ''7'' = Inr False"
    and "verified = filter (\<lambda>x. ix_Def x \<noteq> None) rows" and "distinct (map ix_Oid verified)"
    and "acyclic (parent_of (index_map verified))"
  shows "mset (map (\<lambda>x. x\<lparr>ix_ParentIndexFQN := []\<rparr>) out) = mset (map (\<lambda>x. x\<lparr>ix_ParentIndexFQN := []\<rparr>) verified) \<and>
    (\<forall>i<length out. \<forall>p\<in>set verified. ix_ParentIndex (out ! i) = ix_Oid p \<and> ix_Oid p \<noteq> 0 \<longrightarrow>
       ix_ParentIndexFQN (out ! i) = IndexDefinition_FQN p \<and> (\<exists>j<i. ix_Oid (out ! j) = ix_Oid p \<and> IndexDefinition_FQN (out ! j) = IndexDefinition_FQN p))"
proof -
  let ?m = "index_map verified" and ?clear = "\<lambda>x. x\<lparr>ix_ParentIndexFQN := []\<rparr> :: IndexDefinition"
  note get = index_map_get[OF assms(5)]
  define os where "os = sorted_oids ?m verified []"
  have "out = sort_indexes ?m verified []"
    using assms(1-4) by (cases "verified = []") (auto simp: process_indexes_def Let_def)
  then have out: "out = map (pop_index ?m) os" by (simp add: sort_indexes_oids os_def)
  have keys: "set (go_keys ?m) = ix_Oid ` set verified" using index_map_has[OF assms(5)] by (simp add: go_has_iff set_eq_iff)
  have os: "distinct os" "parents_first ?m os" "set os = ix_Oid ` set verified"
    using sorted_oids_correct[OF keyed_index_map[OF assms(5)] assms(6), of verified "[]" "[]"] keys
    by (auto simp: os_def get parents_first_def)
  have at: "x \<in> set verified \<Longrightarrow> ?clear (pop_index ?m (ix_Oid x)) = ?clear x \<and> ix_Oid (pop_index ?m (ix_Oid x)) = ix_Oid x \<and>
      IndexDefinition_FQN (pop_index ?m (ix_Oid x)) = IndexDefinition_FQN x \<and> ix_ParentIndex (pop_index ?m (ix_Oid x)) = ix_ParentIndex x" for x
    using get[of "ix_Oid x" x] by (simp add: pop_index_def go_get0_def Let_def IndexDefinition_FQN_def)
  have "mset os = mset (map ix_Oid verified)" using set_eq_iff_mset_eq_distinct[OF os(1) assms(5)] os(3) by simp
  then have "mset (map (?clear \<circ> pop_index ?m) os) = mset (map ((?clear \<circ> pop_index ?m) \<circ> ix_Oid) verified)" by (metis map_map mset_map)
  also have "map ((?clear \<circ> pop_index ?m) \<circ> ix_Oid) verified = map ?clear verified" using at by simp
  finally have perm: "mset (map ?clear out) = mset (map ?clear verified)" by (simp add: out comp_def)
  have "ix_ParentIndexFQN (out ! i) = IndexDefinition_FQN p \<and> (\<exists>j<i. ix_Oid (out ! j) = ix_Oid p \<and> IndexDefinition_FQN (out ! j) = IndexDefinition_FQN p)"
    if i: "i < length out" and p: "p \<in> set verified" and par: "ix_ParentIndex (out ! i) = ix_Oid p \<and> ix_Oid p \<noteq> 0" for i p
  proof -
    have len: "i < length os" using i out by simp
    then have "os ! i \<in> ix_Oid ` set verified" using nth_mem[of i os] os(3) by simp
    then obtain x where x: "x \<in> set verified" "os ! i = ix_Oid x" by blast
    have px: "ix_ParentIndex x = ix_Oid p" using par at[OF x(1)] out x(2) len by simp
    have gx: "go_get ?m (ix_Oid x) = Some x" and gp: "go_get ?m (ix_Oid p) = Some p" using get x(1) p by auto
    have "(ix_Oid p, os ! i) \<in> parent_of ?m" using parent_ofI[OF gx _ _ gp] px par x(2) by simp
    with os(2) len have "ix_Oid p \<in> set (take i os)" unfolding parents_first_def by (metis id_take_nth_drop)
    then obtain j where j: "j < i" "j < length os" "os ! j = ix_Oid p" by (auto simp: in_set_conv_nth)
    have "ix_ParentIndexFQN (out ! i) = IndexDefinition_FQN p"
      using out len x(2) gx gp px par by (simp add: pop_index_def go_get0_def)
    with j out at[OF p] show ?thesis by (intro conjI exI[of _ j]) auto
  qed
  with perm show ?thesis by blast
qed

definition demo_index :: "32 word \<Rightarrow> string \<Rightarrow> 32 word \<Rightarrow> IndexDefinition" where
  "demo_index oid name parent = zero_index\<lparr>ix_Oid := oid, ix_Name := name, ix_OwningSchema := ''s'', ix_OwningTable := ''t'',
     ix_Def := Some (''CREATE INDEX '' @ name @ '' ON s.t USING btree (a)''), ix_ParentIndex := parent\<rparr>"

definition demo_cbdb_env :: acl_env where
  "demo_cbdb_env = \<lparr>acl_ranges = demo_ranges, acl_version = \<lparr>VersionString = [], SemVer = \<lparr>Major = 1, Minor = 0, Patch = 0\<rparr>, Type = CBDB\<rparr>, role_map = []\<rparr>"

definition demo_indexes :: "IndexDefinition list" where
  "demo_indexes = [demo_index 11 ''child'' 12, demo_index 12 ''parent'' 0]"

lemma demo_indexes_facts:
  "process_indexes demo_cbdb_env demo_indexes = Inr [demo_index 12 ''parent'' 0, (demo_index 11 ''child'' 12)\<lparr>ix_ParentIndexFQN := ''s.parent''\<rparr>]"
  "src_at_least demo_cbdb_env ''7'' = Inr True \<and> src_old demo_cbdb_env ''7'' = Inr False"
  "filter (\<lambda>x. ix_Def x \<noteq> None) demo_indexes = demo_indexes" "map ix_Oid demo_indexes = [11, 12]"
  by code_simp+

definition demo_sorted :: "IndexDefinition list" where
  "demo_sorted = [demo_index 12 ''parent'' 0, (demo_index 11 ''child'' 12)\<lparr>ix_ParentIndexFQN := ''s.parent''\<rparr>]"

theorem indexes_parents_first_witness:
  "process_indexes demo_cbdb_env demo_indexes = Inr demo_sorted \<and>
   (\<exists>j<1. ix_Oid (demo_sorted ! j) = 12 \<and> IndexDefinition_FQN (demo_sorted ! j) = ix_ParentIndexFQN (demo_sorted ! 1))"
proof -
  have "parent_of (index_map demo_indexes) \<subseteq> {(12, 11)}"
    by (auto simp: parent_of_def ran_def index_map_get[of demo_indexes] demo_indexes_facts(4)) (auto simp: demo_indexes_def demo_index_def)
  moreover have "acyclic ({} :: (32 word \<times> 32 word) set)" by (simp add: acyclic_def)
  then have "acyclic {(12 :: 32 word, 11 :: 32 word)}" by (simp add: acyclic_insert)
  ultimately have ac: "acyclic (parent_of (index_map demo_indexes))" by (rule acyclic_subset[rotated])
  have run: "process_indexes demo_cbdb_env demo_indexes = Inr demo_sorted" using demo_indexes_facts(1) by (simp add: demo_sorted_def)
  have "\<forall>i<length demo_sorted. \<forall>p\<in>set demo_indexes. ix_ParentIndex (demo_sorted ! i) = ix_Oid p \<and> ix_Oid p \<noteq> 0 \<longrightarrow>
      ix_ParentIndexFQN (demo_sorted ! i) = IndexDefinition_FQN p \<and> (\<exists>j<i. ix_Oid (demo_sorted ! j) = ix_Oid p \<and> IndexDefinition_FQN (demo_sorted ! j) = IndexDefinition_FQN p)"
    using indexes_parents_first[OF run _ _ demo_indexes_facts(3)[symmetric] _ ac] demo_indexes_facts(2,4) by simp
  from this[rule_format, of 1 "demo_index 12 ''parent'' 0"] run show ?thesis
    by (simp add: demo_sorted_def demo_indexes_def demo_index_def)
qed

end
