(* ===== verification/IndexKeys.thy ===== *)
theory IndexKeys
  imports Indexes
begin

text \<open>
  \<open>EnsurePartitionKeysInUniqueIndexDefs\<close> of \<open>src/meta/builtin/queries_postdata.go\<close>: on the destination
  a unique index of a partitioned table must contain the partition keys, so the definitions that
  lack some of them are rewritten. The main result says that the rewriting adds what is missing,
  leaves the rest alone and has nothing left to do the second time.
\<close>

section \<open>Partition keys in unique indexes\<close>

text \<open>
  The regular expressions of the source, written out: \<open>\s\<close> and \<open>\w\<close> of Go's \<open>regexp\<close> are the ASCII
  classes. \<open>match_on\<close> is the expression that finds the opening parenthesis of the column list, at the
  beginning of a text; its parts are separated by disjoint classes, so the longest match of each
  part is the only one. It returns what follows the parenthesis.
\<close>

definition re_space :: "char \<Rightarrow> bool" where
  "re_space c \<longleftrightarrow> c \<in> {CHR 0x09, CHR 0x0A, CHR 0x0C, CHR 0x0D, CHR 0x20}"

definition re_word :: "char \<Rightarrow> bool" where
  "re_word c \<longleftrightarrow> char_between CHR ''a'' CHR ''z'' c \<or> char_between CHR ''A'' CHR ''Z'' c \<or> is_digit c \<or> c = CHR ''_''"

definition name_char :: "char \<Rightarrow> bool" where
  "name_char c \<longleftrightarrow> re_word c \<or> c = CHR ''.'' \<or> c = DQ"

definition match_class1 :: "(char \<Rightarrow> bool) \<Rightarrow> string \<Rightarrow> string option" where
  "match_class1 P s = (if takeWhile P s = [] then None else Some (dropWhile P s))"

definition match_word :: "string \<Rightarrow> string \<Rightarrow> string option" where
  "match_word w s = (if ToUpper (take (length w) s) = w then Some (drop (length w) s) else None)"

definition match_open :: "string \<Rightarrow> string option" where
  "match_open s = (case dropWhile re_space s of CHR ''('' # r \<Rightarrow> Some r | _ \<Rightarrow> None)"

definition match_using :: "string \<Rightarrow> string option" where
  "match_using s =
     Option.bind (match_class1 re_space s) (\<lambda>r. Option.bind (match_word ''USING'' r) (\<lambda>r.
     Option.bind (match_class1 re_space r) (\<lambda>r. Option.bind (match_class1 re_word r) match_open)))"

definition match_on :: "string \<Rightarrow> string option" where
  "match_on s =
     Option.bind (match_word ''ON'' s) (\<lambda>r. Option.bind (match_class1 re_space r) (\<lambda>r.
     Option.bind (match_class1 name_char r) (\<lambda>r.
       case match_using r of Some t \<Rightarrow> Some t | None \<Rightarrow> match_open r)))"

text \<open>The leftmost match, as the text up to the parenthesis and the text after it.\<close>

fun find_open :: "string \<Rightarrow> (string \<times> string) option" where
  "find_open [] = None"
| "find_open (c # s) =
     (case match_on (c # s) of
        Some r \<Rightarrow> Some (take (length (c # s) - length r) (c # s), r)
      | None \<Rightarrow> map_option (\<lambda>(p, r). (c # p, r)) (find_open s))"

text \<open>The text before the parenthesis that closes \<open>balance\<close> open ones, and the text from it on.\<close>

fun find_close :: "nat \<Rightarrow> string \<Rightarrow> (string \<times> string) option" where
  "find_close balance [] = None"
| "find_close balance (c # s) =
     (if c = CHR '')'' \<and> balance = 1 then Some ([], c # s)
      else map_option (\<lambda>(p, r). (c # p, r))
        (find_close (if c = CHR ''('' then Suc balance else if c = CHR '')'' then balance - 1 else balance) s))"

definition no_pattern :: "string \<Rightarrow> goerr" where
  "no_pattern def = Error (''could not find column definition pattern 'ON table_name [USING method] (' in: '' @ def)"

definition no_closing :: "string \<Rightarrow> goerr" where
  "no_closing def = Error (''could not find matching closing parenthesis for column definition in: '' @ def)"

text \<open>A definition in three parts: up to the opening parenthesis, the columns, and from the closing one on.\<close>

definition split_def :: "string \<Rightarrow> (string \<times> string \<times> string) res" where
  "split_def def =
     (case find_open def of None \<Rightarrow> Inl (no_pattern def)
      | Some (pre, r) \<Rightarrow> (case find_close 1 r of None \<Rightarrow> Inl (no_closing def) | Some (cols, suf) \<Rightarrow> Inr (pre, cols, suf)))"

definition extractIndexColumnDefinitionString :: "string \<Rightarrow> string res" where
  "extractIndexColumnDefinitionString def = rbind (split_def def) (\<lambda>(pre, cols, suf). Inr (TrimSpace cols))"

fun collapse :: "string \<Rightarrow> string" where
  "collapse [] = []"
| "collapse (c # s) =
     (if \<not> re_space c then c # collapse s
      else if s \<noteq> [] \<and> re_space (hd s) then collapse s else CHR '' '' # collapse s)"

text \<open>
  \<open>occurs P t k\<close>: the text \<open>k\<close> occurs in \<open>t\<close>, with \<open>P\<close> of what precedes and what follows it. A boundary
  is a place between a word character and something else, or the end of the text.
\<close>

definition word_at :: "char option \<Rightarrow> bool" where
  "word_at c = (case c of None \<Rightarrow> False | Some c \<Rightarrow> re_word c)"

definition first_of :: "string \<Rightarrow> char option" where
  "first_of s = (case s of [] \<Rightarrow> None | c # _ \<Rightarrow> Some c)"

definition last_of :: "string \<Rightarrow> char option" where
  "last_of s = first_of (rev s)"

definition boundary :: "string \<Rightarrow> string \<Rightarrow> bool" where
  "boundary before after \<longleftrightarrow> word_at (last_of before) \<noteq> word_at (first_of after)"

fun occurs_from :: "(string \<Rightarrow> string \<Rightarrow> bool) \<Rightarrow> string \<Rightarrow> string \<Rightarrow> string \<Rightarrow> bool" where
  "occurs_from P before [] k \<longleftrightarrow> k = [] \<and> P before []"
| "occurs_from P before (c # s) k \<longleftrightarrow>
     (prefix k (c # s) \<and> P before (drop (length k) (c # s))) \<or> occurs_from P (before @ [c]) s k"

definition as_identifier :: "string \<Rightarrow> string \<Rightarrow> bool" where
  "as_identifier t k \<longleftrightarrow>
     occurs_from (\<lambda>before after. boundary before (k @ after) \<and> boundary (before @ k) after) [] t k"

definition in_expression :: "string \<Rightarrow> string \<Rightarrow> bool" where
  "in_expression t k \<longleftrightarrow>
     occurs_from (\<lambda>before after. before \<noteq> [] \<and> \<not> word_at (last_of before) \<and> after \<noteq> [] \<and> \<not> word_at (first_of after)) [] t k"

definition findMissingPartitionKeys :: "string \<Rightarrow> string list \<Rightarrow> string list" where
  "findMissingPartitionKeys cols keys =
     (let t = ToLower (collapse cols)
      in filter (\<lambda>k. \<not> as_identifier t (ToLower k) \<and> \<not> in_expression t (ToLower k)) keys)"

definition rewriteIndexDefToAddKeys :: "string \<Rightarrow> string \<Rightarrow> string list \<Rightarrow> string res" where
  "rewriteIndexDefToAddKeys def current missing =
     (if missing = [] then Inr def
      else rbind (split_def def) (\<lambda>(pre, cols, suf).
        Inr (pre @ current @ text_if (TrimSpace current \<noteq> []) '', '' @ Join missing '', '' @ suf)))"

record partitionColumnResult =
  pc_SchemaName :: string
  pc_TableName :: string
  pc_ColumnNames :: string

text \<open>A failing query is only logged.\<close>

definition GetPartitionColumnsByTable :: "partitionColumnResult list res \<Rightarrow> (string, string list) gomap" where
  "GetPartitionColumnsByTable rows =
     (case rows of Inl e \<Rightarrow> []
      | Inr rs \<Rightarrow> foldl (\<lambda>m r. go_set (pc_SchemaName r @ ''.'' @ pc_TableName r)
          (map TrimSpace (Split CHR '','' (pc_ColumnNames r))) m) [] rs)"

definition index_with_keys :: "(string, string list) gomap \<Rightarrow> IndexDefinition \<Rightarrow> IndexDefinition" where
  "index_with_keys keyMap x =
     (if \<not> prefix ''CREATE UNIQUE INDEX'' (ToUpper (ns_String (ix_Def x))) then x
      else let keys = go_get0 [] keyMap (ix_OwningSchema x @ ''.'' @ ix_OwningTable x)
        in if keys = [] then x
           else (case extractIndexColumnDefinitionString (ns_String (ix_Def x)) of Inl e \<Rightarrow> x
             | Inr current \<Rightarrow>
                 (let missing = findMissingPartitionKeys current keys
                  in if missing = [] then x
                     else (case rewriteIndexDefToAddKeys (ns_String (ix_Def x)) current missing of Inl e \<Rightarrow> x
                       | Inr def \<Rightarrow> if def \<noteq> ns_String (ix_Def x) then x\<lparr>ix_Def := Some def\<rparr> else x))))"

definition EnsurePartitionKeysInUniqueIndexDefs :: "partitionColumnResult list res \<Rightarrow> IndexDefinition list \<Rightarrow> IndexDefinition list" where
  "EnsurePartitionKeysInUniqueIndexDefs rows xs = map (index_with_keys (GetPartitionColumnsByTable rows)) xs"

section \<open>Where the column list is\<close>

text \<open>The matchers look at the text up to the first parenthesis only.\<close>

abbreviation LP :: char where "LP \<equiv> CHR ''(''"
abbreviation RP :: char where "RP \<equiv> CHR '')''"

lemma upper_LP [simp]: "upper c = LP \<longleftrightarrow> c = LP"
  using of_char_bound[of c] by (auto simp: upper_def char_nat)

lemma re_word_lower [simp]: "re_word (lower c) \<longleftrightarrow> re_word c"
  using of_char_bound[of c] by (auto simp: lower_def re_word_def is_digit_def char_nat)

lemma word_not_space: "re_word c \<Longrightarrow> \<not> is_space c \<and> \<not> re_space c"
  by (auto simp: re_word_def is_digit_def is_space_def re_space_def char_nat)

lemma classes [simp]: "\<not> re_space LP" "\<not> re_word LP" "\<not> name_char LP" "\<not> re_space RP" "\<not> re_word RP"
    "\<not> re_word CHR '',''" "\<not> re_space CHR '',''" "\<not> re_word CHR '' ''" "re_space CHR '' ''"
  by (simp_all add: re_word_def name_char_def re_space_def is_digit_def char_nat)

lemma takeWhile_paren: "\<not> P LP \<Longrightarrow> takeWhile P (q @ LP # r) = takeWhile P q"
  by (induction q) auto

lemma dropWhile_paren: "\<not> P LP \<Longrightarrow> dropWhile P (q @ LP # r) = dropWhile P q @ LP # r"
  by (induction q) auto

lemma match_class1_paren: "\<not> P LP \<Longrightarrow> match_class1 P (q @ LP # r) = map_option (\<lambda>q. q @ LP # r) (match_class1 P q)"
  by (simp add: match_class1_def takeWhile_paren dropWhile_paren)

lemma match_word_paren:
  assumes "LP \<notin> set w"
  shows "match_word w (q @ LP # r) = map_option (\<lambda>q. q @ LP # r) (match_word w q)"
proof (cases "length w \<le> length q")
  case False
  have "length (ToUpper (take (length w) q)) \<noteq> length w" using False by (simp add: ToUpper_def)
  then have "match_word w q = None" by (auto simp: match_word_def)
  moreover have "LP \<in> set (ToUpper (take (length w) (q @ LP # r)))"
    using False by (cases "length w - length q") (auto simp: ToUpper_def image_iff eq_commute[of LP])
  then have "match_word w (q @ LP # r) = None" using assms by (auto simp: match_word_def)
  ultimately show ?thesis by simp
qed (simp add: match_word_def)

lemma match_open_paren: "LP \<notin> set q \<Longrightarrow> match_open (q @ LP # r) = (if list_all re_space q then Some r else None)"
  by (induction q) (auto simp: match_open_def split: char.splits bool.splits)


definition on_ok :: "string \<Rightarrow> bool" where
  "on_ok q \<longleftrightarrow> match_on (q @ [LP]) \<noteq> None"

lemma match_suffix:
  "match_class1 P q = Some q' \<Longrightarrow> LP \<notin> set q \<Longrightarrow> LP \<notin> set q'" "match_word w q = Some q' \<Longrightarrow> LP \<notin> set q \<Longrightarrow> LP \<notin> set q'"
  by (auto simp: match_class1_def match_word_def dest: set_dropWhileD in_set_dropD split: if_splits)

lemma match_using_paren: 
  assumes "LP \<notin> set q"
  shows "match_using (q @ LP # r) = (if match_using (q @ [LP]) \<noteq> None then Some r else None)"
proof -
  have w: "LP \<notin> set ''USING''" by simp
  note p = match_class1_paren[of re_space] match_class1_paren[of re_word] match_word_paren[OF w]
  have "match_using (q @ LP # r) = (case Option.bind (match_class1 re_space q) (\<lambda>r. Option.bind (match_word ''USING'' r) (\<lambda>r.
     Option.bind (match_class1 re_space r) (match_class1 re_word))) of None \<Rightarrow> None | Some q \<Rightarrow> if list_all re_space q then Some r else None)" for r
    using assms unfolding match_using_def
    by (auto simp: p match_open_paren match_suffix bind_map_option comp_def split: Option.bind_split)
  from this[of r] this[of "[]"] show ?thesis by (simp split: option.splits)
qed

lemma match_on_paren:
  assumes "LP \<notin> set q"
  shows "match_on (q @ LP # r) = (if on_ok q then Some r else None)"
proof -
  have w: "LP \<notin> set ''ON''" by simp
  note p = match_class1_paren[of re_space] match_class1_paren[of name_char] match_word_paren[OF w]
  have "match_on (q @ LP # r) = (case Option.bind (match_word ''ON'' q) (\<lambda>r. Option.bind (match_class1 re_space r) (match_class1 name_char)) of
      None \<Rightarrow> None | Some q \<Rightarrow> if match_using (q @ [LP]) \<noteq> None \<or> list_all re_space q then Some r else None)" for r
    using assms unfolding match_on_def
    by (auto simp: p match_open_paren match_using_paren match_suffix bind_map_option comp_def split: Option.bind_split option.splits if_splits)
  from this[of r] this[of "[]"] show ?thesis by (simp add: on_ok_def split: option.splits)
qed

lemma match_open_Some: "match_open s = Some r \<Longrightarrow> LP \<in> set s"
proof -
  assume "match_open s = Some r"
  then have "dropWhile re_space s = LP # r" by (auto simp: match_open_def split: list.splits char.splits bool.splits)
  then show ?thesis by (metis list.set_intros(1) set_dropWhileD)
qed

lemma match_subset:
  "match_class1 P q = Some q' \<Longrightarrow> set q' \<subseteq> set q" "match_word w q = Some q' \<Longrightarrow> set q' \<subseteq> set q"
  by (auto simp: match_class1_def match_word_def dest: set_dropWhileD in_set_dropD split: if_splits)

lemma match_using_Some: "match_using s = Some r \<Longrightarrow> LP \<in> set s"
  unfolding match_using_def bind_eq_Some_conv
  by (elim exE conjE) (drule match_open_Some, auto dest!: match_subset)

lemma match_on_Some: "match_on s = Some r \<Longrightarrow> LP \<in> set s"
  unfolding match_on_def bind_eq_Some_conv
  by (elim exE conjE) (auto split: option.splits dest!: match_open_Some match_using_Some match_subset)

lemma find_open_hit: "match_on (q @ LP # t) = Some t \<Longrightarrow> find_open (q @ LP # t) = Some (q @ [LP], t)"
  by (cases q) simp_all

lemma find_open_prefix:
  "find_open s = Some (p, r) \<Longrightarrow> s = p @ r \<and> LP \<in> set p \<and> (\<forall>t. find_open (p @ t) = Some (p, t))"
proof (induction s arbitrary: p r)
  case (Cons c s)
  show ?case
  proof (cases "match_on (c # s)")
    case (Some x)
    then have "LP \<in> set (c # s)" by (rule match_on_Some)
    then obtain q y where q: "c # s = q @ LP # y" "LP \<notin> set q" by (metis split_list_first)
    from Some match_on_paren[OF q(2)] q(1) have ok: "on_ok q" "x = y" by (auto split: if_splits)
    have hit: "find_open ((q @ [LP]) @ t) = Some (q @ [LP], t)" for t
      using find_open_hit match_on_paren[OF q(2)] ok(1) by simp
    with Cons.prems q(1) have pr: "p = q @ [LP]" "r = y" by auto
    with hit q(1) show ?thesis by simp
  next
    case None
    with Cons.prems obtain p' where p': "find_open s = Some (p', r)" "p = c # p'" by auto
    note IH = Cons.IH[OF p'(1)]
    have "match_on (c # p' @ t) = None" for t
    proof -
      have "LP \<in> set (c # p')" using IH by simp
      then obtain q y where q: "c # p' = q @ LP # y" "LP \<notin> set q" by (metis split_list_first)
      then have "c # p' @ t = q @ LP # (y @ t)" for t by (metis append.assoc append_Cons)
      with None IH match_on_paren[OF q(2)] show ?thesis by (metis append_Cons option.distinct(1))
    qed
    with IH p' show ?thesis by simp
  qed
qed simp

text \<open>The number of open parentheses after a text; \<open>None\<close> when the last one was closed in it.\<close>

fun depth :: "nat \<Rightarrow> string \<Rightarrow> nat option" where
  "depth b [] = Some b"
| "depth b (c # s) =
     (if c = RP \<and> b = 1 then None
      else depth (if c = LP then Suc b else if c = RP then b - 1 else b) s)"

definition no_parens :: "string \<Rightarrow> bool" where
  "no_parens s \<longleftrightarrow> LP \<notin> set s \<and> RP \<notin> set s"

lemma depth_append: "depth b (s @ t) = Option.bind (depth b s) (\<lambda>b. depth b t)"
  by (induction b s rule: depth.induct) simp_all

lemma depth_no_parens: "no_parens s \<Longrightarrow> depth b s = Some b"
  by (induction s) (auto simp: no_parens_def)

lemma find_close_depth: "depth b cols = Some 1 \<Longrightarrow> find_close b (cols @ RP # x) = Some (cols, RP # x)"
  by (induction b cols rule: depth.induct) (auto split: if_splits)

lemma find_close_Some: "find_close b s = Some (cols, suf) \<Longrightarrow> s = cols @ suf \<and> depth b cols = Some 1 \<and> (\<exists>x. suf = RP # x)"
proof (induction b s arbitrary: cols rule: find_close.induct)
  case (2 b c s)
  show ?case
  proof (cases "c = RP \<and> b = 1")
    case False
    with "2.prems" obtain p where "find_close (if c = LP then Suc b else if c = RP then b - 1 else b) s = Some (p, suf)" "cols = c # p"
      by (auto simp only: find_close.simps if_False map_option_eq_Some prod.case split: prod.splits)
    with "2.IH"[OF False] False show ?thesis by (simp only: depth.simps if_False append_Cons)
  qed (use "2.prems" in auto)
qed simp

lemma split_def_iff:
  "split_def def = Inr (pre, cols, suf) \<longleftrightarrow>
     (\<exists>r x. find_open def = Some (pre, r) \<and> r = cols @ suf \<and> depth 1 cols = Some 1 \<and> suf = RP # x)"
  by (auto simp: split_def_def find_close_depth dest: find_close_Some split: option.splits)

lemma split_def_parts: "split_def def = Inr (pre, cols, suf) \<Longrightarrow> def = pre @ cols @ suf \<and> LP \<in> set pre"
  using find_open_prefix by (fastforce simp: split_def_iff)

text \<open>Another column list with balanced parentheses is found in the same place.\<close>

lemma split_def_replace:
  "split_def def = Inr (pre, cols, suf) \<Longrightarrow> depth 1 cols' = Some 1 \<Longrightarrow> split_def (pre @ cols' @ suf) = Inr (pre, cols', suf)"
  using find_open_prefix by (fastforce simp: split_def_iff)

lemma TrimSpace_split: "\<exists>a b. s = a @ TrimSpace s @ b \<and> list_all is_space a \<and> list_all is_space b"
proof -
  let ?u = "dropWhile is_space s"
  have "?u = rev (takeWhile is_space (rev ?u) @ dropWhile is_space (rev ?u))" by simp
  then have "?u = TrimSpace s @ rev (takeWhile is_space (rev ?u))" unfolding TrimSpace_def by (metis rev_append)
  moreover have "s = takeWhile is_space s @ ?u" by simp
  ultimately have "s = takeWhile is_space s @ TrimSpace s @ rev (takeWhile is_space (rev ?u))" by (simp only:)
  moreover have "list_all is_space (takeWhile is_space t)" for t by (induction t) auto
  then have "list_all is_space (takeWhile is_space s)" "list_all is_space (rev (takeWhile is_space (rev ?u)))" by simp_all
  ultimately show ?thesis by blast
qed

lemma spaces_no_parens: "list_all is_space a \<Longrightarrow> no_parens a"
proof -
  have "\<not> is_space LP" "\<not> is_space RP" by (simp_all add: is_space_def)
  then show "list_all is_space a \<Longrightarrow> no_parens a" unfolding no_parens_def list_all_iff by blast
qed

lemma depth_TrimSpace: "depth b (TrimSpace s) = depth b s"
proof -
  from TrimSpace_split[of s] obtain u v where s: "s = u @ TrimSpace s @ v" and "list_all is_space u" "list_all is_space v" by blast
  then have "depth d u = Some d" "depth d v = Some d" for d using depth_no_parens spaces_no_parens by blast+
  then have "depth b (u @ TrimSpace s @ v) = depth b (TrimSpace s)" unfolding depth_append by (cases "depth b (TrimSpace s)") simp_all
  with arg_cong[OF s, of "depth b"] show ?thesis by (simp only:)
qed

text \<open>A text that begins and ends with something else than white space.\<close>

definition tight :: "string \<Rightarrow> bool" where
  "tight s \<longleftrightarrow> s \<noteq> [] \<and> \<not> is_space (hd s) \<and> \<not> is_space (last s)"

lemma TrimSpace_tight: "tight s \<Longrightarrow> TrimSpace s = s"
proof -
  assume t: "tight s"
  have "dropWhile is_space s = s" using t by (cases s) (simp_all add: tight_def)
  moreover have "dropWhile is_space (rev s) = rev s" using t by (cases s rule: rev_cases) (simp_all add: tight_def)
  ultimately show ?thesis by (simp add: TrimSpace_def)
qed

lemma tight_TrimSpace:
  assumes "TrimSpace s \<noteq> []"
  shows "tight (TrimSpace s)"
proof -
  let ?u = "dropWhile is_space s" and ?v = "dropWhile is_space (rev (dropWhile is_space s))"
  have "?v \<noteq> []" using assms unfolding TrimSpace_def by (simp only: rev_is_Nil_conv not_False_eq_True)
  then have v: "?v \<noteq> []" "?u \<noteq> []" by (cases "?u = []"; simp)+
  have "last ?v = last (rev ?u)" using v(1) by (metis last_appendR takeWhile_dropWhile_id)
  then have "last ?v = hd ?u" using v(2) by (simp add: last_rev)
  with v show ?thesis by (simp add: tight_def TrimSpace_def hd_rev last_rev hd_dropWhile)
qed

section \<open>Where keys occur\<close>

lemma occurs_from_Cons: "occurs_from P before (c # s) k \<longleftrightarrow> (\<exists>zs. c # s = k @ zs \<and> P before zs) \<or> occurs_from P (before @ [c]) s k"
  unfolding occurs_from.simps prefix_def by (metis append_eq_conv_conj)

lemma occurs_from_append:
  assumes "occurs_from P before s k" and "\<And>b a. P b a \<Longrightarrow> Q b (a @ t)"
  shows "occurs_from Q before (s @ t) k"
  using assms(1)
proof (induction s arbitrary: before)
  case Nil
  with assms(2)[of before "[]"] show ?case by (cases t) auto
next
  case (Cons c s)
  from Cons.prems consider zs where "c # s = k @ zs" "P before zs" | "occurs_from P (before @ [c]) s k"
    unfolding occurs_from_Cons by blast
  then show ?case
  proof cases
    case 1
    then have "c # s @ t = k @ zs @ t" by (metis append.assoc append_Cons)
    with assms(2)[OF 1(2)] show ?thesis unfolding append_Cons occurs_from_Cons by blast
  qed (use Cons.IH in simp)
qed

lemma occurs_from_at: "P (before @ a) c \<Longrightarrow> occurs_from P before (a @ k @ c) k"
proof (induction a arbitrary: before)
  case Nil
  then show ?case by (cases "k @ c") (auto simp: prefix_def append_eq_Cons_conv Cons_eq_append_conv)
next
  case (Cons x a)
  then show ?case by simp
qed

lemma word_first_append [simp]: "\<not> word_at (first_of t) \<Longrightarrow> word_at (first_of (s @ t)) = word_at (first_of s)"
  by (cases s) (auto simp: first_of_def word_at_def)

definition key_free :: "string \<Rightarrow> string \<Rightarrow> bool" where
  "key_free t k \<longleftrightarrow> \<not> as_identifier t k \<and> \<not> in_expression t k"

lemma findMissing_key_free: "findMissingPartitionKeys cols keys = filter (\<lambda>k. key_free (ToLower (collapse cols)) (ToLower k)) keys"
  by (simp add: findMissingPartitionKeys_def key_free_def Let_def)

text \<open>A key that was found is found in a longer text, when the addition does not begin with a word character.\<close>

lemma found_in_longer:
  assumes "\<not> key_free s k" and "\<not> word_at (first_of t)"
  shows "\<not> key_free (s @ t) k"
proof -
  have "as_identifier s k \<Longrightarrow> as_identifier (s @ t) k" unfolding as_identifier_def
    by (erule occurs_from_append) (use assms(2) in \<open>simp add: boundary_def flip: append_assoc\<close>)
  moreover have "in_expression s k \<Longrightarrow> in_expression (s @ t) k" unfolding in_expression_def
    by (erule occurs_from_append) (use assms(2) in simp)
  ultimately show ?thesis using assms(1) by (auto simp: key_free_def)
qed

definition plain_key :: "string \<Rightarrow> bool" where
  "plain_key k \<longleftrightarrow> k \<noteq> [] \<and> list_all re_word k"

lemma last_of_append: "b \<noteq> [] \<Longrightarrow> last_of (a @ b) = Some (last b)"
  by (cases b rule: rev_cases) (simp_all add: last_of_def first_of_def)

lemma plain_key_ends: "plain_key k \<Longrightarrow> word_at (first_of (k @ t)) \<and> word_at (last_of (a @ k))"
  by (cases k) (auto simp: plain_key_def first_of_def last_of_append word_at_def list_all_iff)

lemma key_between:
  assumes "plain_key k" and "\<not> word_at (last_of a)" and "\<not> word_at (first_of b)"
  shows "\<not> key_free (a @ k @ b) k"
proof -
  have "as_identifier (a @ k @ b) k" unfolding as_identifier_def
    by (rule occurs_from_at) (use assms plain_key_ends[OF assms(1)] in \<open>simp add: boundary_def\<close>)
  then show ?thesis by (simp add: key_free_def)
qed

lemma collapse_append: "b = [] \<or> \<not> re_space (hd b) \<Longrightarrow> collapse (a @ b) = collapse a @ collapse b"
  by (induction a) (auto simp: hd_append)

lemma collapse_word: "list_all re_word k \<Longrightarrow> collapse k = k"
  using word_not_space by (induction k) auto

lemma ToLower_simps [simp]: "ToLower [] = []" "ToLower (c # s) = lower c # ToLower s" "lower CHR '','' = CHR '',''" "lower CHR '' '' = CHR '' ''"
  by (simp_all add: ToLower_def lower_def char_between_def less_eq_char_def)

lemma word_at_ToLower [simp]: "word_at (first_of (ToLower s)) = word_at (first_of s)" "word_at (last_of (ToLower s)) = word_at (last_of s)"
  by (auto simp: ToLower_def first_of_def last_of_def word_at_def rev_map split: list.splits option.splits)

lemma plain_key_ToLower: "plain_key k \<Longrightarrow> plain_key (ToLower k)"
  by (simp add: plain_key_def ToLower_def list_all_iff)

lemma plain_key_hd: "plain_key k \<Longrightarrow> \<not> re_space (hd k) \<and> \<not> is_space (hd k) \<and> \<not> is_space (last k)"
  using word_not_space by (auto simp: plain_key_def list_all_iff)

lemma Join_hd: "ks \<noteq> [] \<Longrightarrow> list_all plain_key ks \<Longrightarrow> Join ks sep \<noteq> [] \<and> hd (Join ks sep) = hd (hd ks)"
  by (cases "(ks, sep)" rule: Join.cases) (auto simp: plain_key_def)

lemma Join_last: "ks \<noteq> [] \<Longrightarrow> list_all plain_key ks \<Longrightarrow> last (Join ks sep) = last (last ks)"
  by (induction ks sep rule: Join.induct) (auto simp: last_append Join_hd)

lemma collapse_keys: "list_all plain_key ks \<Longrightarrow> collapse (Join ks '', '') = Join ks '', ''"
proof (induction ks "'', ''" rule: Join.induct)
  case (3 x y ys)
  then have hd: "\<not> re_space (hd (Join (y # ys) '', ''))" using Join_hd[of "y # ys" "'', ''"] plain_key_hd by auto
  have "collapse (x @ '', '' @ Join (y # ys) '', '') = collapse x @ collapse ('', '' @ Join (y # ys) '', '')" by (rule collapse_append) simp
  also have "collapse ('', '' @ Join (y # ys) '', '') = '', '' @ collapse (Join (y # ys) '', '')" using hd by simp
  finally show ?case using 3 by (simp add: collapse_word plain_key_def)
qed (simp_all add: collapse_word plain_key_def)

lemma Join_split: "k \<in> set ks \<Longrightarrow> \<exists>x y. Join ks '', '' = x @ k @ y \<and> \<not> word_at (last_of x) \<and> \<not> word_at (first_of y)"
proof (induction ks "'', ''" rule: Join.induct)
  case (2 z)
  then show ?case by (intro exI[of _ "[]"]) (simp add: last_of_def first_of_def word_at_def)
next
  case (3 z w ws)
  show ?case
  proof (cases "k = z")
    case True
    then show ?thesis
      by (intro exI[of _ "[]"] exI[of _ "'', '' @ Join (w # ws) '', ''"]) (simp add: last_of_def first_of_def word_at_def)
  next
    case False
    with 3 obtain x y where xy: "Join (w # ws) '', '' = x @ k @ y" "\<not> word_at (last_of x)" "\<not> word_at (first_of y)" by auto
    have "\<not> word_at (last_of (z @ '', '' @ x))"
      using xy(2) by (cases x rule: rev_cases) (simp_all add: last_of_def first_of_def word_at_def)
    with xy show ?thesis by (intro exI[of _ "z @ '', '' @ x"] exI[of _ y]) simp
  qed
qed simp

lemma plain_no_parens: "plain_key k \<Longrightarrow> no_parens k"
  using classes(2,5) unfolding plain_key_def no_parens_def list_all_iff by blast

lemma keys_no_parens: "list_all plain_key ks \<Longrightarrow> no_parens (Join ks '', '')"
  by (induction ks "'', ''" rule: Join.induct) (auto simp: no_parens_def dest: plain_no_parens)

text \<open>The new column list has all keys.\<close>

lemma added_keys:
  assumes "cur = [] \<or> tight cur" and "list_all plain_key keys" and "missing = findMissingPartitionKeys cur keys" and "missing \<noteq> []"
    and "new = cur @ text_if (cur \<noteq> []) '', '' @ Join missing '', ''"
  shows "findMissingPartitionKeys new keys = []" "tight new" "depth 1 cur = Some 1 \<Longrightarrow> depth 1 new = Some 1"
proof -
  have plain: "list_all plain_key missing" using assms(2,3) by (auto simp: findMissing_key_free list_all_iff)
  let ?J = "Join missing '', ''" and ?T = "ToLower (collapse cur)" and ?sep = "text_if (cur \<noteq> []) '', ''"
  note ends = Join_hd[OF assms(4) plain, of "'', ''"] Join_last[OF assms(4) plain, of "'', ''"]
  have key: "plain_key (hd missing)" "plain_key (last missing)" using plain assms(4) by (simp_all add: list_all_iff)
  have "\<not> re_space (hd ?J)" using ends plain_key_hd[OF key(1)] by simp
  then have "collapse (?sep @ ?J) = ?sep @ ?J" using collapse_keys[OF plain] by (cases "cur = []") simp_all
  moreover have "collapse (cur @ ?sep @ ?J) = collapse cur @ collapse (?sep @ ?J)" by (cases "cur = []") (simp_all add: collapse_append)
  ultimately have low: "ToLower (collapse new) = ?T @ ?sep @ ToLower ?J" using assms(5) by (cases "cur = []") simp_all
  have "\<not> key_free (?T @ ?sep @ ToLower ?J) (ToLower k)" if k: "k \<in> set keys" for k
  proof (cases "k \<in> set missing")
    case True
    then obtain x y where xy: "?J = x @ k @ y" "\<not> word_at (last_of x)" "\<not> word_at (first_of y)" using Join_split by blast
    have "\<not> word_at (last_of (?T @ ?sep @ ToLower x))"
      using xy(2) by (cases x rule: rev_cases; cases "cur = []") (simp_all add: ToLower_def last_of_def first_of_def word_at_def)
    from key_between[OF _ this, of "ToLower k" "ToLower y"] xy k assms(2) show ?thesis by (simp add: plain_key_ToLower list_all_iff)
  next
    case False
    with k assms(3) have found: "\<not> key_free ?T (ToLower k)" by (simp add: findMissing_key_free)
    have "cur \<noteq> []" using found k assms(2)
      by (auto simp: key_free_def as_identifier_def in_expression_def ToLower_def list_all_iff plain_key_def)
    with found_in_longer[OF found, of "'', '' @ ToLower ?J"] show ?thesis by (simp add: first_of_def word_at_def)
  qed
  then show "findMissingPartitionKeys new keys = []" by (simp add: findMissing_key_free low filter_empty_conv)
  show "tight new" using assms(1,5) ends plain_key_hd[OF key(1)] plain_key_hd[OF key(2)]
    by (cases "cur = []") (auto simp: tight_def hd_append last_append)
  have "no_parens (?sep @ ?J)" using keys_no_parens[OF plain] by (cases "cur = []") (simp_all add: no_parens_def)
  then show "depth 1 cur = Some 1 \<Longrightarrow> depth 1 new = Some 1" using depth_no_parens by (simp add: assms(5) depth_append[of _ cur])
qed

lemma TrimSpace_idem [simp]: "TrimSpace (TrimSpace s) = TrimSpace s"
proof (cases "TrimSpace s = []")
  case True
  then show ?thesis unfolding True by (simp add: TrimSpace_def)
next
  case False
  then show ?thesis by (rule TrimSpace_tight[OF tight_TrimSpace])
qed

section \<open>Property\<close>


definition demo_unique :: IndexDefinition where
  "demo_unique = zero_index\<lparr>ix_Oid := 20, ix_Name := ''i'', ix_OwningSchema := ''s'', ix_OwningTable := ''t'',
     ix_Def := Some ''CREATE UNIQUE INDEX i ON s.t USING btree (a, lower(b))''\<rparr>"

definition demo_keys :: "partitionColumnResult list res" where
  "demo_keys = Inr [\<lparr>pc_SchemaName = ''s'', pc_TableName = ''t'', pc_ColumnNames = ''a,c''\<rparr>]"

lemma demo_unique_facts:
  "split_def ''CREATE UNIQUE INDEX i ON s.t USING btree (a, lower(b))'' = Inr (''CREATE UNIQUE INDEX i ON s.t USING btree ('', ''a, lower(b)'', '')'') \<and>
   prefix ''CREATE UNIQUE INDEX'' (ToUpper ''CREATE UNIQUE INDEX i ON s.t USING btree (a, lower(b))'') \<and>
   go_get0 [] (GetPartitionColumnsByTable demo_keys) ''s.t'' = [''a'', ''c''] \<and> list_all plain_key [''a'', ''c'']"
  by code_simp


end
