(* ===== verification/PrintStatistics.thy ===== *)
theory PrintStatistics
  imports PrintRelations
begin

text \<open>
  Planner statistics, \<open>src/meta/builtin/statistics.go\<close>, with the structs of \<open>queries_statistics.go\<close>.
\<close>

section \<open>Rows\<close>

record AttributeStatistic =
  as_Oid :: "32 word"
  as_Schema :: string
  as_Table :: string
  as_AttName :: string
  as_Type :: string
  as_Relid :: "32 word"
  as_AttNumber :: int
  as_Inherit :: bool
  as_NullFraction :: rat
  as_Width :: int
  as_Distinct :: rat
  as_Kind1 :: int
  as_Kind2 :: int
  as_Kind3 :: int
  as_Kind4 :: int
  as_Kind5 :: int
  as_Operator1 :: "32 word"
  as_Operator2 :: "32 word"
  as_Operator3 :: "32 word"
  as_Operator4 :: "32 word"
  as_Operator5 :: "32 word"
  as_Collation1 :: "32 word"
  as_Collation2 :: "32 word"
  as_Collation3 :: "32 word"
  as_Collation4 :: "32 word"
  as_Collation5 :: "32 word"
  as_Numbers1 :: "string list"
  as_Numbers2 :: "string list"
  as_Numbers3 :: "string list"
  as_Numbers4 :: "string list"
  as_Numbers5 :: "string list"
  as_Values1 :: "string list"
  as_Values2 :: "string list"
  as_Values3 :: "string list"
  as_Values4 :: "string list"
  as_Values5 :: "string list"

record TupleStatistic =
  tup_Oid :: "32 word"
  tup_Schema :: string
  tup_Table :: string
  tup_RelPages :: int
  tup_RelTuples :: rat

section \<open>Literals\<close>

text \<open>\<open>%#v\<close> of a string is \<open>strconv.Quote\<close>; bytes from 128 on are taken to be parts of printable characters.\<close>

definition hex_digit :: "nat \<Rightarrow> char" where
  "hex_digit n = (if n < 10 then digit n else char_of (87 + n))"

definition quote_char :: "char \<Rightarrow> string" where
  "quote_char c =
     (let n = of_char c :: nat
      in if c = DQ then [BS, DQ] else if c = BS then [BS, BS]
         else if n = 7 then [BS, CHR ''a''] else if n = 8 then [BS, CHR ''b''] else if n = 12 then [BS, CHR ''f'']
         else if n = 10 then [BS, CHR ''n''] else if n = 13 then [BS, CHR ''r''] else if n = 9 then [BS, CHR ''t'']
         else if n = 11 then [BS, CHR ''v'']
         else if n < 32 \<or> n = 127 then [BS, CHR ''x'', hex_digit (n div 16), hex_digit (n mod 16)]
         else [c])"

definition Quote :: "string \<Rightarrow> string" where
  "Quote s = [DQ] @ concat (map quote_char s) @ [DQ]"

definition SliceToPostgresArray :: "string list \<Rightarrow> string" where
  "SliceToPostgresArray xs = in_quotes (''{'' @ Join (map (\<lambda>s. Quote (EscapeSingleQuotes s)) xs) '','' @ ''}'')"

definition realValues :: "string list \<Rightarrow> string" where
  "realValues xs = (if length xs > 0 then SliceToPostgresArray xs else ''NULL'')"

definition AnyValues :: "string list \<Rightarrow> string \<Rightarrow> string" where
  "AnyValues xs typ = (if length xs > 0 then ''array_in('' @ SliceToPostgresArray xs @ '', '' @ in_quotes typ @ ''::regtype::oid, -1)'' else ''NULL'')"

definition is_array_type :: "string \<Rightarrow> bool" where
  "is_array_type t \<longleftrightarrow> length t > 1 \<and> t ! 0 = CHR ''_'' \<and> t ! 1 \<noteq> CHR ''_''"

section \<open>Statements\<close>

definition generateAttributeSlotsQuery7 :: "AttributeStatistic \<Rightarrow> string" where
  "generateAttributeSlotsQuery7 a =
     Join (if is_array_type (as_Type a)
       then replicate 5 ''0::smallint'' @ replicate 10 ''0::oid'' @ replicate 5 ''NULL::real[]'' @ replicate 5 ''NULL''
       else map (\<lambda>k. Itoa k @ ''::smallint'') [as_Kind1 a, as_Kind2 a, as_Kind3 a, as_Kind4 a, as_Kind5 a] @
         map (\<lambda>w. oid_text w @ ''::oid'') [as_Operator1 a, as_Operator2 a, as_Operator3 a, as_Operator4 a, as_Operator5 a, as_Collation1 a, as_Collation2 a, as_Collation3 a, as_Collation4 a, as_Collation5 a] @
         map (\<lambda>r. realValues r @ ''::real[]'') [as_Numbers1 a, as_Numbers2 a, as_Numbers3 a, as_Numbers4 a, as_Numbers5 a] @
         map (\<lambda>v. AnyValues v (as_Type a)) [as_Values1 a, as_Values2 a, as_Values3 a, as_Values4 a, as_Values5 a]) CNT"

definition generateAttributeSlotsQuery6 :: "AttributeStatistic \<Rightarrow> string" where
  "generateAttributeSlotsQuery6 a =
     Join (if is_array_type (as_Type a)
       then replicate 5 ''0::smallint'' @ replicate 5 ''0::oid'' @ replicate 5 ''NULL::real[]'' @ replicate 5 ''NULL''
       else map (\<lambda>k. Itoa k @ ''::smallint'') [as_Kind1 a, as_Kind2 a, as_Kind3 a, as_Kind4 a, as_Kind5 a] @
         map (\<lambda>w. oid_text w @ ''::oid'') [as_Operator1 a, as_Operator2 a, as_Operator3 a, as_Operator4 a, as_Operator5 a] @
         map (\<lambda>r. realValues r @ ''::real[]'') [as_Numbers1 a, as_Numbers2 a, as_Numbers3 a, as_Numbers4 a, as_Numbers5 a] @
         map (\<lambda>v. AnyValues v (as_Type a)) [as_Values1 a, as_Values2 a, as_Values3 a, as_Values4 a, as_Values5 a]) CNT"

definition generateAttributeSlotsQuery4 :: "AttributeStatistic \<Rightarrow> string" where
  "generateAttributeSlotsQuery4 a =
     Join (if is_array_type (as_Type a)
       then replicate 4 ''0::smallint'' @ replicate 4 ''0::oid'' @ replicate 4 ''NULL::real[]'' @ replicate 4 ''NULL''
       else map (\<lambda>k. Itoa k @ ''::smallint'') [as_Kind1 a, as_Kind2 a, as_Kind3 a, as_Kind4 a] @
         map (\<lambda>w. oid_text w @ ''::oid'') [as_Operator1 a, as_Operator2 a, as_Operator3 a, as_Operator4 a] @
         map (\<lambda>r. realValues r @ ''::real[]'') [as_Numbers1 a, as_Numbers2 a, as_Numbers3 a, as_Numbers4 a] @
         map (\<lambda>v. AnyValues v (as_Type a)) [as_Values1 a, as_Values2 a, as_Values3 a, as_Values4 a]) CNT"

definition oid_of_table :: "Table \<Rightarrow> string" where
  "oid_of_table t = in_quotes (EscapeSingleQuotes (Relation_FQN t)) @ ''::regclass::oid''"

definition GenerateTupleStatisticsQuery :: "print_env \<Rightarrow> Table \<Rightarrow> TupleStatistic \<Rightarrow> string" where
  "GenerateTupleStatisticsQuery env t s =
     ''UPDATE pg_class'' @ NL @ ''SET'' @ NT @ ''relpages = '' @ Itoa (tup_RelPages s) @ ''::int,'' @ NT @
     ''reltuples = '' @ fixed_text env (tup_RelTuples s) @ ''::real'' @ NL @ ''WHERE oid = '' @ oid_of_table t @ '';''"

definition attribute_slots :: "bool \<Rightarrow> bool \<Rightarrow> AttributeStatistic \<Rightarrow> string" where
  "attribute_slots at6 at7 a = (if at6 then (if at7 then generateAttributeSlotsQuery7 a else generateAttributeSlotsQuery6 a) else generateAttributeSlotsQuery4 a)"

definition GenerateAttributeStatisticsQueries :: "print_env \<Rightarrow> Table \<Rightarrow> AttributeStatistic \<Rightarrow> string list res" where
  "GenerateAttributeStatisticsQueries env t a =
     rbind (src_at_least env ''6'') (\<lambda>at6. rbind (if at6 then src_at_least env ''7'' else Inr False) (\<lambda>at7. Inr
       [''DELETE FROM pg_statistic WHERE starelid = '' @ oid_of_table t @ '' AND staattnum = '' @ Itoa (as_AttNumber a) @ '';'',
        ''INSERT INTO pg_statistic VALUES ('' @ NT @ oid_of_table t @ CNT @ Itoa (as_AttNumber a) @ ''::smallint,'' @
        text_if at6 (NT @ bool_text (as_Inherit a) @ ''::boolean,'') @ NT @
        fixed_text env (as_NullFraction a) @ ''::real'' @ CNT @ Itoa (as_Width a) @ ''::integer'' @ CNT @
        fixed_text env (as_Distinct a) @ ''::real'' @ CNT @ attribute_slots at6 at7 a @ '');'']))"

definition printStatisticsStatementForTable :: "Table \<Rightarrow> string \<Rightarrow> metafile \<Rightarrow> metafile res" where
  "printStatisticsStatementForTable t query = emit ''statistics'' (mk_entry (r_Schema t) (r_Name t) ''STATISTICS'' []) (BR @ query @ NL)"

definition no_tuples :: TupleStatistic where
  "no_tuples = \<lparr>tup_Oid = 0, tup_Schema = [], tup_Table = [], tup_RelPages = 0, tup_RelTuples = 0\<rparr>"

definition print_attribute :: "print_env \<Rightarrow> Table \<Rightarrow> AttributeStatistic \<Rightarrow> metafile \<Rightarrow> metafile res" where
  "print_attribute env t a st =
     rbind (GenerateAttributeStatisticsQueries env t a) (\<lambda>qs. for_each (printStatisticsStatementForTable t) qs st)"

definition print_table_statistics :: "print_env \<Rightarrow> (32 word, AttributeStatistic list) gomap \<Rightarrow> (32 word, TupleStatistic) gomap \<Rightarrow>
    Table \<Rightarrow> metafile \<Rightarrow> metafile res" where
  "print_table_statistics env attStats tupleStats t st =
     rbind (printStatisticsStatementForTable t (GenerateTupleStatisticsQuery env t (go_get0 no_tuples tupleStats (r_Oid t))) st)
       (for_each (print_attribute env t) (go_get0 [] attStats (r_Oid t)))"

definition PrintStatisticsStatements :: "print_env \<Rightarrow> Table list \<Rightarrow> (32 word, AttributeStatistic list) gomap \<Rightarrow> (32 word, TupleStatistic) gomap \<Rightarrow>
    metafile \<Rightarrow> metafile res" where
  "PrintStatisticsStatements env tables attStats tupleStats = for_each (print_table_statistics env attStats tupleStats) tables"

section \<open>What is printed\<close>

definition statistics_object :: "Table \<Rightarrow> toc_object" where
  "statistics_object t = mk_object (''statistics'', mk_entry (r_Schema t) (r_Name t) ''STATISTICS'' []) (Relation_FQN t)"

interpretation table_statistics_printer: printer "print_table_statistics env attStats tupleStats" statistics_object
proof (unfold_locales)
  fix t
  let ?o = "statistics_object t"
  have one: "prints (printStatisticsStatementForTable t q) (list_all (own ?o))" for q
    unfolding printStatisticsStatementForTable_def
    by (rule prints_emit) (simp add: own_def same_name_def statistics_object_def)
  have "prints (print_attribute env t a) (list_all (own ?o))" for a
    unfolding print_attribute_def[abs_def] by (intro prints_compute prints_each one)
  then have "prints (for_each (print_attribute env t) as) (list_all (own ?o))" for as by (rule prints_each)
  then show "prints (print_table_statistics env attStats tupleStats t) (list_all (own ?o))"
    unfolding print_table_statistics_def[abs_def] by (rule prints_then[OF one]) simp
qed

end
