(* ===== verification/QueryPostdata.thy ===== *)
theory QueryPostdata
  imports Queries IndexKeys PrintStatistics
begin

text \<open>
  The queries for indexes, rules, triggers and policies (\<open>src/meta/builtin/queries_postdata.go\<close>) and for
  statistics (\<open>queries_statistics.go\<close>). What is done with the rows of the index query is in \<open>Indexes\<close> and
  \<open>IndexKeys\<close>. \<open>clause\<close> is the filter of \<open>relationAndSchemaFilterClause\<close>.
\<close>

section \<open>Indexes\<close>

definition ConstructImplicitIndexOidList :: "(string \<Rightarrow> string list res) \<Rightarrow> string res" where
  "ConstructImplicitIndexOidList select =
     rbind (must_select select (concat [''
	SELECT i.indexrelid
	FROM pg_index i
		JOIN pg_depend d on i.indexrelid = d.objid
		JOIN pg_constraint c on d.refobjid = c.oid
	WHERE i.indexrelid >= '', FIRST_NORMAL_OBJECT_ID, ''
		AND i.indisunique is true
		AND i.indisprimary is false;''])) (\<lambda>names. Inr (SliceToQuotedString names))"

definition indexes_query :: "'a acl_env_scheme \<Rightarrow> string \<Rightarrow> (string \<Rightarrow> string list res) \<Rightarrow> string res" where
  "indexes_query env clause select_strings =
     rbind (src_old env ''6'') (\<lambda>old6.
     rbind (if old6 then ConstructImplicitIndexOidList select_strings else Inr []) (\<lambda>oids.
     rbind (if old6 then Inr False else src_is env ''6'') (\<lambda>is6.
       let implicitIndexStr = text_if (oids \<noteq> []) (''OR i.indexrelid IN ('' @ oids @ '')'')
       in Inr (if old6
         then concat [''
	SELECT DISTINCT i.indexrelid AS oid,
		quote_ident(ic.relname) AS name,
		quote_ident(n.nspname) AS owningschema,
		quote_ident(c.relname) AS owningtable,
		coalesce(quote_ident(s.spcname), '', [SQ, SQ], '') AS tablespace,
		pg_get_indexdef(i.indexrelid) AS def,
		i.indisclustered AS isclustered,
		CASE
			WHEN i.indisprimary = 't' '', implicitIndexStr, '' THEN 't'
			ELSE 'f'
		END AS supportsconstraint
	FROM pg_index i
		JOIN pg_class ic ON (ic.oid = i.indexrelid)
		JOIN pg_namespace n ON (ic.relnamespace = n.oid)
		JOIN pg_class c ON (c.oid = i.indrelid)
		LEFT JOIN pg_tablespace s ON (ic.reltablespace = s.oid)
	WHERE '', clause, ''
		AND i.indisvalid
		AND NOT EXISTS (SELECT 1 FROM pg_partition_rule r WHERE r.parchildrelid = c.oid)
		AND '', ExtensionFilterClause ''c'', ''
	ORDER BY name'']
         else if is6
         then concat [''
	SELECT DISTINCT i.indexrelid AS oid,
		quote_ident(ic.relname) AS name,
		quote_ident(n.nspname) AS owningschema,
		quote_ident(c.relname) AS owningtable,
		coalesce(quote_ident(s.spcname), '', [SQ, SQ], '') AS tablespace,
		pg_get_indexdef(i.indexrelid) AS def,
		i.indisclustered AS isclustered,
		i.indisreplident AS isreplicaidentity,
		CASE
			WHEN conindid > 0 THEN 't'
			ELSE 'f'
		END as supportsconstraint
	FROM pg_index i
		JOIN pg_class ic ON ic.oid = i.indexrelid
		JOIN pg_namespace n ON ic.relnamespace = n.oid
		JOIN pg_class c ON c.oid = i.indrelid
		LEFT JOIN pg_tablespace s ON ic.reltablespace = s.oid
		LEFT JOIN pg_constraint con ON i.indexrelid = con.conindid
	WHERE '', clause, ''
		AND i.indisvalid
		AND i.indisready
		AND i.indisprimary = 'f'
		AND NOT EXISTS (SELECT 1 FROM pg_partition_rule r WHERE r.parchildrelid = c.oid)
		AND '', ExtensionFilterClause ''c'', ''
	ORDER BY name'']
         else concat [''
		SELECT DISTINCT i.indexrelid AS oid,
			coalesce(inh.inhparent, '0') AS parentindex,
			quote_ident(ic.relname) AS name,
			quote_ident(n.nspname) AS owningschema,
			quote_ident(c.relname) AS owningtable,
			coalesce(quote_ident(s.spcname), '', [SQ, SQ], '') AS tablespace,
			pg_get_indexdef(i.indexrelid) AS def,
			i.indisclustered AS isclustered,
			i.indisreplident AS isreplicaidentity,
			CASE
				WHEN conindid > 0 THEN 't'
				ELSE 'f'
			END as supportsconstraint,
			coalesce(array_to_string((SELECT pg_catalog.array_agg(attnum ORDER BY attnum) FROM pg_catalog.pg_attribute WHERE attrelid = i.indexrelid AND attstattarget >= 0), ','), '', [SQ, SQ], '') as statisticscolumns,
			coalesce(array_to_string((SELECT pg_catalog.array_agg(attstattarget ORDER BY attnum) FROM pg_catalog.pg_attribute WHERE attrelid = i.indexrelid AND attstattarget >= 0), ','), '', [SQ, SQ], '') as statisticsvalues	
		FROM pg_index i
			JOIN pg_class ic ON ic.oid = i.indexrelid
			JOIN pg_namespace n ON ic.relnamespace = n.oid
			JOIN pg_class c ON c.oid = i.indrelid
			LEFT JOIN pg_tablespace s ON ic.reltablespace = s.oid
			LEFT JOIN pg_constraint con ON i.indexrelid = con.conindid
			LEFT JOIN pg_catalog.pg_inherits inh ON inh.inhrelid = i.indexrelid
		WHERE '', clause, ''
			AND i.indisready
			AND i.indisprimary = 'f'
			AND i.indexrelid >= '', FIRST_NORMAL_OBJECT_ID, ''
			AND '', ExtensionFilterClause ''c'', ''
		ORDER BY name'']))))"

definition GetIndexes :: "'a acl_env_scheme \<Rightarrow> string \<Rightarrow> (string \<Rightarrow> string list res) \<Rightarrow> (string \<Rightarrow> IndexDefinition list res) \<Rightarrow> IndexDefinition list res" where
  "GetIndexes env clause select_strings select =
     rbind (indexes_query env clause select_strings) (\<lambda>query.
     rbind (must_select select query) (\<lambda>rows. process_indexes env rows))"

definition GetRenameExchangedPartitionQuery :: "'a acl_env_scheme \<Rightarrow> filters \<Rightarrow> string res" where
  "GetRenameExchangedPartitionQuery env flt =
     rbind (src_old env ''7'') (\<lambda>old7.
       let cteClause = (if old7
         then ''SELECT DISTINCT cl.relname
            FROM pg_class cl
                INNER JOIN pg_partitions pts
					ON cl.relname = pts.partitiontablename
					AND cl.relname != pts.tablename
            WHERE cl.relkind IN ('r', 'f')''
         else ''SELECT DISTINCT cl.relname
             FROM pg_class cl
             WHERE
                cl.relkind IN ('r', 'f')
                AND cl.relispartition = true
                AND cl.relhassubclass = false'')
       in Inr (concat [''
        WITH table_cte AS ('', cteClause, '')
        SELECT
            ic.relname AS origname,
            rc.relname || SUBSTRING(ic.relname, LENGTH(ch.relname)+1, LENGTH(ch.relname)) AS newname
        FROM
            pg_index i
            JOIN pg_class ic ON i.indexrelid = ic.oid
            JOIN pg_class rc
                ON i.indrelid = rc.oid
                AND rc.relname != SUBSTRING(ic.relname, 1, LENGTH(rc.relname))
            JOIN pg_namespace n ON rc.relnamespace = n.oid
            INNER JOIN table_cte ch
                ON SUBSTRING(ic.relname, 1, LENGTH(ch.relname)) = ch.relname
                AND rc.relname != ch.relname
        WHERE '', SchemaFilterClause flt ''n'', '';'']))"

definition rename_indexes :: "'a acl_env_scheme \<Rightarrow> filters \<Rightarrow> (string \<Rightarrow> ExchangedPartitionName list res) \<Rightarrow> IndexDefinition list \<Rightarrow> IndexDefinition list res" where
  "rename_indexes env flt select indexes =
     rbind (GetRenameExchangedPartitionQuery env flt) (\<lambda>query.
     rbind (must_select select query) (\<lambda>names. Inr (RenameExchangedPartitionIndexes names indexes)))"

definition RenameExchangedPartitionConstraints :: "'a acl_env_scheme \<Rightarrow> filters \<Rightarrow> (string \<Rightarrow> ExchangedPartitionName list res) \<Rightarrow> Constraint list \<Rightarrow> Constraint list res" where
  "RenameExchangedPartitionConstraints env flt select constraints =
     rbind (GetRenameExchangedPartitionQuery env flt) (\<lambda>query.
     rbind (must_select select query) (\<lambda>names.
       Inr (map (\<lambda>c. case go_get (exchanged_names names) (con_Name c) of None \<Rightarrow> c
         | Some new \<Rightarrow> c\<lparr>con_Def := map_option (\<lambda>d. Replace d (con_Name c) new 1) (con_Def c), con_Name := new\<rparr>) constraints)))"

definition partition_columns_query :: string where
  "partition_columns_query = ''
	WITH distinct_columns AS (
		SELECT DISTINCT schemaname, tablename, columnname, partitionlevel
		FROM pg_partition_columns
	)
	SELECT 
		schemaname, 
		tablename,
		array_to_string(array_agg(columnname ORDER BY partitionlevel), ',') AS columnnames
	FROM distinct_columns
	GROUP BY schemaname, tablename''"

definition add_partition_keys :: "(string \<Rightarrow> partitionColumnResult list res) \<Rightarrow> IndexDefinition list \<Rightarrow> IndexDefinition list" where
  "add_partition_keys select indexes = EnsurePartitionKeysInUniqueIndexDefs (select partition_columns_query) indexes"

section \<open>Rules, triggers and policies\<close>

definition GetRules :: "string \<Rightarrow> (string \<Rightarrow> RuleDefinition list res) \<Rightarrow> RuleDefinition list res" where
  "GetRules clause select =
     rbind (must_select select (concat [''
	SELECT r.oid AS oid,
		quote_ident(r.rulename) AS name,
		quote_ident(n.nspname) AS owningschema,
		quote_ident(c.relname) AS owningtable,
		pg_get_ruledef(r.oid) AS def
	FROM pg_rewrite r
		JOIN pg_class c ON c.oid = r.ev_class
		JOIN pg_namespace n ON c.relnamespace = n.oid
	WHERE '', clause, ''
		AND rulename NOT LIKE '%RETURN'
		AND rulename NOT LIKE 'pg_%'
		AND '', ExtensionFilterClause ''c'', ''
	ORDER BY rulename''])) (\<lambda>rows.
       Inr (filter (\<lambda>r. ru_Def r \<noteq> None) rows))"

definition GetTriggers :: "'a acl_env_scheme \<Rightarrow> string \<Rightarrow> (string \<Rightarrow> TriggerDefinition list res) \<Rightarrow> TriggerDefinition list res" where
  "GetTriggers env clause select =
     rbind (src_old env ''6'') (\<lambda>old6.
       let constraintClause = (if old6 then ''tgisconstraint = '' @ in_quotes ''f'' else ''NOT tgisinternal'')
       in rbind (must_select select (concat [''
	SELECT t.oid AS oid,
		quote_ident(t.tgname) AS name,
		quote_ident(n.nspname) AS owningschema,
		quote_ident(c.relname) AS owningtable,
		pg_get_triggerdef(t.oid) AS def
	FROM pg_trigger t
		JOIN pg_class c ON c.oid = t.tgrelid
		JOIN pg_namespace n ON c.relnamespace = n.oid
	WHERE '', clause, ''
		AND tgname NOT LIKE 'pg_%'
		AND '', constraintClause, ''
		AND '', ExtensionFilterClause ''c'', ''
	ORDER BY tgname''])) (\<lambda>rows.
       Inr (filter (\<lambda>r. ru_Def r \<noteq> None) rows)))"

definition GetEventTriggers :: "(string \<Rightarrow> EventTrigger list res) \<Rightarrow> EventTrigger list res" where
  "GetEventTriggers select = must_select select (concat [''
	SELECT et.oid,
		quote_ident(et.evtname) AS name,
		et.evtevent AS event,
		array_to_string(array(select quote_literal(x) from unnest(evttags) as t(x)), ', ') AS eventtags,
		et.evtfoid::regproc AS functionname,
		et.evtenabled AS enabled
	FROM pg_event_trigger et
	WHERE '', ExtensionFilterClause ''et'', ''
	ORDER BY name''])"

definition GetPolicies :: "(string \<Rightarrow> RLSPolicy list res) \<Rightarrow> RLSPolicy list res" where
  "GetPolicies select = must_select select (concat [''
	SELECT
		p.oid as oid,
		quote_ident(p.polname) as name,
		p.polcmd as cmd,
		p.polpermissive as permissive,
		quote_ident(c.relnamespace::regnamespace::text) as schema,
		quote_ident(c.relname) as table,
		CASE
			WHEN polroles = '{0}' THEN '', [SQ, SQ], ''
			ELSE coalesce(pg_catalog.array_to_string(ARRAY(SELECT pg_catalog.quote_ident(rolname) from pg_catalog.pg_roles WHERE oid = ANY(polroles)), ', '), '', [SQ, SQ], '')
		END AS roles,
		coalesce(pg_catalog.pg_get_expr(polqual, polrelid), '', [SQ, SQ], '') AS qual,
		coalesce(pg_catalog.pg_get_expr(polwithcheck, polrelid), '', [SQ, SQ], '') AS withcheck
	FROM pg_catalog.pg_policy p
		JOIN pg_catalog.pg_class c ON p.polrelid = c.oid
	ORDER BY p.polname''])"

section \<open>Statistics\<close>

definition GetAttributeStatistics :: "'a acl_env_scheme \<Rightarrow> filters \<Rightarrow> (string \<Rightarrow> AttributeStatistic list res) \<Rightarrow> PrintRelations.Table list \<Rightarrow>
    (32 word, AttributeStatistic list) gomap res" where
  "GetAttributeStatistics env flt select tables =
     rbind (src_at_least env ''6'') (\<lambda>at6.
     rbind (src_at_least env ''7'') (\<lambda>at7.
       let inheritClause = text_if at6 ''s.stainherit,'';
           statSlotClause = text_if at6 (''s.stakind5,
	s.staop5,
	s.stanumbers5,
	s.stavalues5,'');
           statCollationClause = text_if at7 (''s.stacoll1,
					s.stacoll2,
					s.stacoll3,
					s.stacoll4,
					s.stacoll5,'');
           names = SliceToQuotedString (map Relation_FQN tables)
       in rbind (must_select select (concat [''
	SELECT c.oid,
		quote_ident(n.nspname) AS schema,
		quote_ident(c.relname) AS table,
		quote_ident(a.attname) AS attname,
		quote_ident(t.typname) AS type,
		s.starelid,
		s.staattnum,
		'', inheritClause, ''
		s.stanullfrac,
		s.stawidth,
		s.stadistinct,
		'', statSlotClause, ''
		s.stakind1,
		s.stakind2,
		s.stakind3,
		s.stakind4,
		s.staop1,
		s.staop2,
		s.staop3,
		s.staop4,
		'', statCollationClause, ''
		s.stanumbers1,
		s.stanumbers2,
		s.stanumbers3,
		s.stanumbers4,
		s.stavalues1,
		s.stavalues2,
		s.stavalues3,
		s.stavalues4
	FROM pg_class c
		JOIN pg_namespace n ON c.relnamespace = n.oid

	JOIN pg_attribute a ON a.attrelid = c.oid
		JOIN pg_statistic s ON (c.oid = s.starelid AND a.attnum = s.staattnum)
		JOIN pg_type t ON a.atttypid = t.oid
	WHERE '', SchemaFilterClause flt ''n'', ''
		AND quote_ident(n.nspname) || '.' || quote_ident(c.relname) IN ('', names, '')
	ORDER BY n.nspname, c.relname, a.attnum''])) (\<lambda>rows.
       Inr (group_by as_Oid id rows))))"

definition GetTupleStatistics :: "filters \<Rightarrow> (string \<Rightarrow> TupleStatistic list res) \<Rightarrow> PrintRelations.Table list \<Rightarrow> (32 word, TupleStatistic) gomap res" where
  "GetTupleStatistics flt select tables =
     (let names = SliceToQuotedString (map Relation_FQN tables)
      in rbind (must_select select (concat [''
	SELECT c.oid,
		quote_ident(n.nspname) AS schema,
		quote_ident(c.relname) AS table,
		c.relpages,
		c.reltuples
	FROM pg_class c
		JOIN pg_namespace n ON c.relnamespace = n.oid
	WHERE '', SchemaFilterClause flt ''n'', ''
		AND quote_ident(n.nspname) || '.' || quote_ident(c.relname) IN ('', names, '')
	ORDER BY n.nspname, c.relname''])) (\<lambda>rows. Inr (index_by tup_Oid id rows)))"

end
