(* ===== verification/QueryGlobals.thy ===== *)
theory QueryGlobals
  imports Queries PrintGlobals
begin

text \<open>
  \<open>src/meta/builtin/queries_globals.go\<close>: session settings, the database, resource queues and groups,
  roles with their settings and memberships, and tablespaces.
\<close>

section \<open>The database\<close>

definition GetSessionGUCs :: "(string \<Rightarrow> SessionGUCs res) \<Rightarrow> SessionGUCs res" where
  "GetSessionGUCs get = FatalOnError (get ''SHOW client_encoding;'')"

definition lc_query :: "'a acl_env_scheme \<Rightarrow> string res" where
  "lc_query env = rbind (src_at_least env ''6'') (\<lambda>at6. Inr (text_if at6 ''datcollate AS collate, datctype AS ctype,''))"

definition GetDefaultDatabaseEncodingInfo :: "'a acl_env_scheme \<Rightarrow> (string \<Rightarrow> Database res) \<Rightarrow> Database res" where
  "GetDefaultDatabaseEncodingInfo env get =
     rbind (lc_query env) (\<lambda>lcQuery. FatalOnError (get (concat [''
	SELECT datname AS name,
		'', lcQuery, ''
		pg_encoding_to_char(encoding) AS encoding
	FROM pg_database
	WHERE datname = 'template0'', [SQ]])))"

definition GetDatabaseInfo :: "'a acl_env_scheme \<Rightarrow> string \<Rightarrow> (string \<Rightarrow> Database res) \<Rightarrow> Database res" where
  "GetDatabaseInfo env dbname get =
     rbind (lc_query env) (\<lambda>lcQuery. FatalOnError (get (concat [''
	SELECT d.oid,
		quote_ident(d.datname) AS name,
		quote_ident(t.spcname) AS tablespace,
		'', lcQuery, ''
		pg_encoding_to_char(d.encoding) AS encoding
	FROM pg_database d
		JOIN pg_tablespace t ON d.dattablespace = t.oid
	WHERE d.datname = '', [SQ], EscapeSingleQuotes dbname, [SQ]])))"

definition GetDatabaseGUCs :: "'a acl_env_scheme \<Rightarrow> string \<Rightarrow> (string \<Rightarrow> string list res) \<Rightarrow> string list res" where
  "GetDatabaseGUCs env dbname select =
     rbind (src_old env ''6'') (\<lambda>old6.
       let subQuery = (if old6 then ''SELECT datconfig FROM pg_database WHERE datname = '' @ in_quotes (EscapeSingleQuotes dbname)
         else ''SELECT setconfig FROM pg_db_role_setting WHERE setrole = 0 AND setdatabase = (SELECT oid FROM pg_database WHERE datname = '' @
           in_quotes (EscapeSingleQuotes dbname) @ '')'')
       in must_select select (concat [''
	SELECT CASE
		WHEN option_name='search_path' OR option_name = 'DateStyle'
		THEN ('SET ' || option_name || ' TO ' || option_value)
		ELSE ('SET ' || option_name || ' TO '', [SQ, SQ, SQ], '' || option_value || '', [SQ, SQ, SQ, SQ], '')
	END AS string
	FROM pg_options_to_table(('', subQuery, ''))'']))"

definition GetDBSize :: "string \<Rightarrow> (string \<Rightarrow> string res) \<Rightarrow> string res" where
  "GetDBSize dbname get = FatalOnError (get (''SELECT pg_size_pretty(pg_database_size('' @ in_quotes (EscapeSingleQuotes dbname) @ '')) as dbsize''))"

section \<open>Resource queues and groups\<close>

definition GetResourceQueues :: "(string \<Rightarrow> ResourceQueue list res) \<Rightarrow> ResourceQueue list res" where
  "GetResourceQueues select = must_select select (''
	SELECT r.oid,
		quote_ident(rsqname) AS name,
		rsqcountlimit AS activestatements,
		ROUND(rsqcostlimit::numeric, 2)::text AS maxcost,
		rsqovercommit AS costovercommit,
		ROUND(rsqignorecostlimit::numeric, 2)::text AS mincost,
		priority_capability.ressetting::text AS priority,
		memory_capability.ressetting::text AS memorylimit
	FROM pg_resqueue r
		JOIN (SELECT resqueueid, ressetting FROM pg_resqueuecapability WHERE restypid = 5) priority_capability
			ON r.oid = priority_capability.resqueueid
		JOIN (SELECT resqueueid, ressetting FROM pg_resqueuecapability WHERE restypid = 6) memory_capability
			ON r.oid = memory_capability.resqueueid'')"

text \<open>The code is generic in the row type; the query is chosen by the version.\<close>

definition resource_groups_query :: "'a acl_env_scheme \<Rightarrow> string res" where
  "resource_groups_query env =
     rbind (src_old env ''7'') (\<lambda>old7.
       if old7 then
         rbind (src_at_least env ''5.2.0'') (\<lambda>at52.
         rbind (src_at_least env ''5.8.0'') (\<lambda>at58.
         rbind (src_at_least env ''5.9.0'') (\<lambda>at59.
           let sel = (if at52
                 then ''
		SELECT g.oid,
			quote_ident(g.rsgname) AS name,
			t1.value AS concurrency,
			t2.value AS cpuratelimit,
			t3.value AS memorylimit,
			t4.value AS memorysharedquota,
			t5.value AS memoryspillratio''
                 else ''
		SELECT g.oid,
			quote_ident(g.rsgname) AS name,
			t1.proposed AS concurrency,
			t2.value    AS cpuratelimit,
			t3.proposed AS memorylimit,
			t4.proposed AS memorysharedquota,
			t5.proposed AS memoryspillratio'');
               frm = ''
	    FROM pg_resgroup g
	    	JOIN pg_resgroupcapability t1 ON t1.resgroupid = g.oid AND t1.reslimittype = 1
	    	JOIN pg_resgroupcapability t2 ON t2.resgroupid = g.oid AND t2.reslimittype = 2
	    	JOIN pg_resgroupcapability t3 ON t3.resgroupid = g.oid AND t3.reslimittype = 3
	    	JOIN pg_resgroupcapability t4 ON t4.resgroupid = g.oid AND t4.reslimittype = 4
	    	JOIN pg_resgroupcapability t5 ON t5.resgroupid = g.oid AND t5.reslimittype = 5'';
               sel8 = text_if at58 ('', coalesce(t6.value, '0') AS memoryauditor'');
               frm8 = text_if at58 ('' LEFT JOIN pg_resgroupcapability t6 ON t6.resgroupid = g.oid AND t6.reslimittype = 6'');
               sel9 = text_if at59 ('', coalesce(t7.value, '-1') AS cpuset'');
               frm9 = text_if at59 ('' LEFT JOIN pg_resgroupcapability t7 ON t7.resgroupid = g.oid AND t7.reslimittype = 7'')
           in Inr (concat [sel, sel8, sel9, '' '', frm, frm8, frm9, '';'']))))
       else Inr (''
			SELECT
				g.oid       AS oid,
				g.rsgname   AS name,
				t1.value    AS concurrency,
				t2.value    AS cpu_max_percent,
				t3.value    AS cpu_weight,
				t4.value    AS cpuset
			FROM pg_resgroup g
				JOIN pg_resgroupcapability t1 ON g.oid = t1.resgroupid AND t1.reslimittype = 1
				JOIN pg_resgroupcapability t2 ON g.oid = t2.resgroupid AND t2.reslimittype = 2
				JOIN pg_resgroupcapability t3 ON g.oid = t3.resgroupid AND t3.reslimittype = 3
				LEFT JOIN pg_resgroupcapability t4 ON g.oid = t4.resgroupid AND t4.reslimittype = 4''))"

definition GetResourceGroups :: "'a acl_env_scheme \<Rightarrow> (string \<Rightarrow> 'r list res) \<Rightarrow> 'r list res" where
  "GetResourceGroups env select = rbind (resource_groups_query env) (must_select select)"

section \<open>Roles\<close>

definition getTimeConstraintsByRole :: "(string \<Rightarrow> TimeConstraint list res) \<Rightarrow> (32 word, TimeConstraint list) gomap res" where
  "getTimeConstraintsByRole select = rbind (must_select select (''
	SELECT authid AS oid,
		start_day AS startday,
		start_time::text AS starttime,
		end_day AS endday,
		end_time::text AS endtime
	FROM pg_auth_time_constraint'')) (\<lambda>rows. Inr (group_by tc_Oid id rows))"

definition roles_query :: "'a acl_env_scheme \<Rightarrow> string res" where
  "roles_query env =
     rbind (src_at_least env ''5'') (\<lambda>at5.
     rbind (src_at_least env ''6'') (\<lambda>at6.
     rbind (src_at_least env ''7'') (\<lambda>at7.
       let resgroupQuery = text_if at5 ''(SELECT quote_ident(rsgname) FROM pg_resgroup WHERE pg_resgroup.oid = rolresgroup) AS resgroup,'';
           replicationQuery = text_if at6 ''rolreplication,'';
           readExtHdfs = text_if (\<not> at6) ''rolcreaterexthdfs,'';
           writeExtHdfs = text_if (\<not> at6) ''rolcreatewexthdfs,'';
           whereClause = text_if at7 (concat [''
	WHERE rolname !~ '^pg_'', [SQ]])
       in Inr ((concat [''
	SELECT oid,
		quote_ident(rolname) AS name,
		rolsuper,
		rolinherit,
		rolcreaterole,
		rolcreatedb,
		rolcanlogin,
		'', replicationQuery, ''
		rolconnlimit,
		coalesce(rolpassword, '', [SQ, SQ], '') AS password,
		CASE
			WHEN (rolvaliduntil = 'infinity'::timestamp OR rolvaliduntil = '-infinity'::timestamp)
			THEN timezone('UTC', rolvaliduntil)::text
			ELSE coalesce(timezone('UTC', rolvaliduntil)::text || '-00', '', [SQ, SQ], '')
		END AS validuntil,
		(SELECT quote_ident(rsqname) FROM pg_resqueue WHERE pg_resqueue.oid = rolresqueue) AS resqueue,
		'', resgroupQuery, ''
		rolcreaterexthttp,
		'', readExtHdfs, ''
		'', writeExtHdfs, ''
		rolcreaterextgpfd,
		rolcreatewextgpfd
	FROM pg_authid'']) @ whereClause))))"

definition GetRoles :: "'a acl_env_scheme \<Rightarrow> (string \<Rightarrow> Role list res) \<Rightarrow> (string \<Rightarrow> TimeConstraint list res) \<Rightarrow> Role list res" where
  "GetRoles env select select_times =
     rbind (roles_query env) (\<lambda>query.
     rbind (must_select select query) (\<lambda>roles.
     rbind (getTimeConstraintsByRole select_times) (\<lambda>times.
       Inr (map (\<lambda>r. r\<lparr>ro_TimeConstraints := go_get0 [] times (ro_Oid r)\<rparr>) roles))))"

definition GetRoleGUCs :: "'a acl_env_scheme \<Rightarrow> (string \<Rightarrow> RoleGUC list res) \<Rightarrow> (string, RoleGUC list) gomap res" where
  "GetRoleGUCs env select =
     rbind (src_at_least env ''6'') (\<lambda>at6.
     rbind (src_at_least env ''7'') (\<lambda>at7.
       let sel = concat [''
	SELECT rolename,
		dbname,
		CASE
			WHEN option_name='search_path' OR option_name = 'DateStyle'
			THEN ('SET ' || option_name || ' TO ' || option_value)
			ELSE ('SET ' || option_name || ' TO '', [SQ, SQ, SQ], '' || option_value || '', [SQ, SQ, SQ, SQ], '')
		END AS config''];
           gucsForDBQuery = text_if at6 (''UNION
	SELECT quote_ident(r.rolname) AS rolename,
		quote_ident(d.datname) AS dbname,
		(pg_options_to_table(setconfig)).option_name,
		(pg_options_to_table(setconfig)).option_value
	FROM pg_db_role_setting pgdb
		JOIN pg_database d ON pgdb.setdatabase = d.oid
		JOIN pg_roles r ON pgdb.setrole = r.oid '');
           frm = concat [''
	FROM ( SELECT quote_ident(rolname) AS rolename,
			'', [SQ, SQ], '' AS dbname,
			(pg_options_to_table(rolconfig)).option_name,
			(pg_options_to_table(rolconfig)).option_value
			FROM pg_roles '', gucsForDBQuery, '') AS options''];
           whereClause = text_if at7 (concat [''
	WHERE rolename !~ '^pg_'', [SQ]])
       in rbind (must_select select (sel @ frm @ whereClause)) (\<lambda>rows. Inr (group_by gu_RoleName id rows))))"

definition GetRoleMembers :: "'a acl_env_scheme \<Rightarrow> (string \<Rightarrow> RoleMember list res) \<Rightarrow> RoleMember list res" where
  "GetRoleMembers env select =
     rbind (src_at_least env ''5'') (\<lambda>at5.
     rbind (src_at_least env ''7'') (\<lambda>at7.
       let caseClause = (if at5
             then concat [''
		WHEN pg_get_userbyid(pga.grantor) like 'unknown (OID='||pga.grantor::regclass||')'
		THEN '', [SQ, SQ], '' ELSE quote_ident(pg_get_userbyid(pga.grantor))'']
             else concat [''
		WHEN pg_get_userbyid(pga.grantor) like 'unknown (OID='||pga.grantor||')'
		THEN '', [SQ, SQ], '' ELSE quote_ident(pg_get_userbyid(pga.grantor))'']);
           whereClause = text_if at7 (concat [''WHERE roleid >= '', FIRST_NORMAL_OBJECT_ID])
       in must_select select (concat [''
	SELECT quote_ident(pg_get_userbyid(pga.roleid)) AS role,
		quote_ident(pg_get_userbyid(pga.member)) AS member,
		CASE '', caseClause, ''
		END AS grantor,
		admin_option AS isadmin
	FROM pg_auth_members pga
	'', whereClause, ''
	ORDER BY roleid, member''])))"

section \<open>Tablespaces\<close>

definition GetSegmentTablespaces :: "(string \<Rightarrow> string list res) \<Rightarrow> 32 word \<Rightarrow> string list res" where
  "GetSegmentTablespaces select oid = must_select select (concat [''
	SELECT 'content'::text || gp_segment_id::text || '='', [SQ, SQ, SQ], '' || tblspc_loc || '', [SQ, SQ, SQ, SQ], '' AS string
	FROM gp_tablespace_segment_location('', oid_text oid, '')
	WHERE tblspc_loc != pg_tablespace_location('', oid_text oid, '')
	ORDER BY gp_segment_id;''])"

fun with_segment_locations :: "(32 word \<Rightarrow> string list res) \<Rightarrow> Tablespace list \<Rightarrow> Tablespace list res" where
  "with_segment_locations locations [] = Inr []"
| "with_segment_locations locations (t # ts) =
     rbind (locations (tbs_Oid t)) (\<lambda>l. rbind (with_segment_locations locations ts) (\<lambda>ts. Inr (t\<lparr>tbs_SegmentLocations := Some l\<rparr> # ts)))"

text \<open>A failed query leaves no rows, so the error is reported after a loop that does nothing.\<close>

definition GetTablespaces :: "'a acl_env_scheme \<Rightarrow> (string \<Rightarrow> Tablespace list res) \<Rightarrow> (string \<Rightarrow> string list res) \<Rightarrow> Tablespace list res" where
  "GetTablespaces env select select_strings =
     rbind (src_old env ''6'') (\<lambda>old6.
       if old6 then must_select select (concat [''
	SELECT t.oid,
		quote_ident(t.spcname) AS tablespace,
		quote_ident(f.fsname) AS filelocation
	FROM pg_tablespace t
		JOIN pg_filespace f ON t.spcfsoid = f.oid
	WHERE spcname != 'pg_default'
		AND spcname != 'pg_global'', [SQ]])
       else rbind (must_select select (concat [''
	SELECT oid,
		quote_ident(spcname) AS tablespace,
		'', [SQ, SQ, SQ, SQ], '' || pg_catalog.pg_tablespace_location(oid)::text || '', [SQ, SQ, SQ, SQ], '' AS filelocation,
		coalesce(array_to_string(spcoptions, ', '), '', [SQ, SQ], '') AS options
	FROM pg_tablespace
	WHERE spcname != 'pg_default'
		AND spcname != 'pg_global'', [SQ]])) (with_segment_locations (GetSegmentTablespaces select_strings)))"

end
