(* ===== verification/Spec2Isabelle.thy ===== *)
theory Spec2Isabelle
  imports Migration Dependencies Pairing CopyManager Restore Application Validator Extract QueryFunctions QueryTypes QueryRelations QueryPostdata QueryGlobals
begin

text \<open>
  cbcopy copies databases between two Greenplum or Cloudberry clusters. This development models
  its own logic, file by file, as executable definitions with the names of the source, and proves
  what makes each part correct. All paths below are under \<open>src/\<close>.

  \<^bold>\<open>The program.\<close> \<open>copy.Application\<close> checks the flags (\<open>copy_validator.go\<close>), builds the option
  (\<open>option/option.go\<close>) and visits the databases one after the other. For each one the query wrapper
  decides which tables are copied and where to; the metadata manager has the definitions extracted
  from the source, written to a file with a table of contents, and restored on the destination by a
  pool of workers in an order that respects their dependencies; a table whose definition has been
  restored is sent as a pair of source and destination table over a channel to the copy manager.
  Its workers copy the pairs: a strategy chosen by size and cluster shape builds the two COPY
  commands, which run at the same time and are connected by helper programs on the segments; the
  helper listens on a port of a range, registers the port in a table and serves one client per
  command. Everything that fails is counted and written to files.

  \<^bold>\<open>Theories.\<close>
  \<^item> \<open>Prelude\<close>: outcomes of Go code (a value, an error, a fatal error or a panic), Go maps as association
    lists with the order of a \<open>range\<close> loop as an argument, and the locales \<open>machine\<close> (reachable states
    and invariants) and \<open>refinement\<close> (one machine implements another).
  \<^item> \<open>Gostrings\<close>: the functions of \<open>strings\<close> and \<open>strconv\<close> the sources use.
  \<^item> \<open>Readers\<close>: \<open>internal/reader\<close>, which cuts the data stream at line ends.
  \<^item> \<open>Dependencies\<close>: \<open>meta/builtin/dependencies.go\<close>, sorting objects so that each comes after what it
    needs.
  \<^item> \<open>Options\<close>: \<open>option/option.go\<close> and the helpers for flags and files; \<open>Validator\<close>:
    \<open>copy/copy_validator.go\<close>.
  \<^item> \<open>Dbconn\<close>, \<open>Version\<close>: \<open>internal/dbconn\<close>, transactions per connection and server versions.
  \<^item> \<open>Strategy\<close>, \<open>Pairing\<close>: \<open>copy/copy_command.go\<close> and \<open>copy_port_helper.go\<close>, the COPY commands and which
    segment talks to which.
  \<^item> \<open>Helper\<close>: the helper program with its ports, connections and files.
  \<^item> \<open>CopyManager\<close>: \<open>copy/copy_operation.go\<close> and \<open>copy_manager.go\<close>, one copy and the pool of workers.
  \<^item> \<open>Toc\<close>: \<open>meta/builtin/toc\<close>, \<open>utils/set.go\<close> and the metadata file.
  \<^item> \<open>Restore\<close>: \<open>meta/builtin/builtin.go\<close>, \<open>restore_helper.go\<close>, \<open>parallel.go\<close> and \<open>parallel_depend.go\<close>, the
    restore and its scheduler.
  \<^item> \<open>Quoting\<close>, \<open>Acl\<close>: names and literals in SQL text, and \<open>meta/builtin/predata_acl.go\<close> with owners,
    privileges and comments of objects.
  \<^item> \<open>Printing\<close>: the class identifiers of \<open>dependencies.go\<close>, what every printer reads (\<open>print_env\<close>) and the
    locale \<open>printer\<close>, the contract of a printer: it writes a block of statements of one section, all about
    its object. \<open>PrintFunctions\<close>, \<open>PrintTypes\<close>, \<open>PrintOperators\<close>, \<open>PrintRelations\<close>, \<open>PrintPostdata\<close>,
    \<open>PrintGlobals\<close>, \<open>PrintStatistics\<close>: the rows of \<open>queries_*.go\<close> as records and the printers of
    \<open>predata_*.go\<close>, \<open>postdata.go\<close>, \<open>metadata_globals.go\<close> and \<open>statistics.go\<close>; each interprets \<open>printer\<close>.
  \<^item> \<open>Queries\<close>, \<open>QueryFunctions\<close>, \<open>QueryTypes\<close>, \<open>QueryTables\<close>, \<open>QueryRelations\<close>, \<open>QueryPostdata\<close>,
    \<open>QueryGlobals\<close>: the catalog queries of \<open>queries_*.go\<close>, their texts chosen by the server version, and
    what is done with the rows. \<open>Indexes\<close>, \<open>IndexKeys\<close>: the order of the indexes and the partition keys
    added to unique ones (\<open>queries_postdata.go\<close>).
  \<^item> \<open>Extract\<close>: \<open>meta/builtin/extract_helper.go\<close> and its callers in \<open>builtin.go\<close>, which collect the objects,
    sort them by their dependencies and print them.
  \<^item> \<open>Migration\<close>: \<open>BuiltinMeta\<close> of \<open>meta/builtin/builtin.go\<close>, one database from the extraction to the end of the
    postdata restore, with \<open>ExecuteStatements\<close> of \<open>parallel.go\<close>.
  \<^item> \<open>SkipExisting\<close>: \<open>meta/builtin/skip_existing.go\<close> and the pair filter of \<open>copy/copy_metadata.go\<close>.
  \<^item> \<open>QueryWrapper\<close>: \<open>copy/copy_query_wrapper.go\<close>; \<open>Application\<close>: \<open>copy/copy_metadata.go\<close> and the loop of
    \<open>copy/copy.go\<close>.

  \<^bold>\<open>State and effects.\<close> A struct is a record and a method a function that returns the changed record.
  Code that returns an error, calls \<open>gplog.Fatal\<close> or panics yields a value of the sum type \<open>res\<close>. The
  database server, the flag set, files, ports and processes are parameters: functions or records of
  functions given to the definitions (a query is the text that is sent, and the server a function
  from texts to rows or an error), with the few laws the proofs need as named hypotheses
  (\<open>range_law\<close> of the version package, \<open>unset_is_empty\<close> of the flag package), each shown to be
  satisfiable by a witness. What a goroutine
  has done when the program goes on without waiting for it is such a parameter too (\<open>part_done\<close> of
  \<open>circumstances\<close>). The concurrent parts are step relations: the pool of copy workers
  (\<open>worker\<close>), the statement scheduler (\<open>restore_step\<close>), the workers of the postdata (\<open>pool_step\<close>) and the
  helper's accept loop; their invariants hold for every interleaving. Each is an interpretation of \<open>machine\<close>, and the scheduler without
  object numbers is shown to implement a sequential restore through \<open>refinement\<close>.

  \<^bold>\<open>What is proved.\<close> Sorting gives every object once and after its dependencies. Every table of the
  table map whose names hold no dot reaches the workers exactly once whatever the interleaving; statements wait for the
  statements they depend on; the restore ends and has executed every statement of the metadata file
  once, the predata in the order of the file and the postdata batch by batch. The commands of the two sides match: each source
  segment is read by exactly one destination segment. A copy that succeeds has run both commands
  and compared the row counts; every started transaction is ended, and a failed copy is rolled back when its listener was waited for;
  the three result files and the report agree. The two filters of \<open>--skip-existing\<close> fit together where destination names are translated by the option.
  Statements written to the metadata file are read back unchanged, and those of the dependent objects
  stand in an order in which every object follows what it needs, which the restore keeps for all but
  types. A table gets exactly the columns
  and locations the queries return for it, an index comes after its parent, and a unique index of a
  partitioned table gets exactly its missing partition keys. Flags that pass the validators
  give a consistent option, apart from source schemas without destination schemas. Several theorems show where the code does not do what it means to; they
  are the ones about errors and are listed as findings in the manifest.

  \<^bold>\<open>Bounds.\<close> The wait for helper ports polls at most 1000 times, as the code does (\<open>maxRetries\<close>); the way
  up a partition tree has 16 steps (\<open>walkToRoot\<close>). A reader's loop has the length of its input as
  fuel, which is enough because each round takes at least one byte. All other loops are recursion
  on lists. Integers are unbounded where the code only counts or compares them; object numbers are
  32-bit words, and \<open>ParseInt\<close> checks the 64-bit range.

  \<^bold>\<open>Not modelled.\<close> What the server answers to a catalog query: the meaning of its text is the server's.
  The extraction takes the answers as the record \<open>catalog\<close>, a parameter. How Go prints a
  floating point number and reads one back are functions of \<open>print_env\<close>. Four functions that nothing
  calls (\<open>PrintStatementsEx\<close>, \<open>PrintObjectMetadataEx\<close>, \<open>backupCreateSequences\<close>,
  \<open>backupTableStatistics\<close>). Logging, progress bars, signal handling, the connection set-up, remote
  execution (\<open>internal/cluster\<close>) and the compression libraries are input and output or code of others.
\<close>

section \<open>From the command line to the channel\<close>

text \<open>
  Claim C26. In a run with flags that pass the validators, the channel of table pairs of every
  database is closed exactly once: the copy manager closes it exactly when the metadata manager
  did not hand it to the restorer, which closes it at the end of the predata. Closing it twice
  would panic, and never closing it would leave the workers waiting for ever.
\<close>

theorem channel_closed_once:
  assumes "ValidateAll open_file fl = Inr ()" and "unset_is_empty fl" and "NewOption open_file fl = Inr opt"
    and "doCopy rng fl manage src dest opt = Inr s" and "r \<in> set (runs s)"
  shows "manager_closes fl opt = Inr (\<not> restorer_closes (migrated r))"
proof -
  have "mode_fits fl opt"
    using validated_dest_tables[OF assms(1-3)] validated_metadata_only[OF assms(1-3)] NewOption_mode[OF assms(3)]
    by (auto simp: mode_fits_def)
  from doCopy_channel[OF assms(4) this] assms(5) show ?thesis by (auto simp: closed_once_def list_all_iff)
qed

definition demo_pair_db :: "string \<Rightarrow> database" where
  "demo_pair_db n = \<lparr>dbname = n,
     sel_user_tables = Inr [mkTable ''s'' ''t'', mkTable ''s'' ''u'', mkTable ''d'' ''t'', mkTable ''d'' ''u''],
     sel_part_leaves = Inr [], sel_non_physical = Inr [], sel_schema_count = (\<lambda>_. Inr 1), sel_databases = Inr [''db'']\<rparr>"

definition demo_pair_run :: "app_state res" where
  "demo_pair_run = doCopy id demo_valid_flags (demo_pair_db ''db'') demo_pair_db demo_pair_db
     (projr (NewOption (\<lambda>_. Inr []) demo_valid_flags))"

lemma demo_pair_run_ok: "\<not> isl demo_pair_run" "length (runs (projr demo_pair_run)) = 1"
  by code_simp+

theorem channel_closed_once_witness:
  "manager_closes demo_valid_flags (projr (NewOption (\<lambda>_. Inr []) demo_valid_flags)) =
     Inr (\<not> restorer_closes (migrated (hd (runs (projr demo_pair_run)))))"
proof (rule channel_closed_once[OF demo_valid])
  show "unset_is_empty demo_valid_flags" by (simp add: unset_is_empty_def demo_valid_flags_def)
  show "NewOption (\<lambda>_. Inr []) demo_valid_flags = Inr (projr (NewOption (\<lambda>_. Inr []) demo_valid_flags))"
    using demo_valid_option by auto
  show "doCopy id demo_valid_flags (demo_pair_db ''db'') demo_pair_db demo_pair_db
      (projr (NewOption (\<lambda>_. Inr []) demo_valid_flags)) = Inr (projr demo_pair_run)"
    using demo_pair_run_ok(1) unfolding demo_pair_run_def by (metis sum.collapse(2))
  show "hd (runs (projr demo_pair_run)) \<in> set (runs (projr demo_pair_run))"
    using demo_pair_run_ok(2) by (metis hd_in_set list.size(3) zero_neq_one)
qed

end
